(* ===== verification/Prelude.thy ===== *)
theory Prelude imports Main begin

text \<open>
  Shared vocabulary of the development: gRPC status values, signed 32-bit arithmetic,
  decimal printing and parsing, and the iteration order of hash maps, with the generic
  lemmas every component uses.

  Rust \<open>String\<close>s are UTF-8 byte sequences; a HOL \<^typ>\<open>string\<close> is a list of 8-bit
  characters, so \<open>length\<close> is the code's \<open>len()\<close> and a character is one byte.
\<close>

named_theorems store_defs \<open>definitions of the store's operations\<close>
named_theorems handler_defs \<open>definitions of the request handlers\<close>

section \<open>Status values and results\<close>

text \<open>The gRPC codes the program produces or inspects (tonic's \<open>Code\<close>).\<close>

datatype grpc_code =
  InvalidArgument | NotFound | AlreadyExists | PermissionDenied
| Internal | Unavailable | DataLoss | OtherCode nat

datatype status = Status (st_code: grpc_code) (st_message: string)

type_synonym 'a rpc = "status + 'a"

text \<open>\<open>Result::is_ok\<close> and \<open>Option::ok_or_else\<close>.\<close>

definition is_ok :: "'e + 'a \<Rightarrow> bool" where
  "is_ok r = (case r of Inl _ \<Rightarrow> False | Inr _ \<Rightarrow> True)"

definition ok_or :: "'a option \<Rightarrow> 'e \<Rightarrow> 'e + 'a" where
  "ok_or x e = (case x of None \<Rightarrow> Inl e | Some v \<Rightarrow> Inr v)"

lemma is_ok_simps [simp]: "is_ok (Inr x)" "\<not> is_ok (Inl e)"
  by (simp_all add: is_ok_def)

lemma is_ok_iff: "is_ok r \<longleftrightarrow> (\<exists>x. r = Inr x)"
  by (cases r) simp_all

lemma ok_or_simps [simp]: "ok_or None e = Inl e" "ok_or (Some v) e = Inr v"
  by (simp_all add: ok_or_def)

text \<open>\<open>r?\<close> followed by \<open>f\<close> on pure results.\<close>

definition rbind :: "'e + 'a \<Rightarrow> ('a \<Rightarrow> 'e + 'b) \<Rightarrow> 'e + 'b" where
  "rbind r f = (case r of Inl e \<Rightarrow> Inl e | Inr x \<Rightarrow> f x)"

lemma rbind_simps [simp]: "rbind (Inl e) f = Inl e" "rbind (Inr x) f = f x"
  by (simp_all add: rbind_def)

lemma rbind_eq_Inr: "rbind r f = Inr y \<longleftrightarrow> (\<exists>x. r = Inr x \<and> f x = Inr y)"
  by (cases r) simp_all

lemma rbind_eq_Inl: "rbind r f = Inl e \<longleftrightarrow> r = Inl e \<or> (\<exists>x. r = Inr x \<and> f x = Inl e)"
  by (cases r) simp_all

lemma ok_or_eq: "ok_or x e = Inr v \<longleftrightarrow> x = Some v" "ok_or x e = Inl d \<longleftrightarrow> x = None \<and> d = e"
  by (cases x; auto simp: ok_or_def)+

text \<open>Collecting a list of results stops at the first error, as
  \<open>collect::<Result<Vec<_>, _>>()\<close> does.\<close>

fun collect_results :: "('e + 'a) list \<Rightarrow> 'e + 'a list" where
  "collect_results [] = Inr []"
| "collect_results (r # rs) =
     (case r of Inl e \<Rightarrow> Inl e
      | Inr x \<Rightarrow> (case collect_results rs of Inl e \<Rightarrow> Inl e | Inr xs \<Rightarrow> Inr (x # xs)))"

lemma collect_results_Inr:
  "collect_results rs = Inr xs \<longleftrightarrow> rs = map Inr xs"
proof (induction rs arbitrary: xs)
  case Nil
  then show ?case by auto
next
  case (Cons r rs)
  have "collect_results (r # rs) = Inr xs \<longleftrightarrow>
        (\<exists>y ys. r = Inr y \<and> collect_results rs = Inr ys \<and> xs = y # ys)"
    by (auto split: sum.splits)
  then show ?case using Cons by (auto simp: Cons_eq_map_conv)
qed

text \<open>State-and-error sequencing: \<open>m?\<close> followed by \<open>f\<close>. An error keeps the state the
  failing call left behind.\<close>

type_synonym ('s, 'e, 'a) op = "'s \<Rightarrow> ('e + 'a) \<times> 's"

definition sret :: "'a \<Rightarrow> ('s, 'e, 'a) op" where
  "sret x s = (Inr x, s)"

definition sfail :: "'e \<Rightarrow> ('s, 'e, 'a) op" where
  "sfail e s = (Inl e, s)"

definition sbind :: "('s, 'e, 'a) op \<Rightarrow> ('a \<Rightarrow> ('s, 'e, 'b) op) \<Rightarrow> ('s, 'e, 'b) op" where
  "sbind m f s = (case m s of (Inl e, s') \<Rightarrow> (Inl e, s') | (Inr x, s') \<Rightarrow> f x s')"

text \<open>\<open>map_err\<close> on the result of a stateful call.\<close>

definition smap_err :: "('e \<Rightarrow> 'f) \<Rightarrow> ('s, 'e, 'a) op \<Rightarrow> ('s, 'f, 'a) op" where
  "smap_err g m s = (case m s of (Inl e, s') \<Rightarrow> (Inl (g e), s') | (Inr x, s') \<Rightarrow> (Inr x, s'))"

text \<open>\<open>r?\<close> on a pure result inside a stateful computation.\<close>

definition slift :: "'e + 'a \<Rightarrow> ('s, 'e, 'a) op" where
  "slift r s = (r, s)"

text \<open>A computation that reads the state first.\<close>

definition swith :: "('s \<Rightarrow> ('s, 'e, 'a) op) \<Rightarrow> ('s, 'e, 'a) op" where
  "swith f s = f s s"

lemma swith_apply [simp]: "swith f s = f s s"
  by (simp add: swith_def)

lemma sret_apply [simp]: "sret x s = (Inr x, s)"
  by (simp add: sret_def)

lemma sfail_apply [simp]: "sfail e s = (Inl e, s)"
  by (simp add: sfail_def)

lemma slift_apply [simp]: "slift r s = (r, s)"
  by (simp add: slift_def)

lemma sbind_Inr [simp]: "m s = (Inr x, s') \<Longrightarrow> sbind m f s = f x s'"
  by (simp add: sbind_def)

lemma sbind_Inl [simp]: "m s = (Inl e, s') \<Longrightarrow> sbind m f s = (Inl e, s')"
  by (simp add: sbind_def)

lemma smap_err_simps [simp]:
  "m s = (Inr x, s') \<Longrightarrow> smap_err g m s = (Inr x, s')"
  "m s = (Inl e, s') \<Longrightarrow> smap_err g m s = (Inl (g e), s')"
  by (simp_all add: smap_err_def)

lemma sbind_assoc: "sbind (sbind f g) k = sbind f (\<lambda>x. sbind (g x) k)"
  by (rule ext) (simp add: sbind_def split: prod.splits sum.splits)

lemma sbind_known: "sbind (sret x) k = k x" "sbind (sfail e) k = sfail e"
  by (rule ext, simp)+

lemma sbind_eq_Inr:
  "sbind m f s = (Inr y, s') \<longleftrightarrow> (\<exists>x s1. m s = (Inr x, s1) \<and> f x s1 = (Inr y, s'))"
  by (auto simp: sbind_def split: prod.splits sum.splits)

lemma sbind_eq_Inl:
  "sbind m f s = (Inl e, s') \<longleftrightarrow>
     m s = (Inl e, s') \<or> (\<exists>x s1. m s = (Inr x, s1) \<and> f x s1 = (Inl e, s'))"
  by (auto simp: sbind_def split: prod.splits sum.splits)

lemma smap_err_eq_Inr: "smap_err g m s = (Inr x, s') \<longleftrightarrow> m s = (Inr x, s')"
  by (auto simp: smap_err_def split: prod.splits sum.splits)

lemma smap_err_eq_Inl: "smap_err g m s = (Inl e, s') \<longleftrightarrow> (\<exists>d. e = g d \<and> m s = (Inl d, s'))"
  by (auto simp: smap_err_def split: prod.splits sum.splits)

lemmas op_inversion = sbind_eq_Inr sbind_eq_Inl smap_err_eq_Inr smap_err_eq_Inl

text \<open>
  What every run of a computation keeps: from a good state it ends in a good state, related to the
  one it started in. \<open>step_rel\<close> is the contract of such a relation: it is reflexive on good
  states and transitive, so computations built from keeping ones keep it too.
\<close>

definition op_keeps :: "('s \<Rightarrow> bool) \<Rightarrow> ('s \<Rightarrow> 's \<Rightarrow> bool) \<Rightarrow> ('s, 'e, 'a) op \<Rightarrow> bool" where
  "op_keeps good rel f \<longleftrightarrow> (\<forall>s r s'. good s \<longrightarrow> f s = (r, s') \<longrightarrow> good s' \<and> rel s s')"

lemma op_keepsI:
  "(\<And>s r s'. good s \<Longrightarrow> f s = (r, s') \<Longrightarrow> good s' \<and> rel s s') \<Longrightarrow> op_keeps good rel f"
  unfolding op_keeps_def by blast

lemma op_keepsD: "op_keeps good rel f \<Longrightarrow> good s \<Longrightarrow> f s = (r, s') \<Longrightarrow> good s' \<and> rel s s'"
  unfolding op_keeps_def by blast

text \<open>On good states a computation may be replaced by an equal one.\<close>

lemma op_keeps_eq:
  assumes "\<And>s. good s \<Longrightarrow> f s = g s" and "op_keeps good rel g"
  shows "op_keeps good rel f"
proof (rule op_keepsI)
  fix s r s' assume s: "good s" "f s = (r, s')"
  then have "g s = (r, s')" using assms(1)[of s] by simp
  from op_keepsD[OF assms(2) s(1) this] show "good s' \<and> rel s s'" .
qed

locale step_rel =
  fixes good :: "'s \<Rightarrow> bool" and rel :: "'s \<Rightarrow> 's \<Rightarrow> bool"
  assumes rel_refl: "good s \<Longrightarrow> rel s s"
    and rel_trans: "rel a b \<Longrightarrow> rel b c \<Longrightarrow> rel a c"
begin

lemma keeps_pure:
  "op_keeps good rel (sret x)" "op_keeps good rel (sfail e)" "op_keeps good rel (slift res)"
  by (auto simp: op_keeps_def rel_refl)

lemma keeps_sbind:
  assumes "op_keeps good rel f" "\<And>x. op_keeps good rel (h x)"
  shows "op_keeps good rel (sbind f h)"
proof (rule op_keepsI)
  fix s r s' assume s: "good s" and run: "sbind f h s = (r, s')"
  obtain r1 s1 where f: "f s = (r1, s1)" by fastforce
  note one = op_keepsD[OF assms(1) s f]
  show "good s' \<and> rel s s'"
  proof (cases r1)
    case (Inl e)
    with run f one show ?thesis by simp
  next
    case (Inr x)
    with run f have "h x s1 = (r, s')" by simp
    from op_keepsD[OF assms(2) _ this] one show ?thesis using rel_trans by blast
  qed
qed

lemma keeps_smap_err: "op_keeps good rel f \<Longrightarrow> op_keeps good rel (smap_err g f)"
  unfolding op_keeps_def smap_err_def by (fastforce split: prod.splits sum.splits)

lemma keeps_cases:
  "op_keeps good rel fn \<Longrightarrow> (\<And>x. op_keeps good rel (fs x)) \<Longrightarrow>
     op_keeps good rel (case opt of None \<Rightarrow> fn | Some x \<Rightarrow> fs x)"
  "(\<And>e. op_keeps good rel (fl e)) \<Longrightarrow> (\<And>x. op_keeps good rel (fr x)) \<Longrightarrow>
     op_keeps good rel (case rs of Inl e \<Rightarrow> fl e | Inr x \<Rightarrow> fr x)"
  "(\<And>a b. op_keeps good rel (fp a b)) \<Longrightarrow> op_keeps good rel (case pr of (a, b) \<Rightarrow> fp a b)"
  "op_keeps good rel fa \<Longrightarrow> op_keeps good rel fb \<Longrightarrow> op_keeps good rel (if cnd then fa else fb)"
  by (auto split: option.splits sum.splits prod.splits)

lemma keeps_swith: "(\<And>s. op_keeps good rel (f s)) \<Longrightarrow> op_keeps good rel (swith f)"
  unfolding op_keeps_def swith_def by blast

lemmas keeps_rules = keeps_pure keeps_sbind keeps_smap_err keeps_cases keeps_swith

end

section \<open>Errors of the standard library\<close>

text \<open>\<open>io::ErrorKind\<close>, as far as the program makes or tests it.\<close>

datatype io_kind = KInvalidInput | KNotFound | KAlreadyExists | KPermissionDenied | KInvalidData | KBrokenPipe | KOther

datatype io_error = IoError (io_kind: io_kind) (io_text: string)

section \<open>Signed 32-bit arithmetic\<close>

text \<open>
  The released binaries are built in release mode, where \<open>i32\<close> additions and
  subtractions wrap. Values are \<^typ>\<open>int\<close>; \<open>wrap32\<close> is the wrap-around.
\<close>

definition wrap32 :: "int \<Rightarrow> int" where
  "wrap32 x = (x + 2147483648) mod 4294967296 - 2147483648"

definition in_i32 :: "int \<Rightarrow> bool" where
  "in_i32 x \<longleftrightarrow> - 2147483648 \<le> x \<and> x \<le> 2147483647"

definition i32_add :: "int \<Rightarrow> int \<Rightarrow> int" where
  "i32_add a b = wrap32 (a + b)"

definition i32_sub :: "int \<Rightarrow> int \<Rightarrow> int" where
  "i32_sub a b = wrap32 (a - b)"

lemma wrap32_in_i32 [simp]: "in_i32 (wrap32 x)"
  by (simp add: wrap32_def in_i32_def)

lemma wrap32_id: "in_i32 x \<Longrightarrow> wrap32 x = x"
  by (simp add: wrap32_def in_i32_def)

lemma wrap32_0 [simp]: "wrap32 0 = 0"
  by (simp add: wrap32_def)

lemma wrap32_cong: "(a mod 4294967296 = b mod 4294967296) \<longleftrightarrow> wrap32 a = wrap32 b"
proof -
  have "(a mod 4294967296 = b mod 4294967296) \<longleftrightarrow>
        ((a + 2147483648) mod 4294967296 = (b + 2147483648) mod (4294967296::int))"
    by (simp add: mod_eq_dvd_iff)
  then show ?thesis by (simp add: wrap32_def)
qed

lemma wrap32_add_left [simp]: "wrap32 (wrap32 a + b) = wrap32 (a + b)"
proof -
  have "(wrap32 a + b) mod 4294967296 = (a + b) mod 4294967296"
    using mod_add_left_eq[of "a + 2147483648" 4294967296 "b - 2147483648"]
    by (simp add: wrap32_def algebra_simps)
  then show ?thesis by (simp add: wrap32_cong)
qed

lemma wrap32_sub_left [simp]: "wrap32 (wrap32 a - b) = wrap32 (a - b)"
  using wrap32_add_left[of a "- b"] by simp

lemma wrap32_add_right [simp]: "wrap32 (a + wrap32 b) = wrap32 (a + b)"
  using wrap32_add_left[of b a] by (simp add: add.commute)

lemma wrap32_idem [simp]: "wrap32 (wrap32 a) = wrap32 a"
  using wrap32_add_left[of a 0] by simp

lemma wrap32_sub_right [simp]: "wrap32 (a - wrap32 b) = wrap32 (a - b)"
proof -
  have "(a - wrap32 b) mod 4294967296 = (a - b) mod 4294967296"
    using mod_diff_right_eq[of "a + 2147483648" "b + 2147483648" 4294967296]
    by (simp add: wrap32_def algebra_simps)
  then show ?thesis by (simp add: wrap32_cong)
qed

section \<open>Decimal numbers\<close>

definition digit_char :: "nat \<Rightarrow> char" where
  "digit_char d = char_of (48 + d)"

fun show_nat :: "nat \<Rightarrow> string" where
  "show_nat n = (if n < 10 then [digit_char n] else show_nat (n div 10) @ [digit_char (n mod 10)])"

declare show_nat.simps [simp del]

definition show_int :: "int \<Rightarrow> string" where
  "show_int i = (if i < 0 then ''-'' @ show_nat (nat (- i)) else show_nat (nat i))"

definition digit_val :: "char \<Rightarrow> nat option" where
  "digit_val c = (if 48 \<le> (of_char c :: nat) \<and> (of_char c :: nat) \<le> 57
                  then Some (of_char c - 48) else None)"

fun digits_val :: "nat \<Rightarrow> string \<Rightarrow> nat option" where
  "digits_val acc [] = Some acc"
| "digits_val acc (c # cs) =
     (case digit_val c of None \<Rightarrow> None | Some d \<Rightarrow> digits_val (10 * acc + d) cs)"

text \<open>\<open>str::parse\<close> for an unsigned type with largest value \<open>mx\<close>: an optional leading
  plus sign, then at least one digit, no overflow.\<close>

definition parse_unsigned :: "nat \<Rightarrow> string \<Rightarrow> nat option" where
  "parse_unsigned mx s =
     (let ds = (case s of c # cs \<Rightarrow> if c = CHR ''+'' then cs else s | [] \<Rightarrow> [])
      in if ds = [] then None
         else case digits_val 0 ds of None \<Rightarrow> None | Some n \<Rightarrow> if n \<le> mx then Some n else None)"

abbreviation parse_u8 :: "string \<Rightarrow> nat option" where
  "parse_u8 \<equiv> parse_unsigned 255"
abbreviation parse_u32 :: "string \<Rightarrow> nat option" where
  "parse_u32 \<equiv> parse_unsigned 4294967295"

lemma of_char_digit [simp]: "d < 10 \<Longrightarrow> (of_char (digit_char d) :: nat) = 48 + d"
  by (simp add: digit_char_def)

lemma digit_val_digit_char [simp]: "d < 10 \<Longrightarrow> digit_val (digit_char d) = Some d"
  by (simp add: digit_val_def)

lemma digits_val_append:
  "digits_val acc (xs @ ys) =
     (case digits_val acc xs of None \<Rightarrow> None | Some m \<Rightarrow> digits_val m ys)"
  by (induction xs arbitrary: acc) (auto split: option.splits)

lemma digits_val_show_nat: "digits_val 0 (show_nat n) = Some n"
proof (induction n rule: show_nat.induct)
  case (1 n)
  then show ?case
    by (subst show_nat.simps) (auto simp: digits_val_append)
qed

lemma show_nat_not_Nil [simp]: "show_nat n \<noteq> []"
  by (subst show_nat.simps) simp

definition is_digit_char :: "char \<Rightarrow> bool" where
  "is_digit_char c \<longleftrightarrow> digit_val c \<noteq> None"

lemma show_nat_digits: "c \<in> set (show_nat n) \<Longrightarrow> is_digit_char c"
proof (induction n arbitrary: c rule: show_nat.induct)
  case (1 n)
  show ?case
  proof (cases "n < 10")
    case True
    with "1.prems" show ?thesis by (subst (asm) show_nat.simps) (simp add: is_digit_char_def)
  next
    case False
    with "1.prems" consider "c \<in> set (show_nat (n div 10))" | "c = digit_char (n mod 10)"
      by (subst (asm) show_nat.simps) auto
    then show ?thesis
      by cases (use False "1.IH" in \<open>auto simp: is_digit_char_def\<close>)
  qed
qed

lemma show_nat_no_char: "\<not> is_digit_char c \<Longrightarrow> c \<notin> set (show_nat n)"
  using show_nat_digits by blast

lemma not_digit_chars [simp]:
  "\<not> is_digit_char CHR ''.''" "\<not> is_digit_char CHR ''/''" "\<not> is_digit_char CHR ''-''"
  "\<not> is_digit_char CHR ''+''" "\<not> is_digit_char CHR '':''" "\<not> is_digit_char CHR '' ''"
  by (simp_all add: is_digit_char_def digit_val_def)

lemma parse_show_nat: "n \<le> mx \<Longrightarrow> parse_unsigned mx (show_nat n) = Some n"
proof -
  assume "n \<le> mx"
  obtain c cs where s: "show_nat n = c # cs" by (cases "show_nat n") simp_all
  have "CHR ''+'' \<notin> set (show_nat n)" by (rule show_nat_no_char) simp
  with s have "c \<noteq> CHR ''+''" by auto
  with s have "parse_unsigned mx (show_nat n) =
      (case digits_val 0 (show_nat n) of None \<Rightarrow> None | Some n \<Rightarrow> if n \<le> mx then Some n else None)"
    by (simp only: parse_unsigned_def Let_def list.case if_False list.distinct)
  with \<open>n \<le> mx\<close> show ?thesis by (simp add: digits_val_show_nat)
qed

lemma show_nat_inj: "show_nat m = show_nat n \<Longrightarrow> m = n"
  by (metis digits_val_show_nat option.inject)

lemma parse_unsigned_le: "parse_unsigned mx s = Some n \<Longrightarrow> n \<le> mx"
  by (auto simp: parse_unsigned_def Let_def split: option.splits if_splits list.splits)

section \<open>Text\<close>

fun join :: "string \<Rightarrow> string list \<Rightarrow> string" where
  "join sep [] = []"
| "join sep [x] = x"
| "join sep (x # y # ys) = x @ sep @ join sep (y # ys)"

text \<open>\<open>str::split_once\<close> at the first occurrence of a one-byte separator.\<close>

fun split_once :: "char \<Rightarrow> string \<Rightarrow> (string \<times> string) option" where
  "split_once c [] = None"
| "split_once c (x # xs) =
     (if x = c then Some ([], xs)
      else case split_once c xs of None \<Rightarrow> None | Some (a, b) \<Rightarrow> Some (x # a, b))"

lemma split_once_None: "split_once c s = None \<longleftrightarrow> c \<notin> set s"
  by (induction s) (auto split: option.splits)

lemma split_once_Some: "split_once c s = Some (a, b) \<longleftrightarrow> s = a @ c # b \<and> c \<notin> set a"
proof (induction s arbitrary: a)
  case Nil
  then show ?case by simp
next
  case (Cons x xs)
  have "split_once c (x # xs) = Some (a, b) \<longleftrightarrow>
      (x = c \<and> a = [] \<and> b = xs) \<or> (x \<noteq> c \<and> (\<exists>a'. a = x # a' \<and> split_once c xs = Some (a', b)))"
    by (auto split: option.splits)
  then show ?case
    by (simp only: Cons.IH) (cases a; auto)
qed

lemma split_once_append: "c \<notin> set a \<Longrightarrow> split_once c (a @ c # b) = Some (a, b)"
  by (simp add: split_once_Some)

text \<open>\<open>str::split\<close>: the pieces between the separators, never empty.\<close>

fun split_on :: "char \<Rightarrow> string \<Rightarrow> string list" where
  "split_on c [] = [[]]"
| "split_on c (x # xs) =
     (if x = c then [] # split_on c xs
      else case split_on c xs of [] \<Rightarrow> [[x]] | p # ps \<Rightarrow> (x # p) # ps)"

lemma split_on_not_Nil [simp]: "split_on c s \<noteq> []"
  by (induction s) (auto split: list.splits)

lemma split_on_no_sep: "c \<notin> set s \<Longrightarrow> split_on c s = [s]"
  by (induction s) auto

lemma split_on_append: "c \<notin> set a \<Longrightarrow> split_on c (a @ c # b) = a # split_on c b"
  by (induction a) auto

lemma split_on_pieces: "p \<in> set (split_on c s) \<Longrightarrow> c \<notin> set p"
proof (induction s arbitrary: p)
  case Nil
  then show ?case by simp
next
  case (Cons x xs)
  then show ?case by (cases "split_on c xs") (auto split: if_splits)
qed

definition ends_with :: "string \<Rightarrow> string \<Rightarrow> bool" where
  "ends_with suf s \<longleftrightarrow> length suf \<le> length s \<and> drop (length s - length suf) s = suf"

definition starts_with :: "string \<Rightarrow> string \<Rightarrow> bool" where
  "starts_with pre s \<longleftrightarrow> take (length pre) s = pre"

definition strip_prefix :: "string \<Rightarrow> string \<Rightarrow> string option" where
  "strip_prefix pre s = (if starts_with pre s then Some (drop (length pre) s) else None)"

lemma strip_prefix_append [simp]: "strip_prefix p (p @ s) = Some s"
  by (simp add: strip_prefix_def starts_with_def)

lemma strip_prefix_Some: "strip_prefix p s = Some r \<longleftrightarrow> s = p @ r"
  by (auto simp: strip_prefix_def starts_with_def) (metis append_take_drop_id)

definition is_lower :: "char \<Rightarrow> bool" where
  "is_lower c \<longleftrightarrow> 97 \<le> (of_char c :: nat) \<and> (of_char c :: nat) \<le> 122"

definition is_upper :: "char \<Rightarrow> bool" where
  "is_upper c \<longleftrightarrow> 65 \<le> (of_char c :: nat) \<and> (of_char c :: nat) \<le> 90"

definition is_alnum_ascii :: "char \<Rightarrow> bool" where
  "is_alnum_ascii c \<longleftrightarrow> is_lower c \<or> is_upper c \<or> is_digit_char c"

definition lower_char :: "char \<Rightarrow> char" where
  "lower_char c = (if is_upper c then char_of ((of_char c :: nat) + 32) else c)"

definition upper_char :: "char \<Rightarrow> char" where
  "upper_char c = (if is_lower c then char_of ((of_char c :: nat) - 32) else c)"

text \<open>\<open>slice::contains\<close> on bytes: does \<open>pat\<close> occur in \<open>s\<close>?\<close>

fun contains_str :: "string \<Rightarrow> string \<Rightarrow> bool" where
  "contains_str pat [] = (pat = [])"
| "contains_str pat (c # cs) = (starts_with pat (c # cs) \<or> contains_str pat cs)"

definition is_space :: "char \<Rightarrow> bool" where
  "is_space c \<longleftrightarrow> c = CHR '' '' \<or> (9 \<le> (of_char c :: nat) \<and> (of_char c :: nat) \<le> 13)"

text \<open>\<open>str::trim\<close> and the first word of \<open>str::split_whitespace\<close>, on ASCII white space.\<close>

definition trim :: "string \<Rightarrow> string" where
  "trim s = rev (dropWhile is_space (rev (dropWhile is_space s)))"

text \<open>\<open>str::lines\<close>: without the line endings.\<close>

definition strip_cr :: "string \<Rightarrow> string" where
  "strip_cr l = (if l \<noteq> [] \<and> last l = CHR 0x0D then butlast l else l)"

definition text_lines :: "string \<Rightarrow> string list" where
  "text_lines s = (let ls = split_on (CHR 0x0A) s in map strip_cr (if last ls = [] then butlast ls else ls))"

definition first_word :: "string \<Rightarrow> string option" where
  "first_word s = (let w = takeWhile (\<lambda>c. \<not> is_space c) (dropWhile is_space s) in if w = [] then None else Some w)"

section \<open>Hash maps\<close>

text \<open>
  A \<open>HashMap\<close> is a map \<open>'k \<rightharpoonup> 'v\<close>. Where the code iterates over one, the order is
  whatever the hasher yields: the iterating definition takes the order as an argument, and
  \<open>iter_order\<close> says that it lists every key of the map once.
\<close>

definition iter_order :: "('k \<rightharpoonup> 'v) \<Rightarrow> 'k list \<Rightarrow> bool" where
  "iter_order m ks \<longleftrightarrow> distinct ks \<and> set ks = dom m"

definition map_values :: "('k \<rightharpoonup> 'v) \<Rightarrow> 'k list \<Rightarrow> 'v list" where
  "map_values m ks = List.map_filter m ks"

lemma map_values_simps [simp]:
  "map_values m [] = []"
  "map_values m (k # ks) = (case m k of None \<Rightarrow> map_values m ks | Some v \<Rightarrow> v # map_values m ks)"
  by (auto simp: map_values_def List.map_filter_def split: option.splits)

lemma set_map_values: "set (map_values m ks) = {v. \<exists>k \<in> set ks. m k = Some v}"
  by (induction ks) (auto split: option.splits)

lemma set_map_values_ran: "iter_order m ks \<Longrightarrow> set (map_values m ks) = ran m"
  by (auto simp: set_map_values iter_order_def ran_def)

lemma length_map_values: "iter_order m ks \<Longrightarrow> length (map_values m ks) = card (dom m)"
proof -
  assume "iter_order m ks"
  then have "\<And>k. k \<in> set ks \<Longrightarrow> \<exists>v. m k = Some v" and "distinct ks" and "set ks = dom m"
    by (auto simp: iter_order_def)
  then have "length (map_values m ks) = length ks"
    by (induction ks) (auto simp: map_values_def List.map_filter_def)
  with \<open>distinct ks\<close> \<open>set ks = dom m\<close> show ?thesis
    by (metis distinct_card)
qed

lemma iter_order_finite: "iter_order m ks \<Longrightarrow> finite (dom m)"
  by (metis finite_set iter_order_def)

lemma iter_order_exists: "finite (dom m) \<Longrightarrow> \<exists>ks. iter_order m ks"
  using finite_distinct_list[of "dom m"] by (auto simp: iter_order_def)

text \<open>The first element of a list that satisfies a predicate (\<open>Iterator::find\<close>).\<close>

lemma find_upt_least:
  "List.find P [a..<b] = Some n \<Longrightarrow> a \<le> n \<and> n < b \<and> P n \<and> (\<forall>m. a \<le> m \<and> m < n \<longrightarrow> \<not> P m)"
proof -
  assume "List.find P [a..<b] = Some n"
  then obtain i where i: "i < b - a" "n = a + i" "P n" and
      least: "\<And>j. j < i \<Longrightarrow> \<not> P (a + j)"
    by (auto simp: find_Some_iff)
  have "\<not> P m" if "a \<le> m" "m < n" for m
    using least[of "m - a"] that i by simp
  with i show ?thesis by auto
qed

lemma find_upt_None: "List.find P [a..<b] = None \<longleftrightarrow> (\<forall>m. a \<le> m \<and> m < b \<longrightarrow> \<not> P m)"
  by (auto simp: find_None_iff)

end
