(* ===== verification/Proto_Types.thy ===== *)
theory Proto_Types imports Prelude begin

text \<open>
  The messages of \<open>proto/\<close>: one record per message, in the order of the .proto files.
  An optional message field is an \<open>option\<close>, a repeated field a list. Enumeration fields are
  kept as the \<open>i32\<close> the wire carries, as the generated structs do; each enum is a
  datatype with its numbering (\<open>_i32\<close>) and the checked conversion back
  (\<open>_of_i32\<close>, \<open>TryFrom<i32>\<close>).
\<close>

section \<open>shared/v1: containers and ports\<close>

record resources =
  res_cpu :: int
  res_memory :: int

definition default_resources :: resources where
  "default_resources = \<lparr>res_cpu = 0, res_memory = 0\<rparr>"

datatype protocol = Tcp | Udp

fun protocol_i32 :: "protocol \<Rightarrow> int" where
  "protocol_i32 Tcp = 0"
| "protocol_i32 Udp = 1"

definition protocol_of_i32 :: "int \<Rightarrow> protocol option" where
  "protocol_of_i32 i = (if i = 0 then Some Tcp else if i = 1 then Some Udp else None)"

record port =
  port_internal :: nat
  port_external :: nat
  port_protocol :: int

record env_var =
  ev_name :: string
  ev_value :: string

record container =
  ct_name :: string
  ct_image :: string
  ct_ports :: "port list"
  ct_env :: "env_var list"

datatype container_state = StateUnspecified | StateActive | StateCrashed | StateWaiting

fun container_state_i32 :: "container_state \<Rightarrow> int" where
  "container_state_i32 StateUnspecified = 0"
| "container_state_i32 StateActive = 1"
| "container_state_i32 StateCrashed = 2"
| "container_state_i32 StateWaiting = 3"

record container_status =
  cs_name :: string
  cs_state :: int

datatype event_type = EvUnspecified | EvAdded | EvModified | EvDeleted | EvScheduled

fun event_type_i32 :: "event_type \<Rightarrow> int" where
  "event_type_i32 EvUnspecified = 0"
| "event_type_i32 EvAdded = 1"
| "event_type_i32 EvModified = 2"
| "event_type_i32 EvDeleted = 3"
| "event_type_i32 EvScheduled = 4"

definition event_type_of_i32 :: "int \<Rightarrow> event_type option" where
  "event_type_of_i32 i =
     (if i = 0 then Some EvUnspecified else if i = 1 then Some EvAdded
      else if i = 2 then Some EvModified else if i = 3 then Some EvDeleted
      else if i = 4 then Some EvScheduled else None)"

section \<open>shared/v1: nodes\<close>

datatype node_status = NodeReady | NodeCordon | NodeDrain | NodeNotReady

fun node_status_i32 :: "node_status \<Rightarrow> int" where
  "node_status_i32 NodeReady = 0"
| "node_status_i32 NodeCordon = 1"
| "node_status_i32 NodeDrain = 2"
| "node_status_i32 NodeNotReady = 3"

definition node_status_of_i32 :: "int \<Rightarrow> node_status option" where
  "node_status_of_i32 i =
     (if i = 0 then Some NodeReady else if i = 1 then Some NodeCordon
      else if i = 2 then Some NodeDrain else if i = 3 then Some NodeNotReady else None)"

record node =
  nd_name :: string
  nd_status :: int
  nd_capacity :: "resources option"
  nd_allocatable :: "resources option"
  nd_ip :: string

text \<open>The accessor \<open>node.status()\<close>: an unknown number reads as the enum's default, 0.\<close>

definition node_status_of :: "node \<Rightarrow> node_status" where
  "node_status_of n = (case node_status_of_i32 (nd_status n) of None \<Rightarrow> NodeReady | Some s \<Rightarrow> s)"

section \<open>shared/v1: pods\<close>

datatype pod_status =
  PodPending | PodRunning | PodSucceeded | PodFailed | PodUnknown | PodNoNodeAvailable

fun pod_status_i32 :: "pod_status \<Rightarrow> int" where
  "pod_status_i32 PodPending = 0"
| "pod_status_i32 PodRunning = 1"
| "pod_status_i32 PodSucceeded = 2"
| "pod_status_i32 PodFailed = 3"
| "pod_status_i32 PodUnknown = 4"
| "pod_status_i32 PodNoNodeAvailable = 5"

definition pod_status_of_i32 :: "int \<Rightarrow> pod_status option" where
  "pod_status_of_i32 i =
     (if i = 0 then Some PodPending else if i = 1 then Some PodRunning
      else if i = 2 then Some PodSucceeded else if i = 3 then Some PodFailed
      else if i = 4 then Some PodUnknown else if i = 5 then Some PodNoNodeAvailable else None)"

record pod =
  p_name :: string
  p_status :: int
  p_requests :: "resources option"
  p_limits :: "resources option"

definition default_pod :: pod where
  "default_pod = \<lparr>p_name = [], p_status = 0, p_requests = None, p_limits = None\<rparr>"

record pod_spec =
  ps_namespace :: string
  ps_containers :: "container list"

definition default_pod_spec :: pod_spec where
  "default_pod_spec = \<lparr>ps_namespace = [], ps_containers = []\<rparr>"

record pod_with_spec =
  pw_pod :: "pod option"
  pw_spec :: "pod_spec option"

record pod_detail =
  pd_core :: "pod_with_spec option"
  pd_container_statuses :: "container_status list"
  pd_pod_ip :: "string option"
  pd_message :: "string option"
  pd_resource_usage :: "resources option"
  pd_node_name :: string
  pd_unschedulable_reason :: "string option"

text \<open>\<open>PodDetail { core: Some(core), ..Default::default() }\<close>.\<close>

definition new_pod_detail :: "pod_with_spec \<Rightarrow> pod_detail" where
  "new_pod_detail c = \<lparr>pd_core = Some c, pd_container_statuses = [], pd_pod_ip = None,
     pd_message = None, pd_resource_usage = None, pd_node_name = [], pd_unschedulable_reason = None\<rparr>"

section \<open>api/v1: events and requests\<close>

record watch_pod_event =
  wpe_event_type :: int
  wpe_pod :: "pod_detail option"

record watch_node_event =
  wne_event_type :: int
  wne_node :: "node option"

datatype ds_action = DsRun | DsStop | DsSynced

fun ds_action_i32 :: "ds_action \<Rightarrow> int" where
  "ds_action_i32 DsRun = 0"
| "ds_action_i32 DsStop = 1"
| "ds_action_i32 DsSynced = 2"

definition ds_action_of_i32 :: "int \<Rightarrow> ds_action option" where
  "ds_action_of_i32 i =
     (if i = 0 then Some DsRun else if i = 1 then Some DsStop
      else if i = 2 then Some DsSynced else None)"

record ds_event =
  dse_action :: int
  dse_pod :: "pod_with_spec option"

datatype assign_outcome =
  OutNodeName string | OutUnschedulable string | OutOrphaned string

record assign_pod_request =
  ap_name :: string
  ap_namespace :: string
  ap_outcome :: "assign_outcome option"

record update_pod_status_request =
  ups_pod :: "pod_with_spec option"
  ups_container_statuses :: "container_status list"
  ups_pod_ip :: "string option"
  ups_message :: "string option"
  ups_resource_usage :: "resources option"

section \<open>cni/v1\<close>

record workload_ref =
  wl_workload_name :: string
  wl_instance_name :: string

record network_ref =
  nw_network_name :: string
  nw_vlan_id :: nat

datatype network_state = NetUnspecified | NetReady | NetError

fun network_state_i32 :: "network_state \<Rightarrow> int" where
  "network_state_i32 NetUnspecified = 0"
| "network_state_i32 NetReady = 1"
| "network_state_i32 NetError = 2"

record workload_network =
  wn_state :: int
  wn_interface_name :: string
  wn_ip_address :: string
  wn_gateway :: string
  wn_network_name :: string

record add_network_request =
  an_workload :: "workload_ref option"
  an_network :: "network_ref option"
  an_netns_path :: string
  an_interface_name :: string
  an_port_mappings :: "port list"

section \<open>Round trips of the enum numberings\<close>

lemma node_status_of_i32_i32 [simp]: "node_status_of_i32 (node_status_i32 s) = Some s"
  by (cases s) (simp_all add: node_status_of_i32_def)

lemma pod_status_of_i32_i32 [simp]: "pod_status_of_i32 (pod_status_i32 s) = Some s"
  by (cases s) (simp_all add: pod_status_of_i32_def)

lemma event_type_of_i32_i32 [simp]: "event_type_of_i32 (event_type_i32 s) = Some s"
  by (cases s) (simp_all add: event_type_of_i32_def)

lemma protocol_of_i32_i32 [simp]: "protocol_of_i32 (protocol_i32 s) = Some s"
  by (cases s) (simp_all add: protocol_of_i32_def)

lemma ds_action_of_i32_i32 [simp]: "ds_action_of_i32 (ds_action_i32 s) = Some s"
  by (cases s) (simp_all add: ds_action_of_i32_def)

lemma node_status_i32_inj [simp]: "node_status_i32 a = node_status_i32 b \<longleftrightarrow> a = b"
  by (cases a; cases b) simp_all

lemma event_type_i32_inj [simp]: "event_type_i32 a = event_type_i32 b \<longleftrightarrow> a = b"
  by (cases a; cases b) simp_all

lemma pod_status_i32_inj [simp]: "pod_status_i32 a = pod_status_i32 b \<longleftrightarrow> a = b"
  by (cases a; cases b) simp_all

lemma node_status_i32_eq_iff:
  "nd_status n = node_status_i32 s \<Longrightarrow> node_status_of n = s"
  by (simp add: node_status_of_def)

section \<open>Keys and shared accessors\<close>

type_synonym pod_key = "string \<times> string"

text \<open>\<open>store.rs\<close>, \<open>pod_key\<close>: absent levels read as the empty string.\<close>

definition pod_key :: "pod_detail \<Rightarrow> pod_key" where
  "pod_key d =
     (case pd_core d of None \<Rightarrow> []
      | Some core \<Rightarrow> (case pw_spec core of None \<Rightarrow> [] | Some sp \<Rightarrow> ps_namespace sp),
      case pd_core d of None \<Rightarrow> []
      | Some core \<Rightarrow> (case pw_pod core of None \<Rightarrow> [] | Some p \<Rightarrow> p_name p))"

text \<open>The closures' \<open>detail.core.as_mut().and_then(|core| core.pod.as_mut())\<close> followed
  by an assignment to its status.\<close>

definition set_core_status :: "int \<Rightarrow> pod_detail \<Rightarrow> pod_detail" where
  "set_core_status st d =
     d\<lparr>pd_core := map_option (\<lambda>core. core\<lparr>pw_pod := map_option (\<lambda>p. p\<lparr>p_status := st\<rparr>) (pw_pod core)\<rparr>)
                (pd_core d)\<rparr>"

lemma pod_key_set_core_status [simp]: "pod_key (set_core_status st d) = pod_key d"
  by (auto simp: pod_key_def set_core_status_def split: option.splits)

lemma set_core_status_frame [simp]:
  "pd_node_name (set_core_status st d) = pd_node_name d"
  "pd_container_statuses (set_core_status st d) = pd_container_statuses d"
  "pd_pod_ip (set_core_status st d) = pd_pod_ip d"
  "pd_message (set_core_status st d) = pd_message d"
  "pd_resource_usage (set_core_status st d) = pd_resource_usage d"
  "pd_unschedulable_reason (set_core_status st d) = pd_unschedulable_reason d"
  by (simp_all add: set_core_status_def)

lemma pod_key_frame [simp]:
  "pod_key (d\<lparr>pd_node_name := a\<rparr>) = pod_key d"
  "pod_key (d\<lparr>pd_unschedulable_reason := b\<rparr>) = pod_key d"
  "pod_key (d\<lparr>pd_container_statuses := c\<rparr>) = pod_key d"
  "pod_key (d\<lparr>pd_pod_ip := e\<rparr>) = pod_key d"
  "pod_key (d\<lparr>pd_message := e\<rparr>) = pod_key d"
  "pod_key (d\<lparr>pd_resource_usage := f\<rparr>) = pod_key d"
  by (simp_all add: pod_key_def)

text \<open>The status a pod's core carries, if it has one.\<close>

definition core_status :: "pod_detail \<Rightarrow> int option" where
  "core_status d = (case pd_core d of None \<Rightarrow> None | Some core \<Rightarrow> map_option p_status (pw_pod core))"

lemma core_status_set: "core_status (set_core_status st d) = map_option (\<lambda>_. st) (core_status d)"
  by (cases "pd_core d") (simp_all add: core_status_def set_core_status_def option.map_comp comp_def)

text \<open>What a core says besides its status: name, requests, limits and the whole spec.\<close>

definition desired_of :: "pod_detail \<Rightarrow> pod_with_spec option" where
  "desired_of d = pd_core (set_core_status 0 d)"

lemma desired_of_set_core_status [simp]: "desired_of (set_core_status st d) = desired_of d"
  by (cases "pd_core d") (auto simp: desired_of_def set_core_status_def option.map_comp comp_def)

end
