(* ===== verification/Api_Errors.thy ===== *)
theory Api_Errors imports Proto_Types begin

text \<open>
  \<open>api/src/errors.rs\<close> and \<open>api/src/validation.rs\<close>: the shared status constructors
  and the identifier check every handler applies to names and namespaces.
\<close>

section \<open>Status constructors\<close>

definition pod_not_found :: "string \<Rightarrow> string \<Rightarrow> status" where
  "pod_not_found ns nm = Status NotFound (''pod '' @ ns @ ''/'' @ nm @ '' not found'')"

definition node_not_found :: "string \<Rightarrow> status" where
  "node_not_found nm = Status NotFound (''node '' @ nm @ '' not found'')"

definition missing_node :: "string \<Rightarrow> status" where
  "missing_node nm = Status InvalidArgument (''missing node '' @ nm)"

definition pod_already_exists :: "string \<Rightarrow> string \<Rightarrow> status" where
  "pod_already_exists ns nm = Status AlreadyExists (''pod '' @ ns @ ''/'' @ nm @ '' already exists'')"

lemma error_codes [simp]:
  "st_code (pod_not_found ns nm) = NotFound"
  "st_code (node_not_found nm) = NotFound"
  "st_code (missing_node nm) = InvalidArgument"
  "st_code (pod_already_exists ns nm) = AlreadyExists"
  by (simp_all add: pod_not_found_def node_not_found_def missing_node_def pod_already_exists_def)

section \<open>Identifier validation\<close>

definition dns_alnum :: "char \<Rightarrow> bool" where
  "dns_alnum c \<longleftrightarrow> is_lower c \<or> is_digit_char c"

definition validate_dns1123_subdomain :: "string \<Rightarrow> string \<Rightarrow> unit rpc" where
  "validate_dns1123_subdomain value field =
     (if value = [] then Inl (Status InvalidArgument (field @ '' must not be empty''))
      else if 253 < length value
      then Inl (Status InvalidArgument (field @ '' must be 253 characters or fewer''))
      else
        let starts_ok = (case value of [] \<Rightarrow> False | c # _ \<Rightarrow> dns_alnum c);
            ends_ok = (value \<noteq> [] \<and> dns_alnum (last value));
            chars_ok = (\<forall>c \<in> set value. dns_alnum c \<or> c = CHR ''-'')
        in if \<not> starts_ok \<or> \<not> ends_ok \<or> \<not> chars_ok
           then Inl (Status InvalidArgument
             (field @ '' is invalid: must be lowercase alphanumeric characters or '' @ [CHR 0x27] @ ''-''
              @ [CHR 0x27] @ '', and must start and end with an alphanumeric character''))
           else Inr ())"

definition dns_label :: "string \<Rightarrow> bool" where
  "dns_label v \<longleftrightarrow> v \<noteq> [] \<and> length v \<le> 253 \<and> dns_alnum (hd v) \<and> dns_alnum (last v) \<and>
     (\<forall>c \<in> set v. dns_alnum c \<or> c = CHR ''-'')"

lemma validate_dns1123_ok_iff:
  "validate_dns1123_subdomain v f = Inr () \<longleftrightarrow> dns_label v"
  by (cases v) (auto simp: validate_dns1123_subdomain_def dns_label_def Let_def)

lemma validate_dns1123_error:
  "validate_dns1123_subdomain v f = Inl e \<Longrightarrow> st_code e = InvalidArgument \<and> \<not> dns_label v"
  using validate_dns1123_ok_iff[of v f]
  by (auto simp: validate_dns1123_subdomain_def Let_def split: if_splits)

lemma validate_dns1123_cases:
  obtains (ok) "dns_label v" "validate_dns1123_subdomain v f = Inr ()"
    | (err) m where "\<not> dns_label v" "validate_dns1123_subdomain v f = Inl (Status InvalidArgument m)"
proof (cases "validate_dns1123_subdomain v f")
  case (Inl e)
  then show ?thesis
    using validate_dns1123_error[OF Inl] err by (cases e) auto
next
  case (Inr u)
  then show ?thesis
    using validate_dns1123_ok_iff[of v f] ok by simp
qed

text \<open>A validated name contains neither a dot nor a slash, which is what keeps pod ids and
  store keys unambiguous.\<close>

lemma dns_label_no_sep:
  "dns_label v \<Longrightarrow> CHR ''.'' \<notin> set v" "dns_label v \<Longrightarrow> CHR ''/'' \<notin> set v"
  by (auto simp: dns_label_def dns_alnum_def is_lower_def)

end
