(* ===== verification/Store.thy ===== *)
theory Store imports Api_Errors begin

text \<open>
  \<open>api/src/store.rs\<close>: the API server's store. One record holds the struct's fields; each
  method is a function of the store that returns its \<open>Result\<close> and the store after it. A store
  with \<open>sto_client = None\<close> is the in-memory store, where one lock guard covers the whole
  read-modify-write of a method; otherwise the methods talk to etcd.

  External code is kept as parameters. The etcd client and the protobuf codec are the functions
  of \<open>etcd_client\<close>, over an arbitrary type \<open>'w\<close> of the outside world and an opaque
  type \<open>'v\<close> of encoded messages. Broadcast
  channels are recorded by what the store does with them: \<open>sto_pod_events\<close> and
  \<open>sto_node_events\<close> are the values sent so far, oldest first, and a subscription is the
  position in that sequence from which the receiver listens; desired-state channels are numbered
  in the order of their creation, and the number of live receivers of a channel is the argument
  \<open>rc\<close> of the operation that asks for it. Iteration over a hash map takes the order as its
  argument \<open>ord\<close>.
\<close>

section \<open>State\<close>

record 'v kv =
  kv_key :: string
  kv_value :: 'v
  kv_version :: int

record ('w, 'v) etcd_client =
  ec_get :: "string \<Rightarrow> 'w \<Rightarrow> (string + 'v kv list) \<times> 'w"
  ec_get_prefix :: "string \<Rightarrow> 'w \<Rightarrow> (string + 'v kv list) \<times> 'w"
  ec_put :: "string \<Rightarrow> 'v \<Rightarrow> 'w \<Rightarrow> (string + unit) \<times> 'w"
  ec_delete :: "string \<Rightarrow> 'w \<Rightarrow> (string + unit) \<times> 'w"
  ec_txn :: "(string \<times> int) list \<Rightarrow> (string \<times> 'v) list \<Rightarrow> 'w \<Rightarrow> (string + bool) \<times> 'w"
  enc_pod :: "pod_detail \<Rightarrow> 'v"
  dec_pod :: "'v \<Rightarrow> string + pod_detail"
  enc_node :: "node \<Rightarrow> 'v"
  dec_node :: "'v \<Rightarrow> string + node"

record ('w, 'v) store =
  sto_client :: "('w, 'v) etcd_client option"
  sto_world :: 'w
  sto_pods :: "pod_key \<rightharpoonup> pod_detail"
  sto_nodes :: "string \<rightharpoonup> node"
  sto_pod_events :: "watch_pod_event list"
  sto_node_events :: "watch_node_event list"
  sto_watchers :: "string \<rightharpoonup> nat"
  sto_ds_channels :: "string \<rightharpoonup> nat"
  sto_ds_created :: nat
  sto_ds_events :: "(nat \<times> ds_event) list"

datatype store_error = ConnectionErr string | DecodeErr string

fun to_status :: "store_error \<Rightarrow> status" where
  "to_status (ConnectionErr msg) = Status Unavailable msg"
| "to_status (DecodeErr msg) = Status Internal msg"

definition store_new :: "'w \<Rightarrow> ('w, 'v) store" where
  "store_new w = \<lparr>sto_client = None, sto_world = w, sto_pods = Map.empty, sto_nodes = Map.empty,
     sto_pod_events = [], sto_node_events = [], sto_watchers = Map.empty,
     sto_ds_channels = Map.empty, sto_ds_created = 0, sto_ds_events = []\<rparr>"

definition store_new_with_etcd :: "('w, 'v) etcd_client \<Rightarrow> 'w \<Rightarrow> ('w, 'v) store" where
  "store_new_with_etcd c w = (store_new w)\<lparr>sto_client := Some c\<rparr>"

section \<open>Keys\<close>

definition pods_prefix :: string where
  "pods_prefix = ''/barenetes/pods/''"

definition nodes_prefix :: string where
  "nodes_prefix = ''/barenetes/nodes/''"

definition pod_etcd_key :: "string \<Rightarrow> string \<Rightarrow> string" where
  "pod_etcd_key ns nm = ''/barenetes/pods/'' @ ns @ ''/'' @ nm"

definition node_etcd_key :: "string \<Rightarrow> string" where
  "node_etcd_key nm = ''/barenetes/nodes/'' @ nm"

definition pod_key_etcd :: "pod_key \<Rightarrow> string" where
  "pod_key_etcd k = pod_etcd_key (fst k) (snd k)"

section \<open>Calls to etcd and channel sends\<close>

text \<open>A client call with \<open>.await?\<close>: a client error becomes \<open>StoreError::Connection\<close>.\<close>

definition run_etcd :: "('w \<Rightarrow> (string + 'a) \<times> 'w) \<Rightarrow> (('w, 'v) store, store_error, 'a) op" where
  "run_etcd call s =
     (case call (sto_world s) of
        (Inl e, w) \<Rightarrow> (Inl (ConnectionErr e), s\<lparr>sto_world := w\<rparr>)
      | (Inr x, w) \<Rightarrow> (Inr x, s\<lparr>sto_world := w\<rparr>))"

definition decode_or :: "(string + 'a) \<Rightarrow> (('w, 'v) store, store_error, 'a) op" where
  "decode_or r = (case r of Inl e \<Rightarrow> sfail (DecodeErr e) | Inr x \<Rightarrow> sret x)"

definition first_kv :: "'v kv list \<Rightarrow> 'v kv option" where
  "first_kv kvs = (case kvs of [] \<Rightarrow> None | kv # _ \<Rightarrow> Some kv)"

text \<open>\<open>filter_map(|kv| decode(kv.value()).ok())\<close>: entries that do not decode are skipped.\<close>

definition decode_all :: "('v \<Rightarrow> string + 'a) \<Rightarrow> 'v kv list \<Rightarrow> 'a list" where
  "decode_all dec kvs =
     List.map_filter (\<lambda>kv. case dec (kv_value kv) of Inl _ \<Rightarrow> None | Inr x \<Rightarrow> Some x) kvs"

definition publish_pod_event :: "event_type \<Rightarrow> pod_detail \<Rightarrow> ('w, 'v) store \<Rightarrow> ('w, 'v) store" where
  "publish_pod_event et p s =
     s\<lparr>sto_pod_events := sto_pod_events s @ [\<lparr>wpe_event_type = event_type_i32 et, wpe_pod = Some p\<rparr>]\<rparr>"

definition publish_node_event :: "event_type \<Rightarrow> node \<Rightarrow> ('w, 'v) store \<Rightarrow> ('w, 'v) store" where
  "publish_node_event et n s =
     s\<lparr>sto_node_events := sto_node_events s @ [\<lparr>wne_event_type = event_type_i32 et, wne_node = Some n\<rparr>]\<rparr>"

definition subscribe_pod_events :: "('w, 'v) store \<Rightarrow> nat" where
  "subscribe_pod_events s = length (sto_pod_events s)"

definition subscribe_node_events :: "('w, 'v) store \<Rightarrow> nat" where
  "subscribe_node_events s = length (sto_node_events s)"

section \<open>Pods\<close>

definition upsert_pod :: "pod_detail \<Rightarrow> (('w, 'v) store, store_error, unit) op" where
  "upsert_pod p s =
     (case sto_client s of
        Some c \<Rightarrow> run_etcd (ec_put c (pod_key_etcd (pod_key p)) (enc_pod c p)) s
      | None \<Rightarrow> (Inr (), s\<lparr>sto_pods := (sto_pods s)(pod_key p \<mapsto> p)\<rparr>))"

definition create_pod :: "pod_detail \<Rightarrow> (('w, 'v) store, store_error, bool) op" where
  "create_pod p s =
     (case sto_client s of
        Some c \<Rightarrow>
          (let k = pod_key_etcd (pod_key p)
           in sbind (run_etcd (ec_txn c [(k, 0)] [(k, enc_pod c p)]))
                (\<lambda>succeeded s. (Inr succeeded, if succeeded then publish_pod_event EvAdded p s else s)) s)
      | None \<Rightarrow>
          (if sto_pods s (pod_key p) \<noteq> None then (Inr False, s)
           else (Inr True, publish_pod_event EvAdded p (s\<lparr>sto_pods := (sto_pods s)(pod_key p \<mapsto> p)\<rparr>))))"

definition get_pod :: "string \<Rightarrow> string \<Rightarrow> (('w, 'v) store, store_error, pod_detail option) op" where
  "get_pod ns nm s =
     (case sto_client s of
        Some c \<Rightarrow>
          sbind (run_etcd (ec_get c (pod_etcd_key ns nm)))
            (\<lambda>kvs. case first_kv kvs of None \<Rightarrow> sret None
                   | Some kv \<Rightarrow> sbind (decode_or (dec_pod c (kv_value kv))) (\<lambda>p. sret (Some p))) s
      | None \<Rightarrow> (Inr (sto_pods s (ns, nm)), s))"

definition list_pods :: "pod_key list \<Rightarrow> (('w, 'v) store, store_error, pod_detail list) op" where
  "list_pods ord s =
     (case sto_client s of
        Some c \<Rightarrow> sbind (run_etcd (ec_get_prefix c pods_prefix))
                    (\<lambda>kvs. sret (decode_all (dec_pod c) kvs)) s
      | None \<Rightarrow> (Inr (map_values (sto_pods s) ord), s))"

definition remove_pod :: "string \<Rightarrow> string \<Rightarrow> (('w, 'v) store, store_error, pod_detail option) op" where
  "remove_pod ns nm s =
     (case sto_client s of
        Some c \<Rightarrow>
          sbind (run_etcd (ec_get c (pod_etcd_key ns nm)))
            (\<lambda>kvs. let old = (case first_kv kvs of None \<Rightarrow> None
                              | Some kv \<Rightarrow> (case dec_pod c (kv_value kv) of Inl _ \<Rightarrow> None | Inr p \<Rightarrow> Some p))
                   in sbind (run_etcd (ec_delete c (pod_etcd_key ns nm)))
                        (\<lambda>_ s. (Inr old, case old of None \<Rightarrow> s | Some p \<Rightarrow> publish_pod_event EvDeleted p s))) s
      | None \<Rightarrow>
          (let old = sto_pods s (ns, nm); s1 = s\<lparr>sto_pods := (sto_pods s)((ns, nm) := None)\<rparr>
           in (Inr old, case old of None \<Rightarrow> s1 | Some p \<Rightarrow> publish_pod_event EvDeleted p s1)))"

text \<open>
  \<open>mutate\<close> is the \<open>FnOnce(&mut PodDetail)\<close>: it yields the mutated pod and the value the
  closure leaves in the variable it captures, whose value before the call is \<open>cap\<close>.
\<close>

definition update_and_publish_pod ::
  "string \<Rightarrow> string \<Rightarrow> event_type \<Rightarrow> (pod_detail \<Rightarrow> pod_detail \<times> 'x) \<Rightarrow> 'x
   \<Rightarrow> (('w, 'v) store, store_error, bool \<times> 'x) op" where
  "update_and_publish_pod ns nm et mutate cap s =
     (case sto_client s of
        Some c \<Rightarrow>
          (let k = pod_etcd_key ns nm
           in sbind (run_etcd (ec_get c k))
                (\<lambda>kvs. case first_kv kvs of
                   None \<Rightarrow> sret (False, cap)
                 | Some kv \<Rightarrow>
                     sbind (decode_or (dec_pod c (kv_value kv)))
                       (\<lambda>p0. case mutate p0 of (p, cap') \<Rightarrow>
                          sbind (run_etcd (ec_txn c [(k, kv_version kv)] [(k, enc_pod c p)]))
                            (\<lambda>succeeded s.
                               if succeeded then (Inr (True, cap'), publish_pod_event et p s)
                               else (Inr (False, cap'), s)))) s)
      | None \<Rightarrow>
          (case sto_pods s (ns, nm) of
             None \<Rightarrow> (Inr (False, cap), s)
           | Some p0 \<Rightarrow>
               (case mutate p0 of (p, cap') \<Rightarrow>
                  (Inr (True, cap'),
                   publish_pod_event et p (s\<lparr>sto_pods := (sto_pods s)((ns, nm) \<mapsto> p)\<rparr>)))))"

text \<open>The body repeats \<open>update_and_publish_pod\<close> with the event type fixed to MODIFIED.\<close>

definition update_pod_status ::
  "string \<Rightarrow> string \<Rightarrow> (pod_detail \<Rightarrow> pod_detail) \<Rightarrow> (('w, 'v) store, store_error, bool) op" where
  "update_pod_status ns nm mutate =
     sbind (update_and_publish_pod ns nm EvModified (\<lambda>p. (mutate p, ())) ()) (\<lambda>(ok, _). sret ok)"

section \<open>Nodes\<close>

definition get_node :: "string \<Rightarrow> (('w, 'v) store, store_error, node option) op" where
  "get_node nm s =
     (case sto_client s of
        Some c \<Rightarrow>
          sbind (run_etcd (ec_get c (node_etcd_key nm)))
            (\<lambda>kvs. case first_kv kvs of None \<Rightarrow> sret None
                   | Some kv \<Rightarrow> sbind (decode_or (dec_node c (kv_value kv))) (\<lambda>n. sret (Some n))) s
      | None \<Rightarrow> (Inr (sto_nodes s nm), s))"

definition list_nodes :: "string list \<Rightarrow> (('w, 'v) store, store_error, node list) op" where
  "list_nodes ord s =
     (case sto_client s of
        Some c \<Rightarrow> sbind (run_etcd (ec_get_prefix c nodes_prefix))
                    (\<lambda>kvs. sret (decode_all (dec_node c) kvs)) s
      | None \<Rightarrow> (Inr (map_values (sto_nodes s) ord), s))"

definition register_node :: "node \<Rightarrow> (('w, 'v) store, store_error, unit) op" where
  "register_node nd s =
     (case sto_client s of
        Some c \<Rightarrow>
          (let k = node_etcd_key (nd_name nd)
           in sbind (run_etcd (ec_get c k))
                (\<lambda>kvs. let existing = first_kv kvs;
                           st = (case existing of
                                   Some kv \<Rightarrow> (case dec_node c (kv_value kv) of
                                                Inr known \<Rightarrow> nd_status known
                                              | Inl _ \<Rightarrow> node_status_i32 NodeNotReady)
                                 | None \<Rightarrow> node_status_i32 NodeNotReady);
                           nd' = nd\<lparr>nd_status := st\<rparr>
                       in sbind (run_etcd (ec_put c k (enc_node c nd')))
                            (\<lambda>_ s. (Inr (), publish_node_event
                                (if existing = None then EvAdded else EvModified) nd' s))) s)
      | None \<Rightarrow>
          (let st = (case sto_nodes s (nd_name nd) of
                       Some known \<Rightarrow> nd_status known
                     | None \<Rightarrow> node_status_i32 NodeNotReady);
               nd' = nd\<lparr>nd_status := st\<rparr>;
               et = (case sto_nodes s (nd_name nd) of None \<Rightarrow> EvAdded | Some _ \<Rightarrow> EvModified)
           in (Inr (), publish_node_event et nd'
                 (s\<lparr>sto_nodes := (sto_nodes s)(nd_name nd \<mapsto> nd')\<rparr>))))"

definition set_node_status :: "string \<Rightarrow> node_status \<Rightarrow> (('w, 'v) store, store_error, bool) op" where
  "set_node_status nm st s =
     (case sto_client s of
        Some c \<Rightarrow>
          (let k = node_etcd_key nm
           in sbind (run_etcd (ec_get c k))
                (\<lambda>kvs. case first_kv kvs of
                   None \<Rightarrow> sret False
                 | Some kv \<Rightarrow>
                     (case dec_node c (kv_value kv) of
                        Inl _ \<Rightarrow> sret False
                      | Inr nd \<Rightarrow>
                          if nd_status nd = node_status_i32 st then sret False
                          else let nd' = nd\<lparr>nd_status := node_status_i32 st\<rparr>
                               in sbind (run_etcd (ec_put c k (enc_node c nd')))
                                    (\<lambda>_ s. (Inr True, publish_node_event EvModified nd' s)))) s)
      | None \<Rightarrow>
          (case sto_nodes s nm of
             None \<Rightarrow> (Inr False, s)
           | Some nd \<Rightarrow>
               if nd_status nd = node_status_i32 st then (Inr False, s)
               else let nd' = nd\<lparr>nd_status := node_status_i32 st\<rparr>
                    in (Inr True, publish_node_event EvModified nd'
                          (s\<lparr>sto_nodes := (sto_nodes s)(nm \<mapsto> nd')\<rparr>))))"

definition watcher_count :: "string \<Rightarrow> ('w, 'v) store \<Rightarrow> nat" where
  "watcher_count nm s = (case sto_watchers s nm of None \<Rightarrow> 0 | Some k \<Rightarrow> k)"

definition node_watch_started :: "string \<Rightarrow> (('w, 'v) store, store_error, bool) op" where
  "node_watch_started nm =
     sbind (get_node nm)
       (\<lambda>found. case found of
          None \<Rightarrow> sret False
        | Some _ \<Rightarrow>
            (\<lambda>s. let current = watcher_count nm s;
                     count_up = (\<lambda>s. (Inr True, s\<lparr>sto_watchers := (sto_watchers s)(nm \<mapsto> current + 1)\<rparr>))
                 in if current = 0 then sbind (set_node_status nm NodeReady) (\<lambda>_. count_up) s
                    else count_up s))"

text \<open>\<open>saturating_sub\<close> is subtraction on \<^typ>\<open>nat\<close>. An error of the status write is only
  logged.\<close>

definition node_watch_ended :: "string \<Rightarrow> ('w, 'v) store \<Rightarrow> ('w, 'v) store" where
  "node_watch_ended nm s =
     (case sto_watchers s nm of
        None \<Rightarrow> s
      | Some count \<Rightarrow>
          let count' = count - 1
          in if 0 < count' then s\<lparr>sto_watchers := (sto_watchers s)(nm \<mapsto> count')\<rparr>
             else snd (set_node_status nm NodeNotReady
                         (s\<lparr>sto_watchers := (sto_watchers s)(nm := None)\<rparr>)))"

fun reset_liveness_loop :: "('w, 'v) etcd_client \<Rightarrow> 'v kv list \<Rightarrow> (('w, 'v) store, store_error, unit) op" where
  "reset_liveness_loop c [] s = (Inr (), s)"
| "reset_liveness_loop c (kv # kvs) s =
     (case dec_node c (kv_value kv) of
        Inl _ \<Rightarrow> reset_liveness_loop c kvs s
      | Inr nd \<Rightarrow>
          if nd_status nd \<noteq> node_status_i32 NodeReady then reset_liveness_loop c kvs s
          else sbind (run_etcd (ec_put c (node_etcd_key (nd_name nd))
                        (enc_node c (nd\<lparr>nd_status := node_status_i32 NodeNotReady\<rparr>))))
                 (\<lambda>_. reset_liveness_loop c kvs) s)"

definition reset_node_liveness :: "(('w, 'v) store, store_error, unit) op" where
  "reset_node_liveness s =
     (case sto_client s of
        None \<Rightarrow> (Inr (), s)
      | Some c \<Rightarrow> sbind (run_etcd (ec_get_prefix c nodes_prefix)) (\<lambda>kvs. reset_liveness_loop c kvs) s)"

section \<open>Watches\<close>

text \<open>\<open>sort_by_key\<close> is stable: assigned pods first, unassigned pods after them.\<close>

definition subscribe_pod_events_with_snapshot ::
  "pod_key list \<Rightarrow> (('w, 'v) store, store_error, pod_detail list \<times> nat) op" where
  "subscribe_pod_events_with_snapshot ord =
     sbind (list_pods ord)
       (\<lambda>pods s. (Inr (sort_key (\<lambda>p. pd_node_name p = []) pods, subscribe_pod_events s), s))"

definition subscribe_node_events_with_snapshot ::
  "string list \<Rightarrow> (('w, 'v) store, store_error, node list \<times> nat) op" where
  "subscribe_node_events_with_snapshot ord =
     sbind (list_nodes ord) (\<lambda>nodes s. (Inr (nodes, subscribe_node_events s), s))"

definition publish_desired_state_event :: "string \<Rightarrow> ds_event \<Rightarrow> ('w, 'v) store \<Rightarrow> ('w, 'v) store" where
  "publish_desired_state_event nn ev s =
     (case sto_ds_channels s nn of
        None \<Rightarrow> s
      | Some ch \<Rightarrow> s\<lparr>sto_ds_events := sto_ds_events s @ [(ch, ev)]\<rparr>)"

definition retain_live :: "(nat \<Rightarrow> nat) \<Rightarrow> (string \<rightharpoonup> nat) \<Rightarrow> (string \<rightharpoonup> nat)" where
  "retain_live rc m =
     (\<lambda>nn. case m nn of None \<Rightarrow> None | Some ch \<Rightarrow> if 0 < rc ch then Some ch else None)"

definition subscribe_desired_state_events ::
  "(nat \<Rightarrow> nat) \<Rightarrow> string \<Rightarrow> ('w, 'v) store \<Rightarrow> (nat \<times> nat) \<times> ('w, 'v) store" where
  "subscribe_desired_state_events rc nn s =
     (let live = retain_live rc (sto_ds_channels s)
      in case live nn of
           Some ch \<Rightarrow> ((ch, length (sto_ds_events s)), s\<lparr>sto_ds_channels := live\<rparr>)
         | None \<Rightarrow>
             let ch = sto_ds_created s
             in ((ch, length (sto_ds_events s)),
                 s\<lparr>sto_ds_channels := live(nn \<mapsto> ch), sto_ds_created := ch + 1\<rparr>))"

text \<open>The pods assigned to a node, as the specs its agent must run.\<close>

definition assigned_cores :: "string \<Rightarrow> pod_detail list \<Rightarrow> pod_with_spec list" where
  "assigned_cores nn pods = List.map_filter pd_core (filter (\<lambda>p. pd_node_name p = nn) pods)"

definition desired_state_snapshot ::
  "pod_key list \<Rightarrow> string \<Rightarrow> (('w, 'v) store, store_error, pod_with_spec list) op" where
  "desired_state_snapshot ord nn = sbind (list_pods ord) (\<lambda>pods. sret (assigned_cores nn pods))"

definition subscribe_desired_state_with_snapshot ::
  "(nat \<Rightarrow> nat) \<Rightarrow> pod_key list \<Rightarrow> string
   \<Rightarrow> (('w, 'v) store, store_error, pod_with_spec list \<times> (nat \<times> nat)) op" where
  "subscribe_desired_state_with_snapshot rc ord nn =
     sbind (desired_state_snapshot ord nn)
       (\<lambda>assigned s. case subscribe_desired_state_events rc nn s of
          (receiver, s') \<Rightarrow> (Inr (assigned, receiver), s'))"

text \<open>What a receiver of channel \<open>ch\<close> that subscribed at position \<open>pos\<close> is sent.\<close>

definition ds_received :: "nat \<times> nat \<Rightarrow> ('w, 'v) store \<Rightarrow> ds_event list" where
  "ds_received r s = map snd (filter (\<lambda>e. fst e = fst r) (drop (snd r) (sto_ds_events s)))"

definition pods_received :: "nat \<Rightarrow> ('w, 'v) store \<Rightarrow> watch_pod_event list" where
  "pods_received pos s = drop pos (sto_pod_events s)"

definition nodes_received :: "nat \<Rightarrow> ('w, 'v) store \<Rightarrow> watch_node_event list" where
  "nodes_received pos s = drop pos (sto_node_events s)"

lemmas pod_op_defs [store_defs] =
  upsert_pod_def create_pod_def get_pod_def list_pods_def remove_pod_def
  update_and_publish_pod_def update_pod_status_def

lemmas node_op_defs [store_defs] =
  get_node_def list_nodes_def register_node_def set_node_status_def node_watch_started_def
  node_watch_ended_def reset_node_liveness_def

lemmas publish_defs [store_defs] =
  publish_pod_event_def publish_node_event_def publish_desired_state_event_def

end
