(* ===== verification/Store_Memory.thy ===== *)
theory Store_Memory imports Store begin

text \<open>
  The in-memory store: what each pod and node method does on every branch, and the
  well-formedness of the two maps, which every method keeps.
\<close>

section \<open>Well-formedness\<close>

text \<open>Every pod is filed under its own key and every node under its own name.\<close>

definition mem_store :: "('w, 'v) store \<Rightarrow> bool" where
  "mem_store s \<longleftrightarrow> sto_client s = None"

definition wf_store :: "('w, 'v) store \<Rightarrow> bool" where
  "wf_store s \<longleftrightarrow>
     (\<forall>k p. sto_pods s k = Some p \<longrightarrow> pod_key p = k) \<and>
     (\<forall>nm nd. sto_nodes s nm = Some nd \<longrightarrow> nd_name nd = nm)"

lemma wf_storeI:
  "(\<And>k p. sto_pods s k = Some p \<Longrightarrow> pod_key p = k) \<Longrightarrow>
   (\<And>nm nd. sto_nodes s nm = Some nd \<Longrightarrow> nd_name nd = nm) \<Longrightarrow> wf_store s"
  by (simp add: wf_store_def)

lemma wf_storeD:
  "wf_store s \<Longrightarrow> sto_pods s k = Some p \<Longrightarrow> pod_key p = k"
  "wf_store s \<Longrightarrow> sto_nodes s nm = Some nd \<Longrightarrow> nd_name nd = nm"
  unfolding wf_store_def by blast+

lemma wf_store_new: "wf_store (store_new w)" "mem_store (store_new w)"
  by (simp_all add: wf_store_def store_new_def mem_store_def)

text \<open>Projections of the publishing helpers.\<close>

lemma publish_pod_event_sel [simp]:
  "sto_client (publish_pod_event et p s) = sto_client s"
  "sto_world (publish_pod_event et p s) = sto_world s"
  "sto_pods (publish_pod_event et p s) = sto_pods s"
  "sto_nodes (publish_pod_event et p s) = sto_nodes s"
  "sto_node_events (publish_pod_event et p s) = sto_node_events s"
  "sto_watchers (publish_pod_event et p s) = sto_watchers s"
  "sto_ds_channels (publish_pod_event et p s) = sto_ds_channels s"
  "sto_ds_created (publish_pod_event et p s) = sto_ds_created s"
  "sto_ds_events (publish_pod_event et p s) = sto_ds_events s"
  "sto_pod_events (publish_pod_event et p s) =
     sto_pod_events s @ [\<lparr>wpe_event_type = event_type_i32 et, wpe_pod = Some p\<rparr>]"
  by (simp_all add: publish_pod_event_def)

lemma publish_node_event_sel [simp]:
  "sto_client (publish_node_event et n s) = sto_client s"
  "sto_world (publish_node_event et n s) = sto_world s"
  "sto_pods (publish_node_event et n s) = sto_pods s"
  "sto_nodes (publish_node_event et n s) = sto_nodes s"
  "sto_pod_events (publish_node_event et n s) = sto_pod_events s"
  "sto_watchers (publish_node_event et n s) = sto_watchers s"
  "sto_ds_channels (publish_node_event et n s) = sto_ds_channels s"
  "sto_ds_created (publish_node_event et n s) = sto_ds_created s"
  "sto_ds_events (publish_node_event et n s) = sto_ds_events s"
  "sto_node_events (publish_node_event et n s) =
     sto_node_events s @ [\<lparr>wne_event_type = event_type_i32 et, wne_node = Some n\<rparr>]"
  by (simp_all add: publish_node_event_def)

lemma publish_ds_sel [simp]:
  "sto_client (publish_desired_state_event nn ev s) = sto_client s"
  "sto_world (publish_desired_state_event nn ev s) = sto_world s"
  "sto_pods (publish_desired_state_event nn ev s) = sto_pods s"
  "sto_nodes (publish_desired_state_event nn ev s) = sto_nodes s"
  "sto_pod_events (publish_desired_state_event nn ev s) = sto_pod_events s"
  "sto_node_events (publish_desired_state_event nn ev s) = sto_node_events s"
  "sto_watchers (publish_desired_state_event nn ev s) = sto_watchers s"
  "sto_ds_channels (publish_desired_state_event nn ev s) = sto_ds_channels s"
  "sto_ds_created (publish_desired_state_event nn ev s) = sto_ds_created s"
  by (simp_all add: publish_desired_state_event_def split: option.splits)

section \<open>Pod methods in memory\<close>

lemma mem_get_pod: "mem_store s \<Longrightarrow> get_pod ns nm s = (Inr (sto_pods s (ns, nm)), s)"
  by (simp add: get_pod_def mem_store_def)

lemma mem_list_pods: "mem_store s \<Longrightarrow> list_pods ord s = (Inr (map_values (sto_pods s) ord), s)"
  by (simp add: list_pods_def mem_store_def)

lemma mem_create_pod_new:
  "mem_store s \<Longrightarrow> sto_pods s (pod_key p) = None \<Longrightarrow>
   create_pod p s = (Inr True, publish_pod_event EvAdded p (s\<lparr>sto_pods := (sto_pods s)(pod_key p \<mapsto> p)\<rparr>))"
  by (simp add: create_pod_def mem_store_def)

lemma mem_create_pod_dup:
  "mem_store s \<Longrightarrow> sto_pods s (pod_key p) = Some old \<Longrightarrow> create_pod p s = (Inr False, s)"
  by (simp add: create_pod_def mem_store_def)

lemma mem_remove_pod:
  "mem_store s \<Longrightarrow> remove_pod ns nm s =
     (Inr (sto_pods s (ns, nm)),
      case sto_pods s (ns, nm) of
        None \<Rightarrow> s\<lparr>sto_pods := (sto_pods s)((ns, nm) := None)\<rparr>
      | Some p \<Rightarrow> publish_pod_event EvDeleted p (s\<lparr>sto_pods := (sto_pods s)((ns, nm) := None)\<rparr>))"
  by (simp add: remove_pod_def mem_store_def Let_def)

lemma mem_update_pod_none:
  "mem_store s \<Longrightarrow> sto_pods s (ns, nm) = None \<Longrightarrow>
   update_and_publish_pod ns nm et mutate cap s = (Inr (False, cap), s)"
  by (simp add: update_and_publish_pod_def mem_store_def)

lemma mem_update_pod_some:
  "mem_store s \<Longrightarrow> sto_pods s (ns, nm) = Some p0 \<Longrightarrow> mutate p0 = (p, cap') \<Longrightarrow>
   update_and_publish_pod ns nm et mutate cap s =
     (Inr (True, cap'), publish_pod_event et p (s\<lparr>sto_pods := (sto_pods s)((ns, nm) \<mapsto> p)\<rparr>))"
  by (simp add: update_and_publish_pod_def mem_store_def)

lemma mem_update_status_none:
  "mem_store s \<Longrightarrow> sto_pods s (ns, nm) = None \<Longrightarrow> update_pod_status ns nm mutate s = (Inr False, s)"
  by (simp add: update_pod_status_def sbind_def mem_update_pod_none)

lemma mem_update_status_some:
  "mem_store s \<Longrightarrow> sto_pods s (ns, nm) = Some p0 \<Longrightarrow>
   update_pod_status ns nm mutate s =
     (Inr True, publish_pod_event EvModified (mutate p0) (s\<lparr>sto_pods := (sto_pods s)((ns, nm) \<mapsto> mutate p0)\<rparr>))"
  by (simp add: update_pod_status_def sbind_def mem_update_pod_some)

lemmas mem_pod_ops =
  mem_get_pod mem_list_pods mem_create_pod_new mem_create_pod_dup mem_remove_pod
  mem_update_pod_none mem_update_pod_some mem_update_status_none mem_update_status_some

lemma create_pod_wf:
  "mem_store s \<Longrightarrow> wf_store s \<Longrightarrow> create_pod p s = (r, s') \<Longrightarrow> wf_store s' \<and> mem_store s'"
  by (cases "sto_pods s (pod_key p)")
     (auto simp: mem_create_pod_new mem_create_pod_dup wf_store_def mem_store_def split: if_splits)

lemma remove_pod_wf:
  "mem_store s \<Longrightarrow> wf_store s \<Longrightarrow> remove_pod ns nm s = (r, s') \<Longrightarrow> wf_store s' \<and> mem_store s'"
  by (auto simp: mem_remove_pod wf_store_def mem_store_def split: option.splits if_splits)

lemma update_pod_wf:
  assumes "mem_store s" "wf_store s" "\<And>p. pod_key (fst (mutate p)) = pod_key p"
    and "update_and_publish_pod ns nm et mutate cap s = (r, s')"
  shows "wf_store s' \<and> mem_store s'"
proof (cases "sto_pods s (ns, nm)")
  case None
  with assms show ?thesis by (simp add: mem_update_pod_none)
next
  case (Some p0)
  obtain p cap' where m: "mutate p0 = (p, cap')" by (cases "mutate p0")
  with assms(3)[of p0] assms(2) Some have "pod_key p = (ns, nm)" by (simp add: wf_store_def)
  with assms Some m show ?thesis
    by (auto simp: mem_update_pod_some wf_store_def mem_store_def split: if_splits)
qed

section \<open>Node methods in memory\<close>

lemma mem_get_node: "mem_store s \<Longrightarrow> get_node nm s = (Inr (sto_nodes s nm), s)"
  by (simp add: get_node_def mem_store_def)

lemma mem_list_nodes: "mem_store s \<Longrightarrow> list_nodes ord s = (Inr (map_values (sto_nodes s) ord), s)"
  by (simp add: list_nodes_def mem_store_def)

text \<open>What a registration stores: the report, with the status the store already held.\<close>

definition registered :: "('w, 'v) store \<Rightarrow> node \<Rightarrow> node" where
  "registered s nd =
     nd\<lparr>nd_status := (case sto_nodes s (nd_name nd) of
                        Some known \<Rightarrow> nd_status known | None \<Rightarrow> node_status_i32 NodeNotReady)\<rparr>"

lemma registered_sel [simp]:
  "nd_name (registered s nd) = nd_name nd"
  "nd_capacity (registered s nd) = nd_capacity nd"
  "nd_allocatable (registered s nd) = nd_allocatable nd"
  "nd_ip (registered s nd) = nd_ip nd"
  by (simp_all add: registered_def)

lemma registered_status:
  "nd_status (registered s nd) =
     (case sto_nodes s (nd_name nd) of Some known \<Rightarrow> nd_status known | None \<Rightarrow> node_status_i32 NodeNotReady)"
  by (simp add: registered_def)

lemma mem_register_node:
  "mem_store s \<Longrightarrow> register_node nd s =
     (Inr (), publish_node_event (if sto_nodes s (nd_name nd) = None then EvAdded else EvModified)
        (registered s nd) (s\<lparr>sto_nodes := (sto_nodes s)(nd_name nd \<mapsto> registered s nd)\<rparr>))"
  by (auto simp: register_node_def mem_store_def registered_def Let_def split: option.splits)

lemma mem_set_node_status:
  "mem_store s \<Longrightarrow> set_node_status nm st s =
     (case sto_nodes s nm of
        None \<Rightarrow> (Inr False, s)
      | Some nd \<Rightarrow>
          if nd_status nd = node_status_i32 st then (Inr False, s)
          else (Inr True, publish_node_event EvModified (nd\<lparr>nd_status := node_status_i32 st\<rparr>)
                  (s\<lparr>sto_nodes := (sto_nodes s)(nm \<mapsto> nd\<lparr>nd_status := node_status_i32 st\<rparr>)\<rparr>)))"
  by (auto simp: set_node_status_def mem_store_def Let_def split: option.splits)

text \<open>The status the store holds after \<open>set_node_status\<close>, whatever branch it took.\<close>

lemma mem_set_node_status_nodes:
  assumes "mem_store s" "set_node_status nm st s = (r, s')"
  shows "sto_nodes s' = (case sto_nodes s nm of None \<Rightarrow> sto_nodes s
           | Some nd \<Rightarrow> (sto_nodes s)(nm \<mapsto> nd\<lparr>nd_status := node_status_i32 st\<rparr>))"
    and "mem_store s'" and "sto_watchers s' = sto_watchers s" and "sto_pods s' = sto_pods s"
    and "is_ok r"
  using assms
  by (auto simp: mem_set_node_status mem_store_def split: option.splits if_splits)

lemma register_node_wf:
  "mem_store s \<Longrightarrow> wf_store s \<Longrightarrow> register_node nd s = (r, s') \<Longrightarrow> wf_store s' \<and> mem_store s'"
  by (auto simp: mem_register_node wf_store_def mem_store_def split: if_splits)

lemma set_node_status_wf:
  assumes "mem_store s" "wf_store s" "set_node_status nm st s = (r, s')"
  shows "wf_store s' \<and> mem_store s'"
  using assms mem_set_node_status_nodes[OF assms(1,3)]
  by (auto simp: wf_store_def split: option.splits if_splits)

lemma mem_node_watch_started:
  assumes "mem_store s"
  shows "node_watch_started nm s =
     (if sto_nodes s nm = None then (Inr False, s)
      else (Inr True,
        (let s1 = (if watcher_count nm s = 0 then snd (set_node_status nm NodeReady s) else s)
         in s1\<lparr>sto_watchers := (sto_watchers s1)(nm \<mapsto> watcher_count nm s + 1)\<rparr>)))"
proof -
  obtain r s1 where set: "set_node_status nm NodeReady s = (r, s1)" by fastforce
  with mem_set_node_status_nodes(5)[OF assms set] obtain b where "r = Inr b"
    by (auto simp: is_ok_iff)
  with set assms show ?thesis
    by (auto simp: node_watch_started_def sbind_def mem_get_node split: option.splits)
qed

section \<open>Sample data\<close>

text \<open>A node report and a pod, for the concrete runs of the other theories.\<close>

definition demo_node :: node where
  "demo_node = \<lparr>nd_name = ''n1'', nd_status = 0, nd_capacity = Some \<lparr>res_cpu = 4000, res_memory = 8192\<rparr>,
     nd_allocatable = Some \<lparr>res_cpu = 4000, res_memory = 8192\<rparr>, nd_ip = ''10.0.0.1''\<rparr>"

definition demo_pod :: pod_detail where
  "demo_pod = new_pod_detail
     \<lparr>pw_pod = Some \<lparr>p_name = ''web'', p_status = 0, p_requests = None, p_limits = None\<rparr>,
      pw_spec = Some \<lparr>ps_namespace = ''default'', ps_containers = []\<rparr>\<rparr>"

end
