(* ===== verification/Etcd_Backend.thy ===== *)
theory Etcd_Backend imports Store_Memory "HOL-Library.AList" begin

text \<open>
  The store over etcd. The client and the codec are parameters: \<open>etcd_kv\<close> states what etcd
  documents about a healthy server (a key-value map with one version counter per key, which starts
  at 1 when the key is put and is forgotten when it is deleted; a transaction compares versions and
  puts atomically), \<open>msg_codec\<close> that prost decodes what it encoded. Inside the locales the etcd
  branch of every store method is shown to do to the decoded contents of the server what the
  in-memory branch does to its maps (\<open>mem_view\<close>). A reference server shows that the laws can hold.
\<close>

section \<open>Contracts of the external code\<close>

definition version_of :: "(string \<Rightarrow> ('v \<times> int) option) \<Rightarrow> string \<Rightarrow> int" where
  "version_of m k = (case m k of None \<Rightarrow> 0 | Some e \<Rightarrow> snd e)"

definition put_entry :: "(string \<Rightarrow> ('v \<times> int) option) \<Rightarrow> string \<Rightarrow> 'v \<Rightarrow> string \<Rightarrow> ('v \<times> int) option" where
  "put_entry m k v = m(k \<mapsto> (v, version_of m k + 1))"

locale etcd_kv =
  fixes c :: "('w, 'v) etcd_client"
    and kvs :: "'w \<Rightarrow> string \<Rightarrow> ('v \<times> int) option"
  assumes get_law:
      "\<exists>w'. ec_get c k w =
         (Inr (case kvs w k of None \<Rightarrow> []
               | Some e \<Rightarrow> [\<lparr>kv_key = k, kv_value = fst e, kv_version = snd e\<rparr>]), w') \<and> kvs w' = kvs w"
    and prefix_law:
      "\<exists>l w'. ec_get_prefix c pre w = (Inr l, w') \<and> kvs w' = kvs w \<and> distinct (map kv_key l) \<and>
         (\<forall>kv. kv \<in> set l \<longleftrightarrow>
            starts_with pre (kv_key kv) \<and> kvs w (kv_key kv) = Some (kv_value kv, kv_version kv))"
    and put_law: "\<exists>w'. ec_put c k v w = (Inr (), w') \<and> kvs w' = put_entry (kvs w) k v"
    and delete_law: "\<exists>w'. ec_delete c k w = (Inr (), w') \<and> kvs w' = (kvs w)(k := None)"
    and txn_law:
      "\<exists>w'. ec_txn c [(k, n)] [(k', v)] w = (Inr (version_of (kvs w) k = n), w') \<and>
         kvs w' = (if version_of (kvs w) k = n then put_entry (kvs w) k' v else kvs w)"
    and version_pos: "kvs w k = Some e \<Longrightarrow> 0 < snd e"
begin

lemma version_zero_iff: "version_of (kvs w) k = 0 \<longleftrightarrow> kvs w k = None"
proof (cases "kvs w k")
  case None
  then show ?thesis by (simp add: version_of_def)
next
  case (Some e)
  with version_pos[OF Some] show ?thesis by (simp add: version_of_def)
qed

lemma run_get:
  obtains w' where
    "run_etcd (ec_get c k) s =
       (Inr (case kvs (sto_world s) k of None \<Rightarrow> []
             | Some e \<Rightarrow> [\<lparr>kv_key = k, kv_value = fst e, kv_version = snd e\<rparr>]), s\<lparr>sto_world := w'\<rparr>)"
    "kvs w' = kvs (sto_world s)"
  using get_law[of k "sto_world s"] by (auto simp: run_etcd_def)

lemma run_prefix:
  obtains l w' where "run_etcd (ec_get_prefix c pre) s = (Inr l, s\<lparr>sto_world := w'\<rparr>)"
    "kvs w' = kvs (sto_world s)" "distinct (map kv_key l)"
    "\<And>kv. kv \<in> set l \<longleftrightarrow>
       starts_with pre (kv_key kv) \<and> kvs (sto_world s) (kv_key kv) = Some (kv_value kv, kv_version kv)"
  using prefix_law[of pre "sto_world s"] by (fastforce simp: run_etcd_def)

lemma run_put:
  obtains w' where "run_etcd (ec_put c k v) s = (Inr (), s\<lparr>sto_world := w'\<rparr>)"
    "kvs w' = put_entry (kvs (sto_world s)) k v"
  using put_law[of k v "sto_world s"] by (auto simp: run_etcd_def)

lemma run_delete:
  obtains w' where "run_etcd (ec_delete c k) s = (Inr (), s\<lparr>sto_world := w'\<rparr>)"
    "kvs w' = (kvs (sto_world s))(k := None)"
  using delete_law[of k "sto_world s"] by (auto simp: run_etcd_def)

lemma run_txn:
  obtains w' where
    "run_etcd (ec_txn c [(k, n)] [(k', v)]) s =
       (Inr (version_of (kvs (sto_world s)) k = n), s\<lparr>sto_world := w'\<rparr>)"
    "kvs w' = (if version_of (kvs (sto_world s)) k = n then put_entry (kvs (sto_world s)) k' v
               else kvs (sto_world s))"
  using txn_law[of k n k' v "sto_world s"] by (auto simp: run_etcd_def)

end

locale msg_codec =
  fixes c :: "('w, 'v) etcd_client"
  assumes dec_enc_pod: "dec_pod c (enc_pod c p) = Inr p"
    and dec_enc_node: "dec_node c (enc_node c nd) = Inr nd"

locale etcd_server = etcd_kv c kvs + msg_codec c
  for c :: "('w, 'v) etcd_client" and kvs :: "'w \<Rightarrow> string \<Rightarrow> ('v \<times> int) option"

section \<open>Keys\<close>

definition slash_free :: "pod_key \<Rightarrow> bool" where
  "slash_free k \<longleftrightarrow> CHR ''/'' \<notin> set (fst k) \<and> CHR ''/'' \<notin> set (snd k)"

lemma pod_key_etcd_split: "pod_key_etcd k = pods_prefix @ fst k @ CHR ''/'' # snd k"
  by (simp add: pod_key_etcd_def pod_etcd_key_def pods_prefix_def)

lemma node_key_split: "node_etcd_key nm = nodes_prefix @ nm"
  by (simp add: node_etcd_key_def nodes_prefix_def)

text \<open>A stored key has exactly one slash after the prefix, so no other pair of strings, with
  slashes or without, maps to it.\<close>

lemma pod_key_etcd_inj:
  assumes "slash_free k" "pod_key_etcd k' = pod_key_etcd k"
  shows "k' = k"
proof -
  have eq: "fst k' @ CHR ''/'' # snd k' = fst k @ CHR ''/'' # snd k"
    using assms(2) by (simp add: pod_key_etcd_split)
  have "CHR ''/'' \<notin> set (fst k')"
  proof
    assume "CHR ''/'' \<in> set (fst k')"
    then have "2 \<le> count_list (fst k' @ CHR ''/'' # snd k') (CHR ''/'')"
      using count_list_0_iff[of "fst k'" "CHR ''/''"] by (simp add: Suc_le_eq)
    moreover have "count_list (fst k @ CHR ''/'' # snd k) (CHR ''/'') = 1"
      using assms(1) by (simp add: slash_free_def)
    ultimately show False using eq by simp
  qed
  then have "split_once (CHR ''/'') (fst k' @ CHR ''/'' # snd k') = Some (fst k', snd k')"
    by (rule split_once_append)
  moreover have "split_once (CHR ''/'') (fst k @ CHR ''/'' # snd k) = Some (fst k, snd k)"
    using assms(1) by (intro split_once_append) (simp add: slash_free_def)
  ultimately have "(fst k', snd k') = (fst k, snd k)"
    unfolding eq by (simp only: option.inject)
  then show ?thesis by (simp only: prod.collapse)
qed

lemma key_prefixes [simp]:
  "starts_with pods_prefix (pod_key_etcd k)" "starts_with nodes_prefix (node_etcd_key nm)"
  "\<not> starts_with pods_prefix (node_etcd_key nm)" "\<not> starts_with nodes_prefix (pod_key_etcd k)"
  by (simp_all add: starts_with_def pod_key_etcd_def pod_etcd_key_def node_etcd_key_def
      pods_prefix_def nodes_prefix_def)

lemma node_keys [simp]:
  "node_etcd_key a = node_etcd_key b \<longleftrightarrow> a = b"
  "node_etcd_key a \<noteq> pod_key_etcd k" "pod_key_etcd k \<noteq> node_etcd_key a"
  by (auto simp: node_etcd_key_def pod_key_etcd_def pod_etcd_key_def)

section \<open>The decoded contents of the server\<close>

definition pod_at :: "('w, 'v) etcd_client \<Rightarrow> (string \<Rightarrow> ('v \<times> int) option) \<Rightarrow> pod_key \<Rightarrow> pod_detail option" where
  "pod_at c m k = (case m (pod_key_etcd k) of None \<Rightarrow> None
     | Some e \<Rightarrow> (case dec_pod c (fst e) of Inl _ \<Rightarrow> None | Inr p \<Rightarrow> Some p))"

definition node_at :: "('w, 'v) etcd_client \<Rightarrow> (string \<Rightarrow> ('v \<times> int) option) \<Rightarrow> string \<Rightarrow> node option" where
  "node_at c m nm = (case m (node_etcd_key nm) of None \<Rightarrow> None
     | Some e \<Rightarrow> (case dec_node c (fst e) of Inl _ \<Rightarrow> None | Inr nd \<Rightarrow> Some nd))"

text \<open>Only the API server writes under its two prefixes, and it writes well-formed entries.\<close>

definition entries_ok :: "('w, 'v) etcd_client \<Rightarrow> (string \<Rightarrow> ('v \<times> int) option) \<Rightarrow> bool" where
  "entries_ok c m \<longleftrightarrow>
     (\<forall>key e. m key = Some e \<longrightarrow>
        (starts_with pods_prefix key \<longrightarrow>
           (\<exists>k p. slash_free k \<and> key = pod_key_etcd k \<and> dec_pod c (fst e) = Inr p \<and> pod_key p = k)) \<and>
        (starts_with nodes_prefix key \<longrightarrow>
           (\<exists>nd. dec_node c (fst e) = Inr nd \<and> key = node_etcd_key (nd_name nd))))"

definition etcd_wf :: "('w, 'v) etcd_client \<Rightarrow> ('w \<Rightarrow> string \<Rightarrow> ('v \<times> int) option) \<Rightarrow> ('w, 'v) store \<Rightarrow> bool" where
  "etcd_wf c kvs s \<longleftrightarrow> sto_client s = Some c \<and> sto_pods s = Map.empty \<and> sto_nodes s = Map.empty \<and>
     entries_ok c (kvs (sto_world s))"

definition mem_view :: "('w, 'v) etcd_client \<Rightarrow> ('w \<Rightarrow> string \<Rightarrow> ('v \<times> int) option) \<Rightarrow> ('w, 'v) store \<Rightarrow> (unit, 'v) store" where
  "mem_view c kvs s =
     \<lparr>sto_client = None, sto_world = (), sto_pods = pod_at c (kvs (sto_world s)),
      sto_nodes = node_at c (kvs (sto_world s)), sto_pod_events = sto_pod_events s,
      sto_node_events = sto_node_events s, sto_watchers = sto_watchers s,
      sto_ds_channels = sto_ds_channels s, sto_ds_created = sto_ds_created s,
      sto_ds_events = sto_ds_events s\<rparr>"

lemma mem_view_sel [simp]:
  "sto_client (mem_view c kvs s) = None" "sto_world (mem_view c kvs s) = ()"
  "sto_pods (mem_view c kvs s) = pod_at c (kvs (sto_world s))"
  "sto_nodes (mem_view c kvs s) = node_at c (kvs (sto_world s))"
  "sto_pod_events (mem_view c kvs s) = sto_pod_events s"
  "sto_node_events (mem_view c kvs s) = sto_node_events s"
  "sto_watchers (mem_view c kvs s) = sto_watchers s"
  "sto_ds_channels (mem_view c kvs s) = sto_ds_channels s"
  "sto_ds_created (mem_view c kvs s) = sto_ds_created s"
  "sto_ds_events (mem_view c kvs s) = sto_ds_events s"
  by (simp_all add: mem_view_def)

lemma mem_view_mem [simp]: "mem_store (mem_view c kvs s)"
  by (simp add: mem_store_def)

lemma entries_ok_pod:
  "entries_ok c m \<Longrightarrow> m key = Some e \<Longrightarrow> starts_with pods_prefix key \<Longrightarrow>
   \<exists>k p. slash_free k \<and> key = pod_key_etcd k \<and> dec_pod c (fst e) = Inr p \<and> pod_key p = k"
  unfolding entries_ok_def by blast

lemma entries_ok_node:
  "entries_ok c m \<Longrightarrow> m key = Some e \<Longrightarrow> starts_with nodes_prefix key \<Longrightarrow>
   \<exists>nd. dec_node c (fst e) = Inr nd \<and> key = node_etcd_key (nd_name nd)"
  unfolding entries_ok_def by blast

lemma entries_okI:
  assumes "\<And>key e. m key = Some e \<Longrightarrow> starts_with pods_prefix key \<Longrightarrow>
      \<exists>k p. slash_free k \<and> key = pod_key_etcd k \<and> dec_pod c (fst e) = Inr p \<and> pod_key p = k"
    and "\<And>key e. m key = Some e \<Longrightarrow> starts_with nodes_prefix key \<Longrightarrow>
      \<exists>nd. dec_node c (fst e) = Inr nd \<and> key = node_etcd_key (nd_name nd)"
  shows "entries_ok c m"
  unfolding entries_ok_def using assms by blast

lemma entries_okI_pod:
  assumes "entries_ok c m" "slash_free (pod_key p)" "dec_pod c v = Inr p"
  shows "entries_ok c (put_entry m (pod_key_etcd (pod_key p)) v)"
proof (rule entries_okI)
  fix key e
  assume e: "put_entry m (pod_key_etcd (pod_key p)) v key = Some e"
  { assume "starts_with pods_prefix key"
    then show "\<exists>k p. slash_free k \<and> key = pod_key_etcd k \<and> dec_pod c (fst e) = Inr p \<and> pod_key p = k"
      using e assms entries_ok_pod[OF assms(1)]
      by (cases "key = pod_key_etcd (pod_key p)") (fastforce simp: put_entry_def)+ }
  assume "starts_with nodes_prefix key"
  then show "\<exists>nd. dec_node c (fst e) = Inr nd \<and> key = node_etcd_key (nd_name nd)"
    using e entries_ok_node[OF assms(1)]
    by (cases "key = pod_key_etcd (pod_key p)") (auto simp: put_entry_def)
qed

lemma entries_okI_node:
  assumes "entries_ok c m" "dec_node c v = Inr nd"
  shows "entries_ok c (put_entry m (node_etcd_key (nd_name nd)) v)"
proof (rule entries_okI)
  fix key e
  assume e: "put_entry m (node_etcd_key (nd_name nd)) v key = Some e"
  { assume "starts_with pods_prefix key"
    then show "\<exists>k p. slash_free k \<and> key = pod_key_etcd k \<and> dec_pod c (fst e) = Inr p \<and> pod_key p = k"
      using e entries_ok_pod[OF assms(1)]
      by (cases "key = node_etcd_key (nd_name nd)") (simp_all add: put_entry_def) }
  assume "starts_with nodes_prefix key"
  then show "\<exists>nd. dec_node c (fst e) = Inr nd \<and> key = node_etcd_key (nd_name nd)"
    using e assms(2) entries_ok_node[OF assms(1)]
    by (cases "key = node_etcd_key (nd_name nd)") (fastforce simp: put_entry_def)+
qed

lemma entries_ok_delete: "entries_ok c m \<Longrightarrow> entries_ok c (m(k := None))"
  by (rule entries_okI) (auto dest: entries_ok_pod entries_ok_node split: if_splits)

lemma pod_entry:
  assumes "entries_ok c m" "m (pod_key_etcd k) = Some e"
  obtains p where "dec_pod c (fst e) = Inr p" "pod_key p = k" "slash_free k" "pod_at c m k = Some p"
proof -
  from entries_ok_pod[OF assms] obtain k' p where k': "slash_free k'" "pod_key_etcd k = pod_key_etcd k'"
    "dec_pod c (fst e) = Inr p" "pod_key p = k'"
    by auto
  then have "k' = k" using pod_key_etcd_inj by blast
  with k' assms(2) show ?thesis by (intro that) (simp_all add: pod_at_def)
qed

lemma node_entry:
  assumes "entries_ok c m" "m (node_etcd_key nm) = Some e"
  obtains nd where "dec_node c (fst e) = Inr nd" "nd_name nd = nm" "node_at c m nm = Some nd"
proof -
  from entries_ok_node[OF assms] obtain nd where
    "node_etcd_key nm = node_etcd_key (nd_name nd)" "dec_node c (fst e) = Inr nd"
    by auto
  with assms(2) show ?thesis by (intro that) (simp_all add: node_at_def)
qed

lemma pod_at_None: "m (pod_key_etcd k) = None \<Longrightarrow> pod_at c m k = None"
  by (simp add: pod_at_def)

lemma node_at_None: "m (node_etcd_key k) = None \<Longrightarrow> node_at c m k = None"
  by (simp add: node_at_def)

lemma pod_at_put:
  assumes "slash_free k" "dec_pod c v = Inr p"
  shows "pod_at c (put_entry m (pod_key_etcd k) v) = (pod_at c m)(k \<mapsto> p)"
    and "node_at c (put_entry m (pod_key_etcd k) v) = node_at c m"
proof -
  show "pod_at c (put_entry m (pod_key_etcd k) v) = (pod_at c m)(k \<mapsto> p)"
  proof
    fix k'
    show "pod_at c (put_entry m (pod_key_etcd k) v) k' = ((pod_at c m)(k \<mapsto> p)) k'"
      using pod_key_etcd_inj[OF assms(1), of k'] assms(2) by (auto simp: pod_at_def put_entry_def)
  qed
  show "node_at c (put_entry m (pod_key_etcd k) v) = node_at c m"
    by (rule ext) (simp add: node_at_def put_entry_def)
qed

lemma node_at_put:
  assumes "dec_node c v = Inr nd"
  shows "node_at c (put_entry m (node_etcd_key nm) v) = (node_at c m)(nm \<mapsto> nd)"
    and "pod_at c (put_entry m (node_etcd_key nm) v) = pod_at c m"
  using assms by (auto simp: node_at_def pod_at_def put_entry_def fun_eq_iff)

text \<open>Deleting a key that is not stored changes nothing; a stored key names one pod.\<close>

lemma pod_at_delete:
  assumes "entries_ok c m"
  shows "pod_at c (m(pod_key_etcd k := None)) = (pod_at c m)(k := None)"
    and "node_at c (m(pod_key_etcd k := None)) = node_at c m"
proof -
  show "pod_at c (m(pod_key_etcd k := None)) = (pod_at c m)(k := None)"
  proof (cases "m (pod_key_etcd k)")
    case None
    then have "m(pod_key_etcd k := None) = m" by auto
    moreover have "(pod_at c m)(k := None) = pod_at c m"
      using pod_at_None[of m k c] None by auto
    ultimately show ?thesis by simp
  next
    case (Some e)
    then have "slash_free k" using pod_entry[OF assms Some] by metis
    with pod_key_etcd_inj show ?thesis by (auto simp: pod_at_def fun_eq_iff)
  qed
  show "node_at c (m(pod_key_etcd k := None)) = node_at c m"
    by (rule ext) (simp add: node_at_def)
qed

section \<open>Simulation of the methods\<close>

text \<open>The etcd method and the in-memory method give the same result, and the stores after them
  are again related.\<close>

definition same_effect ::
  "('w, 'v) etcd_client \<Rightarrow> ('w \<Rightarrow> string \<Rightarrow> ('v \<times> int) option) \<Rightarrow> (('w, 'v) store, 'e, 'a) op
   \<Rightarrow> ((unit, 'v) store, 'e, 'a) op \<Rightarrow> ('w, 'v) store \<Rightarrow> bool" where
  "same_effect c kvs f g s \<longleftrightarrow>
     g (mem_view c kvs s) = (fst (f s), mem_view c kvs (snd (f s))) \<and> etcd_wf c kvs (snd (f s))"

lemma same_effectI:
  "f s = (r, s') \<Longrightarrow> g (mem_view c kvs s) = (r, mem_view c kvs s') \<Longrightarrow> etcd_wf c kvs s' \<Longrightarrow>
   same_effect c kvs f g s"
  by (simp add: same_effect_def)

lemma same_effectD:
  "same_effect c kvs f g s \<Longrightarrow> f s = (r, s') \<Longrightarrow>
   g (mem_view c kvs s) = (r, mem_view c kvs s') \<and> etcd_wf c kvs s'"
  by (simp add: same_effect_def)

lemma mem_view_upd [simp]:
  "mem_view c kvs (publish_pod_event et p s) = publish_pod_event et p (mem_view c kvs s)"
  "mem_view c kvs (publish_node_event et nd s) = publish_node_event et nd (mem_view c kvs s)"
  "mem_view c kvs (s\<lparr>sto_watchers := wt\<rparr>) = (mem_view c kvs s)\<lparr>sto_watchers := wt\<rparr>"
  by (simp_all add: mem_view_def publish_pod_event_def publish_node_event_def)

lemma mem_view_world:
  "mem_view c kvs (s\<lparr>sto_world := w\<rparr>) =
     (mem_view c kvs s)\<lparr>sto_pods := pod_at c (kvs w), sto_nodes := node_at c (kvs w)\<rparr>"
  by (simp add: mem_view_def)

lemma mem_view_triv [simp]:
  "(mem_view c kvs s)\<lparr>sto_pods := pod_at c (kvs (sto_world s))\<rparr> = mem_view c kvs s"
  "(mem_view c kvs s)\<lparr>sto_nodes := node_at c (kvs (sto_world s))\<rparr> = mem_view c kvs s"
  by (simp_all add: mem_view_def)

lemma mem_view_same_world:
  "kvs w = kvs (sto_world s) \<Longrightarrow> mem_view c kvs (s\<lparr>sto_world := w\<rparr>) = mem_view c kvs s"
  by (simp add: mem_view_def)

lemma etcd_wf_upd [simp]:
  "etcd_wf c kvs (publish_pod_event et p s) = etcd_wf c kvs s"
  "etcd_wf c kvs (publish_node_event et nd s) = etcd_wf c kvs s"
  "etcd_wf c kvs (s\<lparr>sto_watchers := wt\<rparr>) = etcd_wf c kvs s"
  by (simp_all add: etcd_wf_def)

lemma etcd_wf_world:
  "etcd_wf c kvs s \<Longrightarrow> entries_ok c (kvs w) \<Longrightarrow> etcd_wf c kvs (s\<lparr>sto_world := w\<rparr>)"
  by (simp add: etcd_wf_def)

lemma etcd_wf_client: "etcd_wf c kvs s \<Longrightarrow> sto_client s = Some c"
  by (simp add: etcd_wf_def)

lemma etcd_wf_entries: "etcd_wf c kvs s \<Longrightarrow> entries_ok c (kvs (sto_world s))"
  by (simp add: etcd_wf_def)

lemma same_effect_bind:
  assumes "same_effect c kvs f g s"
    and "\<And>x s'. f s = (Inr x, s') \<Longrightarrow> etcd_wf c kvs s' \<Longrightarrow> same_effect c kvs (h x) (k x) s'"
  shows "same_effect c kvs (sbind f h) (sbind g k) s"
proof -
  obtain r s' where f: "f s = (r, s')" by fastforce
  note eff = same_effectD[OF assms(1) f]
  show ?thesis
  proof (cases r)
    case (Inl e)
    with f eff show ?thesis by (simp add: same_effect_def)
  next
    case (Inr x)
    with f eff assms(2)[of x s'] show ?thesis by (simp add: same_effect_def)
  qed
qed

lemma same_effect_sret [simp]: "same_effect c kvs (sret x) (sret x) s = etcd_wf c kvs s"
  by (simp add: same_effect_def)

lemma decode_or_Inr [simp]: "decode_or (Inr x) s = (Inr x, s)"
  by (simp add: decode_or_def)

text \<open>A prefix scan that decodes entry by entry is an iteration over the decoded map.\<close>

lemma decode_all_simps [simp]:
  "decode_all dec [] = []"
  "decode_all dec (kv # l) =
     (case dec (kv_value kv) of Inl _ \<Rightarrow> decode_all dec l | Inr x \<Rightarrow> x # decode_all dec l)"
  by (auto simp: decode_all_def List.map_filter_def split: sum.splits)

lemma decode_all_set: "x \<in> set (decode_all dec l) \<longleftrightarrow> (\<exists>kv \<in> set l. dec (kv_value kv) = Inr x)"
  by (induction l) (auto split: sum.splits)

lemma decode_all_view:
  assumes "distinct (map kv_key l)"
    and all: "\<And>kv. kv \<in> set l \<Longrightarrow>
      \<exists>x. dec (kv_value kv) = Inr x \<and> kv_key kv = keyof (idx x) \<and> view (idx x) = Some x"
    and onto: "\<And>k x. view k = Some x \<Longrightarrow> \<exists>kv \<in> set l. dec (kv_value kv) = Inr x \<and> idx x = k"
  shows "\<exists>ord. iter_order view ord \<and> map_values view ord = decode_all dec l"
proof (intro exI conjI)
  let ?ord = "map idx (decode_all dec l)"
  have keys: "map kv_key l = map keyof ?ord"
    using all
  proof (induction l)
    case (Cons kv l)
    obtain x where "dec (kv_value kv) = Inr x" "kv_key kv = keyof (idx x)"
      using Cons.prems[of kv] by auto
    with Cons show ?case by simp
  qed simp
  have "distinct ?ord"
    using assms(1) unfolding keys by (simp only: distinct_map)
  moreover have "set ?ord = dom view"
  proof (intro equalityI subsetI)
    fix k assume "k \<in> set ?ord"
    then obtain kv x where "kv \<in> set l" "dec (kv_value kv) = Inr x" "k = idx x"
      by (auto simp: decode_all_set)
    then show "k \<in> dom view" using all[of kv] by auto
  next
    fix k assume "k \<in> dom view"
    then obtain x where "view k = Some x" by blast
    from onto[OF this] obtain kv where "kv \<in> set l" "dec (kv_value kv) = Inr x" "idx x = k" by blast
    then have "x \<in> set (decode_all dec l)" "idx x = k" by (auto simp: decode_all_set)
    then show "k \<in> set ?ord" by auto
  qed
  ultimately show "iter_order view ?ord" by (simp add: iter_order_def)
  show "map_values view ?ord = decode_all dec l"
    using all
  proof (induction l)
    case (Cons kv l)
    obtain x where "dec (kv_value kv) = Inr x" "view (idx x) = Some x"
      using Cons.prems[of kv] by auto
    with Cons show ?case by simp
  qed simp
qed

context etcd_server
begin

lemma sim_upsert_pod:
  assumes wf: "etcd_wf c kvs s" and "slash_free (pod_key p)"
  shows "same_effect c kvs (upsert_pod p) (upsert_pod p) s"
proof -
  obtain w where w: "run_etcd (ec_put c (pod_key_etcd (pod_key p)) (enc_pod c p)) s = (Inr (), s\<lparr>sto_world := w\<rparr>)"
    "kvs w = put_entry (kvs (sto_world s)) (pod_key_etcd (pod_key p)) (enc_pod c p)"
    by (rule run_put)
  show ?thesis
  proof (rule same_effectI)
    show "upsert_pod p s = (Inr (), s\<lparr>sto_world := w\<rparr>)"
      using w wf by (simp add: upsert_pod_def etcd_wf_client)
    show "upsert_pod p (mem_view c kvs s) = (Inr (), mem_view c kvs (s\<lparr>sto_world := w\<rparr>))"
      using assms(2) by (simp add: upsert_pod_def mem_view_world w(2) pod_at_put[OF assms(2) dec_enc_pod])
    show "etcd_wf c kvs (s\<lparr>sto_world := w\<rparr>)"
      using w(2) by (intro etcd_wf_world[OF wf])
        (simp add: entries_okI_pod[OF etcd_wf_entries[OF wf] assms(2) dec_enc_pod])
  qed
qed

lemma sim_create_pod:
  assumes wf: "etcd_wf c kvs s" and sf: "slash_free (pod_key p)"
  shows "same_effect c kvs (create_pod p) (create_pod p) s"
proof -
  let ?k = "pod_key_etcd (pod_key p)" and ?m = "kvs (sto_world s)"
  obtain w where w: "run_etcd (ec_txn c [(?k, 0)] [(?k, enc_pod c p)]) s =
      (Inr (version_of ?m ?k = 0), s\<lparr>sto_world := w\<rparr>)"
    "kvs w = (if version_of ?m ?k = 0 then put_entry ?m ?k (enc_pod c p) else ?m)"
    by (rule run_txn)
  note run = w(1)[unfolded version_zero_iff] and cont = w(2)[unfolded version_zero_iff]
  show ?thesis
  proof (cases "?m ?k")
    case None
    have run': "create_pod p s = (Inr True, publish_pod_event EvAdded p (s\<lparr>sto_world := w\<rparr>))"
      using run None wf by (simp add: create_pod_def etcd_wf_client Let_def)
    have view: "create_pod p (mem_view c kvs s) =
        (Inr True, mem_view c kvs (publish_pod_event EvAdded p (s\<lparr>sto_world := w\<rparr>)))"
      using None cont pod_at_put[OF sf dec_enc_pod[of p], of ?m]
      by (simp add: mem_create_pod_new pod_at_None mem_view_world)
    show ?thesis
      using cont None entries_okI_pod[OF etcd_wf_entries[OF wf] sf dec_enc_pod]
      by (intro same_effectI[where f = "create_pod p" and g = "create_pod p", OF run' view])
         (simp add: etcd_wf_world[OF wf])
  next
    case (Some e)
    obtain p0 where "pod_at c ?m (pod_key p) = Some p0"
      using pod_entry[OF etcd_wf_entries[OF wf] Some] by metis
    moreover have run': "create_pod p s = (Inr False, s\<lparr>sto_world := w\<rparr>)"
      using run Some wf by (simp add: create_pod_def etcd_wf_client Let_def sbind_def)
    ultimately show ?thesis
      using cont Some
      by (intro same_effectI[where f = "create_pod p", OF run'])
         (simp_all add: mem_create_pod_dup mem_view_same_world etcd_wf_world[OF wf] etcd_wf_entries[OF wf])
  qed
qed

text \<open>What a read of one pod or node key returns, with the world it leaves behind.\<close>

lemma read_pod:
  assumes wf: "etcd_wf c kvs s"
  obtains (absent) w where "run_etcd (ec_get c (pod_etcd_key ns nm)) s = (Inr [], s\<lparr>sto_world := w\<rparr>)"
      "kvs w = kvs (sto_world s)" "kvs w (pod_etcd_key ns nm) = None"
      "pod_at c (kvs (sto_world s)) (ns, nm) = None"
  | (present) w v n p where "run_etcd (ec_get c (pod_etcd_key ns nm)) s =
        (Inr [\<lparr>kv_key = pod_etcd_key ns nm, kv_value = v, kv_version = n\<rparr>], s\<lparr>sto_world := w\<rparr>)"
      "kvs w = kvs (sto_world s)" "kvs w (pod_etcd_key ns nm) = Some (v, n)" "dec_pod c v = Inr p"
      "pod_key p = (ns, nm)" "slash_free (ns, nm)" "pod_at c (kvs (sto_world s)) (ns, nm) = Some p"
proof -
  let ?k = "pod_etcd_key ns nm" and ?m = "kvs (sto_world s)"
  obtain w where w: "run_etcd (ec_get c ?k) s =
       (Inr (case ?m ?k of None \<Rightarrow> []
             | Some e \<Rightarrow> [\<lparr>kv_key = ?k, kv_value = fst e, kv_version = snd e\<rparr>]), s\<lparr>sto_world := w\<rparr>)"
    "kvs w = ?m"
    by (rule run_get)
  have k: "?k = pod_key_etcd (ns, nm)" by (simp add: pod_key_etcd_def)
  show ?thesis
  proof (cases "?m ?k")
    case None
    with w k show ?thesis by (intro absent[where w = w]) (simp_all add: pod_at_None)
  next
    case (Some e)
    obtain p where "dec_pod c (fst e) = Inr p" "pod_key p = (ns, nm)" "slash_free (ns, nm)"
        "pod_at c ?m (ns, nm) = Some p"
      using pod_entry[OF etcd_wf_entries[OF wf], of "(ns, nm)" e] Some k by metis
    with Some w show ?thesis by (intro present[where w = w and v = "fst e" and n = "snd e" and p = p]) simp_all
  qed
qed

lemma read_node:
  assumes wf: "etcd_wf c kvs s"
  obtains (absent) w where "run_etcd (ec_get c (node_etcd_key nm)) s = (Inr [], s\<lparr>sto_world := w\<rparr>)"
      "kvs w = kvs (sto_world s)" "node_at c (kvs (sto_world s)) nm = None"
  | (present) w v n nd where "run_etcd (ec_get c (node_etcd_key nm)) s =
        (Inr [\<lparr>kv_key = node_etcd_key nm, kv_value = v, kv_version = n\<rparr>], s\<lparr>sto_world := w\<rparr>)"
      "kvs w = kvs (sto_world s)" "dec_node c v = Inr nd" "nd_name nd = nm"
      "node_at c (kvs (sto_world s)) nm = Some nd"
proof -
  let ?k = "node_etcd_key nm" and ?m = "kvs (sto_world s)"
  obtain w where w: "run_etcd (ec_get c ?k) s =
       (Inr (case ?m ?k of None \<Rightarrow> []
             | Some e \<Rightarrow> [\<lparr>kv_key = ?k, kv_value = fst e, kv_version = snd e\<rparr>]), s\<lparr>sto_world := w\<rparr>)"
    "kvs w = ?m"
    by (rule run_get)
  show ?thesis
  proof (cases "?m ?k")
    case None
    with w show ?thesis by (intro absent[where w = w]) (simp_all add: node_at_None)
  next
    case (Some e)
    obtain nd where "dec_node c (fst e) = Inr nd" "nd_name nd = nm" "node_at c ?m nm = Some nd"
      using node_entry[OF etcd_wf_entries[OF wf] Some] by metis
    with Some w show ?thesis by (intro present[where w = w and v = "fst e" and n = "snd e" and nd = nd]) simp_all
  qed
qed

lemmas same_contents = mem_view_same_world etcd_wf_world etcd_wf_entries

lemma sim_get_pod:
  assumes wf: "etcd_wf c kvs s"
  shows "same_effect c kvs (get_pod ns nm) (get_pod ns nm) s"
proof (cases rule: read_pod[OF wf, of ns nm])
  case (1 w)
  then have "get_pod ns nm s = (Inr None, s\<lparr>sto_world := w\<rparr>)"
    using wf by (simp add: get_pod_def etcd_wf_client first_kv_def)
  then show ?thesis
    by (rule same_effectI) (use 1 wf in \<open>simp_all add: mem_get_pod same_contents\<close>)
next
  case (2 w v n p)
  then have "get_pod ns nm s = (Inr (Some p), s\<lparr>sto_world := w\<rparr>)"
    using wf by (simp add: get_pod_def etcd_wf_client first_kv_def)
  then show ?thesis
    by (rule same_effectI) (use 2 wf in \<open>simp_all add: mem_get_pod same_contents\<close>)
qed

lemma sim_get_node:
  assumes wf: "etcd_wf c kvs s"
  shows "same_effect c kvs (get_node nm) (get_node nm) s"
proof (cases rule: read_node[OF wf, of nm])
  case (1 w)
  then have "get_node nm s = (Inr None, s\<lparr>sto_world := w\<rparr>)"
    using wf by (simp add: get_node_def etcd_wf_client first_kv_def)
  then show ?thesis
    by (rule same_effectI) (use 1 wf in \<open>simp_all add: mem_get_node same_contents\<close>)
next
  case (2 w v n nd)
  then have "get_node nm s = (Inr (Some nd), s\<lparr>sto_world := w\<rparr>)"
    using wf by (simp add: get_node_def etcd_wf_client first_kv_def)
  then show ?thesis
    by (rule same_effectI) (use 2 wf in \<open>simp_all add: mem_get_node same_contents\<close>)
qed

lemma sim_remove_pod:
  assumes wf: "etcd_wf c kvs s"
  shows "same_effect c kvs (remove_pod ns nm) (remove_pod ns nm) s"
proof -
  let ?k = "pod_etcd_key ns nm"
  have k: "?k = pod_key_etcd (ns, nm)" by (simp add: pod_key_etcd_def)
  note gone = pod_at_delete[OF etcd_wf_entries[OF wf], of "(ns, nm)", folded k]
    and ok = entries_ok_delete[OF etcd_wf_entries[OF wf], of ?k]
  show ?thesis
  proof (cases rule: read_pod[OF wf, of ns nm])
    case (1 w)
    obtain w2 where w2: "run_etcd (ec_delete c ?k) (s\<lparr>sto_world := w\<rparr>) = (Inr (), s\<lparr>sto_world := w2\<rparr>)"
      "kvs w2 = (kvs (sto_world s))(?k := None)"
      by (rule run_delete[of ?k "s\<lparr>sto_world := w\<rparr>"]) (use 1 in simp)
    have run: "remove_pod ns nm s = (Inr None, s\<lparr>sto_world := w2\<rparr>)"
      using 1 w2 wf by (simp add: remove_pod_def etcd_wf_client first_kv_def Let_def)
    show ?thesis
      using 1 w2 wf gone ok
      by (intro same_effectI[where f = "remove_pod ns nm", OF run])
         (simp_all add: mem_remove_pod mem_view_world etcd_wf_world fun_upd_idem)
  next
    case (2 w v n p)
    obtain w2 where w2: "run_etcd (ec_delete c ?k) (s\<lparr>sto_world := w\<rparr>) = (Inr (), s\<lparr>sto_world := w2\<rparr>)"
      "kvs w2 = (kvs (sto_world s))(?k := None)"
      by (rule run_delete[of ?k "s\<lparr>sto_world := w\<rparr>"]) (use 2 in simp)
    have run: "remove_pod ns nm s = (Inr (Some p), publish_pod_event EvDeleted p (s\<lparr>sto_world := w2\<rparr>))"
      using 2 w2 wf by (simp add: remove_pod_def etcd_wf_client first_kv_def Let_def)
    show ?thesis
      using 2 w2 wf gone ok
      by (intro same_effectI[where f = "remove_pod ns nm", OF run])
         (auto simp: mem_remove_pod mem_view_world etcd_wf_world)
  qed
qed

lemma sim_update_pod:
  assumes wf: "etcd_wf c kvs s" and key: "\<And>p. pod_key (fst (mutate p)) = pod_key p"
  shows "same_effect c kvs (update_and_publish_pod ns nm et mutate cap)
           (update_and_publish_pod ns nm et mutate cap) s"
proof (cases rule: read_pod[OF wf, of ns nm])
  case (1 w)
  then have "update_and_publish_pod ns nm et mutate cap s = (Inr (False, cap), s\<lparr>sto_world := w\<rparr>)"
    using wf by (simp add: update_and_publish_pod_def etcd_wf_client first_kv_def)
  then show ?thesis
    by (rule same_effectI) (use 1 wf in \<open>simp_all add: mem_update_pod_none same_contents\<close>)
next
  case (2 w v n p0)
  let ?k = "pod_etcd_key ns nm" and ?m = "kvs (sto_world s)"
  obtain p cap' where mut: "mutate p0 = (p, cap')" by (cases "mutate p0")
  have k: "?k = pod_key_etcd (pod_key p)" and pk: "pod_key p = (ns, nm)"
    using key[of p0] mut 2 by (simp_all add: pod_key_etcd_def)
  have ver: "version_of ?m ?k = n" using 2 by (simp add: version_of_def)
  obtain w2 where w2: "run_etcd (ec_txn c [(?k, n)] [(?k, enc_pod c p)]) (s\<lparr>sto_world := w\<rparr>) =
      (Inr True, s\<lparr>sto_world := w2\<rparr>)" "kvs w2 = put_entry ?m ?k (enc_pod c p)"
    by (rule run_txn[of ?k n ?k "enc_pod c p" "s\<lparr>sto_world := w\<rparr>"]) (use 2 ver in simp)
  have run: "update_and_publish_pod ns nm et mutate cap s =
      (Inr (True, cap'), publish_pod_event et p (s\<lparr>sto_world := w2\<rparr>))"
    using 2 w2 wf mut by (simp add: update_and_publish_pod_def etcd_wf_client first_kv_def Let_def)
  have sf: "slash_free (pod_key p)" using 2 pk by simp
  note put = pod_at_put[OF sf dec_enc_pod[of p], of ?m, folded k]
    and ok = entries_okI_pod[OF etcd_wf_entries[OF wf] sf dec_enc_pod[of p], folded k]
  show ?thesis
    using 2 w2 wf put ok pk
    by (intro same_effectI[where f = "update_and_publish_pod ns nm et mutate cap", OF run])
       (simp_all add: mem_update_pod_some[where mutate = mutate and p = p and cap' = cap', OF _ _ mut] mem_view_world etcd_wf_world)
qed

lemma sim_set_node_status:
  assumes wf: "etcd_wf c kvs s"
  shows "same_effect c kvs (set_node_status nm st) (set_node_status nm st) s"
proof (cases rule: read_node[OF wf, of nm])
  case (1 w)
  then have "set_node_status nm st s = (Inr False, s\<lparr>sto_world := w\<rparr>)"
    using wf by (simp add: set_node_status_def etcd_wf_client first_kv_def)
  then show ?thesis
    by (rule same_effectI) (use 1 wf in \<open>simp_all add: mem_set_node_status same_contents\<close>)
next
  case (2 w v n nd)
  let ?k = "node_etcd_key nm" and ?m = "kvs (sto_world s)"
  show ?thesis
  proof (cases "nd_status nd = node_status_i32 st")
    case True
    then have "set_node_status nm st s = (Inr False, s\<lparr>sto_world := w\<rparr>)"
      using wf 2 by (simp add: set_node_status_def etcd_wf_client first_kv_def)
    then show ?thesis
      by (rule same_effectI) (use 2 wf True in \<open>simp_all add: mem_set_node_status same_contents\<close>)
  next
    case False
    define nd' where "nd' = nd\<lparr>nd_status := node_status_i32 st\<rparr>"
    have nm: "nd_name nd' = nm" using 2 by (simp add: nd'_def)
    obtain w2 where w2: "run_etcd (ec_put c ?k (enc_node c nd')) (s\<lparr>sto_world := w\<rparr>) =
        (Inr (), s\<lparr>sto_world := w2\<rparr>)" "kvs w2 = put_entry ?m ?k (enc_node c nd')"
      by (rule run_put[of ?k "enc_node c nd'" "s\<lparr>sto_world := w\<rparr>"]) (use 2 in simp)
    have run: "set_node_status nm st s = (Inr True, publish_node_event EvModified nd' (s\<lparr>sto_world := w2\<rparr>))"
      using 2 w2 wf False by (simp add: set_node_status_def etcd_wf_client first_kv_def nd'_def Let_def)
    note put = node_at_put[OF dec_enc_node[of nd'], of ?m nm]
      and ok = entries_okI_node[OF etcd_wf_entries[OF wf] dec_enc_node[of nd'], unfolded nm]
    show ?thesis
      using 2 w2 wf put ok False
      by (intro same_effectI[where f = "set_node_status nm st", OF run])
         (simp_all add: mem_set_node_status nd'_def[symmetric] mem_view_world etcd_wf_world)
  qed
qed

lemma sim_register_node:
  assumes wf: "etcd_wf c kvs s"
  shows "same_effect c kvs (register_node nd) (register_node nd) s"
proof -
  let ?k = "node_etcd_key (nd_name nd)" and ?m = "kvs (sto_world s)"
  let ?nd = "registered (mem_view c kvs s) nd"
  have nm: "node_etcd_key (nd_name ?nd) = ?k" by simp
  note put = node_at_put[OF dec_enc_node[of ?nd], of ?m "nd_name nd"]
    and ok = entries_okI_node[OF etcd_wf_entries[OF wf] dec_enc_node[of ?nd], unfolded nm]
  show ?thesis
  proof (cases rule: read_node[OF wf, of "nd_name nd"])
    case (1 w)
    obtain w2 where w2: "run_etcd (ec_put c ?k (enc_node c ?nd)) (s\<lparr>sto_world := w\<rparr>) =
        (Inr (), s\<lparr>sto_world := w2\<rparr>)" "kvs w2 = put_entry ?m ?k (enc_node c ?nd)"
      by (rule run_put[of ?k "enc_node c ?nd" "s\<lparr>sto_world := w\<rparr>"]) (use 1 in simp)
    have eq: "nd\<lparr>nd_status := node_status_i32 NodeNotReady\<rparr> = ?nd"
      using 1 by (simp add: registered_def)
    have run: "register_node nd s = (Inr (), publish_node_event EvAdded ?nd (s\<lparr>sto_world := w2\<rparr>))"
      using 1 w2 wf eq by (simp add: register_node_def etcd_wf_client first_kv_def Let_def)
    show ?thesis
      using 1 w2 wf put ok
      by (intro same_effectI[where f = "register_node nd", OF run])
         (simp_all add: mem_register_node mem_view_world etcd_wf_world)
  next
    case (2 w v n known)
    obtain w2 where w2: "run_etcd (ec_put c ?k (enc_node c ?nd)) (s\<lparr>sto_world := w\<rparr>) =
        (Inr (), s\<lparr>sto_world := w2\<rparr>)" "kvs w2 = put_entry ?m ?k (enc_node c ?nd)"
      by (rule run_put[of ?k "enc_node c ?nd" "s\<lparr>sto_world := w\<rparr>"]) (use 2 in simp)
    have eq: "nd\<lparr>nd_status := nd_status known\<rparr> = ?nd"
      using 2 by (simp add: registered_def)
    have run: "register_node nd s = (Inr (), publish_node_event EvModified ?nd (s\<lparr>sto_world := w2\<rparr>))"
      using 2 w2 wf eq by (simp add: register_node_def etcd_wf_client first_kv_def Let_def)
    show ?thesis
      using 2 w2 wf put ok
      by (intro same_effectI[where f = "register_node nd", OF run])
         (simp_all add: mem_register_node mem_view_world etcd_wf_world)
  qed
qed

lemma sim_node_watch_started:
  assumes wf: "etcd_wf c kvs s"
  shows "same_effect c kvs (node_watch_started nm) (node_watch_started nm) s"
  unfolding node_watch_started_def
proof (rule same_effect_bind[OF sim_get_node[OF wf]])
  fix found s1
  assume wf1: "etcd_wf c kvs s1"
  have wc: "watcher_count nm (mem_view c kvs s1) = watcher_count nm s1"
    by (simp add: watcher_count_def)
  have up: "same_effect c kvs (\<lambda>s. (Inr True, s\<lparr>sto_watchers := (sto_watchers s)(nm \<mapsto> k)\<rparr>))
      (\<lambda>s. (Inr True, s\<lparr>sto_watchers := (sto_watchers s)(nm \<mapsto> k)\<rparr>)) s2"
    if "etcd_wf c kvs s2" for k s2
    using that by (simp add: same_effect_def)
  let ?start = "\<lambda>s. let current = watcher_count nm s;
                     count_up = (\<lambda>s. (Inr True, s\<lparr>sto_watchers := (sto_watchers s)(nm \<mapsto> current + 1)\<rparr>))
                 in if current = 0 then sbind (set_node_status nm NodeReady) (\<lambda>_. count_up) s
                    else count_up s"
  have "same_effect c kvs ?start ?start s1"
  proof (cases "watcher_count nm s1 = 0")
    case True
    have "same_effect c kvs
        (sbind (set_node_status nm NodeReady) (\<lambda>_ s. (Inr True, s\<lparr>sto_watchers := (sto_watchers s)(nm \<mapsto> 0 + 1)\<rparr>)))
        (sbind (set_node_status nm NodeReady) (\<lambda>_ s. (Inr True, s\<lparr>sto_watchers := (sto_watchers s)(nm \<mapsto> 0 + 1)\<rparr>))) s1"
      by (rule same_effect_bind[OF sim_set_node_status[OF wf1]]) (rule up)
    with True wc show ?thesis by (simp add: same_effect_def)
  next
    case False
    with wc up[OF wf1] show ?thesis by (simp add: same_effect_def)
  qed
  then show "same_effect c kvs (case found of None \<Rightarrow> sret False | Some _ \<Rightarrow> ?start)
      (case found of None \<Rightarrow> sret False | Some _ \<Rightarrow> ?start) s1"
    using wf1 by (cases found) (simp_all add: same_effect_def)
qed

lemma sim_node_watch_ended:
  assumes wf: "etcd_wf c kvs s"
  shows "node_watch_ended nm (mem_view c kvs s) = mem_view c kvs (node_watch_ended nm s) \<and>
         etcd_wf c kvs (node_watch_ended nm s)"
proof -
  let ?s0 = "s\<lparr>sto_watchers := (sto_watchers s)(nm := None)\<rparr>"
  have "etcd_wf c kvs ?s0" using wf by simp
  from sim_set_node_status[OF this, of nm NodeNotReady] show ?thesis
    using wf by (auto simp: node_watch_ended_def same_effect_def Let_def split: option.splits)
qed

lemma sim_list_pods:
  assumes wf: "etcd_wf c kvs s"
  shows "\<exists>mord. iter_order (pod_at c (kvs (sto_world s))) mord \<and>
           same_effect c kvs (list_pods ord) (list_pods mord) s"
proof -
  let ?m = "kvs (sto_world s)"
  obtain l w where l: "run_etcd (ec_get_prefix c pods_prefix) s = (Inr l, s\<lparr>sto_world := w\<rparr>)"
    "kvs w = ?m" "distinct (map kv_key l)"
    "\<And>kv. kv \<in> set l \<longleftrightarrow> starts_with pods_prefix (kv_key kv) \<and> ?m (kv_key kv) = Some (kv_value kv, kv_version kv)"
    by (rule run_prefix[where pre = pods_prefix and s = s]) blast
  have "\<exists>mord. iter_order (pod_at c ?m) mord \<and> map_values (pod_at c ?m) mord = decode_all (dec_pod c) l"
  proof (rule decode_all_view[where keyof = pod_key_etcd and idx = pod_key])
    show "distinct (map kv_key l)" by (rule l(3))
  next
    fix kv assume "kv \<in> set l"
    then have m: "?m (kv_key kv) = Some (kv_value kv, kv_version kv)"
      and st: "starts_with pods_prefix (kv_key kv)" by (simp_all add: l(4))
    from entries_ok_pod[OF etcd_wf_entries[OF wf] m st] m
    show "\<exists>p. dec_pod c (kv_value kv) = Inr p \<and> kv_key kv = pod_key_etcd (pod_key p) \<and>
        pod_at c ?m (pod_key p) = Some p"
      by (auto simp: pod_at_def)
  next
    fix k p assume p: "pod_at c ?m k = Some p"
    then obtain e where e: "?m (pod_key_etcd k) = Some e" "dec_pod c (fst e) = Inr p"
      by (auto simp: pod_at_def split: option.splits sum.splits)
    then have "pod_key p = k" using pod_entry[OF etcd_wf_entries[OF wf] e(1)] by (metis sum.inject(2))
    then show "\<exists>kv \<in> set l. dec_pod c (kv_value kv) = Inr p \<and> pod_key p = k"
      using e l(4) by (intro bexI[of _ "\<lparr>kv_key = pod_key_etcd k, kv_value = fst e, kv_version = snd e\<rparr>"]) simp_all
  qed
  then obtain mord where mord: "iter_order (pod_at c ?m) mord"
    "map_values (pod_at c ?m) mord = decode_all (dec_pod c) l" by blast
  have run: "list_pods ord s = (Inr (decode_all (dec_pod c) l), s\<lparr>sto_world := w\<rparr>)"
    using l wf by (simp add: list_pods_def etcd_wf_client)
  show ?thesis
    using mord l(2) wf
    by (intro exI[of _ mord] conjI same_effectI[where f = "list_pods ord", OF run])
       (simp_all add: mem_list_pods same_contents)
qed

lemma sim_list_nodes:
  assumes wf: "etcd_wf c kvs s"
  shows "\<exists>mord. iter_order (node_at c (kvs (sto_world s))) mord \<and>
           same_effect c kvs (list_nodes ord) (list_nodes mord) s"
proof -
  let ?m = "kvs (sto_world s)"
  obtain l w where l: "run_etcd (ec_get_prefix c nodes_prefix) s = (Inr l, s\<lparr>sto_world := w\<rparr>)"
    "kvs w = ?m" "distinct (map kv_key l)"
    "\<And>kv. kv \<in> set l \<longleftrightarrow> starts_with nodes_prefix (kv_key kv) \<and> ?m (kv_key kv) = Some (kv_value kv, kv_version kv)"
    by (rule run_prefix[where pre = nodes_prefix and s = s]) blast
  have "\<exists>mord. iter_order (node_at c ?m) mord \<and> map_values (node_at c ?m) mord = decode_all (dec_node c) l"
  proof (rule decode_all_view[where keyof = node_etcd_key and idx = nd_name])
    show "distinct (map kv_key l)" by (rule l(3))
  next
    fix kv assume "kv \<in> set l"
    then have m: "?m (kv_key kv) = Some (kv_value kv, kv_version kv)"
      and st: "starts_with nodes_prefix (kv_key kv)" by (simp_all add: l(4))
    from entries_ok_node[OF etcd_wf_entries[OF wf] m st] m
    show "\<exists>nd. dec_node c (kv_value kv) = Inr nd \<and> kv_key kv = node_etcd_key (nd_name nd) \<and>
        node_at c ?m (nd_name nd) = Some nd"
      by (auto simp: node_at_def)
  next
    fix k nd assume nd: "node_at c ?m k = Some nd"
    then obtain e where e: "?m (node_etcd_key k) = Some e" "dec_node c (fst e) = Inr nd"
      by (auto simp: node_at_def split: option.splits sum.splits)
    then have "nd_name nd = k" using node_entry[OF etcd_wf_entries[OF wf] e(1)] by (metis sum.inject(2))
    then show "\<exists>kv \<in> set l. dec_node c (kv_value kv) = Inr nd \<and> nd_name nd = k"
      using e l(4) by (intro bexI[of _ "\<lparr>kv_key = node_etcd_key k, kv_value = fst e, kv_version = snd e\<rparr>"]) simp_all
  qed
  then obtain mord where mord: "iter_order (node_at c ?m) mord"
    "map_values (node_at c ?m) mord = decode_all (dec_node c) l" by blast
  have run: "list_nodes ord s = (Inr (decode_all (dec_node c) l), s\<lparr>sto_world := w\<rparr>)"
    using l wf by (simp add: list_nodes_def etcd_wf_client)
  show ?thesis
    using mord l(2) wf
    by (intro exI[of _ mord] conjI same_effectI[where f = "list_nodes ord", OF run])
       (simp_all add: mem_list_nodes same_contents)
qed

end

end
