(* ===== verification/Etcd_Refinement.thy ===== *)
theory Etcd_Refinement imports Etcd_Backend begin

text \<open>
  Sequences of store calls. \<open>store_step\<close> is one call with its reply, for a store of either
  kind; a run is a sequence of steps. Every run of a store over a healthy etcd that starts empty
  is a run of the in-memory store with the same replies, the same published events and the same
  contents. A reference key-value server provides the laws.
\<close>

section \<open>Calls and runs\<close>

datatype store_call =
  CallUpsertPod pod_detail
| CallCreatePod pod_detail
| CallGetPod string string
| CallListPods
| CallRemovePod string string
| CallUpdatePod string string event_type "pod_detail \<Rightarrow> pod_detail"
| CallRegisterNode node
| CallSetNodeStatus string node_status
| CallGetNode string
| CallListNodes
| CallWatchStarted string
| CallWatchEnded string

datatype store_reply =
  ReplyUnit "store_error + unit"
| ReplyBool "store_error + bool"
| ReplyPod "store_error + pod_detail option"
| ReplyPods "store_error + pod_detail list"
| ReplyNode "store_error + node option"
| ReplyNodes "store_error + node list"
| ReplyNone

inductive store_step :: "('w, 'v) store \<Rightarrow> store_call \<Rightarrow> store_reply \<Rightarrow> ('w, 'v) store \<Rightarrow> bool" where
  upsert: "upsert_pod p s = (ru, s') \<Longrightarrow> store_step s (CallUpsertPod p) (ReplyUnit ru) s'"
| create: "create_pod p s = (rb, s') \<Longrightarrow> store_step s (CallCreatePod p) (ReplyBool rb) s'"
| get_pod: "get_pod ns nm s = (rp, s') \<Longrightarrow> store_step s (CallGetPod ns nm) (ReplyPod rp) s'"
| list_pods: "iter_order (sto_pods s) ord \<Longrightarrow> list_pods ord s = (rps, s') \<Longrightarrow>
     store_step s CallListPods (ReplyPods rps) s'"
| remove: "remove_pod ns nm s = (rp, s') \<Longrightarrow> store_step s (CallRemovePod ns nm) (ReplyPod rp) s'"
| update: "sbind (update_and_publish_pod ns nm et (\<lambda>p. (mutate p, ())) ()) (\<lambda>(ok, _). sret ok) s = (rb, s') \<Longrightarrow>
     store_step s (CallUpdatePod ns nm et mutate) (ReplyBool rb) s'"
| register: "register_node nd s = (ru, s') \<Longrightarrow> store_step s (CallRegisterNode nd) (ReplyUnit ru) s'"
| set_status: "set_node_status nm st s = (rb, s') \<Longrightarrow>
     store_step s (CallSetNodeStatus nm st) (ReplyBool rb) s'"
| get_node: "get_node nm s = (rn, s') \<Longrightarrow> store_step s (CallGetNode nm) (ReplyNode rn) s'"
| list_nodes: "iter_order (sto_nodes s) nord \<Longrightarrow> list_nodes nord s = (rns, s') \<Longrightarrow>
     store_step s CallListNodes (ReplyNodes rns) s'"
| watch_started: "node_watch_started nm s = (rb, s') \<Longrightarrow>
     store_step s (CallWatchStarted nm) (ReplyBool rb) s'"
| watch_ended: "store_step s (CallWatchEnded nm) ReplyNone (node_watch_ended nm s)"

inductive store_run :: "('w, 'v) store \<Rightarrow> (store_call \<times> store_reply) list \<Rightarrow> ('w, 'v) store \<Rightarrow> bool" where
  run_nil: "store_run s [] s"
| run_cons: "store_step s call reply s1 \<Longrightarrow> store_run s1 rest s2 \<Longrightarrow> store_run s ((call, reply) # rest) s2"

inductive_cases store_run_NilE: "store_run s [] s'"
inductive_cases store_run_ConsE: "store_run s (cr # rest) s'"

text \<open>What the handlers guarantee of their calls: a pod is stored under a validated name and
  namespace, and a mutation keeps the pod's name and namespace.\<close>

definition call_ok :: "store_call \<Rightarrow> bool" where
  "call_ok call = (case call of
      CallUpsertPod p \<Rightarrow> slash_free (pod_key p)
    | CallCreatePod p \<Rightarrow> slash_free (pod_key p)
    | CallUpdatePod ns nm et mutate \<Rightarrow> (\<forall>p. pod_key (mutate p) = pod_key p)
    | _ \<Rightarrow> True)"

text \<open>A step of the etcd store is the same step of the in-memory store on its decoded contents.\<close>

context etcd_server
begin

lemma sim_update_pod_flag:
  assumes wf: "etcd_wf c kvs s" and "\<And>p. pod_key (mutate p) = pod_key p"
  shows "same_effect c kvs
     (sbind (update_and_publish_pod ns nm et (\<lambda>p. (mutate p, ())) ()) (\<lambda>(ok, _). sret ok))
     (sbind (update_and_publish_pod ns nm et (\<lambda>p. (mutate p, ())) ()) (\<lambda>(ok, _). sret ok)) s"
  by (rule same_effect_bind[OF sim_update_pod[OF wf]]) (use assms(2) in \<open>auto split: prod.splits\<close>)

lemma sim_step:
  assumes "store_step s call reply s'" "etcd_wf c kvs s" "call_ok call"
  shows "store_step (mem_view c kvs s) call reply (mem_view c kvs s') \<and> etcd_wf c kvs s'"
  using assms
proof (induction rule: store_step.induct)
  case (upsert p s ru s')
  then show ?case
    using same_effectD[OF sim_upsert_pod upsert.hyps] by (auto simp: call_ok_def intro: store_step.upsert)
next
  case (create p s rb s')
  then show ?case
    using same_effectD[OF sim_create_pod create.hyps] by (auto simp: call_ok_def intro: store_step.create)
next
  case (get_pod ns nm s rp s')
  then show ?case
    using same_effectD[OF sim_get_pod get_pod.hyps] by (auto intro: store_step.get_pod)
next
  case (list_pods s ord rps s')
  obtain mord where "iter_order (pod_at c (kvs (sto_world s))) mord"
    "same_effect c kvs (Store.list_pods ord) (Store.list_pods mord) s"
    using sim_list_pods[OF list_pods.prems(1)] by blast
  then show ?case
    using same_effectD[where f = "Store.list_pods ord" and g = "Store.list_pods mord", OF _ list_pods.hyps(2)]
    by (auto intro: store_step.list_pods)
next
  case (remove ns nm s rp s')
  then show ?case
    using same_effectD[OF sim_remove_pod remove.hyps] by (auto intro: store_step.remove)
next
  case (update ns nm et mutate s rb s')
  then show ?case
    using same_effectD[OF sim_update_pod_flag update.hyps] by (auto simp: call_ok_def intro: store_step.update)
next
  case (register nd s ru s')
  then show ?case
    using same_effectD[OF sim_register_node register.hyps] by (auto intro: store_step.register)
next
  case (set_status nm st s rb s')
  then show ?case
    using same_effectD[OF sim_set_node_status set_status.hyps] by (auto intro: store_step.set_status)
next
  case (get_node nm s rn s')
  then show ?case
    using same_effectD[OF sim_get_node get_node.hyps] by (auto intro: store_step.get_node)
next
  case (list_nodes s nord rns s')
  obtain mord where "iter_order (node_at c (kvs (sto_world s))) mord"
    "same_effect c kvs (Store.list_nodes nord) (Store.list_nodes mord) s"
    using sim_list_nodes[OF list_nodes.prems(1)] by blast
  then show ?case
    using same_effectD[where f = "Store.list_nodes nord" and g = "Store.list_nodes mord", OF _ list_nodes.hyps(2)]
    by (auto intro: store_step.list_nodes)
next
  case (watch_started nm s rb s')
  then show ?case
    using same_effectD[OF sim_node_watch_started watch_started.hyps] by (auto intro: store_step.watch_started)
next
  case (watch_ended s nm)
  then show ?case
    using sim_node_watch_ended[OF watch_ended.prems(1), of nm]
      store_step.watch_ended[of "mem_view c kvs s" nm] by simp
qed

lemma sim_run:
  "store_run s trace s' \<Longrightarrow> etcd_wf c kvs s \<Longrightarrow> (\<forall>(call, reply) \<in> set trace. call_ok call) \<Longrightarrow>
   store_run (mem_view c kvs s) trace (mem_view c kvs s') \<and> etcd_wf c kvs s'"
proof (induction rule: store_run.induct)
  case (run_nil s)
  then show ?case by (simp add: store_run.run_nil)
next
  case (run_cons s call reply s1 rest s2)
  then show ?case
    using sim_step[OF run_cons.hyps(1)] store_run.run_cons by fastforce
qed

lemma wf_new: "kvs w = Map.empty \<Longrightarrow> etcd_wf c kvs (store_new_with_etcd c w)"
  by (simp add: etcd_wf_def store_new_with_etcd_def store_new_def entries_ok_def)

lemma view_new: "kvs w = Map.empty \<Longrightarrow> mem_view c kvs (store_new_with_etcd c w) = store_new ()"
  by (simp add: mem_view_def store_new_with_etcd_def store_new_def pod_at_def node_at_def fun_eq_iff)

end

section \<open>A reference server\<close>

text \<open>Keys with their value and the number of puts after the first; the wire format is abstract.\<close>

datatype wire = WirePod pod_detail | WireNode node

type_synonym ref_world = "(string \<times> (wire \<times> nat)) list"

definition ref_kvs :: "ref_world \<Rightarrow> string \<Rightarrow> (wire \<times> int) option" where
  "ref_kvs w k = (case map_of w k of None \<Rightarrow> None | Some e \<Rightarrow> Some (fst e, int (snd e) + 1))"

definition ref_kv :: "ref_world \<Rightarrow> string \<Rightarrow> wire kv list" where
  "ref_kv w k = (case ref_kvs w k of None \<Rightarrow> []
     | Some e \<Rightarrow> [\<lparr>kv_key = k, kv_value = fst e, kv_version = snd e\<rparr>])"

definition ref_put :: "string \<Rightarrow> wire \<Rightarrow> ref_world \<Rightarrow> ref_world" where
  "ref_put k v w = AList.update k (v, case map_of w k of None \<Rightarrow> 0 | Some e \<Rightarrow> Suc (snd e)) w"

definition ref_txn :: "(string \<times> int) list \<Rightarrow> (string \<times> wire) list \<Rightarrow> ref_world \<Rightarrow> (string + bool) \<times> ref_world" where
  "ref_txn cmps puts w =
     (if (\<forall>(k, n) \<in> set cmps. version_of (ref_kvs w) k = n)
      then (Inr True, fold (\<lambda>(k, v). ref_put k v) puts w) else (Inr False, w))"

definition ref_client :: "(ref_world, wire) etcd_client" where
  "ref_client = \<lparr>
     ec_get = (\<lambda>k w. (Inr (ref_kv w k), w)),
     ec_get_prefix = (\<lambda>pre w.
        (Inr (concat (map (ref_kv w) (filter (starts_with pre) (map fst (AList.clearjunk w))))), w)),
     ec_put = (\<lambda>k v w. (Inr (), ref_put k v w)),
     ec_delete = (\<lambda>k w. (Inr (), AList.delete k w)),
     ec_txn = ref_txn,
     enc_pod = WirePod,
     dec_pod = (\<lambda>v. case v of WirePod p \<Rightarrow> Inr p | WireNode _ \<Rightarrow> Inl ''not a pod''),
     enc_node = WireNode,
     dec_node = (\<lambda>v. case v of WireNode nd \<Rightarrow> Inr nd | WirePod _ \<Rightarrow> Inl ''not a node'')\<rparr>"

lemma ref_kvs_put: "ref_kvs (ref_put k v w) = put_entry (ref_kvs w) k v"
  by (rule ext) (auto simp: ref_kvs_def ref_put_def put_entry_def version_of_def update_conv' split: option.splits)

lemma ref_kvs_delete: "ref_kvs (AList.delete k w) = (ref_kvs w)(k := None)"
  by (rule ext) (auto simp: ref_kvs_def delete_conv' split: option.splits)

lemma ref_kv_mem:
  "kv \<in> set (ref_kv w k) \<longleftrightarrow> kv_key kv = k \<and> ref_kvs w k = Some (kv_value kv, kv_version kv)"
  by (cases kv) (auto simp: ref_kv_def split: option.splits)

lemma ref_prefix_distinct:
  "distinct ks \<Longrightarrow> distinct (map kv_key (concat (map (ref_kv w) ks)))"
proof (induction ks)
  case (Cons k ks)
  then show ?case
    by (auto simp: ref_kv_mem ref_kv_def split: option.splits)
qed simp

lemma ref_prefix_mem:
  "kv \<in> set (concat (map (ref_kv w) (filter (starts_with pre) (map fst (AList.clearjunk w))))) \<longleftrightarrow>
   starts_with pre (kv_key kv) \<and> ref_kvs w (kv_key kv) = Some (kv_value kv, kv_version kv)"
proof -
  have "kv_key kv \<in> set (map fst (AList.clearjunk w))"
    if "ref_kvs w (kv_key kv) = Some (kv_value kv, kv_version kv)"
  proof -
    from that have "map_of w (kv_key kv) \<noteq> None" by (auto simp: ref_kvs_def split: option.splits)
    then have "map_of (AList.clearjunk w) (kv_key kv) \<noteq> None" by (simp add: map_of_clearjunk)
    then show ?thesis by (simp only: map_of_eq_None_iff set_map) blast
  qed
  then show ?thesis by (fastforce simp: ref_kv_mem)
qed

interpretation ref_etcd: etcd_server ref_client ref_kvs
proof
  fix k k' pre v n and w :: ref_world and e
  show "\<exists>w'. ec_get ref_client k w = (Inr (case ref_kvs w k of None \<Rightarrow> []
          | Some e \<Rightarrow> [\<lparr>kv_key = k, kv_value = fst e, kv_version = snd e\<rparr>]), w') \<and> ref_kvs w' = ref_kvs w"
    by (simp add: ref_client_def ref_kv_def)
  show "\<exists>l w'. ec_get_prefix ref_client pre w = (Inr l, w') \<and> ref_kvs w' = ref_kvs w \<and> distinct (map kv_key l) \<and>
      (\<forall>kv. kv \<in> set l \<longleftrightarrow> starts_with pre (kv_key kv) \<and> ref_kvs w (kv_key kv) = Some (kv_value kv, kv_version kv))"
    using ref_prefix_distinct[of "filter (starts_with pre) (map fst (AList.clearjunk w))" w]
      ref_prefix_mem[of _ w pre] distinct_clearjunk[of w]
    by (simp add: ref_client_def)
  show "\<exists>w'. ec_put ref_client k v w = (Inr (), w') \<and> ref_kvs w' = put_entry (ref_kvs w) k v"
    by (simp add: ref_client_def ref_kvs_put)
  show "\<exists>w'. ec_delete ref_client k w = (Inr (), w') \<and> ref_kvs w' = (ref_kvs w)(k := None)"
    by (simp add: ref_client_def ref_kvs_delete)
  show "\<exists>w'. ec_txn ref_client [(k, n)] [(k', v)] w = (Inr (version_of (ref_kvs w) k = n), w') \<and>
      ref_kvs w' = (if version_of (ref_kvs w) k = n then put_entry (ref_kvs w) k' v else ref_kvs w)"
    by (simp add: ref_client_def ref_txn_def ref_kvs_put)
  show "ref_kvs w k = Some e \<Longrightarrow> 0 < snd e"
    by (auto simp: ref_kvs_def split: option.splits)
  show "dec_pod ref_client (enc_pod ref_client p) = Inr p" for p
    by (simp add: ref_client_def)
  show "dec_node ref_client (enc_node ref_client nd) = Inr nd" for nd
    by (simp add: ref_client_def)
qed

section \<open>The refinement\<close>

text \<open>
  C19. Every sequence of store calls run against a healthy etcd (any server that obeys the key-value
  laws, with any codec that decodes what it encoded) from an empty start gives call by call the
  replies the in-memory store gives to the same sequence, and ends with the same pods, nodes, watcher
  counts and published events. The test-only in-memory store is thus a faithful stand-in for the
  deployed one. Calls store pods under slash-free names, as the handlers' validation ensures.
\<close>

theorem etcd_store_refines_memory:
  fixes c :: "('w, 'v) etcd_client"
  assumes "etcd_server c kvs" and "kvs w = Map.empty"
    and "\<forall>(call, reply) \<in> set trace. call_ok call"
    and "store_run (store_new_with_etcd c w) trace s'"
  shows "\<exists>mem :: (unit, 'v) store. store_run (store_new ()) trace mem \<and>
           sto_pod_events mem = sto_pod_events s' \<and> sto_node_events mem = sto_node_events s' \<and>
           sto_watchers mem = sto_watchers s' \<and>
           sto_pods mem = pod_at c (kvs (sto_world s')) \<and> sto_nodes mem = node_at c (kvs (sto_world s'))"
proof (intro exI conjI)
  let ?mem = "mem_view c kvs s'"
  show "store_run (store_new ()) trace ?mem"
    using etcd_server.sim_run[OF assms(1,4) etcd_server.wf_new[OF assms(1,2)] assms(3)]
    by (simp add: etcd_server.view_new[OF assms(1,2)])
qed simp_all

definition demo_trace :: "(store_call \<times> store_reply) list" where
  "demo_trace =
     [(CallCreatePod demo_pod, ReplyBool (Inr True)),
      (CallCreatePod demo_pod, ReplyBool (Inr False)),
      (CallRegisterNode demo_node, ReplyUnit (Inr ())),
      (CallWatchStarted ''n1'', ReplyBool (Inr True)),
      (CallUpdatePod ''default'' ''web'' EvScheduled (\<lambda>p. p\<lparr>pd_node_name := ''n1''\<rparr>), ReplyBool (Inr True)),
      (CallRemovePod ''default'' ''web'', ReplyPod (Inr (Some (demo_pod\<lparr>pd_node_name := ''n1''\<rparr>)))),
      (CallGetPod ''default'' ''web'', ReplyPod (Inr None))]"

text \<open>Executing a list of calls, for the calls whose reply does not depend on an iteration order.\<close>

fun exec_call :: "store_call \<Rightarrow> ('w, 'v) store \<Rightarrow> store_reply \<times> ('w, 'v) store" where
  "exec_call (CallUpsertPod p) s = map_prod ReplyUnit id (upsert_pod p s)"
| "exec_call (CallCreatePod p) s = map_prod ReplyBool id (create_pod p s)"
| "exec_call (CallGetPod ns nm) s = map_prod ReplyPod id (get_pod ns nm s)"
| "exec_call CallListPods s = map_prod ReplyPods id (list_pods [] s)"
| "exec_call (CallRemovePod ns nm) s = map_prod ReplyPod id (remove_pod ns nm s)"
| "exec_call (CallUpdatePod ns nm et mutate) s =
     map_prod ReplyBool id (sbind (update_and_publish_pod ns nm et (\<lambda>p. (mutate p, ())) ()) (\<lambda>(ok, _). sret ok) s)"
| "exec_call (CallRegisterNode nd) s = map_prod ReplyUnit id (register_node nd s)"
| "exec_call (CallSetNodeStatus nm st) s = map_prod ReplyBool id (set_node_status nm st s)"
| "exec_call (CallGetNode nm) s = map_prod ReplyNode id (get_node nm s)"
| "exec_call CallListNodes s = map_prod ReplyNodes id (list_nodes [] s)"
| "exec_call (CallWatchStarted nm) s = map_prod ReplyBool id (node_watch_started nm s)"
| "exec_call (CallWatchEnded nm) s = (ReplyNone, node_watch_ended nm s)"

fun exec_calls :: "store_call list \<Rightarrow> ('w, 'v) store \<Rightarrow> store_reply list \<times> ('w, 'v) store" where
  "exec_calls [] s = ([], s)"
| "exec_calls (call # calls) s =
     (case exec_call call s of (reply, s1) \<Rightarrow>
        case exec_calls calls s1 of (replies, s2) \<Rightarrow> (reply # replies, s2))"

lemma exec_call_step:
  "exec_call call s = (reply, s') \<Longrightarrow> sto_pods s = Map.empty \<or> call \<noteq> CallListPods \<Longrightarrow>
   sto_nodes s = Map.empty \<or> call \<noteq> CallListNodes \<Longrightarrow> store_step s call reply s'"
  by (cases call)
     (auto simp: map_prod_def iter_order_def split: prod.splits
           intro: store_step.intros store_step.list_pods[where ord = "[]"] store_step.list_nodes[where nord = "[]"])

lemma exec_calls_run:
  "exec_calls calls s = (replies, s') \<Longrightarrow> CallListPods \<notin> set calls \<Longrightarrow> CallListNodes \<notin> set calls \<Longrightarrow>
   store_run s (zip calls replies) s'"
proof (induction calls arbitrary: s replies)
  case Nil
  then show ?case by (simp add: run_nil)
next
  case (Cons call calls)
  from Cons.prems obtain r s1 rs where "exec_call call s = (r, s1)" "exec_calls calls s1 = (rs, s')"
    "replies = r # rs" by (auto split: prod.splits)
  with Cons show ?case
    using exec_call_step[of call s r s1] by (auto intro: run_cons)
qed

lemma demo_exec:
  "fst (exec_calls (map fst demo_trace) (store_new_with_etcd ref_client [])) = map snd demo_trace"
  by code_simp

theorem etcd_store_refines_memory_witness:
  "\<exists>(mem :: (unit, wire) store) s'. store_run (store_new ()) demo_trace mem \<and>
     store_run (store_new_with_etcd ref_client []) demo_trace s' \<and>
     sto_pod_events mem = sto_pod_events s' \<and> sto_pods mem = pod_at ref_client (ref_kvs (sto_world s'))"
proof -
  obtain s' where ex: "exec_calls (map fst demo_trace) (store_new_with_etcd ref_client []) = (map snd demo_trace, s')"
    using demo_exec by (metis prod.collapse)
  have run: "store_run (store_new_with_etcd ref_client []) demo_trace s'"
    using exec_calls_run[OF ex] by (simp add: demo_trace_def)
  have ok: "\<forall>(call, reply) \<in> set demo_trace. call_ok call"
    by (simp add: demo_trace_def call_ok_def demo_pod_def new_pod_detail_def pod_key_def slash_free_def)
  have empty: "ref_kvs [] = Map.empty"
    by (rule ext) (simp add: ref_kvs_def)
  from etcd_store_refines_memory[OF ref_etcd.etcd_server_axioms empty ok run] run show ?thesis
    by blast
qed

section \<open>Boot\<close>

text \<open>What a boot does to the record of one node.\<close>

definition reset_record :: "node \<Rightarrow> node" where
  "reset_record nd = (if nd_status nd = node_status_i32 NodeReady
     then nd\<lparr>nd_status := node_status_i32 NodeNotReady\<rparr> else nd)"

lemma reset_record_name [simp]: "nd_name (reset_record nd) = nd_name nd"
  by (simp add: reset_record_def)

context etcd_server
begin

text \<open>The loop over a scan whose entries are still what the server holds.\<close>

lemma reset_loop:
  assumes "etcd_wf c kvs s" "distinct (map kv_key l)"
    and "\<And>kv. kv \<in> set l \<Longrightarrow> \<exists>nd. dec_node c (kv_value kv) = Inr nd \<and>
           kv_key kv = node_etcd_key (nd_name nd) \<and> node_at c (kvs (sto_world s)) (nd_name nd) = Some nd"
  shows "\<exists>w'. reset_liveness_loop c l s = (Inr (), s\<lparr>sto_world := w'\<rparr>) \<and> etcd_wf c kvs (s\<lparr>sto_world := w'\<rparr>) \<and>
     pod_at c (kvs w') = pod_at c (kvs (sto_world s)) \<and>
     node_at c (kvs w') = (\<lambda>nm. if node_etcd_key nm \<in> kv_key ` set l
        then map_option reset_record (node_at c (kvs (sto_world s)) nm) else node_at c (kvs (sto_world s)) nm)"
  using assms
proof (induction l arbitrary: s)
  case Nil
  then show ?case by (intro exI[of _ "sto_world s"]) simp
next
  case (Cons kv l)
  let ?m = "kvs (sto_world s)"
  obtain nd where nd: "dec_node c (kv_value kv) = Inr nd" "kv_key kv = node_etcd_key (nd_name nd)"
      "node_at c ?m (nd_name nd) = Some nd"
    using Cons.prems(3)[of kv] by auto
  show ?case
  proof (cases "nd_status nd = node_status_i32 NodeReady")
    case False
    then have same: "reset_record nd = nd" by (simp add: reset_record_def)
    obtain w' where "reset_liveness_loop c l s = (Inr (), s\<lparr>sto_world := w'\<rparr>)" "etcd_wf c kvs (s\<lparr>sto_world := w'\<rparr>)"
        "pod_at c (kvs w') = pod_at c ?m"
        "node_at c (kvs w') = (\<lambda>nm. if node_etcd_key nm \<in> kv_key ` set l
           then map_option reset_record (node_at c ?m nm) else node_at c ?m nm)"
      using Cons.IH[OF Cons.prems(1)] Cons.prems(2,3) by auto
    with nd False same show ?thesis
      by (intro exI[of _ w']) (auto simp: fun_eq_iff)
  next
    case True
    let ?nd = "reset_record nd"
    have rr: "nd\<lparr>nd_status := node_status_i32 NodeNotReady\<rparr> = ?nd" using True by (simp add: reset_record_def)
    obtain w1 where w1: "run_etcd (ec_put c (node_etcd_key (nd_name nd)) (enc_node c ?nd)) s = (Inr (), s\<lparr>sto_world := w1\<rparr>)"
        "kvs w1 = put_entry ?m (node_etcd_key (nd_name nd)) (enc_node c ?nd)"
      by (rule run_put)
    note put = node_at_put[OF dec_enc_node[of ?nd], of ?m "nd_name nd"]
      and ok = entries_okI_node[OF etcd_wf_entries[OF Cons.prems(1)] dec_enc_node[of ?nd]]
    let ?s1 = "s\<lparr>sto_world := w1\<rparr>"
    have wf1: "etcd_wf c kvs ?s1" using w1 ok by (intro etcd_wf_world[OF Cons.prems(1)]) simp
    have rest: "\<exists>nd'. dec_node c (kv_value kv') = Inr nd' \<and> kv_key kv' = node_etcd_key (nd_name nd') \<and>
        node_at c (kvs (sto_world ?s1)) (nd_name nd') = Some nd'" if in_l: "kv' \<in> set l" for kv'
    proof -
      obtain nd' where nd': "dec_node c (kv_value kv') = Inr nd'" "kv_key kv' = node_etcd_key (nd_name nd')"
          "node_at c ?m (nd_name nd') = Some nd'"
        using Cons.prems(3)[of kv'] in_l by auto
      moreover have "kv_key kv' \<noteq> kv_key kv" using Cons.prems(2) in_l by (auto simp: image_iff)
      then have "nd_name nd' \<noteq> nd_name nd" using nd'(2) nd(2) by auto
      ultimately show ?thesis using put w1 by simp
    qed
    have "distinct (map kv_key l)" using Cons.prems(2) by simp
    have same: "kvs (sto_world ?s1) = kvs w1" by simp
    from Cons.IH[OF wf1 \<open>distinct (map kv_key l)\<close> rest, unfolded same] obtain w' where w':
        "reset_liveness_loop c l ?s1 = (Inr (), ?s1\<lparr>sto_world := w'\<rparr>)" "etcd_wf c kvs (?s1\<lparr>sto_world := w'\<rparr>)"
        "pod_at c (kvs w') = pod_at c (kvs w1)"
        "node_at c (kvs w') = (\<lambda>nm. if node_etcd_key nm \<in> kv_key ` set l
           then map_option reset_record (node_at c (kvs w1) nm) else node_at c (kvs w1) nm)"
      by auto
    have new: "node_etcd_key (nd_name nd) \<notin> kv_key ` set l" using Cons.prems(2) nd by simp
    have n1: "node_at c (kvs w1) = (node_at c ?m)(nd_name nd \<mapsto> ?nd)" "pod_at c (kvs w1) = pod_at c ?m"
      using w1(2) put by simp_all
    have "node_at c (kvs w') = (\<lambda>nm. if node_etcd_key nm \<in> kv_key ` set (kv # l)
           then map_option reset_record (node_at c ?m nm) else node_at c ?m nm)"
      by (rule ext) (use new nd in \<open>auto simp: w'(4) n1\<close>)
    moreover have "reset_liveness_loop c (kv # l) s = (Inr (), s\<lparr>sto_world := w'\<rparr>)"
      using nd True rr w1 w'(1) by simp
    ultimately show ?thesis
      using w'(2,3) n1 by (intro exI[of _ w']) simp
  qed
qed

lemma reset_node_liveness_effect:
  assumes wf: "etcd_wf c kvs s"
  shows "\<exists>w'. reset_node_liveness s = (Inr (), s\<lparr>sto_world := w'\<rparr>) \<and> etcd_wf c kvs (s\<lparr>sto_world := w'\<rparr>) \<and>
     pod_at c (kvs w') = pod_at c (kvs (sto_world s)) \<and>
     (\<forall>nm. node_at c (kvs w') nm = map_option reset_record (node_at c (kvs (sto_world s)) nm))"
proof -
  let ?m = "kvs (sto_world s)"
  obtain l w where l: "run_etcd (ec_get_prefix c nodes_prefix) s = (Inr l, s\<lparr>sto_world := w\<rparr>)"
    "kvs w = ?m" "distinct (map kv_key l)"
    "\<And>kv. kv \<in> set l \<longleftrightarrow> starts_with nodes_prefix (kv_key kv) \<and> ?m (kv_key kv) = Some (kv_value kv, kv_version kv)"
    by (rule run_prefix[where pre = nodes_prefix and s = s]) blast
  have wf1: "etcd_wf c kvs (s\<lparr>sto_world := w\<rparr>)" using wf l by (simp add: same_contents)
  have same: "kvs (sto_world (s\<lparr>sto_world := w\<rparr>)) = ?m" using l(2) by simp
  have entry: "\<exists>nd. dec_node c (kv_value kv) = Inr nd \<and> kv_key kv = node_etcd_key (nd_name nd) \<and>
      node_at c (kvs (sto_world (s\<lparr>sto_world := w\<rparr>))) (nd_name nd) = Some nd" if "kv \<in> set l" for kv
  proof -
    have m: "?m (kv_key kv) = Some (kv_value kv, kv_version kv)"
      and st: "starts_with nodes_prefix (kv_key kv)" using that by (simp_all add: l(4))
    from entries_ok_node[OF etcd_wf_entries[OF wf] m st] m l(2) show ?thesis
      by (auto simp: node_at_def)
  qed
  obtain w' where w': "reset_liveness_loop c l (s\<lparr>sto_world := w\<rparr>) = (Inr (), s\<lparr>sto_world := w'\<rparr>)"
      "etcd_wf c kvs (s\<lparr>sto_world := w'\<rparr>)" "pod_at c (kvs w') = pod_at c ?m"
      "node_at c (kvs w') = (\<lambda>nm. if node_etcd_key nm \<in> kv_key ` set l
        then map_option reset_record (node_at c ?m nm) else node_at c ?m nm)"
    using reset_loop[OF wf1 l(3) entry, unfolded same] by auto
  have "node_at c ?m nm = None" if "node_etcd_key nm \<notin> kv_key ` set l" for nm
  proof (rule node_at_None, rule ccontr)
    assume "?m (node_etcd_key nm) \<noteq> None"
    then obtain e where "?m (node_etcd_key nm) = Some e" by auto
    then have "\<lparr>kv_key = node_etcd_key nm, kv_value = fst e, kv_version = snd e\<rparr> \<in> set l"
      by (simp add: l(4))
    with that show False by force
  qed
  with w' have "\<forall>nm. node_at c (kvs w') nm = map_option reset_record (node_at c ?m nm)" by simp
  moreover have "reset_node_liveness s = (Inr (), s\<lparr>sto_world := w'\<rparr>)"
    using wf l(1) w'(1) by (simp add: reset_node_liveness_def etcd_wf_client)
  ultimately show ?thesis using w' by blast
qed

end

text \<open>
  C34. Booting against a healthy etcd succeeds and leaves no node READY: every node that was recorded
  READY is rewritten to NOT_READY, every other node record (an operator's CORDON or DRAIN included)
  and every pod is left exactly as it was, and no event is published.
\<close>

theorem reset_node_liveness_boot:
  assumes "etcd_server c kvs" and "etcd_wf c kvs s" and "reset_node_liveness s = (r, s')"
  shows "r = Inr () \<and> pod_at c (kvs (sto_world s')) = pod_at c (kvs (sto_world s)) \<and>
     sto_node_events s' = sto_node_events s \<and>
     (\<forall>nm. node_at c (kvs (sto_world s')) nm =
        (case node_at c (kvs (sto_world s)) nm of None \<Rightarrow> None
         | Some nd \<Rightarrow> Some (if nd_status nd = node_status_i32 NodeReady
                            then nd\<lparr>nd_status := node_status_i32 NodeNotReady\<rparr> else nd)))"
proof -
  obtain w' where w': "reset_node_liveness s = (Inr (), s\<lparr>sto_world := w'\<rparr>)"
      "pod_at c (kvs w') = pod_at c (kvs (sto_world s))"
      "\<forall>nm. node_at c (kvs w') nm = map_option reset_record (node_at c (kvs (sto_world s)) nm)"
    using etcd_server.reset_node_liveness_effect[OF assms(1,2)] by blast
  have "map_option reset_record x = (case x of None \<Rightarrow> None | Some nd \<Rightarrow>
      Some (if nd_status nd = node_status_i32 NodeReady
            then nd\<lparr>nd_status := node_status_i32 NodeNotReady\<rparr> else nd))" for x
    by (cases x) (simp_all add: reset_record_def)
  with w' assms(3) show ?thesis by simp
qed

definition boot_world :: ref_world where
  "boot_world = [(node_etcd_key ''a'', (WireNode (demo_node\<lparr>nd_name := ''a'', nd_status := 0\<rparr>), 0)),
                 (node_etcd_key ''b'', (WireNode (demo_node\<lparr>nd_name := ''b'', nd_status := 1\<rparr>), 4))]"

definition boot_store :: "(ref_world, wire) store" where
  "boot_store = store_new_with_etcd ref_client boot_world"

lemma boot_store_wf: "etcd_wf ref_client ref_kvs boot_store"
proof -
  have "entries_ok ref_client (ref_kvs boot_world)"
    by (rule entries_okI)
       (auto simp: boot_world_def ref_kvs_def ref_client_def demo_node_def split: if_splits option.splits)
  then show ?thesis
    by (simp add: boot_store_def etcd_wf_def store_new_with_etcd_def store_new_def)
qed

theorem reset_node_liveness_boot_witness:
  "map_option nd_status (node_at ref_client (ref_kvs (sto_world (snd (reset_node_liveness boot_store)))) ''a'') = Some 3 \<and>
   map_option nd_status (node_at ref_client (ref_kvs (sto_world (snd (reset_node_liveness boot_store)))) ''b'') = Some 1"
proof -
  let ?s' = "snd (reset_node_liveness boot_store)"
  have "node_at ref_client (ref_kvs (sto_world boot_store)) ''a'' = Some (demo_node\<lparr>nd_name := ''a'', nd_status := 0\<rparr>)"
    "node_at ref_client (ref_kvs (sto_world boot_store)) ''b'' = Some (demo_node\<lparr>nd_name := ''b'', nd_status := 1\<rparr>)"
    by (simp_all add: boot_store_def boot_world_def store_new_with_etcd_def store_new_def node_at_def
        ref_kvs_def ref_client_def)
  with reset_node_liveness_boot[OF ref_etcd.etcd_server_axioms boot_store_wf prod.collapse[symmetric]]
  show ?thesis by simp
qed

end
