(* ===== verification/Cas_Update.thy ===== *)
theory Cas_Update imports Etcd_Refinement begin

text \<open>
  The read-modify-write of a pod over etcd (\<open>Store::update_and_publish_pod\<close> in
  \<open>api/src/store.rs\<close>) split at its only await point between two server calls: the read, and
  the transaction guarded by the version that was read. Other requests run in between.
\<close>

section \<open>The two halves\<close>

text \<open>The read: the decoded pod and the version of its key.\<close>

definition update_read :: "string \<Rightarrow> string \<Rightarrow> (('w, 'v) store, store_error, (pod_detail \<times> int) option) op" where
  "update_read ns nm s =
     (case sto_client s of
        None \<Rightarrow> (Inr None, s)
      | Some c \<Rightarrow>
          sbind (run_etcd (ec_get c (pod_etcd_key ns nm)))
            (\<lambda>kvs. case first_kv kvs of
               None \<Rightarrow> sret None
             | Some kv \<Rightarrow> sbind (decode_or (dec_pod c (kv_value kv))) (\<lambda>p. sret (Some (p, kv_version kv)))) s)"

text \<open>The commit of the mutated pod against the version that was read.\<close>

definition update_commit ::
  "string \<Rightarrow> string \<Rightarrow> event_type \<Rightarrow> pod_detail \<Rightarrow> int \<Rightarrow> (('w, 'v) store, store_error, bool) op" where
  "update_commit ns nm et p n s =
     (case sto_client s of
        None \<Rightarrow> (Inr False, s)
      | Some c \<Rightarrow>
          sbind (run_etcd (ec_txn c [(pod_etcd_key ns nm, n)] [(pod_etcd_key ns nm, enc_pod c p)]))
            (\<lambda>succeeded s. (Inr succeeded, if succeeded then publish_pod_event et p s else s)) s)"

lemma update_is_read_then_commit:
  assumes "sto_client s = Some c"
    and "\<And>s1 r. run_etcd (ec_get c (pod_etcd_key ns nm)) s = (r, s1) \<Longrightarrow> sto_client s1 = Some c"
  shows "sbind (update_and_publish_pod ns nm et (\<lambda>p. (mutate p, ())) ()) (\<lambda>(ok, _). sret ok) s =
     sbind (update_read ns nm)
       (\<lambda>found. case found of None \<Rightarrow> sret False | Some (p, n) \<Rightarrow> update_commit ns nm et (mutate p) n) s"
proof -
  obtain r s1 where g: "run_etcd (ec_get c (pod_etcd_key ns nm)) s = (r, s1)" by fastforce
  show ?thesis
    using assms(1) assms(2)[OF g] g
    by (cases r)
       (auto simp: update_and_publish_pod_def update_read_def update_commit_def sbind_def decode_or_def
          first_kv_def Let_def split: option.splits list.splits sum.splits prod.splits)
qed

section \<open>Versions only grow while a key lives\<close>

definition grows :: "string \<Rightarrow> (string \<Rightarrow> ('v \<times> int) option) \<Rightarrow> (string \<Rightarrow> ('v \<times> int) option) \<Rightarrow> bool" where
  "grows k m m' \<longleftrightarrow> version_of m k \<le> version_of m' k \<and> (version_of m' k = version_of m k \<longrightarrow> m' k = m k)"

lemma grows_refl [simp]: "grows k m m"
  by (simp add: grows_def)

lemma grows_trans: "grows k m m' \<Longrightarrow> grows k m' m'' \<Longrightarrow> grows k m m''"
  by (auto simp: grows_def)

lemma grows_put [simp]: "grows k m (put_entry m k' v)"
  by (auto simp: grows_def put_entry_def version_of_def)

text \<open>What every method over \<open>c\<close> keeps of one key.\<close>

definition over_client :: "('w, 'v) etcd_client \<Rightarrow> ('w, 'v) store \<Rightarrow> bool" where
  "over_client c s \<longleftrightarrow> sto_client s = Some c"

definition key_grows :: "('w \<Rightarrow> string \<Rightarrow> ('v \<times> int) option) \<Rightarrow> string \<Rightarrow> ('w, 'v) store \<Rightarrow> ('w, 'v) store \<Rightarrow> bool" where
  "key_grows kvs k s s' \<longleftrightarrow> grows k (kvs (sto_world s)) (kvs (sto_world s'))"

abbreviation op_grows where
  "op_grows c kvs k \<equiv> op_keeps (over_client c) (key_grows kvs k)"

interpretation growing: step_rel "over_client c" "key_grows kvs k" for c kvs k
  by unfold_locales (auto simp: key_grows_def intro: grows_trans)

lemma op_growsD:
  "op_grows c kvs k f \<Longrightarrow> sto_client s = Some c \<Longrightarrow> f s = (r, s') \<Longrightarrow>
     sto_client s' = Some c \<and> grows k (kvs (sto_world s)) (kvs (sto_world s'))"
  using op_keepsD[of "over_client c" "key_grows kvs k" f s r s'] by (simp add: over_client_def key_grows_def)

lemmas kept_defs = over_client_def key_grows_def

lemma op_grows_same:
  assumes "\<And>s. sto_client (snd (f s)) = sto_client s" "\<And>s. sto_world (snd (f s)) = sto_world s"
  shows "op_grows c kvs k f"
proof (rule op_keepsI)
  fix s r s' assume "over_client c s" "f s = (r, s')"
  with assms[of s] show "over_client c s' \<and> key_grows kvs k s s'"
    by (simp add: over_client_def key_grows_def)
qed

lemma op_grows_decode: "op_grows c kvs k (decode_or d)"
  by (rule op_grows_same) (simp_all add: decode_or_def split: sum.splits)

lemmas grows_rules = growing.keeps_sbind growing.keeps_cases op_grows_decode

context etcd_server
begin

lemma grows_get [intro]: "op_grows c kvs k (run_etcd (ec_get c k'))"
proof (rule op_keepsI)
  fix s r s' assume "over_client c s" "run_etcd (ec_get c k') s = (r, s')"
  moreover obtain w r' where "run_etcd (ec_get c k') s = (r', s\<lparr>sto_world := w\<rparr>)" "kvs w = kvs (sto_world s)"
    by (rule run_get)
  ultimately show "over_client c s' \<and> key_grows kvs k s s'" by (auto simp: kept_defs)
qed

lemma grows_put_op [intro]: "op_grows c kvs k (run_etcd (ec_put c k' v))"
proof (rule op_keepsI)
  fix s r s' assume s: "over_client c s" "run_etcd (ec_put c k' v) s = (r, s')"
  obtain w where "run_etcd (ec_put c k' v) s = (Inr (), s\<lparr>sto_world := w\<rparr>)"
    "kvs w = put_entry (kvs (sto_world s)) k' v" by (rule run_put)
  with s show "over_client c s' \<and> key_grows kvs k s s'" by (auto simp: kept_defs)
qed

lemma grows_prefix_op [intro]: "op_grows c kvs k (run_etcd (ec_get_prefix c pre))"
proof (rule op_keepsI)
  fix s r s' assume s: "over_client c s" "run_etcd (ec_get_prefix c pre) s = (r, s')"
  obtain l w where "run_etcd (ec_get_prefix c pre) s = (Inr l, s\<lparr>sto_world := w\<rparr>)"
    "kvs w = kvs (sto_world s)" by (rule run_prefix[where pre = pre and s = s]) blast
  with s show "over_client c s' \<and> key_grows kvs k s s'" by (auto simp: kept_defs)
qed

lemma grows_txn [intro]: "op_grows c kvs k (run_etcd (ec_txn c [(k', n)] [(k'', v)]))"
proof (rule op_keepsI)
  fix s r s' assume s: "over_client c s" "run_etcd (ec_txn c [(k', n)] [(k'', v)]) s = (r, s')"
  obtain w r' where "run_etcd (ec_txn c [(k', n)] [(k'', v)]) s = (r', s\<lparr>sto_world := w\<rparr>)"
    "kvs w = (if version_of (kvs (sto_world s)) k' = n then put_entry (kvs (sto_world s)) k'' v
               else kvs (sto_world s))" by (rule run_txn)
  with s show "over_client c s' \<and> key_grows kvs k s s'"
    by (auto simp: kept_defs split: if_splits)
qed

lemmas grows_calls = grows_rules grows_get grows_put_op grows_prefix_op grows_txn

lemma grows_upsert: "op_grows c kvs k (upsert_pod p)"
  by (rule op_keeps_eq, simp add: upsert_pod_def over_client_def) (rule grows_put_op)

lemma grows_create: "op_grows c kvs k (create_pod p)"
  by (rule op_keeps_eq, simp add: create_pod_def Let_def over_client_def)
     (intro grows_calls; simp add: op_grows_same)

lemma grows_get_pod: "op_grows c kvs k (get_pod ns nm)"
  by (rule op_keeps_eq, simp add: get_pod_def over_client_def)
     (intro grows_calls; simp add: op_grows_same)

lemma grows_list_pods: "op_grows c kvs k (list_pods ord)"
  by (rule op_keeps_eq, simp add: list_pods_def over_client_def)
     (intro grows_calls; simp add: op_grows_same)

lemma grows_update: "op_grows c kvs k (update_and_publish_pod ns nm et mutate cap)"
  by (rule op_keeps_eq, simp add: update_and_publish_pod_def Let_def over_client_def)
     (intro grows_calls; simp add: op_grows_same)

lemma grows_register: "op_grows c kvs k (register_node nd)"
  by (rule op_keeps_eq, simp add: register_node_def Let_def over_client_def)
     (intro grows_calls; simp add: op_grows_same)

lemma grows_set_status: "op_grows c kvs k (set_node_status nm st)"
  unfolding set_node_status_def Let_def
  by (rule op_keeps_eq, simp add: over_client_def)
     (intro grows_calls; simp add: op_grows_same)

lemma grows_get_node: "op_grows c kvs k (get_node nm)"
  by (rule op_keeps_eq, simp add: get_node_def over_client_def)
     (intro grows_calls; simp add: op_grows_same)

lemma grows_list_nodes: "op_grows c kvs k (list_nodes nord)"
  by (rule op_keeps_eq, simp add: list_nodes_def over_client_def)
     (intro grows_calls; simp add: op_grows_same)

lemma grows_watch_started: "op_grows c kvs k (node_watch_started nm)"
proof -
  have "op_grows c kvs k (\<lambda>s. let current = watcher_count nm s;
                     count_up = (\<lambda>s. (Inr True, s\<lparr>sto_watchers := (sto_watchers s)(nm \<mapsto> current + 1)\<rparr>))
                 in if current = 0 then sbind (set_node_status nm NodeReady) (\<lambda>_. count_up) s
                    else count_up s)" (is "op_grows _ _ _ ?f")
  proof (rule op_keepsI)
    fix s r s' assume s: "over_client c s" "?f s = (r, s')"
    have "op_grows c kvs k (sbind (set_node_status nm NodeReady)
        (\<lambda>_ s. (Inr True, s\<lparr>sto_watchers := (sto_watchers s)(nm \<mapsto> 0 + 1)\<rparr>)))"
      by (intro grows_calls grows_set_status; simp add: op_grows_same)
    from op_keepsD[OF this s(1)] s show "over_client c s' \<and> key_grows kvs k s s'"
      by (auto simp: kept_defs Let_def split: if_splits)
  qed
  then show ?thesis
    unfolding node_watch_started_def by (intro grows_calls grows_get_node) (simp_all add: op_grows_same)
qed

lemma grows_watch_ended:
  assumes "sto_client s = Some c"
  shows "sto_client (node_watch_ended nm s) = Some c \<and>
     grows k (kvs (sto_world s)) (kvs (sto_world (node_watch_ended nm s)))"
proof -
  let ?s0 = "s\<lparr>sto_watchers := (sto_watchers s)(nm := None)\<rparr>"
  obtain r s1 where set: "set_node_status nm NodeNotReady ?s0 = (r, s1)" by fastforce
  have "sto_client ?s0 = Some c" using assms by simp
  from op_growsD[OF grows_set_status this set, of k] assms set show ?thesis
    by (auto simp: node_watch_ended_def Let_def split: option.splits)
qed

text \<open>Any call but the removal of that pod.\<close>

lemma step_grows:
  assumes "store_step s call reply s'" "sto_client s = Some c" "call \<noteq> CallRemovePod ns nm"
    and "entries_ok c (kvs (sto_world s))"
  shows "sto_client s' = Some c \<and> grows (pod_etcd_key ns nm) (kvs (sto_world s)) (kvs (sto_world s'))"
  using assms
proof (cases rule: store_step.cases)
  case (remove ns' nm' rp)
  have "pod_etcd_key ns nm \<noteq> pod_etcd_key ns' nm' \<or> kvs (sto_world s) (pod_etcd_key ns nm) = None"
  proof (cases "kvs (sto_world s) (pod_key_etcd (ns, nm))")
    case None
    then show ?thesis by (simp add: pod_key_etcd_def)
  next
    case (Some e)
    then have "slash_free (ns, nm)" using pod_entry[OF assms(4)] by metis
    then show ?thesis
      using pod_key_etcd_inj[of "(ns, nm)" "(ns', nm')"] remove(1) assms(3)
      by (auto simp: pod_key_etcd_def)
  qed
  moreover have "\<exists>w. sto_client s' = Some c \<and> kvs (sto_world s') = (kvs (sto_world s))(pod_etcd_key ns' nm' := None)"
  proof -
    obtain r1 w1 where "run_etcd (ec_get c (pod_etcd_key ns' nm')) s = (Inr r1, s\<lparr>sto_world := w1\<rparr>)"
        "kvs w1 = kvs (sto_world s)" by (rule run_get)
    moreover obtain w2 where "run_etcd (ec_delete c (pod_etcd_key ns' nm')) (s\<lparr>sto_world := w1\<rparr>) =
        (Inr (), s\<lparr>sto_world := w1\<rparr>\<lparr>sto_world := w2\<rparr>)"
        "kvs w2 = (kvs (sto_world (s\<lparr>sto_world := w1\<rparr>)))(pod_etcd_key ns' nm' := None)" by (rule run_delete)
    ultimately show ?thesis
      using remove assms(2) by (auto simp: remove_pod_def Let_def split: option.splits)
  qed
  ultimately show ?thesis by (auto simp: grows_def version_of_def)
next
  case (update ns' nm' et mutate rb)
  have "op_grows c kvs (pod_etcd_key ns nm)
      (sbind (update_and_publish_pod ns' nm' et (\<lambda>p. (mutate p, ())) ()) (\<lambda>(ok, _). sret ok))"
    by (intro grows_calls grows_update) (simp add: op_grows_same)
  from op_growsD[OF this assms(2) update(3)] show ?thesis .
qed (use assms(2) in \<open>auto dest: op_growsD[OF grows_upsert] op_growsD[OF grows_create] op_growsD[OF grows_get_pod]
      op_growsD[OF grows_list_pods] op_growsD[OF grows_register] op_growsD[OF grows_set_status]
      op_growsD[OF grows_get_node] op_growsD[OF grows_list_nodes] op_growsD[OF grows_watch_started]
      simp: grows_watch_ended\<close>)

lemma run_grows:
  "store_run s trace s' \<Longrightarrow> etcd_wf c kvs s \<Longrightarrow>
   (\<forall>(call, reply) \<in> set trace. call_ok call \<and> call \<noteq> CallRemovePod ns nm) \<Longrightarrow>
   etcd_wf c kvs s' \<and> grows (pod_etcd_key ns nm) (kvs (sto_world s)) (kvs (sto_world s'))"
proof (induction rule: store_run.induct)
  case (run_nil s)
  then show ?case by simp
next
  case (run_cons s call reply s1 rest s2)
  have "etcd_wf c kvs s1" "grows (pod_etcd_key ns nm) (kvs (sto_world s)) (kvs (sto_world s1))"
    using step_grows[OF run_cons.hyps(1)] sim_step[OF run_cons.hyps(1)] run_cons.prems
    by (auto simp: etcd_wf_client etcd_wf_entries)
  then show ?case using run_cons by (auto intro: grows_trans)
qed

end

context etcd_server
begin

lemma update_read_entry:
  assumes "etcd_wf c kvs s0" "update_read ns nm s0 = (Inr (Some (p0, n)), s1)"
  shows "\<exists>v. kvs (sto_world s1) (pod_etcd_key ns nm) = Some (v, n) \<and> dec_pod c v = Inr p0 \<and>
     etcd_wf c kvs s1 \<and> slash_free (ns, nm)"
proof (cases rule: read_pod[OF assms(1), of ns nm])
  case (1 w)
  with assms show ?thesis by (simp add: update_read_def etcd_wf_client first_kv_def)
next
  case (2 w v n' p)
  with assms have "s1 = s0\<lparr>sto_world := w\<rparr>" "p0 = p" "n = n'"
    by (auto simp: update_read_def etcd_wf_client first_kv_def)
  with 2 assms(1) show ?thesis by (simp add: same_contents)
qed

lemma commit_core:
  assumes wf0: "etcd_wf c kvs s0" and read: "update_read ns nm s0 = (Inr (Some (p0, n)), s1)"
    and run: "store_run s1 trace s2"
    and calls: "\<forall>(call, reply) \<in> set trace. call_ok call \<and> call \<noteq> CallRemovePod ns nm"
    and commit: "update_commit ns nm et p n s2 = (Inr committed, s3)"
  shows "if committed
     then pod_at c (kvs (sto_world s2)) (ns, nm) = Some p0 \<and>
          pod_at c (kvs (sto_world s3)) = (pod_at c (kvs (sto_world s2)))((ns, nm) \<mapsto> p) \<and>
          sto_pod_events s3 = sto_pod_events s2 @ [\<lparr>wpe_event_type = event_type_i32 et, wpe_pod = Some p\<rparr>]
     else pod_at c (kvs (sto_world s3)) = pod_at c (kvs (sto_world s2)) \<and> sto_pod_events s3 = sto_pod_events s2"
proof -
  let ?k = "pod_etcd_key ns nm" and ?m = "kvs (sto_world s2)"
  have k: "?k = pod_key_etcd (ns, nm)" by (simp add: pod_key_etcd_def)
  obtain v where v: "kvs (sto_world s1) ?k = Some (v, n)" "dec_pod c v = Inr p0" "etcd_wf c kvs s1"
      and sf: "slash_free (ns, nm)"
    using update_read_entry[OF wf0 read] by blast
  have wf2: "etcd_wf c kvs s2" and gr: "grows ?k (kvs (sto_world s1)) ?m"
    using run_grows[OF run v(3) calls] by simp_all
  obtain w where w: "run_etcd (ec_txn c [(?k, n)] [(?k, enc_pod c p)]) s2 =
      (Inr (version_of ?m ?k = n), s2\<lparr>sto_world := w\<rparr>)"
      "kvs w = (if version_of ?m ?k = n then put_entry ?m ?k (enc_pod c p) else ?m)"
    by (rule run_txn)
  have com: "committed = (version_of ?m ?k = n)"
      and s3: "s3 = (if committed then publish_pod_event et p (s2\<lparr>sto_world := w\<rparr>) else s2\<lparr>sto_world := w\<rparr>)"
    using commit w(1) wf2 by (auto simp: update_commit_def etcd_wf_client sbind_def)
  show ?thesis
  proof (cases committed)
    case True
    then have "?m ?k = Some (v, n)" using gr com v(1) by (simp add: grows_def version_of_def)
    then have "pod_at c ?m (ns, nm) = Some p0" using v(2) k by (simp add: pod_at_def)
    with True com w(2) s3 pod_at_put[OF sf dec_enc_pod[of p], of ?m] k show ?thesis by simp
  next
    case False
    with com w(2) s3 show ?thesis by simp
  qed
qed

end

section \<open>No lost update while the pod lives\<close>

text \<open>
  C24. A status or placement write over etcd never silently undoes another one: between the read and
  the transaction of \<open>update_and_publish_pod\<close> any sequence of other calls may run, and as
  long as the pod itself is not deleted meanwhile, a commit that succeeds replaces exactly the pod
  that was read and stores the mutated one; a commit that does not succeed changes no pod and
  publishes nothing.
\<close>

theorem commit_replaces_what_was_read:
  fixes c :: "('w, 'v) etcd_client"
  assumes "etcd_server c kvs" and "etcd_wf c kvs s0"
    and "update_read ns nm s0 = (Inr (Some (p0, n)), s1)"
    and "store_run s1 trace s2"
    and "\<forall>(call, reply) \<in> set trace. call_ok call \<and> call \<noteq> CallRemovePod ns nm"
    and "update_commit ns nm et p n s2 = (Inr committed, s3)"
  shows "if committed
     then pod_at c (kvs (sto_world s2)) (ns, nm) = Some p0 \<and>
          pod_at c (kvs (sto_world s3)) = (pod_at c (kvs (sto_world s2)))((ns, nm) \<mapsto> p) \<and>
          sto_pod_events s3 = sto_pod_events s2 @ [\<lparr>wpe_event_type = event_type_i32 et, wpe_pod = Some p\<rparr>]
     else pod_at c (kvs (sto_world s3)) = pod_at c (kvs (sto_world s2)) \<and> sto_pod_events s3 = sto_pod_events s2"
  using assms(2-6) by (rule etcd_server.commit_core[OF assms(1)])

text \<open>A run in which another writer gets in first: the scheduler assigns the pod after the agent's
  read, so the agent's commit is refused.\<close>

definition cas_store0 :: "(ref_world, wire) store" where
  "cas_store0 = snd (create_pod demo_pod (store_new_with_etcd ref_client []))"

definition cas_store1 :: "(ref_world, wire) store" where
  "cas_store1 = snd (update_read ''default'' ''web'' cas_store0)"

definition cas_trace :: "store_call list" where
  "cas_trace = [CallUpdatePod ''default'' ''web'' EvScheduled (\<lambda>p. p\<lparr>pd_node_name := ''n1''\<rparr>)]"

definition cas_store2 :: "(ref_world, wire) store" where
  "cas_store2 = snd (exec_calls cas_trace cas_store1)"

definition cas_store3 :: "(ref_world, wire) store" where
  "cas_store3 = snd (update_commit ''default'' ''web'' EvModified (set_core_status 1 demo_pod) 1 cas_store2)"

lemma cas_wf: "etcd_wf ref_client ref_kvs cas_store0"
proof -
  have "ref_kvs [] = Map.empty" by (rule ext) (simp add: ref_kvs_def)
  moreover have "slash_free (pod_key demo_pod)"
    by (simp add: slash_free_def pod_key_def demo_pod_def new_pod_detail_def)
  ultimately show ?thesis
    unfolding cas_store0_def
    using ref_etcd.sim_create_pod[OF ref_etcd.wf_new[of "[]"], of demo_pod] by (simp add: same_effect_def)
qed

lemma cas_read: "update_read ''default'' ''web'' cas_store0 = (Inr (Some (demo_pod, 1)), cas_store1)"
proof -
  have "fst (update_read ''default'' ''web'' cas_store0) = Inr (Some (demo_pod, 1))" by code_simp
  then show ?thesis by (metis cas_store1_def prod.collapse)
qed

lemma cas_run: "store_run cas_store1 (zip cas_trace (fst (exec_calls cas_trace cas_store1))) cas_store2"
  by (rule exec_calls_run) (simp_all add: cas_store2_def cas_trace_def)

lemma cas_commit:
  "update_commit ''default'' ''web'' EvModified (set_core_status 1 demo_pod) 1 cas_store2 = (Inr False, cas_store3)"
proof -
  have "fst (update_commit ''default'' ''web'' EvModified (set_core_status 1 demo_pod) 1 cas_store2) = Inr False"
    by code_simp
  then show ?thesis by (metis cas_store3_def prod.collapse)
qed

theorem commit_replaces_what_was_read_witness:
  "pod_at ref_client (ref_kvs (sto_world cas_store3)) = pod_at ref_client (ref_kvs (sto_world cas_store2)) \<and>
   map_option pd_node_name (pod_at ref_client (ref_kvs (sto_world cas_store2)) (''default'', ''web'')) = Some ''n1''"
proof -
  have ok: "\<forall>(call, reply) \<in> set (zip cas_trace (fst (exec_calls cas_trace cas_store1))).
      call_ok call \<and> call \<noteq> CallRemovePod ''default'' ''web''"
    by (auto simp: cas_trace_def call_ok_def dest!: set_zip_leftD)
  have "map_option pd_node_name (pod_at ref_client (ref_kvs (sto_world cas_store2)) (''default'', ''web'')) = Some ''n1''"
    by code_simp
  with commit_replaces_what_was_read[OF ref_etcd.etcd_server_axioms cas_wf cas_read cas_run ok cas_commit]
  show ?thesis by simp
qed

section \<open>A deleted and recreated pod\<close>

text \<open>
  etcd forgets a key's version when the key is deleted: the first put of the recreated key has
  version 1 again, so the version guard cannot tell the new pod from the old one.
\<close>

context etcd_server
begin

lemma remove_clears_key:
  assumes "sto_client s = Some c" "remove_pod ns nm s = (r, s')"
  shows "sto_client s' = Some c \<and> kvs (sto_world s') = (kvs (sto_world s))(pod_etcd_key ns nm := None)"
proof -
  obtain r1 w1 where "run_etcd (ec_get c (pod_etcd_key ns nm)) s = (Inr r1, s\<lparr>sto_world := w1\<rparr>)"
      "kvs w1 = kvs (sto_world s)" by (rule run_get)
  moreover obtain w2 where "run_etcd (ec_delete c (pod_etcd_key ns nm)) (s\<lparr>sto_world := w1\<rparr>) =
      (Inr (), s\<lparr>sto_world := w1\<rparr>\<lparr>sto_world := w2\<rparr>)"
      "kvs w2 = (kvs (sto_world (s\<lparr>sto_world := w1\<rparr>)))(pod_etcd_key ns nm := None)" by (rule run_delete)
  ultimately show ?thesis
    using assms by (auto simp: remove_pod_def Let_def split: option.splits)
qed

lemma create_sets_version_1:
  assumes "sto_client s = Some c" "create_pod q s = (Inr True, s')" "pod_key q = (ns, nm)"
  shows "sto_client s' = Some c \<and>
     kvs (sto_world s') = (kvs (sto_world s))(pod_etcd_key ns nm \<mapsto> (enc_pod c q, 1))"
proof -
  let ?k = "pod_etcd_key ns nm" and ?m = "kvs (sto_world s)"
  obtain w where w: "run_etcd (ec_txn c [(?k, 0)] [(?k, enc_pod c q)]) s = (Inr (version_of ?m ?k = 0), s\<lparr>sto_world := w\<rparr>)"
    "kvs w = (if version_of ?m ?k = 0 then put_entry ?m ?k (enc_pod c q) else ?m)" by (rule run_txn)
  have "version_of ?m ?k = 0 \<and> s' = publish_pod_event EvAdded q (s\<lparr>sto_world := w\<rparr>)"
    using assms w(1) by (cases "version_of ?m ?k = 0") (auto simp: create_pod_def sbind_def pod_key_etcd_def Let_def)
  then show ?thesis using w(2) assms(1) by (simp add: put_entry_def)
qed

lemma stale_commit_core:
  assumes wf: "etcd_wf c kvs s0" and read: "update_read ns nm s0 = (Inr (Some (p0, 1)), s1)"
    and client: "sto_client s2 = Some c"
    and removed: "remove_pod ns nm s2 = (r, s3)" and created: "create_pod q s3 = (Inr True, s4)"
    and key: "pod_key q = (ns, nm)"
    and commit: "update_commit ns nm et p 1 s4 = (committed, s5)"
  shows "committed = Inr True \<and> pod_at c (kvs (sto_world s4)) (ns, nm) = Some q \<and>
     pod_at c (kvs (sto_world s5)) = (pod_at c (kvs (sto_world s4)))((ns, nm) \<mapsto> p) \<and>
     sto_pod_events s5 = sto_pod_events s4 @ [\<lparr>wpe_event_type = event_type_i32 et, wpe_pod = Some p\<rparr>]"
proof -
  let ?k = "pod_etcd_key ns nm" and ?m = "kvs (sto_world s4)"
  have k: "?k = pod_key_etcd (ns, nm)" by (simp add: pod_key_etcd_def)
  have sf: "slash_free (ns, nm)" using update_read_entry[OF wf read] by blast
  have s3: "sto_client s3 = Some c" using remove_clears_key[OF client removed] by blast
  have s4: "sto_client s4 = Some c" "?m ?k = Some (enc_pod c q, 1)"
    using create_sets_version_1[OF s3 created key] by simp_all
  then have "version_of ?m ?k = 1" by (simp add: version_of_def)
  moreover obtain w where w: "run_etcd (ec_txn c [(?k, 1)] [(?k, enc_pod c p)]) s4 = (Inr (version_of ?m ?k = 1), s4\<lparr>sto_world := w\<rparr>)"
    "kvs w = (if version_of ?m ?k = 1 then put_entry ?m ?k (enc_pod c p) else ?m)" by (rule run_txn)
  ultimately have "committed = Inr True" "s5 = publish_pod_event et p (s4\<lparr>sto_world := w\<rparr>)"
    "kvs w = put_entry ?m ?k (enc_pod c p)" using commit s4(1) by (auto simp: update_commit_def sbind_def)
  then show ?thesis
    using pod_at_put[OF sf dec_enc_pod[of p], of ?m] s4(2) k by (simp add: pod_at_def dec_enc_pod)
qed

end

definition new_web_pod :: pod_detail where
  "new_web_pod = new_pod_detail
     \<lparr>pw_pod = Some \<lparr>p_name = ''web'', p_status = 0, p_requests = None, p_limits = None\<rparr>,
      pw_spec = Some \<lparr>ps_namespace = ''default'',
        ps_containers = [\<lparr>ct_name = ''app'', ct_image = ''v2'', ct_ports = [], ct_env = []\<rparr>]\<rparr>\<rparr>"

text \<open>
  C37. The version guard does not protect a pod that is deleted and recreated under the same name. Over
  any etcd and whatever pods the store holds: after an update has read a pod that was written once,
  let other requests change anything through the same client, then one delete the pod and another create
  a pod \<open>q\<close> of the same name. The commit still succeeds, replaces all of \<open>q\<close> with the mutated old
  pod, and announces that.
\<close>

theorem stale_commit_overwrites_recreated_pod:
  fixes c :: "('w, 'v) etcd_client"
  assumes "etcd_server c kvs" and "etcd_wf c kvs s0"
    and "update_read ns nm s0 = (Inr (Some (p0, 1)), s1)"
    and "sto_client s2 = Some c"
    and "remove_pod ns nm s2 = (r, s3)" and "create_pod q s3 = (Inr True, s4)" and "pod_key q = (ns, nm)"
    and "update_commit ns nm et p 1 s4 = (committed, s5)"
  shows "committed = Inr True \<and> pod_at c (kvs (sto_world s4)) (ns, nm) = Some q \<and>
     pod_at c (kvs (sto_world s5)) = (pod_at c (kvs (sto_world s4)))((ns, nm) \<mapsto> p) \<and>
     sto_pod_events s5 = sto_pod_events s4 @ [\<lparr>wpe_event_type = event_type_i32 et, wpe_pod = Some p\<rparr>]"
  using assms(2-8) by (rule etcd_server.stale_commit_core[OF assms(1)])

text \<open>The agent's report on the first pod called \<open>web\<close> lands in the second one, whose image was another.\<close>

definition without_web :: "(ref_world, wire) store" where
  "without_web = snd (remove_pod ''default'' ''web'' cas_store1)"

definition with_new_web :: "(ref_world, wire) store" where
  "with_new_web = snd (create_pod new_web_pod without_web)"

definition stale_committed :: "(store_error + bool) \<times> (ref_world, wire) store" where
  "stale_committed = update_commit ''default'' ''web'' EvModified (set_core_status 1 demo_pod) 1 with_new_web"

theorem stale_commit_overwrites_recreated_pod_witness:
  "fst stale_committed = Inr True \<and>
   pod_at ref_client (ref_kvs (sto_world (snd stale_committed))) (''default'', ''web'') = Some (set_core_status 1 demo_pod) \<and>
   pd_core (set_core_status 1 demo_pod) \<noteq> pd_core new_web_pod"
proof -
  have "fst (create_pod new_web_pod without_web) = Inr True" by code_simp
  then have created: "create_pod new_web_pod without_web = (Inr True, with_new_web)"
    by (metis with_new_web_def prod.collapse)
  have "etcd_wf ref_client ref_kvs cas_store1" using ref_etcd.update_read_entry[OF cas_wf cas_read] by blast
  then have client: "sto_client cas_store1 = Some ref_client" by (rule etcd_wf_client)
  have key: "pod_key new_web_pod = (''default'', ''web'')" by code_simp
  have removed: "remove_pod ''default'' ''web'' cas_store1 = (fst (remove_pod ''default'' ''web'' cas_store1), without_web)"
    by (simp add: without_web_def)
  have commit: "update_commit ''default'' ''web'' EvModified (set_core_status 1 demo_pod) 1 with_new_web =
      (fst stale_committed, snd stale_committed)" by (simp add: stale_committed_def)
  have "pd_core (set_core_status 1 demo_pod) \<noteq> pd_core new_web_pod" by code_simp
  with stale_commit_overwrites_recreated_pod[OF ref_etcd.etcd_server_axioms cas_wf cas_read client removed created key commit]
  show ?thesis by simp
qed

end
