(* ===== verification/Api_Cli.thy ===== *)
theory Api_Cli imports Store_Memory begin

text \<open>
  \<open>api/src/handlers/cli.rs\<close>: the handlers behind the command-line client. A handler is a
  function of its request and the store; the response message is its payload. The functional
  behaviour of each handler is stated for the in-memory store.
\<close>

section \<open>CreatePod\<close>

definition single_quoted :: "string \<Rightarrow> string" where
  "single_quoted s = [CHR 0x27] @ s @ [CHR 0x27]"

text \<open>The loop over the containers, with the names seen so far.\<close>

fun check_containers :: "string list \<Rightarrow> container list \<Rightarrow> unit rpc" where
  "check_containers seen [] = Inr ()"
| "check_containers seen (c # cs) =
     (if ct_name c = [] then Inl (Status InvalidArgument ''container name must not be empty'')
      else if ct_name c \<in> set seen
      then Inl (Status InvalidArgument (''duplicate container name '' @ single_quoted (ct_name c)))
      else if ct_image c = []
      then Inl (Status InvalidArgument (''container '' @ single_quoted (ct_name c) @ '' must specify an image''))
      else check_containers (ct_name c # seen) cs)"

definition validate_create :: "pod_with_spec option \<Rightarrow> (pod_with_spec \<times> string \<times> string) rpc" where
  "validate_create req =
     rbind (ok_or req (Status InvalidArgument ''pod is required'')) (\<lambda>pws.
     rbind (ok_or (pw_pod pws) (Status InvalidArgument ''pod.pod is required'')) (\<lambda>p.
     rbind (ok_or (pw_spec pws) (Status InvalidArgument ''pod.spec is required'')) (\<lambda>sp.
     rbind (validate_dns1123_subdomain (p_name p) ''pod name'') (\<lambda>_.
     rbind (validate_dns1123_subdomain (ps_namespace sp) ''namespace'') (\<lambda>_.
     rbind (if ps_containers sp = []
            then Inl (Status InvalidArgument ''pod spec must include at least one container'')
            else check_containers [] (ps_containers sp)) (\<lambda>_.
     Inr (pws, p_name p, ps_namespace sp)))))))"

definition create_pod_impl :: "pod_with_spec option \<Rightarrow> (('w, 'v) store, status, pod_detail) op" where
  "create_pod_impl req s =
     (case validate_create req of
        Inl e \<Rightarrow> (Inl e, s)
      | Inr (pws, nm, ns) \<Rightarrow>
          (let detail = new_pod_detail
                 (pws\<lparr>pw_pod := map_option (\<lambda>p. p\<lparr>p_status := pod_status_i32 PodPending\<rparr>) (pw_pod pws)\<rparr>)
           in sbind (smap_err to_status (create_pod detail))
                (\<lambda>created. if created then sret detail else sfail (pod_already_exists ns nm)) s))"

section \<open>The other pod handlers\<close>

definition delete_pod_impl :: "string \<Rightarrow> string \<Rightarrow> (('w, 'v) store, status, string) op" where
  "delete_pod_impl ns nm =
     sbind (smap_err to_status (remove_pod ns nm)) (\<lambda>found.
     sbind (slift (ok_or found (pod_not_found ns nm))) (\<lambda>p s.
       (Inr nm,
        if pd_node_name p \<noteq> []
        then publish_desired_state_event (pd_node_name p)
               \<lparr>dse_action = ds_action_i32 DsStop, dse_pod = pd_core p\<rparr> s
        else s)))"

definition get_pod_impl :: "string \<Rightarrow> string \<Rightarrow> (('w, 'v) store, status, pod_detail) op" where
  "get_pod_impl ns nm =
     sbind (smap_err to_status (get_pod ns nm)) (\<lambda>found. slift (ok_or found (pod_not_found ns nm)))"

definition list_pods_impl :: "pod_key list \<Rightarrow> (('w, 'v) store, status, pod_detail list) op" where
  "list_pods_impl ord = smap_err to_status (list_pods ord)"

section \<open>Node reads\<close>

definition add_limits :: "resources \<Rightarrow> resources \<Rightarrow> resources" where
  "add_limits acc lim =
     \<lparr>res_cpu = i32_add (res_cpu acc) (res_cpu lim), res_memory = i32_add (res_memory acc) (res_memory lim)\<rparr>"

definition pod_limits_of :: "pod_detail \<Rightarrow> resources option" where
  "pod_limits_of d =
     (case pd_core d of None \<Rightarrow> None
      | Some core \<Rightarrow> (case pw_pod core of None \<Rightarrow> None | Some p \<Rightarrow> p_limits p))"

definition live_allocatable :: "node \<Rightarrow> pod_detail list \<Rightarrow> resources option" where
  "live_allocatable nd pods =
     (case nd_capacity nd of
        None \<Rightarrow> None
      | Some cap \<Rightarrow>
          (let allocated = foldl add_limits default_resources
                 (List.map_filter pod_limits_of (filter (\<lambda>p. pd_node_name p = nd_name nd) pods))
           in Some \<lparr>res_cpu = max (i32_sub (res_cpu cap) (res_cpu allocated)) 0,
                    res_memory = max (i32_sub (res_memory cap) (res_memory allocated)) 0\<rparr>))"

definition with_live_allocatable :: "pod_detail list \<Rightarrow> node \<Rightarrow> node" where
  "with_live_allocatable pods nd =
     (case live_allocatable nd pods of None \<Rightarrow> nd | Some a \<Rightarrow> nd\<lparr>nd_allocatable := Some a\<rparr>)"

definition get_node_impl :: "pod_key list \<Rightarrow> string \<Rightarrow> (('w, 'v) store, status, node) op" where
  "get_node_impl ord nm =
     sbind (smap_err to_status (get_node nm)) (\<lambda>found.
     sbind (slift (ok_or found (node_not_found nm))) (\<lambda>nd.
     sbind (smap_err to_status (list_pods ord)) (\<lambda>pods. sret (with_live_allocatable pods nd))))"

definition list_nodes_impl :: "pod_key list \<Rightarrow> string list \<Rightarrow> (('w, 'v) store, status, node list) op" where
  "list_nodes_impl ord nord =
     sbind (smap_err to_status (list_nodes nord)) (\<lambda>nodes.
     sbind (smap_err to_status (list_pods ord)) (\<lambda>pods. sret (map (with_live_allocatable pods) nodes)))"

lemmas cli_defs [handler_defs] =
  create_pod_impl_def delete_pod_impl_def get_pod_impl_def list_pods_impl_def get_node_impl_def
  list_nodes_impl_def

section \<open>What a validated request looks like\<close>

definition containers_ok :: "container list \<Rightarrow> bool" where
  "containers_ok cs \<longleftrightarrow> (\<forall>c \<in> set cs. ct_name c \<noteq> [] \<and> ct_image c \<noteq> []) \<and> distinct (map ct_name cs)"

lemma check_containers_ok_iff:
  "check_containers seen cs = Inr () \<longleftrightarrow> containers_ok cs \<and> (\<forall>c \<in> set cs. ct_name c \<notin> set seen)"
  by (induction seen cs rule: check_containers.induct) (auto simp: containers_ok_def image_iff)

lemma check_containers_err:
  "check_containers seen cs = Inl e \<Longrightarrow> st_code e = InvalidArgument"
  by (induction seen cs rule: check_containers.induct) (auto split: if_splits)

text \<open>The admission rule, as a condition on the pod that is stored.\<close>

definition admissible :: "pod_with_spec \<Rightarrow> bool" where
  "admissible pws \<longleftrightarrow>
     (\<exists>p sp. pw_pod pws = Some p \<and> pw_spec pws = Some sp \<and> dns_label (p_name p) \<and>
        dns_label (ps_namespace sp) \<and> ps_containers sp \<noteq> [] \<and> containers_ok (ps_containers sp))"

lemma validate_create_ok_iff:
  "validate_create req = Inr (pws, nm, ns) \<longleftrightarrow>
     req = Some pws \<and> admissible pws \<and> (ns, nm) = pod_key (new_pod_detail pws)"
proof (cases req)
  case None
  then show ?thesis by (simp add: validate_create_def)
next
  case (Some x)
  show ?thesis
  proof (cases "\<exists>p sp. pw_pod x = Some p \<and> pw_spec x = Some sp")
    case False
    then have "\<not> admissible x" by (auto simp: admissible_def)
    moreover have "\<exists>e. validate_create req = Inl e"
      using False Some by (cases "pw_pod x"; cases "pw_spec x") (simp_all add: validate_create_def)
    ultimately show ?thesis using Some by auto
  next
    case True
    then obtain p sp where x: "pw_pod x = Some p" "pw_spec x = Some sp" by blast
    have key: "pod_key (new_pod_detail x) = (ps_namespace sp, p_name p)"
      using x by (simp add: pod_key_def new_pod_detail_def)
    have "validate_create req = Inr (pws, nm, ns) \<longleftrightarrow>
        pws = x \<and> nm = p_name p \<and> ns = ps_namespace sp \<and>
        dns_label (p_name p) \<and> dns_label (ps_namespace sp) \<and> ps_containers sp \<noteq> [] \<and>
        containers_ok (ps_containers sp)"
      using Some x
      by (auto simp: validate_create_def rbind_eq_Inr validate_dns1123_ok_iff check_containers_ok_iff)
    then show ?thesis using Some x key by (auto simp: admissible_def)
  qed
qed

lemma validate_create_err:
  "validate_create req = Inl e \<Longrightarrow> st_code e = InvalidArgument \<and> \<not> (\<exists>pws. req = Some pws \<and> admissible pws)"
proof -
  assume e: "validate_create req = Inl e"
  have "st_code e = InvalidArgument"
    using e by (cases req; cases "pw_pod (the req)"; cases "pw_spec (the req)")
      (auto simp: validate_create_def rbind_eq_Inl dest: validate_dns1123_error check_containers_err
            split: if_splits)
  moreover have "\<not> (\<exists>pws. req = Some pws \<and> admissible pws)"
  proof
    assume "\<exists>pws. req = Some pws \<and> admissible pws"
    then obtain pws where "req = Some pws" "admissible pws" by blast
    moreover obtain ns nm where "(ns, nm) = pod_key (new_pod_detail pws)" by (metis surj_pair)
    ultimately have "validate_create req = Inr (pws, nm, ns)" by (simp add: validate_create_ok_iff)
    with e show False by simp
  qed
  ultimately show ?thesis by blast
qed

section \<open>CreatePod on the in-memory store\<close>

text \<open>The pod a valid request creates.\<close>

definition created_pod :: "pod_with_spec \<Rightarrow> pod_detail" where
  "created_pod pws = new_pod_detail
     (pws\<lparr>pw_pod := map_option (\<lambda>p. p\<lparr>p_status := pod_status_i32 PodPending\<rparr>) (pw_pod pws)\<rparr>)"

lemma created_pod_set_status: "created_pod pws = set_core_status (pod_status_i32 PodPending) (new_pod_detail pws)"
  by (simp add: created_pod_def set_core_status_def new_pod_detail_def)

lemma created_pod_sel [simp]:
  "pod_key (created_pod pws) = pod_key (new_pod_detail pws)"
  "desired_of (created_pod pws) = desired_of (new_pod_detail pws)"
  "pd_node_name (created_pod pws) = []"
  "pd_unschedulable_reason (created_pod pws) = None"
  by (simp_all add: created_pod_set_status) (simp_all add: new_pod_detail_def)

lemma created_pod_status: "admissible pws \<Longrightarrow> core_status (created_pod pws) = Some (pod_status_i32 PodPending)"
  unfolding created_pod_set_status core_status_set
  by (auto simp: admissible_def core_status_def new_pod_detail_def)

lemma mem_create_pod_impl:
  assumes "mem_store s"
  shows "create_pod_impl req s =
     (case validate_create req of
        Inl e \<Rightarrow> (Inl e, s)
      | Inr (pws, nm, ns) \<Rightarrow>
          if sto_pods s (pod_key (created_pod pws)) = None
          then (Inr (created_pod pws), publish_pod_event EvAdded (created_pod pws)
                  (s\<lparr>sto_pods := (sto_pods s)(pod_key (created_pod pws) \<mapsto> created_pod pws)\<rparr>))
          else (Inl (pod_already_exists ns nm), s))"
proof (cases "validate_create req")
  case (Inl e)
  then show ?thesis by (simp add: create_pod_impl_def)
next
  case (Inr x)
  obtain pws nm ns where x: "x = (pws, nm, ns)" by (cases x)
  have run: "create_pod_impl req s =
      sbind (smap_err to_status (create_pod (created_pod pws)))
        (\<lambda>created. if created then sret (created_pod pws) else sfail (pod_already_exists ns nm)) s"
    by (simp only: create_pod_impl_def Inr x sum.case prod.case Let_def created_pod_def)
  show ?thesis
  proof (cases "sto_pods s (pod_key (created_pod pws))")
    case None
    with assms Inr x run show ?thesis by (simp add: mem_create_pod_new sbind_def smap_err_def)
  next
    case (Some old)
    with assms Inr x run show ?thesis by (simp add: mem_create_pod_dup sbind_def smap_err_def)
  qed
qed

text \<open>
  C25. CreatePod on the in-memory store: an admissible request (both names valid DNS labels, at least
  one container, container names non-empty and distinct, every image given) for a key that is free
  stores exactly the requested pod, forced to PENDING and unassigned, and publishes one ADDED event;
  a taken key answers ALREADY_EXISTS and every other request INVALID_ARGUMENT, and both leave the
  whole store as it was.
\<close>

theorem create_pod_request:
  assumes "mem_store s" and "create_pod_impl req s = (r, s')"
  shows "case r of
     Inr d \<Rightarrow> (\<exists>pws. req = Some pws \<and> admissible pws \<and> pod_key d = pod_key (new_pod_detail pws) \<and>
                desired_of d = desired_of (new_pod_detail pws)) \<and>
              core_status d = Some (pod_status_i32 PodPending) \<and> pd_node_name d = [] \<and>
              sto_pods s (pod_key d) = None \<and>
              s' = s\<lparr>sto_pods := (sto_pods s)(pod_key d \<mapsto> d),
                     sto_pod_events := sto_pod_events s @
                       [\<lparr>wpe_event_type = event_type_i32 EvAdded, wpe_pod = Some d\<rparr>]\<rparr>
   | Inl e \<Rightarrow> s' = s \<and>
       (if \<exists>pws. req = Some pws \<and> admissible pws
        then st_code e = AlreadyExists \<and> sto_pods s (pod_key (new_pod_detail (the req))) \<noteq> None
        else st_code e = InvalidArgument)"
proof (cases "validate_create req")
  case (Inl e)
  with assms validate_create_err[OF Inl] show ?thesis by (auto simp: mem_create_pod_impl)
next
  case (Inr x)
  obtain pws nm ns where x: "x = (pws, nm, ns)" by (cases x)
  have adm: "req = Some pws" "admissible pws" using Inr x by (auto simp: validate_create_ok_iff)
  show ?thesis
    using assms Inr x adm created_pod_status[OF adm(2)]
    by (auto simp: mem_create_pod_impl publish_pod_event_def split: if_splits)
qed

definition web_request :: pod_with_spec where
  "web_request = \<lparr>pw_pod = Some \<lparr>p_name = ''web'', p_status = 1, p_requests = None, p_limits = None\<rparr>,
     pw_spec = Some \<lparr>ps_namespace = ''default'',
       ps_containers = [\<lparr>ct_name = ''app'', ct_image = ''nginx'', ct_ports = [], ct_env = []\<rparr>]\<rparr>\<rparr>"

theorem create_pod_request_witness:
  "\<exists>d (s' :: (unit, unit) store). create_pod_impl (Some web_request) (store_new ()) = (Inr d, s') \<and>
     core_status d = Some 0 \<and> sto_pods s' (''default'', ''web'') = Some d"
proof -
  have "is_ok (fst (create_pod_impl (Some web_request) (store_new () :: (unit, unit) store)))"
    by code_simp
  then obtain d and s' :: "(unit, unit) store"
    where run: "create_pod_impl (Some web_request) (store_new ()) = (Inr d, s')"
    by (auto simp: is_ok_iff) (metis prod.collapse)
  have key: "pod_key (new_pod_detail web_request) = (''default'', ''web'')"
    by (simp add: web_request_def pod_key_def new_pod_detail_def)
  from create_pod_request[OF wf_store_new(2) run] run key show ?thesis by auto
qed

section \<open>Live allocatable\<close>

lemma foldl_add_limits:
  "in_i32 (res_cpu acc) \<Longrightarrow> res_cpu (foldl add_limits acc ls) = wrap32 (res_cpu acc + (\<Sum>l\<leftarrow>ls. res_cpu l))"
  "in_i32 (res_memory acc) \<Longrightarrow>
     res_memory (foldl add_limits acc ls) = wrap32 (res_memory acc + (\<Sum>l\<leftarrow>ls. res_memory l))"
  by (induction ls arbitrary: acc) (simp_all add: wrap32_id add_limits_def i32_add_def add.assoc)

definition limits_on :: "string \<Rightarrow> pod_detail list \<Rightarrow> resources list" where
  "limits_on nn pods = List.map_filter pod_limits_of (filter (\<lambda>p. pd_node_name p = nn) pods)"

lemma live_allocatable_eq:
  "live_allocatable nd pods = map_option (\<lambda>cap.
     \<lparr>res_cpu = max (wrap32 (res_cpu cap - (\<Sum>l\<leftarrow>limits_on (nd_name nd) pods. res_cpu l))) 0,
      res_memory = max (wrap32 (res_memory cap - (\<Sum>l\<leftarrow>limits_on (nd_name nd) pods. res_memory l))) 0\<rparr>)
     (nd_capacity nd)"
proof (cases "nd_capacity nd")
  case None
  then show ?thesis by (simp add: live_allocatable_def)
next
  case (Some cap)
  have "in_i32 0" by (simp add: in_i32_def)
  then show ?thesis
    unfolding live_allocatable_def limits_on_def[symmetric] Some
    by (simp add: Let_def foldl_add_limits default_resources_def i32_sub_def)
qed

text \<open>What the pods of one node are limited to together, independently of any order.\<close>

definition limit_on :: "(resources \<Rightarrow> int) \<Rightarrow> string \<Rightarrow> pod_detail \<Rightarrow> int" where
  "limit_on res nn p =
     (if pd_node_name p = nn then (case pod_limits_of p of None \<Rightarrow> 0 | Some l \<Rightarrow> res l) else 0)"

definition limits_total :: "(resources \<Rightarrow> int) \<Rightarrow> string \<Rightarrow> (pod_key \<rightharpoonup> pod_detail) \<Rightarrow> int" where
  "limits_total res nn m = (\<Sum>k \<in> dom m. limit_on res nn (the (m k)))"

lemma sum_limits_on:
  "(\<Sum>l\<leftarrow>limits_on nn pods. res l) = (\<Sum>p\<leftarrow>pods. limit_on res nn p)"
  by (induction pods) (auto simp: limits_on_def limit_on_def List.map_filter_def split: option.splits)

lemma sum_map_values:
  assumes "iter_order m ord"
  shows "(\<Sum>p\<leftarrow>map_values m ord. f p) = (\<Sum>k \<in> dom m. f (the (m k)))"
proof -
  have "(\<Sum>p\<leftarrow>map_values m ks. f p) = (\<Sum>k\<leftarrow>ks. f (the (m k)))" if "set ks \<subseteq> dom m" for ks
    using that by (induction ks) auto
  moreover have "(\<Sum>k\<leftarrow>ord. f (the (m k))) = (\<Sum>k \<in> set ord. f (the (m k)))"
    using assms by (intro sum_list_distinct_conv_sum_set) (simp add: iter_order_def)
  ultimately show ?thesis using assms by (simp add: iter_order_def)
qed

lemma sum_limits_total:
  "iter_order m ord \<Longrightarrow> (\<Sum>l\<leftarrow>limits_on nn (map_values m ord). res l) = limits_total res nn m"
  by (simp add: sum_limits_on sum_map_values limits_total_def)

lemma mem_get_node_impl:
  assumes "mem_store s" "sto_nodes s nm = Some nd"
  shows "get_node_impl ord nm s = (Inr (with_live_allocatable (map_values (sto_pods s) ord) nd), s)"
  using assms by (simp add: get_node_impl_def sbind_def smap_err_def mem_get_node mem_list_pods)

text \<open>
  C36. GetNode reports, whatever the iteration order, the node's stored record with its allocatable
  replaced by what is really left: capacity minus the limits of every pod the store has assigned to
  that node, floored at zero in each dimension, provided those limits and their totals stay within
  the 32-bit range; a node without capacity is returned as it is stored.
\<close>

theorem get_node_live_allocatable:
  assumes "mem_store s" and "wf_store s" and "sto_nodes s nm = Some nd" and "iter_order (sto_pods s) ord"
    and "\<And>cap. nd_capacity nd = Some cap \<Longrightarrow>
           in_i32 (res_cpu cap - limits_total res_cpu nm (sto_pods s)) \<and>
           in_i32 (res_memory cap - limits_total res_memory nm (sto_pods s))"
  shows "get_node_impl ord nm s =
     (Inr (case nd_capacity nd of
             None \<Rightarrow> nd
           | Some cap \<Rightarrow> nd\<lparr>nd_allocatable := Some
               \<lparr>res_cpu = max 0 (res_cpu cap - limits_total res_cpu nm (sto_pods s)),
                res_memory = max 0 (res_memory cap - limits_total res_memory nm (sto_pods s))\<rparr>\<rparr>), s)"
proof -
  have "nd_name nd = nm" using assms(2,3) by (simp add: wf_store_def)
  with assms(5) show ?thesis
    unfolding mem_get_node_impl[OF assms(1,3)]
    by (cases "nd_capacity nd")
       (simp_all add: with_live_allocatable_def live_allocatable_eq sum_limits_total[OF assms(4)]
          wrap32_id max.commute)
qed

definition busy_store :: "(unit, unit) store" where
  "busy_store = (store_new ())\<lparr>
     sto_nodes := [''n1'' \<mapsto> demo_node],
     sto_pods := [(''default'', ''web'') \<mapsto>
       (created_pod (web_request\<lparr>pw_pod := Some \<lparr>p_name = ''web'', p_status = 0, p_requests = None,
          p_limits = Some \<lparr>res_cpu = 1500, res_memory = 2048\<rparr>\<rparr>\<rparr>))\<lparr>pd_node_name := ''n1''\<rparr>]\<rparr>"

theorem get_node_live_allocatable_witness:
  "get_node_impl [(''default'', ''web'')] ''n1'' busy_store =
     (Inr (demo_node\<lparr>nd_allocatable := Some \<lparr>res_cpu = 2500, res_memory = 6144\<rparr>\<rparr>), busy_store)"
proof -
  have total: "limits_total res_cpu ''n1'' (sto_pods busy_store) = 1500"
    "limits_total res_memory ''n1'' (sto_pods busy_store) = 2048"
    by (simp_all add: limits_total_def limit_on_def busy_store_def pod_limits_of_def created_pod_def
        web_request_def new_pod_detail_def)
  have "mem_store busy_store" "wf_store busy_store" "iter_order (sto_pods busy_store) [(''default'', ''web'')]"
    "sto_nodes busy_store ''n1'' = Some demo_node"
    by (simp_all add: mem_store_def wf_store_def busy_store_def store_new_def iter_order_def demo_node_def
        web_request_def pod_key_def created_pod_def new_pod_detail_def split: if_splits)
  moreover have "nd_capacity demo_node = Some \<lparr>res_cpu = 4000, res_memory = 8192\<rparr>"
    by (simp add: demo_node_def)
  ultimately show ?thesis
    using get_node_live_allocatable[of busy_store "''n1''" demo_node "[(''default'', ''web'')]"] total
    by (simp add: in_i32_def)
qed

end
