(* ===== verification/Tls_Identity.thy ===== *)
theory Tls_Identity imports Prelude begin

text \<open>
  \<open>proto/src/tls_identity.rs\<close> and \<open>proto/src/tls.rs\<close>: the role and identity a peer
  certificate carries, the two authorization checks, and the plaintext/mTLS switch.
  x509 parsing is a library: a parsed certificate is the list of its common names, its DNS
  and other alternative names, and its organizational units, each entry \<open>None\<close> where the
  attribute is not readable as a string.
\<close>

section \<open>Roles\<close>

datatype role = RoleApi | RoleScheduler | RoleCli | RoleNode

definition role_parse :: "string \<Rightarrow> role option" where
  "role_parse raw =
     (if raw = ''api'' then Some RoleApi
      else if raw = ''scheduler'' then Some RoleScheduler
      else if raw = ''cli'' then Some RoleCli
      else if raw = ''node'' then Some RoleNode
      else None)"

fun role_as_str :: "role \<Rightarrow> string" where
  "role_as_str RoleApi = ''api''"
| "role_as_str RoleScheduler = ''scheduler''"
| "role_as_str RoleCli = ''cli''"
| "role_as_str RoleNode = ''node''"

lemma role_parse_as_str [simp]: "role_parse (role_as_str r) = Some r"
  by (cases r) (simp_all add: role_parse_def)

lemma role_parse_Some: "role_parse s = Some r \<longleftrightarrow> s = role_as_str r"
  by (cases r) (auto simp: role_parse_def)

section \<open>The peer of a request\<close>

datatype peer =
  Plaintext
| Mtls (peer_identity: "string option") (peer_role: "role option")

datatype general_name = DnsName string | OtherName string

record x509 =
  x_common_names :: "string option list"
  x_org_units :: "string option list"
  x_sans :: "general_name list option"

definition first_attr :: "string option list \<Rightarrow> string option" where
  "first_attr xs = (case xs of [] \<Rightarrow> None | a # _ \<Rightarrow> a)"

fun first_dns :: "general_name list \<Rightarrow> string option" where
  "first_dns [] = None"
| "first_dns (DnsName d # _) = Some d"
| "first_dns (OtherName _ # ns) = first_dns ns"

definition identity_of :: "x509 \<Rightarrow> string option" where
  "identity_of cert =
     (case first_attr (x_common_names cert) of
        Some cn \<Rightarrow> Some cn
      | None \<Rightarrow> (case x_sans cert of None \<Rightarrow> None | Some ns \<Rightarrow> first_dns ns))"

definition role_of :: "x509 \<Rightarrow> role option" where
  "role_of cert = (case first_attr (x_org_units cert) of None \<Rightarrow> None | Some ou \<Rightarrow> role_parse ou)"

text \<open>
  What the transport attaches to a request: no TLS information, or the peer's certificate
  chain if it sent one. \<open>parse\<close> is the x509 parser.
\<close>

definition peer_of :: "('der \<Rightarrow> x509 option) \<Rightarrow> 'der list option option \<Rightarrow> peer" where
  "peer_of parse info =
     (case info of None \<Rightarrow> Plaintext
      | Some certs \<Rightarrow>
          (case certs of None \<Rightarrow> Plaintext | Some [] \<Rightarrow> Plaintext
           | Some (leaf # _) \<Rightarrow>
               (case parse leaf of None \<Rightarrow> Mtls None None
                | Some cert \<Rightarrow> Mtls (identity_of cert) (role_of cert))))"

section \<open>The checks\<close>

definition dquote :: string where "dquote = [CHR 0x22]"

definition identity_mismatch :: "string \<Rightarrow> string \<Rightarrow> status" where
  "identity_mismatch pr nn = Status PermissionDenied
     (''mTLS peer identity '' @ dquote @ pr @ dquote @ '' does not match claimed node name '' @ dquote @ nn @ dquote)"

definition missing_identity :: "string \<Rightarrow> status" where
  "missing_identity nn = Status PermissionDenied
     (''mTLS peer certificate has no usable CN/SAN identity; refusing to trust its claim to be node ''
      @ dquote @ nn @ dquote)"

definition role_denied :: "string \<Rightarrow> string \<Rightarrow> status" where
  "role_denied pr ex = Status PermissionDenied
     (''mTLS peer role '' @ dquote @ pr @ dquote @ '' is not authorized to call this RPC (requires role ''
      @ dquote @ ex @ dquote @ '')'')"

fun check_identity :: "peer \<Rightarrow> string \<Rightarrow> unit rpc" where
  "check_identity Plaintext nn = Inr ()"
| "check_identity (Mtls (Some identity) _) nn =
     (if identity = nn then Inr () else Inl (identity_mismatch identity nn))"
| "check_identity (Mtls None _) nn = Inl (missing_identity nn)"

fun check_role :: "peer \<Rightarrow> role \<Rightarrow> unit rpc" where
  "check_role Plaintext ex = Inr ()"
| "check_role (Mtls _ (Some r)) ex =
     (if r = ex then Inr () else Inl (role_denied (role_as_str r) (role_as_str ex)))"
| "check_role (Mtls _ None) ex = Inl (role_denied ''<none>'' (role_as_str ex))"

lemma check_codes [simp]:
  "st_code (identity_mismatch a b) = PermissionDenied"
  "st_code (missing_identity b) = PermissionDenied"
  "st_code (role_denied a b) = PermissionDenied"
  by (simp_all add: identity_mismatch_def missing_identity_def role_denied_def)

lemma check_identity_ok_iff:
  "check_identity p nn = Inr () \<longleftrightarrow> p = Plaintext \<or> (\<exists>r. p = Mtls (Some nn) r)"
  by (cases "(p, nn)" rule: check_identity.cases) auto

lemma check_role_ok_iff:
  "check_role p ex = Inr () \<longleftrightarrow> p = Plaintext \<or> (\<exists>i. p = Mtls i (Some ex))"
  by (cases "(p, ex)" rule: check_role.cases) auto

lemma check_identity_err: "check_identity p nn = Inl e \<Longrightarrow> st_code e = PermissionDenied \<and> p \<noteq> Plaintext"
  by (cases "(p, nn)" rule: check_identity.cases) (auto split: if_splits)

lemma check_role_err: "check_role p ex = Inl e \<Longrightarrow> st_code e = PermissionDenied \<and> p \<noteq> Plaintext"
  by (cases "(p, ex)" rule: check_role.cases) (auto split: if_splits)

text \<open>Fail closed: a peer that sent a certificate is never treated as a plaintext peer, whatever
  the parser makes of the certificate.\<close>

lemma peer_of_certificate:
  "peer_of parse (Some (Some (leaf # rest))) \<noteq> Plaintext"
  by (auto simp: peer_of_def split: option.splits)

lemma peer_of_plaintext_iff:
  "peer_of parse info = Plaintext \<longleftrightarrow> info = None \<or> info = Some None \<or> info = Some (Some [])"
  by (auto simp: peer_of_def split: option.splits list.splits)

section \<open>Choosing plaintext or mTLS\<close>

record tls_args =
  ta_cert :: "string option"
  ta_key :: "string option"
  ta_ca :: "string option"
  ta_server_name :: "string option"

datatype tls_mode = ModePlaintext | ModeMtls (m_cert: string) (m_key: string) (m_ca: string)

definition tls_mode :: "tls_args \<Rightarrow> string + tls_mode" where
  "tls_mode args =
     (case (ta_cert args, ta_key args, ta_ca args) of
        (None, None, None) \<Rightarrow> Inr ModePlaintext
      | (Some cert, Some key, Some ca) \<Rightarrow> Inr (ModeMtls cert key ca)
      | _ \<Rightarrow> Inl ''--tls-cert, --tls-key and --tls-ca must all be set together (mTLS) or all omitted (plaintext)'')"

lemma tls_mode_plaintext_iff:
  "tls_mode a = Inr ModePlaintext \<longleftrightarrow> ta_cert a = None \<and> ta_key a = None \<and> ta_ca a = None"
  by (auto simp: tls_mode_def split: option.splits)

lemma tls_mode_mtls_iff:
  "tls_mode a = Inr (ModeMtls c k r) \<longleftrightarrow> ta_cert a = Some c \<and> ta_key a = Some k \<and> ta_ca a = Some r"
  by (auto simp: tls_mode_def split: option.splits)

end
