(* ===== verification/Api_Watch.thy ===== *)
theory Api_Watch imports Store_Memory Tls_Identity begin

text \<open>
  \<open>api/src/handlers/scheduler.rs\<close> and \<open>api/src/handlers/agent.rs\<close>: the scheduler's and
  the agents' handlers. A server stream is its initial items, already decided when the call
  returns, and the receiver whose later items follow. A request carries its peer.
\<close>

section \<open>Watches of the scheduler\<close>

definition watch_pods_impl :: "pod_key list \<Rightarrow> (('w, 'v) store, status, watch_pod_event list \<times> nat) op" where
  "watch_pods_impl ord =
     sbind (smap_err to_status (subscribe_pod_events_with_snapshot ord)) (\<lambda>(snapshot, receiver).
     sret (map (\<lambda>p. \<lparr>wpe_event_type = event_type_i32 EvAdded, wpe_pod = Some p\<rparr>) snapshot, receiver))"

definition watch_nodes_impl :: "string list \<Rightarrow> (('w, 'v) store, status, watch_node_event list \<times> nat) op" where
  "watch_nodes_impl nord =
     sbind (smap_err to_status (subscribe_node_events_with_snapshot nord)) (\<lambda>(nodes, receiver).
     sret (map (\<lambda>n. \<lparr>wne_event_type = event_type_i32 EvAdded, wne_node = Some n\<rparr>) nodes, receiver))"

section \<open>AssignPod\<close>

text \<open>The three closures. The first one also hands the placed pod's core out of the guard.\<close>

definition place_on :: "string \<Rightarrow> pod_detail \<Rightarrow> pod_detail \<times> pod_with_spec option" where
  "place_on nn d =
     (let d' = set_core_status (pod_status_i32 PodPending)
                 (d\<lparr>pd_node_name := nn, pd_unschedulable_reason := None\<rparr>)
      in (d', pd_core d'))"

definition mark_unplaced :: "pod_status \<Rightarrow> string \<Rightarrow> pod_detail \<Rightarrow> pod_detail" where
  "mark_unplaced st reason d =
     set_core_status (pod_status_i32 st) (d\<lparr>pd_node_name := [], pd_unschedulable_reason := Some reason\<rparr>)"

definition assign_pod_impl :: "assign_pod_request \<Rightarrow> (('w, 'v) store, status, unit) op" where
  "assign_pod_impl req =
     sbind (slift (ok_or (ap_outcome req) (Status InvalidArgument ''missing assignment outcome''))) (\<lambda>outcome.
     (case outcome of
        OutNodeName nn \<Rightarrow>
          sbind (smap_err to_status
                   (update_and_publish_pod (ap_namespace req) (ap_name req) EvScheduled (place_on nn) None))
            (\<lambda>(found, placed) s.
               if \<not> found then (Inl (pod_not_found (ap_namespace req) (ap_name req)), s)
               else (Inr (), publish_desired_state_event nn \<lparr>dse_action = ds_action_i32 DsRun, dse_pod = placed\<rparr> s))
      | OutUnschedulable reason \<Rightarrow>
          sbind (smap_err to_status
                   (update_and_publish_pod (ap_namespace req) (ap_name req) EvModified
                      (\<lambda>d. (mark_unplaced PodNoNodeAvailable reason d, ())) ()))
            (\<lambda>(found, _). if \<not> found then sfail (pod_not_found (ap_namespace req) (ap_name req)) else sret ())
      | OutOrphaned reason \<Rightarrow>
          sbind (smap_err to_status
                   (update_and_publish_pod (ap_namespace req) (ap_name req) EvModified
                      (\<lambda>d. (mark_unplaced PodUnknown reason d, ())) ()))
            (\<lambda>(found, _). if \<not> found then sfail (pod_not_found (ap_namespace req) (ap_name req)) else sret ())))"

section \<open>UpdatePodStatus\<close>

definition missing_fields :: "pod_with_spec \<Rightarrow> string list" where
  "missing_fields reported =
     (if (case pw_pod reported of None \<Rightarrow> True | Some p \<Rightarrow> p_name p = []) then [''pod name''] else []) @
     (if ps_namespace (case pw_spec reported of None \<Rightarrow> default_pod_spec | Some sp \<Rightarrow> sp) = []
      then [''pod namespace''] else [])"

text \<open>The closure that merges a report into the stored pod.\<close>

definition merge_report :: "int \<Rightarrow> update_pod_status_request \<Rightarrow> pod_detail \<Rightarrow> pod_detail" where
  "merge_report st req d =
     (let d1 = set_core_status st d;
          d2 = (if ups_container_statuses req \<noteq> [] then d1\<lparr>pd_container_statuses := ups_container_statuses req\<rparr> else d1);
          d3 = (if ups_pod_ip req \<noteq> None then d2\<lparr>pd_pod_ip := ups_pod_ip req\<rparr> else d2);
          d4 = (if ups_message req \<noteq> None then d3\<lparr>pd_message := ups_message req\<rparr> else d3)
      in if ups_resource_usage req \<noteq> None then d4\<lparr>pd_resource_usage := ups_resource_usage req\<rparr> else d4)"

text \<open>
  The handler takes the store's guard twice. \<open>check_report\<close> reads the pod and checks that the peer is the
  node it is assigned to; \<open>write_report\<close> merges the report into whatever pod has the name by then.
  Between the two, other requests are served: \<open>update_pod_status_between\<close> is the handler with \<open>other\<close>
  as what they do to the store, \<open>update_pod_status_impl\<close> the handler that nothing comes between.
\<close>

definition check_report ::
  "peer \<Rightarrow> update_pod_status_request \<Rightarrow> (('w, 'v) store, status, string \<times> string \<times> int) op" where
  "check_report peer req =
     sbind (slift (ok_or (ups_pod req) (pod_not_found ''<unknown>'' ''<unknown>''))) (\<lambda>reported.
     (let spec = (case pw_spec reported of None \<Rightarrow> default_pod_spec | Some sp \<Rightarrow> sp);
          ns = ps_namespace spec
      in if missing_fields reported \<noteq> []
         then sfail (Status InvalidArgument (''missing '' @ join '', '' (missing_fields reported)))
         else
           (let reported_pod = the (pw_pod reported); nm = p_name reported_pod
            in sbind (smap_err to_status (get_pod ns nm)) (\<lambda>found.
               sbind (slift (ok_or found (pod_not_found ns nm))) (\<lambda>existing.
               sbind (slift (check_identity peer (pd_node_name existing))) (\<lambda>_.
               sret (ns, nm, p_status reported_pod)))))))"

definition write_report ::
  "update_pod_status_request \<Rightarrow> string \<times> string \<times> int \<Rightarrow> (('w, 'v) store, status, unit) op" where
  "write_report req = (\<lambda>(ns, nm, st).
     sbind (smap_err to_status (update_pod_status ns nm (merge_report st req)))
       (\<lambda>found. if \<not> found then sfail (pod_not_found ns nm) else sret ()))"

definition update_pod_status_between ::
  "(('w, 'v) store \<Rightarrow> ('w, 'v) store) \<Rightarrow> peer \<Rightarrow> update_pod_status_request \<Rightarrow> (('w, 'v) store, status, unit) op" where
  "update_pod_status_between other peer req =
     sbind (check_report peer req) (\<lambda>checked s. write_report req checked (other s))"

definition update_pod_status_impl :: "peer \<Rightarrow> update_pod_status_request \<Rightarrow> (('w, 'v) store, status, unit) op" where
  "update_pod_status_impl peer req = sbind (check_report peer req) (write_report req)"

lemma update_pod_status_alone: "update_pod_status_between (\<lambda>s. s) = update_pod_status_impl"
  by (intro ext) (simp add: update_pod_status_between_def update_pod_status_impl_def)

lemma update_pod_status_impl_whole:
  "update_pod_status_impl peer req =
     sbind (slift (ok_or (ups_pod req) (pod_not_found ''<unknown>'' ''<unknown>''))) (\<lambda>reported.
     (let spec = (case pw_spec reported of None \<Rightarrow> default_pod_spec | Some sp \<Rightarrow> sp);
          ns = ps_namespace spec
      in if missing_fields reported \<noteq> []
         then sfail (Status InvalidArgument (''missing '' @ join '', '' (missing_fields reported)))
         else
           (let reported_pod = the (pw_pod reported); nm = p_name reported_pod
            in sbind (smap_err to_status (get_pod ns nm)) (\<lambda>found.
               sbind (slift (ok_or found (pod_not_found ns nm))) (\<lambda>existing.
               sbind (slift (check_identity peer (pd_node_name existing))) (\<lambda>_.
               sbind (smap_err to_status (update_pod_status ns nm (merge_report (p_status reported_pod) req)))
                 (\<lambda>found. if \<not> found then sfail (pod_not_found ns nm) else sret ())))))))"
  unfolding update_pod_status_impl_def check_report_def sbind_assoc
  by (rule arg_cong[where f = "sbind (slift _)"])
     (rule ext, simp only: Let_def if_distrib[where f = "\<lambda>m. sbind m _"] sbind_assoc sbind_known write_report_def prod.case)

section \<open>UpdateNodeStatus and WatchDesiredState\<close>

definition update_node_status_impl :: "peer \<Rightarrow> node option \<Rightarrow> (('w, 'v) store, status, unit) op" where
  "update_node_status_impl peer req =
     sbind (slift (ok_or req (missing_node ''<unknown>''))) (\<lambda>nd.
     if nd_name nd = [] then sfail (Status InvalidArgument ''missing node name'')
     else sbind (slift (check_identity peer (nd_name nd))) (\<lambda>_.
          smap_err to_status (register_node nd)))"

definition run_event :: "pod_with_spec \<Rightarrow> ds_event" where
  "run_event pws = \<lparr>dse_action = ds_action_i32 DsRun, dse_pod = Some pws\<rparr>"

definition synced_event :: ds_event where
  "synced_event = \<lparr>dse_action = ds_action_i32 DsSynced, dse_pod = None\<rparr>"

text \<open>The caller builds the \<open>NodeLivenessGuard\<close> from a successful result: one
  \<open>node_watch_ended\<close> follows when the stream is dropped.\<close>

definition watch_desired_state_impl ::
  "(nat \<Rightarrow> nat) \<Rightarrow> pod_key list \<Rightarrow> peer \<Rightarrow> string
   \<Rightarrow> (('w, 'v) store, status, ds_event list \<times> (nat \<times> nat)) op" where
  "watch_desired_state_impl rc ord peer nn =
     sbind (slift (validate_dns1123_subdomain nn ''node name'')) (\<lambda>_.
     sbind (slift (check_identity peer nn)) (\<lambda>_.
     sbind (smap_err to_status (get_node nn)) (\<lambda>known.
     if known = None then sfail (node_not_found nn)
     else
       sbind (smap_err to_status (subscribe_desired_state_with_snapshot rc ord nn)) (\<lambda>(assigned, receiver).
       sbind (smap_err to_status (node_watch_started nn)) (\<lambda>started.
       if \<not> started then sfail (node_not_found nn)
       else sret (map run_event assigned @ [synced_event], receiver))))))"

lemmas watch_defs [handler_defs] =
  watch_pods_impl_def watch_nodes_impl_def assign_pod_impl_def update_pod_status_impl_whole
  update_node_status_impl_def watch_desired_state_impl_def

section \<open>Broadcast receivers\<close>

text \<open>
  \<open>api/src/service.rs\<close>, \<open>broadcast_to_stream\<close>: every item of a broadcast receiver becomes an item of the
  stream, and the \<open>Lagged\<close> of a receiver that fell behind becomes a \<open>DATA_LOSS\<close>. The receiver is tokio's and a
  parameter: \<open>recv\<close> is one poll of it, \<open>push\<close> what a send does to it.
\<close>

definition event_channel_capacity :: nat where
  "event_channel_capacity = 128"

datatype 'e recv = RecvPending | RecvItem 'e | RecvLagged nat

definition lag_status :: "nat \<Rightarrow> status" where
  "lag_status n = Status DataLoss
     (''watch fell behind and missed '' @ show_nat n @ '' event(s); reconnect and re-list to resync'')"

fun stream_items :: "'e recv \<Rightarrow> 'e rpc list" where
  "stream_items RecvPending = []"
| "stream_items (RecvItem e) = [Inr e]"
| "stream_items (RecvLagged n) = [Inl (lag_status n)]"

text \<open>
  What tokio documents of the receiver, with \<open>unread\<close> the values sent and not yet taken: a send adds
  one at the end, a poll takes the first; a receiver with more than the channel's capacity unread is told
  how many of the oldest it has lost, and is told so only then; with nothing unread a poll is pending.
\<close>

definition receiver_laws :: "('r \<Rightarrow> 'e recv \<times> 'r) \<Rightarrow> ('e \<Rightarrow> 'r \<Rightarrow> 'r) \<Rightarrow> ('r \<Rightarrow> 'e list) \<Rightarrow> bool" where
  "receiver_laws recv push unread \<longleftrightarrow>
     (\<forall>e r. unread (push e r) = unread r @ [e]) \<and>
     (\<forall>r r'. recv r = (RecvPending, r') \<longrightarrow> unread r = [] \<and> unread r' = []) \<and>
     (\<forall>r e r'. recv r = (RecvItem e, r') \<longrightarrow> unread r = e # unread r') \<and>
     (\<forall>r n r'. recv r = (RecvLagged n, r') \<longrightarrow>
        event_channel_capacity < length (unread r) \<and> 0 < n \<and> n \<le> length (unread r) \<and> unread r' = drop n (unread r))"

lemma receiver_lawsD:
  assumes "receiver_laws recv push unread"
  shows "unread (push e r) = unread r @ [e]"
    and "recv r = (RecvPending, r') \<Longrightarrow> unread r = [] \<and> unread r' = []"
    and "recv r = (RecvItem e, r') \<Longrightarrow> unread r = e # unread r'"
    and "recv r = (RecvLagged n, r') \<Longrightarrow> event_channel_capacity < length (unread r) \<and> 0 < n \<and>
      n \<le> length (unread r) \<and> unread r' = drop n (unread r)"
  using assms unfolding receiver_laws_def by blast+

text \<open>A response: the items decided when the call returns, then those of the receiver.\<close>

record ('r, 'e) watch_stream =
  ws_recv :: 'r
  ws_items :: "'e rpc list"

definition watch_open :: "'e list \<Rightarrow> 'r \<Rightarrow> ('r, 'e) watch_stream" where
  "watch_open initial r = \<lparr>ws_recv = r, ws_items = map Inr initial\<rparr>"

definition watch_poll :: "('r \<Rightarrow> 'e recv \<times> 'r) \<Rightarrow> ('r, 'e) watch_stream \<Rightarrow> ('r, 'e) watch_stream" where
  "watch_poll recv ws = (case recv (ws_recv ws) of (x, r) \<Rightarrow>
     ws\<lparr>ws_recv := r, ws_items := ws_items ws @ stream_items x\<rparr>)"

text \<open>The stream after sends and polls in any order, with what was sent since it opened.\<close>

inductive stream_reach ::
  "('r \<Rightarrow> 'e recv \<times> 'r) \<Rightarrow> ('e \<Rightarrow> 'r \<Rightarrow> 'r) \<Rightarrow> 'e list \<Rightarrow> 'r \<Rightarrow> 'e list \<Rightarrow> ('r, 'e) watch_stream \<Rightarrow> bool"
  for recv push initial start where
  opened: "stream_reach recv push initial start [] (watch_open initial start)"
| sent: "stream_reach recv push initial start since ws \<Longrightarrow>
     stream_reach recv push initial start (since @ [e]) (ws\<lparr>ws_recv := push e (ws_recv ws)\<rparr>)"
| polled: "stream_reach recv push initial start since ws \<Longrightarrow>
     stream_reach recv push initial start since (watch_poll recv ws)"

text \<open>
  \<open>tells items events rest\<close>: the items are the events in order, up to where \<open>rest\<close> begins, and wherever
  events are missing there is a DATA_LOSS with their number.
\<close>

fun tells :: "'e rpc list \<Rightarrow> 'e list \<Rightarrow> 'e list \<Rightarrow> bool" where
  "tells [] es rest \<longleftrightarrow> es = rest"
| "tells (Inr x # xs) es rest \<longleftrightarrow> es \<noteq> [] \<and> x = hd es \<and> tells xs (tl es) rest"
| "tells (Inl e # xs) es rest \<longleftrightarrow> (\<exists>n. 0 < n \<and> n \<le> length es \<and> e = lag_status n \<and> tells xs (drop n es) rest)"

lemma tells_send: "tells xs es rest \<Longrightarrow> tells xs (es @ [e]) (rest @ [e])"
proof (induction xs es rest rule: tells.induct)
  case (3 x xs es rest)
  then obtain n where "0 < n" "n \<le> length es" "x = lag_status n" "tells xs (drop n es) rest" by auto
  with 3(1)[of n] show ?case by (auto intro!: exI[of _ n])
qed auto

lemma tells_snoc: "tells xs es rest \<Longrightarrow> tells [x] rest rest' \<Longrightarrow> tells (xs @ [x]) es rest'"
proof (induction xs es rest rule: tells.induct)
  case (3 e xs es rest)
  then obtain n where "0 < n" "n \<le> length es" "e = lag_status n" "tells xs (drop n es) rest" by auto
  with 3(1)[of n] 3(3) show ?case by (auto intro!: exI[of _ n])
qed simp_all

lemma tells_prefix: "tells xs es rest \<Longrightarrow> list_all (\<lambda>x. \<not> isl x) xs \<Longrightarrow> es = map projr xs @ rest"
proof (induction xs es rest rule: tells.induct)
  case (2 x xs es rest)
  then show ?case by (cases es) auto
qed auto

lemma stream_reach_tells:
  assumes L: "receiver_laws recv push unread"
  shows "stream_reach recv push initial start since ws \<Longrightarrow> unread start = [] \<Longrightarrow>
     \<exists>live. ws_items ws = map Inr initial @ live \<and> tells live since (unread (ws_recv ws)) \<and>
       (list_ex isl live \<longrightarrow> event_channel_capacity < length since)"
proof (induction rule: stream_reach.induct)
  case opened
  then show ?case by (simp add: watch_open_def)
next
  case (sent since ws e)
  then show ?case using tells_send receiver_lawsD(1)[OF L] by fastforce
next
  case (polled since ws)
  then obtain live where live: "ws_items ws = map Inr initial @ live" "tells live since (unread (ws_recv ws))"
    "list_ex isl live \<longrightarrow> event_channel_capacity < length since" by blast
  have short: "length rest \<le> length es" if "tells xs es rest" for xs and es rest :: "'b list"
    using that
  proof (induction xs es rest rule: tells.induct)
    case (3 e xs es rest)
    then obtain n where "tells xs (drop n es) rest" by auto
    with 3(1)[of n] show ?case by simp
  qed auto
  obtain x r where recv: "recv (ws_recv ws) = (x, r)" by fastforce
  show ?case
  proof (cases x)
    case RecvPending
    then show ?thesis using live recv receiver_lawsD(2)[OF L, of "ws_recv ws" r]
      by (simp add: watch_poll_def)
  next
    case (RecvItem e)
    then have "unread (ws_recv ws) = e # unread r" using recv receiver_lawsD(3)[OF L] by blast
    then have "tells (live @ [Inr e]) since (unread r)" using tells_snoc[OF live(2), of "Inr e"] by simp
    then show ?thesis using live RecvItem recv by (intro exI[of _ "live @ [Inr e]"]) (simp add: watch_poll_def)
  next
    case (RecvLagged n)
    then have lag: "event_channel_capacity < length (unread (ws_recv ws))" "0 < n" "n \<le> length (unread (ws_recv ws))"
      "unread r = drop n (unread (ws_recv ws))" using recv receiver_lawsD(4)[OF L] by blast+
    then have "tells (live @ [Inl (lag_status n)]) since (unread r)"
      using tells_snoc[OF live(2), of "Inl (lag_status n)"] by auto
    moreover have "event_channel_capacity < length since" using short[OF live(2)] lag(1) by simp
    ultimately show ?thesis using live RecvLagged recv
      by (intro exI[of _ "live @ [Inl (lag_status n)]"]) (simp add: watch_poll_def)
  qed
qed

lemma poll_catches_up:
  assumes L: "receiver_laws recv push unread"
  shows "unread (ws_recv ws) = es \<Longrightarrow> length es \<le> event_channel_capacity \<Longrightarrow>
     ws_items ((watch_poll recv ^^ length es) ws) = ws_items ws @ map Inr es"
proof (induction es arbitrary: ws)
  case (Cons e es)
  obtain x r where recv: "recv (ws_recv ws) = (x, r)" by fastforce
  have x: "x = RecvItem e \<and> unread r = es"
  proof (cases x)
    case RecvPending
    with recv receiver_lawsD(2)[OF L] Cons.prems(1) have False by fastforce
    then show ?thesis ..
  next
    case (RecvItem e')
    with recv receiver_lawsD(3)[OF L] have "unread (ws_recv ws) = e' # unread r" by blast
    with RecvItem Cons.prems(1) show ?thesis by simp
  next
    case (RecvLagged n)
    with recv receiver_lawsD(4)[OF L] have "event_channel_capacity < length (unread (ws_recv ws))" by blast
    with Cons.prems show ?thesis by simp
  qed
  let ?ws = "watch_poll recv ws"
  have ws: "unread (ws_recv ?ws) = es" "ws_items ?ws = ws_items ws @ [Inr e]"
    using recv x by (simp_all add: watch_poll_def)
  have "ws_items ((watch_poll recv ^^ length es) ?ws) = ws_items ?ws @ map Inr es"
    using Cons.IH[OF ws(1)] Cons.prems(2) by simp
  then show ?case using ws(2) by (simp add: funpow_Suc_right del: funpow.simps)
qed simp

text \<open>
  C28. A watch stream has no silent hole. For a receiver that behaves as tokio documents, whatever the
  interleaving of sends and polls, the stream holds the initial items and then the events published
  since it subscribed, in order and without repeats: where events are missing it holds one DATA_LOSS
  with their number, up to its first DATA_LOSS they are a prefix of the events, it holds none as long as
  no more than the channel's 128 events have been published, and with at most 128 events waiting,
  polling on delivers all of them.
\<close>

theorem watch_stream_no_silent_hole:
  assumes "receiver_laws recv push unread" and "unread start = []"
    and "stream_reach recv push initial start since ws"
  shows "\<exists>live. ws_items ws = map Inr initial @ live \<and> tells live since (unread (ws_recv ws)) \<and>
     (list_all (\<lambda>x. \<not> isl x) live \<longrightarrow> since = map projr live @ unread (ws_recv ws)) \<and>
     (length since \<le> event_channel_capacity \<longrightarrow> list_all (\<lambda>x. \<not> isl x) live) \<and>
     (length (unread (ws_recv ws)) \<le> event_channel_capacity \<longrightarrow>
        ws_items ((watch_poll recv ^^ length (unread (ws_recv ws))) ws) =
          map Inr initial @ live @ map Inr (unread (ws_recv ws)))"
proof -
  obtain live where live: "ws_items ws = map Inr initial @ live" "tells live since (unread (ws_recv ws))"
    "list_ex isl live \<longrightarrow> event_channel_capacity < length since"
    using stream_reach_tells[OF assms(1,3,2)] by blast
  have "list_all (\<lambda>x. \<not> isl x) live" if "length since \<le> event_channel_capacity"
    using live(3) that by (auto simp: list_all_iff list_ex_iff)
  with live show ?thesis
    using tells_prefix[OF live(2)] poll_catches_up[OF assms(1) refl, of ws] by auto
qed

section \<open>A receiver\<close>

text \<open>A channel that keeps the last 128 values: the receiver is the values sent and how many it took.\<close>

definition broadcast_recv :: "'e list \<Rightarrow> nat \<Rightarrow> 'e recv" where
  "broadcast_recv sent pos =
     (if length sent \<le> pos then RecvPending
      else if event_channel_capacity < length sent - pos
      then RecvLagged (length sent - pos - event_channel_capacity)
      else RecvItem (sent ! pos))"

fun ring_recv :: "'e list \<times> nat \<Rightarrow> 'e recv \<times> ('e list \<times> nat)" where
  "ring_recv (sent, pos) = (case broadcast_recv sent pos of
     RecvPending \<Rightarrow> (RecvPending, sent, pos)
   | RecvItem e \<Rightarrow> (RecvItem e, sent, pos + 1)
   | RecvLagged n \<Rightarrow> (RecvLagged n, sent, pos + n))"

fun ring_push :: "'e \<Rightarrow> 'e list \<times> nat \<Rightarrow> 'e list \<times> nat" where
  "ring_push e (sent, pos) = (sent @ [e], min pos (length sent))"

fun ring_unread :: "'e list \<times> nat \<Rightarrow> 'e list" where
  "ring_unread (sent, pos) = drop pos sent"

lemma ring_laws: "receiver_laws ring_recv ring_push ring_unread"
proof -
  have item: "drop pos sent = sent ! pos # drop (Suc pos) sent" if "\<not> length sent \<le> pos" for pos and sent :: "'b list"
    using that by (intro Cons_nth_drop_Suc[symmetric]) simp
  have "ring_unread (ring_push e r) = ring_unread r @ [e]" for e and r :: "'b list \<times> nat"
    by (cases r) (simp add: min_def)
  moreover have "ring_unread r = [] \<and> ring_unread r' = []" if "ring_recv r = (RecvPending, r')" for r r' :: "'b list \<times> nat"
    using that by (cases r) (auto simp: broadcast_recv_def split: if_splits)
  moreover have "ring_unread r = e # ring_unread r'" if run: "ring_recv r = (RecvItem e, r')" for e and r r' :: "'b list \<times> nat"
  proof -
    obtain sent pos where r: "r = (sent, pos)" by fastforce
    with run have at: "\<not> length sent \<le> pos" "e = sent ! pos" "r' = (sent, Suc pos)"
      by (auto simp: broadcast_recv_def split: if_splits)
    show ?thesis unfolding r at(2,3) ring_unread.simps by (rule item[OF at(1)])
  qed
  moreover have "event_channel_capacity < length (ring_unread r) \<and> 0 < n \<and> n \<le> length (ring_unread r) \<and>
      ring_unread r' = drop n (ring_unread r)" if "ring_recv r = (RecvLagged n, r')" for n and r r' :: "'b list \<times> nat"
    using that by (cases r) (auto simp: broadcast_recv_def event_channel_capacity_def add.commute split: if_splits)
  ultimately show ?thesis unfolding receiver_laws_def by blast
qed

theorem watch_stream_no_silent_hole_witness:
  "\<exists>ws. stream_reach ring_recv ring_push [1::nat, 2] ([9], 1) [5, 7] ws \<and> ws_items ws = map Inr [1, 2, 5] \<and>
     ws_items ((watch_poll ring_recv ^^ 1) ws) = map Inr [1, 2, 5, 7]"
proof -
  let ?w0 = "watch_open [1::nat, 2] ([9], 1)"
  let ?w1 = "watch_poll ring_recv (?w0\<lparr>ws_recv := ring_push 5 (ws_recv ?w0)\<rparr>)"
  let ?ws = "?w1\<lparr>ws_recv := ring_push 7 (ws_recv ?w1)\<rparr>"
  have "stream_reach ring_recv ring_push [1, 2] ([9], 1) ([] @ [5] @ [7]) ?ws"
    unfolding append_assoc[symmetric] by (intro stream_reach.intros)
  then have reach: "stream_reach ring_recv ring_push [1, 2] ([9], 1) [5, 7] ?ws" by simp
  have now: "ws_items ?ws = map Inr [1, 2, 5]" "ring_unread (ws_recv ?ws) = [7]"
    by (simp_all add: watch_open_def watch_poll_def broadcast_recv_def event_channel_capacity_def)
  have "ring_unread ([9], 1) = []" by simp
  from watch_stream_no_silent_hole[OF ring_laws this reach] now show ?thesis
    by (intro exI[of _ ?ws] conjI reach) (auto simp: event_channel_capacity_def)
qed

end
