(* ===== verification/Node_Liveness.thy ===== *)
theory Node_Liveness imports Store_Memory begin

text \<open>
  Node liveness (\<open>register_node\<close>, \<open>node_watch_started\<close>, \<open>node_watch_ended\<close> of
  \<open>api/src/store.rs\<close> with the stream guard of \<open>api/src/service.rs\<close>) as a state machine:
  any interleaving of registrations, stream openings and stream ends on the in-memory store, with
  the pod methods in between. \<open>open_streams\<close> counts the streams whose guard has been built and
  not yet torn down; a guard exists only after \<open>node_watch_started\<close> returned \<open>true\<close>,
  and its \<open>Drop\<close> ends its watch once, at any later time.
\<close>

section \<open>Effect of the two watch operations\<close>

lemma node_watch_ended_mem:
  assumes "mem_store s"
  shows "mem_store (node_watch_ended nm s)"
    and "sto_pods (node_watch_ended nm s) = sto_pods s"
    and "sto_watchers (node_watch_ended nm s) =
          (case sto_watchers s nm of None \<Rightarrow> sto_watchers s
           | Some k \<Rightarrow> if 1 < k then (sto_watchers s)(nm \<mapsto> k - 1) else (sto_watchers s)(nm := None))"
    and "sto_nodes (node_watch_ended nm s) =
          (case sto_watchers s nm of None \<Rightarrow> sto_nodes s
           | Some k \<Rightarrow> if 1 < k then sto_nodes s
                      else (case sto_nodes s nm of None \<Rightarrow> sto_nodes s
                            | Some nd \<Rightarrow> (sto_nodes s)(nm \<mapsto> nd\<lparr>nd_status := node_status_i32 NodeNotReady\<rparr>)))"
proof -
  let ?s0 = "s\<lparr>sto_watchers := (sto_watchers s)(nm := None)\<rparr>"
  obtain r s1 where set: "set_node_status nm NodeNotReady ?s0 = (r, s1)" by fastforce
  have "mem_store ?s0" using assms by (simp add: mem_store_def)
  note eff = mem_set_node_status_nodes[OF this set]
  have ended: "node_watch_ended nm s =
      (case sto_watchers s nm of None \<Rightarrow> s
       | Some k \<Rightarrow> if 1 < k then s\<lparr>sto_watchers := (sto_watchers s)(nm \<mapsto> k - 1)\<rparr> else s1)"
    by (auto simp: node_watch_ended_def Let_def set split: option.splits)
  show "mem_store (node_watch_ended nm s)"
    using ended assms eff(2) by (auto simp: mem_store_def split: option.splits)
  show "sto_pods (node_watch_ended nm s) = sto_pods s"
    using ended eff(4) by (auto split: option.splits)
  show "sto_watchers (node_watch_ended nm s) =
          (case sto_watchers s nm of None \<Rightarrow> sto_watchers s
           | Some k \<Rightarrow> if 1 < k then (sto_watchers s)(nm \<mapsto> k - 1) else (sto_watchers s)(nm := None))"
    using ended eff(3) by (auto split: option.splits)
  show "sto_nodes (node_watch_ended nm s) =
          (case sto_watchers s nm of None \<Rightarrow> sto_nodes s
           | Some k \<Rightarrow> if 1 < k then sto_nodes s
                      else (case sto_nodes s nm of None \<Rightarrow> sto_nodes s
                            | Some nd \<Rightarrow> (sto_nodes s)(nm \<mapsto> nd\<lparr>nd_status := node_status_i32 NodeNotReady\<rparr>)))"
    using ended eff(1) by (auto split: option.splits)
qed

lemma node_watch_started_mem:
  assumes "mem_store s" "node_watch_started nm s = (Inr b, s')"
  shows "mem_store s'" and "sto_pods s' = sto_pods s"
    and "b \<longleftrightarrow> sto_nodes s nm \<noteq> None"
    and "sto_watchers s' = (if b then (sto_watchers s)(nm \<mapsto> watcher_count nm s + 1) else sto_watchers s)"
    and "sto_nodes s' =
          (if b \<and> watcher_count nm s = 0
           then (sto_nodes s)(nm \<mapsto> (the (sto_nodes s nm))\<lparr>nd_status := node_status_i32 NodeReady\<rparr>)
           else sto_nodes s)"
proof -
  obtain r s1 where set: "set_node_status nm NodeReady s = (r, s1)" by fastforce
  note eff = mem_set_node_status_nodes[OF assms(1) set]
  note st = assms(2)[unfolded mem_node_watch_started[OF assms(1)]]
  show "mem_store s'" using st set eff(2) assms(1)
    by (auto simp: mem_store_def split: if_splits)
  show "sto_pods s' = sto_pods s" using st set eff(4) by (auto split: if_splits)
  show "b \<longleftrightarrow> sto_nodes s nm \<noteq> None" using st by (auto split: if_splits)
  show "sto_watchers s' = (if b then (sto_watchers s)(nm \<mapsto> watcher_count nm s + 1) else sto_watchers s)"
    using st set eff(3) by (auto split: if_splits)
  show "sto_nodes s' =
          (if b \<and> watcher_count nm s = 0
           then (sto_nodes s)(nm \<mapsto> (the (sto_nodes s nm))\<lparr>nd_status := node_status_i32 NodeReady\<rparr>)
           else sto_nodes s)"
    using st set eff(1) by (auto split: if_splits option.splits)
qed

section \<open>The state machine\<close>

inductive live_reach :: "('w, 'v) store \<Rightarrow> (string \<Rightarrow> nat) \<Rightarrow> bool" where
  boot: "live_reach (store_new w) (\<lambda>_. 0)"
| register: "live_reach s open_streams \<Longrightarrow> register_node nd s = (r, s') \<Longrightarrow> live_reach s' open_streams"
| opened: "live_reach s open_streams \<Longrightarrow> node_watch_started nm s = (Inr True, s') \<Longrightarrow>
     live_reach s' (open_streams(nm := open_streams nm + 1))"
| rejected: "live_reach s open_streams \<Longrightarrow> node_watch_started nm s = (Inr False, s') \<Longrightarrow>
     live_reach s' open_streams"
| ended: "live_reach s open_streams \<Longrightarrow> 0 < open_streams nm \<Longrightarrow>
     live_reach (node_watch_ended nm s) (open_streams(nm := open_streams nm - 1))"
| created: "live_reach s open_streams \<Longrightarrow> create_pod p s = (rb, s') \<Longrightarrow> live_reach s' open_streams"
| removed: "live_reach s open_streams \<Longrightarrow> remove_pod ns nm s = (ro, s') \<Longrightarrow> live_reach s' open_streams"
| updated: "live_reach s open_streams \<Longrightarrow>
     update_and_publish_pod ns nm et (\<lambda>p. (mutate p, ())) () s = (ru, s') \<Longrightarrow> live_reach s' open_streams"

definition live_inv :: "('w, 'v) store \<Rightarrow> (string \<Rightarrow> nat) \<Rightarrow> bool" where
  "live_inv s open_streams \<longleftrightarrow>
     mem_store s \<and>
     (\<forall>nm. sto_watchers s nm = (if open_streams nm = 0 then None else Some (open_streams nm))) \<and>
     (\<forall>nm. 0 < open_streams nm \<longrightarrow> sto_nodes s nm \<noteq> None) \<and>
     (\<forall>nm nd. sto_nodes s nm = Some nd \<longrightarrow>
        nd_status nd = node_status_i32 (if 0 < open_streams nm then NodeReady else NodeNotReady))"

lemma live_inv_cong:
  "live_inv s k \<Longrightarrow> mem_store t \<Longrightarrow> sto_watchers t = sto_watchers s \<Longrightarrow> sto_nodes t = sto_nodes s
   \<Longrightarrow> live_inv t k"
  by (simp add: live_inv_def)

lemma live_inv_mem: "live_inv s k \<Longrightarrow> mem_store s"
  by (simp add: live_inv_def)

lemma live_inv_register:
  assumes "live_inv s k" "register_node nd s = (r, s')"
  shows "live_inv s' k"
proof -
  have mem: "mem_store s" using assms(1) by (rule live_inv_mem)
  from assms(2) mem_register_node[OF mem, of nd] have
    s': "sto_nodes s' = (sto_nodes s)(nd_name nd \<mapsto> registered s nd)" "sto_watchers s' = sto_watchers s"
      "mem_store s'"
    using mem by (auto simp: mem_store_def)
  moreover have "nd_status (registered s nd) =
      node_status_i32 (if 0 < k (nd_name nd) then NodeReady else NodeNotReady)"
    using assms(1) by (auto simp: live_inv_def registered_status split: option.splits)
  ultimately show ?thesis
    using assms(1) by (auto simp: live_inv_def)
qed

lemma live_inv_opened:
  assumes "live_inv s k" "node_watch_started nm s = (Inr True, s')"
  shows "live_inv s' (k(nm := k nm + 1))"
proof -
  note eff = node_watch_started_mem[OF live_inv_mem[OF assms(1)] assms(2)]
  obtain nd where nd: "sto_nodes s nm = Some nd" using eff(3) by auto
  have wc: "watcher_count nm s = k nm"
    using assms(1) by (auto simp: live_inv_def watcher_count_def)
  show ?thesis
    using assms(1) eff nd wc by (auto simp: live_inv_def)
qed

lemma live_inv_ended:
  assumes "live_inv s k" "0 < k nm"
  shows "live_inv (node_watch_ended nm s) (k(nm := k nm - 1))"
proof -
  note eff = node_watch_ended_mem[OF live_inv_mem[OF assms(1)], of nm]
  have w: "sto_watchers s nm = Some (k nm)" using assms by (simp add: live_inv_def)
  have "sto_nodes s nm \<noteq> None" using assms by (simp add: live_inv_def)
  then obtain nd where nd: "sto_nodes s nm = Some nd" by auto
  show ?thesis
    using assms eff w nd by (auto simp: live_inv_def split: if_splits)
qed

lemma pod_ops_frame_mem:
  assumes "mem_store s"
  shows "create_pod p s = (rb, s') \<Longrightarrow> mem_store s' \<and> sto_watchers s' = sto_watchers s \<and> sto_nodes s' = sto_nodes s"
    and "remove_pod ns nm s = (ro, s') \<Longrightarrow> mem_store s' \<and> sto_watchers s' = sto_watchers s \<and> sto_nodes s' = sto_nodes s"
    and "update_and_publish_pod ns nm et mutate cap s = (ru, s') \<Longrightarrow>
           mem_store s' \<and> sto_watchers s' = sto_watchers s \<and> sto_nodes s' = sto_nodes s"
  using assms
  by (auto simp: mem_store_def create_pod_def remove_pod_def update_and_publish_pod_def Let_def
           split: option.splits if_splits prod.splits)

lemma live_reach_inv: "live_reach s k \<Longrightarrow> live_inv s k"
proof (induction rule: live_reach.induct)
  case (boot w)
  show ?case by (simp add: live_inv_def store_new_def mem_store_def)
next
  case (register s k nd r s')
  then show ?case using live_inv_register by blast
next
  case (opened s k nm s')
  then show ?case using live_inv_opened by blast
next
  case (rejected s k nm s')
  note eff = node_watch_started_mem[OF live_inv_mem[OF rejected.IH] rejected.hyps(2)]
  show ?case by (rule live_inv_cong[OF rejected.IH]) (use eff in auto)
next
  case (ended s k nm)
  then show ?case using live_inv_ended by blast
next
  case (created s k p rb s')
  then show ?case
    using pod_ops_frame_mem(1)[OF live_inv_mem[OF created.IH] created.hyps(2)] live_inv_cong by blast
next
  case (removed s k ns nm ro s')
  then show ?case
    using pod_ops_frame_mem(2)[OF live_inv_mem[OF removed.IH] removed.hyps(2)] live_inv_cong by blast
next
  case (updated s k ns nm et mutate ru s')
  then show ?case
    using pod_ops_frame_mem(3)[OF live_inv_mem[OF updated.IH] updated.hyps(2)] live_inv_cong by blast
qed

text \<open>
  C16. In every reachable state of the in-memory store, whatever the order in which registrations,
  stream openings, late stream teardowns and pod updates interleave, a node the store knows reads
  READY exactly when at least one of its desired-state streams is open, and NOT_READY otherwise;
  no agent report and no teardown of an outgoing stream can make the two disagree.
\<close>

theorem node_ready_iff_stream_open:
  assumes "live_reach s open_streams" and "sto_nodes s nm = Some nd"
  shows "(node_status_of nd = NodeReady \<longleftrightarrow> 0 < open_streams nm) \<and>
         (node_status_of nd = NodeReady \<or> node_status_of nd = NodeNotReady)"
proof -
  have "nd_status nd = node_status_i32 (if 0 < open_streams nm then NodeReady else NodeNotReady)"
    using live_reach_inv[OF assms(1)] assms(2) by (auto simp: live_inv_def)
  then have "node_status_of nd = (if 0 < open_streams nm then NodeReady else NodeNotReady)"
    by (rule node_status_i32_eq_iff)
  then show ?thesis by (auto split: if_splits)
qed

text \<open>A concrete run: a node registers, its stream opens twice (a reconnect) and the outgoing
  stream's teardown lands last.\<close>

definition demo_store0 :: "(unit, unit) store" where
  "demo_store0 = snd (register_node demo_node (store_new ()))"

definition demo_store1 :: "(unit, unit) store" where
  "demo_store1 = snd (node_watch_started ''n1'' demo_store0)"

definition demo_store2 :: "(unit, unit) store" where
  "demo_store2 = snd (node_watch_started ''n1'' demo_store1)"

lemmas demo_stores = demo_store2_def demo_store1_def demo_store0_def demo_node_def store_new_def

lemma demo_reach:
  "live_reach (node_watch_ended ''n1'' demo_store2)
     ((((\<lambda>_. 0)(''n1'' := 1))(''n1'' := 2))(''n1'' := 1))"
proof -
  have r0: "live_reach demo_store0 (\<lambda>_. 0)"
    unfolding demo_store0_def by (rule live_reach.register[OF live_reach.boot]) (rule prod.collapse[symmetric])
  have s1: "node_watch_started ''n1'' demo_store0 = (Inr True, demo_store1)"
    by (simp add: demo_stores store_defs sbind_def watcher_count_def Let_def)
  have s2: "node_watch_started ''n1'' demo_store1 = (Inr True, demo_store2)"
    by (simp add: demo_stores store_defs sbind_def watcher_count_def Let_def)
  have r1: "live_reach demo_store1 ((\<lambda>_. 0)(''n1'' := 1))"
    using live_reach.opened[OF r0 s1] by simp
  have r2: "live_reach demo_store2 (((\<lambda>_. 0)(''n1'' := 1))(''n1'' := 2))"
    using live_reach.opened[OF r1 s2] by (simp add: numeral_2_eq_2)
  show ?thesis
    using live_reach.ended[OF r2, of "''n1''"] by simp
qed

theorem node_ready_iff_stream_open_witness:
  "\<exists>nd. sto_nodes (node_watch_ended ''n1'' demo_store2) ''n1'' = Some nd \<and> node_status_of nd = NodeReady"
proof -
  have "\<exists>nd. sto_nodes (node_watch_ended ''n1'' demo_store2) ''n1'' = Some nd"
    by (simp add: demo_stores store_defs sbind_def watcher_count_def Let_def)
  then obtain nd where nd: "sto_nodes (node_watch_ended ''n1'' demo_store2) ''n1'' = Some nd" by blast
  with node_ready_iff_stream_open[OF demo_reach nd] show ?thesis by simp
qed

end
