(* ===== verification/Api_Service.thy ===== *)
theory Api_Service imports Api_Cli Api_Watch Node_Liveness begin

text \<open>
  \<open>api/src/service.rs\<close>: the twelve RPCs, one definition each: every method checks the peer's role
  first and then runs its handler (tracing around it changes no result). \<open>serve\<close> is the whole service,
  which passes a request to its method; the
  arguments \<open>rc\<close>, \<open>ord\<close> and \<open>nord\<close> are the environment's choices (live receivers of
  a channel, iteration orders of the two maps). The second half states what every RPC keeps of the
  in-memory store.
\<close>

section \<open>The service\<close>

datatype rpc_call =
  RpcCreatePod "pod_with_spec option"
| RpcDeletePod string string
| RpcGetPod string string
| RpcListPods
| RpcGetNode string
| RpcListNodes
| RpcWatchPods
| RpcWatchNodes
| RpcAssignPod assign_pod_request
| RpcUpdatePodStatus update_pod_status_request
| RpcUpdateNodeStatus "node option"
| RpcWatchDesiredState string

datatype rpc_reply =
  RepPod pod_detail
| RepName string
| RepPods "pod_detail list"
| RepNode node
| RepNodes "node list"
| RepPodStream "watch_pod_event list" nat
| RepNodeStream "watch_node_event list" nat
| RepDsStream "ds_event list" nat nat
| RepEmpty

definition require_role :: "peer \<Rightarrow> role \<Rightarrow> unit rpc" where
  "require_role peer r = check_role peer r"

definition smap :: "('a \<Rightarrow> 'b) \<Rightarrow> ('s, 'e, 'a) op \<Rightarrow> ('s, 'e, 'b) op" where
  "smap f m = sbind m (\<lambda>x. sret (f x))"

subsection \<open>The command line's methods\<close>

definition rpc_create_pod :: "peer \<Rightarrow> pod_with_spec option \<Rightarrow> (('w, 'v) store, status, pod_detail) op" where
  "rpc_create_pod peer req = sbind (slift (require_role peer RoleCli)) (\<lambda>_. create_pod_impl req)"

definition rpc_delete_pod :: "peer \<Rightarrow> string \<Rightarrow> string \<Rightarrow> (('w, 'v) store, status, string) op" where
  "rpc_delete_pod peer ns nm = sbind (slift (require_role peer RoleCli)) (\<lambda>_. delete_pod_impl ns nm)"

definition rpc_get_pod :: "peer \<Rightarrow> string \<Rightarrow> string \<Rightarrow> (('w, 'v) store, status, pod_detail) op" where
  "rpc_get_pod peer ns nm = sbind (slift (require_role peer RoleCli)) (\<lambda>_. get_pod_impl ns nm)"

definition rpc_list_pods :: "pod_key list \<Rightarrow> peer \<Rightarrow> (('w, 'v) store, status, pod_detail list) op" where
  "rpc_list_pods ord peer = sbind (slift (require_role peer RoleCli)) (\<lambda>_. list_pods_impl ord)"

definition rpc_get_node :: "pod_key list \<Rightarrow> peer \<Rightarrow> string \<Rightarrow> (('w, 'v) store, status, node) op" where
  "rpc_get_node ord peer nm = sbind (slift (require_role peer RoleCli)) (\<lambda>_. get_node_impl ord nm)"

definition rpc_list_nodes ::
  "pod_key list \<Rightarrow> string list \<Rightarrow> peer \<Rightarrow> (('w, 'v) store, status, node list) op" where
  "rpc_list_nodes ord nord peer = sbind (slift (require_role peer RoleCli)) (\<lambda>_. list_nodes_impl ord nord)"

subsection \<open>The scheduler's methods\<close>

definition rpc_watch_pods ::
  "pod_key list \<Rightarrow> peer \<Rightarrow> (('w, 'v) store, status, watch_pod_event list \<times> nat) op" where
  "rpc_watch_pods ord peer = sbind (slift (require_role peer RoleScheduler)) (\<lambda>_. watch_pods_impl ord)"

definition rpc_watch_nodes ::
  "string list \<Rightarrow> peer \<Rightarrow> (('w, 'v) store, status, watch_node_event list \<times> nat) op" where
  "rpc_watch_nodes nord peer = sbind (slift (require_role peer RoleScheduler)) (\<lambda>_. watch_nodes_impl nord)"

definition rpc_assign_pod :: "peer \<Rightarrow> assign_pod_request \<Rightarrow> (('w, 'v) store, status, unit) op" where
  "rpc_assign_pod peer req = sbind (slift (require_role peer RoleScheduler)) (\<lambda>_. assign_pod_impl req)"

subsection \<open>The agents' methods\<close>

text \<open>\<open>other\<close> is what other requests do between the two halves of the handler.\<close>

definition rpc_update_pod_status ::
  "(('w, 'v) store \<Rightarrow> ('w, 'v) store) \<Rightarrow> peer \<Rightarrow> update_pod_status_request \<Rightarrow> (('w, 'v) store, status, unit) op" where
  "rpc_update_pod_status other peer req =
     sbind (slift (require_role peer RoleNode)) (\<lambda>_. update_pod_status_between other peer req)"

definition rpc_update_node_status :: "peer \<Rightarrow> node option \<Rightarrow> (('w, 'v) store, status, unit) op" where
  "rpc_update_node_status peer req =
     sbind (slift (require_role peer RoleNode)) (\<lambda>_. update_node_status_impl peer req)"

definition rpc_watch_desired_state ::
  "(nat \<Rightarrow> nat) \<Rightarrow> pod_key list \<Rightarrow> peer \<Rightarrow> string \<Rightarrow> (('w, 'v) store, status, ds_event list \<times> (nat \<times> nat)) op" where
  "rpc_watch_desired_state rc ord peer nn =
     sbind (slift (require_role peer RoleNode)) (\<lambda>_. watch_desired_state_impl rc ord peer nn)"

subsection \<open>Requests\<close>

definition serve_between :: "(('w, 'v) store \<Rightarrow> ('w, 'v) store) \<Rightarrow> (nat \<Rightarrow> nat) \<Rightarrow> pod_key list \<Rightarrow> string list \<Rightarrow>
    peer \<Rightarrow> rpc_call \<Rightarrow> (('w, 'v) store, status, rpc_reply) op" where
  "serve_between other rc ord nord peer call = (case call of
     RpcCreatePod req \<Rightarrow> smap RepPod (rpc_create_pod peer req)
   | RpcDeletePod ns nm \<Rightarrow> smap RepName (rpc_delete_pod peer ns nm)
   | RpcGetPod ns nm \<Rightarrow> smap RepPod (rpc_get_pod peer ns nm)
   | RpcListPods \<Rightarrow> smap RepPods (rpc_list_pods ord peer)
   | RpcGetNode nm \<Rightarrow> smap RepNode (rpc_get_node ord peer nm)
   | RpcListNodes \<Rightarrow> smap RepNodes (rpc_list_nodes ord nord peer)
   | RpcWatchPods \<Rightarrow> smap (\<lambda>(es, pos). RepPodStream es pos) (rpc_watch_pods ord peer)
   | RpcWatchNodes \<Rightarrow> smap (\<lambda>(es, pos). RepNodeStream es pos) (rpc_watch_nodes nord peer)
   | RpcAssignPod req \<Rightarrow> smap (\<lambda>_. RepEmpty) (rpc_assign_pod peer req)
   | RpcUpdatePodStatus req \<Rightarrow> smap (\<lambda>_. RepEmpty) (rpc_update_pod_status other peer req)
   | RpcUpdateNodeStatus req \<Rightarrow> smap (\<lambda>_. RepEmpty) (rpc_update_node_status peer req)
   | RpcWatchDesiredState nn \<Rightarrow> smap (\<lambda>(es, ch, pos). RepDsStream es ch pos) (rpc_watch_desired_state rc ord peer nn))"

definition serve :: "(nat \<Rightarrow> nat) \<Rightarrow> pod_key list \<Rightarrow> string list \<Rightarrow> peer \<Rightarrow> rpc_call
    \<Rightarrow> (('w, 'v) store, status, rpc_reply) op" where
  "serve = serve_between (\<lambda>s. s)"

lemmas rpc_defs = rpc_create_pod_def rpc_delete_pod_def rpc_get_pod_def rpc_list_pods_def rpc_get_node_def
  rpc_list_nodes_def rpc_watch_pods_def rpc_watch_nodes_def rpc_assign_pod_def rpc_update_pod_status_def
  rpc_update_node_status_def rpc_watch_desired_state_def

text \<open>The handlers without their gates, and the role each gate asks for.\<close>

fun handle :: "(nat \<Rightarrow> nat) \<Rightarrow> pod_key list \<Rightarrow> string list \<Rightarrow> peer \<Rightarrow> rpc_call
    \<Rightarrow> (('w, 'v) store, status, rpc_reply) op" where
  "handle rc ord nord peer (RpcCreatePod req) = smap RepPod (create_pod_impl req)"
| "handle rc ord nord peer (RpcDeletePod ns nm) = smap RepName (delete_pod_impl ns nm)"
| "handle rc ord nord peer (RpcGetPod ns nm) = smap RepPod (get_pod_impl ns nm)"
| "handle rc ord nord peer RpcListPods = smap RepPods (list_pods_impl ord)"
| "handle rc ord nord peer (RpcGetNode nm) = smap RepNode (get_node_impl ord nm)"
| "handle rc ord nord peer RpcListNodes = smap RepNodes (list_nodes_impl ord nord)"
| "handle rc ord nord peer RpcWatchPods = smap (\<lambda>(es, pos). RepPodStream es pos) (watch_pods_impl ord)"
| "handle rc ord nord peer RpcWatchNodes = smap (\<lambda>(es, pos). RepNodeStream es pos) (watch_nodes_impl nord)"
| "handle rc ord nord peer (RpcAssignPod req) = smap (\<lambda>_. RepEmpty) (assign_pod_impl req)"
| "handle rc ord nord peer (RpcUpdatePodStatus req) = smap (\<lambda>_. RepEmpty) (update_pod_status_impl peer req)"
| "handle rc ord nord peer (RpcUpdateNodeStatus req) = smap (\<lambda>_. RepEmpty) (update_node_status_impl peer req)"
| "handle rc ord nord peer (RpcWatchDesiredState nn) =
     smap (\<lambda>(es, ch, pos). RepDsStream es ch pos) (watch_desired_state_impl rc ord peer nn)"

fun rpc_role :: "rpc_call \<Rightarrow> role" where
  "rpc_role (RpcCreatePod _) = RoleCli"
| "rpc_role (RpcDeletePod _ _) = RoleCli"
| "rpc_role (RpcGetPod _ _) = RoleCli"
| "rpc_role RpcListPods = RoleCli"
| "rpc_role (RpcGetNode _) = RoleCli"
| "rpc_role RpcListNodes = RoleCli"
| "rpc_role RpcWatchPods = RoleScheduler"
| "rpc_role RpcWatchNodes = RoleScheduler"
| "rpc_role (RpcAssignPod _) = RoleScheduler"
| "rpc_role (RpcUpdatePodStatus _) = RoleNode"
| "rpc_role (RpcUpdateNodeStatus _) = RoleNode"
| "rpc_role (RpcWatchDesiredState _) = RoleNode"

lemma smap_gate: "smap f (sbind (slift g) (\<lambda>_. m)) = sbind (slift g) (\<lambda>_. smap f m)"
  by (simp add: smap_def sbind_assoc)

lemma serve_gate:
  "serve rc ord nord peer call =
     sbind (slift (require_role peer (rpc_role call))) (\<lambda>_. handle rc ord nord peer call)"
  unfolding serve_def serve_between_def rpc_defs smap_gate update_pod_status_alone
  by (cases call) (simp_all only: rpc_call.case rpc_role.simps handle.simps)

section \<open>Role gate\<close>

text \<open>
  Who may call what: the command line the pods and nodes it manages, the scheduler its two watches and
  the assignment, an agent its two reports and its watch. Nobody else may call anything.
\<close>

fun may_call :: "role option \<Rightarrow> rpc_call \<Rightarrow> bool" where
  "may_call (Some RoleCli) call = (case call of
     RpcCreatePod _ \<Rightarrow> True | RpcDeletePod _ _ \<Rightarrow> True | RpcGetPod _ _ \<Rightarrow> True | RpcListPods \<Rightarrow> True
   | RpcGetNode _ \<Rightarrow> True | RpcListNodes \<Rightarrow> True | _ \<Rightarrow> False)"
| "may_call (Some RoleScheduler) call = (case call of
     RpcWatchPods \<Rightarrow> True | RpcWatchNodes \<Rightarrow> True | RpcAssignPod _ \<Rightarrow> True | _ \<Rightarrow> False)"
| "may_call (Some RoleNode) call = (case call of
     RpcUpdatePodStatus _ \<Rightarrow> True | RpcUpdateNodeStatus _ \<Rightarrow> True | RpcWatchDesiredState _ \<Rightarrow> True | _ \<Rightarrow> False)"
| "may_call _ call = False"

lemma may_call_role: "may_call r call \<longleftrightarrow> r = Some (rpc_role call)"
  by (cases call; cases "(r, call)" rule: may_call.cases) auto

text \<open>
  C20. A peer that presented a client certificate is held to its role on every one of the twelve
  RPCs. A command line may create, delete, read and list pods and read and list nodes, the scheduler
  may open its two watches and assign pods, an agent may report on pods and its node and watch its
  desired state: such a call reaches its handler. Any other call, of a certificate without a recognised
  role or an unparsable one included, is answered PERMISSION_DENIED, and nothing in the store, its
  channels or the outside world has changed.
\<close>

theorem wrong_role_is_denied:
  "if may_call r call then serve rc ord nord (Mtls i r) call s = handle rc ord nord (Mtls i r) call s
   else \<exists>m. serve rc ord nord (Mtls i r) call s = (Inl (Status PermissionDenied m), s)"
proof (cases "may_call r call")
  case True
  then have "check_role (Mtls i r) (rpc_role call) = Inr ()"
    by (auto simp: may_call_role check_role_ok_iff)
  with True show ?thesis by (simp add: serve_gate require_role_def)
next
  case False
  then have "check_role (Mtls i r) (rpc_role call) \<noteq> Inr ()"
    by (auto simp: may_call_role check_role_ok_iff)
  then obtain e where e: "check_role (Mtls i r) (rpc_role call) = Inl e"
    by (cases "check_role (Mtls i r) (rpc_role call)") auto
  moreover obtain m where "e = Status PermissionDenied m"
    using check_role_err[OF e] by (cases e) auto
  ultimately show ?thesis using False by (simp add: serve_gate require_role_def)
qed

theorem wrong_role_is_denied_witness:
  "(\<exists>m. serve (\<lambda>_. 1) [] [] (Mtls (Some ''n1'') (Some RoleNode)) (RpcDeletePod ''default'' ''web'')
          (store_new () :: (unit, unit) store) = (Inl (Status PermissionDenied m), store_new ())) \<and>
   serve (\<lambda>_. 1) [] [] (Mtls (Some ''sched'') (Some RoleScheduler)) RpcWatchPods (store_new () :: (unit, unit) store) =
     handle (\<lambda>_. 1) [] [] (Mtls (Some ''sched'') (Some RoleScheduler)) RpcWatchPods (store_new ())"
  using wrong_role_is_denied[of "Some RoleNode" "RpcDeletePod ''default'' ''web''" "\<lambda>_. 1" "[]" "[]" "Some ''n1''" "store_new ()"]
    wrong_role_is_denied[of "Some RoleScheduler" RpcWatchPods "\<lambda>_. 1" "[]" "[]" "Some ''sched''" "store_new ()"]
  by simp

section \<open>A node certificate is confined to its node\<close>

text \<open>What a certificate for node \<open>i\<close> may change: pods assigned to \<open>i\<close>, without
  creating, deleting or moving any, and the record of node \<open>i\<close>.\<close>

definition confined :: "string \<Rightarrow> ('w, 'v) store \<Rightarrow> ('w, 'v) store \<Rightarrow> bool" where
  "confined i s s' \<longleftrightarrow>
     (\<forall>k. sto_pods s' k = sto_pods s k \<or>
        (\<exists>d d'. sto_pods s k = Some d \<and> sto_pods s' k = Some d' \<and> pd_node_name d = i \<and>
           pd_node_name d' = i \<and> desired_of d' = desired_of d)) \<and>
     (\<forall>nm. nm \<noteq> i \<longrightarrow> sto_nodes s' nm = sto_nodes s nm)"

lemma confined_refl [simp]: "confined i s s"
  by (simp add: confined_def)

lemma merge_report_frame [simp]:
  "pod_key (merge_report st req d) = pod_key d"
  "pd_node_name (merge_report st req d) = pd_node_name d"
  "pd_unschedulable_reason (merge_report st req d) = pd_unschedulable_reason d"
  "desired_of (merge_report st req d) = desired_of d"
  "core_status (merge_report st req d) = map_option (\<lambda>_. st) (core_status d)"
proof -
  have "desired_of (d\<lparr>pd_container_statuses := a\<rparr>) = desired_of d"
    "desired_of (d\<lparr>pd_pod_ip := b\<rparr>) = desired_of d" "desired_of (d\<lparr>pd_message := b\<rparr>) = desired_of d"
    "desired_of (d\<lparr>pd_resource_usage := c\<rparr>) = desired_of d" for a b c d
    by (simp_all add: desired_of_def set_core_status_def)
  then show "desired_of (merge_report st req d) = desired_of d"
    by (simp add: merge_report_def Let_def)
  have "core_status (d\<lparr>pd_container_statuses := a\<rparr>) = core_status d"
    "core_status (d\<lparr>pd_pod_ip := b\<rparr>) = core_status d" "core_status (d\<lparr>pd_message := b\<rparr>) = core_status d"
    "core_status (d\<lparr>pd_resource_usage := c\<rparr>) = core_status d" for a b c d
    by (simp_all add: core_status_def)
  then show "core_status (merge_report st req d) = map_option (\<lambda>_. st) (core_status d)"
    by (simp add: merge_report_def Let_def core_status_set)
qed (simp_all add: merge_report_def Let_def)

lemma mem_update_pod_status_impl:
  assumes "mem_store s" "update_pod_status_impl peer req s = (r, s')"
  shows "s' = s \<or>
     (\<exists>ns nm d st. sto_pods s (ns, nm) = Some d \<and> check_identity peer (pd_node_name d) = Inr () \<and>
        r = Inr () \<and>
        s' = publish_pod_event EvModified (merge_report st req d)
               (s\<lparr>sto_pods := (sto_pods s)((ns, nm) \<mapsto> merge_report st req d)\<rparr>))"
proof (cases "ups_pod req")
  case None
  with assms show ?thesis by (simp add: update_pod_status_impl_whole sbind_def)
next
  case (Some reported)
  let ?ns = "ps_namespace (case pw_spec reported of None \<Rightarrow> default_pod_spec | Some sp \<Rightarrow> sp)"
  let ?nm = "p_name (the (pw_pod reported))"
  show ?thesis
  proof (cases "missing_fields reported = [] \<and> sto_pods s (?ns, ?nm) \<noteq> None")
    case False
    with assms Some show ?thesis
      by (auto simp: update_pod_status_impl_whole sbind_def smap_err_def mem_get_pod Let_def split: if_splits)
  next
    case True
    then obtain d where d: "sto_pods s (?ns, ?nm) = Some d" by blast
    show ?thesis
    proof (cases "check_identity peer (pd_node_name d)")
      case (Inl e)
      with assms Some True d show ?thesis
        by (auto simp: update_pod_status_impl_whole sbind_def smap_err_def mem_get_pod Let_def)
    next
      case (Inr u)
      with assms Some True d show ?thesis
        by (auto simp: update_pod_status_impl_whole sbind_def smap_err_def mem_get_pod Let_def
              mem_update_status_some)
    qed
  qed
qed














definition web_report :: update_pod_status_request where
  "web_report = \<lparr>ups_pod = Some (web_request\<lparr>pw_pod := Some \<lparr>p_name = ''web'', p_status = 1, p_requests = None, p_limits = None\<rparr>\<rparr>),
     ups_container_statuses = [], ups_pod_ip = Some ''10.1.0.2'', ups_message = None, ups_resource_usage = None\<rparr>"

text \<open>The scheduler moves the pod between the check and the write of its old node's report.\<close>

definition reassign_web :: "(unit, unit) store \<Rightarrow> (unit, unit) store" where
  "reassign_web s = snd (assign_pod_impl \<lparr>ap_name = ''web'', ap_namespace = ''default'', ap_outcome = Some (OutNodeName ''n2'')\<rparr> s)"

definition reported_store :: "(unit, unit) store" where
  "reported_store = snd (serve_between reassign_web (\<lambda>_. 1) [] [] (Mtls (Some ''n1'') (Some RoleNode))
     (RpcUpdatePodStatus web_report) busy_store)"


text \<open>The report of \<open>n1\<close> is written into the pod that runs on \<open>n2\<close>.\<close>

lemma report_crosses_an_assignment:
  "map_option (\<lambda>d. (pd_node_name d, pd_pod_ip d)) (sto_pods busy_store (''default'', ''web'')) = Some (''n1'', None)"
  "map_option (\<lambda>d. (pd_node_name d, pd_pod_ip d)) (sto_pods reported_store (''default'', ''web'')) =
     Some (''n2'', Some ''10.1.0.2'')"
  by code_simp+


end
