(* ===== verification/Watch_View.thy ===== *)
theory Watch_View imports Api_Service begin

text \<open>
  The published events describe the store: replaying them over an empty view, or over the snapshot a
  watch opens with, gives the store's pods and nodes. The same induction over every RPC shows that
  only admitted pods are ever stored. Everything is for the in-memory store, and for calls that run
  without another in between; what the code does outside its guards is the subject of \<open>Watch_Race\<close>
  and, for status reports, of \<open>Api_Service\<close>.
\<close>

section \<open>A watcher's view\<close>

definition apply_pod_event :: "(pod_key \<rightharpoonup> pod_detail) \<Rightarrow> watch_pod_event \<Rightarrow> (pod_key \<rightharpoonup> pod_detail)" where
  "apply_pod_event m ev =
     (case wpe_pod ev of
        None \<Rightarrow> m
      | Some p \<Rightarrow> if wpe_event_type ev = event_type_i32 EvDeleted then m(pod_key p := None)
                  else m(pod_key p \<mapsto> p))"

definition apply_node_event :: "(string \<rightharpoonup> node) \<Rightarrow> watch_node_event \<Rightarrow> (string \<rightharpoonup> node)" where
  "apply_node_event m ev =
     (case wne_node ev of
        None \<Rightarrow> m
      | Some n \<Rightarrow> if wne_event_type ev = event_type_i32 EvDeleted then m(nd_name n := None)
                  else m(nd_name n \<mapsto> n))"

definition replay_pods :: "(pod_key \<rightharpoonup> pod_detail) \<Rightarrow> watch_pod_event list \<Rightarrow> (pod_key \<rightharpoonup> pod_detail)" where
  "replay_pods m es = foldl apply_pod_event m es"

definition replay_nodes :: "(string \<rightharpoonup> node) \<Rightarrow> watch_node_event list \<Rightarrow> (string \<rightharpoonup> node)" where
  "replay_nodes m es = foldl apply_node_event m es"

text \<open>One store follows from another by publishing events that account for every difference.\<close>

definition accounted :: "('w, 'v) store \<Rightarrow> ('w, 'v) store \<Rightarrow> bool" where
  "accounted s s' \<longleftrightarrow>
     (\<exists>pes. sto_pod_events s' = sto_pod_events s @ pes \<and> replay_pods (sto_pods s) pes = sto_pods s') \<and>
     (\<exists>nes. sto_node_events s' = sto_node_events s @ nes \<and> replay_nodes (sto_nodes s) nes = sto_nodes s')"

lemma accounted_trans:
  assumes "accounted a b" "accounted b c"
  shows "accounted a c"
proof -
  obtain p1 n1 where 1: "sto_pod_events b = sto_pod_events a @ p1" "replay_pods (sto_pods a) p1 = sto_pods b"
    "sto_node_events b = sto_node_events a @ n1" "replay_nodes (sto_nodes a) n1 = sto_nodes b"
    using assms(1) by (auto simp: accounted_def)
  obtain p2 n2 where 2: "sto_pod_events c = sto_pod_events b @ p2" "replay_pods (sto_pods b) p2 = sto_pods c"
    "sto_node_events c = sto_node_events b @ n2" "replay_nodes (sto_nodes b) n2 = sto_nodes c"
    using assms(2) by (auto simp: accounted_def)
  have "sto_pod_events c = sto_pod_events a @ (p1 @ p2)" "replay_pods (sto_pods a) (p1 @ p2) = sto_pods c"
    "sto_node_events c = sto_node_events a @ (n1 @ n2)" "replay_nodes (sto_nodes a) (n1 @ n2) = sto_nodes c"
    using 1 2 by (simp_all add: replay_pods_def replay_nodes_def)
  then show ?thesis unfolding accounted_def by blast
qed

lemma accounted_same:
  "sto_pods s' = sto_pods s \<Longrightarrow> sto_nodes s' = sto_nodes s \<Longrightarrow> sto_pod_events s' = sto_pod_events s \<Longrightarrow>
   sto_node_events s' = sto_node_events s \<Longrightarrow> accounted s s'"
  by (simp add: accounted_def replay_pods_def replay_nodes_def)

section \<open>Good stores\<close>

text \<open>Every stored pod passed CreatePod's validation, and only an unplaced pod carries a reason
  for being unplaced.\<close>

definition pod_ok :: "pod_detail \<Rightarrow> bool" where
  "pod_ok d \<longleftrightarrow> (\<exists>pws. pd_core d = Some pws \<and> admissible pws) \<and>
     (pd_unschedulable_reason d \<noteq> None \<longrightarrow> pd_node_name d = [])"

definition good_store :: "('w, 'v) store \<Rightarrow> bool" where
  "good_store s \<longleftrightarrow> mem_store s \<and> wf_store s \<and> finite (dom (sto_pods s)) \<and> finite (dom (sto_nodes s)) \<and>
     (\<forall>k d. sto_pods s k = Some d \<longrightarrow> pod_ok d)"

interpretation accounting: step_rel good_store accounted
  by unfold_locales (auto intro: accounted_same accounted_trans)

abbreviation accounts :: "(('w, 'v) store, 'e, 'a) op \<Rightarrow> bool" where
  "accounts \<equiv> op_keeps good_store accounted"

lemma good_storeD: "good_store s \<Longrightarrow> mem_store s" "good_store s \<Longrightarrow> wf_store s"
  "good_store s \<Longrightarrow> sto_pods s k = Some d \<Longrightarrow> pod_ok d"
  unfolding good_store_def by blast+

lemma good_store_cong:
  "good_store s \<Longrightarrow> sto_client s' = sto_client s \<Longrightarrow> sto_pods s' = sto_pods s \<Longrightarrow>
   sto_nodes s' = sto_nodes s \<Longrightarrow> good_store s'"
  by (simp add: good_store_def mem_store_def wf_store_def)

lemma good_store_put_pod:
  "good_store s \<Longrightarrow> pod_ok p \<Longrightarrow> good_store (s\<lparr>sto_pods := (sto_pods s)(pod_key p \<mapsto> p)\<rparr>)"
  by (auto simp: good_store_def mem_store_def wf_store_def split: if_splits)

lemma good_store_delete_pod:
  "good_store s \<Longrightarrow> good_store (s\<lparr>sto_pods := (sto_pods s)(k := None)\<rparr>)"
  by (auto simp: good_store_def mem_store_def wf_store_def split: if_splits)

lemma good_store_put_node:
  "good_store s \<Longrightarrow> good_store (s\<lparr>sto_nodes := (sto_nodes s)(nd_name n \<mapsto> n)\<rparr>)"
  by (auto simp: good_store_def mem_store_def wf_store_def split: if_splits)

lemma good_store_publish [simp]:
  "good_store (publish_pod_event et p s) = good_store s"
  "good_store (publish_node_event et n s) = good_store s"
  "good_store (publish_desired_state_event nn ev s) = good_store s"
  by (simp_all add: good_store_def mem_store_def wf_store_def)

lemma accounts_same:
  assumes "\<And>s. sto_client (snd (f s)) = sto_client s" "\<And>s. sto_pods (snd (f s)) = sto_pods s"
    "\<And>s. sto_nodes (snd (f s)) = sto_nodes s" "\<And>s. sto_pod_events (snd (f s)) = sto_pod_events s"
    "\<And>s. sto_node_events (snd (f s)) = sto_node_events s"
  shows "accounts f"
proof (rule op_keepsI)
  fix s r s' assume "good_store s" "f s = (r, s')"
  with assms[of s] show "good_store s' \<and> accounted s s'"
    by (auto intro: good_store_cong accounted_same)
qed

lemma accounted_put_pod:
  "et \<noteq> EvDeleted \<Longrightarrow>
   accounted s (publish_pod_event et p (s\<lparr>sto_pods := (sto_pods s)(pod_key p \<mapsto> p)\<rparr>))"
  by (auto simp: accounted_def replay_pods_def replay_nodes_def apply_pod_event_def)
     (cases et; simp)

lemma accounted_delete_pod:
  "pod_key p = k \<Longrightarrow> accounted s (publish_pod_event EvDeleted p (s\<lparr>sto_pods := (sto_pods s)(k := None)\<rparr>))"
  by (auto simp: accounted_def replay_pods_def replay_nodes_def apply_pod_event_def)

lemma accounted_put_node:
  "et \<noteq> EvDeleted \<Longrightarrow>
   accounted s (publish_node_event et n (s\<lparr>sto_nodes := (sto_nodes s)(nd_name n \<mapsto> n)\<rparr>))"
  by (auto simp: accounted_def replay_pods_def replay_nodes_def apply_node_event_def)
     (cases et; simp)

section \<open>The store's methods\<close>

lemma accounts_create:
  assumes "pod_ok p"
  shows "accounts (create_pod p)"
proof (rule op_keepsI)
  fix s r s' assume s: "good_store s" "create_pod p s = (r, s')"
  show "good_store s' \<and> accounted s s'"
    using s good_store_put_pod[OF s(1) assms] accounted_put_pod[of EvAdded s p]
    by (cases "sto_pods s (pod_key p)")
       (auto simp: mem_create_pod_new mem_create_pod_dup good_storeD(1) intro: accounted_same)
qed

lemma accounts_remove: "accounts (remove_pod ns nm)"
proof (rule op_keepsI)
  fix s r s' assume s: "good_store s" "remove_pod ns nm s = (r, s')"
  show "good_store s' \<and> accounted s s'"
  proof (cases "sto_pods s (ns, nm)")
    case None
    then have "(sto_pods s)((ns, nm) := None) = sto_pods s" by auto
    with s None show ?thesis
      by (auto simp: mem_remove_pod good_storeD(1) intro: accounted_same good_store_cong)
  next
    case (Some p)
    then have "pod_key p = (ns, nm)" using good_storeD(2)[OF s(1)] by (simp add: wf_store_def)
    with s Some show ?thesis
      by (auto simp: mem_remove_pod good_storeD(1) good_store_delete_pod accounted_delete_pod)
  qed
qed

lemma accounts_update:
  assumes "et \<noteq> EvDeleted" "\<And>p. pod_key (fst (mutate p)) = pod_key p" "\<And>p. pod_ok p \<Longrightarrow> pod_ok (fst (mutate p))"
  shows "accounts (update_and_publish_pod ns nm et mutate cap)"
proof (rule op_keepsI)
  fix s r s' assume s: "good_store s" "update_and_publish_pod ns nm et mutate cap s = (r, s')"
  show "good_store s' \<and> accounted s s'"
  proof (cases "sto_pods s (ns, nm)")
    case None
    with s show ?thesis by (simp add: mem_update_pod_none good_storeD(1) accounting.rel_refl)
  next
    case (Some p0)
    obtain p cap' where m: "mutate p0 = (p, cap')" by (cases "mutate p0")
    have "pod_key p0 = (ns, nm)" using good_storeD(2)[OF s(1)] Some by (simp add: wf_store_def)
    then have key: "(ns, nm) = pod_key p" using assms(2)[of p0] m by simp
    have "pod_ok p" using assms(3)[of p0] good_storeD(3)[OF s(1) Some] m by simp
    then show ?thesis
      using s(2) good_store_put_pod[OF s(1)] accounted_put_pod[OF assms(1), of s p]
      unfolding mem_update_pod_some[where mutate = mutate and p = p and cap' = cap', OF good_storeD(1)[OF s(1)] Some m] key by auto
  qed
qed

lemma accounts_register: "accounts (register_node nd)"
proof (rule op_keepsI)
  fix s r s' assume s: "good_store s" "register_node nd s = (r, s')"
  have "nd_name nd = nd_name (registered s nd)" by simp
  then show "good_store s' \<and> accounted s s'"
    using s good_store_put_node[OF s(1), of "registered s nd"]
      accounted_put_node[of _ s "registered s nd"]
    by (auto simp: mem_register_node good_storeD(1))
qed

lemma accounts_set_status: "accounts (set_node_status nm st)"
proof (rule op_keepsI)
  fix s r s' assume s: "good_store s" "set_node_status nm st s = (r, s')"
  show "good_store s' \<and> accounted s s'"
  proof (cases "sto_nodes s nm")
    case None
    with s show ?thesis by (simp add: mem_set_node_status good_storeD(1) accounting.rel_refl)
  next
    case (Some nd)
    let ?nd = "nd\<lparr>nd_status := node_status_i32 st\<rparr>"
    have "nd_name ?nd = nm" using good_storeD(2)[OF s(1)] Some by (simp add: wf_store_def)
    with s Some good_store_put_node[OF s(1), of ?nd] accounted_put_node[of EvModified s ?nd] show ?thesis
      by (auto simp: mem_set_node_status good_storeD(1) accounting.rel_refl split: if_splits)
  qed
qed

lemma accounts_reads:
  "accounts (get_pod ns nm)" "accounts (list_pods ord)" "accounts (get_node nm)" "accounts (list_nodes nord)"
  by (auto intro!: op_keepsI simp: mem_get_pod mem_list_pods mem_get_node mem_list_nodes good_storeD(1)
        accounting.rel_refl)

section \<open>The handlers\<close>

lemma admissible_status:
  "admissible (pws\<lparr>pw_pod := map_option (\<lambda>p. p\<lparr>p_status := st\<rparr>) (pw_pod pws)\<rparr>) = admissible pws"
  by (auto simp: admissible_def)

lemma pod_ok_set_status [simp]: "pod_ok (set_core_status st d) = pod_ok d"
  by (auto simp: pod_ok_def set_core_status_def admissible_status)

lemma pod_ok_place: "pod_ok d \<Longrightarrow> pod_ok (fst (place_on nn d))"
  by (simp add: place_on_def Let_def) (simp add: pod_ok_def)

lemma pod_ok_unplaced: "pod_ok d \<Longrightarrow> pod_ok (mark_unplaced st reason d)"
  by (simp add: mark_unplaced_def) (simp add: pod_ok_def)

lemma merge_report_core: "pd_core (merge_report st req d) = pd_core (set_core_status st d)"
  by (simp add: merge_report_def Let_def)

lemma pod_ok_merge: "pod_ok d \<Longrightarrow> pod_ok (merge_report st req d)"
  using pod_ok_set_status[of st d] unfolding pod_ok_def merge_report_core by simp

lemma place_on_key [simp]: "pod_key (fst (place_on nn d)) = pod_key d"
  by (simp add: place_on_def Let_def)

lemma mark_unplaced_key [simp]: "pod_key (mark_unplaced st reason d) = pod_key d"
  by (simp add: mark_unplaced_def)

lemma pod_ok_created: "admissible pws \<Longrightarrow> pod_ok (created_pod pws)"
  unfolding created_pod_set_status pod_ok_set_status by (simp add: pod_ok_def new_pod_detail_def)

lemma accounts_create_impl: "accounts (create_pod_impl req)"
proof (rule op_keepsI)
  fix s r s' assume s: "good_store s" "create_pod_impl req s = (r, s')"
  show "good_store s' \<and> accounted s s'"
  proof (cases "validate_create req")
    case (Inl e)
    with s show ?thesis by (simp add: create_pod_impl_def accounting.rel_refl)
  next
    case (Inr x)
    obtain pws nm ns where x: "x = (pws, nm, ns)" by (cases x)
    have ok: "pod_ok (created_pod pws)" using Inr x pod_ok_created by (auto simp: validate_create_ok_iff)
    have "accounts (sbind (smap_err to_status (create_pod (created_pod pws)))
        (\<lambda>created. if created then sret (created_pod pws) else sfail (pod_already_exists ns nm)))"
      by (intro accounting.keeps_rules accounts_create ok)
    moreover have "sbind (smap_err to_status (create_pod (created_pod pws)))
        (\<lambda>created. if created then sret (created_pod pws) else sfail (pod_already_exists ns nm)) s = (r, s')"
      using s(2) by (simp only: create_pod_impl_def Inr x sum.case prod.case Let_def created_pod_def)
    ultimately show ?thesis using s(1) by (blast dest: op_keepsD)
  qed
qed

lemma accounts_publish_ds:
  "accounts (\<lambda>s. (res, if cnd then publish_desired_state_event nn ev s else s))"
  "accounts (\<lambda>s. (res, publish_desired_state_event nn ev s))"
  by (rule accounts_same; simp add: publish_desired_state_event_def split: option.splits)+

lemma accounts_delete_impl: "accounts (delete_pod_impl ns nm)"
  unfolding delete_pod_impl_def
  by (intro accounting.keeps_rules accounts_remove) (rule accounts_publish_ds)

lemma accounts_assign_impl: "accounts (assign_pod_impl req)"
proof -
  have upd: "accounts (update_and_publish_pod ns nm EvScheduled (place_on nn) None)"
    "accounts (update_and_publish_pod ns nm EvModified (\<lambda>d. (mark_unplaced st reason d, ())) ())"
    for ns nm nn st reason
    by (rule accounts_update; simp add: pod_ok_place pod_ok_unplaced)+
  have announce: "accounts (\<lambda>s. if \<not> found then (Inl e, s) else (Inr (), publish_desired_state_event nn ev s))"
    for found and e :: status and nn ev
    by (cases found) (auto intro: accounts_publish_ds accounts_same)
  show ?thesis
    unfolding assign_pod_impl_def
    by (intro accounting.keeps_rules; (simp split: assign_outcome.split)?)
       (intro conjI allI impI accounting.keeps_rules upd announce)
qed

lemma accounts_update_status: "accounts (update_pod_status ns nm (merge_report st req))"
  unfolding update_pod_status_def
  by (intro accounting.keeps_rules accounts_update) (simp_all add: pod_ok_merge)

lemma accounts_update_status_impl: "accounts (update_pod_status_impl peer req)"
  unfolding update_pod_status_impl_whole Let_def
  by (intro accounting.keeps_rules accounts_reads accounts_update_status)

lemma accounts_register_impl: "accounts (update_node_status_impl peer req)"
  unfolding update_node_status_impl_def
  by (intro accounting.keeps_rules accounts_register)

lemma accounts_subscribe_ds: "accounts (subscribe_desired_state_with_snapshot rc ord nn)"
  unfolding subscribe_desired_state_with_snapshot_def desired_state_snapshot_def
  by (intro accounting.keeps_rules accounts_reads)
     (rule accounts_same; simp add: subscribe_desired_state_events_def Let_def split: option.splits prod.splits)

lemma accounts_watch_started: "accounts (node_watch_started nm)"
proof (rule op_keepsI)
  fix s r s' assume s: "good_store s" "node_watch_started nm s = (r, s')"
  obtain r1 s1 where set: "set_node_status nm NodeReady s = (r1, s1)" by fastforce
  note keep = op_keepsD[OF accounts_set_status s(1) set]
  have more: "accounted s1 (s1\<lparr>sto_watchers := wt\<rparr>)" for wt by (rule accounted_same) simp_all
  have "good_store (s1\<lparr>sto_watchers := wt\<rparr>)" "accounted s (s1\<lparr>sto_watchers := wt\<rparr>)"
    "good_store (s\<lparr>sto_watchers := wt\<rparr>)" "accounted s (s\<lparr>sto_watchers := wt\<rparr>)" for wt
    using keep s(1) accounted_trans[OF conjunct2[OF keep] more[of wt]]
    by (auto intro: good_store_cong accounted_same)
  then show "good_store s' \<and> accounted s s'"
    using s set by (auto simp: mem_node_watch_started[OF good_storeD(1)[OF s(1)]] accounting.rel_refl
        split: if_splits)
qed

lemma accounts_watch_ended: "good_store s \<Longrightarrow> good_store (node_watch_ended nm s) \<and> accounted s (node_watch_ended nm s)"
proof -
  assume s: "good_store s"
  let ?s0 = "s\<lparr>sto_watchers := (sto_watchers s)(nm := None)\<rparr>"
  have g0: "good_store ?s0" "accounted s ?s0" using s by (auto intro: good_store_cong accounted_same)
  obtain r s1 where set: "set_node_status nm NodeNotReady ?s0 = (r, s1)" by fastforce
  from op_keepsD[OF accounts_set_status g0(1) set] have "good_store s1" "accounted s s1"
    using accounted_trans[OF g0(2)] by blast+
  moreover have "good_store (s\<lparr>sto_watchers := wt\<rparr>)" "accounted s (s\<lparr>sto_watchers := wt\<rparr>)" for wt
    using s by (auto intro: good_store_cong accounted_same)
  ultimately show ?thesis
    using s set by (auto simp: node_watch_ended_def Let_def accounting.rel_refl split: option.splits)
qed

lemma accounts_watch_impl: "accounts (watch_desired_state_impl rc ord peer nn)"
  unfolding watch_desired_state_impl_def
  by (intro accounting.keeps_rules accounts_reads accounts_subscribe_ds accounts_watch_started)

lemma accounts_snapshots:
  "accounts (subscribe_pod_events_with_snapshot ord)" "accounts (subscribe_node_events_with_snapshot nord)"
  unfolding subscribe_pod_events_with_snapshot_def subscribe_node_events_with_snapshot_def
  by (intro accounting.keeps_rules accounts_reads; rule accounts_same; simp)+

lemma accounts_smap: "accounts m \<Longrightarrow> accounts (smap f m)"
  unfolding smap_def by (intro accounting.keeps_rules)

lemma accounts_read_impls:
  "accounts (get_pod_impl ns nm)" "accounts (list_pods_impl ord)" "accounts (get_node_impl ord nm)"
  "accounts (list_nodes_impl ord nord)" "accounts (watch_pods_impl ord)" "accounts (watch_nodes_impl nord)"
  unfolding get_pod_impl_def list_pods_impl_def get_node_impl_def list_nodes_impl_def watch_pods_impl_def
    watch_nodes_impl_def
  by (intro accounting.keeps_rules accounts_reads accounts_snapshots)+

lemma accounts_handle: "accounts (handle rc ord nord peer call)"
  by (cases call; simp only: handle.simps)
     (intro accounts_smap accounts_create_impl accounts_delete_impl accounts_assign_impl
        accounts_update_status_impl accounts_register_impl accounts_watch_impl accounts_read_impls)+

lemma accounts_serve: "accounts (serve rc ord nord peer call)"
  unfolding serve_gate by (intro accounting.keeps_rules accounts_handle)

section \<open>Runs of the API server\<close>

text \<open>Requests of any peers and teardowns of any streams, in any order.\<close>

inductive api_steps :: "('w, 'v) store \<Rightarrow> ('w, 'v) store \<Rightarrow> bool" where
  none: "api_steps s s"
| request: "api_steps s s1 \<Longrightarrow> iter_order (sto_pods s1) ord \<Longrightarrow> iter_order (sto_nodes s1) nord \<Longrightarrow>
     serve rc ord nord peer call s1 = (r, s2) \<Longrightarrow> api_steps s s2"
| teardown: "api_steps s s1 \<Longrightarrow> api_steps s (node_watch_ended nm s1)"

lemma api_steps_keep: "api_steps s s' \<Longrightarrow> good_store s \<Longrightarrow> good_store s' \<and> accounted s s'"
proof (induction rule: api_steps.induct)
  case (none s)
  then show ?case by (simp add: accounting.rel_refl)
next
  case (request s s1 ord nord rc peer call r s2)
  then show ?case
    using op_keepsD[OF accounts_serve _ request.hyps(4)] accounted_trans by blast
next
  case (teardown s s1 nm)
  then show ?case using accounts_watch_ended accounted_trans by blast
qed

lemma good_store_new: "good_store (store_new w)"
  by (simp add: good_store_def wf_store_new) (simp add: store_new_def)

text \<open>
  C27. Whatever requests arrive, from whatever peers and in whatever order, every pod the API server
  ever stores is one that CreatePod's validation admits: both its names are DNS labels, it is filed
  under them, it has a container, its container names are non-empty and distinct and every container
  has an image; and a pod carries an unschedulable reason only while it is assigned to no node. No
  status report, placement or reassignment can break this.
\<close>

theorem stored_pods_are_admissible:
  assumes "api_steps (store_new w) s" and "sto_pods s (ns, nm) = Some d"
  shows "\<exists>pws. pd_core d = Some pws \<and> admissible pws \<and> pod_key d = (ns, nm) \<and>
           dns_label ns \<and> dns_label nm \<and>
           (pd_unschedulable_reason d = None \<or> pd_node_name d = [])"
proof -
  have good: "good_store s" using api_steps_keep[OF assms(1) good_store_new] by blast
  then have "pod_ok d" "pod_key d = (ns, nm)"
    using assms(2) good_storeD(2,3) by (auto simp: wf_store_def)
  then show ?thesis
    by (auto simp: pod_ok_def admissible_def pod_key_def)
qed

definition demo_api :: "(unit, unit) store" where
  "demo_api = snd (serve (\<lambda>_. 0) [] [] Plaintext (RpcCreatePod (Some web_request)) (store_new ()))"

lemma demo_api_reach: "api_steps (store_new ()) demo_api"
  unfolding demo_api_def
  by (rule api_steps.request[OF api_steps.none _ _ prod.collapse[symmetric]])
     (simp_all add: store_new_def iter_order_def)

theorem stored_pods_are_admissible_witness:
  "\<exists>d pws. sto_pods demo_api (''default'', ''web'') = Some d \<and> pd_core d = Some pws \<and> admissible pws"
proof -
  have "sto_pods demo_api (''default'', ''web'') \<noteq> None" by code_simp
  then obtain d where "sto_pods demo_api (''default'', ''web'') = Some d" by blast
  with stored_pods_are_admissible[OF demo_api_reach] show ?thesis by blast
qed

section \<open>A watch follows the store\<close>

lemma replay_snapshot:
  assumes "\<And>k p. m k = Some p \<Longrightarrow> pod_key p = k" and "distinct (map pod_key ps)" and "set ps = ran m"
  shows "replay_pods Map.empty (map (\<lambda>p. \<lparr>wpe_event_type = event_type_i32 EvAdded, wpe_pod = Some p\<rparr>) ps) = m"
proof -
  have "replay_pods m0 (map (\<lambda>p. \<lparr>wpe_event_type = event_type_i32 EvAdded, wpe_pod = Some p\<rparr>) qs) =
      m0 ++ map_of (map (\<lambda>p. (pod_key p, p)) qs)" if "distinct (map pod_key qs)" for m0 qs
    using that
  proof (induction qs arbitrary: m0)
    case (Cons q qs)
    have "pod_key q \<notin> dom (map_of (map (\<lambda>p. (pod_key p, p)) qs))"
      using Cons.prems by (auto simp: dom_map_of_conv_image_fst image_comp)
    with Cons show ?case
      by (auto simp: replay_pods_def apply_pod_event_def fun_eq_iff map_add_def split: option.splits)
  qed (simp add: replay_pods_def)
  then have "replay_pods Map.empty (map (\<lambda>p. \<lparr>wpe_event_type = event_type_i32 EvAdded, wpe_pod = Some p\<rparr>) ps) =
      map_of (map (\<lambda>p. (pod_key p, p)) ps)" using assms(2) by simp
  also have "\<dots> = m"
  proof (rule ext)
    fix k
    have dis: "distinct (map fst (map (\<lambda>p. (pod_key p, p)) ps))" using assms(2) by (simp add: comp_def)
    show "map_of (map (\<lambda>p. (pod_key p, p)) ps) k = m k"
    proof (cases "m k")
      case None
      then have "k \<notin> pod_key ` set ps" using assms(1,3) by (auto simp: ran_def)
      with None show ?thesis by (simp add: map_of_eq_None_iff image_comp)
    next
      case (Some p)
      have "p \<in> set ps" using ranI[of m k p] Some assms(3) by simp
      moreover have "pod_key p = k" using assms(1)[OF Some] .
      ultimately have "(k, p) \<in> set (map (\<lambda>p. (pod_key p, p)) ps)" by auto
      with Some dis show ?thesis by (simp add: map_of_is_SomeI)
    qed
  qed
  finally show ?thesis .
qed

text \<open>
  C29. A watcher of pods is never left with a wrong picture by the calls themselves: whenever it
  subscribes and whatever requests follow, replaying the snapshot it was handed and then the events
  its receiver is sent yields exactly the pods the store holds at that moment.
\<close>

theorem pod_watch_follows_the_store:
  assumes "api_steps (store_new w) s0"
    and "iter_order (sto_pods s0) ord"
    and "watch_pods_impl ord s0 = (Inr (snapshot, pos), s1)"
    and "api_steps s1 s2"
  shows "replay_pods Map.empty (snapshot @ pods_received pos s2) = sto_pods s2"
proof -
  have good: "good_store s0" using api_steps_keep[OF assms(1) good_store_new] by blast
  let ?ps = "sort_key (\<lambda>p. pd_node_name p = []) (map_values (sto_pods s0) ord)"
  have sub: "s1 = s0" "pos = length (sto_pod_events s0)"
    "snapshot = map (\<lambda>p. \<lparr>wpe_event_type = event_type_i32 EvAdded, wpe_pod = Some p\<rparr>) ?ps"
    using assms(3) good_storeD(1)[OF good]
    by (auto simp: watch_pods_impl_def smap_err_def sbind_def subscribe_pod_events_with_snapshot_def
        subscribe_pod_events_def mem_list_pods)
  have key: "sto_pods s0 k = Some p \<Longrightarrow> pod_key p = k" for k p
    using good_storeD(2)[OF good] by (rule wf_storeD)
  have "map pod_key (map_values (sto_pods s0) ord) = ord"
  proof -
    have "map pod_key (map_values (sto_pods s0) ks) = ks" if "set ks \<subseteq> dom (sto_pods s0)" for ks
      using that key by (induction ks) auto
    with assms(2) show ?thesis by (simp add: iter_order_def)
  qed
  then have "distinct (map pod_key (map_values (sto_pods s0) ord))"
    using assms(2) by (simp add: iter_order_def)
  then have "distinct (map pod_key ?ps)"
    by (metis distinct_map distinct_sort set_sort)
  from replay_snapshot[of "sto_pods s0", OF key this] have snap:
    "replay_pods Map.empty snapshot = sto_pods s0"
    using set_map_values_ran[OF assms(2)] sub by simp
  obtain pes where "sto_pod_events s2 = sto_pod_events s0 @ pes" "replay_pods (sto_pods s0) pes = sto_pods s2"
    using api_steps_keep[OF assms(4)] good sub(1) by (auto simp: accounted_def)
  with snap sub(2) show ?thesis
    by (simp add: pods_received_def replay_pods_def)
qed

lemma demo_watch:
  "watch_pods_impl [(''default'', ''web'')] demo_api =
     (Inr (map (\<lambda>p. \<lparr>wpe_event_type = event_type_i32 EvAdded, wpe_pod = Some p\<rparr>) [created_pod web_request], 1), demo_api)"
proof -
  have "sto_client demo_api = None" "sto_pods demo_api (''default'', ''web'') = Some (created_pod web_request)"
    "length (sto_pod_events demo_api) = 1"
    by code_simp+
  then show ?thesis
    by (simp add: watch_pods_impl_def smap_err_def sbind_def subscribe_pod_events_with_snapshot_def
        subscribe_pod_events_def mem_list_pods mem_store_def)
qed

definition demo_api2 :: "(unit, unit) store" where
  "demo_api2 = snd (serve (\<lambda>_. 0) [(''default'', ''web'')] [] Plaintext (RpcDeletePod ''default'' ''web'') demo_api)"

lemma demo_api_orders: "iter_order (sto_pods demo_api) [(''default'', ''web'')]" "iter_order (sto_nodes demo_api) []"
proof -
  have "sto_pods demo_api = [(''default'', ''web'') \<mapsto> created_pod web_request]" "sto_nodes demo_api = Map.empty"
    using mem_create_pod_impl[OF wf_store_new(2), of "Some web_request"]
    by (auto simp: demo_api_def serve_gate require_role_def sbind_def smap_def store_new_def
        validate_create_def web_request_def validate_dns1123_subdomain_def Let_def dns_alnum_def
        is_lower_def pod_key_def created_pod_def new_pod_detail_def create_pod_impl_def smap_err_def
        create_pod_def publish_pod_event_def)
  then show "iter_order (sto_pods demo_api) [(''default'', ''web'')]" "iter_order (sto_nodes demo_api) []"
    by (simp_all add: iter_order_def)
qed

theorem pod_watch_follows_the_store_witness:
  "replay_pods Map.empty
     (map (\<lambda>p. \<lparr>wpe_event_type = event_type_i32 EvAdded, wpe_pod = Some p\<rparr>) [created_pod web_request] @
      pods_received 1 demo_api2) = sto_pods demo_api2 \<and>
   length (pods_received 1 demo_api2) = 1"
proof -
  have "api_steps demo_api demo_api2"
    unfolding demo_api2_def
    by (rule api_steps.request[OF api_steps.none _ _ prod.collapse[symmetric]]) (rule demo_api_orders)+
  moreover have "length (pods_received 1 demo_api2) = 1" by code_simp
  ultimately show ?thesis
    using pod_watch_follows_the_store[OF demo_api_reach demo_api_orders(1) demo_watch] by blast
qed

end
