(* ===== verification/Watch_Race.thy ===== *)
theory Watch_Race imports Watch_View begin

text \<open>
  Calls whose guard does not cover everything they do. \<open>create_pod\<close>, \<open>register_node\<close> and
  \<open>set_node_status\<close> publish after their write guard is gone, and the desired-state watch reads
  its snapshot before it takes the channel map's guard. Here each of them is its critical sections,
  shown to make up the call when nothing runs in between; the schedules that do put another call in
  between show what that costs the watchers.
\<close>

section \<open>Critical sections\<close>

definition create_pod_insert :: "pod_detail \<Rightarrow> (('w, 'v) store, store_error, bool) op" where
  "create_pod_insert p s =
     (if sto_pods s (pod_key p) \<noteq> None then (Inr False, s)
      else (Inr True, s\<lparr>sto_pods := (sto_pods s)(pod_key p \<mapsto> p)\<rparr>))"

lemma create_pod_sections:
  "mem_store s \<Longrightarrow> create_pod p s =
     sbind (create_pod_insert p) (\<lambda>ok s. (Inr ok, if ok then publish_pod_event EvAdded p s else s)) s"
  by (auto simp: create_pod_def create_pod_insert_def mem_store_def sbind_def)

definition register_node_insert :: "node \<Rightarrow> (('w, 'v) store, store_error, node \<times> event_type) op" where
  "register_node_insert nd s =
     (let st = (case sto_nodes s (nd_name nd) of Some known \<Rightarrow> nd_status known
                | None \<Rightarrow> node_status_i32 NodeNotReady);
          nd' = nd\<lparr>nd_status := st\<rparr>
      in (Inr (nd', case sto_nodes s (nd_name nd) of None \<Rightarrow> EvAdded | Some _ \<Rightarrow> EvModified),
          s\<lparr>sto_nodes := (sto_nodes s)(nd_name nd \<mapsto> nd')\<rparr>))"

lemma register_node_sections:
  "mem_store s \<Longrightarrow> register_node nd s =
     sbind (register_node_insert nd) (\<lambda>(nd', et) s. (Inr (), publish_node_event et nd' s)) s"
  by (simp add: register_node_def register_node_insert_def mem_store_def sbind_def Let_def)

lemma watch_desired_state_sections:
  "subscribe_desired_state_with_snapshot rc ord nn s =
     sbind (desired_state_snapshot ord nn)
       (\<lambda>assigned s. case subscribe_desired_state_events rc nn s of (receiver, s') \<Rightarrow> (Inr (assigned, receiver), s')) s"
  by (simp add: subscribe_desired_state_with_snapshot_def)

section \<open>An ADDED event after the DELETED one\<close>



section \<open>A stale registration event\<close>

text \<open>A node registers a second time. Between the write of its record and the event, its stream
  opens and the store marks it READY.\<close>

definition stale_node_store :: "(unit, unit) store" where
  "stale_node_store =
     (case register_node_insert demo_node demo_store0 of
        (Inr (nd, et), s1) \<Rightarrow> publish_node_event et nd (snd (node_watch_started ''n1'' s1))
      | (Inl _, s1) \<Rightarrow> s1)"

text \<open>
  \<open>register_node\<close> publishes the record it wrote after releasing the lock: a stream that
  opens in between marks the node READY first, the stale NOT_READY event comes last, and every
  watcher goes on believing NOT_READY about a node the store holds READY.
\<close>

theorem stale_registration_event:
  "map_option nd_status (sto_nodes stale_node_store ''n1'') = Some (node_status_i32 NodeReady) \<and>
   map_option nd_status (replay_nodes Map.empty (sto_node_events stale_node_store) ''n1'') =
     Some (node_status_i32 NodeNotReady)"
  by code_simp

section \<open>A placement lost between snapshot and subscription\<close>

definition scheduled_demo :: "(unit, unit) store" where
  "scheduled_demo = snd (create_pod (created_pod web_request) demo_store0)"

definition placement :: assign_pod_request where
  "placement = \<lparr>ap_name = ''web'', ap_namespace = ''default'', ap_outcome = Some (OutNodeName ''n1'')\<rparr>"

text \<open>The agent's snapshot, the scheduler's AssignPod, then the agent's subscription: the events
  the stream starts with, and the store and receiver after it.\<close>

definition lost_run :: "ds_event list \<times> (nat \<times> nat) \<times> (unit, unit) store" where
  "lost_run =
     (case desired_state_snapshot [(''default'', ''web'')] ''n1'' scheduled_demo of
        (Inr assigned, s1) \<Rightarrow>
          (case subscribe_desired_state_events (\<lambda>_. 0) ''n1'' (snd (assign_pod_impl placement s1)) of
             (receiver, s2) \<Rightarrow> (map run_event assigned @ [synced_event], receiver, s2))
      | (Inl _, s1) \<Rightarrow> ([], (0, 0), s1))"

text \<open>
  The desired-state watch reads its snapshot and subscribes under two different guards. A
  placement between the two is in neither: the store assigns the pod to the node, yet the opening of
  the agent's stream has no RUN for it, says SYNCED, and nothing follows on the live channel.
\<close>

theorem placement_lost_to_starting_watch:
  "case lost_run of (opening_items, receiver, s) \<Rightarrow>
     map_option pd_node_name (sto_pods s (''default'', ''web'')) = Some ''n1'' \<and>
     opening_items = [synced_event] \<and> ds_received receiver s = []"
  by code_simp

end
