(* ===== verification/Float32.thy ===== *)
theory Float32 imports Complex_Main Prelude begin

text \<open>
  The 32-bit float arithmetic of the scheduler's usage computation: numbers of 24 significant bits
  with round-to-nearest, ties to even, the two infinities and NaN. The operands there are 32-bit
  integers, so neither the largest finite float nor the subnormal range is ever reached and the
  exponent is left unbounded; a zero divisor is always the conversion of the integer 0, so the sign
  of zero is never observed and there is one zero.
\<close>

section \<open>Rounding\<close>

text \<open>The exponent of a positive rational: \<open>2 ^ e \<le> x < 2 ^ (e + 1)\<close>, found from the lengths of
  numerator and denominator.\<close>

function bit_length :: "int \<Rightarrow> nat" where
  "bit_length n = (if n \<le> 0 then 0 else Suc (bit_length (n div 2)))"
  by pat_completeness auto
termination by (relation "measure nat") auto

declare bit_length.simps [simp del]

lemma bit_length_base [simp]: "bit_length 0 = 0" "bit_length 1 = 1"
  by (simp add: bit_length.simps, subst bit_length.simps, simp add: bit_length.simps)

definition pow2 :: "int \<Rightarrow> rat" where
  "pow2 e = (if 0 \<le> e then 2 ^ nat e else 1 / 2 ^ nat (- e))"

definition rat_exponent :: "rat \<Rightarrow> int" where
  "rat_exponent x =
     (case quotient_of x of (p, q) \<Rightarrow>
        let e = int (bit_length p) - int (bit_length q)
        in if x < pow2 e then e - 1 else e)"

definition round_even :: "rat \<Rightarrow> int" where
  "round_even y =
     (let m = \<lfloor>y\<rfloor>; r = y - of_int m
      in if r < 1 / 2 then m else if 1 / 2 < r then m + 1 else if even m then m else m + 1)"

definition round24_pos :: "rat \<Rightarrow> rat" where
  "round24_pos x = (let u = pow2 (rat_exponent x - 23) in of_int (round_even (x / u)) * u)"

definition round24 :: "rat \<Rightarrow> rat" where
  "round24 x = (if x = 0 then 0 else if 0 < x then round24_pos x else - round24_pos (- x))"

section \<open>Values and operations\<close>

datatype f32 = FNum rat | FInf | FNegInf | FNan

definition f32_of_i32 :: "int \<Rightarrow> f32" where
  "f32_of_i32 i = FNum (round24 (of_int i))"

fun f32_neg :: "f32 \<Rightarrow> f32" where
  "f32_neg (FNum x) = FNum (- x)"
| "f32_neg FInf = FNegInf"
| "f32_neg FNegInf = FInf"
| "f32_neg FNan = FNan"

fun f32_add :: "f32 \<Rightarrow> f32 \<Rightarrow> f32" where
  "f32_add (FNum x) (FNum y) = FNum (round24 (x + y))"
| "f32_add FNan _ = FNan"
| "f32_add _ FNan = FNan"
| "f32_add FInf FNegInf = FNan"
| "f32_add FNegInf FInf = FNan"
| "f32_add FInf _ = FInf"
| "f32_add _ FInf = FInf"
| "f32_add FNegInf _ = FNegInf"
| "f32_add _ FNegInf = FNegInf"

definition f32_sub :: "f32 \<Rightarrow> f32 \<Rightarrow> f32" where
  "f32_sub x y = f32_add x (f32_neg y)"

text \<open>Division; \<open>0 / 0\<close> and infinity over infinity are NaN.\<close>

fun f32_div :: "f32 \<Rightarrow> f32 \<Rightarrow> f32" where
  "f32_div (FNum x) (FNum y) =
     (if y = 0 then (if x = 0 then FNan else if 0 < x then FInf else FNegInf) else FNum (round24 (x / y)))"
| "f32_div FNan _ = FNan"
| "f32_div _ FNan = FNan"
| "f32_div (FNum _) _ = FNum 0"
| "f32_div FInf (FNum y) = (if 0 \<le> y then FInf else FNegInf)"
| "f32_div FNegInf (FNum y) = (if 0 \<le> y then FNegInf else FInf)"
| "f32_div _ _ = FNan"

text \<open>The comparison operator: false as soon as one side is NaN.\<close>

fun f32_gt :: "f32 \<Rightarrow> f32 \<Rightarrow> bool" where
  "f32_gt FNan _ = False"
| "f32_gt _ FNan = False"
| "f32_gt (FNum x) (FNum y) = (y < x)"
| "f32_gt FInf y = (y \<noteq> FInf)"
| "f32_gt _ FInf = False"
| "f32_gt FNegInf _ = False"
| "f32_gt (FNum _) FNegInf = True"

lemma f32_gt_irrefl [simp]: "\<not> f32_gt x x"
  by (cases x) simp_all

lemma f32_gt_nan: "f32_gt x y \<Longrightarrow> x \<noteq> FNan \<and> y \<noteq> FNan"
  by (cases "(x, y)" rule: f32_gt.cases) auto

lemma f32_gt_asym: "f32_gt x y \<Longrightarrow> \<not> f32_gt y x"
  by (cases x; cases y) auto

lemma f32_gt_trans: "f32_gt x y \<Longrightarrow> f32_gt y z \<Longrightarrow> f32_gt x z"
  by (cases x; cases y; cases z) auto

text \<open>Off NaN the order is total: \<open>\<not> (x > y)\<close> is \<open>x \<le> y\<close>.\<close>

lemma f32_not_gt_trans:
  "y \<noteq> FNan \<Longrightarrow> \<not> f32_gt x y \<Longrightarrow> \<not> f32_gt y z \<Longrightarrow> \<not> f32_gt x z"
  by (cases x; cases y; cases z) auto

section \<open>Exactness\<close>

lemma bit_length_bounds: "0 < n \<Longrightarrow> 2 ^ (bit_length n - 1) \<le> n \<and> n < 2 ^ bit_length n \<and> 0 < bit_length n"
proof (induction n rule: bit_length.induct)
  case (1 n)
  show ?case
  proof (cases "n div 2 = 0")
    case True
    then have "n = 1" using "1.prems" by linarith
    then show ?thesis by simp
  next
    case False
    let ?b = "bit_length (n div 2)"
    have "0 < n div 2" using False "1.prems" by (simp add: order_less_le pos_imp_zdiv_nonneg_iff)
    then have b: "2 ^ (?b - 1) \<le> n div 2" "n div 2 < 2 ^ ?b" "0 < ?b" using 1 by simp_all
    have len: "bit_length n = Suc ?b" using "1.prems" by (simp add: bit_length.simps[of n])
    have "(2::int) ^ ?b = 2 * 2 ^ (?b - 1)" using b(3) by (metis power_eq_if neq0_conv)
    then have "2 ^ ?b \<le> 2 * (n div 2)" using b(1) by linarith
    moreover have "n < 2 * 2 ^ ?b" using b(2) by linarith
    ultimately show ?thesis using len by simp
  qed
qed

lemma round_even_int [simp]: "round_even (of_int n) = n"
  by (simp add: round_even_def Let_def)

text \<open>Integers of at most 24 bits convert without rounding.\<close>

lemma round24_int_exact:
  assumes "0 \<le> n" "n < 2 ^ 24"
  shows "round24 (of_int n) = of_int n"
proof (cases "n = 0")
  case True
  then show ?thesis by (simp add: round24_def)
next
  case False
  let ?b = "bit_length n" and ?e = "rat_exponent (of_int n) - 23"
  have b: "2 ^ (?b - 1) \<le> n" "n < 2 ^ ?b" "0 < ?b" using bit_length_bounds[of n] False assms(1) by simp_all
  have "?b \<le> 24"
  proof (rule ccontr)
    assume "\<not> ?b \<le> 24"
    then have "(2::int) ^ 24 \<le> 2 ^ (?b - 1)" by (intro power_increasing) simp_all
    with b(1) assms(2) show False by linarith
  qed
  moreover have "rat_exponent (of_int n) \<le> int ?b - 1"
    by (simp add: rat_exponent_def quotient_of_int Let_def)
  ultimately have "?e \<le> 0" by simp
  then obtain k where k: "?e = - int k"
    by (metis minus_minus neg_0_le_iff_le nonneg_int_cases)
  have u: "pow2 (- int k) = 1 / 2 ^ k" by (simp add: pow2_def)
  have "of_int n / (1 / 2 ^ k) = (of_int (n * 2 ^ k) :: rat)" by simp
  then have "round24_pos (of_int n) = of_int (n * 2 ^ k) * (1 / 2 ^ k)"
    unfolding round24_pos_def k u Let_def by (metis round_even_int)
  then show ?thesis using False assms(1) by (simp add: round24_def)
qed

text \<open>A float of the scheduler's tests, an inexact quotient, and the first integer that does not
  fit 24 bits.\<close>

lemma f32_samples:
  "f32_div (f32_of_i32 500) (f32_of_i32 1000) = FNum (1 / 2)"
  "f32_div (f32_of_i32 1) (f32_of_i32 3) = FNum (11184811 / 33554432)"
  "f32_of_i32 16777217 = FNum 16777216"
  by code_simp+

end
