(* ===== verification/Basic_Scheduler.thy ===== *)
theory Basic_Scheduler imports Proto_Types Float32 begin

text \<open>
  \<open>scheduler/src/schedulers/basic.rs\<close>: the bookkeeping of nodes, claimed resources, claimed host
  ports and placements, and the election of a node for a pod. Iteration over a hash map takes its
  order \<open>ord\<close> as an argument. Claims are 32-bit and wrap.
\<close>

section \<open>State\<close>

type_synonym port_key = "int \<times> nat"

definition port_key_of :: "port \<Rightarrow> port_key" where
  "port_key_of p = (port_protocol p, port_external p)"

definition port_keys :: "port list \<Rightarrow> port_key set" where
  "port_keys ports = set (map port_key_of ports)"

record basic_scheduler =
  bs_nodes :: "string \<rightharpoonup> node"
  bs_claimed :: "string \<rightharpoonup> resources"
  bs_claimed_ports :: "string \<rightharpoonup> port_key set"
  bs_placements :: "pod_key \<rightharpoonup> string \<times> resources \<times> port list"

definition scheduler_default :: basic_scheduler where
  "scheduler_default = \<lparr>bs_nodes = Map.empty, bs_claimed = Map.empty, bs_claimed_ports = Map.empty,
     bs_placements = Map.empty\<rparr>"

section \<open>Nodes\<close>

definition allocatable_increased :: "node \<Rightarrow> node \<Rightarrow> bool" where
  "allocatable_increased old new =
     (case (nd_allocatable old, nd_allocatable new) of
        (Some a, Some b) \<Rightarrow> res_cpu a < res_cpu b \<or> res_memory a < res_memory b
      | (None, Some _) \<Rightarrow> True
      | _ \<Rightarrow> False)"

definition upsert_node :: "node \<Rightarrow> basic_scheduler \<Rightarrow> bool \<times> basic_scheduler" where
  "upsert_node nd s =
     (case bs_nodes s (nd_name nd) of
        None \<Rightarrow> True
      | Some existing \<Rightarrow>
          (node_status_of nd = NodeReady \<and> node_status_of existing \<noteq> NodeReady) \<or>
          allocatable_increased existing nd,
      s\<lparr>bs_nodes := (bs_nodes s)(nd_name nd \<mapsto> nd)\<rparr>)"

definition remove_node :: "string \<Rightarrow> basic_scheduler \<Rightarrow> basic_scheduler" where
  "remove_node nm s =
     s\<lparr>bs_nodes := (bs_nodes s)(nm := None), bs_claimed := (bs_claimed s)(nm := None),
       bs_claimed_ports := (bs_claimed_ports s)(nm := None),
       bs_placements := (\<lambda>k. case bs_placements s k of None \<Rightarrow> None
          | Some pl \<Rightarrow> if fst pl \<noteq> nm then Some pl else None)\<rparr>"

definition is_confirmed_not_ready :: "string \<Rightarrow> basic_scheduler \<Rightarrow> bool" where
  "is_confirmed_not_ready nm s =
     (case bs_nodes s nm of None \<Rightarrow> False | Some nd \<Rightarrow> node_status_of nd = NodeNotReady)"

section \<open>Placements\<close>

definition add_claim :: "resources \<Rightarrow> resources \<Rightarrow> resources" where
  "add_claim cl lm = \<lparr>res_cpu = i32_add (res_cpu cl) (res_cpu lm), res_memory = i32_add (res_memory cl) (res_memory lm)\<rparr>"

definition sub_claim :: "resources \<Rightarrow> resources \<Rightarrow> resources" where
  "sub_claim cl lm = \<lparr>res_cpu = i32_sub (res_cpu cl) (res_cpu lm), res_memory = i32_sub (res_memory cl) (res_memory lm)\<rparr>"

definition release_placement :: "string \<Rightarrow> string \<Rightarrow> basic_scheduler \<Rightarrow> bool \<times> basic_scheduler" where
  "release_placement ns nm s =
     (case bs_placements s (ns, nm) of
        None \<Rightarrow> (False, s)
      | Some (nn, lm, ports) \<Rightarrow>
          (True,
           s\<lparr>bs_placements := (bs_placements s)((ns, nm) := None),
             bs_claimed := (case bs_claimed s nn of None \<Rightarrow> bs_claimed s
                            | Some cl \<Rightarrow> (bs_claimed s)(nn \<mapsto> sub_claim cl lm)),
             bs_claimed_ports := (case bs_claimed_ports s nn of None \<Rightarrow> bs_claimed_ports s
                                  | Some cp \<Rightarrow> (bs_claimed_ports s)(nn \<mapsto> cp - port_keys ports))\<rparr>))"

definition claim_placement ::
  "string \<Rightarrow> string \<Rightarrow> string \<Rightarrow> resources \<Rightarrow> port list \<Rightarrow> basic_scheduler \<Rightarrow> basic_scheduler" where
  "claim_placement ns nm nn lm ports s =
     s\<lparr>bs_claimed := (bs_claimed s)(nn \<mapsto>
         add_claim (case bs_claimed s nn of None \<Rightarrow> default_resources | Some cl \<Rightarrow> cl) lm),
       bs_claimed_ports := (bs_claimed_ports s)(nn \<mapsto>
         (case bs_claimed_ports s nn of None \<Rightarrow> {} | Some cp \<Rightarrow> cp) \<union> port_keys ports),
       bs_placements := (bs_placements s)((ns, nm) \<mapsto> (nn, lm, ports))\<rparr>"

definition record_placement ::
  "string \<Rightarrow> string \<Rightarrow> string \<Rightarrow> resources \<Rightarrow> port list \<Rightarrow> basic_scheduler \<Rightarrow> basic_scheduler" where
  "record_placement ns nm nn lm ports s =
     (case bs_placements s (ns, nm) of
        Some (enn, elm, eports) \<Rightarrow>
          if enn = nn \<and> elm = lm \<and> eports = ports then s
          else claim_placement ns nm nn lm ports (snd (release_placement ns nm s))
      | None \<Rightarrow> claim_placement ns nm nn lm ports s)"

fun release_all :: "pod_key list \<Rightarrow> basic_scheduler \<Rightarrow> basic_scheduler" where
  "release_all [] s = s"
| "release_all ((ns, nm) # ks) s = release_all ks (snd (release_placement ns nm s))"

definition evict_node ::
  "pod_key list \<Rightarrow> string \<Rightarrow> basic_scheduler \<Rightarrow> (string \<times> string \<times> resources \<times> port list) list \<times> basic_scheduler" where
  "evict_node ord nn s =
     (let evicted = List.map_filter (\<lambda>k. case bs_placements s k of
            Some (node, lm, ports) \<Rightarrow> if node = nn then Some (fst k, snd k, lm, ports) else None
          | None \<Rightarrow> None) ord
      in (evicted, release_all (map (\<lambda>(ns, nm, _, _). (ns, nm)) evicted) s))"

section \<open>Election\<close>

definition effective_allocatable :: "basic_scheduler \<Rightarrow> node \<Rightarrow> resources option" where
  "effective_allocatable s nd =
     (case nd_allocatable nd of
        None \<Rightarrow> None
      | Some al \<Rightarrow>
          let cl = (case bs_claimed s (nd_name nd) of None \<Rightarrow> default_resources | Some c \<Rightarrow> c)
          in Some \<lparr>res_cpu = max (i32_sub (res_cpu al) (res_cpu cl)) 0,
                   res_memory = max (i32_sub (res_memory al) (res_memory cl)) 0\<rparr>)"

definition usage_of :: "int \<Rightarrow> int \<Rightarrow> f32" where
  "usage_of cap al = f32_div (f32_sub (f32_of_i32 cap) (f32_of_i32 al)) (f32_of_i32 cap)"

definition calculate_general_usage :: "basic_scheduler \<Rightarrow> node \<Rightarrow> f32 option" where
  "calculate_general_usage s nd =
     (case nd_capacity nd of
        None \<Rightarrow> None
      | Some cap \<Rightarrow>
          (case effective_allocatable s nd of
             None \<Rightarrow> None
           | Some al \<Rightarrow>
               Some (f32_div (f32_add (usage_of (res_cpu cap) (res_cpu al))
                                      (usage_of (res_memory cap) (res_memory al))) (FNum 2))))"

definition ports_available :: "basic_scheduler \<Rightarrow> node \<Rightarrow> port list \<Rightarrow> bool" where
  "ports_available s nd ports =
     (case bs_claimed_ports s (nd_name nd) of None \<Rightarrow> True | Some cp \<Rightarrow> port_keys ports \<inter> cp = {})"

definition fits :: "basic_scheduler \<Rightarrow> resources \<Rightarrow> node \<Rightarrow> bool" where
  "fits s lm nd =
     (case effective_allocatable s nd of None \<Rightarrow> False
      | Some al \<Rightarrow> res_cpu lm < res_cpu al \<and> res_memory lm < res_memory al)"

definition less_used :: "basic_scheduler \<Rightarrow> node \<Rightarrow> node \<Rightarrow> node" where
  "less_used s elected candidate =
     (case (calculate_general_usage s elected, calculate_general_usage s candidate) of
        (Some eu, Some cu) \<Rightarrow> if f32_gt eu cu then candidate else elected
      | _ \<Rightarrow> elected)"

definition place :: "string list \<Rightarrow> pod \<Rightarrow> port list \<Rightarrow> basic_scheduler \<Rightarrow> string + string" where
  "place ord p ports s =
     (case p_limits p of
        None \<Rightarrow> Inl ''pod is missing a resources.limits field''
      | Some lm \<Rightarrow>
          let ready = filter (\<lambda>nd. node_status_of nd = NodeReady) (map_values (bs_nodes s) ord)
          in if ready = [] then Inl ''no ready node available''
             else let with_capacity = filter (fits s lm) ready
                  in if with_capacity = [] then Inl ''no ready node has enough capacity for this pod''
                     else let candidates = filter (\<lambda>nd. ports_available s nd ports) with_capacity
                          in case candidates of
                               [] \<Rightarrow> Inl ''no ready node has a free host port for this pod''
                             | first # _ \<Rightarrow> Inr (nd_name (foldl (less_used s) first candidates)))"

section \<open>Bookkeeping invariant\<close>

text \<open>What the placements of one node claim.\<close>

definition placed_on :: "basic_scheduler \<Rightarrow> string \<Rightarrow> pod_key set" where
  "placed_on s nn = {k. \<exists>lm ports. bs_placements s k = Some (nn, lm, ports)}"

definition placed_limits :: "basic_scheduler \<Rightarrow> pod_key \<Rightarrow> resources" where
  "placed_limits s k = (case bs_placements s k of None \<Rightarrow> default_resources | Some (_, lm, _) \<Rightarrow> lm)"

definition placed_ports :: "basic_scheduler \<Rightarrow> pod_key \<Rightarrow> port_key set" where
  "placed_ports s k = (case bs_placements s k of None \<Rightarrow> {} | Some (_, _, ports) \<Rightarrow> port_keys ports)"

definition claimed_of :: "basic_scheduler \<Rightarrow> string \<Rightarrow> resources" where
  "claimed_of s nn = (case bs_claimed s nn of None \<Rightarrow> default_resources | Some cl \<Rightarrow> cl)"

definition claimed_ports_of :: "basic_scheduler \<Rightarrow> string \<Rightarrow> port_key set" where
  "claimed_ports_of s nn = (case bs_claimed_ports s nn of None \<Rightarrow> {} | Some cp \<Rightarrow> cp)"

definition cpu_claims :: "basic_scheduler \<Rightarrow> string \<Rightarrow> int" where
  "cpu_claims s nn = (\<Sum>k \<in> placed_on s nn. res_cpu (placed_limits s k))"

definition memory_claims :: "basic_scheduler \<Rightarrow> string \<Rightarrow> int" where
  "memory_claims s nn = (\<Sum>k \<in> placed_on s nn. res_memory (placed_limits s k))"

definition ledger_ok :: "basic_scheduler \<Rightarrow> bool" where
  "ledger_ok s \<longleftrightarrow> finite (dom (bs_placements s)) \<and>
     (\<forall>nm nd. bs_nodes s nm = Some nd \<longrightarrow> nd_name nd = nm) \<and>
     (\<forall>nn. bs_claimed s nn = None \<longrightarrow> placed_on s nn = {}) \<and>
     (\<forall>nn. res_cpu (claimed_of s nn) = wrap32 (cpu_claims s nn) \<and>
           res_memory (claimed_of s nn) = wrap32 (memory_claims s nn) \<and>
           claimed_ports_of s nn \<subseteq> (\<Union>k \<in> placed_on s nn. placed_ports s k))"

text \<open>The effect of a release and of a claim on the quantities the invariant speaks of.\<close>

lemma released_views:
  assumes "bs_placements s (ns, nm) = Some (nn, lm, ports)" and "bs_claimed s nn \<noteq> None"
    and "release_placement ns nm s = (b, s')"
  shows "placed_on s' n = placed_on s n - {(ns, nm)}"
    and "k \<noteq> (ns, nm) \<Longrightarrow> placed_limits s' k = placed_limits s k \<and> placed_ports s' k = placed_ports s k"
    and "claimed_of s' n = (if n = nn then sub_claim (claimed_of s nn) lm else claimed_of s n)"
    and "claimed_ports_of s' n = (if n = nn then claimed_ports_of s nn - port_keys ports else claimed_ports_of s n)"
    and "bs_placements s' = (bs_placements s)((ns, nm) := None)"
    and "bs_nodes s' = bs_nodes s" and "bs_claimed s' n = None \<longleftrightarrow> bs_claimed s n = None"
proof -
  have s': "s' = s\<lparr>bs_placements := (bs_placements s)((ns, nm) := None),
      bs_claimed := (bs_claimed s)(nn \<mapsto> sub_claim (claimed_of s nn) lm),
      bs_claimed_ports := (case bs_claimed_ports s nn of None \<Rightarrow> bs_claimed_ports s
                           | Some cp \<Rightarrow> (bs_claimed_ports s)(nn \<mapsto> cp - port_keys ports))\<rparr>"
    using assms by (auto simp: release_placement_def claimed_of_def)
  show "placed_on s' n = placed_on s n - {(ns, nm)}" unfolding s' by (auto simp: placed_on_def)
  show "k \<noteq> (ns, nm) \<Longrightarrow> placed_limits s' k = placed_limits s k \<and> placed_ports s' k = placed_ports s k"
    unfolding s' by (auto simp: placed_limits_def placed_ports_def)
  show "claimed_of s' n = (if n = nn then sub_claim (claimed_of s nn) lm else claimed_of s n)"
    unfolding s' by (simp add: claimed_of_def)
  show "claimed_ports_of s' n = (if n = nn then claimed_ports_of s nn - port_keys ports else claimed_ports_of s n)"
    unfolding s' by (auto simp: claimed_ports_of_def split: option.splits)
  show "bs_placements s' = (bs_placements s)((ns, nm) := None)" "bs_nodes s' = bs_nodes s"
    "bs_claimed s' n = None \<longleftrightarrow> bs_claimed s n = None"
    unfolding s' using assms(2) by auto
qed

lemma claimed_views:
  assumes "bs_placements s (ns, nm) = None"
  shows "placed_on (claim_placement ns nm nn lm ports s) n =
           (if n = nn then insert (ns, nm) (placed_on s n) else placed_on s n)"
    and "placed_limits (claim_placement ns nm nn lm ports s) k = (if k = (ns, nm) then lm else placed_limits s k)"
    and "placed_ports (claim_placement ns nm nn lm ports s) k = (if k = (ns, nm) then port_keys ports else placed_ports s k)"
    and "claimed_of (claim_placement ns nm nn lm ports s) n =
           (if n = nn then add_claim (claimed_of s nn) lm else claimed_of s n)"
    and "claimed_ports_of (claim_placement ns nm nn lm ports s) n =
           (if n = nn then claimed_ports_of s nn \<union> port_keys ports else claimed_ports_of s n)"
    and "bs_placements (claim_placement ns nm nn lm ports s) = (bs_placements s)((ns, nm) \<mapsto> (nn, lm, ports))"
    and "bs_nodes (claim_placement ns nm nn lm ports s) = bs_nodes s"
    and "bs_claimed (claim_placement ns nm nn lm ports s) n = None \<longleftrightarrow> n \<noteq> nn \<and> bs_claimed s n = None"
  using assms
  by (auto simp: claim_placement_def placed_on_def placed_limits_def placed_ports_def claimed_of_def
      claimed_ports_of_def)

lemma placed_on_finite: "finite (dom (bs_placements s)) \<Longrightarrow> finite (placed_on s n)"
  by (rule finite_subset[of _ "dom (bs_placements s)"]) (auto simp: placed_on_def)

lemma placed_on_mem: "k \<in> placed_on s n \<longleftrightarrow> (\<exists>lm ports. bs_placements s k = Some (n, lm, ports))"
  by (simp add: placed_on_def)

lemma sum_release:
  assumes "finite A" "\<And>k. k \<noteq> key \<Longrightarrow> g k = f k"
  shows "(\<Sum>k \<in> A - {key}. g k) = (if key \<in> A then (\<Sum>k \<in> A. f k) - f key else (\<Sum>k \<in> A. f k :: int))"
proof -
  have "(\<Sum>k \<in> A - {key}. g k) = (\<Sum>k \<in> A - {key}. f k)" using assms(2) by (intro sum.cong) auto
  then show ?thesis using assms(1) by (auto simp: sum_diff1)
qed

lemma released_claims:
  assumes "bs_placements s (ns, nm) = Some (nn, lm, ports)" "bs_claimed s nn \<noteq> None"
    and "release_placement ns nm s = (b, s')" "finite (dom (bs_placements s))"
  shows "cpu_claims s' n = (if n = nn then cpu_claims s nn - res_cpu lm else cpu_claims s n)"
    and "memory_claims s' n = (if n = nn then memory_claims s nn - res_memory lm else memory_claims s n)"
proof -
  note v = released_views[OF assms(1-3)]
  have key: "(ns, nm) \<in> placed_on s n \<longleftrightarrow> n = nn" and lm: "placed_limits s (ns, nm) = lm"
    using assms(1) by (auto simp: placed_on_mem placed_limits_def)
  have fin: "finite (placed_on s n)" by (rule placed_on_finite[OF assms(4)])
  show "cpu_claims s' n = (if n = nn then cpu_claims s nn - res_cpu lm else cpu_claims s n)"
    using sum_release[OF fin, of "(ns, nm)" "\<lambda>k. res_cpu (placed_limits s' k)" "\<lambda>k. res_cpu (placed_limits s k)"]
      v(2) key lm unfolding cpu_claims_def v(1) by auto
  show "memory_claims s' n = (if n = nn then memory_claims s nn - res_memory lm else memory_claims s n)"
    using sum_release[OF fin, of "(ns, nm)" "\<lambda>k. res_memory (placed_limits s' k)" "\<lambda>k. res_memory (placed_limits s k)"]
      v(2) key lm unfolding memory_claims_def v(1) by auto
qed

lemma claimed_claims:
  assumes "bs_placements s (ns, nm) = None" "finite (dom (bs_placements s))"
  shows "cpu_claims (claim_placement ns nm nn lm ports s) n =
           (if n = nn then cpu_claims s nn + res_cpu lm else cpu_claims s n)"
    and "memory_claims (claim_placement ns nm nn lm ports s) n =
           (if n = nn then memory_claims s nn + res_memory lm else memory_claims s n)"
proof -
  note v = claimed_views[OF assms(1)]
  have new: "(ns, nm) \<notin> placed_on s n" for n using assms(1) by (simp add: placed_on_mem)
  have "(\<Sum>k \<in> placed_on s n. f (placed_limits (claim_placement ns nm nn lm ports s) k)) =
      (\<Sum>k \<in> placed_on s n. f (placed_limits s k))" for f :: "resources \<Rightarrow> int" and n
    using new by (intro sum.cong) (auto simp: v(2))
  then show "cpu_claims (claim_placement ns nm nn lm ports s) n =
           (if n = nn then cpu_claims s nn + res_cpu lm else cpu_claims s n)"
    "memory_claims (claim_placement ns nm nn lm ports s) n =
           (if n = nn then memory_claims s nn + res_memory lm else memory_claims s n)"
    using new placed_on_finite[OF assms(2)]
    by (auto simp: cpu_claims_def memory_claims_def v(1) v(2)[of _ _ _ "(ns, nm)"])
qed

section \<open>Every operation keeps the ledger\<close>

lemma ledger_okD:
  assumes "ledger_ok s"
  shows "finite (dom (bs_placements s))" "bs_nodes s nm = Some nd \<Longrightarrow> nd_name nd = nm"
    "bs_claimed s nn = None \<Longrightarrow> placed_on s nn = {}"
    "res_cpu (claimed_of s nn) = wrap32 (cpu_claims s nn)"
    "res_memory (claimed_of s nn) = wrap32 (memory_claims s nn)"
    "claimed_ports_of s nn \<subseteq> (\<Union>k \<in> placed_on s nn. placed_ports s k)"
  using assms unfolding ledger_ok_def by blast+

lemma ledger_default: "ledger_ok scheduler_default"
  by (simp add: ledger_ok_def scheduler_default_def placed_on_def claimed_of_def default_resources_def
      cpu_claims_def memory_claims_def claimed_ports_of_def)

lemma ledger_release:
  assumes led: "ledger_ok s" and rel: "release_placement ns nm s = (b, s')"
  shows "ledger_ok s'"
proof (cases "bs_placements s (ns, nm)")
  case None
  with rel led show ?thesis by (simp add: release_placement_def)
next
  case (Some pl)
  obtain nn lm ports where pl: "bs_placements s (ns, nm) = Some (nn, lm, ports)" using Some by (cases pl) auto
  then have on: "(ns, nm) \<in> placed_on s nn" by (auto simp: placed_on_mem)
  then have cl: "bs_claimed s nn \<noteq> None" using ledger_okD(3)[OF led, of nn] by auto
  note v = released_views[OF pl cl rel] and c = released_claims[OF pl cl rel ledger_okD(1)[OF led]]
  show ?thesis
    unfolding ledger_ok_def
  proof (intro conjI allI impI)
    show "finite (dom (bs_placements s'))" using ledger_okD(1)[OF led] v(5) by simp
    show "bs_nodes s' nm' = Some nd \<Longrightarrow> nd_name nd = nm'" for nm' nd using v(6) ledger_okD(2)[OF led] by simp
    show "bs_claimed s' n = None \<Longrightarrow> placed_on s' n = {}" for n
      using v(1,7) ledger_okD(3)[OF led] by auto
    show "res_cpu (claimed_of s' n) = wrap32 (cpu_claims s' n)"
      "res_memory (claimed_of s' n) = wrap32 (memory_claims s' n)" for n
      using ledger_okD(4,5)[OF led] by (auto simp: v(3) c sub_claim_def i32_sub_def)
    show "claimed_ports_of s' n \<subseteq> (\<Union>k \<in> placed_on s' n. placed_ports s' k)" for n
    proof
      fix x assume x: "x \<in> claimed_ports_of s' n"
      then have "x \<in> claimed_ports_of s n" "n = nn \<Longrightarrow> x \<notin> port_keys ports" by (auto simp: v(4) split: if_splits)
      then obtain k where k: "k \<in> placed_on s n" "x \<in> placed_ports s k" using ledger_okD(6)[OF led] by blast
      have "k \<noteq> (ns, nm)"
        using k pl \<open>n = nn \<Longrightarrow> x \<notin> port_keys ports\<close> by (auto simp: placed_on_mem placed_ports_def)
      with k show "x \<in> (\<Union>k \<in> placed_on s' n. placed_ports s' k)" using v(1,2) by auto
    qed
  qed
qed

lemma ledger_claim:
  assumes led: "ledger_ok s" and free: "bs_placements s (ns, nm) = None"
  shows "ledger_ok (claim_placement ns nm nn lm ports s)"
proof -
  note v = claimed_views[OF free] and c = claimed_claims[OF free ledger_okD(1)[OF led]]
  let ?s = "claim_placement ns nm nn lm ports s"
  have new: "(ns, nm) \<notin> placed_on s n" for n using free by (simp add: placed_on_mem)
  show ?thesis
    unfolding ledger_ok_def
  proof (intro conjI allI impI)
    show "finite (dom (bs_placements ?s))" using ledger_okD(1)[OF led] v(6) by simp
    show "bs_nodes ?s nm' = Some nd \<Longrightarrow> nd_name nd = nm'" for nm' nd using v(7) ledger_okD(2)[OF led] by simp
    show "bs_claimed ?s n = None \<Longrightarrow> placed_on ?s n = {}" for n
      using v(8)[of nn lm ports n] ledger_okD(3)[OF led] by (simp add: v(1))
    show "res_cpu (claimed_of ?s n) = wrap32 (cpu_claims ?s n)"
      "res_memory (claimed_of ?s n) = wrap32 (memory_claims ?s n)" for n
      using ledger_okD(4,5)[OF led] by (auto simp: v(4) c add_claim_def i32_add_def)
    show "claimed_ports_of ?s n \<subseteq> (\<Union>k \<in> placed_on ?s n. placed_ports ?s k)" for n
      using ledger_okD(6)[OF led, of n] new by (fastforce simp: v(1) v(3) v(5) split: if_splits)
  qed
qed

lemma release_frees:
  "release_placement ns nm s = (b, s') \<Longrightarrow> bs_placements s' (ns, nm) = None"
  by (auto simp: release_placement_def split: option.splits)

lemma ledger_record:
  assumes led: "ledger_ok s"
  shows "ledger_ok (record_placement ns nm nn lm ports s)"
proof (cases "bs_placements s (ns, nm)")
  case None
  with ledger_claim[OF led] show ?thesis by (simp add: record_placement_def)
next
  case (Some pl)
  obtain b s1 where rel: "release_placement ns nm s = (b, s1)" by fastforce
  from ledger_claim[OF ledger_release[OF led rel] release_frees[OF rel]] led Some rel show ?thesis
    by (cases pl) (simp add: record_placement_def)
qed

lemma ledger_release_all: "ledger_ok s \<Longrightarrow> ledger_ok (release_all ks s)"
proof (induction ks arbitrary: s)
  case (Cons k ks)
  obtain ns nm where k: "k = (ns, nm)" by (cases k)
  obtain b s1 where "release_placement ns nm s = (b, s1)" by fastforce
  with Cons k ledger_release show ?case by simp
qed simp

lemma ledger_evict: "ledger_ok s \<Longrightarrow> evict_node ord nn s = (evicted, s') \<Longrightarrow> ledger_ok s'"
  by (auto simp: evict_node_def Let_def ledger_release_all)

lemma nodes_frame [simp]:
  "placed_on (s\<lparr>bs_nodes := ns\<rparr>) n = placed_on s n" "placed_limits (s\<lparr>bs_nodes := ns\<rparr>) k = placed_limits s k"
  "placed_ports (s\<lparr>bs_nodes := ns\<rparr>) k = placed_ports s k" "claimed_of (s\<lparr>bs_nodes := ns\<rparr>) n = claimed_of s n"
  "claimed_ports_of (s\<lparr>bs_nodes := ns\<rparr>) n = claimed_ports_of s n"
  "cpu_claims (s\<lparr>bs_nodes := ns\<rparr>) n = cpu_claims s n" "memory_claims (s\<lparr>bs_nodes := ns\<rparr>) n = memory_claims s n"
  by (simp_all add: placed_on_def placed_limits_def placed_ports_def claimed_of_def claimed_ports_of_def
      cpu_claims_def memory_claims_def)

lemma ledger_upsert:
  assumes "ledger_ok s" "upsert_node nd s = (b, s')"
  shows "ledger_ok s'"
proof -
  have "s' = s\<lparr>bs_nodes := (bs_nodes s)(nd_name nd \<mapsto> nd)\<rparr>" using assms(2) by (auto simp: upsert_node_def)
  then show ?thesis using assms(1) by (simp add: ledger_ok_def)
qed

lemma ledger_remove_node:
  assumes led: "ledger_ok s"
  shows "ledger_ok (remove_node nm s)"
proof -
  let ?s = "remove_node nm s"
  have pl: "bs_placements ?s k = (case bs_placements s k of None \<Rightarrow> None
      | Some pl \<Rightarrow> if fst pl \<noteq> nm then Some pl else None)" for k
    by (simp add: remove_node_def)
  have on: "placed_on ?s n = (if n = nm then {} else placed_on s n)" for n
  proof (rule set_eqI)
    fix k
    show "k \<in> placed_on ?s n \<longleftrightarrow> k \<in> (if n = nm then {} else placed_on s n)"
      by (cases "bs_placements s k") (auto simp: placed_on_def pl)
  qed
  have same: "placed_limits ?s k = placed_limits s k" "placed_ports ?s k = placed_ports s k"
    if "k \<in> placed_on s n" "n \<noteq> nm" for k n
    using that by (auto simp: placed_on_def placed_limits_def placed_ports_def pl)
  have cl: "claimed_of ?s n = (if n = nm then default_resources else claimed_of s n)"
    "claimed_ports_of ?s n = (if n = nm then {} else claimed_ports_of s n)"
    "bs_claimed ?s n = (if n = nm then None else bs_claimed s n)" for n
    by (simp_all add: remove_node_def claimed_of_def claimed_ports_of_def)
  have claims: "cpu_claims ?s n = (if n = nm then 0 else cpu_claims s n)"
    "memory_claims ?s n = (if n = nm then 0 else memory_claims s n)" for n
    using same by (auto simp: cpu_claims_def memory_claims_def on intro!: sum.cong)
  show ?thesis
    unfolding ledger_ok_def
  proof (intro conjI allI impI)
    show "finite (dom (bs_placements ?s))"
      by (rule finite_subset[OF _ ledger_okD(1)[OF led]]) (auto simp: pl split: option.splits)
    show "bs_nodes ?s n = Some nd \<Longrightarrow> nd_name nd = n" for n nd
      using ledger_okD(2)[OF led] by (auto simp: remove_node_def split: if_splits)
    show "bs_claimed ?s n = None \<Longrightarrow> placed_on ?s n = {}" for n
      using ledger_okD(3)[OF led] by (auto simp: on cl split: if_splits)
    show "res_cpu (claimed_of ?s n) = wrap32 (cpu_claims ?s n)"
      "res_memory (claimed_of ?s n) = wrap32 (memory_claims ?s n)" for n
      using ledger_okD(4,5)[OF led] by (auto simp: cl claims default_resources_def)
    show "claimed_ports_of ?s n \<subseteq> (\<Union>k \<in> placed_on ?s n. placed_ports ?s k)" for n
      using ledger_okD(6)[OF led, of n] same by (fastforce simp: cl on)
  qed
qed

end
