(* ===== verification/Scheduler_Safety.thy ===== *)
theory Scheduler_Safety imports Basic_Scheduler begin

text \<open>
  What an election guarantees (\<open>BasicScheduler::place\<close>), that the ledger of claims is exact after
  any operations, and that the scheduler's own decisions never overcommit a node or give one host
  port to two pods. At the end, the inputs for which the election is not what it is meant to be.
\<close>

section \<open>The election\<close>

definition candidate :: "basic_scheduler \<Rightarrow> resources \<Rightarrow> port list \<Rightarrow> node \<Rightarrow> bool" where
  "candidate s lm ports nd \<longleftrightarrow> node_status_of nd = NodeReady \<and> fits s lm nd \<and> ports_available s nd ports"

definition known_usage :: "basic_scheduler \<Rightarrow> node \<Rightarrow> bool" where
  "known_usage s nd \<longleftrightarrow> (\<exists>u. calculate_general_usage s nd = Some u \<and> u \<noteq> FNan)"

definition uses_more :: "basic_scheduler \<Rightarrow> node \<Rightarrow> node \<Rightarrow> bool" where
  "uses_more s a b \<longleftrightarrow> (case (calculate_general_usage s a, calculate_general_usage s b) of
     (Some ua, Some ub) \<Rightarrow> f32_gt ua ub | _ \<Rightarrow> False)"

lemma less_used_step: "less_used s el c = (if uses_more s el c then c else el)"
  by (auto simp: less_used_def uses_more_def split: option.splits)

lemma elected_mem: "foldl (less_used s) el cs \<in> set (el # cs)"
proof (induction cs arbitrary: el)
  case (Cons c cs)
  then show ?case using Cons[of el] Cons[of c] by (auto simp: less_used_step)
qed simp

lemma uses_more_chain:
  assumes "known_usage s b" "\<not> uses_more s a b" "\<not> uses_more s b c" "known_usage s a" "known_usage s c"
  shows "\<not> uses_more s a c"
proof -
  obtain ua ub uc where "calculate_general_usage s a = Some ua" "calculate_general_usage s b = Some ub"
      "calculate_general_usage s c = Some uc" "ub \<noteq> FNan"
    using assms(1,4,5) by (auto simp: known_usage_def)
  with assms(2,3) f32_not_gt_trans[of ub ua uc] show ?thesis by (simp add: uses_more_def)
qed

lemma elected_least:
  assumes "\<forall>nd \<in> set (el # cs). known_usage s nd" "nd \<in> set (el # cs)"
  shows "\<not> uses_more s (foldl (less_used s) el cs) nd"
  using assms
proof (induction cs arbitrary: el nd)
  case Nil
  then show ?case by (simp add: uses_more_def split: option.splits)
next
  case (Cons c cs)
  let ?el = "less_used s el c"
  have known: "\<forall>nd \<in> set (?el # cs). known_usage s nd" using Cons.prems(1) by (auto simp: less_used_step)
  have best: "\<not> uses_more s (foldl (less_used s) ?el cs) ?el"
    using Cons.IH[OF known, of ?el] by simp
  have win: "known_usage s (foldl (less_used s) ?el cs)"
    using elected_mem[of s ?el cs] known by blast
  have step: "\<not> uses_more s ?el el" "\<not> uses_more s ?el c"
    by (auto simp: less_used_step uses_more_def dest: f32_gt_asym split: option.splits if_splits)
  show ?case
  proof (cases "nd \<in> set cs")
    case True
    then show ?thesis using Cons.IH[OF known, of nd] by simp
  next
    case False
    then have "nd = el \<or> nd = c" using Cons.prems(2) by simp
    then have "\<not> uses_more s ?el nd" "known_usage s nd" "known_usage s ?el"
      using step known Cons.prems(1) by auto
    from uses_more_chain[OF this(3) best this(1) win this(2)] show ?thesis by simp
  qed
qed

lemma place_candidates:
  assumes "iter_order (bs_nodes s) ord" "p_limits p = Some lm"
  shows "set (filter (\<lambda>nd. ports_available s nd ports) (filter (fits s lm)
           (filter (\<lambda>nd. node_status_of nd = NodeReady) (map_values (bs_nodes s) ord)))) =
         {nd. nd \<in> ran (bs_nodes s) \<and> candidate s lm ports nd}"
  using set_map_values_ran[OF assms(1)] by (auto simp: candidate_def)

lemma place_result:
  assumes ord: "iter_order (bs_nodes s) ord" and names: "\<And>nm nd. bs_nodes s nm = Some nd \<Longrightarrow> nd_name nd = nm"
    and lm: "p_limits p = Some lm" and res: "place ord p ports s = Inr nn"
  shows "\<exists>nd. bs_nodes s nn = Some nd \<and> candidate s lm ports nd \<and>
     ((\<forall>other \<in> ran (bs_nodes s). candidate s lm ports other \<longrightarrow> known_usage s other) \<longrightarrow>
        (\<forall>other \<in> ran (bs_nodes s). candidate s lm ports other \<longrightarrow> \<not> uses_more s nd other))"
proof -
  let ?cs = "filter (\<lambda>nd. ports_available s nd ports) (filter (fits s lm)
           (filter (\<lambda>nd. node_status_of nd = NodeReady) (map_values (bs_nodes s) ord)))"
  obtain c cs where cs: "?cs = c # cs" and nn: "nn = nd_name (foldl (less_used s) c ?cs)"
    using res lm by (auto simp: place_def Let_def simp del: filter_filter split: if_splits list.splits)
  let ?nd = "foldl (less_used s) c ?cs"
  have cmem: "c \<in> set ?cs" using cs by (metis list.set_intros(1))
  have sub: "nd \<in> set ?cs \<longleftrightarrow> nd \<in> ran (bs_nodes s) \<and> candidate s lm ports nd" for nd
    using place_candidates[OF ord lm, of ports] by blast
  from cmem elected_mem[of s c ?cs] have mem: "?nd \<in> set ?cs" by (metis set_ConsD)
  then have "?nd \<in> ran (bs_nodes s)" "candidate s lm ports ?nd" using place_candidates[OF ord lm] by blast+
  then have "bs_nodes s nn = Some ?nd" using names nn by (auto simp: ran_def)
  moreover have "\<not> uses_more s ?nd other"
    if "\<forall>other \<in> ran (bs_nodes s). candidate s lm ports other \<longrightarrow> known_usage s other"
      "other \<in> ran (bs_nodes s)" "candidate s lm ports other" for other
  proof (rule elected_least)
    show "\<forall>nd \<in> set (c # ?cs). known_usage s nd"
      using that(1) sub cmem by (metis set_ConsD)
    show "other \<in> set (c # ?cs)" using that(2,3) sub by (metis list.set_intros(2))
  qed
  ultimately show ?thesis using \<open>candidate s lm ports ?nd\<close> by blast
qed

lemma place_refusal:
  assumes ord: "iter_order (bs_nodes s) ord" and res: "place ord p ports s = Inl reason"
  shows "p_limits p = None \<or> (\<forall>nd \<in> ran (bs_nodes s). \<forall>lm. p_limits p = Some lm \<longrightarrow> \<not> candidate s lm ports nd)"
proof (cases "p_limits p")
  case (Some lm)
  have "filter (\<lambda>nd. ports_available s nd ports) (filter (fits s lm)
           (filter (\<lambda>nd. node_status_of nd = NodeReady) (map_values (bs_nodes s) ord))) = []"
    using res Some by (auto simp: place_def Let_def filter_empty_conv split: if_splits list.splits)
  then show ?thesis using place_candidates[OF ord Some, of ports] Some by auto
qed simp

text \<open>
  C3. \<open>place\<close> elects a node for a pod with limits if and only if some known node is READY, has
  strictly more of both resources left than the pod's limits and none of the pod's host ports
  claimed. The elected node is one of those, and when the usage of all of them is a number, none of
  the others is used less, whatever the iteration order of the node map.
\<close>

theorem place_elects_least_used_candidate:
  assumes "ledger_ok s" and "iter_order (bs_nodes s) ord" and "p_limits p = Some lm"
  shows "case place ord p ports s of
     Inl reason \<Rightarrow> \<forall>nd \<in> ran (bs_nodes s). \<not> candidate s lm ports nd
   | Inr nn \<Rightarrow> \<exists>nd. bs_nodes s nn = Some nd \<and> candidate s lm ports nd \<and>
       ((\<forall>other \<in> ran (bs_nodes s). candidate s lm ports other \<longrightarrow> known_usage s other) \<longrightarrow>
          (\<forall>other \<in> ran (bs_nodes s). candidate s lm ports other \<longrightarrow> \<not> uses_more s nd other))"
proof (cases "place ord p ports s")
  case (Inl reason)
  with place_refusal[OF assms(2) Inl] assms(3) show ?thesis by auto
next
  case (Inr nn)
  with place_result[OF assms(2) ledger_okD(2)[OF assms(1)] assms(3) Inr] show ?thesis by simp
qed

definition sample_node :: "string \<Rightarrow> int \<Rightarrow> int \<Rightarrow> node" where
  "sample_node nm cap al = \<lparr>nd_name = nm, nd_status = 0, nd_capacity = Some \<lparr>res_cpu = cap, res_memory = cap\<rparr>,
     nd_allocatable = Some \<lparr>res_cpu = al, res_memory = al\<rparr>, nd_ip = []\<rparr>"

definition sample_pod :: "int \<Rightarrow> pod" where
  "sample_pod n = \<lparr>p_name = ''web'', p_status = 0, p_requests = None,
     p_limits = Some \<lparr>res_cpu = n, res_memory = n\<rparr>\<rparr>"

definition two_nodes :: basic_scheduler where
  "two_nodes = snd (upsert_node (sample_node ''idle'' 1024 768) (snd (upsert_node (sample_node ''busy'' 1024 512) scheduler_default)))"

lemma two_nodes_ok: "ledger_ok two_nodes"
  unfolding two_nodes_def
  by (rule ledger_upsert[OF ledger_upsert[OF ledger_default prod.collapse[symmetric]] prod.collapse[symmetric]])

lemma two_nodes_order: "iter_order (bs_nodes two_nodes) [''busy'', ''idle'']"
  by (auto simp: iter_order_def two_nodes_def upsert_node_def sample_node_def scheduler_default_def)

theorem place_elects_least_used_candidate_witness:
  "place [''busy'', ''idle''] (sample_pod 100) [] two_nodes = Inr ''idle'' \<and>
   (\<exists>nd. bs_nodes two_nodes ''idle'' = Some nd \<and> candidate two_nodes \<lparr>res_cpu = 100, res_memory = 100\<rparr> [] nd)"
proof -
  have res: "place [''busy'', ''idle''] (sample_pod 100) [] two_nodes = Inr ''idle''" by code_simp
  have lm: "p_limits (sample_pod 100) = Some \<lparr>res_cpu = 100, res_memory = 100\<rparr>" by (simp add: sample_pod_def)
  from place_elects_least_used_candidate[OF two_nodes_ok two_nodes_order lm, of "[]"] res show ?thesis by auto
qed

section \<open>The ledger after any operations\<close>

inductive book_reach :: "basic_scheduler \<Rightarrow> bool" where
  fresh: "book_reach scheduler_default"
| upserted: "book_reach s \<Longrightarrow> upsert_node nd s = (b, s') \<Longrightarrow> book_reach s'"
| removed: "book_reach s \<Longrightarrow> book_reach (remove_node nm s)"
| recorded: "book_reach s \<Longrightarrow> book_reach (record_placement ns nm nn lm ports s)"
| released: "book_reach s \<Longrightarrow> release_placement ns nm s = (b, s') \<Longrightarrow> book_reach s'"
| evicted: "book_reach s \<Longrightarrow> evict_node ord nn s = (ev, s') \<Longrightarrow> book_reach s'"

lemma book_reach_ledger: "book_reach s \<Longrightarrow> ledger_ok s"
  by (induction rule: book_reach.induct)
     (auto intro: ledger_default ledger_upsert ledger_remove_node ledger_record ledger_release ledger_evict)

text \<open>
  C4. After any sequence of operations of the scheduler's bookkeeping (nodes arriving, changing or
  vanishing, placements recorded, moved, repeated or released, nodes evicted) the resources claimed
  on every node are exactly the sum of the limits of the placements recorded there, modulo the
  32-bit wrap-around, and every claimed host port belongs to one of those placements: nothing leaks
  and nothing is counted twice.
\<close>

theorem claims_are_the_recorded_limits:
  assumes "book_reach s"
  shows "res_cpu (claimed_of s nn) = wrap32 (cpu_claims s nn) \<and>
         res_memory (claimed_of s nn) = wrap32 (memory_claims s nn) \<and>
         claimed_ports_of s nn \<subseteq> (\<Union>k \<in> placed_on s nn. placed_ports s k)"
  using ledger_okD(4-6)[OF book_reach_ledger[OF assms]] by blast

definition moved_pod :: basic_scheduler where
  "moved_pod =
     record_placement ''default'' ''web'' ''b'' \<lparr>res_cpu = 300, res_memory = 200\<rparr> []
       (record_placement ''default'' ''web'' ''a'' \<lparr>res_cpu = 100, res_memory = 100\<rparr> [] scheduler_default)"

theorem claims_are_the_recorded_limits_witness:
  "res_cpu (claimed_of moved_pod ''a'') = wrap32 (cpu_claims moved_pod ''a'') \<and>
   res_cpu (claimed_of moved_pod ''a'') = 0 \<and> res_cpu (claimed_of moved_pod ''b'') = 300"
proof -
  have "book_reach moved_pod"
    unfolding moved_pod_def by (rule book_reach.recorded, rule book_reach.recorded, rule book_reach.fresh)
  from claims_are_the_recorded_limits[OF this, of "''a''"]
  have "res_cpu (claimed_of moved_pod ''a'') = wrap32 (cpu_claims moved_pod ''a'')" by blast
  moreover have "res_cpu (claimed_of moved_pod ''a'') = 0" "res_cpu (claimed_of moved_pod ''b'') = 300"
    by (simp_all add: moved_pod_def record_placement_def claim_placement_def release_placement_def
        scheduler_default_def claimed_of_def add_claim_def sub_claim_def i32_add_def i32_sub_def
        default_resources_def wrap32_def)
  ultimately show ?thesis by simp
qed

section \<open>The scheduler's own decisions\<close>

text \<open>The critical section of \<open>try_schedule\<close>: an election and its record.\<close>

definition schedule_pod ::
  "string list \<Rightarrow> string \<Rightarrow> string \<Rightarrow> pod \<Rightarrow> port list \<Rightarrow> basic_scheduler \<Rightarrow> (string + string) \<times> basic_scheduler" where
  "schedule_pod ord ns nm p ports s =
     (case place ord p ports s of
        Inr nn \<Rightarrow> (Inr nn, record_placement ns nm nn
                     (case p_limits p of None \<Rightarrow> default_resources | Some lm \<Rightarrow> lm) ports s)
      | Inl reason \<Rightarrow> (Inl reason, s))"

definition nonneg_i32 :: "int \<Rightarrow> bool" where
  "nonneg_i32 x \<longleftrightarrow> 0 \<le> x \<and> x \<le> 2147483647"

definition sane_resources :: "resources \<Rightarrow> bool" where
  "sane_resources r \<longleftrightarrow> nonneg_i32 (res_cpu r) \<and> nonneg_i32 (res_memory r)"

definition sane_node :: "node \<Rightarrow> bool" where
  "sane_node nd \<longleftrightarrow> (\<forall>al. nd_allocatable nd = Some al \<longrightarrow> sane_resources al)"

text \<open>Runs in which placements come from elections only; node reports and pod limits are
  non-negative.\<close>

inductive decide_reach :: "basic_scheduler \<Rightarrow> bool" where
  fresh: "decide_reach scheduler_default"
| upserted: "decide_reach s \<Longrightarrow> sane_node nd \<Longrightarrow> upsert_node nd s = (b, s') \<Longrightarrow> decide_reach s'"
| scheduled: "decide_reach s \<Longrightarrow> iter_order (bs_nodes s) ord \<Longrightarrow>
     (\<And>lm. p_limits p = Some lm \<Longrightarrow> sane_resources lm) \<Longrightarrow>
     schedule_pod ord ns nm p ports s = (r, s') \<Longrightarrow> decide_reach s'"
| released: "decide_reach s \<Longrightarrow> release_placement ns nm s = (b, s') \<Longrightarrow> decide_reach s'"
| evicted: "decide_reach s \<Longrightarrow> evict_node ord nn s = (ev, s') \<Longrightarrow> decide_reach s'"

definition decide_inv :: "basic_scheduler \<Rightarrow> bool" where
  "decide_inv s \<longleftrightarrow> ledger_ok s \<and>
     (\<forall>k nn lm ports. bs_placements s k = Some (nn, lm, ports) \<longrightarrow> 0 \<le> res_cpu lm \<and> 0 \<le> res_memory lm) \<and>
     (\<forall>nn. cpu_claims s nn \<le> 2147483647 \<and> memory_claims s nn \<le> 2147483647) \<and>
     (\<forall>nm nd. bs_nodes s nm = Some nd \<longrightarrow> sane_node nd) \<and>
     (\<forall>nn. claimed_ports_of s nn = (\<Union>k \<in> placed_on s nn. placed_ports s k)) \<and>
     (\<forall>nn. \<forall>k1 \<in> placed_on s nn. \<forall>k2 \<in> placed_on s nn. k1 \<noteq> k2 \<longrightarrow> placed_ports s k1 \<inter> placed_ports s k2 = {})"

lemma decide_invD:
  assumes "decide_inv s"
  shows "ledger_ok s" "bs_placements s k = Some (nn, lm, ports) \<Longrightarrow> 0 \<le> res_cpu lm \<and> 0 \<le> res_memory lm"
    "cpu_claims s nn \<le> 2147483647" "memory_claims s nn \<le> 2147483647"
    "bs_nodes s nm = Some nd \<Longrightarrow> sane_node nd"
    "claimed_ports_of s nn = (\<Union>k \<in> placed_on s nn. placed_ports s k)"
    "k1 \<in> placed_on s nn \<Longrightarrow> k2 \<in> placed_on s nn \<Longrightarrow> k1 \<noteq> k2 \<Longrightarrow> placed_ports s k1 \<inter> placed_ports s k2 = {}"
proof -
  note inv = assms[unfolded decide_inv_def]
  note i2 = inv[THEN conjunct2] and i3 = inv[THEN conjunct2, THEN conjunct2]
  note i4 = i3[THEN conjunct2] and i5 = i3[THEN conjunct2, THEN conjunct2]
  note i6 = i5[THEN conjunct2]
  show "ledger_ok s" by (rule inv[THEN conjunct1])
  show "bs_placements s k = Some (nn, lm, ports) \<Longrightarrow> 0 \<le> res_cpu lm \<and> 0 \<le> res_memory lm"
    by (rule i2[THEN conjunct1, rule_format])
  show "cpu_claims s nn \<le> 2147483647" "memory_claims s nn \<le> 2147483647"
    using i3[THEN conjunct1] by simp_all
  show "bs_nodes s nm = Some nd \<Longrightarrow> sane_node nd" by (rule i4[THEN conjunct1, rule_format])
  show "claimed_ports_of s nn = (\<Union>k \<in> placed_on s nn. placed_ports s k)"
    by (rule i5[THEN conjunct1, rule_format])
  show "k1 \<in> placed_on s nn \<Longrightarrow> k2 \<in> placed_on s nn \<Longrightarrow> k1 \<noteq> k2 \<Longrightarrow> placed_ports s k1 \<inter> placed_ports s k2 = {}"
    by (rule i6[rule_format])
qed

lemma decide_claims:
  assumes "decide_inv s"
  shows "0 \<le> cpu_claims s nn" "0 \<le> memory_claims s nn"
    "res_cpu (claimed_of s nn) = cpu_claims s nn" "res_memory (claimed_of s nn) = memory_claims s nn"
proof -
  have nonneg: "0 \<le> res_cpu (placed_limits s k)" "0 \<le> res_memory (placed_limits s k)" for k
    using decide_invD(2)[OF assms, of k]
    by (auto simp: placed_limits_def default_resources_def split: option.splits)
  show c: "0 \<le> cpu_claims s nn" and m: "0 \<le> memory_claims s nn"
    using nonneg by (auto simp: cpu_claims_def memory_claims_def intro: sum_nonneg)
  show "res_cpu (claimed_of s nn) = cpu_claims s nn" "res_memory (claimed_of s nn) = memory_claims s nn"
    using ledger_okD(4,5)[OF decide_invD(1)[OF assms], of nn] c m decide_invD(3,4)[OF assms, of nn]
    by (simp_all add: wrap32_id in_i32_def)
qed

lemma decide_release:
  assumes inv: "decide_inv s" and rel: "release_placement ns nm s = (b, s')"
  shows "decide_inv s' \<and> bs_nodes s' = bs_nodes s \<and>
     (\<forall>nn. cpu_claims s' nn \<le> cpu_claims s nn \<and> memory_claims s' nn \<le> memory_claims s nn \<and>
           claimed_ports_of s' nn \<subseteq> claimed_ports_of s nn)"
proof (cases "bs_placements s (ns, nm)")
  case None
  with rel inv show ?thesis by (simp add: release_placement_def)
next
  case (Some pl)
  obtain nn lm ports where pl: "bs_placements s (ns, nm) = Some (nn, lm, ports)" using Some by (cases pl) auto
  then have on: "(ns, nm) \<in> placed_on s nn" by (auto simp: placed_on_mem)
  have led: "ledger_ok s" by (rule decide_invD(1)[OF inv])
  have cl: "bs_claimed s nn \<noteq> None" using ledger_okD(3)[OF led, of nn] on by auto
  note v = released_views[OF pl cl rel] and c = released_claims[OF pl cl rel ledger_okD(1)[OF led]]
  have lm: "0 \<le> res_cpu lm" "0 \<le> res_memory lm" using decide_invD(2)[OF inv pl] by simp_all
  have keys: "placed_ports s (ns, nm) = port_keys ports" using pl by (simp add: placed_ports_def)
  have ports: "claimed_ports_of s' n = (\<Union>k \<in> placed_on s' n. placed_ports s' k)" for n
  proof -
    have rest: "(\<Union>k \<in> placed_on s n - {(ns, nm)}. placed_ports s' k) = (\<Union>k \<in> placed_on s n - {(ns, nm)}. placed_ports s k)"
      using v(2) by auto
    show ?thesis
    proof (cases "n = nn")
      case True
      have "placed_ports s k \<inter> port_keys ports = {}" if "k \<in> placed_on s nn - {(ns, nm)}" for k
        using decide_invD(7)[OF inv, of k nn "(ns, nm)"] that on keys by auto
      then show ?thesis
        using True on keys unfolding v(1) v(4) rest decide_invD(6)[OF inv] by (auto simp: True)
    next
      case False
      then have "(ns, nm) \<notin> placed_on s n" using pl by (auto simp: placed_on_mem)
      with False rest show ?thesis unfolding v(1) v(4) decide_invD(6)[OF inv] by simp
    qed
  qed
  have "decide_inv s'"
    unfolding decide_inv_def
  proof (intro conjI allI impI ballI)
    show "ledger_ok s'" by (rule ledger_release[OF led rel])
    show "0 \<le> res_cpu lm'" "0 \<le> res_memory lm'" if "bs_placements s' k = Some (n, lm', po)" for k n lm' po
      using that v(5) decide_invD(2)[OF inv, of k n lm' po] by (auto split: if_splits)
    show "cpu_claims s' n \<le> 2147483647" "memory_claims s' n \<le> 2147483647" for n
      using c[of n] lm decide_invD(3,4)[OF inv, of n] by (auto split: if_splits)
    show "bs_nodes s' n = Some nd \<Longrightarrow> sane_node nd" for n nd using v(6) decide_invD(5)[OF inv] by simp
    show "claimed_ports_of s' n = (\<Union>k \<in> placed_on s' n. placed_ports s' k)" for n by (rule ports)
    show "placed_ports s' k1 \<inter> placed_ports s' k2 = {}"
      if "k1 \<in> placed_on s' n" "k2 \<in> placed_on s' n" "k1 \<noteq> k2" for n k1 k2
      using that v(1)[of n] v(2)[of k1] v(2)[of k2] decide_invD(7)[OF inv, of k1 n k2] by auto
  qed
  moreover have "cpu_claims s' n \<le> cpu_claims s n \<and> memory_claims s' n \<le> memory_claims s n \<and>
      claimed_ports_of s' n \<subseteq> claimed_ports_of s n" for n
    using c[of n] lm v(4)[of n] by auto
  ultimately show ?thesis using v(6) by blast
qed

lemma decide_claim:
  assumes inv: "decide_inv s" and free: "bs_placements s (ns, nm) = None"
    and lm: "0 \<le> res_cpu lm" "0 \<le> res_memory lm"
    and room: "cpu_claims s nn + res_cpu lm \<le> 2147483647" "memory_claims s nn + res_memory lm \<le> 2147483647"
    and ports: "port_keys ports \<inter> claimed_ports_of s nn = {}"
  shows "decide_inv (claim_placement ns nm nn lm ports s)"
proof -
  let ?s = "claim_placement ns nm nn lm ports s"
  have led: "ledger_ok s" by (rule decide_invD(1)[OF inv])
  note v = claimed_views[OF free] and c = claimed_claims[OF free ledger_okD(1)[OF led]]
  have new: "(ns, nm) \<notin> placed_on s n" for n using free by (simp add: placed_on_mem)
  have old: "placed_ports ?s k = placed_ports s k" if "k \<in> placed_on s n" for k n
    using that new by (auto simp: v(3))
  show ?thesis
    unfolding decide_inv_def
  proof (intro conjI allI impI ballI)
    show "ledger_ok ?s" by (rule ledger_claim[OF led free])
    show "0 \<le> res_cpu lm'" "0 \<le> res_memory lm'" if "bs_placements ?s k = Some (n, lm', po)" for k n lm' po
      using that v(6)[of nn lm ports] lm decide_invD(2)[OF inv, of k n lm' po] by (auto split: if_splits)
    show "cpu_claims ?s n \<le> 2147483647" "memory_claims ?s n \<le> 2147483647" for n
      using c room decide_invD(3,4)[OF inv, of n] by auto
    show "bs_nodes ?s n = Some nd \<Longrightarrow> sane_node nd" for n nd using v(7) decide_invD(5)[OF inv] by simp
    show "claimed_ports_of ?s n = (\<Union>k \<in> placed_on ?s n. placed_ports ?s k)" for n
    proof -
      have "(\<Union>k \<in> placed_on s n. placed_ports ?s k) = (\<Union>k \<in> placed_on s n. placed_ports s k)"
        using old by auto
      then show ?thesis using decide_invD(6)[OF inv, of n] by (auto simp: v(1) v(5) v(3)[of _ _ _ "(ns, nm)"])
    qed
    show "placed_ports ?s k1 \<inter> placed_ports ?s k2 = {}"
      if k: "k1 \<in> placed_on ?s n" "k2 \<in> placed_on ?s n" "k1 \<noteq> k2" for n k1 k2
    proof -
      have here: "placed_ports s k \<inter> port_keys ports = {}" if "k \<in> placed_on s nn" for k
        using ports that decide_invD(6)[OF inv, of nn] by blast
      consider "k1 \<in> placed_on s n" "k2 \<in> placed_on s n" | "k1 = (ns, nm)" "k2 \<in> placed_on s n" "n = nn"
        | "k2 = (ns, nm)" "k1 \<in> placed_on s n" "n = nn"
        using k by (auto simp: v(1) split: if_splits)
      then show ?thesis
      proof cases
        case 1
        then show ?thesis using decide_invD(7)[OF inv 1 k(3)] old by simp
      next
        case 2
        then show ?thesis using here[of k2] old[of k2 n] by (auto simp: v(3))
      next
        case 3
        then show ?thesis using here[of k1] old[of k1 n] by (auto simp: v(3))
      qed
    qed
  qed
qed

text \<open>A fitting candidate has room for the pod on top of everything claimed there.\<close>

lemma candidate_room:
  assumes inv: "decide_inv s" and nd: "bs_nodes s nn = Some nd" and cand: "candidate s lm ports nd"
    and lm: "sane_resources lm"
  shows "\<exists>al. nd_allocatable nd = Some al \<and> cpu_claims s nn + res_cpu lm < res_cpu al \<and>
     memory_claims s nn + res_memory lm < res_memory al \<and> res_cpu al \<le> 2147483647 \<and>
     res_memory al \<le> 2147483647 \<and> port_keys ports \<inter> claimed_ports_of s nn = {}"
proof -
  have nm: "nd_name nd = nn" using ledger_okD(2)[OF decide_invD(1)[OF inv] nd] .
  obtain al where al: "nd_allocatable nd = Some al"
    using cand by (auto simp: candidate_def fits_def effective_allocatable_def split: option.splits)
  have sane: "sane_resources al" using decide_invD(5)[OF inv nd] al by (simp add: sane_node_def)
  have cl: "(case bs_claimed s (nd_name nd) of None \<Rightarrow> default_resources | Some c \<Rightarrow> c) = claimed_of s nn"
    by (simp add: claimed_of_def nm)
  have exact: "i32_sub (res_cpu al) (res_cpu (claimed_of s nn)) = res_cpu al - cpu_claims s nn"
    "i32_sub (res_memory al) (res_memory (claimed_of s nn)) = res_memory al - memory_claims s nn"
    using decide_claims[OF inv, of nn] decide_invD(3,4)[OF inv, of nn] sane
    by (simp_all add: i32_sub_def wrap32_id in_i32_def sane_resources_def nonneg_i32_def)
  have "res_cpu lm < max (res_cpu al - cpu_claims s nn) 0" "res_memory lm < max (res_memory al - memory_claims s nn) 0"
    using cand al exact by (auto simp: candidate_def fits_def effective_allocatable_def Let_def cl)
  moreover have "port_keys ports \<inter> claimed_ports_of s nn = {}"
    using cand by (auto simp: candidate_def ports_available_def claimed_ports_of_def nm split: option.splits)
  ultimately show ?thesis
    using al sane lm by (auto simp: sane_resources_def nonneg_i32_def)
qed

lemma decide_schedule:
  assumes inv: "decide_inv s" and ord: "iter_order (bs_nodes s) ord"
    and lm: "p_limits p = Some lm" "sane_resources lm"
    and run: "schedule_pod ord ns nm p ports s = (Inr nn, s')"
  shows "decide_inv s' \<and>
     (\<exists>nd al. bs_nodes s nn = Some nd \<and> node_status_of nd = NodeReady \<and> nd_allocatable nd = Some al \<and>
        cpu_claims s' nn < res_cpu al \<and> memory_claims s' nn < res_memory al) \<and>
     bs_placements s' (ns, nm) = Some (nn, lm, ports)"
proof -
  have place: "place ord p ports s = Inr nn" and s': "s' = record_placement ns nm nn lm ports s"
    using run lm by (auto simp: schedule_pod_def split: sum.splits)
  obtain nd where nd: "bs_nodes s nn = Some nd" "candidate s lm ports nd"
    using place_result[OF ord ledger_okD(2)[OF decide_invD(1)[OF inv]] lm(1) place] by blast
  obtain al where al: "nd_allocatable nd = Some al" "cpu_claims s nn + res_cpu lm < res_cpu al"
      "memory_claims s nn + res_memory lm < res_memory al" "res_cpu al \<le> 2147483647" "res_memory al \<le> 2147483647"
      "port_keys ports \<inter> claimed_ports_of s nn = {}"
    using candidate_room[OF inv nd lm(2)] by blast
  have pos: "0 \<le> res_cpu lm" "0 \<le> res_memory lm" using lm(2) by (simp_all add: sane_resources_def nonneg_i32_def)
  have fresh: "decide_inv (claim_placement ns nm nn lm ports t) \<and>
      cpu_claims (claim_placement ns nm nn lm ports t) nn < res_cpu al \<and>
      memory_claims (claim_placement ns nm nn lm ports t) nn < res_memory al \<and>
      bs_placements (claim_placement ns nm nn lm ports t) (ns, nm) = Some (nn, lm, ports)"
    if t: "decide_inv t" "bs_placements t (ns, nm) = None" "cpu_claims t nn \<le> cpu_claims s nn"
      "memory_claims t nn \<le> memory_claims s nn" "claimed_ports_of t nn \<subseteq> claimed_ports_of s nn" for t
    using decide_claim[OF t(1,2) pos, of nn ports] claimed_claims[OF t(2) ledger_okD(1)[OF decide_invD(1)[OF t(1)]], of nn lm ports nn]
      claimed_views(6)[OF t(2), of nn lm ports] t al by auto
  have ready: "node_status_of nd = NodeReady" using nd(2) by (simp add: candidate_def)
  show ?thesis
  proof (cases "bs_placements s (ns, nm)")
    case None
    then have "s' = claim_placement ns nm nn lm ports s" by (simp add: s' record_placement_def)
    with fresh[OF inv None] ready nd al show ?thesis by auto
  next
    case (Some pl)
    obtain b t where rel: "release_placement ns nm s = (b, t)" by fastforce
    note keep = decide_release[OF inv rel]
    show ?thesis
    proof (cases "pl = (nn, lm, ports)")
      case True
      then have "s' = s" using Some by (simp add: s' record_placement_def)
      moreover have "cpu_claims s nn < res_cpu al" "memory_claims s nn < res_memory al" using al pos by linarith+
      ultimately show ?thesis using inv ready nd al Some True by auto
    next
      case False
      then have "s' = claim_placement ns nm nn lm ports t"
        using Some rel by (cases pl) (auto simp: s' record_placement_def)
      with fresh[of t] keep release_frees[OF rel] ready nd al show ?thesis by auto
    qed
  qed
qed

lemma decide_release_all: "decide_inv s \<Longrightarrow> decide_inv (release_all ks s)"
proof (induction ks arbitrary: s)
  case (Cons k ks)
  obtain ns nm where k: "k = (ns, nm)" by (cases k)
  obtain b s1 where "release_placement ns nm s = (b, s1)" by fastforce
  with Cons k decide_release show ?case by auto
qed simp

lemma decide_reach_inv: "decide_reach s \<Longrightarrow> decide_inv s"
proof (induction rule: decide_reach.induct)
  case fresh
  show ?case
    by (simp add: decide_inv_def ledger_default)
       (simp add: scheduler_default_def placed_on_def cpu_claims_def memory_claims_def claimed_ports_of_def)
next
  case (upserted s nd b s')
  then have "s' = s\<lparr>bs_nodes := (bs_nodes s)(nd_name nd \<mapsto> nd)\<rparr>" by (auto simp: upsert_node_def)
  then show ?case
    using upserted ledger_upsert[OF _ upserted.hyps(3)] by (auto simp: decide_inv_def)
next
  case (scheduled s ord p ns nm ports r s')
  show ?case
  proof (cases r)
    case (Inl reason)
    with scheduled show ?thesis by (auto simp: schedule_pod_def split: sum.splits)
  next
    case (Inr nn)
    then obtain lm where "p_limits p = Some lm"
      using scheduled.hyps(4) by (auto simp: schedule_pod_def place_def split: sum.splits option.splits)
    with decide_schedule[OF scheduled.IH scheduled.hyps(2)] scheduled Inr show ?thesis by blast
  qed
next
  case (released s ns nm b s')
  then show ?case using decide_release by blast
next
  case (evicted s ord nn ev s')
  then show ?case by (auto simp: evict_node_def Let_def decide_release_all)
qed

text \<open>
  C2. The scheduler never overcommits. In every state its own decisions can lead to, with
  non-negative limits and reports, a pod it places goes to a READY node where the limits of all pods
  placed there, the new one included, stay strictly below the node's allocatable cpu and memory, and
  no other pod placed on that node holds one of the new pod's host ports.
\<close>

theorem placement_never_overcommits:
  assumes "decide_reach s" and "iter_order (bs_nodes s) ord"
    and "p_limits p = Some lm" and "sane_resources lm"
    and "schedule_pod ord ns nm p ports s = (Inr nn, s')"
  shows "\<exists>nd al. bs_nodes s nn = Some nd \<and> node_status_of nd = NodeReady \<and> nd_allocatable nd = Some al \<and>
     (ns, nm) \<in> placed_on s' nn \<and> cpu_claims s' nn < res_cpu al \<and> memory_claims s' nn < res_memory al \<and>
     (\<forall>k \<in> placed_on s' nn. k \<noteq> (ns, nm) \<longrightarrow> placed_ports s' k \<inter> port_keys ports = {})"
proof -
  note dec = decide_schedule[OF decide_reach_inv[OF assms(1)] assms(2-5)]
  then have inv: "decide_inv s'" and at: "bs_placements s' (ns, nm) = Some (nn, lm, ports)" by blast+
  have on: "(ns, nm) \<in> placed_on s' nn" "placed_ports s' (ns, nm) = port_keys ports"
    using at by (simp_all add: placed_on_mem placed_ports_def)
  have "placed_ports s' k \<inter> port_keys ports = {}" if "k \<in> placed_on s' nn" "k \<noteq> (ns, nm)" for k
    using decide_invD(7)[OF inv that(1) on(1) that(2)] on(2) by simp
  with dec on(1) show ?thesis by blast
qed

theorem placement_never_overcommits_witness:
  "\<exists>nd al. bs_nodes two_nodes ''idle'' = Some nd \<and> nd_allocatable nd = Some al \<and>
     cpu_claims (snd (schedule_pod [''busy'', ''idle''] ''default'' ''web'' (sample_pod 100) [] two_nodes)) ''idle'' < res_cpu al"
proof -
  have "sane_node (sample_node nm 1024 768)" "sane_node (sample_node nm 1024 512)" for nm
    by (simp_all add: sane_node_def sample_node_def sane_resources_def nonneg_i32_def)
  then have reach: "decide_reach two_nodes"
    unfolding two_nodes_def
    using decide_reach.upserted[OF decide_reach.upserted[OF decide_reach.fresh _ prod.collapse[symmetric]] _ prod.collapse[symmetric]]
    by blast
  have "fst (schedule_pod [''busy'', ''idle''] ''default'' ''web'' (sample_pod 100) [] two_nodes) = Inr ''idle''"
    by code_simp
  then have run: "schedule_pod [''busy'', ''idle''] ''default'' ''web'' (sample_pod 100) [] two_nodes =
      (Inr ''idle'', snd (schedule_pod [''busy'', ''idle''] ''default'' ''web'' (sample_pod 100) [] two_nodes))"
    by (metis prod.collapse)
  have lm: "p_limits (sample_pod 100) = Some \<lparr>res_cpu = 100, res_memory = 100\<rparr>"
    "sane_resources \<lparr>res_cpu = 100, res_memory = 100\<rparr>"
    by (simp_all add: sample_pod_def sane_resources_def nonneg_i32_def)
  from placement_never_overcommits[OF reach two_nodes_order lm run] show ?thesis by blast
qed

section \<open>Elections that go wrong\<close>

definition bare_node :: "string \<Rightarrow> node" where
  "bare_node nm = \<lparr>nd_name = nm, nd_status = 0, nd_capacity = None,
     nd_allocatable = Some \<lparr>res_cpu = 128, res_memory = 128\<rparr>, nd_ip = []\<rparr>"

definition with_bare_node :: basic_scheduler where
  "with_bare_node = snd (upsert_node (bare_node ''bare'') two_nodes)"

text \<open>
  A READY node that reports no capacity is not ignored by the election, although the comment in
  \<open>place\<close> says so: it only loses no comparison. When the map yields it first it is elected before an
  idle well-formed node, and it shields itself from every later comparison; when it comes later it is
  passed over. The choice depends on the hash order.
\<close>

theorem malformed_node_wins_by_position:
  "place [''bare'', ''busy'', ''idle''] (sample_pod 100) [] with_bare_node = Inr ''bare'' \<and>
   place [''idle'', ''busy'', ''bare''] (sample_pod 100) [] with_bare_node = Inr ''idle''"
  by (rule conjI; code_simp)

definition zero_capacity_node :: "string \<Rightarrow> node" where
  "zero_capacity_node nm = \<lparr>nd_name = nm, nd_status = 0, nd_capacity = Some default_resources,
     nd_allocatable = Some \<lparr>res_cpu = 128, res_memory = 128\<rparr>, nd_ip = []\<rparr>"

lemma zero_capacity_is_preferred:
  "place [''busy'', ''idle'', ''zero''] (sample_pod 100) []
     (snd (upsert_node (zero_capacity_node ''zero'') two_nodes)) = Inr ''zero''"
  by code_simp

definition negative_pod :: pod where
  "negative_pod = \<lparr>p_name = ''evil'', p_status = 0, p_requests = None,
     p_limits = Some \<lparr>res_cpu = - 2000, res_memory = - 2000\<rparr>\<rparr>"

text \<open>
  Nothing on the way checks that a pod's limits are non-negative. A pod with negative limits is
  placed and lowers its node's claim below zero, so the next elections admit a pod larger than the
  whole node: 2500 of each resource on a node whose allocatable is 768.
\<close>

theorem negative_limits_overcommit:
  "fst (schedule_pod [''busy'', ''idle''] ''default'' ''evil'' negative_pod [] two_nodes) = Inr ''idle'' \<and>
   fst (schedule_pod [''busy'', ''idle''] ''default'' ''big'' (sample_pod 2500) []
      (snd (schedule_pod [''busy'', ''idle''] ''default'' ''evil'' negative_pod [] two_nodes))) = Inr ''idle''"
  by (rule conjI; code_simp)

end
