(* ===== verification/Scheduler_Loop.thy ===== *)
theory Scheduler_Loop imports Scheduler_Safety Api_Errors begin

text \<open>
  \<open>scheduler/src/main.rs\<close>: the two watch loops, the pods kept for a retry, and the reports to the
  API server. \<open>assign\<close> is the AssignPod RPC: it answers and changes the world \<open>'w\<close> outside. A
  handler runs from one event to the next; a \<open>section\<close> is one stretch of code under the state's
  lock, the unit in which the concurrent tasks of the scheduler interleave. \<open>orders\<close> are the
  iteration orders of the hash maps while a handler runs.
\<close>

section \<open>State\<close>

type_synonym pending_pod = "pod \<times> port list"

record sched_state =
  ss_scheduler :: basic_scheduler
  ss_pending :: "pod_key \<rightharpoonup> pending_pod"

definition sched_state_default :: sched_state where
  "sched_state_default = \<lparr>ss_scheduler = scheduler_default, ss_pending = Map.empty\<rparr>"

record orders =
  od_nodes :: "string list"
  od_placements :: "pod_key list"
  od_pending :: "pod_key list"

type_synonym 'w assign_rpc = "assign_pod_request \<Rightarrow> 'w \<Rightarrow> unit rpc \<times> 'w"

definition limits_or_default :: "pod \<Rightarrow> resources" where
  "limits_or_default p = (case p_limits p of None \<Rightarrow> default_resources | Some lm \<Rightarrow> lm)"

section \<open>The sections under the lock\<close>

text \<open>The locked block of \<open>try_schedule\<close>; \<open>None\<close> is its early return.\<close>

definition decide_locked ::
  "string list \<Rightarrow> bool \<Rightarrow> string \<Rightarrow> string \<Rightarrow> pod \<Rightarrow> port list \<Rightarrow> sched_state \<Rightarrow> (string + string) option \<times> sched_state" where
  "decide_locked ord only_if_pending ns nm p ports st =
     (if only_if_pending \<and> ss_pending st (ns, nm) = None then (None, st)
      else case place ord p ports (ss_scheduler st) of
        Inr nn \<Rightarrow>
          (Some (Inr nn),
           st\<lparr>ss_scheduler := record_placement ns nm nn (limits_or_default p) ports (ss_scheduler st),
              ss_pending := (ss_pending st)((ns, nm) := None)\<rparr>)
      | Inl reason \<Rightarrow>
          (Some (Inl reason), st\<lparr>ss_pending := (ss_pending st)((ns, nm) \<mapsto> (p, ports))\<rparr>))"

definition decision_request :: "string \<Rightarrow> string \<Rightarrow> string + string \<Rightarrow> assign_pod_request" where
  "decision_request ns nm d = \<lparr>ap_name = nm, ap_namespace = ns,
     ap_outcome = Some (case d of Inr nn \<Rightarrow> OutNodeName nn | Inl reason \<Rightarrow> OutUnschedulable reason)\<rparr>"

definition orphan_request :: "string \<Rightarrow> string \<Rightarrow> string \<Rightarrow> assign_pod_request" where
  "orphan_request nn ns nm = \<lparr>ap_name = nm, ap_namespace = ns,
     ap_outcome = Some (OutOrphaned (''node '' @ nn @ '' became NotReady''))\<rparr>"

definition drop_pending :: "string \<Rightarrow> string \<Rightarrow> sched_state \<Rightarrow> sched_state" where
  "drop_pending ns nm st = st\<lparr>ss_pending := (ss_pending st)((ns, nm) := None)\<rparr>"

definition park_pending :: "string \<Rightarrow> string \<Rightarrow> pod \<Rightarrow> port list \<Rightarrow> sched_state \<Rightarrow> sched_state" where
  "park_pending ns nm p ports st = st\<lparr>ss_pending := (ss_pending st)((ns, nm) \<mapsto> (p, ports))\<rparr>"

definition upsert_locked :: "node \<Rightarrow> sched_state \<Rightarrow> bool \<times> sched_state" where
  "upsert_locked nd st =
     (let (retry, s) = upsert_node nd (ss_scheduler st) in (retry, st\<lparr>ss_scheduler := s\<rparr>))"

definition evict_locked ::
  "pod_key list \<Rightarrow> string \<Rightarrow> sched_state \<Rightarrow> (string \<times> string \<times> resources \<times> port list) list \<times> sched_state" where
  "evict_locked ord nn st =
     (let (evicted, s) = evict_node ord nn (ss_scheduler st) in (evicted, st\<lparr>ss_scheduler := s\<rparr>))"

definition deleted_locked :: "string \<Rightarrow> string \<Rightarrow> sched_state \<Rightarrow> bool \<times> sched_state" where
  "deleted_locked ns nm st =
     (let (released, s) = release_placement ns nm (ss_scheduler st)
      in (released, (drop_pending ns nm st)\<lparr>ss_scheduler := s\<rparr>))"

definition seen_locked ::
  "string \<Rightarrow> string \<Rightarrow> string \<Rightarrow> resources \<Rightarrow> port list \<Rightarrow> sched_state \<Rightarrow> sched_state" where
  "seen_locked ns nm nn lm ports st =
     (drop_pending ns nm st)\<lparr>ss_scheduler := record_placement ns nm nn lm ports (ss_scheduler st)\<rparr>"

section \<open>The handlers\<close>

definition try_schedule ::
  "'w assign_rpc \<Rightarrow> string list \<Rightarrow> string \<Rightarrow> string \<Rightarrow> pod \<Rightarrow> port list \<Rightarrow> bool \<Rightarrow> sched_state \<times> 'w \<Rightarrow> sched_state \<times> 'w" where
  "try_schedule assign ord ns nm p ports only_if_pending sw =
     (case decide_locked ord only_if_pending ns nm p ports (fst sw) of
        (None, st) \<Rightarrow> (st, snd sw)
      | (Some d, st) \<Rightarrow>
          (case assign (decision_request ns nm d) (snd sw) of
             (Inr _, w) \<Rightarrow> (st, w)
           | (Inl e, w) \<Rightarrow> (if st_code e = NotFound then drop_pending ns nm st else st, w)))"

fun retry_all ::
  "'w assign_rpc \<Rightarrow> string list \<Rightarrow> (pod_key \<times> pending_pod) list \<Rightarrow> sched_state \<times> 'w \<Rightarrow> sched_state \<times> 'w" where
  "retry_all assign ord [] sw = sw"
| "retry_all assign ord (((ns, nm), p, ports) # rest) sw =
     retry_all assign ord rest (try_schedule assign ord ns nm p ports True sw)"

text \<open>The snapshot \<open>retry_pending\<close> takes of the pending pods, in the order of the map.\<close>

definition pending_snapshot :: "pod_key list \<Rightarrow> sched_state \<Rightarrow> (pod_key \<times> pending_pod) list" where
  "pending_snapshot ord st =
     List.map_filter (\<lambda>k. case ss_pending st k of None \<Rightarrow> None | Some pp \<Rightarrow> Some (k, pp)) ord"

definition retry_pending :: "'w assign_rpc \<Rightarrow> orders \<Rightarrow> sched_state \<times> 'w \<Rightarrow> sched_state \<times> 'w" where
  "retry_pending assign od sw =
     retry_all assign (od_nodes od) (pending_snapshot (od_pending od) (fst sw)) sw"

definition orphan_pod :: "string \<Rightarrow> resources \<Rightarrow> pod" where
  "orphan_pod nm lm = \<lparr>p_name = nm, p_status = 0, p_requests = None, p_limits = Some lm\<rparr>"

definition reschedule_one_orphaned_pod ::
  "'w assign_rpc \<Rightarrow> string list \<Rightarrow> string \<Rightarrow> string \<Rightarrow> string \<Rightarrow> resources \<Rightarrow> port list \<Rightarrow>
   sched_state \<times> 'w \<Rightarrow> sched_state \<times> 'w" where
  "reschedule_one_orphaned_pod assign ord nn ns nm lm ports sw =
     (case assign (orphan_request nn ns nm) (snd sw) of
        (Inr _, w) \<Rightarrow> try_schedule assign ord ns nm (orphan_pod nm lm) ports False (fst sw, w)
      | (Inl e, w) \<Rightarrow>
          if st_code e = NotFound then (fst sw, w)
          else (park_pending ns nm (orphan_pod nm lm) ports (fst sw), w))"

fun reschedule_each ::
  "'w assign_rpc \<Rightarrow> string list \<Rightarrow> string \<Rightarrow> (string \<times> string \<times> resources \<times> port list) list \<Rightarrow>
   sched_state \<times> 'w \<Rightarrow> sched_state \<times> 'w" where
  "reschedule_each assign ord nn [] sw = sw"
| "reschedule_each assign ord nn ((ns, nm, lm, ports) # rest) sw =
     reschedule_each assign ord nn rest (reschedule_one_orphaned_pod assign ord nn ns nm lm ports sw)"

definition reschedule_orphaned_pods ::
  "'w assign_rpc \<Rightarrow> orders \<Rightarrow> string \<Rightarrow> sched_state \<times> 'w \<Rightarrow> sched_state \<times> 'w" where
  "reschedule_orphaned_pods assign od nn sw =
     (let (orphaned, st) = evict_locked (od_placements od) nn (fst sw)
      in reschedule_each assign (od_nodes od) nn orphaned (st, snd sw))"

text \<open>One event of \<open>watch_nodes\<close>. An unknown event type reads as the default, UNSPECIFIED.\<close>

definition event_type_or_default :: "int \<Rightarrow> event_type" where
  "event_type_or_default i = (case event_type_of_i32 i of None \<Rightarrow> EvUnspecified | Some t \<Rightarrow> t)"

definition node_event ::
  "'w assign_rpc \<Rightarrow> orders \<Rightarrow> watch_node_event \<Rightarrow> sched_state \<times> 'w \<Rightarrow> sched_state \<times> 'w" where
  "node_event assign od ev sw =
     (case wne_node ev of
        None \<Rightarrow> sw
      | Some nd \<Rightarrow>
          if event_type_or_default (wne_event_type ev) = EvDeleted
          then ((fst sw)\<lparr>ss_scheduler := remove_node (nd_name nd) (ss_scheduler (fst sw))\<rparr>, snd sw)
          else let (should_retry, st) = upsert_locked nd (fst sw)
               in if node_status_of nd = NodeNotReady
                  then reschedule_orphaned_pods assign od (nd_name nd) (st, snd sw)
                  else if should_retry then retry_pending assign od (st, snd sw)
                  else (st, snd sw))"

text \<open>The namespace, the host ports and the pod an event carries.\<close>

definition detail_spec :: "pod_detail \<Rightarrow> pod_spec option" where
  "detail_spec d = (case pd_core d of None \<Rightarrow> None | Some c \<Rightarrow> pw_spec c)"

definition detail_namespace :: "pod_detail \<Rightarrow> string" where
  "detail_namespace d = (case detail_spec d of None \<Rightarrow> [] | Some sp \<Rightarrow> ps_namespace sp)"

definition detail_ports :: "pod_detail \<Rightarrow> port list" where
  "detail_ports d = (case detail_spec d of None \<Rightarrow> [] | Some sp \<Rightarrow> concat (map ct_ports (ps_containers sp)))"

definition detail_pod :: "pod_detail \<Rightarrow> pod option" where
  "detail_pod d = (case pd_core d of None \<Rightarrow> None | Some c \<Rightarrow> pw_pod c)"

definition pod_event ::
  "'w assign_rpc \<Rightarrow> orders \<Rightarrow> watch_pod_event \<Rightarrow> sched_state \<times> 'w \<Rightarrow> sched_state \<times> 'w" where
  "pod_event assign od ev sw =
     (case wpe_pod ev of
        None \<Rightarrow> sw
      | Some d \<Rightarrow>
          (case detail_pod d of
             None \<Rightarrow> sw
           | Some p \<Rightarrow>
               let ns = detail_namespace d; ports = detail_ports d; ty = event_type_or_default (wpe_event_type ev)
               in if ty = EvDeleted
                  then let (released, st) = deleted_locked ns (p_name p) (fst sw)
                       in if released then retry_pending assign od (st, snd sw) else (st, snd sw)
                  else if pd_node_name d \<noteq> []
                  then if is_confirmed_not_ready (pd_node_name d) (ss_scheduler (fst sw))
                       then reschedule_one_orphaned_pod assign (od_nodes od) (pd_node_name d) ns (p_name p)
                              (limits_or_default p) ports sw
                       else (seen_locked ns (p_name p) (pd_node_name d) (limits_or_default p) ports (fst sw), snd sw)
                  else if ty \<noteq> EvAdded then sw
                  else try_schedule assign (od_nodes od) ns (p_name p) p ports False sw))"

text \<open>The loops: a broken stream ends the loop with its error, a closed one without.\<close>

fun watch_nodes ::
  "'w assign_rpc \<Rightarrow> (status + (orders \<times> watch_node_event)) list \<Rightarrow> sched_state \<times> 'w \<Rightarrow> unit rpc \<times> (sched_state \<times> 'w)" where
  "watch_nodes assign [] sw = (Inr (), sw)"
| "watch_nodes assign (Inl e # _) sw = (Inl e, sw)"
| "watch_nodes assign (Inr (od, ev) # rest) sw = watch_nodes assign rest (node_event assign od ev sw)"

fun watch_pods ::
  "'w assign_rpc \<Rightarrow> (status + (orders \<times> watch_pod_event)) list \<Rightarrow> sched_state \<times> 'w \<Rightarrow> unit rpc \<times> (sched_state \<times> 'w)" where
  "watch_pods assign [] sw = (Inr (), sw)"
| "watch_pods assign (Inl e # _) sw = (Inl e, sw)"
| "watch_pods assign (Inr (od, ev) # rest) sw = watch_pods assign rest (pod_event assign od ev sw)"

end
