(* ===== verification/Scheduler_Runs.thy ===== *)
theory Scheduler_Runs imports Scheduler_Loop begin

text \<open>
  Runs of the scheduler's loops: the interleavings of concurrent retry sweeps, what happens to the
  pods of a node that stops, and the schedules and answers under which a pod is lost.
\<close>

section \<open>Interleaved sections\<close>

datatype sched_section =
  SecUpsert node | SecRemove string | SecEvict "pod_key list" string
| SecRetry "string list" string string pod "port list" | SecFirst "string list" string string pod "port list"
| SecDrop string string | SecPark string string pod "port list" | SecDeleted string string
| SecSeen string string string resources "port list"

text \<open>A section returns the request that its task sends next, if it decides about a pod.\<close>

fun run_section :: "sched_section \<Rightarrow> sched_state \<Rightarrow> assign_pod_request option \<times> sched_state" where
  "run_section (SecUpsert nd) st = (None, snd (upsert_locked nd st))"
| "run_section (SecRemove nm) st = (None, st\<lparr>ss_scheduler := remove_node nm (ss_scheduler st)\<rparr>)"
| "run_section (SecEvict ord nn) st = (None, snd (evict_locked ord nn st))"
| "run_section (SecRetry ord ns nm p ports) st =
     map_prod (map_option (decision_request ns nm)) id (decide_locked ord True ns nm p ports st)"
| "run_section (SecFirst ord ns nm p ports) st =
     map_prod (map_option (decision_request ns nm)) id (decide_locked ord False ns nm p ports st)"
| "run_section (SecDrop ns nm) st = (None, drop_pending ns nm st)"
| "run_section (SecPark ns nm p ports) st = (None, park_pending ns nm p ports st)"
| "run_section (SecDeleted ns nm) st = (None, snd (deleted_locked ns nm st))"
| "run_section (SecSeen ns nm nn lm ports) st = (None, seen_locked ns nm nn lm ports st)"

fun run_sections :: "sched_section list \<Rightarrow> sched_state \<Rightarrow> assign_pod_request list \<times> sched_state" where
  "run_sections [] st = ([], st)"
| "run_sections (c # cs) st =
     (let (r, st1) = run_section c st; (rs, st2) = run_sections cs st1
      in ((case r of None \<Rightarrow> rs | Some req \<Rightarrow> req # rs), st2))"

text \<open>What runs beside the sweeps while no pod is new or parked again.\<close>

fun sweep_section :: "sched_section \<Rightarrow> bool" where
  "sweep_section (SecFirst _ _ _ _ _) = False"
| "sweep_section (SecPark _ _ _ _) = False"
| "sweep_section _ = True"

definition is_placement :: "assign_pod_request \<Rightarrow> bool" where
  "is_placement r = (case ap_outcome r of Some (OutNodeName _) \<Rightarrow> True | _ \<Rightarrow> False)"

definition request_key :: "assign_pod_request \<Rightarrow> pod_key" where
  "request_key r = (ap_namespace r, ap_name r)"

definition placed_keys :: "assign_pod_request list \<Rightarrow> pod_key list" where
  "placed_keys rs = map request_key (filter is_placement rs)"

lemma placed_keys_simps [simp]:
  "placed_keys [] = []"
  "placed_keys (r # rs) = (if is_placement r then request_key r # placed_keys rs else placed_keys rs)"
  by (simp_all add: placed_keys_def)

lemma decision_request_simps [simp]:
  "is_placement (decision_request ns nm (Inr nn))" "\<not> is_placement (decision_request ns nm (Inl reason))"
  "request_key (decision_request ns nm d) = (ns, nm)"
  by (simp_all add: decision_request_def is_placement_def request_key_def)

lemma sweep_section_pending:
  assumes "sweep_section c" "run_section c st = (r, st')"
  shows "dom (ss_pending st') \<subseteq> dom (ss_pending st) \<and>
     (\<forall>req. r = Some req \<and> is_placement req \<longrightarrow>
        request_key req \<in> dom (ss_pending st) \<and> request_key req \<notin> dom (ss_pending st'))"
  using assms
  by (cases c)
     (auto simp: upsert_locked_def evict_locked_def deleted_locked_def seen_locked_def drop_pending_def
       decide_locked_def split: prod.splits if_splits sum.splits)

lemma sweeps_distinct:
  assumes "\<forall>c \<in> set cs. sweep_section c" "run_sections cs st = (rs, st')"
  shows "distinct (placed_keys rs) \<and> set (placed_keys rs) \<subseteq> dom (ss_pending st)"
  using assms
proof (induction cs arbitrary: st rs st')
  case (Cons c cs)
  obtain r st1 where one: "run_section c st = (r, st1)" by fastforce
  obtain rs1 st2 where rest: "run_sections cs st1 = (rs1, st2)" by fastforce
  have rs: "rs = (case r of None \<Rightarrow> rs1 | Some req \<Rightarrow> req # rs1)" using Cons.prems(2) one rest by simp
  have ih: "distinct (placed_keys rs1)" "set (placed_keys rs1) \<subseteq> dom (ss_pending st1)"
    using Cons.IH[of st1 rs1 st2] rest Cons.prems(1) by auto
  have sub: "dom (ss_pending st1) \<subseteq> dom (ss_pending st)"
    and new: "\<forall>req. r = Some req \<and> is_placement req \<longrightarrow>
        request_key req \<in> dom (ss_pending st) \<and> request_key req \<notin> dom (ss_pending st1)"
    using sweep_section_pending[OF _ one] Cons.prems(1) by auto
  show ?case
  proof (cases r)
    case None
    then show ?thesis using rs ih sub by auto
  next
    case (Some req)
    then show ?thesis using rs ih sub new by auto
  qed
qed simp

text \<open>
  C7. Overlapping retry sweeps place a pod at most once. Interleave the locked sections of any number
  of sweeps, each working off a snapshot as old as it likes, with node events, evictions, deletions
  and recorded placements, in any order: among the AssignPod requests the sweeps send, no two place
  the same pod.
\<close>

theorem overlapping_sweeps_place_once:
  assumes "\<forall>c \<in> set cs. sweep_section c" and "run_sections cs st = (rs, st')"
  shows "distinct (placed_keys rs)"
  using sweeps_distinct[OF assms] by blast

definition waiting_pod :: sched_state where
  "waiting_pod = \<lparr>ss_scheduler = two_nodes,
     ss_pending = (\<lambda>_. None)((''default'', ''web'') \<mapsto> (sample_pod 100, []))\<rparr>"

definition two_sweeps :: "sched_section list" where
  "two_sweeps = [SecRetry [''busy'', ''idle''] ''default'' ''web'' (sample_pod 100) [],
                 SecRetry [''busy'', ''idle''] ''default'' ''web'' (sample_pod 100) []]"

theorem overlapping_sweeps_place_once_witness:
  "placed_keys (fst (run_sections two_sweeps waiting_pod)) = [(''default'', ''web'')] \<and>
   distinct (placed_keys (fst (run_sections two_sweeps waiting_pod)))"
proof -
  have "placed_keys (fst (run_sections two_sweeps waiting_pod)) = [(''default'', ''web'')]"
    by code_simp
  moreover have "\<forall>c \<in> set two_sweeps. sweep_section c" by (simp add: two_sweeps_def)
  ultimately show ?thesis using overlapping_sweeps_place_once prod.collapse by metis
qed

section \<open>The pods of a node that stops\<close>

lemma release_frame:
  "release_placement ns nm s = (b, s') \<Longrightarrow> bs_nodes s' = bs_nodes s \<and> bs_placements s' = (bs_placements s)((ns, nm) := None)"
  by (auto simp: release_placement_def fun_upd_idem split: option.splits)

lemma record_frame:
  "bs_nodes (record_placement ns nm nn lm ports s) = bs_nodes s"
  "bs_placements (record_placement ns nm nn lm ports s) = (bs_placements s)((ns, nm) \<mapsto> (nn, lm, ports))"
  using release_frame[of ns nm s "fst (release_placement ns nm s)" "snd (release_placement ns nm s)"]
  by (auto simp: record_placement_def claim_placement_def fun_upd_idem split: option.splits)

lemma release_all_frame:
  "bs_nodes (release_all ks s) = bs_nodes s \<and>
   bs_placements (release_all ks s) = (\<lambda>k. if k \<in> set ks then None else bs_placements s k)"
proof (induction ks arbitrary: s)
  case (Cons k ks)
  obtain ns nm where k: "k = (ns, nm)" by (cases k)
  obtain b s1 where rel: "release_placement ns nm s = (b, s1)" by fastforce
  show ?case using Cons[of s1] release_frame[OF rel] rel by (auto simp: k fun_eq_iff)
qed simp

definition evicted_from :: "basic_scheduler \<Rightarrow> pod_key list \<Rightarrow> string \<Rightarrow> (string \<times> string \<times> resources \<times> port list) list" where
  "evicted_from s ord nn = fst (evict_node ord nn s)"

lemma evicted_mem:
  "(ns, nm, lm, ports) \<in> set (evicted_from s ord nn) \<longleftrightarrow>
     (ns, nm) \<in> set ord \<and> bs_placements s (ns, nm) = Some (nn, lm, ports)"
proof -
  have set_mf: "y \<in> set (List.map_filter f xs) \<longleftrightarrow> (\<exists>x \<in> set xs. f x = Some y)" for f :: "'c \<Rightarrow> 'd option" and xs y
    by (induction xs) (auto simp: List.map_filter_def)
  have pick: "(case bs_placements s k of Some (node, lm', po) \<Rightarrow> if node = nn then Some (fst k, snd k, lm', po) else None
      | None \<Rightarrow> None) = Some (ns, nm, lm, ports) \<longleftrightarrow> k = (ns, nm) \<and> bs_placements s k = Some (nn, lm, ports)" for k
    by (cases k; cases "bs_placements s k") (auto split: prod.splits)
  show ?thesis
    unfolding evicted_from_def evict_node_def Let_def fst_conv set_mf pick by blast
qed

lemma evict_frame:
  assumes "evict_node ord nn s = (ev, s')" "iter_order (bs_placements s) ord"
  shows "bs_nodes s' = bs_nodes s" "placed_on s' nn = {}"
    "(ns, nm, lm, ports) \<in> set ev \<longleftrightarrow> bs_placements s (ns, nm) = Some (nn, lm, ports)"
proof -
  have ev: "ev = evicted_from s ord nn" using assms(1) by (simp add: evicted_from_def)
  have s': "s' = release_all (map (\<lambda>(ns, nm, _, _). (ns, nm)) ev) s"
    using assms(1) by (auto simp: evict_node_def Let_def)
  note frame = release_all_frame[of "map (\<lambda>(ns, nm, _, _). (ns, nm)) ev" s]
  show "bs_nodes s' = bs_nodes s" using frame s' by simp
  show mem: "(ns, nm, lm, ports) \<in> set ev \<longleftrightarrow> bs_placements s (ns, nm) = Some (nn, lm, ports)" for ns nm lm ports
    using assms(2) unfolding ev evicted_mem by (auto simp: iter_order_def)
  show "placed_on s' nn = {}"
  proof (rule equals0I)
    fix k assume "k \<in> placed_on s' nn"
    then obtain lm ports where k: "bs_placements s' k = Some (nn, lm, ports)" by (auto simp: placed_on_mem)
    obtain ns nm where kk: "k = (ns, nm)" by (cases k)
    have "bs_placements s k = Some (nn, lm, ports)" using k frame s' by (simp split: if_splits)
    then have "(ns, nm, lm, ports) \<in> set ev" using mem kk by simp
    then have "k \<in> set (map (\<lambda>(ns, nm, _, _). (ns, nm)) ev)" using kk by (force simp: image_iff)
    with k frame s' show False by simp
  qed
qed

definition tracked :: "sched_state \<Rightarrow> pod_key \<Rightarrow> bool" where
  "tracked st k \<longleftrightarrow> ss_pending st k \<noteq> None \<or> bs_placements (ss_scheduler st) k \<noteq> None"

text \<open>The answers of a run: every report with the status it got, in the order of the calls. Keeping
  them changes nothing of the run.\<close>

type_synonym answers = "(assign_pod_request \<times> unit rpc) list"

definition answered :: "'w assign_rpc \<Rightarrow> ('w \<times> answers) assign_rpc" where
  "answered assign r wl = (case assign r (fst wl) of (x, w) \<Rightarrow> (x, w, snd wl @ [(r, x)]))"

lemma answered_try:
  "try_schedule assign ord ns nm p ports only (st, fst wl) =
     map_prod id fst (try_schedule (answered assign) ord ns nm p ports only (st, wl))"
  by (auto simp: try_schedule_def answered_def split: prod.splits option.splits sum.splits)

lemma answered_one:
  "reschedule_one_orphaned_pod assign ord m ns nm lm ports (st, fst wl) =
     map_prod id fst (reschedule_one_orphaned_pod (answered assign) ord m ns nm lm ports (st, wl))"
proof (cases "assign (orphan_request m ns nm) (fst wl)")
  case (Pair x w)
  then show ?thesis
    using answered_try[of assign ord ns nm "orphan_pod nm lm" ports False st "(w, snd wl @ [(orphan_request m ns nm, x)])"]
    by (cases x) (auto simp: reschedule_one_orphaned_pod_def answered_def)
qed

lemma answered_each:
  "reschedule_each assign ord nn evs (st, fst wl) = map_prod id fst (reschedule_each (answered assign) ord nn evs (st, wl))"
proof (induction evs arbitrary: st wl)
  case (Cons ev evs)
  obtain ns nm lm ports where ev: "ev = (ns, nm, lm, ports)" by (cases ev)
  obtain st1 wl1 where one: "reschedule_one_orphaned_pod (answered assign) ord nn ns nm lm ports (st, wl) = (st1, wl1)"
    by (meson surj_pair)
  then show ?case
    using Cons.IH[of st1 wl1] answered_one[of assign ord nn ns nm lm ports st wl] by (simp add: ev)
qed simp

lemma answered_orphans:
  "reschedule_orphaned_pods assign od nn (st, fst wl) =
     map_prod id fst (reschedule_orphaned_pods (answered assign) od nn (st, wl))"
  using answered_each[of assign "od_nodes od" nn _ _ wl] by (auto simp: reschedule_orphaned_pods_def split: prod.split)

text \<open>One of the answers said of the pod that it does not exist.\<close>

definition reported_gone :: "answers \<Rightarrow> pod_key \<Rightarrow> bool" where
  "reported_gone l k \<longleftrightarrow> (\<exists>(r, x) \<in> set l. request_key r = k \<and> (case x of Inl e \<Rightarrow> st_code e = NotFound | Inr _ \<Rightarrow> False))"

lemma reported_gone_simps [simp]:
  "\<not> reported_gone [] k"
  "reported_gone (l @ l') k \<longleftrightarrow> reported_gone l k \<or> reported_gone l' k"
  "reported_gone [(r, x)] k \<longleftrightarrow> request_key r = k \<and> (case x of Inl e \<Rightarrow> st_code e = NotFound | Inr _ \<Rightarrow> False)"
  by (auto simp: reported_gone_def)

definition node_down :: "string \<Rightarrow> string list \<Rightarrow> sched_state \<Rightarrow> bool" where
  "node_down nn ord st \<longleftrightarrow> is_confirmed_not_ready nn (ss_scheduler st) \<and>
     (\<forall>nm nd. bs_nodes (ss_scheduler st) nm = Some nd \<longrightarrow> nd_name nd = nm) \<and>
     iter_order (bs_nodes (ss_scheduler st)) ord"

lemma place_avoids_down:
  assumes "node_down nn ord st" "place ord p ports (ss_scheduler st) = Inr m"
  shows "m \<noteq> nn"
proof -
  obtain lm where lm: "p_limits p = Some lm"
    using assms(2) by (auto simp: place_def split: option.splits)
  have names: "\<And>nm nd. bs_nodes (ss_scheduler st) nm = Some nd \<Longrightarrow> nd_name nd = nm"
    and ord: "iter_order (bs_nodes (ss_scheduler st)) ord"
    using assms(1) unfolding node_down_def by blast+
  from place_result[OF ord names lm assms(2)] obtain nd
    where "bs_nodes (ss_scheduler st) m = Some nd" "node_status_of nd = NodeReady"
    by (auto simp: candidate_def)
  then show ?thesis using assms(1) by (auto simp: node_down_def is_confirmed_not_ready_def)
qed

lemma try_schedule_one:
  assumes down: "node_down nn ord st"
    and run: "try_schedule (answered assign) ord ns nm p ports False (st, w, l) = (st', w', l')"
  shows "node_down nn ord st' \<and> (tracked st' (ns, nm) \<or> reported_gone l' (ns, nm)) \<and>
     (\<forall>k. k \<noteq> (ns, nm) \<longrightarrow> tracked st' k = tracked st k) \<and> (\<exists>more. l' = l @ more) \<and>
     (placed_on (ss_scheduler st) nn = {} \<longrightarrow> placed_on (ss_scheduler st') nn = {})"
proof -
  obtain d st1 where dec: "decide_locked ord False ns nm p ports st = (Some d, st1)"
    by (cases "place ord p ports (ss_scheduler st)") (auto simp: decide_locked_def)
  obtain r w1 where rpc: "assign (decision_request ns nm d) w = (r, w1)" by fastforce
  have st': "st' = (case r of Inr _ \<Rightarrow> st1 | Inl e \<Rightarrow> if st_code e = NotFound then drop_pending ns nm st1 else st1)"
    and l': "l' = l @ [(decision_request ns nm d, r)]"
    using run dec rpc by (auto simp: try_schedule_def answered_def split: sum.splits)
  have st1: "node_down nn ord st1 \<and> tracked st1 (ns, nm) \<and> (\<forall>k. k \<noteq> (ns, nm) \<longrightarrow> tracked st1 k = tracked st k) \<and>
     (placed_on (ss_scheduler st) nn = {} \<longrightarrow> placed_on (ss_scheduler st1) nn = {})"
  proof (cases "place ord p ports (ss_scheduler st)")
    case (Inl reason)
    then show ?thesis using dec down by (auto simp: decide_locked_def tracked_def node_down_def)
  next
    case (Inr m)
    then have s1: "st1 = st\<lparr>ss_scheduler := record_placement ns nm m (limits_or_default p) ports (ss_scheduler st),
        ss_pending := (ss_pending st)((ns, nm) := None)\<rparr>"
      using dec by (simp add: decide_locked_def)
    have "placed_on (ss_scheduler st1) nn \<subseteq> placed_on (ss_scheduler st) nn"
      using place_avoids_down[OF down Inr] by (auto simp: s1 placed_on_def record_frame split: if_splits)
    then show ?thesis
      using down by (auto simp: s1 tracked_def node_down_def record_frame is_confirmed_not_ready_def)
  qed
  have drop: "node_down nn ord (drop_pending ns nm st1) = node_down nn ord st1"
    "k \<noteq> (ns, nm) \<Longrightarrow> tracked (drop_pending ns nm st1) k = tracked st1 k"
    "ss_scheduler (drop_pending ns nm st1) = ss_scheduler st1" for k
    by (auto simp: drop_pending_def node_down_def tracked_def)
  show ?thesis
    using st1 drop unfolding st' l' by (auto split: sum.splits)
qed

lemma reschedule_one:
  assumes down: "node_down nn ord st"
    and run: "reschedule_one_orphaned_pod (answered assign) ord m ns nm lm ports (st, w, l) = (st', w', l')"
  shows "node_down nn ord st' \<and> (tracked st' (ns, nm) \<or> reported_gone l' (ns, nm)) \<and>
     (\<forall>k. k \<noteq> (ns, nm) \<longrightarrow> tracked st' k = tracked st k) \<and> (\<exists>more. l' = l @ more) \<and>
     (placed_on (ss_scheduler st) nn = {} \<longrightarrow> placed_on (ss_scheduler st') nn = {})"
proof -
  obtain r w1 where rpc: "assign (orphan_request m ns nm) w = (r, w1)" by fastforce
  show ?thesis
  proof (cases r)
    case (Inr u)
    with run rpc have "try_schedule (answered assign) ord ns nm (orphan_pod nm lm) ports False
        (st, w1, l @ [(orphan_request m ns nm, r)]) = (st', w', l')"
      by (simp add: reschedule_one_orphaned_pod_def answered_def)
    from try_schedule_one[OF down this] show ?thesis by auto
  next
    case (Inl e)
    have "st' = (if st_code e = NotFound then st else park_pending ns nm (orphan_pod nm lm) ports st)"
      and "l' = l @ [(orphan_request m ns nm, Inl e)]"
      using run rpc Inl by (auto simp: reschedule_one_orphaned_pod_def answered_def split: if_splits)
    then show ?thesis
      using down by (auto simp: park_pending_def node_down_def tracked_def request_key_def orphan_request_def)
  qed
qed

lemma reschedule_each_tracks:
  assumes "node_down nn ord st" "placed_on (ss_scheduler st) nn = {}"
    and "reschedule_each (answered assign) ord nn evs (st, w, l) = (st', w', l')"
  shows "placed_on (ss_scheduler st') nn = {} \<and> (\<exists>more. l' = l @ more) \<and>
     (\<forall>k. tracked st k \<longrightarrow> tracked st' k \<or> reported_gone l' k) \<and>
     (\<forall>(ns, nm, lm, ports) \<in> set evs. tracked st' (ns, nm) \<or> reported_gone l' (ns, nm))"
  using assms
proof (induction evs arbitrary: st w l)
  case (Cons ev evs)
  obtain ns nm lm ports where ev: "ev = (ns, nm, lm, ports)" by (cases ev)
  obtain st1 w1 l1 where
    one: "reschedule_one_orphaned_pod (answered assign) ord nn ns nm lm ports (st, w, l) = (st1, w1, l1)"
    using prod_cases3 by blast
  have rest: "reschedule_each (answered assign) ord nn evs (st1, w1, l1) = (st', w', l')"
    using Cons.prems(3) one ev by simp
  note step = reschedule_one[OF Cons.prems(1) one]
  have "node_down nn ord st1" "placed_on (ss_scheduler st1) nn = {}" using step Cons.prems(2) by auto
  note ih = Cons.IH[OF this rest]
  have longer: "reported_gone l1 k \<Longrightarrow> reported_gone l' k" for k using ih by auto
  have keep: "tracked st' k \<or> reported_gone l' k" if "tracked st k \<or> k = (ns, nm)" for k
  proof (cases "reported_gone l1 k")
    case False
    with that step have "tracked st1 k" by metis
    with ih show ?thesis by blast
  qed (simp add: longer)
  have "\<exists>more. l' = l @ more" using step ih by auto
  then show ?case using ih keep ev by auto
qed simp

text \<open>
  C8. When a node goes NOT_READY no pod placed on it is forgotten. After the handler has run, with
  whatever the API answered to each of its reports, nothing is placed on that node any more and every
  pod that was is placed on another node or waits among the pending ones, unless one of the answers of
  this very run said that the pod no longer exists.
\<close>

theorem orphans_are_not_lost:
  assumes "node_down nn (od_nodes od) st" and "iter_order (bs_placements (ss_scheduler st)) (od_placements od)"
    and "reschedule_orphaned_pods (answered assign) od nn (st, w, []) = (st', w', answers)"
  shows "reschedule_orphaned_pods assign od nn (st, w) = (st', w') \<and> placed_on (ss_scheduler st') nn = {} \<and>
     (\<forall>k \<in> placed_on (ss_scheduler st) nn. tracked st' k \<or> reported_gone answers k)"
proof -
  obtain ev s1 where evict: "evict_node (od_placements od) nn (ss_scheduler st) = (ev, s1)" by fastforce
  let ?st = "st\<lparr>ss_scheduler := s1\<rparr>"
  have rest: "reschedule_each (answered assign) (od_nodes od) nn ev (?st, w, []) = (st', w', answers)"
    using assms(3) evict by (simp add: reschedule_orphaned_pods_def evict_locked_def)
  note frame = evict_frame[OF evict assms(2)]
  have "node_down nn (od_nodes od) ?st" "placed_on (ss_scheduler ?st) nn = {}"
    using assms(1) frame(1,2) by (simp_all add: node_down_def is_confirmed_not_ready_def)
  note each = reschedule_each_tracks[OF this rest]
  have "tracked st' k \<or> reported_gone answers k" if "k \<in> placed_on (ss_scheduler st) nn" for k
  proof -
    obtain ns nm lm ports where "k = (ns, nm)" "bs_placements (ss_scheduler st) (ns, nm) = Some (nn, lm, ports)"
      using \<open>k \<in> placed_on (ss_scheduler st) nn\<close> by (cases k) (auto simp: placed_on_mem)
    then show ?thesis using each frame(3) by fastforce
  qed
  moreover have "reschedule_orphaned_pods assign od nn (st, w) = (st', w')"
    using answered_orphans[of assign od nn st "(w, [])"] assms(3) by simp
  ultimately show ?thesis using each by blast
qed

text \<open>An API that answers from a script, then always OK, and keeps the requests it was sent.\<close>

definition scripted :: "(unit rpc list \<times> assign_pod_request list) assign_rpc" where
  "scripted r w = (case fst w of
     [] \<Rightarrow> (Inr (), [], snd w @ [r])
   | x # xs \<Rightarrow> (x, xs, snd w @ [r]))"

definition unavailable :: status where
  "unavailable = Status Unavailable ''etcd unreachable''"

definition busy_down :: "basic_scheduler \<Rightarrow> basic_scheduler" where
  "busy_down s = snd (upsert_node ((sample_node ''busy'' 1024 512)\<lparr>nd_status := 3\<rparr>) s)"

definition pod_on_dead_node :: sched_state where
  "pod_on_dead_node = \<lparr>ss_scheduler = busy_down
     (record_placement ''default'' ''web'' ''busy'' \<lparr>res_cpu = 100, res_memory = 100\<rparr> [] two_nodes),
     ss_pending = (\<lambda>_. None)\<rparr>"

definition sample_orders :: orders where
  "sample_orders = \<lparr>od_nodes = [''busy'', ''idle''], od_placements = [(''default'', ''web'')],
     od_pending = [(''default'', ''web'')]\<rparr>"

definition orphan_run :: "sched_state \<times> (unit rpc list \<times> assign_pod_request list) \<times> answers" where
  "orphan_run = reschedule_orphaned_pods (answered scripted) sample_orders ''busy'' (pod_on_dead_node, ([Inl unavailable], []), [])"

theorem orphans_are_not_lost_witness:
  "tracked (fst orphan_run) (''default'', ''web'') \<and>
   map snd (snd (snd orphan_run)) = [Inl unavailable]"
proof -
  have down: "node_down ''busy'' (od_nodes sample_orders) pod_on_dead_node"
    by (auto simp: node_down_def is_confirmed_not_ready_def iter_order_def pod_on_dead_node_def busy_down_def
        sample_orders_def two_nodes_def upsert_node_def record_frame sample_node_def scheduler_default_def
        node_status_of_def node_status_of_i32_def)
  have ord: "iter_order (bs_placements (ss_scheduler pod_on_dead_node)) (od_placements sample_orders)"
    by (auto simp: iter_order_def pod_on_dead_node_def busy_down_def sample_orders_def two_nodes_def
        upsert_node_def record_frame scheduler_default_def split: if_splits)
  have "bs_placements (ss_scheduler pod_on_dead_node) (''default'', ''web'') =
      Some (''busy'', \<lparr>res_cpu = 100, res_memory = 100\<rparr>, [])"
    by code_simp
  then have on: "(''default'', ''web'') \<in> placed_on (ss_scheduler pod_on_dead_node) ''busy''"
    unfolding placed_on_mem by blast
  have said: "map snd (snd (snd orphan_run)) = [Inl unavailable]"
    by code_simp
  have none: "\<not> reported_gone (snd (snd orphan_run)) k" for k
  proof
    assume "reported_gone (snd (snd orphan_run)) k"
    then obtain r x where "(r, x) \<in> set (snd (snd orphan_run))" "case x of Inl e \<Rightarrow> st_code e = NotFound | Inr _ \<Rightarrow> False"
      by (auto simp: reported_gone_def)
    moreover from this(1) have "x \<in> set (map snd (snd (snd orphan_run)))" by (force simp: image_iff)
    ultimately show False by (simp add: said unavailable_def)
  qed
  have run: "reschedule_orphaned_pods (answered scripted) sample_orders ''busy'' (pod_on_dead_node, ([Inl unavailable], []), []) =
      (fst orphan_run, fst (snd orphan_run), snd (snd orphan_run))"
    by (simp add: orphan_run_def)
  from orphans_are_not_lost[OF down ord run] on none said show ?thesis by blast
qed

section \<open>Lost pods\<close>

definition added_event :: "pod \<Rightarrow> watch_pod_event" where
  "added_event p = \<lparr>wpe_event_type = 1, wpe_pod = Some (new_pod_detail
     \<lparr>pw_pod = Some p, pw_spec = Some \<lparr>ps_namespace = ''default'', ps_containers = []\<rparr>\<rparr>)\<rparr>"

definition new_node_event :: watch_node_event where
  "new_node_event = \<lparr>wne_event_type = 1, wne_node = Some (sample_node ''spare'' 4096 4096)\<rparr>"

definition fresh_sched :: sched_state where
  "fresh_sched = \<lparr>ss_scheduler = two_nodes, ss_pending = (\<lambda>_. None)\<rparr>"

definition after_failed_report :: "sched_state \<times> unit rpc list \<times> assign_pod_request list" where
  "after_failed_report =
     node_event scripted \<lparr>od_nodes = [''busy'', ''idle'', ''spare''], od_placements = [], od_pending = [(''default'', ''web'')]\<rparr>
       new_node_event
       (pod_event scripted sample_orders (added_event (sample_pod 100)) (fresh_sched, [Inl unavailable], []))"

text \<open>
  A placement whose AssignPod fails with anything but NOT_FOUND is never reported again. The
  scheduler has recorded the placement and dropped the pod from the pending set before it sent the
  request, and the error branch only logs: when a new node arrives the retry sweep sends nothing, and
  the pod stays unassigned at the API while its resources are claimed here.
\<close>

theorem failed_report_strands_pod:
  "snd (snd after_failed_report) = [decision_request ''default'' ''web'' (Inr ''idle'')] \<and>
   ss_pending (fst after_failed_report) (''default'', ''web'') = None \<and>
   bs_placements (ss_scheduler (fst after_failed_report)) (''default'', ''web'') =
     Some (''idle'', \<lparr>res_cpu = 100, res_memory = 100\<rparr>, [])"
  by (intro conjI; code_simp)

definition deleted_orphan_run :: "sched_section list" where
  "deleted_orphan_run =
     [SecEvict [(''default'', ''web'')] ''busy'',
      SecDeleted ''default'' ''web'',
      SecFirst [''busy'', ''idle''] ''default'' ''web'' (orphan_pod ''web'' \<lparr>res_cpu = 100, res_memory = 100\<rparr>) [],
      SecDrop ''default'' ''web'']"

text \<open>
  An orphan deleted between its two reports leaks its claim. The node loop evicts it and marks it
  orphaned; the pod loop handles its DELETED event, finding nothing to release; the node loop then
  places it and is answered NOT_FOUND, and that branch only removes it from the pending set. The claim
  of a pod that no longer exists stays on the chosen node, and no event will ever release it.
\<close>

theorem deleted_orphan_keeps_its_claim:
  "bs_placements (ss_scheduler (snd (run_sections deleted_orphan_run pod_on_dead_node))) (''default'', ''web'') =
     Some (''idle'', \<lparr>res_cpu = 100, res_memory = 100\<rparr>, []) \<and>
   res_cpu (claimed_of (ss_scheduler (snd (run_sections deleted_orphan_run pod_on_dead_node))) ''idle'') = 100"
  unfolding claimed_of_def by (intro conjI; code_simp)

definition web_port :: port where
  "web_port = \<lparr>port_internal = 80, port_external = 8080, port_protocol = 0\<rparr>"

definition moved_off_busy :: sched_state where
  "moved_off_busy = \<lparr>ss_scheduler = record_placement ''default'' ''web'' ''idle'' \<lparr>res_cpu = 100, res_memory = 100\<rparr>
     [web_port] (busy_down two_nodes), ss_pending = (\<lambda>_. None)\<rparr>"

definition stale_report :: watch_pod_event where
  "stale_report = \<lparr>wpe_event_type = 2, wpe_pod = Some
     ((new_pod_detail \<lparr>pw_pod = Some (sample_pod 100), pw_spec = Some \<lparr>ps_namespace = ''default'',
        ps_containers = [\<lparr>ct_name = ''c'', ct_image = ''img'', ct_ports = [web_port], ct_env = []\<rparr>]\<rparr>\<rparr>)
      \<lparr>pd_node_name := ''busy''\<rparr>)\<rparr>"

definition after_stale_report :: "sched_state \<times> unit rpc list \<times> assign_pod_request list" where
  "after_stale_report = pod_event scripted sample_orders stale_report (moved_off_busy, [], [])"

text \<open>
  A stale report undoes a finished move. A pod was moved from a dead node to another one; a
  status report its old agent had sent earlier is still queued in the pod stream and names the dead
  node. \<open>watch_pods\<close> trusts the event over its own record: it reports the pod orphaned, so that the API
  forgets the new node, then finds the pod's own host port claimed there by the pod itself and reports
  it unschedulable. It ends both placed and pending, while the new node keeps running it.
\<close>

theorem stale_report_undoes_move:
  "snd (snd after_stale_report) =
     [orphan_request ''busy'' ''default'' ''web'',
      decision_request ''default'' ''web'' (Inl ''no ready node has a free host port for this pod'')] \<and>
   ss_pending (fst after_stale_report) (''default'', ''web'') \<noteq> None \<and>
   bs_placements (ss_scheduler (fst after_stale_report)) (''default'', ''web'') =
     Some (''idle'', \<lparr>res_cpu = 100, res_memory = 100\<rparr>, [web_port])"
  by (intro conjI; code_simp)

end
