(* ===== verification/Cluster.thy ===== *)
theory Cluster imports Scheduler_Runs Watch_View begin

text \<open>
  The scheduler and the API server together: the scheduler's pod loop reads the events that the
  server publishes and answers them with \<open>AssignPod\<close> calls, which publish events in turn. The store
  is the in-memory one; events are delivered in order, none is lost, and between two turns of the pod
  loop only what a theorem names happens. The tasks of a retry sweep run one after the other, one of
  the schedules of the code's concurrent ones.
\<close>

section \<open>The two programs\<close>

text \<open>\<open>AssignPod\<close> as the scheduler sees it: the service, its empty reply and its status.\<close>

definition api_assign :: "peer \<Rightarrow> ('w, 'v) store assign_rpc" where
  "api_assign peer req s =
     (case serve (\<lambda>_. 0) [] [] peer (RpcAssignPod req) s of (r, s') \<Rightarrow> (map_sum id (\<lambda>_. ()) r, s'))"

text \<open>\<open>cu_seen\<close> of the published pod events have reached the scheduler.\<close>

record ('w, 'v) cluster =
  cu_sched :: sched_state
  cu_api :: "('w, 'v) store"
  cu_seen :: nat

definition pod_turn :: "peer \<Rightarrow> orders \<Rightarrow> ('w, 'v) cluster \<Rightarrow> ('w, 'v) cluster" where
  "pod_turn peer od c =
     (if cu_seen c < length (sto_pod_events (cu_api c))
      then (case pod_event (api_assign peer) od (sto_pod_events (cu_api c) ! cu_seen c) (cu_sched c, cu_api c) of
              (st, s) \<Rightarrow> \<lparr>cu_sched = st, cu_api = s, cu_seen = Suc (cu_seen c)\<rparr>)
      else c)"

fun pod_run :: "peer \<Rightarrow> (nat \<Rightarrow> orders) \<Rightarrow> nat \<Rightarrow> ('w, 'v) cluster \<Rightarrow> ('w, 'v) cluster" where
  "pod_run peer ods 0 c = c"
| "pod_run peer ods (Suc n) c = pod_turn peer (ods n) (pod_run peer ods n c)"

definition caught_up :: "('w, 'v) cluster \<Rightarrow> bool" where
  "caught_up c \<longleftrightarrow> cu_seen c = length (sto_pod_events (cu_api c))"

abbreviation cu_nodes :: "('w, 'v) cluster \<Rightarrow> string \<rightharpoonup> node" where
  "cu_nodes c \<equiv> bs_nodes (ss_scheduler (cu_sched c))"

definition nodes_named :: "(string \<rightharpoonup> node) \<Rightarrow> bool" where
  "nodes_named m \<longleftrightarrow> (\<forall>nm nd. m nm = Some nd \<longrightarrow> nd_name nd = nm)"

section \<open>What an answer publishes\<close>

text \<open>A quiet event makes the scheduler call nobody.\<close>

definition quiet :: "(string \<rightharpoonup> node) \<Rightarrow> watch_pod_event \<Rightarrow> bool" where
  "quiet nodes ev \<longleftrightarrow> (\<exists>d. wpe_pod ev = Some d \<and> event_type_or_default (wpe_event_type ev) \<noteq> EvDeleted \<and>
     (if pd_node_name d = [] then event_type_or_default (wpe_event_type ev) \<noteq> EvAdded
      else \<forall>nd. nodes (pd_node_name d) = Some nd \<longrightarrow> node_status_of nd \<noteq> NodeNotReady))"

lemma event_type_known [simp]: "event_type_or_default (event_type_i32 t) = t"
  by (cases t) (simp_all add: event_type_or_default_def event_type_of_i32_def)

lemma node_name_frame [simp]:
  "pd_node_name (set_core_status st d) = pd_node_name d"
  "pd_node_name (mark_unplaced st' reason d) = []"
  by (simp_all add: set_core_status_def mark_unplaced_def)

text \<open>\<open>AssignPod\<close> on a pod that exists, by outcome, and on one that does not.\<close>

definition assigned_pod :: "assign_outcome \<Rightarrow> pod_detail \<Rightarrow> pod_detail" where
  "assigned_pod out d = (case out of
     OutNodeName nn \<Rightarrow> fst (place_on nn d)
   | OutUnschedulable reason \<Rightarrow> mark_unplaced PodNoNodeAvailable reason d
   | OutOrphaned reason \<Rightarrow> mark_unplaced PodUnknown reason d)"

definition outcome_event :: "assign_outcome \<Rightarrow> event_type" where
  "outcome_event out = (case out of OutNodeName _ \<Rightarrow> EvScheduled | _ \<Rightarrow> EvModified)"

definition tell_node :: "assign_outcome \<Rightarrow> pod_detail \<Rightarrow> ('w, 'v) store \<Rightarrow> ('w, 'v) store" where
  "tell_node out d s = (case out of
     OutNodeName nn \<Rightarrow> publish_desired_state_event nn
       \<lparr>dse_action = ds_action_i32 DsRun, dse_pod = pd_core (assigned_pod out d)\<rparr> s
   | _ \<Rightarrow> s)"

lemma api_assign_eq:
  assumes "mem_store s" "check_role peer RoleScheduler = Inr ()" "ap_outcome req = Some out"
  shows "api_assign peer req s =
     (case sto_pods s (request_key req) of
        None \<Rightarrow> (Inl (pod_not_found (ap_namespace req) (ap_name req)), s)
      | Some d \<Rightarrow> (Inr (), tell_node out d (publish_pod_event (outcome_event out) (assigned_pod out d)
          (s\<lparr>sto_pods := (sto_pods s)(request_key req \<mapsto> assigned_pod out d)\<rparr>))))"
proof (cases "sto_pods s (request_key req)")
  case None
  then show ?thesis
    using assms
    by (auto simp: api_assign_def serve_gate require_role_def sbind_def smap_def assign_pod_impl_def smap_err_def
        request_key_def mem_update_pod_none split: assign_outcome.splits)
next
  case (Some d)
  then show ?thesis
    using assms
    by (auto simp: api_assign_def serve_gate require_role_def sbind_def smap_def assign_pod_impl_def smap_err_def
        request_key_def mem_update_pod_some assigned_pod_def outcome_event_def tell_node_def place_on_def Let_def
        split: assign_outcome.splits)
qed

lemma api_assign_refused:
  assumes "check_role peer RoleScheduler \<noteq> Inr () \<or> ap_outcome req = None"
  shows "\<exists>e. api_assign peer req s = (Inl e, s)"
proof (cases "check_role peer RoleScheduler")
  case (Inl e)
  then show ?thesis by (simp add: api_assign_def serve_gate require_role_def sbind_def)
next
  case (Inr u)
  with assms have "ap_outcome req = None" by simp
  with Inr show ?thesis
    by (simp add: api_assign_def serve_gate require_role_def sbind_def smap_def assign_pod_impl_def)
qed

lemma assigned_pod_name:
  "pd_node_name (assigned_pod out d) = (case out of OutNodeName nn \<Rightarrow> nn | _ \<Rightarrow> [])"
  by (cases out) (simp_all add: assigned_pod_def place_on_def Let_def)

lemma tell_node_sel [simp]:
  "sto_client (tell_node out d s) = sto_client s" "sto_pods (tell_node out d s) = sto_pods s"
  "sto_pod_events (tell_node out d s) = sto_pod_events s"
  by (cases out; simp add: tell_node_def)+

section \<open>The answers calm down\<close>

text \<open>What a handler of the pod loop may do to scheduler and server, started where \<open>workable\<close> holds.\<close>

definition workable :: "string list \<Rightarrow> sched_state \<times> ('w, 'v) store \<Rightarrow> bool" where
  "workable ord sw \<longleftrightarrow> mem_store (snd sw) \<and> nodes_named (bs_nodes (ss_scheduler (fst sw))) \<and>
     iter_order (bs_nodes (ss_scheduler (fst sw))) ord"

definition calms :: "string list \<Rightarrow> sched_state \<times> ('w, 'v) store \<Rightarrow> sched_state \<times> ('w, 'v) store \<Rightarrow> bool" where
  "calms ord a b \<longleftrightarrow> (workable ord a \<longrightarrow>
     mem_store (snd b) \<and> bs_nodes (ss_scheduler (fst b)) = bs_nodes (ss_scheduler (fst a)) \<and>
     (\<exists>evs. sto_pod_events (snd b) = sto_pod_events (snd a) @ evs \<and>
        (\<forall>ev \<in> set evs. quiet (bs_nodes (ss_scheduler (fst a))) ev)))"

lemma calmsI:
  assumes "workable ord a \<Longrightarrow> mem_store (snd b)"
    and "workable ord a \<Longrightarrow> bs_nodes (ss_scheduler (fst b)) = bs_nodes (ss_scheduler (fst a))"
    and "workable ord a \<Longrightarrow> sto_pod_events (snd b) = sto_pod_events (snd a) @ evs"
    and "workable ord a \<Longrightarrow> \<forall>ev \<in> set evs. quiet (bs_nodes (ss_scheduler (fst a))) ev"
  shows "calms ord a b"
  unfolding calms_def using assms by blast

lemma calmsD:
  assumes "calms ord a b" "workable ord a"
  obtains evs where "workable ord b" "bs_nodes (ss_scheduler (fst b)) = bs_nodes (ss_scheduler (fst a))"
    "sto_pod_events (snd b) = sto_pod_events (snd a) @ evs"
    "\<forall>ev \<in> set evs. quiet (bs_nodes (ss_scheduler (fst a))) ev"
  using assms unfolding calms_def workable_def by auto

lemma calms_trans:
  assumes ab: "calms ord a b" and bc: "calms ord b c"
  shows "calms ord a c"
proof (cases "workable ord a")
  case True
  obtain evs where b: "workable ord b" "bs_nodes (ss_scheduler (fst b)) = bs_nodes (ss_scheduler (fst a))"
      "sto_pod_events (snd b) = sto_pod_events (snd a) @ evs"
      "\<forall>ev \<in> set evs. quiet (bs_nodes (ss_scheduler (fst a))) ev"
    by (rule calmsD[OF ab True])
  obtain evs' where c: "workable ord c" "bs_nodes (ss_scheduler (fst c)) = bs_nodes (ss_scheduler (fst b))"
      "sto_pod_events (snd c) = sto_pod_events (snd b) @ evs'"
      "\<forall>ev \<in> set evs'. quiet (bs_nodes (ss_scheduler (fst b))) ev"
    by (rule calmsD[OF bc b(1)])
  show ?thesis by (rule calmsI[where evs = "evs @ evs'"]) (use b c in \<open>auto simp: workable_def\<close>)
qed (simp add: calms_def)

text \<open>Changes of the scheduler alone, outside its table of nodes.\<close>

lemma calms_local: "bs_nodes (ss_scheduler st') = bs_nodes (ss_scheduler (fst a)) \<Longrightarrow> calms ord a (st', snd a)"
  by (rule calmsI[where evs = "[]"]) (auto simp: workable_def)

lemma calms_refl [simp]: "calms ord a a"
  using calms_local[of "fst a" a ord] by simp

text \<open>A call, whose outcome places the pod on no node known to be stopped.\<close>

lemma calms_call:
  assumes rpc: "api_assign peer req s = (r, s')"
    and alive: "\<And>nn nd. workable ord (st, s) \<Longrightarrow> ap_outcome req = Some (OutNodeName nn) \<Longrightarrow>
       bs_nodes (ss_scheduler st) nn = Some nd \<Longrightarrow> node_status_of nd \<noteq> NodeNotReady"
  shows "calms ord (st, s) (st, s')"
proof (cases "check_role peer RoleScheduler = Inr () \<and> (\<exists>out. ap_outcome req = Some out) \<and> mem_store s")
  case False
  then have "workable ord (st, s) \<Longrightarrow> s' = s"
    using api_assign_refused[of peer req s] rpc by (auto simp: workable_def)
  then show ?thesis by (intro calmsI[where evs = "[]"]) (auto simp: workable_def)
next
  case True
  then obtain out where run: "mem_store s" "check_role peer RoleScheduler = Inr ()" "ap_outcome req = Some out" by blast
  show ?thesis
  proof (cases "sto_pods s (request_key req)")
    case None
    then have "s' = s" using api_assign_eq[OF run] rpc by simp
    then show ?thesis by simp
  next
    case (Some d)
    let ?ev = "\<lparr>wpe_event_type = event_type_i32 (outcome_event out), wpe_pod = Some (assigned_pod out d)\<rparr>"
    have s': "sto_pod_events s' = sto_pod_events s @ [?ev]" "mem_store s'"
      using api_assign_eq[OF run] rpc Some run(1) by (auto simp: mem_store_def)
    show ?thesis
    proof (rule calmsI[where evs = "[?ev]"])
      assume w: "workable ord (st, s)"
      have "quiet (bs_nodes (ss_scheduler st)) ?ev"
        using alive[OF w] run(3)
        by (cases out) (auto simp: quiet_def assigned_pod_name outcome_event_def event_type_or_default_def
              event_type_of_i32_def)
      then show "\<forall>ev \<in> set [?ev]. quiet (bs_nodes (ss_scheduler (fst (st, s)))) ev" by simp
    qed (use s' in simp_all)
  qed
qed

lemma placed_node_alive:
  assumes "workable ord (st, s)" "place ord p ports (ss_scheduler st) = Inr nn"
    "bs_nodes (ss_scheduler st) nn = Some nd"
  shows "node_status_of nd = NodeReady"
proof -
  obtain lm where lm: "p_limits p = Some lm" using assms(2) by (auto simp: place_def split: option.splits)
  have names: "\<And>nm nd. bs_nodes (ss_scheduler st) nm = Some nd \<Longrightarrow> nd_name nd = nm"
    and ord: "iter_order (bs_nodes (ss_scheduler st)) ord"
    using assms(1) by (auto simp: workable_def nodes_named_def)
  from place_result[OF ord names lm assms(2)] assms(3) show ?thesis by (auto simp: candidate_def)
qed

lemma decide_nodes:
  "decide_locked ord b ns nm p ports st = (d, st') \<Longrightarrow> bs_nodes (ss_scheduler st') = bs_nodes (ss_scheduler st)"
  by (auto simp: decide_locked_def record_frame split: if_splits sum.splits)

lemma calms_try: "calms ord a (try_schedule (api_assign peer) ord ns nm p ports b a)"
proof -
  obtain st s where a: "a = (st, s)" by (cases a)
  obtain d st1 where dec: "decide_locked ord b ns nm p ports st = (d, st1)" by fastforce
  note nodes = decide_nodes[OF dec]
  have one: "calms ord (st, s) (st1, s)" using calms_local[of st1 "(st, s)"] nodes by simp
  show ?thesis
  proof (cases d)
    case None
    with dec one show ?thesis by (simp add: a try_schedule_def)
  next
    case (Some dd)
    obtain r s' where rpc: "api_assign peer (decision_request ns nm dd) s = (r, s')" by fastforce
    have two: "calms ord (st1, s) (st1, s')"
    proof (rule calms_call[OF rpc])
      fix nn nd assume w: "workable ord (st1, s)" and out: "ap_outcome (decision_request ns nm dd) = Some (OutNodeName nn)"
        and nd: "bs_nodes (ss_scheduler st1) nn = Some nd"
      have "place ord p ports (ss_scheduler st) = Inr nn"
        using out dec Some by (auto simp: decision_request_def decide_locked_def split: sum.splits if_splits)
      moreover have "workable ord (st, s)" using w nodes by (simp add: workable_def)
      ultimately have "node_status_of nd = NodeReady" using placed_node_alive nd nodes by metis
      then show "node_status_of nd \<noteq> NodeNotReady" by simp
    qed
    have three: "calms ord (st1, s') (drop_pending ns nm st1, s')"
      using calms_local[of "drop_pending ns nm st1" "(st1, s')"] by (simp add: drop_pending_def)
    note all = calms_trans[OF one two] calms_trans[OF calms_trans[OF one two] three]
    show ?thesis
      using all dec Some rpc by (cases r) (auto simp: a try_schedule_def)
  qed
qed

lemma calms_retry_all: "calms ord a (retry_all (api_assign peer) ord ks a)"
proof (induction ks arbitrary: a)
  case (Cons k ks)
  obtain ns nm p ports where k: "k = ((ns, nm), p, ports)" by (cases k) auto
  from calms_trans[OF calms_try Cons] show ?case by (simp add: k)
qed simp

lemma calms_orphan:
  "calms ord a (reschedule_one_orphaned_pod (api_assign peer) ord nn ns nm lm ports a)"
proof -
  obtain st s where a: "a = (st, s)" by (cases a)
  obtain r s' where rpc: "api_assign peer (orphan_request nn ns nm) s = (r, s')" by fastforce
  have one: "calms ord (st, s) (st, s')"
    by (rule calms_call[OF rpc]) (simp add: orphan_request_def)
  have park: "calms ord (st, s') (park_pending ns nm (orphan_pod nm lm) ports st, s')"
    using calms_local[of "park_pending ns nm (orphan_pod nm lm) ports st" "(st, s')"] by (simp add: park_pending_def)
  show ?thesis
    using one calms_trans[OF one calms_try] calms_trans[OF one park] rpc
    by (cases r) (auto simp: a reschedule_one_orphaned_pod_def)
qed

lemma calms_pod_event: "calms (od_nodes od) a (pod_event (api_assign peer) od ev a)"
proof -
  obtain st s where a: "a = (st, s)" by (cases a)
  show ?thesis
  proof (cases "wpe_pod ev")
    case (Some d)
    show ?thesis
    proof (cases "detail_pod d")
      case (Some p)
      let ?ns = "detail_namespace d"
      obtain released st1 where del: "deleted_locked ?ns (p_name p) st = (released, st1)" by fastforce
      have "bs_nodes (ss_scheduler st1) = bs_nodes (ss_scheduler st)"
        using del release_frame by (fastforce simp: deleted_locked_def split: prod.splits)
      then have d1: "calms (od_nodes od) (st, s) (st1, s)" using calms_local[of st1 "(st, s)"] by simp
      have d2: "calms (od_nodes od) (st, s) (retry_pending (api_assign peer) od (st1, s))"
        using calms_trans[OF d1 calms_retry_all] by (simp add: retry_pending_def)
      have seen: "calms (od_nodes od) (st, s) (seen_locked ?ns (p_name p) nn lm ports st, s)" for nn lm ports
        using calms_local[of "seen_locked ?ns (p_name p) nn lm ports st" "(st, s)"]
        by (simp add: seen_locked_def drop_pending_def record_frame)
      show ?thesis
        using d1 d2 seen calms_orphan[of _ "(st, s)"] calms_try[of _ "(st, s)"] \<open>wpe_pod ev = Some d\<close> Some del
        by (simp add: pod_event_def a Let_def)
    qed (use \<open>wpe_pod ev = Some d\<close> in \<open>simp add: pod_event_def\<close>)
  qed (simp add: pod_event_def)
qed

lemma quiet_pod_event:
  assumes "quiet (bs_nodes (ss_scheduler (fst a))) ev"
  shows "snd (pod_event (api_assign peer) od ev a) = snd a"
  using assms
  by (auto simp: pod_event_def quiet_def is_confirmed_not_ready_def Let_def split: option.splits)

lemma pod_turn_step:
  assumes "mem_store (cu_api c)" "nodes_named (cu_nodes c)" "iter_order (cu_nodes c) (od_nodes od)"
  obtains evs where "mem_store (cu_api (pod_turn peer od c))" "cu_nodes (pod_turn peer od c) = cu_nodes c"
    "sto_pod_events (cu_api (pod_turn peer od c)) = sto_pod_events (cu_api c) @ evs"
    "\<forall>ev \<in> set evs. quiet (cu_nodes c) ev"
    "cu_seen (pod_turn peer od c) = (if cu_seen c < length (sto_pod_events (cu_api c)) then Suc (cu_seen c) else cu_seen c)"
proof (cases "cu_seen c < length (sto_pod_events (cu_api c))")
  case False
  with assms(1) show ?thesis by (intro that[of "[]"]) (simp_all add: pod_turn_def)
next
  case True
  let ?ev = "sto_pod_events (cu_api c) ! cu_seen c" and ?a = "(cu_sched c, cu_api c)"
  have "workable (od_nodes od) ?a" using assms by (simp add: workable_def)
  then obtain evs where b: "workable (od_nodes od) (pod_event (api_assign peer) od ?ev ?a)"
      "bs_nodes (ss_scheduler (fst (pod_event (api_assign peer) od ?ev ?a))) = cu_nodes c"
      "sto_pod_events (snd (pod_event (api_assign peer) od ?ev ?a)) = sto_pod_events (cu_api c) @ evs"
      "\<forall>ev \<in> set evs. quiet (cu_nodes c) ev"
    using calmsD[OF calms_pod_event] by (metis fst_conv snd_conv)
  with True show ?thesis
    by (intro that[of evs]) (auto simp: pod_turn_def workable_def split: prod.splits)
qed

lemma quiet_turn:
  assumes "cu_seen c < length (sto_pod_events (cu_api c)) \<Longrightarrow> quiet (cu_nodes c) (sto_pod_events (cu_api c) ! cu_seen c)"
  shows "cu_api (pod_turn peer od c) = cu_api c"
proof (cases "cu_seen c < length (sto_pod_events (cu_api c))")
  case True
  let ?ev = "sto_pod_events (cu_api c) ! cu_seen c"
  have "snd (pod_event (api_assign peer) od ?ev (cu_sched c, cu_api c)) = cu_api c"
    using quiet_pod_event[of "(cu_sched c, cu_api c)" ?ev] assms[OF True] by simp
  with True show ?thesis by (auto simp: pod_turn_def split: prod.splits)
qed (simp add: pod_turn_def)

lemma caught_up_turn: "caught_up c \<Longrightarrow> pod_turn peer od c = c"
  by (simp add: caught_up_def pod_turn_def)

lemma caught_up_run: "caught_up (pod_run peer ods n c) \<Longrightarrow> pod_run peer ods (n + j) c = pod_run peer ods n c"
  by (induction j) (simp_all add: caught_up_turn)

text \<open>Every event published since the run began is quiet, and the reader advances with every turn.\<close>

definition only_quiet_since :: "('w, 'v) cluster \<Rightarrow> ('w, 'v) cluster \<Rightarrow> bool" where
  "only_quiet_since c c' \<longleftrightarrow> mem_store (cu_api c') \<and> cu_nodes c' = cu_nodes c \<and>
     (\<exists>evs. sto_pod_events (cu_api c') = sto_pod_events (cu_api c) @ evs \<and> (\<forall>ev \<in> set evs. quiet (cu_nodes c) ev)) \<and>
     cu_seen c' \<le> length (sto_pod_events (cu_api c'))"

lemma only_quiet_turn:
  assumes inv: "only_quiet_since c c'" and names: "nodes_named (cu_nodes c)" "iter_order (cu_nodes c) (od_nodes od)"
  shows "only_quiet_since c (pod_turn peer od c') \<and>
     cu_seen (pod_turn peer od c') = (if cu_seen c' < length (sto_pod_events (cu_api c')) then Suc (cu_seen c') else cu_seen c') \<and>
     (length (sto_pod_events (cu_api c)) \<le> cu_seen c' \<longrightarrow> cu_api (pod_turn peer od c') = cu_api c')"
proof -
  obtain old where old: "sto_pod_events (cu_api c') = sto_pod_events (cu_api c) @ old"
    "\<forall>ev \<in> set old. quiet (cu_nodes c) ev" using inv by (auto simp: only_quiet_since_def)
  have nodes: "cu_nodes c' = cu_nodes c" and mem: "mem_store (cu_api c')" using inv by (auto simp: only_quiet_since_def)
  obtain evs where st: "mem_store (cu_api (pod_turn peer od c'))" "cu_nodes (pod_turn peer od c') = cu_nodes c'"
    "sto_pod_events (cu_api (pod_turn peer od c')) = sto_pod_events (cu_api c') @ evs"
    "\<forall>ev \<in> set evs. quiet (cu_nodes c') ev"
    "cu_seen (pod_turn peer od c') = (if cu_seen c' < length (sto_pod_events (cu_api c')) then Suc (cu_seen c') else cu_seen c')"
    using pod_turn_step[OF mem, of od peer] names nodes by metis
  have "cu_api (pod_turn peer od c') = cu_api c'" if late: "length (sto_pod_events (cu_api c)) \<le> cu_seen c'"
  proof (rule quiet_turn)
    assume "cu_seen c' < length (sto_pod_events (cu_api c'))"
    then have "sto_pod_events (cu_api c') ! cu_seen c' \<in> set old"
      using old(1) late by (auto simp: nth_append)
    then show "quiet (cu_nodes c') (sto_pod_events (cu_api c') ! cu_seen c')" using old(2) nodes by simp
  qed
  moreover have "cu_seen c' \<le> length (sto_pod_events (cu_api c'))" using inv by (simp add: only_quiet_since_def)
  then have "only_quiet_since c (pod_turn peer od c')"
    using st old nodes by (auto simp: only_quiet_since_def)
  ultimately show ?thesis using st(5) by blast
qed

lemma only_quiet_run:
  assumes "mem_store (cu_api c)" "nodes_named (cu_nodes c)" "\<And>i. iter_order (cu_nodes c) (od_nodes (ods i))"
    and "cu_seen c \<le> length (sto_pod_events (cu_api c))"
  shows "only_quiet_since c (pod_run peer ods n c) \<and>
     min (cu_seen c + n) (length (sto_pod_events (cu_api c))) \<le> cu_seen (pod_run peer ods n c)"
proof (induction n)
  case 0
  then show ?case using assms(1,4) by (simp add: only_quiet_since_def)
next
  case (Suc n)
  let ?c = "pod_run peer ods n c"
  have "length (sto_pod_events (cu_api c)) \<le> length (sto_pod_events (cu_api ?c))"
    using Suc by (auto simp: only_quiet_since_def)
  with Suc only_quiet_turn[of c ?c "ods n" peer] assms(2,3) show ?case by auto
qed

lemma quiet_rest:
  assumes "mem_store (cu_api c)" "nodes_named (cu_nodes c)" "\<And>i. iter_order (cu_nodes c) (od_nodes (ods i))"
    and "cu_seen c \<le> length (sto_pod_events (cu_api c))"
    and "length (sto_pod_events (cu_api c)) \<le> cu_seen c + n"
  shows "cu_api (pod_run peer ods (n + j) c) = cu_api (pod_run peer ods n c) \<and>
     min (cu_seen (pod_run peer ods n c) + j) (length (sto_pod_events (cu_api (pod_run peer ods n c))))
       \<le> cu_seen (pod_run peer ods (n + j) c)"
proof (induction j)
  case (Suc j)
  let ?c = "pod_run peer ods (n + j) c"
  have inv: "only_quiet_since c ?c" and "min (cu_seen c + (n + j)) (length (sto_pod_events (cu_api c))) \<le> cu_seen ?c"
    using only_quiet_run[where ods = ods and peer = peer and n = "n + j", OF assms(1-4)] by auto
  then have "length (sto_pod_events (cu_api c)) \<le> cu_seen ?c" using assms(5) by simp
  with only_quiet_turn[OF inv assms(2), of "ods (n + j)" peer] assms(3) Suc show ?case by auto
qed simp

text \<open>
  C5. The scheduler's answers do not feed on themselves. Whatever pod events are waiting, and
  whichever of its calls the server refuses, the pod loop reacting to the events that its own
  AssignPod calls publish comes to rest: after some number of turns every published event has been
  read and no further turn does anything, as long as no node event and no other client comes in
  between.
\<close>

theorem event_feedback_settles:
  assumes "mem_store (cu_api c)" and "nodes_named (cu_nodes c)" and "\<And>i. iter_order (cu_nodes c) (od_nodes (ods i))"
    and "cu_seen c \<le> length (sto_pod_events (cu_api c))"
  shows "\<exists>n. caught_up (pod_run peer ods n c) \<and> (\<forall>m \<ge> n. pod_run peer ods m c = pod_run peer ods n c)"
proof -
  let ?k = "length (sto_pod_events (cu_api c))"
  let ?j = "length (sto_pod_events (cu_api (pod_run peer ods ?k c)))"
  have "min (cu_seen (pod_run peer ods ?k c) + ?j) ?j \<le> cu_seen (pod_run peer ods (?k + ?j) c)"
    "cu_api (pod_run peer ods (?k + ?j) c) = cu_api (pod_run peer ods ?k c)"
    using quiet_rest[where ods = ods and peer = peer and n = ?k and j = ?j, OF assms] by auto
  moreover have "cu_seen (pod_run peer ods (?k + ?j) c) \<le> length (sto_pod_events (cu_api (pod_run peer ods (?k + ?j) c)))"
    using only_quiet_run[where ods = ods and peer = peer and n = "?k + ?j", OF assms] by (simp add: only_quiet_since_def)
  ultimately have rest: "caught_up (pod_run peer ods (?k + ?j) c)" by (simp add: caught_up_def)
  moreover have "pod_run peer ods m c = pod_run peer ods (?k + ?j) c" if "?k + ?j \<le> m" for m
    using caught_up_run[OF rest, of "m - (?k + ?j)"] that by simp
  ultimately show ?thesis by blast
qed

end
