(* ===== verification/Cluster_Run.thy ===== *)
theory Cluster_Run imports Cluster begin

text \<open>
  A pod from \<open>barectl\<close>'s request to the agent of a node: creation, election, report and the order to
  run, across the API server and the scheduler; and a run over both in which a pod is left behind.
\<close>

section \<open>One pod\<close>

definition carries :: "pod_detail \<Rightarrow> pod \<Rightarrow> pod_spec \<Rightarrow> bool" where
  "carries d p sp \<longleftrightarrow> pd_core d = Some \<lparr>pw_pod = Some p, pw_spec = Some sp\<rparr>"

lemma carries_simps:
  assumes "carries d p sp"
  shows "detail_pod d = Some p" "detail_namespace d = ps_namespace sp"
    "detail_ports d = concat (map ct_ports (ps_containers sp))" "pod_key d = (ps_namespace sp, p_name p)"
    "pod_limits_of d = p_limits p" "core_status d = Some (p_status p)"
  using assms
  by (simp_all add: carries_def detail_pod_def detail_namespace_def detail_ports_def detail_spec_def pod_key_def
      pod_limits_of_def core_status_def)

lemma carries_set_status: "carries d p sp \<Longrightarrow> carries (set_core_status st d) (p\<lparr>p_status := st\<rparr>) sp"
  by (simp add: carries_def set_core_status_def)

definition outcome_status :: "assign_outcome \<Rightarrow> pod_status" where
  "outcome_status out = (case out of OutNodeName _ \<Rightarrow> PodPending | OutUnschedulable _ \<Rightarrow> PodNoNodeAvailable
     | OutOrphaned _ \<Rightarrow> PodUnknown)"

lemma carries_assigned:
  "carries d p sp \<Longrightarrow> carries (assigned_pod out d) (p\<lparr>p_status := pod_status_i32 (outcome_status out)\<rparr>) sp"
  by (cases out)
     (auto simp: assigned_pod_def outcome_status_def place_on_def mark_unplaced_def Let_def carries_def
       set_core_status_def)

lemma pod_created:
  assumes mem: "mem_store s" and run: "serve rc ord nord peer (RpcCreatePod req) s = (Inr (RepPod d), s1)"
  shows "\<exists>p sp. carries d p sp \<and> p_status p = pod_status_i32 PodPending \<and> pd_node_name d = [] \<and>
     sto_pods s (pod_key d) = None \<and>
     s1 = publish_pod_event EvAdded d (s\<lparr>sto_pods := (sto_pods s)(pod_key d \<mapsto> d)\<rparr>)"
proof -
  have made: "create_pod_impl req s = (Inr d, s1)"
    using run by (auto simp: serve_gate sbind_eq_Inr smap_def)
  then obtain x where x: "validate_create req = Inr x"
    by (cases "validate_create req") (auto simp: mem_create_pod_impl[OF mem])
  obtain pws nm ns where xx: "x = (pws, nm, ns)" by (cases x)
  have adm: "admissible pws" using x xx by (simp add: validate_create_ok_iff)
  then obtain p sp where p: "pw_pod pws = Some p" "pw_spec pws = Some sp" by (auto simp: admissible_def)
  have d: "d = created_pod pws" and rest: "sto_pods s (pod_key d) = None"
    "s1 = publish_pod_event EvAdded d (s\<lparr>sto_pods := (sto_pods s)(pod_key d \<mapsto> d)\<rparr>)"
    using made by (auto simp: mem_create_pod_impl[OF mem] x xx split: if_splits)
  have "carries d (p\<lparr>p_status := pod_status_i32 PodPending\<rparr>) sp"
    using p unfolding d created_pod_def carries_def new_pod_detail_def
    by (cases pws) simp
  moreover have "pd_node_name d = []" unfolding d by (rule created_pod_sel)
  ultimately show ?thesis using rest by (metis pod.select_convs(2) pod.surjective pod.update_convs(2))
qed

text \<open>The ledger took over one placement: its record, and, when the pod had none before, its limits once
  on its node and its host ports.\<close>

definition claimed_once ::
  "basic_scheduler \<Rightarrow> basic_scheduler \<Rightarrow> pod_key \<Rightarrow> string \<Rightarrow> resources \<Rightarrow> port list \<Rightarrow> bool" where
  "claimed_once b b' k nn lm ports \<longleftrightarrow>
     bs_nodes b' = bs_nodes b \<and> bs_placements b' = (bs_placements b)(k \<mapsto> (nn, lm, ports)) \<and>
     (bs_placements b k = None \<longrightarrow>
        (\<forall>n. claimed_of b' n = (if n = nn then add_claim (claimed_of b n) lm else claimed_of b n)) \<and>
        (\<forall>n. claimed_ports_of b' n =
          (if n = nn then claimed_ports_of b n \<union> port_keys ports else claimed_ports_of b n)))"

lemma recorded_once: "claimed_once b (record_placement ns nm nn lm ports b) (ns, nm) nn lm ports"
  by (auto simp: claimed_once_def record_placement_def claim_placement_def release_placement_def Let_def
      claimed_of_def claimed_ports_of_def fun_upd_idem split: option.splits)

text \<open>What became of a pod \<open>d\<close> between \<open>c\<close> and \<open>c'\<close>: it runs on a node, or it waits.\<close>

definition runs_on :: "('w, 'v) cluster \<Rightarrow> ('w, 'v) cluster \<Rightarrow> pod_detail \<Rightarrow> string \<Rightarrow> bool" where
  "runs_on c c' d nn \<longleftrightarrow>
     (\<exists>nd lm d'. cu_nodes c nn = Some nd \<and> pod_limits_of d = Some lm \<and>
        candidate (ss_scheduler (cu_sched c)) lm (detail_ports d) nd \<and>
        sto_pods (cu_api c') (pod_key d) = Some d' \<and> pd_node_name d' = nn \<and> pd_core d' = pd_core d \<and>
        claimed_once (ss_scheduler (cu_sched c)) (ss_scheduler (cu_sched c')) (pod_key d) nn lm (detail_ports d) \<and>
        ss_pending (cu_sched c') (pod_key d) = None \<and>
        sto_ds_events (cu_api c') = sto_ds_events (cu_api c) @
          (case sto_ds_channels (cu_api c) nn of None \<Rightarrow> []
           | Some ch \<Rightarrow> [(ch, \<lparr>dse_action = ds_action_i32 DsRun, dse_pod = pd_core d\<rparr>)]))"

definition waits :: "('w, 'v) cluster \<Rightarrow> ('w, 'v) cluster \<Rightarrow> pod_detail \<Rightarrow> bool" where
  "waits c c' d \<longleftrightarrow>
     (\<forall>lm. pod_limits_of d = Some lm \<longrightarrow>
        \<not> (\<exists>nd \<in> ran (cu_nodes c). candidate (ss_scheduler (cu_sched c)) lm (detail_ports d) nd)) \<and>
     (\<exists>d' reason. sto_pods (cu_api c') (pod_key d) = Some d' \<and> pd_node_name d' = [] \<and>
        core_status d' = Some (pod_status_i32 PodNoNodeAvailable) \<and> pd_unschedulable_reason d' = Some reason) \<and>
     ss_pending (cu_sched c') (pod_key d) = map_option (\<lambda>p. (p, detail_ports d)) (detail_pod d) \<and>
     ss_scheduler (cu_sched c') = ss_scheduler (cu_sched c) \<and>
     sto_ds_events (cu_api c') = sto_ds_events (cu_api c)"

section \<open>The two turns\<close>

lemma publish_ds_log:
  "sto_ds_events (publish_desired_state_event nn ev s) =
     sto_ds_events s @ (case sto_ds_channels s nn of None \<Rightarrow> [] | Some ch \<Rightarrow> [(ch, ev)])"
  by (simp add: publish_desired_state_event_def split: option.splits)

lemma mark_reason [simp]: "pd_unschedulable_reason (mark_unplaced st reason d) = Some reason"
  by (simp add: mark_unplaced_def)

lemma turn_on_added:
  assumes mem: "mem_store s" and role: "check_role peer RoleScheduler = Inr ()" and pod: "carries d p sp"
    and node: "pd_node_name d = []" and stored: "sto_pods s (pod_key d) = Some d"
    and ev: "ev = \<lparr>wpe_event_type = event_type_i32 EvAdded, wpe_pod = Some d\<rparr>"
    and out: "out = (case place (od_nodes od) p (detail_ports d) (ss_scheduler st) of
                Inr nn \<Rightarrow> OutNodeName nn | Inl reason \<Rightarrow> OutUnschedulable reason)"
  shows "pod_event (api_assign peer) od ev (st, s) =
     (snd (decide_locked (od_nodes od) False (ps_namespace sp) (p_name p) p (detail_ports d) st),
      tell_node out d (publish_pod_event (outcome_event out) (assigned_pod out d)
        (s\<lparr>sto_pods := (sto_pods s)(pod_key d \<mapsto> assigned_pod out d)\<rparr>)))"
proof -
  obtain dec st1 where dec: "decide_locked (od_nodes od) False (ps_namespace sp) (p_name p) p (detail_ports d) st = (Some dec, st1)"
    and outd: "ap_outcome (decision_request (ps_namespace sp) (p_name p) dec) = Some out"
    unfolding out decision_request_def
    by (cases "place (od_nodes od) p (detail_ports d) (ss_scheduler st)") (auto simp: decide_locked_def)
  let ?s = "tell_node out d (publish_pod_event (outcome_event out) (assigned_pod out d)
        (s\<lparr>sto_pods := (sto_pods s)(pod_key d \<mapsto> assigned_pod out d)\<rparr>))"
  have "request_key (decision_request (ps_namespace sp) (p_name p) dec) = pod_key d"
    using carries_simps(4)[OF pod] by simp
  then have rpc: "api_assign peer (decision_request (ps_namespace sp) (p_name p) dec) s = (Inr (), ?s)"
    using api_assign_eq[OF mem role outd] stored by simp
  have "pod_event (api_assign peer) od ev (st, s) =
      try_schedule (api_assign peer) (od_nodes od) (ps_namespace sp) (p_name p) p (detail_ports d) False (st, s)"
    using node by (simp add: pod_event_def ev carries_simps[OF pod] event_type_or_default_def event_type_of_i32_def)
  also have "\<dots> = (st1, ?s)" by (simp add: try_schedule_def dec rpc)
  finally show ?thesis by (simp add: dec)
qed

text \<open>Reading its own placement back changes nothing of it.\<close>

lemma turn_on_scheduled:
  assumes pod: "carries d p sp"
    and ev: "ev = \<lparr>wpe_event_type = event_type_i32 EvScheduled, wpe_pod = Some d\<rparr>"
    and alive: "\<not> is_confirmed_not_ready (pd_node_name d) (ss_scheduler st)"
    and placed: "bs_placements (ss_scheduler st) (pod_key d) = Some (pd_node_name d, limits_or_default p, detail_ports d)"
    and "ss_pending st (pod_key d) = None"
  shows "pod_event assign od ev (st, s) = (st, s)"
proof -
  have "drop_pending (ps_namespace sp) (p_name p) st = st"
    using assms(5) carries_simps(4)[OF pod] by (simp add: drop_pending_def fun_upd_idem)
  then show ?thesis
    using alive placed
    by (simp add: pod_event_def ev carries_simps[OF pod] seen_locked_def record_placement_def Let_def
        event_type_or_default_def event_type_of_i32_def)
qed

lemma turn_on_refused:
  "carries d p sp \<Longrightarrow> pd_node_name d = [] \<Longrightarrow>
   pod_event assign od \<lparr>wpe_event_type = event_type_i32 EvModified, wpe_pod = Some d\<rparr> sw = sw"
  by (simp add: pod_event_def carries_simps event_type_or_default_def event_type_of_i32_def)

lemma turn_at_end:
  assumes "sto_pod_events (cu_api c) = pre @ [ev]" "cu_seen c = length pre"
    and "pod_event (api_assign peer) od ev (cu_sched c, cu_api c) = (st, s)"
  shows "pod_turn peer od c = \<lparr>cu_sched = st, cu_api = s, cu_seen = Suc (length pre)\<rparr>"
  using assms by (simp add: pod_turn_def)

lemma tell_node_log:
  "sto_ds_events (tell_node out d s) = sto_ds_events s @
     (case out of OutNodeName nn \<Rightarrow>
        (case sto_ds_channels s nn of None \<Rightarrow> []
         | Some ch \<Rightarrow> [(ch, \<lparr>dse_action = ds_action_i32 DsRun, dse_pod = pd_core (assigned_pod out d)\<rparr>)])
      | _ \<Rightarrow> [])"
  by (cases out) (auto simp: tell_node_def publish_ds_log split: option.splits)

lemma two_turns:
  assumes up: "caught_up c" and mem: "mem_store (cu_api c)" and role: "check_role peer RoleScheduler = Inr ()"
    and pod: "carries d p sp" "p_status p = pod_status_i32 PodPending" "pd_node_name d = []"
    and s1: "s1 = publish_pod_event EvAdded d ((cu_api c)\<lparr>sto_pods := (sto_pods (cu_api c))(pod_key d \<mapsto> d)\<rparr>)"
    and out: "out = (case place (od_nodes (ods 0)) p (detail_ports d) (ss_scheduler (cu_sched c)) of
                Inr nn \<Rightarrow> OutNodeName nn | Inl reason \<Rightarrow> OutUnschedulable reason)"
    and alive: "\<And>nn nd. out = OutNodeName nn \<Longrightarrow> cu_nodes c nn = Some nd \<Longrightarrow> node_status_of nd \<noteq> NodeNotReady"
  shows "pod_run peer ods 2 (c\<lparr>cu_api := s1\<rparr>) =
     \<lparr>cu_sched = snd (decide_locked (od_nodes (ods 0)) False (ps_namespace sp) (p_name p) p (detail_ports d) (cu_sched c)),
      cu_api = tell_node out d (publish_pod_event (outcome_event out) (assigned_pod out d)
        (s1\<lparr>sto_pods := (sto_pods s1)(pod_key d \<mapsto> assigned_pod out d)\<rparr>)),
      cu_seen = Suc (Suc (cu_seen c))\<rparr>"
proof -
  let ?st = "snd (decide_locked (od_nodes (ods 0)) False (ps_namespace sp) (p_name p) p (detail_ports d) (cu_sched c))"
  let ?s = "tell_node out d (publish_pod_event (outcome_event out) (assigned_pod out d)
        (s1\<lparr>sto_pods := (sto_pods s1)(pod_key d \<mapsto> assigned_pod out d)\<rparr>))"
  let ?pre = "sto_pod_events (cu_api c)"
  let ?e1 = "\<lparr>wpe_event_type = event_type_i32 EvAdded, wpe_pod = Some d\<rparr>"
  let ?e2 = "\<lparr>wpe_event_type = event_type_i32 (outcome_event out), wpe_pod = Some (assigned_pod out d)\<rparr>"
  have m1: "mem_store s1" and st1: "sto_pods s1 (pod_key d) = Some d" and ev1: "sto_pod_events s1 = ?pre @ [?e1]"
    using mem by (simp_all add: s1 mem_store_def)
  have seen: "cu_seen c = length ?pre" using up by (simp add: caught_up_def)
  have first_turn: "pod_turn peer (ods 0) (c\<lparr>cu_api := s1\<rparr>) = \<lparr>cu_sched = ?st, cu_api = ?s, cu_seen = Suc (length ?pre)\<rparr>"
    by (rule turn_at_end[where ev = ?e1])
       (simp_all add: ev1 seen turn_on_added[OF m1 role pod(1,3) st1 refl out] del: event_type_i32.simps)
  have "pod_event (api_assign peer) (ods 1) ?e2 (?st, ?s) = (?st, ?s)"
  proof (cases "place (od_nodes (ods 0)) p (detail_ports d) (ss_scheduler (cu_sched c))")
    case (Inl reason)
    then have "out = OutUnschedulable reason" by (simp add: out)
    then show ?thesis
      using turn_on_refused[OF carries_assigned[OF pod(1), of out]]
      by (simp add: outcome_event_def assigned_pod_name)
  next
    case (Inr nn)
    then have o: "out = OutNodeName nn" by (simp add: out)
    have p': "p\<lparr>p_status := pod_status_i32 (outcome_status out)\<rparr> = p"
      using pod(2) by (cases p) (simp add: o outcome_status_def)
    have car: "carries (assigned_pod out d) p sp" using carries_assigned[OF pod(1), of out] unfolding p' .
    have st: "?st = (cu_sched c)\<lparr>ss_scheduler := record_placement (ps_namespace sp) (p_name p) nn (limits_or_default p)
        (detail_ports d) (ss_scheduler (cu_sched c)), ss_pending := (ss_pending (cu_sched c))((ps_namespace sp, p_name p) := None)\<rparr>"
      by (simp add: decide_locked_def Inr)
    have e: "?e2 = \<lparr>wpe_event_type = event_type_i32 EvScheduled, wpe_pod = Some (assigned_pod out d)\<rparr>"
      by (simp add: o outcome_event_def)
    have same: "pd_node_name (assigned_pod out d) = nn" "pod_key (assigned_pod out d) = (ps_namespace sp, p_name p)"
      "detail_ports (assigned_pod out d) = detail_ports d"
      using carries_simps(3,4)[OF car] carries_simps(3)[OF pod(1)] by (simp_all add: assigned_pod_name o)
    have "\<not> is_confirmed_not_ready nn (ss_scheduler ?st)"
      using alive[OF o] by (auto simp: st record_frame is_confirmed_not_ready_def split: option.splits)
    moreover have "bs_placements (ss_scheduler ?st) (ps_namespace sp, p_name p) = Some (nn, limits_or_default p, detail_ports d)"
      "ss_pending ?st (ps_namespace sp, p_name p) = None"
      by (simp_all add: st record_frame)
    ultimately show ?thesis
      unfolding same(1)[symmetric] by (intro turn_on_scheduled[OF car e]) (simp_all only: same not_False_eq_True)
  qed
  then have "pod_turn peer (ods 1) \<lparr>cu_sched = ?st, cu_api = ?s, cu_seen = Suc (length ?pre)\<rparr> =
      \<lparr>cu_sched = ?st, cu_api = ?s, cu_seen = Suc (length (?pre @ [?e1]))\<rparr>"
    by (intro turn_at_end[where ev = ?e2]) (simp_all add: ev1 del: event_type_i32.simps)
  with first_turn seen show ?thesis by (simp add: numeral_2_eq_2)
qed

text \<open>
  C1. A created pod is scheduled and the node is told. The store is the one in memory, the scheduler has
  read every pod event, it knows its nodes under their own names, and its certificate is accepted. A
  client's CreatePod succeeds; two turns of the scheduler's pod loop later it has read everything again,
  and one of two things holds. Either some ready node has room for the pod: the API server shows the
  pod on such a node, still PENDING and otherwise as created; the scheduler records that node, the
  limits and the host ports for it and changes no other record, and, unless it held a record of a
  former pod of that name, the claims of the node have grown by the limits and the ports and no other
  claim has changed; one RUN with the pod was sent on the node's channel if the channel exists, and
  nothing on any channel otherwise (the pod is then in the snapshot of the agent's next stream). Or no
  ready node has room: the API server shows it as NO_NODE_AVAILABLE with a reason, no agent is told
  anything, and the scheduler keeps the pod for a retry without any claim.
\<close>

theorem created_pod_is_scheduled:
  assumes "caught_up c" and "mem_store (cu_api c)" and "nodes_named (cu_nodes c)"
    and "iter_order (cu_nodes c) (od_nodes (ods 0))" and "check_role sched RoleScheduler = Inr ()"
    and "serve rc ord nord cli (RpcCreatePod req) (cu_api c) = (Inr (RepPod d), s1)"
  shows "caught_up (pod_run sched ods 2 (c\<lparr>cu_api := s1\<rparr>)) \<and>
     ((\<exists>nn. runs_on c (pod_run sched ods 2 (c\<lparr>cu_api := s1\<rparr>)) d nn) \<or>
      waits c (pod_run sched ods 2 (c\<lparr>cu_api := s1\<rparr>)) d)"
proof -
  obtain p sp where pod: "carries d p sp" "p_status p = pod_status_i32 PodPending" "pd_node_name d = []"
    and s1: "s1 = publish_pod_event EvAdded d ((cu_api c)\<lparr>sto_pods := (sto_pods (cu_api c))(pod_key d \<mapsto> d)\<rparr>)"
    using pod_created[OF assms(2,6)] by blast
  let ?sc = "ss_scheduler (cu_sched c)"
  obtain el where el: "place (od_nodes (ods 0)) p (detail_ports d) ?sc = el" by blast
  define out where "out = (case el of Inr nn \<Rightarrow> OutNodeName nn | Inl reason \<Rightarrow> OutUnschedulable reason)"
  have work: "workable (od_nodes (ods 0)) (cu_sched c, cu_api c)" using assms(2-4) by (simp add: workable_def)
  have alive: "node_status_of nd \<noteq> NodeNotReady" if "out = OutNodeName nn" "cu_nodes c nn = Some nd" for nn nd
    using that el placed_node_alive[OF work] by (cases el) (force simp: out_def)+
  have run: "pod_run sched ods 2 (c\<lparr>cu_api := s1\<rparr>) =
     \<lparr>cu_sched = snd (decide_locked (od_nodes (ods 0)) False (ps_namespace sp) (p_name p) p (detail_ports d) (cu_sched c)),
      cu_api = tell_node out d (publish_pod_event (outcome_event out) (assigned_pod out d)
        (s1\<lparr>sto_pods := (sto_pods s1)(pod_key d \<mapsto> assigned_pod out d)\<rparr>)),
      cu_seen = Suc (Suc (cu_seen c))\<rparr>"
    using alive by (intro two_turns[where ods = ods, OF assms(1,2,5) pod s1 out_def[folded el]])
  have seen: "cu_seen c = length (sto_pod_events (cu_api c))" using assms(1) by (simp add: caught_up_def)
  have "caught_up (pod_run sched ods 2 (c\<lparr>cu_api := s1\<rparr>))"
    unfolding run by (simp add: caught_up_def seen s1)
  moreover have "(\<exists>nn. runs_on c (pod_run sched ods 2 (c\<lparr>cu_api := s1\<rparr>)) d nn) \<or>
      waits c (pod_run sched ods 2 (c\<lparr>cu_api := s1\<rparr>)) d"
  proof (cases el)
    case (Inl reason)
    have "\<not> candidate ?sc lm (detail_ports d) nd" if "p_limits p = Some lm" "nd \<in> ran (cu_nodes c)" for lm nd
      using place_refusal[OF assms(4) el[unfolded Inl]] that by auto
    moreover have "core_status (assigned_pod out d) = Some (pod_status_i32 PodNoNodeAvailable)"
      using carries_simps(6)[OF carries_assigned[OF pod(1), of out]] by (simp add: out_def Inl outcome_status_def)
    ultimately have "waits c (pod_run sched ods 2 (c\<lparr>cu_api := s1\<rparr>)) d"
      unfolding run waits_def using carries_simps(1,2,4,5)[OF pod(1)]
      by (simp add: decide_locked_def el Inl out_def assigned_pod_def tell_node_log s1)
    then show ?thesis by blast
  next
    case (Inr nn)
    then have o: "out = OutNodeName nn" by (simp add: out_def)
    obtain lm where lm: "p_limits p = Some lm" using el Inr by (auto simp: place_def split: option.splits)
    obtain nd where nd: "cu_nodes c nn = Some nd" "candidate ?sc lm (detail_ports d) nd"
      using place_result[OF assms(4) _ lm el[unfolded Inr]] assms(3) by (auto simp: nodes_named_def)
    have "p\<lparr>p_status := pod_status_i32 (outcome_status out)\<rparr> = p"
      using pod(2) by (cases p) (simp add: o outcome_status_def)
    then have core: "pd_core (assigned_pod out d) = pd_core d"
      using carries_assigned[OF pod(1), of out] pod(1) by (simp add: carries_def)
    have "runs_on c (pod_run sched ods 2 (c\<lparr>cu_api := s1\<rparr>)) d nn"
      unfolding run runs_on_def using carries_simps(1,2,4,5)[OF pod(1)] nd core
      by (simp add: decide_locked_def el Inr o tell_node_log s1 lm limits_or_default_def record_frame assigned_pod_name
          recorded_once split: option.splits)
    then show ?thesis by blast
  qed
  ultimately show ?thesis by blast
qed

definition limited_request :: "string \<Rightarrow> pod_with_spec" where
  "limited_request nm = \<lparr>pw_pod = Some \<lparr>p_name = nm, p_status = 0, p_requests = None,
       p_limits = Some \<lparr>res_cpu = 600, res_memory = 100\<rparr>\<rparr>,
     pw_spec = Some \<lparr>ps_namespace = ''default'',
       ps_containers = [\<lparr>ct_name = ''app'', ct_image = ''nginx'', ct_ports = [], ct_env = []\<rparr>]\<rparr>\<rparr>"

definition idle_cluster :: "(unit, unit) cluster" where
  "idle_cluster = \<lparr>cu_sched = fresh_sched, cu_api = store_new (), cu_seen = 0\<rparr>"

definition both_nodes :: orders where
  "both_nodes = \<lparr>od_nodes = [''busy'', ''idle''], od_placements = [], od_pending = []\<rparr>"

lemma idle_cluster_ok:
  "caught_up idle_cluster" "mem_store (cu_api idle_cluster)" "nodes_named (cu_nodes idle_cluster)"
  "iter_order (cu_nodes idle_cluster) (od_nodes both_nodes)"
proof -
  show "caught_up idle_cluster" "mem_store (cu_api idle_cluster)"
    by (simp_all add: caught_up_def idle_cluster_def store_new_def mem_store_def)
  show "nodes_named (cu_nodes idle_cluster)" "iter_order (cu_nodes idle_cluster) (od_nodes both_nodes)"
    by (auto simp: nodes_named_def iter_order_def idle_cluster_def fresh_sched_def two_nodes_def upsert_node_def
        sample_node_def scheduler_default_def both_nodes_def split: if_splits)
qed

text \<open>What a client does between two turns.\<close>

definition cli_call :: "rpc_call \<Rightarrow> ('w, 'v) cluster \<Rightarrow> ('w, 'v) cluster" where
  "cli_call call c = c\<lparr>cu_api := snd (serve (\<lambda>_. 0) [] [] Plaintext call (cu_api c))\<rparr>"

definition web_created :: "(unit, unit) cluster" where
  "web_created = cli_call (RpcCreatePod (Some (limited_request ''web''))) idle_cluster"

definition web_scheduled :: "(unit, unit) cluster" where
  "web_scheduled = pod_run Plaintext (\<lambda>_. both_nodes) 2 web_created"

theorem created_pod_is_scheduled_witness:
  "((\<exists>nn. runs_on idle_cluster web_scheduled (created_pod (limited_request ''web'')) nn) \<or>
    waits idle_cluster web_scheduled (created_pod (limited_request ''web''))) \<and>
   map_option pd_node_name (sto_pods (cu_api web_scheduled) (''default'', ''web'')) = Some ''idle''"
proof
  have made: "serve (\<lambda>_. 0) [] [] Plaintext (RpcCreatePod (Some (limited_request ''web''))) (cu_api idle_cluster) =
      (Inr (RepPod (created_pod (limited_request ''web''))), cu_api web_created)"
  proof -
    have "fst (serve (\<lambda>_. 0) [] [] Plaintext (RpcCreatePod (Some (limited_request ''web''))) (cu_api idle_cluster)) =
        Inr (RepPod (created_pod (limited_request ''web'')))"
      by code_simp
    then show ?thesis by (simp add: web_created_def cli_call_def prod_eq_iff)
  qed
  have c: "idle_cluster\<lparr>cu_api := cu_api web_created\<rparr> = web_created"
    by (simp add: web_created_def cli_call_def)
  show "(\<exists>nn. runs_on idle_cluster web_scheduled (created_pod (limited_request ''web'')) nn) \<or>
      waits idle_cluster web_scheduled (created_pod (limited_request ''web''))"
    using created_pod_is_scheduled[where ods = "\<lambda>_. both_nodes" and sched = Plaintext, OF idle_cluster_ok _ made]
    unfolding web_scheduled_def c by simp
  show "map_option pd_node_name (sto_pods (cu_api web_scheduled) (''default'', ''web'')) = Some ''idle''"
    by code_simp
qed

theorem event_feedback_settles_witness:
  "\<exists>n. caught_up (pod_run Plaintext (\<lambda>_. both_nodes) n web_created) \<and>
     (\<forall>m \<ge> n. pod_run Plaintext (\<lambda>_. both_nodes) m web_created = pod_run Plaintext (\<lambda>_. both_nodes) n web_created)"
proof (rule event_feedback_settles)
  have "cu_sched web_created = cu_sched idle_cluster" by (simp add: web_created_def cli_call_def)
  then show "nodes_named (cu_nodes web_created)" "iter_order (cu_nodes web_created) (od_nodes both_nodes)"
    using idle_cluster_ok(3,4) by simp_all
  have "Option.is_none (sto_client (cu_api web_created))" by code_simp
  then show "mem_store (cu_api web_created)" by (simp add: mem_store_def Option.is_none_def)
  show "cu_seen web_created \<le> length (sto_pod_events (cu_api web_created))"
    by (simp add: web_created_def cli_call_def idle_cluster_def)
qed

section \<open>A name used again\<close>

text \<open>One node with room for one pod of the sample size, whose agent listens on channel 0.\<close>

definition small_cluster :: "(unit, unit) cluster" where
  "small_cluster = \<lparr>cu_sched = \<lparr>ss_scheduler = snd (upsert_node (sample_node ''busy'' 1024 1024) scheduler_default),
       ss_pending = (\<lambda>_. None)\<rparr>,
     cu_api = (store_new ())\<lparr>sto_ds_channels := [''busy'' \<mapsto> 0]\<rparr>, cu_seen = 0\<rparr>"

definition one_node :: "nat \<Rightarrow> orders" where
  "one_node i = \<lparr>od_nodes = [''busy''], od_placements = [], od_pending = [(''default'', ''web''), (''default'', ''db'')]\<rparr>"

definition full_cluster :: "(unit, unit) cluster" where
  "full_cluster = pod_run Plaintext one_node 6 (fold (\<lambda>nm. cli_call (RpcCreatePod (Some (limited_request nm))))
     [''old'', ''web'', ''db''] small_cluster)"

definition recreated_run :: "(unit, unit) cluster" where
  "recreated_run = pod_run Plaintext one_node 7
     (cli_call (RpcCreatePod (Some (limited_request ''web'')))
     (cli_call (RpcDeletePod ''default'' ''web'')
     (cli_call (RpcDeletePod ''default'' ''old'') full_cluster)))"

definition told_names :: "(unit, unit) cluster \<Rightarrow> (int \<times> string) list" where
  "told_names c = map (\<lambda>(_, ev). (dse_action ev, case dse_pod ev of None \<Rightarrow> [] | Some core \<Rightarrow>
     (case pw_pod core of None \<Rightarrow> [] | Some p \<Rightarrow> p_name p))) (sto_ds_events (cu_api c))"

text \<open>
  The run: a node has room for one pod, \<open>web\<close> and \<open>db\<close> wait for it; the pod that runs there is deleted,
  and \<open>web\<close> is deleted and created again before the scheduler has read any of it. The first retry
  places the new \<open>web\<close>, the old one's DELETED event gives its place to \<open>db\<close>, the ADDED event reports \<open>web\<close>
  unschedulable, and the SCHEDULED event of the first retry puts it back into the scheduler's record:
  the server says that no node is available, the scheduler will not retry. The pair makes the run's
  result be computed once.
\<close>

lemma recreated_result:
  "case (recreated_run, ()) of (c, _) \<Rightarrow>
     cu_seen c = length (sto_pod_events (cu_api c)) \<and>
     map_option (\<lambda>d. (pd_node_name d, core_status d)) (sto_pods (cu_api c) (''default'', ''web'')) =
       Some ([], Some (pod_status_i32 PodNoNodeAvailable)) \<and>
     map_option fst (bs_placements (ss_scheduler (cu_sched c)) (''default'', ''web'')) = Some ''busy'' \<and>
     Option.is_none (ss_pending (cu_sched c) (''default'', ''web'')) \<and>
     map_option res_cpu (bs_claimed (ss_scheduler (cu_sched c)) ''busy'') = Some 1200 \<and>
     told_names c = [(ds_action_i32 DsRun, ''old''), (ds_action_i32 DsStop, ''old''),
       (ds_action_i32 DsRun, ''web''), (ds_action_i32 DsRun, ''db'')]"
  by code_simp

end
