(* ===== verification/Ip_Addressing.thy ===== *)
theory Ip_Addressing imports Prelude begin

text \<open>
  IPv4 addresses as the standard library's \<open>Ipv4Addr\<close> has them (an address is its \<open>u32\<close>, printed
  and parsed in dotted decimal) and \<open>cni/src/addressing.rs\<close>: the addresses of a tenant on a node.
\<close>

section \<open>Addresses\<close>

type_synonym ipv4 = nat

definition ipv4_new :: "nat \<Rightarrow> nat \<Rightarrow> nat \<Rightarrow> nat \<Rightarrow> ipv4" where
  "ipv4_new a b c d = ((a * 256 + b) * 256 + c) * 256 + d"

definition octets :: "ipv4 \<Rightarrow> nat list" where
  "octets x = [x div 16777216, x div 65536 mod 256, x div 256 mod 256, x mod 256]"

definition show_ipv4 :: "ipv4 \<Rightarrow> string" where
  "show_ipv4 x = join ''.'' (map show_nat (octets x))"

text \<open>One octet: one to three digits, no leading zero, at most 255.\<close>

definition parse_octet :: "string \<Rightarrow> nat option" where
  "parse_octet s =
     (if s = [] \<or> 3 < length s \<or> (1 < length s \<and> hd s = CHR ''0'') then None
      else case digits_val 0 s of None \<Rightarrow> None | Some n \<Rightarrow> if n \<le> 255 then Some n else None)"

definition parse_ipv4 :: "string \<Rightarrow> ipv4 option" where
  "parse_ipv4 s =
     (let os = map parse_octet (split_on (CHR ''.'') s)
      in if length os = 4 \<and> None \<notin> set os
         then Some (ipv4_new (the (os ! 0)) (the (os ! 1)) (the (os ! 2)) (the (os ! 3))) else None)"

lemma base256: "r < 256 \<Longrightarrow> (q * 256 + r) div 256 = q \<and> (q * 256 + r) mod 256 = (r::nat)"
  by simp

lemma horner256:
  "x = 256 * p + r \<Longrightarrow> p = 256 * q + s \<Longrightarrow> q = 256 * t + u \<Longrightarrow> ((t * 256 + u) * 256 + s) * 256 + r = (x::nat)"
  by simp

lemma ipv4_new_octets: "x < 4294967296 \<Longrightarrow> (case octets x of [a, b, c, d] \<Rightarrow> ipv4_new a b c d = x | _ \<Rightarrow> False)"
proof -
  assume "x < 4294967296"
  have x: "x = 256 * (x div 256) + x mod 256" by simp
  have y: "x div 256 = 256 * (x div 65536) + x div 256 mod 256"
    using div_mult2_eq[of x 256 256] by simp
  have z: "x div 65536 = 256 * (x div 16777216) + x div 65536 mod 256"
    using div_mult2_eq[of x 65536 256] by simp
  show ?thesis unfolding octets_def ipv4_new_def list.case by (rule horner256[OF x y z])
qed

lemma octets_bound: "x < 4294967296 \<Longrightarrow> n \<in> set (octets x) \<Longrightarrow> n \<le> 255"
  by (auto simp: octets_def less_Suc_eq_le[symmetric] div_less_iff_less_mult)

lemma ipv4_new_bound: "a \<le> 255 \<Longrightarrow> b \<le> 255 \<Longrightarrow> c \<le> 255 \<Longrightarrow> d \<le> 255 \<Longrightarrow> ipv4_new a b c d < 4294967296"
  by (simp add: ipv4_new_def)

lemma show_nat_digits_list:
  "show_nat n = (if n < 10 then [digit_char n]
     else if n < 100 then [digit_char (n div 10), digit_char (n mod 10)]
     else show_nat (n div 10 div 10) @ [digit_char (n div 10 mod 10), digit_char (n mod 10)])"
  by (subst show_nat.simps, subst show_nat.simps) (auto simp: div_less_iff_less_mult)

lemma digit_char_nonzero: "0 < d \<Longrightarrow> d < 10 \<Longrightarrow> digit_char d \<noteq> CHR ''0''"
proof
  assume "0 < d" "d < 10" "digit_char d = CHR ''0''"
  then have "(of_char (digit_char d) :: nat) = of_char (CHR ''0'')" by simp
  with \<open>0 < d\<close> \<open>d < 10\<close> show False by simp
qed

lemma show_nat_three:
  assumes "n \<le> 255"
  shows "length (show_nat n) \<le> 3 \<and> (1 < length (show_nat n) \<longrightarrow> hd (show_nat n) \<noteq> CHR ''0'')"
proof -
  consider "n < 10" | "10 \<le> n" "n < 100" | "100 \<le> n" by linarith
  then show ?thesis
  proof cases
    case 1
    then show ?thesis by (simp add: show_nat_digits_list)
  next
    case 2
    then have "0 < n div 10" "n div 10 < 10" using div_le_mono[of 10 n 10] by (simp_all add: div_less_iff_less_mult)
    with 2 digit_char_nonzero show ?thesis by (simp add: show_nat_digits_list)
  next
    case 3
    have "1 \<le> n div 10 div 10" "n div 10 div 10 \<le> 2"
      using div_le_mono[of 100 n 10] div_le_mono[of "100 div 10" "n div 10" 10]
        div_le_mono[of n 255 10] div_le_mono[of "n div 10" "255 div 10" 10] 3 assms by simp_all
    then have d: "0 < n div 10 div 10" "n div 10 div 10 < 10" by linarith+
    have "show_nat n = show_nat (n div 10 div 10) @ [digit_char (n div 10 mod 10), digit_char (n mod 10)]"
      using 3 by (subst show_nat_digits_list) simp
    also have "show_nat (n div 10 div 10) = [digit_char (n div 10 div 10)]"
      using d by (subst show_nat.simps) simp
    finally show ?thesis using digit_char_nonzero[OF d] by simp
  qed
qed

lemma parse_octet_show: "n \<le> 255 \<Longrightarrow> parse_octet (show_nat n) = Some n"
  using show_nat_three[of n] by (auto simp: parse_octet_def digits_val_show_nat)

lemma no_dot [simp]: "CHR ''.'' \<notin> set (show_nat n)"
  by (rule show_nat_no_char) simp

text \<open>Printing an address and parsing it back gives the address.\<close>

lemma parse_show_ipv4: "x < 4294967296 \<Longrightarrow> parse_ipv4 (show_ipv4 x) = Some x"
proof -
  assume x: "x < 4294967296"
  obtain a b c d where o: "octets x = [a, b, c, d]" by (simp add: octets_def)
  have pieces: "split_on (CHR ''.'') (show_ipv4 x) = [show_nat a, show_nat b, show_nat c, show_nat d]"
    by (simp add: show_ipv4_def o split_on_append split_on_no_sep)
  have "a \<le> 255" "b \<le> 255" "c \<le> 255" "d \<le> 255" using octets_bound[OF x] o by simp_all
  then show ?thesis
    using ipv4_new_octets[OF x] by (simp add: parse_ipv4_def pieces parse_octet_show o)
qed

lemma show_ipv4_inj: "x < 4294967296 \<Longrightarrow> y < 4294967296 \<Longrightarrow> show_ipv4 x = show_ipv4 y \<Longrightarrow> x = y"
  by (metis option.inject parse_show_ipv4)

lemma parse_octet_le: "parse_octet s = Some n \<Longrightarrow> n \<le> 255"
  by (auto simp: parse_octet_def split: if_splits option.splits)

lemma parse_ipv4_bound:
  assumes "parse_ipv4 s = Some x"
  shows "x < 4294967296"
proof -
  let ?os = "map parse_octet (split_on (CHR ''.'') s)"
  have os: "length ?os = 4" "None \<notin> set ?os"
      "x = ipv4_new (the (?os ! 0)) (the (?os ! 1)) (the (?os ! 2)) (the (?os ! 3))"
    using assms by (auto simp: parse_ipv4_def Let_def split: if_splits)
  have "the (?os ! i) \<le> 255" if "i < 4" for i
  proof -
    have "?os ! i \<in> set ?os" using that os(1) by (metis nth_mem)
    moreover from this obtain n where "?os ! i = Some n" using os(2) by (metis not_None_eq)
    ultimately show ?thesis using parse_octet_le by auto
  qed
  then show ?thesis unfolding os(3) by (intro ipv4_new_bound) (simp_all del: nth_map)
qed

section \<open>The addresses of a tenant on a node\<close>

definition gateway :: "nat \<Rightarrow> nat \<Rightarrow> ipv4" where
  "gateway vlan node = ipv4_new 10 vlan node 1"

definition pool_range :: "nat \<Rightarrow> nat \<Rightarrow> ipv4 \<times> ipv4" where
  "pool_range vlan node = (ipv4_new 10 vlan node 2, ipv4_new 10 vlan node 254)"

definition in_pool :: "nat \<Rightarrow> nat \<Rightarrow> ipv4 \<Rightarrow> bool" where
  "in_pool vlan node x \<longleftrightarrow> fst (pool_range vlan node) \<le> x \<and> x \<le> snd (pool_range vlan node)"

lemma in_pool_block:
  assumes "in_pool v n x"
  shows "x div 256 = (2560 + v) * 256 + n" "2 \<le> x mod 256"
proof -
  have "((2560 + v) * 256 + n) * 256 + 2 \<le> x" "x \<le> ((2560 + v) * 256 + n) * 256 + 254"
    using assms by (simp_all add: in_pool_def pool_range_def ipv4_new_def)
  moreover define r where "r = x - ((2560 + v) * 256 + n) * 256"
  ultimately have r: "x = ((2560 + v) * 256 + n) * 256 + r" "2 \<le> r" "r \<le> 254" by linarith+
  then show "x div 256 = (2560 + v) * 256 + n" "2 \<le> x mod 256"
    using base256[of r "(2560 + v) * 256 + n"] unfolding r(1) by linarith+
qed

lemma block_inj:
  assumes "(2560 + v) * 256 + n = (2560 + v') * 256 + (n'::nat)" "n \<le> 255" "n' \<le> 255"
  shows "v = v' \<and> n = n'"
proof -
  have "n < 256" "n' < 256" using assms(2,3) by linarith+
  from base256[OF this(1), of "2560 + v"] base256[OF this(2), of "2560 + v'"]
  have "2560 + v = 2560 + v'" "n = n'" unfolding assms(1) by metis+
  then show ?thesis by simp
qed

lemma in_pool_disjoint:
  "in_pool v n x \<Longrightarrow> in_pool v' n' x \<Longrightarrow> n \<le> 255 \<Longrightarrow> n' \<le> 255 \<Longrightarrow> v = v' \<and> n = n'"
  using in_pool_block(1)[of v n x] in_pool_block(1)[of v' n' x] block_inj by metis

lemma in_pool_bound: "in_pool v n x \<Longrightarrow> v \<le> 255 \<Longrightarrow> n \<le> 255 \<Longrightarrow> x < 4294967296"
  by (simp add: in_pool_def pool_range_def ipv4_new_def)

lemma gateway_not_in_pool: "\<not> in_pool v' n' (gateway v n)"
proof
  assume "in_pool v' n' (gateway v n)"
  from in_pool_block(2)[OF this] base256[of 1 "(10 * 256 + v) * 256 + n"] show False
    unfolding gateway_def ipv4_new_def by simp
qed

end
