(* ===== verification/Cni_Host.thy ===== *)
theory Cni_Host imports Proto_Types Ip_Addressing begin

text \<open>
  What the CNI daemon (\<open>cni/\<close>) runs on: its durable files, the kernel it configures through
  commands, and \<open>cni/src/network/system.rs\<close>. The commands, the environment, the file system's
  failures, network namespaces, SHA-256 and the parser of IP addresses of both versions are the
  parameter \<open>host\<close>; \<open>h_fault\<close> says which file-system call fails, numbered by the clock.
\<close>

section \<open>Files and the world\<close>

text \<open>\<open>WorkloadRecord\<close> of \<open>cni/src/state.rs\<close>.\<close>

record workload_record =
  wr_workload_name :: string
  wr_instance_name :: string
  wr_network_name :: string
  wr_host_interface :: string
  wr_interface_name :: string
  wr_ip_address :: string
  wr_gateway :: string
  wr_vlan_id :: nat
  wr_port_mappings :: "port list"

text \<open>A file the daemon writes as JSON: its value, or bytes that are no such value.\<close>

datatype 'a stored = Content 'a | Garbage

text \<open>An entry of the pool directory: a directory with or without \<open>ip-pool.json\<close>, or anything else.\<close>

datatype pool_entry = PoolDir "ipv4 set stored option" | NotDir

datatype fs_call =
  FsCreateDir | FsChmod | FsOpen | FsLock | FsRead | FsWrite | FsPersist | FsSyncDir | FsRemove | FsReadDir | FsFcntl

record 'k cni =
  c_state :: "string \<rightharpoonup> workload_record stored"
  c_pools :: "string \<rightharpoonup> pool_entry"
  c_kernel :: 'k
  c_clock :: nat

record ns_file =
  nf_fd :: nat
  nf_id :: "nat \<times> nat"

record 'k host =
  h_env :: "string \<Rightarrow> string option"
  h_is_root :: bool
  h_is_file :: "string \<Rightarrow> bool"
  h_status :: "string \<Rightarrow> string list \<Rightarrow> 'k \<Rightarrow> (io_error + bool) \<times> 'k"
  h_output :: "string \<Rightarrow> string list \<Rightarrow> 'k \<Rightarrow> (io_error + bool \<times> string) \<times> 'k"
  h_fault :: "nat \<Rightarrow> fs_call \<Rightarrow> io_error option"
  h_open_ns :: "string \<Rightarrow> 'k \<Rightarrow> io_error + ns_file"
  h_ns_id :: "string \<Rightarrow> 'k \<Rightarrow> io_error + nat \<times> nat"
  h_digest :: "string \<Rightarrow> nat list"
  h_parse_ip :: "string \<Rightarrow> string option"
  h_too_large :: "workload_record \<Rightarrow> bool"

type_synonym ('k, 'a) io = "('k cni, io_error, 'a) op"

definition fail_with :: "io_kind \<Rightarrow> string \<Rightarrow> ('k, 'a) io" where
  "fail_with k msg = sfail (IoError k msg)"

definition fs :: "'k host \<Rightarrow> fs_call \<Rightarrow> ('k, unit) io" where
  "fs h c s = (case h_fault h (c_clock s) c of
     None \<Rightarrow> (Inr (), s\<lparr>c_clock := Suc (c_clock s)\<rparr>)
   | Some e \<Rightarrow> (Inl e, s\<lparr>c_clock := Suc (c_clock s)\<rparr>))"

text \<open>\<open>let _ = r\<close>: an error is dropped, the effects stay.\<close>

definition ignoring :: "('k, 'a) io \<Rightarrow> ('k, unit) io" where
  "ignoring f s = (Inr (), snd (f s))"

text \<open>\<open>if let Err(error) = r\<close> with a cleanup that returns the error.\<close>

definition on_error :: "('k, 'a) io \<Rightarrow> ('k, unit) io \<Rightarrow> ('k, 'a) io" where
  "on_error f cleanup s = (case f s of
     (Inl e, s1) \<Rightarrow> (Inl e, snd (cleanup s1))
   | (Inr x, s1) \<Rightarrow> (Inr x, s1))"

section \<open>Commands (\<open>system.rs\<close>)\<close>

definition tool_directories :: "string list" where
  "tool_directories = [''/usr/sbin'', ''/sbin'', ''/usr/bin'', ''/bin'']"

definition env_nonempty :: "'k host \<Rightarrow> string \<Rightarrow> string option" where
  "env_nonempty h v = (case h_env h v of None \<Rightarrow> None | Some x \<Rightarrow> if x = [] then None else Some x)"

definition default_mtu :: nat where
  "default_mtu = 1450"

definition mtu :: "'k host \<Rightarrow> io_error + nat" where
  "mtu h = (case env_nonempty h ''BARENETES_MTU'' of
     None \<Rightarrow> Inr default_mtu
   | Some v \<Rightarrow>
       (case parse_u32 v of
          None \<Rightarrow> Inl (IoError KInvalidInput ''BARENETES_MTU must be between 576 and 9000'')
        | Some n \<Rightarrow> if 576 \<le> n \<and> n \<le> 9000 then Inr n
                     else Inl (IoError KInvalidInput ''BARENETES_MTU must be between 576 and 9000'')))"

definition resolve :: "'k host \<Rightarrow> string \<Rightarrow> io_error + string" where
  "resolve h program =
     (let variable = ''BARENETES_'' @ map upper_char program @ ''_BIN''
      in case h_env h variable of
           Some path \<Rightarrow>
             if h_is_file h path then Inr path
             else Inl (IoError KNotFound (variable @ '' does not point to an existing file''))
         | None \<Rightarrow>
             ok_or (List.find (h_is_file h) (map (\<lambda>d. d @ ''/'' @ program) tool_directories))
               (IoError KNotFound (program @ '' not found in '' @ join '', '' tool_directories @ ''; set '' @
                  variable @ '' to its absolute path'')))"

definition succeeds :: "'k host \<Rightarrow> string \<Rightarrow> string list \<Rightarrow> ('k, bool) io" where
  "succeeds h program args s =
     (case resolve h program of
        Inl e \<Rightarrow> (Inl e, s)
      | Inr path \<Rightarrow>
          (let (r, k) = h_status h path ((if program = ''iptables'' then [''-w'', ''5''] else []) @ args) (c_kernel s)
           in (r, s\<lparr>c_kernel := k\<rparr>)))"

definition run_failed :: "string \<Rightarrow> string list \<Rightarrow> io_error" where
  "run_failed program args = IoError KOther (''network command failed: '' @ program @ '' '' @ join '' '' args)"

definition run :: "'k host \<Rightarrow> string \<Rightarrow> string list \<Rightarrow> ('k, unit) io" where
  "run h program args =
     sbind (succeeds h program args) (\<lambda>ok. if ok then sret () else sfail (run_failed program args))"

definition cmd_output :: "'k host \<Rightarrow> string \<Rightarrow> string list \<Rightarrow> ('k, string) io" where
  "cmd_output h program args s =
     (case resolve h program of
        Inl e \<Rightarrow> (Inl e, s)
      | Inr path \<Rightarrow>
          (let (r, k) = h_output h path args (c_kernel s)
           in (case r of
                 Inl e \<Rightarrow> Inl e
               | Inr (ok, out) \<Rightarrow> if ok then Inr out else Inl (run_failed program args),
               s\<lparr>c_kernel := k\<rparr>)))"

text \<open>A sequence of commands, stopping at the first that fails.\<close>

fun run_all :: "'k host \<Rightarrow> (string \<times> string list) list \<Rightarrow> ('k, unit) io" where
  "run_all h [] = sret ()"
| "run_all h ((program, args) # cs) = sbind (run h program args) (\<lambda>_. run_all h cs)"

section \<open>Files are out of reach of commands\<close>

text \<open>\<open>same_files\<close> relates two worlds whose durable files agree.\<close>

definition same_files :: "'k cni \<Rightarrow> 'k cni \<Rightarrow> bool" where
  "same_files s t \<longleftrightarrow> c_state t = c_state s \<and> c_pools t = c_pools s"

abbreviation keeps_files :: "('k, 'a) io \<Rightarrow> bool" where
  "keeps_files \<equiv> op_keeps (\<lambda>_. True) same_files"

interpretation files: step_rel "\<lambda>_. True" "same_files :: 'k cni \<Rightarrow> 'k cni \<Rightarrow> bool"
  by unfold_locales (auto simp: same_files_def)

named_theorems files_kept \<open>computations that leave the durable files alone\<close>

lemma keeps_filesI: "(\<And>s r s'. f s = (r, s') \<Longrightarrow> same_files s s') \<Longrightarrow> keeps_files f"
  by (rule op_keepsI) auto

lemma keeps_filesD: "keeps_files f \<Longrightarrow> f s = (r, s') \<Longrightarrow> c_state s' = c_state s \<and> c_pools s' = c_pools s"
  using op_keepsD[of "\<lambda>_. True" same_files f s r s'] by (simp add: same_files_def)

lemma keeps_files_base [files_kept]:
  "keeps_files (succeeds h p args)" "keeps_files (cmd_output h p args)" "keeps_files (fs h c)"
  "keeps_files (fail_with k m)"
  by (rule keeps_filesI, force simp: succeeds_def cmd_output_def fs_def fail_with_def same_files_def Let_def
      split: sum.splits prod.splits option.splits)+

lemma keeps_files_run [files_kept]: "keeps_files (run h p args)"
  unfolding run_def by (intro files.keeps_rules keeps_files_base)

lemma keeps_files_run_all [files_kept]: "keeps_files (run_all h cs)"
proof (induction cs)
  case Nil
  show ?case unfolding run_all.simps by (rule files.keeps_pure)
next
  case (Cons c cs)
  then show ?case
    by (cases c) (simp only: run_all.simps, intro files.keeps_sbind keeps_files_run Cons)
qed

lemma keeps_files_ignoring: "keeps_files f \<Longrightarrow> keeps_files (ignoring f)"
proof (rule keeps_filesI)
  fix s r s' assume f: "keeps_files f" and run: "ignoring f s = (r, s')"
  obtain r1 where "f s = (r1, s')" using run by (cases "f s") (auto simp: ignoring_def)
  from keeps_filesD[OF f this] show "same_files s s'" by (simp add: same_files_def)
qed

lemma keeps_files_on_error:
  assumes f: "keeps_files f" and g: "keeps_files g"
  shows "keeps_files (on_error f g)"
proof (rule keeps_filesI)
  fix s r s' assume run: "on_error f g s = (r, s')"
  obtain r1 s1 where one: "f s = (r1, s1)" by fastforce
  obtain r2 s2 where two: "g s1 = (r2, s2)" by fastforce
  have "s' = s1 \<or> s' = s2" using run one two by (auto simp: on_error_def split: sum.splits)
  with keeps_filesD[OF f one] keeps_filesD[OF g two] show "same_files s s'" by (auto simp: same_files_def)
qed

lemmas files_rules = files.keeps_rules keeps_files_ignoring keeps_files_on_error

end
