(* ===== verification/Agent_Host.thy ===== *)
theory Agent_Host imports Cni_Host Tls_Identity begin

text \<open>
  The node agent (\<open>agent/\<close>): what it runs on, its sticky VLAN allocations (\<open>vlan.rs\<close>) and the
  cgroup of a pod (\<open>cgroup.rs\<close>). containerd, the CNI daemon, the cgroup file system and the file
  \<open>vlans.json\<close> are behind the parameter \<open>agent_env\<close>: one function per call, over a world \<open>'w\<close>
  of its own.
\<close>

section \<open>The world of the agent\<close>

datatype json = JNull | JBool bool | JNum int | JStr string | JArr "json list" | JObj "(string \<times> json) list"

text \<open>\<open>CreateContainerRequest\<close>, the fields the agent sets.\<close>

record ctr_spec =
  cr_id :: string
  cr_image :: string
  cr_runtime :: string
  cr_spec :: json
  cr_snapshotter :: string
  cr_snapshot_key :: string
  cr_labels :: "(string \<times> string) list"

type_synonym ('w, 'a) call = "'w \<Rightarrow> (status + 'a) \<times> 'w"

text \<open>\<open>VlanState\<close>: the hash map of pod ids to VLANs, as an association list with the newest entry first.\<close>

type_synonym vlan_state = "(string \<times> nat) list"

record 'w agent_env =
  ae_arch :: string
  ae_digest :: "string \<Rightarrow> string"
  ae_transfer :: "string \<Rightarrow> string \<Rightarrow> ('w, unit) call"
  ae_image_target :: "string \<Rightarrow> ('w, string option) call"
  ae_read_content :: "string \<Rightarrow> ('w, json option) call"
  ae_prepare :: "string \<Rightarrow> string \<Rightarrow> ('w, string list) call"
  ae_create :: "ctr_spec \<Rightarrow> ('w, unit) call"
  ae_task_create :: "string \<Rightarrow> string list \<Rightarrow> ('w, nat) call"
  ae_task_start :: "string \<Rightarrow> ('w, unit) call"
  ae_list :: "string \<Rightarrow> ('w, string list) call"
  ae_kill :: "string \<Rightarrow> nat \<Rightarrow> ('w, unit) call"
  ae_wait :: "string \<Rightarrow> nat \<Rightarrow> 'w \<Rightarrow> bool \<times> 'w"
  ae_task_delete :: "string \<Rightarrow> ('w, unit) call"
  ae_delete :: "string \<Rightarrow> ('w, unit) call"
  ae_snapshot_remove :: "string \<Rightarrow> ('w, unit) call"
  ae_add_network :: "add_network_request \<Rightarrow> ('w, workload_network option) call"
  ae_delete_network :: "workload_ref \<Rightarrow> network_ref \<Rightarrow> ('w, bool) call"
  ae_exists :: "string \<Rightarrow> 'w \<Rightarrow> bool"
  ae_mkdir :: "string \<Rightarrow> 'w \<Rightarrow> (io_error + unit) \<times> 'w"
  ae_write :: "string \<Rightarrow> string \<Rightarrow> 'w \<Rightarrow> (io_error + unit) \<times> 'w"
  ae_leaves :: "string \<Rightarrow> 'w \<Rightarrow> string list option"
  ae_rmdir :: "string \<Rightarrow> 'w \<Rightarrow> (io_error + unit) \<times> 'w"
  ae_read_vlans :: "'w \<Rightarrow> io_error + vlan_state option"
  ae_write_vlans :: "vlan_state \<Rightarrow> 'w \<Rightarrow> (io_error + unit) \<times> 'w"

record 'w agent =
  ag_vlans :: vlan_state
  ag_world :: 'w

type_synonym ('w, 'e, 'a) act = "('w agent, 'e, 'a) op"

text \<open>A call of the outside world.\<close>

definition on_world :: "('w \<Rightarrow> ('e + 'a) \<times> 'w) \<Rightarrow> ('w, 'e, 'a) act" where
  "on_world f s = (let (r, w) = f (ag_world s) in (r, s\<lparr>ag_world := w\<rparr>))"

text \<open>An error that is only logged, \<open>.ok()\<close> or \<open>if let Err\<close>.\<close>

definition logged :: "('w, 'e, 'a) act \<Rightarrow> ('w, 'f, unit) act" where
  "logged f s = (Inr (), snd (f s))"

section \<open>VLAN allocations (\<open>vlan.rs\<close>)\<close>

definition first_vlan :: nat where "first_vlan = 2"

definition last_vlan :: nat where "last_vlan = 4094"

definition vlans_new :: "'w agent_env \<Rightarrow> 'w \<Rightarrow> io_error + vlan_state" where
  "vlans_new env w = (case ae_read_vlans env w of
     Inl e \<Rightarrow> if io_kind e = KNotFound then Inr [] else Inl e
   | Inr None \<Rightarrow> Inl (IoError KInvalidData ''invalid vlan state'')
   | Inr (Some m) \<Rightarrow> Inr m)"

definition save_vlans :: "'w agent_env \<Rightarrow> ('w, io_error, unit) act" where
  "save_vlans env s = on_world (ae_write_vlans env (ag_vlans s)) s"

definition free_vlan :: "vlan_state \<Rightarrow> nat option" where
  "free_vlan m = List.find (\<lambda>v. v \<notin> set (map snd m)) [first_vlan..<Suc last_vlan]"

definition allocate_for :: "'w agent_env \<Rightarrow> string \<Rightarrow> ('w, io_error, nat) act" where
  "allocate_for env pod_id s =
     (case map_of (ag_vlans s) pod_id of
        Some v \<Rightarrow> (Inr v, s)
      | None \<Rightarrow>
          (case free_vlan (ag_vlans s) of
             None \<Rightarrow> (Inl (IoError KOther ''no free vlan left''), s)
           | Some v \<Rightarrow>
               sbind (save_vlans env) (\<lambda>_. sret v) (s\<lparr>ag_vlans := (pod_id, v) # ag_vlans s\<rparr>)))"

definition release_vlan :: "'w agent_env \<Rightarrow> string \<Rightarrow> ('w, io_error, unit) act" where
  "release_vlan env pod_id s =
     (if map_of (ag_vlans s) pod_id \<noteq> None
      then save_vlans env (s\<lparr>ag_vlans := filter (\<lambda>(i, _). i \<noteq> pod_id) (ag_vlans s)\<rparr>)
      else (Inr (), s))"

definition vlan_of :: "'w agent \<Rightarrow> string \<Rightarrow> nat option" where
  "vlan_of s pod_id = map_of (ag_vlans s) pod_id"

section \<open>Pod cgroups (\<open>cgroup.rs\<close>)\<close>

definition cgroup_root :: string where "cgroup_root = ''/sys/fs/cgroup''"

definition slice :: string where "slice = ''barenetes''"

definition cpu_period :: int where "cpu_period = 100000"

definition cpu_min_quota :: int where "cpu_min_quota = 1000"

definition controllers :: string where "controllers = ''+cpu +memory''"

definition pod_path :: "string \<Rightarrow> string" where
  "pod_path pod_id = ''/'' @ slice @ ''/'' @ pod_id"

definition pod_dir :: "string \<Rightarrow> io_error + string" where
  "pod_dir pod_id =
     (if pod_id = [] \<or> CHR ''/'' \<in> set pod_id \<or> (\<forall>c \<in> set pod_id. c = CHR ''.'')
      then Inl (IoError KOther (dquote @ pod_id @ dquote @ '' is not a usable cgroup name''))
      else Inr (cgroup_root @ ''/'' @ slice @ ''/'' @ pod_id))"

text \<open>Both name the file they failed on.\<close>

definition named_error :: "string \<Rightarrow> io_error \<Rightarrow> io_error" where
  "named_error path e = IoError (io_kind e) (path @ '': '' @ io_text e)"

definition cg_mkdir :: "'w agent_env \<Rightarrow> string \<Rightarrow> ('w, io_error, unit) act" where
  "cg_mkdir env path = smap_err (named_error path) (on_world (ae_mkdir env path))"

definition cg_write :: "'w agent_env \<Rightarrow> string \<Rightarrow> string \<Rightarrow> ('w, io_error, unit) act" where
  "cg_write env path v = smap_err (named_error path) (on_world (ae_write env path v))"

definition delegate :: "'w agent_env \<Rightarrow> string \<Rightarrow> ('w, io_error, unit) act" where
  "delegate env cgroup = cg_write env (cgroup @ ''/cgroup.subtree_control'') controllers"

definition cpu_max :: "int \<Rightarrow> string" where
  "cpu_max cpu = show_int (max (cpu * cpu_period div 1000) cpu_min_quota) @ '' '' @ show_int cpu_period"

definition memory_bytes :: "int \<Rightarrow> int" where
  "memory_bytes memory = memory * 1024 * 1024"

text \<open>\<open>filter\<close> on an optional number.\<close>

definition positive :: "int option \<Rightarrow> int option" where
  "positive x = (case x of Some v \<Rightarrow> if 0 < v then Some v else None | None \<Rightarrow> None)"

definition limit_files :: "resources option \<Rightarrow> (string \<times> string) list" where
  "limit_files limits =
     (let cpu = positive (map_option res_cpu limits); memory = positive (map_option res_memory limits)
      in [(''cpu.max'', case cpu of None \<Rightarrow> ''max '' @ show_int cpu_period | Some c \<Rightarrow> cpu_max c),
          (''memory.max'', case memory of None \<Rightarrow> ''max'' | Some m \<Rightarrow> show_int (memory_bytes m)),
          (''memory.swap.max'', case memory of None \<Rightarrow> ''max'' | Some _ \<Rightarrow> ''0'')])"

fun write_limits :: "'w agent_env \<Rightarrow> string \<Rightarrow> (string \<times> string) list \<Rightarrow> ('w, io_error, unit) act" where
  "write_limits env pod [] = sret ()"
| "write_limits env pod ((f, v) # fvs) = sbind (cg_write env (pod @ ''/'' @ f) v) (\<lambda>_. write_limits env pod fvs)"

definition set_limits :: "resources option \<Rightarrow> resources option" where
  "set_limits limits = (case limits of
     Some l \<Rightarrow> if 0 < res_cpu l \<or> 0 < res_memory l then Some l else None | None \<Rightarrow> None)"

definition cgroup_create_pod :: "'w agent_env \<Rightarrow> string \<Rightarrow> resources option \<Rightarrow> ('w, io_error, unit) act" where
  "cgroup_create_pod env pod_id limits =
     sbind (slift (pod_dir pod_id)) (\<lambda>pod. swith (\<lambda>s.
       if set_limits limits = None \<and> \<not> ae_exists env pod (ag_world s) then sret ()
       else if \<not> ae_exists env (cgroup_root @ ''/cgroup.controllers'') (ag_world s)
       then sfail (IoError KOther (''resource limits need a cgroup v2 hierarchy mounted at '' @ cgroup_root))
       else sbind (cg_mkdir env (cgroup_root @ ''/'' @ slice)) (\<lambda>_.
            sbind (delegate env cgroup_root) (\<lambda>_.
            sbind (delegate env (cgroup_root @ ''/'' @ slice)) (\<lambda>_.
            sbind (cg_mkdir env pod) (\<lambda>_.
            write_limits env pod (limit_files (set_limits limits))))))))"

fun remove_leaves :: "'w agent_env \<Rightarrow> string \<Rightarrow> string list \<Rightarrow> ('w, io_error, unit) act" where
  "remove_leaves env pod [] = sret ()"
| "remove_leaves env pod (l # ls) =
     sbind (logged (on_world (ae_rmdir env (pod @ ''/'' @ l)))) (\<lambda>_. remove_leaves env pod ls)"

definition missing_ok :: "('w, io_error, unit) act \<Rightarrow> ('w, io_error, unit) act" where
  "missing_ok f s = (case f s of
     (Inl e, s1) \<Rightarrow> if io_kind e = KNotFound then (Inr (), s1) else (Inl e, s1)
   | (Inr u, s1) \<Rightarrow> (Inr u, s1))"

definition cgroup_remove_pod :: "'w agent_env \<Rightarrow> string \<Rightarrow> ('w, io_error, unit) act" where
  "cgroup_remove_pod env pod_id =
     sbind (slift (pod_dir pod_id)) (\<lambda>pod.
     sbind (swith (\<lambda>s. case ae_leaves env pod (ag_world s) of None \<Rightarrow> sret () | Some ls \<Rightarrow> remove_leaves env pod ls)) (\<lambda>_.
     missing_ok (on_world (ae_rmdir env pod))))"

end
