(* ===== verification/Agent_Containerd.thy ===== *)
theory Agent_Containerd imports Agent_Host begin

text \<open>
  \<open>agent/src/oci.rs\<close> and \<open>agent/src/containerd.rs\<close>: the runtime spec of a container, and what the
  agent asks containerd to do for a pod. Each gRPC call is one call of \<open>agent_env\<close>; the namespace
  header is the same constant on all of them and left out.
\<close>

section \<open>Runtime spec (\<open>oci.rs\<close>)\<close>

definition strs :: "string list \<Rightarrow> json" where
  "strs xs = JArr (map JStr xs)"

definition mount :: "string \<Rightarrow> string \<Rightarrow> string \<Rightarrow> string list \<Rightarrow> json" where
  "mount destination kind source options =
     JObj ([(''destination'', JStr destination), (''type'', JStr kind), (''source'', JStr source)] @
           (if options = [] then [] else [(''options'', strs options)]))"

definition oci_mounts :: json where
  "oci_mounts = JArr
     [mount ''/proc'' ''proc'' ''proc'' [],
      mount ''/dev'' ''tmpfs'' ''tmpfs'' [''nosuid'', ''strictatime'', ''mode=755'', ''size=65536k''],
      mount ''/dev/pts'' ''devpts'' ''devpts''
        [''nosuid'', ''noexec'', ''newinstance'', ''ptmxmode=0666'', ''mode=0620'', ''gid=5''],
      mount ''/dev/shm'' ''tmpfs'' ''shm'' [''nosuid'', ''noexec'', ''nodev'', ''mode=1777'', ''size=65536k''],
      mount ''/dev/mqueue'' ''mqueue'' ''mqueue'' [''nosuid'', ''noexec'', ''nodev''],
      mount ''/sys'' ''sysfs'' ''sysfs'' [''nosuid'', ''noexec'', ''nodev'', ''ro'']]"

definition oci_linux :: "string \<Rightarrow> json" where
  "oci_linux cgroups_path = JObj
     [(''cgroupsPath'', JStr cgroups_path),
      (''namespaces'', JArr (map (\<lambda>t. JObj [(''type'', JStr t)]) [''pid'', ''ipc'', ''uts'', ''mount'', ''network''])),
      (''maskedPaths'', strs [''/proc/kcore'', ''/proc/latency_stats'', ''/proc/timer_list'', ''/proc/sched_debug'',
         ''/sys/firmware'']),
      (''readonlyPaths'', strs [''/proc/asound'', ''/proc/bus'', ''/proc/fs'', ''/proc/irq'', ''/proc/sys'',
         ''/proc/sysrq-trigger''])]"

definition oci_spec :: "string \<Rightarrow> string list \<Rightarrow> string list \<Rightarrow> string \<Rightarrow> string \<Rightarrow> json" where
  "oci_spec hostname args env_vars cwd cgroups_path = JObj
     [(''ociVersion'', JStr ''1.0.2''),
      (''process'', JObj
         [(''terminal'', JBool False),
          (''user'', JObj [(''uid'', JNum 0), (''gid'', JNum 0)]),
          (''args'', strs args),
          (''env'', strs env_vars),
          (''cwd'', JStr (if cwd = [] then ''/'' else cwd)),
          (''noNewPrivileges'', JBool True)]),
      (''root'', JObj [(''path'', JStr ''rootfs''), (''readonly'', JBool False)]),
      (''hostname'', JStr hostname),
      (''mounts'', oci_mounts),
      (''linux'', oci_linux cgroups_path)]"

section \<open>JSON access\<close>

definition json_get :: "json \<Rightarrow> string \<Rightarrow> json" where
  "json_get j k = (case j of JObj kvs \<Rightarrow> (case map_of kvs k of Some v \<Rightarrow> v | None \<Rightarrow> JNull) | _ \<Rightarrow> JNull)"

definition as_str :: "json \<Rightarrow> string option" where
  "as_str j = (case j of JStr s \<Rightarrow> Some s | _ \<Rightarrow> None)"

definition as_array :: "json \<Rightarrow> json list option" where
  "as_array j = (case j of JArr xs \<Rightarrow> Some xs | _ \<Rightarrow> None)"

definition strings :: "json \<Rightarrow> string list" where
  "strings j = (case as_array j of None \<Rightarrow> [] | Some vs \<Rightarrow> List.map_filter as_str vs)"

section \<open>Names (\<open>containerd.rs\<close>)\<close>

definition snapshotter :: string where "snapshotter = ''overlayfs''"

definition ctr_runtime :: string where "ctr_runtime = ''io.containerd.runc.v2''"

definition pod_label :: string where "pod_label = ''barenetes.io/pod''"

definition sigterm :: nat where "sigterm = 15"

definition sigkill :: nat where "sigkill = 9"

definition container_id :: "string \<Rightarrow> string \<Rightarrow> string" where
  "container_id pod container = pod @ ''-'' @ container"

definition normalize_reference :: "string \<Rightarrow> string" where
  "normalize_reference img =
     (let segments = split_on (CHR ''/'') img;
          first_segment = hd segments;
          has_registry_host = CHR ''/'' \<in> set img \<and>
            (first_segment = ''localhost'' \<or> CHR ''.'' \<in> set first_segment \<or> CHR '':'' \<in> set first_segment);
          qualified = (if has_registry_host then img
                       else if CHR ''/'' \<in> set img then ''docker.io/'' @ img
                       else ''docker.io/library/'' @ img);
          last_segment = last (split_on (CHR ''/'') qualified)
      in if CHR ''@'' \<in> set last_segment \<or> CHR '':'' \<in> set last_segment then qualified
         else qualified @ '':latest'')"

definition platform_arch :: "'w agent_env \<Rightarrow> string" where
  "platform_arch env =
     (if ae_arch env = ''x86_64'' then ''amd64'' else if ae_arch env = ''aarch64'' then ''arm64'' else ae_arch env)"

definition platform_os :: string where "platform_os = ''linux''"

fun chain_from :: "'w agent_env \<Rightarrow> string \<Rightarrow> string list \<Rightarrow> string" where
  "chain_from env chain [] = chain"
| "chain_from env chain (d # ds) = chain_from env (''sha256:'' @ ae_digest env (chain @ '' '' @ d)) ds"

definition chain_id :: "'w agent_env \<Rightarrow> string list \<Rightarrow> string" where
  "chain_id env diff_ids = (case diff_ids of [] \<Rightarrow> [] | d # ds \<Rightarrow> chain_from env d ds)"

text \<open>Deleting what is already gone is not an error.\<close>

definition ignore_missing :: "('w, status, 'a) act \<Rightarrow> ('w, status, 'a option) act" where
  "ignore_missing f s = (case f s of
     (Inr x, s1) \<Rightarrow> (Inr (Some x), s1)
   | (Inl e, s1) \<Rightarrow> if st_code e = NotFound then (Inr None, s1) else (Inl e, s1))"

section \<open>Images\<close>

record image_config =
  ic_parent :: string
  ic_args :: "string list"
  ic_env :: "string list"
  ic_cwd :: string

definition pull_image :: "'w agent_env \<Rightarrow> string \<Rightarrow> ('w, status, unit) act" where
  "pull_image env img = on_world (ae_transfer env (normalize_reference img) img)"

definition read_json :: "'w agent_env \<Rightarrow> string \<Rightarrow> ('w, status, json) act" where
  "read_json env digest =
     sbind (on_world (ae_read_content env digest)) (\<lambda>blob.
       slift (ok_or blob (Status Internal ''invalid blob'')))"

definition for_platform :: "'w agent_env \<Rightarrow> json \<Rightarrow> bool" where
  "for_platform env m \<longleftrightarrow> json_get (json_get m ''platform'') ''os'' = JStr platform_os \<and>
     json_get (json_get m ''platform'') ''architecture'' = JStr (platform_arch env)"

text \<open>The manifest of this platform, when the blob is an index of several.\<close>

definition platform_manifest :: "'w agent_env \<Rightarrow> string \<Rightarrow> json \<Rightarrow> ('w, status, json) act" where
  "platform_manifest env img manifest = (case as_array (json_get manifest ''manifests'') of
     None \<Rightarrow> sret manifest
   | Some ms \<Rightarrow>
       sbind (slift (ok_or
         (case List.find (for_platform env) ms of None \<Rightarrow> None | Some m \<Rightarrow> as_str (json_get m ''digest''))
         (Status NotFound (''image '' @ img @ '' has no '' @ platform_os @ '' manifest'')))) (read_json env))"

definition config_of :: "'w agent_env \<Rightarrow> string \<Rightarrow> json \<Rightarrow> status + image_config" where
  "config_of env img config =
     (let settings = json_get config ''config'';
          args = strings (json_get settings ''Entrypoint'') @ strings (json_get settings ''Cmd'')
      in if args = [] then Inl (Status InvalidArgument (''image '' @ img @ '' has no entrypoint nor command''))
         else Inr \<lparr>ic_parent = chain_id env (strings (json_get (json_get config ''rootfs'') ''diff_ids'')),
           ic_args = args, ic_env = strings (json_get settings ''Env''),
           ic_cwd = (case as_str (json_get settings ''WorkingDir'') of None \<Rightarrow> ''/'' | Some d \<Rightarrow> d)\<rparr>)"

definition get_image_config :: "'w agent_env \<Rightarrow> string \<Rightarrow> ('w, status, image_config) act" where
  "get_image_config env img =
     sbind (on_world (ae_image_target env img)) (\<lambda>target.
     sbind (slift (ok_or target (Status NotFound (''image '' @ img @ '' has no target'')))) (\<lambda>digest.
     sbind (read_json env digest) (\<lambda>index.
     sbind (platform_manifest env img index) (\<lambda>manifest.
     sbind (slift (ok_or (as_str (json_get (json_get manifest ''config'') ''digest''))
        (Status Internal (''image '' @ img @ '' has no config'')))) (\<lambda>config_digest.
     sbind (read_json env config_digest) (\<lambda>config.
     slift (config_of env img config)))))))"

section \<open>Containers\<close>

definition new_container :: "string \<Rightarrow> string \<Rightarrow> string \<Rightarrow> json \<Rightarrow> ctr_spec" where
  "new_container pod cid img spec =
     \<lparr>cr_id = cid, cr_image = img, cr_runtime = ctr_runtime, cr_spec = spec, cr_snapshotter = snapshotter,
      cr_snapshot_key = cid, cr_labels = [(pod_label, pod)]\<rparr>"

definition run_container :: "'w agent_env \<Rightarrow> string \<Rightarrow> container \<Rightarrow> ('w, status, nat) act" where
  "run_container env pod c =
     (let cid = container_id pod (ct_name c)
      in sbind (pull_image env (ct_image c)) (\<lambda>_.
         sbind (get_image_config env (ct_image c)) (\<lambda>config.
         sbind (on_world (ae_prepare env cid (ic_parent config))) (\<lambda>mounts.
         let env_vars = ic_env config @ map (\<lambda>e. ev_name e @ ''='' @ ev_value e) (ct_env c);
             cgroup = pod_path pod @ ''/'' @ cid;
             spec = oci_spec cid (ic_args config) env_vars (ic_cwd config) cgroup
         in sbind (on_world (ae_create env (new_container pod cid (ct_image c) spec))) (\<lambda>_.
            sbind (on_world (ae_task_create env cid mounts)) (\<lambda>pid.
            sbind (on_world (ae_task_start env cid)) (\<lambda>_. sret pid)))))))"

definition label_filter :: "string \<Rightarrow> string" where
  "label_filter pod = ''labels.'' @ dquote @ pod_label @ dquote @ ''=='' @ dquote @ pod @ dquote"

definition pod_containers :: "'w agent_env \<Rightarrow> string \<Rightarrow> ('w, status, string list) act" where
  "pod_containers env pod = on_world (ae_list env (label_filter pod))"

text \<open>Awaiting the end of a task for the grace period: did the time run out?\<close>

definition wait_task :: "'w agent_env \<Rightarrow> string \<Rightarrow> nat \<Rightarrow> ('w, status, bool) act" where
  "wait_task env cid grace = on_world (\<lambda>w. let (timed_out, w') = ae_wait env cid grace w in (Inr timed_out, w'))"

text \<open>The task of a container: awaited, killed if it is still there, deleted.\<close>

definition stop_task :: "'w agent_env \<Rightarrow> nat \<Rightarrow> string \<Rightarrow> ('w, status, unit) act" where
  "stop_task env grace cid =
     sbind (wait_task env cid grace) (\<lambda>timed_out.
     sbind (if timed_out then sbind (ignore_missing (on_world (ae_kill env cid sigkill))) (\<lambda>_. sret ()) else sret ()) (\<lambda>_.
     sbind (ignore_missing (on_world (ae_task_delete env cid))) (\<lambda>_. sret ())))"

definition remove_container :: "'w agent_env \<Rightarrow> nat \<Rightarrow> bool \<Rightarrow> string \<Rightarrow> ('w, status, unit) act" where
  "remove_container env grace force cid =
     sbind (ignore_missing (on_world (ae_kill env cid (if force then sigkill else sigterm)))) (\<lambda>killed.
     sbind (if killed \<noteq> None then stop_task env grace cid else sret ()) (\<lambda>_.
     sbind (ignore_missing (on_world (ae_delete env cid))) (\<lambda>_.
     sbind (ignore_missing (on_world (ae_snapshot_remove env cid))) (\<lambda>_. sret ()))))"

fun remove_containers :: "'w agent_env \<Rightarrow> nat \<Rightarrow> bool \<Rightarrow> string list \<Rightarrow> ('w, status, unit) act" where
  "remove_containers env grace force [] = sret ()"
| "remove_containers env grace force (cid # ids) =
     sbind (remove_container env grace force cid) (\<lambda>_. remove_containers env grace force ids)"

definition remove_pod_containers :: "'w agent_env \<Rightarrow> string \<Rightarrow> nat \<Rightarrow> bool \<Rightarrow> ('w, status, unit) act" where
  "remove_pod_containers env pod grace force =
     sbind (pod_containers env pod) (remove_containers env grace force)"

end
