(* ===== verification/Agent_Kubelet.thy ===== *)
theory Agent_Kubelet imports Agent_Containerd begin

text \<open>
  \<open>agent/src/kubelet.rs\<close> and \<open>agent/src/cni.rs\<close>: the Kubelet service of a node, applying and
  deleting a pod. A pod arrives as the messages of \<open>kubelet.proto\<close> carry it.
\<close>

section \<open>The CNI client (\<open>cni.rs\<close>)\<close>

definition cni_request :: "workload_ref \<Rightarrow> network_ref \<Rightarrow> nat \<Rightarrow> string \<Rightarrow> port list \<Rightarrow> add_network_request" where
  "cni_request w n pid interface_nm mappings =
     \<lparr>an_workload = Some w, an_network = Some n, an_netns_path = ''/proc/'' @ show_nat pid @ ''/ns/net'',
      an_interface_name = interface_nm, an_port_mappings = mappings\<rparr>"

definition add_network ::
  "'w agent_env \<Rightarrow> workload_ref \<Rightarrow> network_ref \<Rightarrow> nat \<Rightarrow> string \<Rightarrow> port list \<Rightarrow> ('w, status, workload_network) act" where
  "add_network env w n pid interface_nm mappings =
     sbind (on_world (ae_add_network env (cni_request w n pid interface_nm mappings))) (\<lambda>answer.
       slift (ok_or answer (Status Internal ''CNI returned no network'')))"

definition delete_network :: "'w agent_env \<Rightarrow> workload_ref \<Rightarrow> network_ref \<Rightarrow> ('w, status, unit) act" where
  "delete_network env w n =
     sbind (on_world (ae_delete_network env w n)) (\<lambda>success.
       if \<not> success then sfail (Status Internal ''CNI failed to delete workload network'') else sret ())"

section \<open>Pod ids (\<open>kubelet.rs\<close>)\<close>

definition default_namespace :: string where "default_namespace = ''default''"

definition default_interface :: string where "default_interface = ''eth0''"

definition default_grace :: nat where "default_grace = 30"

definition rollback_grace :: nat where "rollback_grace = 5"

definition pod_id :: "string \<Rightarrow> string \<Rightarrow> string" where
  "pod_id namespace pod_name = namespace @ ''.'' @ pod_name"

definition resolve_pod_id :: "string \<Rightarrow> string \<Rightarrow> string" where
  "resolve_pod_id namespace pod_name = pod_id (if namespace = [] then default_namespace else namespace) pod_name"

definition namespace_of :: "string \<Rightarrow> string" where
  "namespace_of i = (case split_once (CHR ''.'') i of Some (namespace, _) \<Rightarrow> namespace | None \<Rightarrow> default_namespace)"

section \<open>Rollback and containers\<close>

definition pod_workload :: "string \<Rightarrow> string \<Rightarrow> workload_ref" where
  "pod_workload i namespace = \<lparr>wl_workload_name = i, wl_instance_name = namespace\<rparr>"

definition container_network :: "string \<Rightarrow> nat \<Rightarrow> network_ref" where
  "container_network c vlan = \<lparr>nw_network_name = c, nw_vlan_id = vlan\<rparr>"

fun detach_networks :: "'w agent_env \<Rightarrow> workload_ref \<Rightarrow> nat \<Rightarrow> string list \<Rightarrow> ('w, status, unit) act" where
  "detach_networks env w vlan [] = sret ()"
| "detach_networks env w vlan (c # cs) =
     sbind (logged (delete_network env w (container_network c vlan))) (\<lambda>_. detach_networks env w vlan cs)"

definition rollback ::
  "'w agent_env \<Rightarrow> string \<Rightarrow> string \<Rightarrow> container list \<Rightarrow> nat \<Rightarrow> ('w, status, unit) act" where
  "rollback env i namespace containers vlan =
     sbind (detach_networks env (pod_workload i namespace) vlan (map ct_name containers)) (\<lambda>_.
     sbind (logged (remove_pod_containers env i rollback_grace True)) (\<lambda>_.
     sbind (logged (cgroup_remove_pod env i)) (\<lambda>_.
     logged (release_vlan env i))))"

text \<open>\<open>pod_ip\<close> is the address of the first container.\<close>

fun create_containers_from ::
  "'w agent_env \<Rightarrow> string \<Rightarrow> string \<Rightarrow> nat \<Rightarrow> string option \<Rightarrow> container list \<Rightarrow> ('w, status, string option) act" where
  "create_containers_from env i namespace vlan pod_ip [] = sret pod_ip"
| "create_containers_from env i namespace vlan pod_ip (c # cs) =
     sbind (run_container env i c) (\<lambda>pid.
     sbind (add_network env (pod_workload i namespace) (container_network (ct_name c) vlan) pid default_interface
              (ct_ports c)) (\<lambda>net.
     create_containers_from env i namespace vlan
       (if pod_ip = None then Some (wn_ip_address net) else pod_ip) cs))"

definition create_containers ::
  "'w agent_env \<Rightarrow> container list \<Rightarrow> string \<Rightarrow> string \<Rightarrow> nat \<Rightarrow> ('w, status, string option) act" where
  "create_containers env containers i namespace vlan = create_containers_from env i namespace vlan None containers"

section \<open>ApplyPod\<close>

fun check_names :: "string set \<Rightarrow> container list \<Rightarrow> status + unit" where
  "check_names seen [] = Inr ()"
| "check_names seen (c # cs) =
     (if ct_name c = [] then Inl (Status InvalidArgument ''missing container name'')
      else if ct_name c \<in> seen then Inl (Status InvalidArgument (''duplicate container name '' @ ct_name c))
      else check_names (insert (ct_name c) seen) cs)"

definition apply_namespace :: "pod_spec \<Rightarrow> status + string" where
  "apply_namespace spec =
     (if ps_namespace spec = [] then Inr default_namespace
      else if CHR ''.'' \<in> set (ps_namespace spec)
      then Inl (Status InvalidArgument (''namespace must not contain '' @ [CHR 0x27] @ ''.'' @ [CHR 0x27]))
      else Inr (ps_namespace spec))"

text \<open>What is checked before anything is touched: the pod id, its namespace, and the pieces used later.\<close>

definition validate_apply ::
  "pod_with_spec option \<Rightarrow> status + string \<times> string \<times> container list \<times> resources option" where
  "validate_apply po =
     rbind (ok_or po (Status InvalidArgument ''missing pod'')) (\<lambda>pod.
     let spec = (case pw_spec pod of None \<Rightarrow> default_pod_spec | Some sp \<Rightarrow> sp);
         core = (case pw_pod pod of None \<Rightarrow> default_pod | Some p \<Rightarrow> p)
     in if p_name core = [] then Inl (Status InvalidArgument ''missing pod name'')
        else rbind (check_names {} (ps_containers spec)) (\<lambda>_.
             rbind (apply_namespace spec) (\<lambda>namespace.
             Inr (pod_id namespace (p_name core), namespace, ps_containers spec, p_limits core))))"

text \<open>The block whose failure is rolled back.\<close>

definition start_pod ::
  "'w agent_env \<Rightarrow> string \<Rightarrow> string \<Rightarrow> container list \<Rightarrow> resources option \<Rightarrow> nat \<Rightarrow> ('w, status, string option) act" where
  "start_pod env i namespace containers limits vlan =
     sbind (logged (cgroup_remove_pod env i)) (\<lambda>_.
     sbind (smap_err (\<lambda>e. Status Internal (''cannot set up the cgroup of '' @ i @ '': '' @ io_text e))
              (cgroup_create_pod env i limits)) (\<lambda>_.
     create_containers env containers i namespace vlan))"

definition start_or_rollback ::
  "'w agent_env \<Rightarrow> string \<Rightarrow> string \<Rightarrow> container list \<Rightarrow> resources option \<Rightarrow> nat \<Rightarrow>
   ('w, status, string \<times> string option) act" where
  "start_or_rollback env i namespace containers limits vlan s =
     (case start_pod env i namespace containers limits vlan s of
        (Inr ip, s1) \<Rightarrow> (Inr (i, ip), s1)
      | (Inl e, s1) \<Rightarrow> (Inl e, snd (rollback env i namespace containers vlan s1)))"

definition apply_pod :: "'w agent_env \<Rightarrow> peer \<Rightarrow> pod_with_spec option \<Rightarrow> ('w, status, string \<times> string option) act" where
  "apply_pod env caller po =
     sbind (slift (check_role caller RoleNode)) (\<lambda>_.
     sbind (slift (validate_apply po)) (\<lambda>(i, namespace, containers, limits).
     sbind (smap_err (\<lambda>e. Status Internal (''cannot allocate a vlan: '' @ io_text e)) (allocate_for env i)) (\<lambda>vlan.
     sbind (remove_pod_containers env i default_grace True) (\<lambda>_.
     start_or_rollback env i namespace containers limits vlan))))"

section \<open>DeletePod\<close>

text \<open>The networks to detach: the container names the ids of the pod's containers carry.\<close>

definition own_container_names :: "string \<Rightarrow> string list \<Rightarrow> string list" where
  "own_container_names i ids = List.map_filter (strip_prefix (i @ ''-'')) ids"

definition delete_pod :: "'w agent_env \<Rightarrow> peer \<Rightarrow> string \<Rightarrow> nat option \<Rightarrow> bool \<Rightarrow> ('w, status, bool) act" where
  "delete_pod env caller i grace force =
     sbind (slift (check_role caller RoleNode)) (\<lambda>_.
     if i = [] then sfail (Status InvalidArgument ''missing pod id'')
     else sbind (swith (\<lambda>s. sret (case vlan_of s i of None \<Rightarrow> 0 | Some v \<Rightarrow> v))) (\<lambda>vlan.
          sbind (pod_containers env i) (\<lambda>ids.
          sbind (detach_networks env (pod_workload i (namespace_of i)) vlan (own_container_names i ids)) (\<lambda>_.
          sbind (remove_pod_containers env i (case grace of None \<Rightarrow> default_grace | Some g \<Rightarrow> g) force) (\<lambda>_.
          sbind (logged (cgroup_remove_pod env i)) (\<lambda>_.
          sbind (logged (release_vlan env i)) (\<lambda>_.
          sret True)))))))"

end
