(* ===== verification/Agent_Desired.thy ===== *)
theory Agent_Desired imports Agent_Kubelet Api_Errors begin

text \<open>
  \<open>agent/src/desired_state.rs\<close>: the loop that registers the node and turns the API server's
  desired state into calls of the local Kubelet. What the agent sends to the API server is a log
  in its state; the server's answers are arguments.
\<close>

section \<open>The node\<close>

definition lower_or_dash :: "char \<Rightarrow> char" where
  "lower_or_dash c = (if is_alnum_ascii c then lower_char c else CHR ''-'')"

definition trim_dashes :: "string \<Rightarrow> string" where
  "trim_dashes s = rev (dropWhile (\<lambda>c. c = CHR ''-'') (rev (dropWhile (\<lambda>c. c = CHR ''-'') s)))"

definition sanitize_node_name :: "string \<Rightarrow> string" where
  "sanitize_node_name hostname = trim_dashes (map lower_or_dash (hd (split_on (CHR ''.'') hostname)))"

definition detect_node_name :: "string option \<Rightarrow> string + string \<Rightarrow> string + string" where
  "detect_node_name variable hostname_file = (case variable of
     Some name \<Rightarrow> Inr name
   | None \<Rightarrow>
       rbind hostname_file (\<lambda>raw.
       let name = sanitize_node_name (trim raw)
       in if name = [] then Inl ''detected hostname sanitizes to an empty node name'' else Inr name))"

definition parse_mem_total_kb :: "string \<Rightarrow> nat option" where
  "parse_mem_total_kb meminfo =
     (case List.map_filter (strip_prefix ''MemTotal:'') (text_lines meminfo) of
        [] \<Rightarrow> None
      | rest # _ \<Rightarrow> (case first_word rest of None \<Rightarrow> None | Some kb \<Rightarrow> parse_unsigned 18446744073709551615 kb))"

text \<open>\<open>as i32\<close> truncates, the product wraps.\<close>

definition detect_capacity :: "string + nat \<Rightarrow> string + string \<Rightarrow> string + resources" where
  "detect_capacity cores_r meminfo_r =
     rbind cores_r (\<lambda>cores.
     rbind meminfo_r (\<lambda>meminfo.
     rbind (ok_or (parse_mem_total_kb meminfo) ''MemTotal not found in /proc/meminfo'') (\<lambda>kb.
     Inr \<lparr>res_cpu = wrap32 (wrap32 (int cores) * 1000), res_memory = wrap32 (int (kb div 1024))\<rparr>)))"

section \<open>The loop\<close>

record 'w ds_agent =
  ds_node :: "'w agent"
  ds_registered :: "node list"
  ds_reports :: "update_pod_status_request list"

definition on_node :: "('w, 'e, 'a) act \<Rightarrow> ('w ds_agent, 'e, 'a) op" where
  "on_node f s = (let (r, n) = f (ds_node s) in (r, s\<lparr>ds_node := n\<rparr>))"

definition status_report :: "pod_with_spec \<Rightarrow> pod_status \<Rightarrow> string option \<Rightarrow> string option \<Rightarrow> update_pod_status_request" where
  "status_report pod observed pod_ip message =
     \<lparr>ups_pod = Some (pod\<lparr>pw_pod := map_option (\<lambda>p. p\<lparr>p_status := pod_status_i32 observed\<rparr>) (pw_pod pod)\<rparr>),
      ups_container_statuses = [], ups_pod_ip = pod_ip, ups_message = message, ups_resource_usage = None\<rparr>"

text \<open>Whether the server took the report is only logged.\<close>

definition report_pod_status ::
  "pod_with_spec \<Rightarrow> pod_status \<Rightarrow> string option \<Rightarrow> string option \<Rightarrow> 'w ds_agent \<Rightarrow> 'w ds_agent" where
  "report_pod_status pod observed pod_ip message s =
     s\<lparr>ds_reports := ds_reports s @ [status_report pod observed pod_ip message]\<rparr>"

definition ds_action_of :: "ds_event \<Rightarrow> ds_action" where
  "ds_action_of e = (case ds_action_of_i32 (dse_action e) of None \<Rightarrow> DsRun | Some a \<Rightarrow> a)"

definition run_pod_event :: "'w agent_env \<Rightarrow> peer \<Rightarrow> pod_with_spec \<Rightarrow> 'w ds_agent \<Rightarrow> 'w ds_agent" where
  "run_pod_event env caller pod s =
     (case on_node (apply_pod env caller (Some pod)) s of
        (Inr (_, pod_ip), s1) \<Rightarrow> report_pod_status pod PodRunning pod_ip None s1
      | (Inl e, s1) \<Rightarrow> report_pod_status pod PodFailed None (Some (st_message e)) s1)"

definition stop_pod_event :: "'w agent_env \<Rightarrow> peer \<Rightarrow> pod_with_spec \<Rightarrow> 'w ds_agent \<Rightarrow> 'w ds_agent" where
  "stop_pod_event env caller pod s =
     (let namespace = (case pw_spec pod of None \<Rightarrow> [] | Some sp \<Rightarrow> ps_namespace sp);
          name = (case pw_pod pod of None \<Rightarrow> [] | Some p \<Rightarrow> p_name p)
      in snd (on_node (delete_pod env caller (resolve_pod_id namespace name) None False) s))"

definition handle_event :: "'w agent_env \<Rightarrow> peer \<Rightarrow> ds_event \<Rightarrow> 'w ds_agent \<Rightarrow> 'w ds_agent" where
  "handle_event env caller e s = (case (ds_action_of e, dse_pod e) of
     (DsRun, Some pod) \<Rightarrow> run_pod_event env caller pod s
   | (DsStop, Some pod) \<Rightarrow> stop_pod_event env caller pod s
   | _ \<Rightarrow> s)"

text \<open>The stream, as the items it yields before it ends; a broken item ends the attempt.\<close>

fun watch_events :: "'w agent_env \<Rightarrow> peer \<Rightarrow> (status + ds_event) list \<Rightarrow> ('w ds_agent, string, unit) op" where
  "watch_events env caller [] s = (Inr (), s)"
| "watch_events env caller (Inl e # es) s = (Inl ''desired-state stream error'', s)"
| "watch_events env caller (Inr e # es) s = watch_events env caller es (handle_event env caller e s)"

definition registration :: "string \<Rightarrow> string \<Rightarrow> resources \<Rightarrow> node" where
  "registration name ip capacity = \<lparr>nd_name = name, nd_status = node_status_i32 NodeReady,
     nd_capacity = Some capacity, nd_allocatable = Some capacity, nd_ip = ip\<rparr>"

definition register_and_watch ::
  "'w agent_env \<Rightarrow> peer \<Rightarrow> string \<Rightarrow> string \<Rightarrow> string + resources \<Rightarrow> status + unit \<Rightarrow>
   status + (status + ds_event) list \<Rightarrow> ('w ds_agent, string, unit) op" where
  "register_and_watch env caller name ip capacity_r registered opened s =
     (case capacity_r of
        Inl e \<Rightarrow> (Inl ''failed to detect node capacity'', s)
      | Inr capacity \<Rightarrow>
          (let s1 = s\<lparr>ds_registered := ds_registered s @ [registration name ip capacity]\<rparr>
           in case registered of
                Inl e \<Rightarrow> (Inl ''failed to register node'', s1)
              | Inr _ \<Rightarrow> (case opened of
                  Inl e \<Rightarrow> (Inl ''failed to open desired-state watch'', s1)
                | Inr events \<Rightarrow> watch_events env caller events s1)))"

text \<open>\<open>run\<close>: attempts that follow each other, whatever their outcome.\<close>

fun ds_run ::
  "'w agent_env \<Rightarrow> peer \<Rightarrow> string \<Rightarrow> string \<Rightarrow>
   ((string + resources) \<times> (status + unit) \<times> (status + (status + ds_event) list)) list \<Rightarrow>
   'w ds_agent \<Rightarrow> 'w ds_agent" where
  "ds_run env caller name ip [] s = s"
| "ds_run env caller name ip ((c, r, o') # attempts) s =
     ds_run env caller name ip attempts (snd (register_and_watch env caller name ip c r o' s))"

end
