(* ===== verification/Agent_Safety.thy ===== *)
theory Agent_Safety imports Agent_Desired begin

text \<open>
  What the agent keeps of its VLAN allocations, how pod ids carry their namespace, what is reported
  of every pod, and that cgroup names and node names are well formed.
\<close>

section \<open>VLAN allocations\<close>

definition vlans_ok :: "vlan_state \<Rightarrow> bool" where
  "vlans_ok m \<longleftrightarrow> distinct (map fst m) \<and> distinct (map snd m) \<and> (\<forall>v \<in> set (map snd m). first_vlan \<le> v \<and> v \<le> last_vlan)"

lemma vlans_ok_unique:
  assumes "vlans_ok m" "map_of m i = Some v" "map_of m j = Some v"
  shows "i = j \<and> first_vlan \<le> v \<and> v \<le> last_vlan"
proof -
  have "(i, v) \<in> set m" "(j, v) \<in> set m" using assms(2,3) by (auto dest: map_of_SomeD)
  moreover have "inj_on snd (set m)" using assms(1) by (simp add: vlans_ok_def distinct_map)
  ultimately have "(i, v) = (j, v)" using inj_onD[of snd "set m" "(i, v)" "(j, v)"] by simp
  then show ?thesis using assms(1) \<open>(i, v) \<in> set m\<close> unfolding vlans_ok_def by auto
qed

abbreviation keeps_vlans :: "('w, 'e, 'a) act \<Rightarrow> bool" where
  "keeps_vlans \<equiv> op_keeps (\<lambda>_. True) (\<lambda>s t. vlans_ok (ag_vlans s) \<longrightarrow> vlans_ok (ag_vlans t))"

interpretation vlans: step_rel "\<lambda>_. True" "\<lambda>s t. vlans_ok (ag_vlans s) \<longrightarrow> vlans_ok (ag_vlans t)"
  by unfold_locales auto

named_theorems vlans_kept \<open>operations that keep the VLAN allocations sound\<close>

lemma keeps_vlansI:
  "(\<And>s r s'. f s = (r, s') \<Longrightarrow> vlans_ok (ag_vlans s) \<Longrightarrow> vlans_ok (ag_vlans s')) \<Longrightarrow> keeps_vlans f"
  by (rule op_keepsI) auto

lemma keeps_vlansD: "keeps_vlans f \<Longrightarrow> f s = (r, s') \<Longrightarrow> vlans_ok (ag_vlans s) \<Longrightarrow> vlans_ok (ag_vlans s')"
  using op_keepsD[of "\<lambda>_. True" _ f s r s'] by blast

lemma on_world_vlans: "on_world f s = (r, s') \<Longrightarrow> ag_vlans s' = ag_vlans s"
  by (auto simp: on_world_def Let_def split: prod.splits)

lemma keeps_vlans_world [vlans_kept]: "keeps_vlans (on_world f)"
  by (rule keeps_vlansI) (simp add: on_world_vlans)

lemma keeps_vlans_logged: "keeps_vlans f \<Longrightarrow> keeps_vlans (logged f)"
  by (rule keeps_vlansI) (metis keeps_vlansD logged_def prod.collapse snd_conv)

lemma keeps_vlans_missing: "keeps_vlans f \<Longrightarrow> keeps_vlans (ignore_missing f)"
  by (rule keeps_vlansI) (auto simp: ignore_missing_def split: prod.splits sum.splits if_splits dest: keeps_vlansD)

lemma keeps_vlans_missing_ok: "keeps_vlans f \<Longrightarrow> keeps_vlans (missing_ok f)"
  by (rule keeps_vlansI) (auto simp: missing_ok_def split: prod.splits sum.splits if_splits dest: keeps_vlansD)

lemmas vlans_rules = vlans.keeps_rules keeps_vlans_logged keeps_vlans_missing keeps_vlans_missing_ok

lemma free_vlan_Some: "free_vlan m = Some v \<Longrightarrow> first_vlan \<le> v \<and> v \<le> last_vlan \<and> v \<notin> set (map snd m)"
  unfolding free_vlan_def by (drule find_upt_least) simp

lemma keeps_vlans_allocate [vlans_kept]: "keeps_vlans (allocate_for env i)"
proof (rule keeps_vlansI)
  fix s r s' assume run: "allocate_for env i s = (r, s')" and ok: "vlans_ok (ag_vlans s)"
  show "vlans_ok (ag_vlans s')"
  proof (cases "map_of (ag_vlans s) i")
    case (Some v)
    with run ok show ?thesis by (simp add: allocate_for_def)
  next
    case new: None
    show ?thesis
    proof (cases "free_vlan (ag_vlans s)")
      case None
      with run ok new show ?thesis by (simp add: allocate_for_def)
    next
      case (Some v)
      have "ag_vlans s' = (i, v) # ag_vlans s"
        using run Some new
        by (auto simp: allocate_for_def save_vlans_def sbind_def on_world_def Let_def split: prod.splits sum.splits)
      moreover have "i \<notin> fst ` set (ag_vlans s)" using new by (simp add: map_of_eq_None_iff)
      ultimately show ?thesis using ok free_vlan_Some[OF Some] unfolding vlans_ok_def by auto
    qed
  qed
qed

lemma keeps_vlans_release [vlans_kept]: "keeps_vlans (release_vlan env i)"
proof (rule keeps_vlansI)
  fix s r s' assume run: "release_vlan env i s = (r, s')" and ok: "vlans_ok (ag_vlans s)"
  have "ag_vlans s' = filter (\<lambda>(j, _). j \<noteq> i) (ag_vlans s) \<or> ag_vlans s' = ag_vlans s"
    using run by (auto simp: release_vlan_def save_vlans_def split: if_splits dest!: on_world_vlans)
  with ok show "vlans_ok (ag_vlans s')"
    unfolding vlans_ok_def by (auto simp: distinct_map_filter)
qed

lemma keeps_vlans_cgroup [vlans_kept]:
  "keeps_vlans (cg_mkdir env d)" "keeps_vlans (cg_write env f v)" "keeps_vlans (delegate env d)"
  unfolding cg_mkdir_def delegate_def cg_write_def by (intro vlans_kept vlans_rules)+

lemma keeps_vlans_limits [vlans_kept]: "keeps_vlans (write_limits env pod fvs)"
  by (induction env pod fvs rule: write_limits.induct)
    (simp_all only: write_limits.simps, (intro vlans_kept vlans_rules | assumption)+)

lemma keeps_vlans_leaves [vlans_kept]: "keeps_vlans (remove_leaves env pod ls)"
  by (induction ls) (simp_all only: remove_leaves.simps, (intro vlans_kept vlans_rules | assumption)+)

lemma keeps_vlans_cgroups [vlans_kept]:
  "keeps_vlans (cgroup_create_pod env i l)" "keeps_vlans (cgroup_remove_pod env i)"
  unfolding cgroup_create_pod_def cgroup_remove_pod_def by (intro vlans_kept vlans_rules)+

lemma keeps_vlans_images [vlans_kept]:
  "keeps_vlans (pull_image env img)" "keeps_vlans (read_json env d)" "keeps_vlans (platform_manifest env img mf)"
  "keeps_vlans (get_image_config env img)"
  unfolding pull_image_def get_image_config_def platform_manifest_def read_json_def
  by (intro vlans_kept vlans_rules)+

lemma keeps_vlans_containers [vlans_kept]:
  "keeps_vlans (run_container env i c)" "keeps_vlans (pod_containers env i)" "keeps_vlans (stop_task env g cid)"
  "keeps_vlans (remove_container env g f cid)"
  unfolding run_container_def pod_containers_def remove_container_def stop_task_def wait_task_def Let_def
  by (intro vlans_kept vlans_rules)+

lemma keeps_vlans_remove_containers [vlans_kept]: "keeps_vlans (remove_containers env g f ids)"
  by (induction ids) (simp_all only: remove_containers.simps, (intro vlans_kept vlans_rules | assumption)+)

lemma keeps_vlans_networks [vlans_kept]:
  "keeps_vlans (add_network env w n pid ifn ms)" "keeps_vlans (delete_network env w n)"
  "keeps_vlans (remove_pod_containers env i g f)"
  unfolding add_network_def delete_network_def remove_pod_containers_def by (intro vlans_kept vlans_rules)+

lemma keeps_vlans_detach [vlans_kept]: "keeps_vlans (detach_networks env w v cs)"
  by (induction cs) (simp_all only: detach_networks.simps, (intro vlans_kept vlans_rules | assumption)+)

lemma keeps_vlans_create [vlans_kept]: "keeps_vlans (create_containers_from env i ns v ip cs)"
  by (induction cs arbitrary: ip)
    (simp_all only: create_containers_from.simps, (intro vlans_kept vlans_rules | assumption)+)

lemma keeps_vlans_start [vlans_kept]:
  "keeps_vlans (rollback env i ns cs v)" "keeps_vlans (start_pod env i ns cs l v)"
  unfolding rollback_def start_pod_def create_containers_def by (intro vlans_kept vlans_rules)+

lemma keeps_vlans_start_or_rollback [vlans_kept]: "keeps_vlans (start_or_rollback env i ns cs l v)"
proof (rule keeps_vlansI)
  fix s r s' assume run: "start_or_rollback env i ns cs l v s = (r, s')" and ok: "vlans_ok (ag_vlans s)"
  obtain r1 s1 where one: "start_pod env i ns cs l v s = (r1, s1)" by fastforce
  obtain r2 s2 where two: "rollback env i ns cs v s1 = (r2, s2)" by fastforce
  have ok1: "vlans_ok (ag_vlans s1)" by (rule keeps_vlansD[OF keeps_vlans_start(2) one ok])
  have "s' = s1 \<or> s' = s2" using run one two by (auto simp: start_or_rollback_def split: sum.splits)
  with ok1 keeps_vlansD[OF keeps_vlans_start(1) two ok1] show "vlans_ok (ag_vlans s')" by blast
qed

lemma keeps_vlans_kubelet [vlans_kept]: "keeps_vlans (apply_pod env caller po)" "keeps_vlans (delete_pod env caller i g f)"
  unfolding apply_pod_def delete_pod_def by (intro vlans_kept vlans_rules)+

lemma handle_event_vlans:
  "vlans_ok (ag_vlans (ds_node s)) \<Longrightarrow> vlans_ok (ag_vlans (ds_node (handle_event env caller e s)))"
proof -
  assume ok: "vlans_ok (ag_vlans (ds_node s))"
  have run: "vlans_ok (ag_vlans (ds_node (run_pod_event env caller pod s)))" for pod
  proof -
    obtain r n where "apply_pod env caller (Some pod) (ds_node s) = (r, n)" by fastforce
    with keeps_vlansD[OF keeps_vlans_kubelet(1) this ok] show ?thesis
      by (auto simp: run_pod_event_def on_node_def report_pod_status_def split: sum.splits)
  qed
  have stop: "vlans_ok (ag_vlans (ds_node (stop_pod_event env caller pod s)))" for pod
  proof -
    have "vlans_ok (ag_vlans (snd (delete_pod env caller i None False (ds_node s))))" for i
      using keeps_vlansD[OF keeps_vlans_kubelet(2) _ ok] by (metis prod.collapse)
    then show ?thesis by (simp add: stop_pod_event_def on_node_def Let_def case_prod_unfold)
  qed
  show ?thesis using run stop ok by (auto simp: handle_event_def split: ds_action.splits option.splits)
qed

lemma watch_events_vlans:
  "vlans_ok (ag_vlans (ds_node s)) \<Longrightarrow> vlans_ok (ag_vlans (ds_node (snd (watch_events env caller es s))))"
  by (induction env caller es s rule: watch_events.induct) (auto intro: handle_event_vlans)

lemma register_and_watch_vlans:
  "vlans_ok (ag_vlans (ds_node s)) \<Longrightarrow>
   vlans_ok (ag_vlans (ds_node (snd (register_and_watch env caller name ip c r es s))))"
  using watch_events_vlans[of "s\<lparr>ds_registered := x\<rparr>" for x]
  by (auto simp: register_and_watch_def Let_def split: sum.splits)

lemma ds_run_vlans:
  "vlans_ok (ag_vlans (ds_node s)) \<Longrightarrow> vlans_ok (ag_vlans (ds_node (ds_run env caller name ip attempts s)))"
  by (induction env caller name ip attempts s rule: ds_run.induct) (auto intro: register_and_watch_vlans)

section \<open>Pod ids\<close>

lemma validate_apply_ok:
  assumes "validate_apply (Some pod) = Inr (i, namespace, containers, limits)"
  shows "\<exists>spec core. spec = (case pw_spec pod of None \<Rightarrow> default_pod_spec | Some sp \<Rightarrow> sp) \<and>
     core = (case pw_pod pod of None \<Rightarrow> default_pod | Some p \<Rightarrow> p) \<and>
     namespace = (if ps_namespace spec = [] then default_namespace else ps_namespace spec) \<and>
     CHR ''.'' \<notin> set namespace \<and> p_name core \<noteq> [] \<and> i = pod_id namespace (p_name core) \<and>
     containers = ps_containers spec \<and> limits = p_limits core"
  using assms
  by (auto simp: validate_apply_def rbind_eq_Inr Let_def apply_namespace_def default_namespace_def split: if_splits)

lemma namespace_of_pod_id: "CHR ''.'' \<notin> set ns \<Longrightarrow> namespace_of (pod_id ns n) = ns"
  using split_once_append[of "CHR ''.''" ns n] by (simp add: namespace_of_def pod_id_def)

lemma pod_id_inj:
  assumes "pod_id ns n = pod_id ns' n'" "CHR ''.'' \<notin> set ns" "CHR ''.'' \<notin> set ns'"
  shows "ns = ns' \<and> n = n'"
proof -
  have eq: "ns @ CHR ''.'' # n = ns' @ CHR ''.'' # n'" using assms(1) by (simp add: pod_id_def)
  have "Some (ns, n) = split_once (CHR ''.'') (ns' @ CHR ''.'' # n')"
    using split_once_append[OF assms(2), of n] eq by simp
  then show ?thesis using split_once_append[OF assms(3), of n'] by simp
qed

section \<open>Cgroup and node names\<close>

text \<open>The cgroup of a pod is a child of the slice: one path component, neither \<open>.\<close> nor \<open>..\<close>.\<close>

lemma pod_dir_in_slice:
  "pod_dir i = Inr d \<Longrightarrow> d = ''/sys/fs/cgroup/barenetes/'' @ i \<and> CHR ''/'' \<notin> set i \<and> i \<noteq> [] \<and> i \<noteq> ''.'' \<and> i \<noteq> ''..''"
  by (auto simp: pod_dir_def cgroup_root_def slice_def split: if_splits)

lemma dropWhile_dash: "dropWhile (\<lambda>c. c = CHR ''-'') s = [] \<or> hd (dropWhile (\<lambda>c. c = CHR ''-'') s) \<noteq> CHR ''-''"
  using hd_dropWhile[of "\<lambda>c. c = CHR ''-''" s] by blast

lemma trim_dashes_ends:
  assumes "trim_dashes s \<noteq> []"
  shows "hd (trim_dashes s) \<noteq> CHR ''-'' \<and> last (trim_dashes s) \<noteq> CHR ''-'' \<and> set (trim_dashes s) \<subseteq> set s \<and>
     length (trim_dashes s) \<le> length s"
proof -
  let ?D = "dropWhile (\<lambda>c. c = CHR ''-'')"
  define t where "t = ?D s"
  have td: "trim_dashes s = rev (?D (rev t))" by (simp add: trim_dashes_def t_def)
  have ne: "?D (rev t) \<noteq> []" "t \<noteq> []" using assms td by auto
  have "hd (?D (rev t)) \<noteq> CHR ''-''" using dropWhile_dash[of "rev t"] ne by blast
  then have l: "last (trim_dashes s) \<noteq> CHR ''-''" using td ne by (simp add: last_rev)
  have "hd t \<noteq> CHR ''-''" using dropWhile_dash[of s] ne unfolding t_def by blast
  moreover have "hd (trim_dashes s) = hd t"
  proof -
    have "rev t = takeWhile (\<lambda>c. c = CHR ''-'') (rev t) @ ?D (rev t)" by simp
    then have "t = rev (?D (rev t)) @ rev (takeWhile (\<lambda>c. c = CHR ''-'') (rev t))"
      by (metis rev_append rev_rev_ident)
    then show ?thesis using ne td by (metis hd_append2 rev_is_Nil_conv)
  qed
  moreover have "set (trim_dashes s) \<subseteq> set s"
    using td set_dropWhileD[of _ _ "rev t"] set_dropWhileD[of _ _ s] by (auto simp: t_def)
  moreover have "length (trim_dashes s) \<le> length s"
    using td length_dropWhile_le[of "\<lambda>c. c = CHR ''-''" "rev t"] length_dropWhile_le[of "\<lambda>c. c = CHR ''-''" s]
    by (simp add: t_def)
  ultimately show ?thesis using l by simp
qed

lemma lower_or_dash_alnum: "lower_or_dash c = CHR ''-'' \<or> dns_alnum (lower_or_dash c)"
proof (cases "is_alnum_ascii c")
  case True
  have up: "is_lower (char_of ((of_char c :: nat) + 32))" if "is_upper c"
    using that by (simp add: is_lower_def is_upper_def)
  from True show ?thesis
    using up by (auto simp: lower_or_dash_def is_alnum_ascii_def lower_char_def dns_alnum_def)
qed (simp add: lower_or_dash_def)

lemma split_on_first_length: "length (hd (split_on c s)) \<le> length s"
proof (induction s)
  case (Cons x xs)
  then show ?case by (cases "split_on c xs") auto
qed simp

lemma trim_length: "length (trim s) \<le> length s"
  using length_dropWhile_le[of is_space "rev (dropWhile is_space s)"] length_dropWhile_le[of is_space s]
  by (simp add: trim_def)

lemma sanitized_is_label:
  assumes "sanitize_node_name h \<noteq> []" and "length h \<le> 253"
  shows "dns_label (sanitize_node_name h)"
proof -
  let ?m = "map lower_or_dash (hd (split_on (CHR ''.'') h))"
  note ends = trim_dashes_ends[of ?m, folded sanitize_node_name_def, OF assms(1)]
  have chars: "c = CHR ''-'' \<or> dns_alnum c" if "c \<in> set (sanitize_node_name h)" for c
    using that ends lower_or_dash_alnum by auto
  have "length (sanitize_node_name h) \<le> 253"
    using ends split_on_first_length[of "CHR ''.''" h] assms(2) by simp
  then show ?thesis
    using assms(1) ends chars hd_in_set[OF assms(1)] last_in_set[OF assms(1)] unfolding dns_label_def by blast
qed

section \<open>Reports\<close>

text \<open>The pods of the RUN events, in order.\<close>

fun run_pods :: "ds_event list \<Rightarrow> pod_with_spec list" where
  "run_pods [] = []"
| "run_pods (e # es) =
     (case (ds_action_of e, dse_pod e) of (DsRun, Some pod) \<Rightarrow> pod # run_pods es | _ \<Rightarrow> run_pods es)"

text \<open>The report of a pod that runs, or of one that could not be started.\<close>

definition reports_outcome :: "pod_with_spec \<Rightarrow> update_pod_status_request \<Rightarrow> bool" where
  "reports_outcome pod rep \<longleftrightarrow>
     (\<exists>ip. rep = status_report pod PodRunning ip None) \<or> (\<exists>m. rep = status_report pod PodFailed None (Some m))"

lemma reports_outcomeI:
  "reports_outcome pod (status_report pod PodRunning ip None)"
  "reports_outcome pod (status_report pod PodFailed None (Some m))"
  unfolding reports_outcome_def by blast+

lemma handle_event_reports:
  "\<exists>reps. ds_reports (handle_event env caller e s) = ds_reports s @ reps \<and>
     list_all2 reports_outcome (run_pods [e]) reps"
proof (cases "\<exists>pod. ds_action_of e = DsRun \<and> dse_pod e = Some pod")
  case True
  then obtain pod where e: "ds_action_of e = DsRun" "dse_pod e = Some pod" by blast
  obtain r n where a: "apply_pod env caller (Some pod) (ds_node s) = (r, n)" by fastforce
  show ?thesis
  proof (cases r)
    case (Inl err)
    then show ?thesis
      using e a by (intro exI[of _ "[status_report pod PodFailed None (Some (st_message err))]"])
        (simp add: handle_event_def run_pod_event_def on_node_def report_pod_status_def reports_outcomeI)
  next
    case (Inr res)
    then show ?thesis
      using e a by (intro exI[of _ "[status_report pod PodRunning (snd res) None]"])
        (simp add: handle_event_def run_pod_event_def on_node_def report_pod_status_def reports_outcomeI case_prod_unfold)
  qed
next
  case False
  have stop: "ds_reports (stop_pod_event env caller pod s) = ds_reports s" for pod
    by (simp add: stop_pod_event_def on_node_def Let_def case_prod_unfold)
  show ?thesis using False
    by (intro exI[of _ "[]"]) (auto simp: handle_event_def stop split: ds_action.splits option.splits)
qed

section \<open>Properties\<close>

text \<open>
  C30. No two pods of a node share a VLAN. From sound allocations, through any sequence of attempts of
  the desired-state loop, with RUN and STOP events in any order and calls to containerd, the CNI daemon,
  the cgroup file system and the allocation file that fail anywhere, two pod ids that hold the same
  VLAN are the same pod, and the VLAN lies between 2 and 4094.
\<close>

theorem pods_never_share_a_vlan:
  assumes "vlans_ok (ag_vlans (ds_node s))"
    and "vlan_of (ds_node (ds_run env caller name ip attempts s)) i = Some v"
    and "vlan_of (ds_node (ds_run env caller name ip attempts s)) j = Some v"
  shows "i = j \<and> 2 \<le> v \<and> v \<le> 4094"
  using vlans_ok_unique[OF ds_run_vlans[OF assms(1)] assms(2,3)[unfolded vlan_of_def]]
  by (simp add: first_vlan_def last_vlan_def)

text \<open>
  C31. A STOP reaches what the RUN of the same pod started: the pod id the desired-state loop computes for
  the deletion is the id the pod was applied under, and the namespace read back from that id is the one
  the pod's networks were attached under, so the deletion names the same workload to the CNI daemon.
\<close>

theorem stop_names_what_run_started:
  assumes "validate_apply (Some pod) = Inr (i, namespace, containers, limits)"
  shows "resolve_pod_id (case pw_spec pod of None \<Rightarrow> [] | Some sp \<Rightarrow> ps_namespace sp)
       (case pw_pod pod of None \<Rightarrow> [] | Some p \<Rightarrow> p_name p) = i \<and>
     pod_workload i (namespace_of i) = pod_workload i namespace"
proof -
  obtain spec core where v: "spec = (case pw_spec pod of None \<Rightarrow> default_pod_spec | Some sp \<Rightarrow> sp)"
    "core = (case pw_pod pod of None \<Rightarrow> default_pod | Some p \<Rightarrow> p)"
    "namespace = (if ps_namespace spec = [] then default_namespace else ps_namespace spec)"
    "CHR ''.'' \<notin> set namespace" "i = pod_id namespace (p_name core)"
    using validate_apply_ok[OF assms] by blast
  have "(case pw_spec pod of None \<Rightarrow> [] | Some sp \<Rightarrow> ps_namespace sp) = ps_namespace spec"
    "(case pw_pod pod of None \<Rightarrow> [] | Some p \<Rightarrow> p_name p) = p_name core"
    using v(1,2) by (simp_all add: default_pod_spec_def default_pod_def split: option.splits)
  then show ?thesis using v(3,5) namespace_of_pod_id[OF v(4)] by (simp add: resolve_pod_id_def)
qed

text \<open>
  Every pod the API server asks to run is reported exactly once, in the order of the events: as
  running with the address the Kubelet gave, or as failed with the message of the error; no other event
  makes a report.
\<close>

theorem runs_are_reported_once:
  "\<exists>reps. ds_reports (snd (watch_events env caller (map Inr es) s)) = ds_reports s @ reps \<and>
     list_all2 reports_outcome (run_pods es) reps"
proof (induction es arbitrary: s)
  case Nil
  then show ?case by simp
next
  case (Cons e es)
  obtain r1 where r1: "ds_reports (handle_event env caller e s) = ds_reports s @ r1"
    "list_all2 reports_outcome (run_pods [e]) r1"
    using handle_event_reports[of env caller e s] by blast
  obtain r2 where r2: "ds_reports (snd (watch_events env caller (map Inr es) (handle_event env caller e s))) =
      ds_reports (handle_event env caller e s) @ r2" "list_all2 reports_outcome (run_pods es) r2"
    using Cons by blast
  have "run_pods (e # es) = run_pods [e] @ run_pods es"
    by (simp split: ds_action.splits option.splits)
  with r1 r2 show ?case by (intro exI[of _ "r1 @ r2"]) (simp add: list_all2_appendI del: run_pods.simps)
qed

text \<open>
  A node name the agent derives from the host name is one the API server accepts: the sanitised first
  label of a host name of at most 253 characters passes the server's check of node names.
\<close>

theorem detected_node_names_are_accepted:
  assumes "detect_node_name None (Inr raw) = Inr name" and "length raw \<le> 253"
  shows "validate_dns1123_subdomain name field = Inr ()"
proof -
  have "sanitize_node_name (trim raw) \<noteq> []" "name = sanitize_node_name (trim raw)"
    using assms(1) by (auto simp: detect_node_name_def Let_def split: if_splits)
  with sanitized_is_label[of "trim raw"] trim_length[of raw] assms(2) validate_dns1123_ok_iff[of name field]
  show ?thesis by simp
qed

end
