(* ===== verification/Agent_Rollback.thy ===== *)
theory Agent_Rollback imports Agent_Safety begin

text \<open>
  Applying a pod is all or nothing. containerd is the parameter; \<open>ctr_laws\<close> are its documented
  effects on the set of containers, where every call may fail; \<open>ctr_up\<close> says that listing succeeds
  and that a removal fails only because its object is gone already. \<open>cs\<close> reads off the world which
  containers there are and the pod each is labelled with.
\<close>

section \<open>containerd\<close>

definition inert :: "('w \<Rightarrow> (string \<rightharpoonup> string)) \<Rightarrow> ('w \<Rightarrow> 'r \<times> 'w) \<Rightarrow> bool" where
  "inert cs f \<longleftrightarrow> (\<forall>w. cs (snd (f w)) = cs w)"

text \<open>The calls that neither make nor remove a container.\<close>

definition inert_calls :: "'w agent_env \<Rightarrow> ('w \<Rightarrow> (string \<rightharpoonup> string)) \<Rightarrow> bool" where
  "inert_calls env cs \<longleftrightarrow>
     (\<forall>a b. inert cs (ae_transfer env a b)) \<and> (\<forall>a. inert cs (ae_image_target env a)) \<and>
     (\<forall>a. inert cs (ae_read_content env a)) \<and> (\<forall>a b. inert cs (ae_prepare env a b)) \<and>
     (\<forall>a b. inert cs (ae_task_create env a b)) \<and> (\<forall>a. inert cs (ae_task_start env a)) \<and>
     (\<forall>a. inert cs (ae_list env a)) \<and> (\<forall>a b. inert cs (ae_kill env a b)) \<and>
     (\<forall>a b. inert cs (ae_wait env a b)) \<and> (\<forall>a. inert cs (ae_task_delete env a)) \<and>
     (\<forall>a. inert cs (ae_snapshot_remove env a)) \<and> (\<forall>a. inert cs (ae_add_network env a)) \<and>
     (\<forall>a b. inert cs (ae_delete_network env a b)) \<and> (\<forall>a. inert cs (ae_mkdir env a)) \<and>
     (\<forall>a b. inert cs (ae_write env a b)) \<and> (\<forall>a. inert cs (ae_rmdir env a)) \<and>
     (\<forall>a. inert cs (ae_write_vlans env a))"

text \<open>Listing by label, creating under a free id, deleting; a failed call changes nothing.\<close>

definition ctr_laws :: "'w agent_env \<Rightarrow> ('w \<Rightarrow> (string \<rightharpoonup> string)) \<Rightarrow> bool" where
  "ctr_laws env cs \<longleftrightarrow> inert_calls env cs \<and>
     (\<forall>p w ids w'. CHR 0x22 \<notin> set p \<longrightarrow> ae_list env (label_filter p) w = (Inr ids, w') \<longrightarrow>
        set ids = {c. cs w c = Some p}) \<and>
     (\<forall>sp w u w'. ae_create env sp w = (Inr u, w') \<longrightarrow>
        cs w (cr_id sp) = None \<and> cs w' = (cs w)(cr_id sp := map_of (cr_labels sp) pod_label)) \<and>
     (\<forall>sp w e w'. ae_create env sp w = (Inl e, w') \<longrightarrow> cs w' = cs w) \<and>
     (\<forall>c w u w'. ae_delete env c w = (Inr u, w') \<longrightarrow> cs w' = (cs w)(c := None)) \<and>
     (\<forall>c w e w'. ae_delete env c w = (Inl e, w') \<longrightarrow>
        cs w' = cs w \<and> (st_code e = NotFound \<longrightarrow> cs w c = None))"

lemma ctr_lawsD:
  assumes "ctr_laws env cs"
  shows "inert_calls env cs"
    "CHR 0x22 \<notin> set p \<Longrightarrow> ae_list env (label_filter p) w = (Inr cids, w') \<Longrightarrow> set cids = {c. cs w c = Some p}"
    "ae_create env sp w = (Inr u, w') \<Longrightarrow>
       cs w (cr_id sp) = None \<and> cs w' = (cs w)(cr_id sp := map_of (cr_labels sp) pod_label)"
    "ae_create env sp w = (Inl e, w') \<Longrightarrow> cs w' = cs w"
    "ae_delete env c w = (Inr u, w') \<Longrightarrow> cs w' = (cs w)(c := None)"
    "ae_delete env c w = (Inl e, w') \<Longrightarrow> cs w' = cs w \<and> (st_code e = NotFound \<longrightarrow> cs w c = None)"
proof -
  note law = assms[unfolded ctr_laws_def]
  show "inert_calls env cs" by (rule law[THEN conjunct1])
  show "CHR 0x22 \<notin> set p \<Longrightarrow> ae_list env (label_filter p) w = (Inr cids, w') \<Longrightarrow> set cids = {c. cs w c = Some p}"
    by (rule law[THEN conjunct2, THEN conjunct1, rule_format])
  show "ae_create env sp w = (Inr u, w') \<Longrightarrow>
       cs w (cr_id sp) = None \<and> cs w' = (cs w)(cr_id sp := map_of (cr_labels sp) pod_label)"
    by (rule law[THEN conjunct2, THEN conjunct2, THEN conjunct1, THEN spec, THEN spec, THEN spec, THEN spec, THEN mp])
  show "ae_create env sp w = (Inl e, w') \<Longrightarrow> cs w' = cs w"
    by (rule law[THEN conjunct2, THEN conjunct2, THEN conjunct2, THEN conjunct1, rule_format])
  show "ae_delete env c w = (Inr u, w') \<Longrightarrow> cs w' = (cs w)(c := None)"
    by (rule law[THEN conjunct2, THEN conjunct2, THEN conjunct2, THEN conjunct2, THEN conjunct1, rule_format])
  show "ae_delete env c w = (Inl e, w') \<Longrightarrow> cs w' = cs w \<and> (st_code e = NotFound \<longrightarrow> cs w c = None)"
    by (rule law[THEN conjunct2, THEN conjunct2, THEN conjunct2, THEN conjunct2, THEN conjunct2,
          THEN spec, THEN spec, THEN spec, THEN spec, THEN mp])
qed

definition answers :: "('w \<Rightarrow> (status + 'a) \<times> 'w) \<Rightarrow> bool" where
  "answers f \<longleftrightarrow> (\<forall>w e w'. f w = (Inl e, w') \<longrightarrow> st_code e = NotFound)"

definition ctr_up :: "'w agent_env \<Rightarrow> bool" where
  "ctr_up env \<longleftrightarrow> (\<forall>p w. is_ok (fst (ae_list env p w))) \<and> (\<forall>c n. answers (ae_kill env c n)) \<and>
     (\<forall>c. answers (ae_task_delete env c)) \<and> (\<forall>c. answers (ae_delete env c)) \<and>
     (\<forall>c. answers (ae_snapshot_remove env c))"

section \<open>The containers of other pods\<close>

definition drop_pod :: "string \<Rightarrow> (string \<rightharpoonup> string) \<Rightarrow> (string \<rightharpoonup> string)" where
  "drop_pod i m = (\<lambda>c. if m c = Some i then None else m c)"

lemma drop_pod_add: "m c = None \<Longrightarrow> drop_pod i (m(c \<mapsto> i)) = drop_pod i m"
  by (auto simp: drop_pod_def fun_eq_iff)

lemma drop_pod_idem [simp]: "drop_pod i (drop_pod i m) = drop_pod i m"
  by (auto simp: drop_pod_def fun_eq_iff)

abbreviation keeps_ctrs :: "('w \<Rightarrow> (string \<rightharpoonup> string)) \<Rightarrow> ('w, 'e, 'a) act \<Rightarrow> bool" where
  "keeps_ctrs cs \<equiv> op_keeps (\<lambda>_. True) (\<lambda>s t. cs (ag_world t) = cs (ag_world s))"

interpretation ctrs: step_rel "\<lambda>_. True" "\<lambda>s t. cs (ag_world t) = cs (ag_world s)"
  for cs :: "'w \<Rightarrow> (string \<rightharpoonup> string)"
  by unfold_locales auto

lemma keeps_ctrsI: "(\<And>s r s'. f s = (r, s') \<Longrightarrow> cs (ag_world s') = cs (ag_world s)) \<Longrightarrow> keeps_ctrs cs f"
  by (rule op_keepsI) auto

lemma keeps_ctrsD: "keeps_ctrs cs f \<Longrightarrow> f s = (r, s') \<Longrightarrow> cs (ag_world s') = cs (ag_world s)"
  using op_keepsD[of "\<lambda>_. True" _ f s r s'] by blast

lemma on_world_run: "on_world f s = (fst (f (ag_world s)), s\<lparr>ag_world := snd (f (ag_world s))\<rparr>)"
  by (simp add: on_world_def case_prod_unfold Let_def)

lemma keeps_ctrs_world: "inert cs f \<Longrightarrow> keeps_ctrs cs (on_world f)"
  by (rule keeps_ctrsI) (auto simp: on_world_run inert_def)

lemma keeps_ctrs_logged: "keeps_ctrs cs f \<Longrightarrow> keeps_ctrs cs (logged f)"
  by (rule keeps_ctrsI) (metis keeps_ctrsD logged_def prod.collapse snd_conv)

lemma keeps_ctrs_missing: "keeps_ctrs cs f \<Longrightarrow> keeps_ctrs cs (ignore_missing f)"
  by (rule keeps_ctrsI) (auto simp: ignore_missing_def split: prod.splits sum.splits if_splits dest: keeps_ctrsD)

lemma keeps_ctrs_missing_ok: "keeps_ctrs cs f \<Longrightarrow> keeps_ctrs cs (missing_ok f)"
  by (rule keeps_ctrsI) (auto simp: missing_ok_def split: prod.splits sum.splits if_splits dest: keeps_ctrsD)

lemmas ctrs_rules = ctrs.keeps_rules keeps_ctrs_logged keeps_ctrs_missing keeps_ctrs_missing_ok


lemma inert_callsD:
  assumes "inert_calls env cs"
  shows "inert cs (ae_transfer env a b)" "inert cs (ae_image_target env a)" "inert cs (ae_read_content env a)"
    "inert cs (ae_prepare env a b)" "inert cs (ae_task_create env a xs)" "inert cs (ae_task_start env a)"
    "inert cs (ae_list env a)" "inert cs (ae_kill env a n)" "inert cs (ae_task_delete env a)"
    "inert cs (ae_snapshot_remove env a)" "inert cs (ae_add_network env rq)" "inert cs (ae_delete_network env w nt)"
    "inert cs (ae_mkdir env a)" "inert cs (ae_write env a b)" "inert cs (ae_rmdir env a)"
    "inert cs (ae_write_vlans env m)"
  using assms by (simp_all add: inert_calls_def)

lemma inert_world:
  assumes "inert_calls env cs"
  shows "keeps_ctrs cs (on_world (ae_transfer env a b))" "keeps_ctrs cs (on_world (ae_image_target env a))"
    "keeps_ctrs cs (on_world (ae_read_content env a))" "keeps_ctrs cs (on_world (ae_prepare env a b))"
    "keeps_ctrs cs (on_world (ae_task_create env a xs))" "keeps_ctrs cs (on_world (ae_task_start env a))"
    "keeps_ctrs cs (on_world (ae_list env a))" "keeps_ctrs cs (on_world (ae_kill env a n))"
    "keeps_ctrs cs (on_world (ae_task_delete env a))" "keeps_ctrs cs (on_world (ae_snapshot_remove env a))"
    "keeps_ctrs cs (on_world (ae_add_network env rq))" "keeps_ctrs cs (on_world (ae_delete_network env w nt))"
    "keeps_ctrs cs (on_world (ae_mkdir env a))" "keeps_ctrs cs (on_world (ae_write env a b))"
    "keeps_ctrs cs (on_world (ae_rmdir env a))" "keeps_ctrs cs (on_world (ae_write_vlans env m))"
  by (intro keeps_ctrs_world inert_callsD[OF assms])+

lemma keeps_ctrs_wait: "inert_calls env cs \<Longrightarrow> keeps_ctrs cs (wait_task env a n)"
  unfolding wait_task_def inert_calls_def by (rule keeps_ctrs_world) (auto simp: inert_def case_prod_unfold Let_def)

lemma keeps_ctrs_save: "inert_calls env cs \<Longrightarrow> keeps_ctrs cs (save_vlans env)"
  by (rule keeps_ctrsI) (auto simp: save_vlans_def dest!: keeps_ctrsD[OF inert_world(16)])

lemma keeps_ctrs_vlans:
  assumes "inert_calls env cs"
  shows "keeps_ctrs cs (allocate_for env i)" "keeps_ctrs cs (release_vlan env i)"
proof -
  show "keeps_ctrs cs (release_vlan env i)"
    by (rule keeps_ctrsI)
      (auto simp: release_vlan_def split: if_splits dest!: keeps_ctrsD[OF keeps_ctrs_save[OF assms]])
  show "keeps_ctrs cs (allocate_for env i)"
    by (rule keeps_ctrsI)
      (auto simp: allocate_for_def sbind_def split: option.splits prod.splits sum.splits
        dest!: keeps_ctrsD[OF keeps_ctrs_save[OF assms]])
qed

lemma keeps_ctrs_cgroup:
  assumes "inert_calls env cs"
  shows "keeps_ctrs cs (cg_mkdir env d)" "keeps_ctrs cs (cg_write env f v)" "keeps_ctrs cs (delegate env d)"
  unfolding cg_mkdir_def delegate_def cg_write_def by (intro ctrs_rules inert_world[OF assms])+

lemma keeps_ctrs_limits:
  assumes "inert_calls env cs"
  shows "keeps_ctrs cs (write_limits env pod fvs)"
proof (induction fvs)
  case (Cons fv fvs)
  then show ?case
    by (cases fv) (simp only: write_limits.simps, intro keeps_ctrs_cgroup ctrs_rules assms)
qed (simp only: write_limits.simps, rule ctrs_rules)

lemma keeps_ctrs_leaves:
  assumes "inert_calls env cs"
  shows "keeps_ctrs cs (remove_leaves env pod ls)"
  by (induction ls) (simp_all only: remove_leaves.simps, (intro inert_world[OF assms] ctrs_rules | assumption)+)

lemma keeps_ctrs_cgroups:
  assumes "inert_calls env cs"
  shows "keeps_ctrs cs (cgroup_create_pod env i l)" "keeps_ctrs cs (cgroup_remove_pod env i)"
  unfolding cgroup_create_pod_def cgroup_remove_pod_def
  by (intro keeps_ctrs_cgroup keeps_ctrs_limits keeps_ctrs_leaves inert_world ctrs_rules assms)+

lemma keeps_ctrs_images:
  assumes "inert_calls env cs"
  shows "keeps_ctrs cs (pull_image env img)" "keeps_ctrs cs (get_image_config env img)"
  unfolding pull_image_def get_image_config_def platform_manifest_def read_json_def
  by (intro inert_world ctrs_rules assms)+

lemma keeps_ctrs_networks:
  assumes "inert_calls env cs"
  shows "keeps_ctrs cs (add_network env w n pid ifn ms)" "keeps_ctrs cs (delete_network env w n)"
    "keeps_ctrs cs (stop_task env g c)"
  unfolding add_network_def delete_network_def stop_task_def
  by (intro inert_world keeps_ctrs_wait ctrs_rules assms)+

lemma keeps_ctrs_detach:
  assumes "inert_calls env cs"
  shows "keeps_ctrs cs (detach_networks env w v ns)"
  by (induction ns)
    (simp_all only: detach_networks.simps, (intro keeps_ctrs_networks[OF assms] ctrs_rules | assumption)+)

section \<open>Removing a pod\<close>

lemma sbind_InrE:
  assumes "sbind m f s = (Inr y, s')"
  obtains x s1 where "m s = (Inr x, s1)" "f x s1 = (Inr y, s')"
  using assms unfolding sbind_eq_Inr by blast

lemma remove_container_effect:
  assumes L: "ctr_laws env cs" and run: "remove_container env g f c s = (Inr u, s')"
  shows "cs (ag_world s') = (cs (ag_world s))(c := None)"
proof -
  have I: "inert_calls env cs" using L by (simp add: ctr_laws_def)
  obtain killed s1 u2 s2 d s3 where
    one: "ignore_missing (on_world (ae_kill env c (if f then sigkill else sigterm))) s = (Inr killed, s1)" and
    two: "(if killed \<noteq> None then stop_task env g c else sret ()) s1 = (Inr u2, s2)" and
    three: "ignore_missing (on_world (ae_delete env c)) s2 = (Inr d, s3)" and
    four: "sbind (ignore_missing (on_world (ae_snapshot_remove env c))) (\<lambda>_. sret ()) s3 = (Inr u, s')"
    using run unfolding remove_container_def by (auto elim!: sbind_InrE)
  have k1: "cs (ag_world s1) = cs (ag_world s)"
    by (rule keeps_ctrsD[OF keeps_ctrs_missing[OF inert_world(8)[OF I]] one])
  have k2: "cs (ag_world s2) = cs (ag_world s1)"
    using two keeps_ctrsD[OF keeps_ctrs_networks(3)[OF I]] by (cases "killed \<noteq> None") auto
  have k4: "cs (ag_world s') = cs (ag_world s3)"
    using four by (auto elim!: sbind_InrE dest: keeps_ctrsD[OF keeps_ctrs_missing[OF inert_world(10)[OF I]]])
  obtain r w where del: "ae_delete env c (ag_world s2) = (r, w)" by fastforce
  have "cs w = (cs (ag_world s2))(c := None)"
  proof (cases r)
    case (Inl e)
    then have "st_code e = NotFound" using three del by (auto simp: ignore_missing_def on_world_run split: if_splits)
    then have "cs w = cs (ag_world s2)" "cs (ag_world s2) c = None" using ctr_lawsD(6)[OF L] del Inl by blast+
    then show ?thesis by (simp add: fun_upd_idem)
  next
    case (Inr v)
    then show ?thesis using ctr_lawsD(5)[OF L] del by blast
  qed
  moreover have "ag_world s3 = w"
    using three del by (auto simp: ignore_missing_def on_world_run split: sum.splits if_splits)
  ultimately show ?thesis using k1 k2 k4 by simp
qed

lemma remove_containers_effect:
  assumes L: "ctr_laws env cs"
  shows "remove_containers env g f cids s = (Inr u, s') \<Longrightarrow>
     cs (ag_world s') = (\<lambda>c. if c \<in> set cids then None else cs (ag_world s) c)"
proof (induction cids arbitrary: s)
  case (Cons c cids)
  then obtain u1 s1 where one: "remove_container env g f c s = (Inr u1, s1)"
    and rest: "remove_containers env g f cids s1 = (Inr u, s')" by (auto elim!: sbind_InrE)
  show ?case using Cons.IH[OF rest] remove_container_effect[OF L one] by (auto simp: fun_eq_iff)
qed simp

lemma remove_pod_effect:
  assumes L: "ctr_laws env cs" and i: "CHR 0x22 \<notin> set i"
    and run: "remove_pod_containers env i g f s = (Inr u, s')"
  shows "cs (ag_world s') = drop_pod i (cs (ag_world s))"
proof -
  have I: "inert_calls env cs" using L by (simp add: ctr_laws_def)
  obtain cids s1 where one: "pod_containers env i s = (Inr cids, s1)"
    and two: "remove_containers env g f cids s1 = (Inr u, s')"
    using run unfolding remove_pod_containers_def by (rule sbind_InrE)
  obtain w where "ae_list env (label_filter i) (ag_world s) = (Inr cids, w)"
    using one by (auto simp: pod_containers_def on_world_run) (metis prod.collapse)
  note listed = ctr_lawsD(2)[OF L i this]
  have "cs (ag_world s1) = cs (ag_world s)"
    using one keeps_ctrsD[OF inert_world(7)[OF I]] by (simp add: pod_containers_def)
  then show ?thesis using remove_containers_effect[OF L two] listed by (simp add: drop_pod_def fun_eq_iff)
qed

text \<open>Whatever fails, a removal takes nothing but the containers it was asked to remove.\<close>

abbreviation only_gone :: "('w \<Rightarrow> (string \<rightharpoonup> string)) \<Rightarrow> string set \<Rightarrow> ('w, 'e, 'a) act \<Rightarrow> bool" where
  "only_gone cs C \<equiv> op_keeps (\<lambda>_. True)
     (\<lambda>s t. \<forall>x. cs (ag_world t) x = cs (ag_world s) x \<or> x \<in> C \<and> cs (ag_world t) x = None)"

interpretation gone: step_rel "\<lambda>_. True"
  "\<lambda>s t. \<forall>x. cs (ag_world t) x = cs (ag_world s) x \<or> x \<in> C \<and> cs (ag_world t) x = None"
  for cs :: "'w \<Rightarrow> (string \<rightharpoonup> string)" and C :: "string set"
  by unfold_locales metis+

lemma gone_of_ctrs: "keeps_ctrs cs f \<Longrightarrow> only_gone cs C f"
  by (rule op_keepsI) (auto dest: keeps_ctrsD)

lemma gone_delete:
  assumes L: "ctr_laws env cs" and c: "c \<in> C"
  shows "only_gone cs C (ignore_missing (on_world (ae_delete env c)))"
proof (rule op_keepsI)
  fix s r s' assume run: "ignore_missing (on_world (ae_delete env c)) s = (r, s')"
  obtain d w where del: "ae_delete env c (ag_world s) = (d, w)" by fastforce
  have "ag_world s' = w" using run del by (auto simp: ignore_missing_def on_world_run split: sum.splits if_splits)
  then show "True \<and> (\<forall>x. cs (ag_world s') x = cs (ag_world s) x \<or> x \<in> C \<and> cs (ag_world s') x = None)"
    using del ctr_lawsD(5,6)[OF L] c by (cases d) auto
qed

lemma gone_removals:
  assumes L: "ctr_laws env cs"
  shows "c \<in> C \<Longrightarrow> only_gone cs C (remove_container env g f c)"
    and "set cids \<subseteq> C \<Longrightarrow> only_gone cs C (remove_containers env g f cids)"
proof -
  have I: "inert_calls env cs" by (rule ctr_lawsD(1)[OF L])
  show one: "only_gone cs C (remove_container env g f c)" if "c \<in> C" for c
    unfolding remove_container_def
    by (intro gone.keeps_rules gone_delete[OF L that] gone_of_ctrs keeps_ctrs_missing keeps_ctrs_networks[OF I]
        inert_world[OF I])
  show "only_gone cs C (remove_containers env g f cids)" if "set cids \<subseteq> C"
    using that by (induction cids) (simp_all only: remove_containers.simps, (intro gone.keeps_rules one | simp)+)
qed

lemma remove_pod_others:
  assumes L: "ctr_laws env cs" and i: "CHR 0x22 \<notin> set i"
    and run: "remove_pod_containers env i g f s = (r, s')"
  shows "drop_pod i (cs (ag_world s')) = drop_pod i (cs (ag_world s))"
proof -
  have I: "inert_calls env cs" by (rule ctr_lawsD(1)[OF L])
  obtain r1 s1 where one: "pod_containers env i s = (r1, s1)" by fastforce
  have k1: "cs (ag_world s1) = cs (ag_world s)"
    using one keeps_ctrsD[OF inert_world(7)[OF I]] by (simp add: pod_containers_def)
  show ?thesis
  proof (cases r1)
    case (Inl e)
    then show ?thesis using run one k1 by (simp add: remove_pod_containers_def sbind_def)
  next
    case (Inr cids)
    obtain w where "ae_list env (label_filter i) (ag_world s) = (Inr cids, w)"
      using one Inr by (auto simp: pod_containers_def on_world_run) (metis prod.collapse)
    note listed = ctr_lawsD(2)[OF L i this]
    have two: "remove_containers env g f cids s1 = (r, s')"
      using run one Inr by (simp add: remove_pod_containers_def sbind_def)
    have "\<forall>x. cs (ag_world s') x = cs (ag_world s1) x \<or> x \<in> set cids \<and> cs (ag_world s') x = None"
      using op_keepsD[OF gone_removals(2)[OF L order_refl] _ two] by blast
    then have "cs (ag_world s') x = cs (ag_world s) x \<or> cs (ag_world s) x = Some i \<and> cs (ag_world s') x = None" for x
      using listed k1 by auto
    then show ?thesis by (auto simp: drop_pod_def fun_eq_iff) metis+
  qed
qed

lemma answers_missing: "answers f \<Longrightarrow> \<exists>x s1. ignore_missing (on_world f) s = (Inr x, s1)"
proof -
  assume a: "answers f"
  obtain r w where fw: "f (ag_world s) = (r, w)" by fastforce
  with a show ?thesis by (cases r) (auto simp: ignore_missing_def on_world_run answers_def)
qed

lemma stop_task_succeeds: "ctr_up env \<Longrightarrow> \<exists>s1. stop_task env g c s = (Inr (), s1)"
proof -
  assume up: "ctr_up env"
  obtain t s1 where one: "wait_task env c g s = (Inr t, s1)"
    by (auto simp: wait_task_def on_world_run case_prod_unfold Let_def)
  obtain x s2 where two: "ignore_missing (on_world (ae_kill env c sigkill)) s1 = (Inr x, s2)"
    using up answers_missing[of "ae_kill env c sigkill" s1] unfolding ctr_up_def by blast
  have del: "\<exists>y s3. ignore_missing (on_world (ae_task_delete env c)) t' = (Inr y, s3)" for t'
    using up answers_missing[of "ae_task_delete env c" t'] unfolding ctr_up_def by blast
  obtain t' where three: "(if t then sbind (ignore_missing (on_world (ae_kill env c sigkill))) (\<lambda>_. sret ()) else sret ()) s1
      = (Inr (), t')"
    using two by (cases t) auto
  obtain y s3 where four: "ignore_missing (on_world (ae_task_delete env c)) t' = (Inr y, s3)" using del by blast
  show ?thesis using one three four by (simp add: stop_task_def del: if_split)
qed

lemma remove_container_succeeds: "ctr_up env \<Longrightarrow> \<exists>s1. remove_container env g f c s = (Inr (), s1)"
proof -
  assume up: "ctr_up env"
  have kill: "\<exists>x s1. ignore_missing (on_world (ae_kill env c n)) t = (Inr x, s1)" for t n
    using up answers_missing[of "ae_kill env c n" t] unfolding ctr_up_def by blast
  have del: "\<exists>x s1. ignore_missing (on_world (ae_delete env c)) t = (Inr x, s1)" for t
    using up answers_missing[of "ae_delete env c" t] unfolding ctr_up_def by blast
  have snap: "\<exists>x s1. ignore_missing (on_world (ae_snapshot_remove env c)) t = (Inr x, s1)" for t
    using up answers_missing[of "ae_snapshot_remove env c" t] unfolding ctr_up_def by blast
  obtain k s1 where one: "ignore_missing (on_world (ae_kill env c (if f then sigkill else sigterm))) s = (Inr k, s1)"
    using kill by blast
  obtain s2 where two: "(if k \<noteq> None then stop_task env g c else sret ()) s1 = (Inr (), s2)"
    using stop_task_succeeds[OF up, of g c s1] by (cases "k \<noteq> None") auto
  obtain x s3 where three: "ignore_missing (on_world (ae_delete env c)) s2 = (Inr x, s3)" using del by blast
  obtain y s4 where four: "ignore_missing (on_world (ae_snapshot_remove env c)) s3 = (Inr y, s4)" using snap by blast
  have "remove_container env g f c s = (Inr (), s4)"
    using one two three four by (simp add: remove_container_def del: if_split)
  then show ?thesis by blast
qed

lemma remove_containers_succeeds: "ctr_up env \<Longrightarrow> \<exists>s1. remove_containers env g f cids s = (Inr (), s1)"
proof (induction cids arbitrary: s)
  case (Cons c cids)
  obtain s1 where "remove_container env g f c s = (Inr (), s1)"
    using remove_container_succeeds[OF Cons.prems] by blast
  then show ?case using Cons.IH[OF Cons.prems, of s1] by simp
qed simp

lemma remove_pod_succeeds: "ctr_up env \<Longrightarrow> \<exists>s1. remove_pod_containers env i g f s = (Inr (), s1)"
proof -
  assume up: "ctr_up env"
  then obtain cids where "fst (ae_list env (label_filter i) (ag_world s)) = Inr cids"
    unfolding ctr_up_def is_ok_iff by blast
  then show ?thesis
    using remove_containers_succeeds[OF up, of g f cids]
    by (simp add: remove_pod_containers_def pod_containers_def on_world_run sbind_def)
qed

section \<open>Starting a pod\<close>

lemma run_container_effect:
  assumes L: "ctr_laws env cs" and run: "run_container env i c s = (r, s')"
  shows "cs (ag_world s') = cs (ag_world s) \<and> isl r \<or>
     cs (ag_world s) (container_id i (ct_name c)) = None \<and>
     cs (ag_world s') = (cs (ag_world s))(container_id i (ct_name c) \<mapsto> i)"
proof -
  have I: "inert_calls env cs" using L by (simp add: ctr_laws_def)
  let ?id = "container_id i (ct_name c)"
  let ?pre = "\<lambda>k. sbind (pull_image env (ct_image c)) (\<lambda>_. sbind (get_image_config env (ct_image c)) (\<lambda>config.
     sbind (on_world (ae_prepare env ?id (ic_parent config))) (k config)))"
  obtain r1 s1 where one: "?pre (\<lambda>config mounts. sret (config, mounts)) s = (r1, s1)" by fastforce
  have k1: "cs (ag_world s1) = cs (ag_world s)"
  proof -
    have "keeps_ctrs cs (?pre (\<lambda>config mounts. sret (config, mounts)))"
      by (intro keeps_ctrs_images inert_world ctrs_rules I)
    from keeps_ctrsD[OF this one] show ?thesis .
  qed
  show ?thesis
  proof (cases r1)
    case (Inl e)
    then have "r = Inl e \<and> s' = s1" using run one
      by (auto simp: run_container_def Let_def sbind_def split: prod.splits sum.splits)
    with k1 show ?thesis by simp
  next
    case (Inr cm)
    obtain config mounts where cm: "cm = (config, mounts)" by fastforce
    define sp where "sp = new_container i ?id (ct_image c) (oci_spec ?id (ic_args config)
       (ic_env config @ map (\<lambda>e. ev_name e @ ''='' @ ev_value e) (ct_env c)) (ic_cwd config) (pod_path i @ ''/'' @ ?id))"
    have sp: "cr_id sp = ?id" "map_of (cr_labels sp) pod_label = Some i" by (simp_all add: sp_def new_container_def)
    let ?rest = "\<lambda>_. sbind (on_world (ae_task_create env ?id mounts)) (\<lambda>pid.
       sbind (on_world (ae_task_start env ?id)) (\<lambda>_. sret pid))"
    have rest: "sbind (on_world (ae_create env sp)) ?rest s1 = (r, s')"
      using run one Inr cm by (auto simp: run_container_def Let_def sbind_def sp_def split: prod.splits sum.splits)
    obtain r2 w where cr: "ae_create env sp (ag_world s1) = (r2, w)" by fastforce
    show ?thesis
    proof (cases r2)
      case (Inl e)
      then have "cs w = cs (ag_world s1)" using ctr_lawsD(4)[OF L] cr by blast
      with rest cr Inl k1 show ?thesis by (auto simp: sbind_def on_world_run)
    next
      case (Inr u)
      then have w: "cs (ag_world s1) ?id = None" "cs w = (cs (ag_world s1))(?id \<mapsto> i)"
        using ctr_lawsD(3)[OF L, of sp "ag_world s1" u w] cr sp by simp_all
      have on: "on_world (ae_create env sp) s1 = (Inr u, s1\<lparr>ag_world := w\<rparr>)" using cr Inr by (simp add: on_world_run)
      have "?rest u (s1\<lparr>ag_world := w\<rparr>) = (r, s')" 
        using rest sbind_Inr[of "on_world (ae_create env sp)" s1 u "s1\<lparr>ag_world := w\<rparr>" ?rest, OF on] by (rule subst[rotated])
      moreover have "keeps_ctrs cs (?rest u)" by (intro inert_world ctrs_rules I)
      ultimately have "cs (ag_world s') = cs w" using keeps_ctrsD[of cs "?rest u" "s1\<lparr>ag_world := w\<rparr>" r s'] by simp
      with w k1 show ?thesis by simp
    qed
  qed
qed

definition container_ids :: "string \<Rightarrow> container list \<Rightarrow> string set" where
  "container_ids i cts = container_id i ` ct_name ` set cts"

lemma create_containers_effect:
  assumes L: "ctr_laws env cs"
  shows "create_containers_from env i ns v ip cts s = (r, s') \<Longrightarrow>
     drop_pod i (cs (ag_world s')) = drop_pod i (cs (ag_world s)) \<and>
     (is_ok r \<longrightarrow> cs (ag_world s') = (\<lambda>c. if c \<in> container_ids i cts then Some i else cs (ag_world s) c))"
proof (induction cts arbitrary: ip s)
  case Nil
  then show ?case by (auto simp: container_ids_def)
next
  case (Cons ct cts)
  have I: "inert_calls env cs" by (rule ctr_lawsD(1)[OF L])
  let ?id = "container_id i (ct_name ct)"
  obtain r1 s1 where one: "run_container env i ct s = (r1, s1)" by fastforce
  note eff = run_container_effect[OF L one]
  then have oth: "drop_pod i (cs (ag_world s1)) = drop_pod i (cs (ag_world s))" by (auto simp: drop_pod_add)
  show ?case
  proof (cases r1)
    case (Inl e)
    with Cons.prems one oth show ?thesis by auto
  next
    case (Inr pid)
    then have new: "cs (ag_world s1) = (cs (ag_world s))(?id \<mapsto> i)" using eff by auto
    let ?net = "add_network env (pod_workload i ns) (container_network (ct_name ct) v) pid default_interface (ct_ports ct)"
    obtain r2 s2 where two: "?net s1 = (r2, s2)" by fastforce
    have k2: "cs (ag_world s2) = cs (ag_world s1)" by (rule keeps_ctrsD[OF keeps_ctrs_networks(1)[OF I] two])
    show ?thesis
    proof (cases r2)
      case (Inl e)
      with Cons.prems one Inr two oth k2 show ?thesis by (auto simp: sbind_def)
    next
      case ok: (Inr net)
      have "create_containers_from env i ns v (if ip = None then Some (wn_ip_address net) else ip) cts s2 = (r, s')"
        using Cons.prems one Inr two ok by (simp add: sbind_def)
      note ih = Cons.IH[OF this]
      have "is_ok r \<longrightarrow> cs (ag_world s') = (\<lambda>c. if c \<in> container_ids i (ct # cts) then Some i else cs (ag_world s) c)"
        using ih k2 new by (auto simp: container_ids_def fun_eq_iff)
      with ih oth k2 show ?thesis by simp
    qed
  qed
qed

lemma start_pod_effect:
  assumes L: "ctr_laws env cs" and run: "start_pod env i ns cts l v s = (r, s')"
  shows "drop_pod i (cs (ag_world s')) = drop_pod i (cs (ag_world s)) \<and>
     (is_ok r \<longrightarrow> cs (ag_world s') = (\<lambda>c. if c \<in> container_ids i cts then Some i else cs (ag_world s) c))"
proof -
  have I: "inert_calls env cs" by (rule ctr_lawsD(1)[OF L])
  let ?cg = "\<lambda>k. sbind (logged (cgroup_remove_pod env i)) (\<lambda>_.
     sbind (smap_err (\<lambda>e. Status Internal (''cannot set up the cgroup of '' @ i @ '': '' @ io_text e))
              (cgroup_create_pod env i l)) k)"
  obtain r1 s1 where one: "?cg (\<lambda>_. sret ()) s = (r1, s1)" by fastforce
  have "keeps_ctrs cs (?cg (\<lambda>_. sret ()))" by (intro keeps_ctrs_cgroups ctrs_rules I)
  from keeps_ctrsD[OF this one] have k: "cs (ag_world s1) = cs (ag_world s)" .
  show ?thesis
  proof (cases r1)
    case (Inl e)
    have "r = Inl e \<and> s' = s1"
      using run one Inl by (auto simp: start_pod_def sbind_def split: prod.splits sum.splits)
    with k show ?thesis by simp
  next
    case (Inr u)
    have "create_containers_from env i ns v None cts s1 = (r, s')"
      using run one Inr by (auto simp: start_pod_def create_containers_def sbind_def split: prod.splits sum.splits)
    from create_containers_effect[OF L this] k show ?thesis by (simp cong: if_cong)
  qed
qed

text \<open>
  A rollback never touches other pods, and the VLAN is given back whether or not the containers could
  be removed; they are gone when containerd answers.
\<close>

lemma rollback_effect:
  assumes L: "ctr_laws env cs" and i: "CHR 0x22 \<notin> set i"
  shows "drop_pod i (cs (ag_world (snd (rollback env i ns cts v s)))) = drop_pod i (cs (ag_world s)) \<and>
     vlan_of (snd (rollback env i ns cts v s)) i = None \<and>
     (ctr_up env \<longrightarrow> cs (ag_world (snd (rollback env i ns cts v s))) = drop_pod i (cs (ag_world s)))"
proof -
  have I: "inert_calls env cs" by (rule ctr_lawsD(1)[OF L])
  obtain u1 s1 where one: "detach_networks env (pod_workload i ns) v (map ct_name cts) s = (Inr u1, s1)"
  proof -
    have "\<exists>t. detach_networks env w v ns s = (Inr (), t)" for w ns s
      by (induction ns arbitrary: s) (auto simp: logged_def)
    then show ?thesis using that by blast
  qed
  have k1: "cs (ag_world s1) = cs (ag_world s)" by (rule keeps_ctrsD[OF keeps_ctrs_detach[OF I] one])
  obtain r2 s2 where two: "remove_pod_containers env i rollback_grace True s1 = (r2, s2)" by fastforce
  have k2: "drop_pod i (cs (ag_world s2)) = drop_pod i (cs (ag_world s))"
    using remove_pod_others[OF L i two] k1 by simp
  have up2: "cs (ag_world s2) = drop_pod i (cs (ag_world s))" if "ctr_up env"
  proof -
    have "r2 = Inr ()" using remove_pod_succeeds[OF that, of i rollback_grace True s1] two by auto
    then show ?thesis using remove_pod_effect[OF L i] two k1 by simp
  qed
  obtain r3 s3 where three: "cgroup_remove_pod env i s2 = (r3, s3)" by fastforce
  have k3: "cs (ag_world s3) = cs (ag_world s2)" by (rule keeps_ctrsD[OF keeps_ctrs_cgroups(2)[OF I] three])
  obtain r4 s4 where four: "release_vlan env i s3 = (r4, s4)" by fastforce
  have k4: "cs (ag_world s4) = cs (ag_world s3)" by (rule keeps_ctrsD[OF keeps_ctrs_vlans(2)[OF I] four])
  have v4: "vlan_of s4 i = None"
    using four by (auto simp: release_vlan_def save_vlans_def vlan_of_def map_of_eq_None_iff split: if_splits dest!: on_world_vlans)
  have "snd (rollback env i ns cts v s) = s4"
    using one two three four by (simp add: rollback_def sbind_def logged_def)
  with k2 up2 k3 k4 v4 show ?thesis by simp
qed

section \<open>Properties\<close>

text \<open>
  C14. Applying a pod is all or nothing, as far as containerd lets it. Take an accepted request of a caller
  in the role node, and any calls to the VLAN file, containerd, the image store, the cgroup file system
  and the CNI daemon failing. Containers of other pods stay as they are. When the call succeeds, there
  are of the pod itself exactly the containers of the request. When no VLAN can be allocated, the call
  fails and no container is touched at all. When it fails later, and containerd lists its containers and
  refuses no removal except of what is not there, no container of the pod is left and it has no VLAN.
\<close>

theorem apply_is_all_or_nothing:
  assumes L: "ctr_laws env cs" and i: "CHR 0x22 \<notin> set i"
    and ok: "validate_apply po = Inr (i, namespace, cts, limits)"
    and role: "check_role caller RoleNode = Inr ()"
    and run: "apply_pod env caller po s = (r, s')"
  shows "drop_pod i (cs (ag_world s')) = drop_pod i (cs (ag_world s)) \<and>
     (is_ok r \<longrightarrow> cs (ag_world s') =
        (\<lambda>c. if c \<in> container_ids i cts then Some i else drop_pod i (cs (ag_world s)) c)) \<and>
     (if isl (fst (allocate_for env i s)) then isl r \<and> cs (ag_world s') = cs (ag_world s)
      else isl r \<longrightarrow> ctr_up env \<longrightarrow> cs (ag_world s') = drop_pod i (cs (ag_world s)) \<and> vlan_of s' i = None)"
proof -
  have I: "inert_calls env cs" by (rule ctr_lawsD(1)[OF L])
  obtain r0 s0 where vlan: "allocate_for env i s = (r0, s0)" by fastforce
  have k0: "cs (ag_world s0) = cs (ag_world s)" by (rule keeps_ctrsD[OF keeps_ctrs_vlans(1)[OF I] vlan])
  note steps = run role ok vlan
  show ?thesis
  proof (cases r0)
    case (Inl e)
    then have "isl r \<and> s' = s0" using steps by (auto simp: apply_pod_def sbind_def smap_err_def)
    then show ?thesis using Inl vlan k0 by (auto simp: is_ok_def split: sum.splits)
  next
    case v: (Inr v)
    obtain r1 s1 where one: "remove_pod_containers env i default_grace True s0 = (r1, s1)" by fastforce
    have k1: "drop_pod i (cs (ag_world s1)) = drop_pod i (cs (ag_world s))"
      using remove_pod_others[OF L i one] k0 by simp
    show ?thesis
    proof (cases r1)
      case (Inl e)
      then have "isl r \<and> s' = s1 \<and> \<not> ctr_up env"
        using steps v one remove_pod_succeeds[of env i default_grace True s0]
        by (auto simp: apply_pod_def sbind_def smap_err_def)
      then show ?thesis using k1 v vlan by (auto simp: is_ok_def split: sum.splits)
    next
      case u: (Inr u)
      have e1: "cs (ag_world s1) = drop_pod i (cs (ag_world s))"
        using remove_pod_effect[OF L i] one u k0 by simp
      obtain r2 s2 where two: "start_pod env i namespace cts limits v s1 = (r2, s2)" by fastforce
      note eff = start_pod_effect[OF L two]
      have fin: "start_or_rollback env i namespace cts limits v s1 = (r, s')"
        using steps v one u by (simp add: apply_pod_def sbind_def smap_err_def)
      show ?thesis
      proof (cases r2)
        case (Inl e)
        then have "r = Inl e" "s' = snd (rollback env i namespace cts v s2)"
          using fin two by (simp_all add: start_or_rollback_def)
        then show ?thesis using rollback_effect[OF L i] eff k1 v vlan by simp
      next
        case (Inr ip)
        then have r: "r = Inr (i, ip)" "s' = s2" using fin two by (simp_all add: start_or_rollback_def)
        have "drop_pod i (cs (ag_world s')) = drop_pod i (cs (ag_world s))" using eff k1 r by metis
        moreover have "cs (ag_world s') =
            (\<lambda>c. if c \<in> container_ids i cts then Some i else drop_pod i (cs (ag_world s)) c)"
          using eff e1 Inr r by (simp cong: if_cong)
        ultimately show ?thesis using r v vlan by (intro conjI) simp_all
      qed
    qed
  qed
qed

end
