(* ===== verification/Ip_Pool.thy ===== *)
theory Ip_Pool imports Cni_Host begin

text \<open>
  \<open>cni/src/ip_pool.rs\<close>: one directory per VLAN holds the set of addresses handed out there. Every
  operation reads the file under a lock, changes the set and replaces the file.
\<close>

section \<open>Operations\<close>

record ip_pool =
  pl_dir :: string
  pl_first :: ipv4
  pl_last :: ipv4

definition pool_dir :: "nat \<Rightarrow> string" where
  "pool_dir vlan = ''vlan-'' @ show_nat vlan"

definition ip_pool_new :: "string \<Rightarrow> ipv4 \<Rightarrow> ipv4 \<Rightarrow> io_error + ip_pool" where
  "ip_pool_new dir lo hi =
     (if hi < lo then Inl (IoError KInvalidInput ''invalid IP pool range'')
      else Inr \<lparr>pl_dir = dir, pl_first = lo, pl_last = hi\<rparr>)"

text \<open>\<open>IpPoolDirectory::pool\<close> of node \<open>node\<close>.\<close>

definition pool :: "nat \<Rightarrow> nat \<Rightarrow> io_error + ip_pool" where
  "pool node vlan =
     (if 255 < vlan then Inl (IoError KInvalidInput ''vlan_id must fit in a single byte'')
      else let (lo, hi) = pool_range vlan node in ip_pool_new (pool_dir vlan) lo hi)"

text \<open>Which entries of the root, listed in the order \<open>ord\<close>, are pools.\<close>

definition vlan_of_dir :: "string \<Rightarrow> nat option" where
  "vlan_of_dir name = (case strip_prefix ''vlan-'' name of None \<Rightarrow> None | Some suffix \<Rightarrow> parse_u8 suffix)"

fun list_vlans :: "'k host \<Rightarrow> string list \<Rightarrow> nat list \<Rightarrow> ('k, nat list) io" where
  "list_vlans h [] acc = sret acc"
| "list_vlans h (name # names) acc =
     sbind (fs h FsReadDir) (\<lambda>_ s.
       (case c_pools s name of
          Some (PoolDir _) \<Rightarrow>
            (case vlan_of_dir name of None \<Rightarrow> list_vlans h names acc s
             | Some v \<Rightarrow> list_vlans h names (acc @ [v]) s)
        | _ \<Rightarrow> list_vlans h names acc s))"

definition known_vlans :: "'k host \<Rightarrow> string list \<Rightarrow> ('k, nat list) io" where
  "known_vlans h ord s =
     (case fs h FsReadDir s of
        (Inl e, s1) \<Rightarrow> if io_kind e = KNotFound then (Inr [], s1) else (Inl e, s1)
      | (Inr _, s1) \<Rightarrow> list_vlans h ord [] s1)"

definition create_pool_dir :: "'k host \<Rightarrow> string \<Rightarrow> ('k, unit) io" where
  "create_pool_dir h dir =
     sbind (fs h FsCreateDir) (\<lambda>_ s.
       (case c_pools s dir of
          None \<Rightarrow> (Inr (), s\<lparr>c_pools := (c_pools s)(dir \<mapsto> PoolDir None)\<rparr>)
        | Some (PoolDir _) \<Rightarrow> (Inr (), s)
        | Some NotDir \<Rightarrow> (Inl (IoError KAlreadyExists ''File exists''), s)))"

definition read_pool :: "'k host \<Rightarrow> string \<Rightarrow> ('k, ipv4 set) io" where
  "read_pool h dir s =
     (case fs h FsOpen s of
        (Inl e, s1) \<Rightarrow> if io_kind e = KNotFound then (Inr {}, s1) else (Inl e, s1)
      | (Inr _, s1) \<Rightarrow>
          (case c_pools s1 dir of
             Some (PoolDir (Some content)) \<Rightarrow>
               sbind (fs h FsRead) (\<lambda>_. case content of Content A \<Rightarrow> sret A
                 | Garbage \<Rightarrow> fail_with KInvalidData ''IP pool state is unreadable'') s1
           | _ \<Rightarrow> (Inr {}, s1)))"

text \<open>The temporary file, its renaming over the state file, and the sync of the directory.\<close>

definition write_pool :: "'k host \<Rightarrow> string \<Rightarrow> ipv4 set \<Rightarrow> ('k, unit) io" where
  "write_pool h dir A =
     sbind (fs h FsWrite) (\<lambda>_. sbind (fs h FsChmod) (\<lambda>_. sbind (fs h FsWrite) (\<lambda>_.
     sbind (fs h FsPersist) (\<lambda>_.
     sbind (\<lambda>s. (Inr (), s\<lparr>c_pools := (c_pools s)(dir \<mapsto> PoolDir (Some (Content A)))\<rparr>)) (\<lambda>_.
     fs h FsSyncDir)))))"

definition with_pool_state ::
  "'k host \<Rightarrow> ip_pool \<Rightarrow> (ipv4 set \<Rightarrow> io_error + 'a \<times> ipv4 set) \<Rightarrow> ('k, 'a) io" where
  "with_pool_state h p operation =
     sbind (create_pool_dir h (pl_dir p)) (\<lambda>_. sbind (fs h FsChmod) (\<lambda>_.
     sbind (fs h FsOpen) (\<lambda>_. sbind (fs h FsLock) (\<lambda>_.
     sbind (read_pool h (pl_dir p)) (\<lambda>A. sbind (slift (operation A)) (\<lambda>(x, A').
     sbind (write_pool h (pl_dir p) A') (\<lambda>_. sret x)))))))"

definition take_free :: "ip_pool \<Rightarrow> ipv4 set \<Rightarrow> io_error + ipv4 \<times> ipv4 set" where
  "take_free p A =
     (case List.find (\<lambda>a. a \<notin> A) [pl_first p..<Suc (pl_last p)] of
        None \<Rightarrow> Inl (IoError KOther ''IP pool is exhausted'')
      | Some a \<Rightarrow> Inr (a, insert a A))"

definition allocate :: "'k host \<Rightarrow> ip_pool \<Rightarrow> ('k, ipv4) io" where
  "allocate h p = with_pool_state h p (take_free p)"

definition release :: "'k host \<Rightarrow> ip_pool \<Rightarrow> ipv4 \<Rightarrow> ('k, bool) io" where
  "release h p a =
     (if a < pl_first p \<or> pl_last p < a then fail_with KInvalidInput ''address is outside the IP pool''
      else with_pool_state h p (\<lambda>A. Inr (a \<in> A, A - {a})))"

definition reset :: "'k host \<Rightarrow> ip_pool \<Rightarrow> ipv4 set \<Rightarrow> ('k, unit) io" where
  "reset h p allocated = with_pool_state h p (\<lambda>A. Inr ((), allocated))"

section \<open>What the operations do to the pools\<close>

text \<open>The addresses a pool directory holds as handed out.\<close>

definition taken :: "'k cni \<Rightarrow> string \<Rightarrow> ipv4 set" where
  "taken s dir = (case c_pools s dir of Some (PoolDir (Some (Content A))) \<Rightarrow> A | _ \<Rightarrow> {})"

text \<open>File systems whose failures never pretend that a file is missing.\<close>

definition honest :: "'k host \<Rightarrow> bool" where
  "honest h \<longleftrightarrow> (\<forall>t c e. h_fault h t c = Some e \<longrightarrow> io_kind e \<noteq> KNotFound)"

text \<open>Only what happens before the renaming fails: the sync of a directory works.\<close>

definition synced :: "'k host \<Rightarrow> bool" where
  "synced h \<longleftrightarrow> (\<forall>t. h_fault h t FsSyncDir = None)"

definition tick :: "'k cni \<Rightarrow> 'k cni" where
  "tick s = s\<lparr>c_clock := Suc (c_clock s)\<rparr>"

lemma tick_simps [simp]:
  "c_state (tick s) = c_state s" "c_pools (tick s) = c_pools s" "c_kernel (tick s) = c_kernel s"
  "taken (tick s) = taken s"
  by (simp_all add: tick_def taken_def fun_eq_iff)

lemma fs_run: "fs h c s = (case h_fault h (c_clock s) c of None \<Rightarrow> Inr () | Some e \<Rightarrow> Inl e, tick s)"
  by (simp add: fs_def tick_def split: option.splits)

lemma sbind_fs: "sbind (fs h c) f s =
   (case h_fault h (c_clock s) c of None \<Rightarrow> f () (tick s) | Some e \<Rightarrow> (Inl e, tick s))"
  by (simp add: sbind_def fs_run split: option.splits)

lemma taken_update: "taken (t\<lparr>c_pools := (c_pools s)(dir \<mapsto> e)\<rparr>) =
   (taken s)(dir := (case e of PoolDir (Some (Content A)) \<Rightarrow> A | _ \<Rightarrow> {}))"
  by (auto simp: taken_def fun_eq_iff)

lemma taken_absent: "c_pools s dir = None \<Longrightarrow> (taken s)(dir := {}) = taken s"
  by (simp add: taken_def fun_eq_iff)

lemma taken_cong: "c_pools s' = c_pools s \<Longrightarrow> taken s' = taken s"
  by (simp add: taken_def fun_eq_iff)

lemma pool_entry_cases:
  obtains "e = None" | "e = Some NotDir" | "e = Some (PoolDir None)"
    | A where "e = Some (PoolDir (Some (Content A)))" | "e = Some (PoolDir (Some Garbage))"
proof (cases e)
  case (Some p)
  then show ?thesis
  proof (cases p)
    case (PoolDir c)
    then show ?thesis
      using Some that by (cases c) (auto intro: stored.exhaust)
  qed (use Some that in auto)
qed (use that in auto)

lemma create_pool_dir_frame:
  "create_pool_dir h dir s = (r, s') \<Longrightarrow> taken s' = taken s \<and> c_state s' = c_state s \<and> c_kernel s' = c_kernel s"
  by (auto simp: create_pool_dir_def sbind_fs taken_update taken_absent
      split: option.splits pool_entry.splits)

lemma read_pool_frame:
  assumes "read_pool h dir s = (r, s')"
  shows "c_pools s' = c_pools s \<and> c_state s' = c_state s \<and> c_kernel s' = c_kernel s \<and>
     (honest h \<longrightarrow> (\<forall>A. r = Inr A \<longrightarrow> A = taken s dir))"
proof (cases "h_fault h (c_clock s) FsOpen")
  case (Some e)
  have "honest h \<Longrightarrow> io_kind e \<noteq> KNotFound" using Some by (auto simp: honest_def)
  with Some assms show ?thesis by (auto simp: read_pool_def fs_run split: if_splits)
next
  case None
  then show ?thesis
    using assms
    by (cases rule: pool_entry_cases[of "c_pools s dir"])
       (auto simp: read_pool_def fs_run sbind_fs taken_def fail_with_def split: option.splits)
qed

lemma write_pool_frame:
  assumes "write_pool h dir A s = (r, s')"
  shows "c_state s' = c_state s \<and> c_kernel s' = c_kernel s \<and>
     (taken s' = taken s \<or> taken s' = (taken s)(dir := A)) \<and>
     (r = Inr () \<longrightarrow> taken s' = (taken s)(dir := A)) \<and>
     (\<forall>e. synced h \<longrightarrow> r = Inl e \<longrightarrow> taken s' = taken s)"
proof -
  have upd: "sbind (\<lambda>s. (Inr (), g s)) f s = f () (g s)" for g f and s :: "'a cni" by (simp add: sbind_def)
  show ?thesis
    using assms
    by (auto simp: write_pool_def sbind_fs upd fs_run taken_update synced_def split: option.splits)
qed

text \<open>
  A pool operation either leaves every pool as it was or replaces its own by the operation's result;
  on success it did the latter.
\<close>

lemma with_pool_state_frame:
  assumes "with_pool_state h p operation s = (r, s')" and h: "honest h"
  shows "c_state s' = c_state s \<and> c_kernel s' = c_kernel s \<and>
     (taken s' = taken s \<or> (\<exists>x A. operation (taken s (pl_dir p)) = Inr (x, A) \<and> taken s' = (taken s)(pl_dir p := A))) \<and>
     (\<forall>x. r = Inr x \<longrightarrow> (\<exists>A. operation (taken s (pl_dir p)) = Inr (x, A) \<and> taken s' = (taken s)(pl_dir p := A))) \<and>
     (\<forall>e. synced h \<longrightarrow> r = Inl e \<longrightarrow> taken s' = taken s)"
proof -
  let ?d = "pl_dir p"
  obtain r1 s1 where dir: "create_pool_dir h ?d s = (r1, s1)" by fastforce
  note one = create_pool_dir_frame[OF dir]
  let ?rest = "\<lambda>A. sbind (slift (operation A)) (\<lambda>(x, A'). sbind (write_pool h ?d A') (\<lambda>_. sret x))"
  have stop: "c_state t = c_state s \<and> c_kernel t = c_kernel s \<and> taken t = taken s \<Longrightarrow> (r, s') = (Inl e, t) \<Longrightarrow> ?thesis" for t e
    by auto
  consider e t where "(r, s') = (Inl e, t)" "c_state t = c_state s \<and> c_kernel t = c_kernel s \<and> taken t = taken s"
    | t where "sbind (read_pool h ?d) ?rest t = (r, s')" "c_state t = c_state s \<and> c_kernel t = c_kernel s \<and> taken t = taken s"
  proof (cases r1)
    case (Inl e)
    then show ?thesis using that(1)[of e s1] assms(1) dir one by (simp add: with_pool_state_def sbind_def)
  next
    case (Inr u)
    then have "sbind (fs h FsChmod) (\<lambda>_. sbind (fs h FsOpen) (\<lambda>_. sbind (fs h FsLock) (\<lambda>_. sbind (read_pool h ?d) ?rest))) s1 = (r, s')"
      using assms(1) dir by (simp add: with_pool_state_def sbind_Inr[of _ s])
    then show ?thesis using that one unfolding sbind_fs by (auto split: option.splits)
  qed
  then show ?thesis
  proof cases
    case 1
    from stop[OF 1(2,1)] show ?thesis .
  next
    case (2 t)
    obtain r2 t2 where rd: "read_pool h ?d t = (r2, t2)" by fastforce
    have t2: "c_state t2 = c_state s \<and> c_kernel t2 = c_kernel s \<and> taken t2 = taken s"
      using read_pool_frame[OF rd] 2(2) taken_cong[of t2 t] by simp
    show ?thesis
    proof (cases r2)
      case (Inl e)
      then have "(r, s') = (Inl e, t2)" using 2(1) rd by simp
      from stop[OF t2 this] show ?thesis .
    next
      case (Inr A)
      then have A: "A = taken s ?d" using read_pool_frame[OF rd] h 2(2) by simp
      have run: "?rest (taken s ?d) t2 = (r, s')" using 2(1) rd Inr A by simp
      show ?thesis
      proof (cases "operation (taken s ?d)")
        case (Inl e)
        then have "(r, s') = (Inl e, t2)" using run by (simp add: sbind_def)
        from stop[OF t2 this] show ?thesis .
      next
        case (Inr xA)
        obtain x A' where xA: "xA = (x, A')" by (cases xA)
        obtain r3 t3 where wr: "write_pool h ?d A' t2 = (r3, t3)" by fastforce
        have "(r, s') = (case r3 of Inl y \<Rightarrow> (Inl y, t3) | Inr _ \<Rightarrow> (Inr x, t3))"
          using run wr Inr xA by (simp add: sbind_def split: sum.splits)
        then show ?thesis using write_pool_frame[OF wr] t2 Inr xA by (cases r3) auto
      qed
    qed
  qed
qed

lemma pool_eq: "pool node vlan = Inr p \<longleftrightarrow> vlan \<le> 255 \<and>
   p = \<lparr>pl_dir = pool_dir vlan, pl_first = ipv4_new 10 vlan node 2, pl_last = ipv4_new 10 vlan node 254\<rparr>"
  by (auto simp: pool_def pool_range_def ip_pool_new_def ipv4_new_def Let_def)

lemma pool_dir_inj: "pool_dir v = pool_dir w \<Longrightarrow> v = w"
  by (auto simp: pool_dir_def dest: show_nat_inj)

lemma pool_dir_vlan: "v \<le> 255 \<Longrightarrow> vlan_of_dir (pool_dir v) = Some v"
  by (simp add: vlan_of_dir_def pool_dir_def parse_show_nat del: append.simps)

lemma take_free_ok:
  assumes "take_free p A = Inr (a, A')"
  shows "a \<notin> A \<and> pl_first p \<le> a \<and> a \<le> pl_last p \<and> A' = insert a A \<and> (\<forall>b. pl_first p \<le> b \<and> b < a \<longrightarrow> b \<in> A)"
  using assms find_upt_least[of "\<lambda>a. a \<notin> A" "pl_first p" "Suc (pl_last p)" a]
  by (auto simp: take_free_def split: option.splits)

lemma take_free_full:
  "take_free p A = Inl e \<longleftrightarrow> e = IoError KOther ''IP pool is exhausted'' \<and> {pl_first p..pl_last p} \<subseteq> A"
  using find_upt_None[of "\<lambda>a. a \<notin> A" "pl_first p" "Suc (pl_last p)"]
  by (auto simp: take_free_def less_Suc_eq_le subset_iff split: option.splits)

text \<open>
  Allocation from a tenant's pool. A successful allocation hands out the lowest address of
  10.vlan.node.2 to 10.vlan.node.254 that was not handed out, and marks exactly that one; if no
  directory sync fails, a failed one leaves every pool as it was. Either way no other pool and no
  workload record changes.
\<close>

theorem allocate_takes_lowest_free:
  assumes "honest h" and "synced h" and "pool node vlan = Inr p" and "allocate h p s = (r, s')"
  shows "c_state s' = c_state s \<and>
     (case r of
        Inl e \<Rightarrow> taken s' = taken s
      | Inr a \<Rightarrow> in_pool vlan node a \<and> a \<notin> taken s (pool_dir vlan) \<and>
          (\<forall>b. in_pool vlan node b \<and> b < a \<longrightarrow> b \<in> taken s (pool_dir vlan)) \<and>
          taken s' = (taken s)(pool_dir vlan := insert a (taken s (pool_dir vlan))))"
proof -
  have p: "pl_dir p = pool_dir vlan" "pl_first p = fst (pool_range vlan node)" "pl_last p = snd (pool_range vlan node)"
    using assms(3) by (auto simp: pool_eq pool_range_def)
  note frame = with_pool_state_frame[OF assms(4)[unfolded allocate_def] assms(1)]
  show ?thesis
  proof (cases r)
    case (Inl e)
    then show ?thesis using frame assms(2) by simp
  next
    case (Inr a)
    then obtain A where A: "take_free p (taken s (pool_dir vlan)) = Inr (a, A)" "taken s' = (taken s)(pool_dir vlan := A)"
      using frame p(1) by auto
    from take_free_ok[OF A(1)] show ?thesis using Inr A(2) frame p by (simp add: in_pool_def)
  qed
qed

end
