(* ===== verification/Cni_State.thy ===== *)
theory Cni_State imports Ip_Pool begin

text \<open>
  \<open>cni/src/state.rs\<close>: one file per workload and network, named by a digest of the three names.
  Listing a directory takes its order \<open>ord\<close>.
\<close>

section \<open>Names\<close>

definition u64_bytes :: "nat \<Rightarrow> string" where
  "u64_bytes n = map (\<lambda>i. char_of (n div 256 ^ (7 - i) mod 256)) [0..<8]"

definition hex_digit :: "nat \<Rightarrow> char" where
  "hex_digit d = (if d < 10 then char_of (48 + d) else char_of (87 + d))"

definition hex_byte :: "nat \<Rightarrow> string" where
  "hex_byte b = [hex_digit (b div 16), hex_digit (b mod 16)]"

text \<open>The bytes that are hashed: every part after its length.\<close>

definition hashed_bytes :: "string list \<Rightarrow> string" where
  "hashed_bytes parts = concat (map (\<lambda>p. u64_bytes (length p) @ p) parts)"

definition stable_id :: "'k host \<Rightarrow> string list \<Rightarrow> string" where
  "stable_id h parts = concat (map hex_byte (take 12 (h_digest h (hashed_bytes parts))))"

definition state_path :: "'k host \<Rightarrow> string \<Rightarrow> string \<Rightarrow> string \<Rightarrow> string" where
  "state_path h workload instance_nm network = stable_id h [workload, instance_nm, network] @ ''.json''"

definition record_path :: "'k host \<Rightarrow> workload_record \<Rightarrow> string" where
  "record_path h r = state_path h (wr_workload_name r) (wr_instance_name r) (wr_network_name r)"

text \<open>\<open>path.extension() == Some("json")\<close>: the name ends in it after a non-empty stem.\<close>

definition has_json_extension :: "string \<Rightarrow> bool" where
  "has_json_extension name \<longleftrightarrow> ends_with ''.json'' name \<and> 5 < length name"

section \<open>Operations\<close>

definition read_record :: "'k host \<Rightarrow> workload_record stored \<Rightarrow> ('k, workload_record) io" where
  "read_record h content =
     sbind (fs h FsRead) (\<lambda>_. case content of Content r \<Rightarrow> sret r
       | Garbage \<Rightarrow> fail_with KInvalidData ''workload state is unreadable'')"

text \<open>\<open>File::open\<close> and \<open>read_record\<close> on a name of the state directory.\<close>

definition read_file :: "'k host \<Rightarrow> string \<Rightarrow> ('k, workload_record) io" where
  "read_file h name =
     sbind (fs h FsOpen) (\<lambda>_ s. case c_state s name of
       None \<Rightarrow> (Inl (IoError KNotFound ''No such file or directory''), s)
     | Some content \<Rightarrow> read_record h content s)"

definition load :: "'k host \<Rightarrow> string \<Rightarrow> string \<Rightarrow> string \<Rightarrow> ('k, workload_record option) io" where
  "load h workload instance_nm network s =
     (case fs h FsOpen s of
        (Inl e, s1) \<Rightarrow> if io_kind e = KNotFound then (Inr None, s1) else (Inl e, s1)
      | (Inr _, s1) \<Rightarrow>
          (case c_state s1 (state_path h workload instance_nm network) of
             None \<Rightarrow> (Inr None, s1)
           | Some content \<Rightarrow> sbind (read_record h content) (\<lambda>r. sret (Some r)) s1))"

definition save :: "'k host \<Rightarrow> workload_record \<Rightarrow> ('k, unit) io" where
  "save h r =
     sbind (fs h FsCreateDir) (\<lambda>_. sbind (fs h FsChmod) (\<lambda>_.
     if h_too_large h r then fail_with KInvalidInput ''workload state is too large''
     else sbind (fs h FsWrite) (\<lambda>_. sbind (fs h FsChmod) (\<lambda>_. sbind (fs h FsWrite) (\<lambda>_.
     sbind (fs h FsPersist) (\<lambda>_.
     sbind (\<lambda>s. (Inr (), s\<lparr>c_state := (c_state s)(record_path h r \<mapsto> Content r)\<rparr>)) (\<lambda>_.
     fs h FsSyncDir)))))))"

definition delete_record :: "'k host \<Rightarrow> string \<Rightarrow> string \<Rightarrow> string \<Rightarrow> ('k, bool) io" where
  "delete_record h workload instance_nm network s =
     (case fs h FsRemove s of
        (Inl e, s1) \<Rightarrow> if io_kind e = KNotFound then (Inr False, s1) else (Inl e, s1)
      | (Inr _, s1) \<Rightarrow>
          let path = state_path h workload instance_nm network
          in if c_state s1 path = None then (Inr False, s1)
             else sbind (fs h FsSyncDir) (\<lambda>_. sret True) (s1\<lparr>c_state := (c_state s1)(path := None)\<rparr>))"

definition maps_port :: "int \<Rightarrow> nat \<Rightarrow> workload_record \<Rightarrow> bool" where
  "maps_port protocol host_port r \<longleftrightarrow>
     (\<exists>m \<in> set (wr_port_mappings r). port_protocol m = protocol \<and> port_external m = host_port)"

fun scan_port :: "'k host \<Rightarrow> string list \<Rightarrow> int \<Rightarrow> nat \<Rightarrow> ('k, bool) io" where
  "scan_port h [] protocol host_port = sret False"
| "scan_port h (name # names) protocol host_port =
     sbind (fs h FsReadDir) (\<lambda>_.
       if \<not> has_json_extension name then scan_port h names protocol host_port
       else sbind (read_file h name) (\<lambda>r.
         if maps_port protocol host_port r then sret True else scan_port h names protocol host_port))"

definition port_is_used :: "'k host \<Rightarrow> string list \<Rightarrow> int \<Rightarrow> nat \<Rightarrow> ('k, bool) io" where
  "port_is_used h ord protocol host_port s =
     (case fs h FsReadDir s of
        (Inl e, s1) \<Rightarrow> if io_kind e = KNotFound then (Inr False, s1) else (Inl e, s1)
      | (Inr _, s1) \<Rightarrow> scan_port h ord protocol host_port s1)"

text \<open>\<open>records\<close> skips a file it cannot read.\<close>

fun scan_records :: "'k host \<Rightarrow> string list \<Rightarrow> workload_record list \<Rightarrow> ('k, workload_record list) io" where
  "scan_records h [] acc = sret acc"
| "scan_records h (name # names) acc =
     sbind (fs h FsReadDir) (\<lambda>_ s.
       if \<not> has_json_extension name then scan_records h names acc s
       else case read_file h name s of
         (Inr r, s1) \<Rightarrow> scan_records h names (acc @ [r]) s1
       | (Inl _, s1) \<Rightarrow> scan_records h names acc s1)"

definition records :: "'k host \<Rightarrow> string list \<Rightarrow> ('k, workload_record list) io" where
  "records h ord s =
     (case fs h FsReadDir s of
        (Inl e, s1) \<Rightarrow> if io_kind e = KNotFound then (Inr [], s1) else (Inl e, s1)
      | (Inr _, s1) \<Rightarrow> scan_records h ord [] s1)"

section \<open>What the operations do to the files\<close>

lemma taken_state_update [simp]: "taken (t\<lparr>c_state := f\<rparr>) = taken t"
  by (simp add: taken_def fun_eq_iff)

lemma read_file_frame:
  "read_file h name s = (r, s') \<Longrightarrow> c_state s' = c_state s \<and> c_pools s' = c_pools s \<and> c_kernel s' = c_kernel s \<and>
     (\<forall>x. r = Inr x \<longrightarrow> c_state s name = Some (Content x))"
  by (auto simp: read_file_def read_record_def sbind_fs fail_with_def split: option.splits stored.splits)

lemma load_frame:
  "load h w i n s = (r, s') \<Longrightarrow> c_state s' = c_state s \<and> c_pools s' = c_pools s \<and> c_kernel s' = c_kernel s \<and>
     (\<forall>x. r = Inr (Some x) \<longrightarrow> c_state s (state_path h w i n) = Some (Content x)) \<and>
     (honest h \<longrightarrow> r = Inr None \<longrightarrow> c_state s (state_path h w i n) = None)"
  by (auto simp: load_def fs_run read_record_def sbind_def fail_with_def honest_def
      split: option.splits stored.splits if_splits prod.splits sum.splits)

lemma save_frame:
  assumes "save h r s = (res, s')"
  shows "c_pools s' = c_pools s \<and> c_kernel s' = c_kernel s \<and>
     (c_state s' = c_state s \<or> c_state s' = (c_state s)(record_path h r \<mapsto> Content r)) \<and>
     (res = Inr () \<longrightarrow> c_state s' = (c_state s)(record_path h r \<mapsto> Content r)) \<and>
     (\<forall>e. synced h \<longrightarrow> res = Inl e \<longrightarrow> c_state s' = c_state s)"
proof -
  have upd: "sbind (\<lambda>s. (Inr (), g s)) f s = f () (g s)" for g f and s :: "'a cni" by (simp add: sbind_def)
  show ?thesis
    using assms
    by (auto simp: save_def sbind_fs upd fs_run fail_with_def synced_def split: option.splits if_splits)
qed

lemma delete_record_frame:
  assumes "delete_record h w i n s = (res, s')"
  shows "c_pools s' = c_pools s \<and> c_kernel s' = c_kernel s \<and>
     (c_state s' = c_state s \<or> c_state s' = (c_state s)(state_path h w i n := None)) \<and>
     (honest h \<longrightarrow> (\<exists>b. res = Inr b) \<longrightarrow> c_state s' = (c_state s)(state_path h w i n := None)) \<and>
     (\<forall>e. synced h \<longrightarrow> res = Inl e \<longrightarrow> c_state s' = c_state s)"
  using assms
  by (auto simp: delete_record_def fs_run sbind_fs Let_def honest_def synced_def fun_upd_idem
      split: option.splits if_splits)

lemma scan_port_frame:
  "scan_port h names pr hp s = (r, s') \<Longrightarrow> c_state s' = c_state s \<and> c_pools s' = c_pools s \<and> c_kernel s' = c_kernel s \<and>
     (r = Inr False \<longrightarrow> (\<forall>name \<in> set names. \<forall>x. c_state s name = Some (Content x) \<longrightarrow> has_json_extension name \<longrightarrow>
        \<not> maps_port pr hp x))"
proof (induction names arbitrary: s)
  case (Cons name names)
  show ?case
  proof (cases "h_fault h (c_clock s) FsReadDir")
    case (Some e)
    with Cons.prems show ?thesis by (auto simp: sbind_fs)
  next
    case None
    show ?thesis
    proof (cases "has_json_extension name")
      case False
      then have "scan_port h names pr hp (tick s) = (r, s')" using Cons.prems None by (simp add: sbind_fs)
      from Cons.IH[OF this] False show ?thesis by simp
    next
      case True
      obtain r1 s1 where rd: "read_file h name (tick s) = (r1, s1)" by fastforce
      note fr = read_file_frame[OF rd]
      show ?thesis
      proof (cases r1)
        case (Inl e)
        then show ?thesis using Cons.prems None True rd fr by (auto simp: sbind_fs)
      next
        case (Inr x)
        then have run: "(if maps_port pr hp x then sret True else scan_port h names pr hp) s1 = (r, s')"
          using Cons.prems None True rd by (simp add: sbind_fs)
        show ?thesis
        proof (cases "maps_port pr hp x")
          case True
          with run fr show ?thesis by auto
        next
          case False
          with run have "scan_port h names pr hp s1 = (r, s')" by simp
          from Cons.IH[OF this] False fr Inr show ?thesis by auto
        qed
      qed
    qed
  qed
qed auto

lemma port_is_used_frame:
  assumes "port_is_used h ord pr hp s = (r, s')"
  shows "c_state s' = c_state s \<and> c_pools s' = c_pools s \<and> c_kernel s' = c_kernel s \<and>
     (honest h \<longrightarrow> r = Inr False \<longrightarrow> (\<forall>name \<in> set ord. \<forall>x. c_state s name = Some (Content x) \<longrightarrow>
        has_json_extension name \<longrightarrow> \<not> maps_port pr hp x))"
proof (cases "h_fault h (c_clock s) FsReadDir")
  case (Some e)
  have "honest h \<Longrightarrow> io_kind e \<noteq> KNotFound" using Some by (auto simp: honest_def)
  with Some assms show ?thesis by (auto simp: port_is_used_def fs_run split: if_splits)
next
  case None
  then have "scan_port h ord pr hp (tick s) = (r, s')" using assms by (simp add: port_is_used_def fs_run)
  from scan_port_frame[OF this] show ?thesis by simp
qed

lemma record_path_json: "has_json_extension (state_path h w i n) \<longleftrightarrow> stable_id h [w, i, n] \<noteq> []"
  by (simp add: has_json_extension_def state_path_def ends_with_def)

end
