(* ===== verification/Firewall.thy ===== *)
theory Firewall imports Cni_Host begin

text \<open>
  \<open>cni/src/network/firewall.rs\<close>: the iptables chains of the daemon. A rule is the argument list of
  its \<open>iptables\<close> invocation, as in the code.
\<close>

section \<open>Names\<close>

definition bridge_name :: string where
  "bridge_name = ''barenetes0''"

definition forward_chain :: string where
  "forward_chain = ''BARENETES-FORWARD''"

definition prerouting_chain :: string where
  "prerouting_chain = ''BARENETES-PREROUTING''"

definition output_chain :: string where
  "output_chain = ''BARENETES-OUTPUT''"

definition tenant_interfaces :: string where
  "tenant_interfaces = ''barenetes0.+''"

section \<open>Rules\<close>

abbreviation iptables_ok :: "'k host \<Rightarrow> string list \<Rightarrow> ('k, bool) io" where
  "iptables_ok h \<equiv> succeeds h ''iptables''"

abbreviation iptables :: "'k host \<Rightarrow> string list \<Rightarrow> ('k, unit) io" where
  "iptables h \<equiv> run h ''iptables''"

definition ensure_chain :: "'k host \<Rightarrow> string \<Rightarrow> string \<Rightarrow> ('k, unit) io" where
  "ensure_chain h table chain =
     sbind (iptables_ok h [''-t'', table, ''-S'', chain]) (\<lambda>ok.
       if ok then sret () else iptables h [''-t'', table, ''-N'', chain])"

definition ensure_jump :: "'k host \<Rightarrow> string \<Rightarrow> string \<Rightarrow> string \<Rightarrow> string list \<Rightarrow> ('k, unit) io" where
  "ensure_jump h table parent chain match_args =
     (let scoped_check = [''-t'', table, ''-C'', parent] @ match_args @ [''-j'', chain]
      in sbind (iptables_ok h scoped_check) (\<lambda>ok.
         sbind (if ok then iptables h (scoped_check[2 := ''-D'']) else sret ()) (\<lambda>_.
         sbind (if match_args = [] then sret False
                else iptables_ok h [''-t'', table, ''-C'', parent, ''-j'', chain]) (\<lambda>unscoped.
         sbind (if unscoped then iptables h [''-t'', table, ''-D'', parent, ''-j'', chain] else sret ()) (\<lambda>_.
         iptables h ([''-t'', table, ''-I'', parent, ''1''] @ match_args @ [''-j'', chain]))))))"

text \<open>The argument \<open>-C\<close> of a check replaced by the argument of a change.\<close>

fun instead_of_check :: "string list \<Rightarrow> string list \<Rightarrow> string list" where
  "instead_of_check with [] = []"
| "instead_of_check with (a # args) = (if a = ''-C'' then with @ args else a # instead_of_check with args)"

text \<open>For an insertion at the head, the position goes after the chain.\<close>

fun insert_first :: "string list \<Rightarrow> string list" where
  "insert_first [] = []"
| "insert_first (a # args) =
     (if a = ''-C'' then ''-I'' # take 1 args @ [''1''] @ drop 1 args else a # insert_first args)"

definition ensure_rule :: "'k host \<Rightarrow> string list \<Rightarrow> ('k, unit) io" where
  "ensure_rule h check =
     sbind (iptables_ok h check) (\<lambda>ok. if ok then sret () else iptables h (instead_of_check [''-A''] check))"

definition ensure_rule_first :: "'k host \<Rightarrow> string list \<Rightarrow> ('k, unit) io" where
  "ensure_rule_first h check =
     sbind (iptables_ok h check) (\<lambda>ok. if ok then sret () else iptables h (insert_first check))"

definition forward_check :: "string list \<Rightarrow> string list" where
  "forward_check args = [''-t'', ''filter'', ''-C'', forward_chain] @ args"

definition drop_between_tenants :: "string list" where
  "drop_between_tenants = [''-i'', tenant_interfaces, ''-o'', tenant_interfaces, ''-j'', ''DROP'']"

definition forward_accepts :: "string list list" where
  "forward_accepts =
     [[''-m'', ''conntrack'', ''--ctstate'', ''ESTABLISHED,RELATED'', ''-j'', ''ACCEPT''],
      [''-i'', tenant_interfaces, ''-j'', ''ACCEPT''],
      [''-o'', tenant_interfaces, ''-j'', ''ACCEPT''],
      [''-i'', bridge_name, ''-j'', ''ACCEPT''],
      [''-o'', bridge_name, ''-j'', ''ACCEPT'']]"

fun ensure_rules :: "'k host \<Rightarrow> string list list \<Rightarrow> ('k, unit) io" where
  "ensure_rules h [] = sret ()"
| "ensure_rules h (r # rs) = sbind (ensure_rule h (forward_check r)) (\<lambda>_. ensure_rules h rs)"

definition ensure_egress :: "'k host \<Rightarrow> ('k, unit) io" where
  "ensure_egress h =
     sbind (run h ''sysctl'' [''-q'', ''-w'', ''net.ipv4.ip_forward=1'']) (\<lambda>_.
     sbind (ensure_chain h ''nat'' prerouting_chain) (\<lambda>_.
     sbind (ensure_jump h ''nat'' ''PREROUTING'' prerouting_chain []) (\<lambda>_.
     sbind (ensure_chain h ''nat'' output_chain) (\<lambda>_.
     sbind (ensure_jump h ''nat'' ''OUTPUT'' output_chain [''-m'', ''addrtype'', ''--dst-type'', ''LOCAL'']) (\<lambda>_.
     sbind (ensure_chain h ''filter'' forward_chain) (\<lambda>_.
     sbind (ensure_jump h ''filter'' ''FORWARD'' forward_chain []) (\<lambda>_.
     sbind (ensure_rule_first h (forward_check drop_between_tenants)) (\<lambda>_.
     ensure_rules h forward_accepts))))))))"

definition ensure_tenant_nat :: "'k host \<Rightarrow> nat \<Rightarrow> nat \<Rightarrow> ('k, unit) io" where
  "ensure_tenant_nat h vlan node =
     ensure_rule h [''-t'', ''nat'', ''-C'', ''POSTROUTING'', ''-s'',
       ''10.'' @ show_nat vlan @ ''.'' @ show_nat node @ ''.0/24'', ''!'', ''-o'', ''barenetes0+'', ''-j'', ''MASQUERADE'']"

section \<open>Port mappings\<close>

definition valid_port :: "nat \<Rightarrow> bool" where
  "valid_port n \<longleftrightarrow> n \<noteq> 0 \<and> n \<le> 65535"

fun validate_mappings_from :: "(int \<times> nat) set \<Rightarrow> port list \<Rightarrow> io_error + unit" where
  "validate_mappings_from seen [] = Inr ()"
| "validate_mappings_from seen (m # ms) =
     (if \<not> valid_port (port_external m) \<or> \<not> valid_port (port_internal m)
      then Inl (IoError KInvalidInput ''ports must be between 1 and 65535'')
      else if protocol_of_i32 (port_protocol m) = None
      then Inl (IoError KInvalidInput ''port protocol must be TCP or UDP'')
      else if (port_protocol m, port_external m) \<in> seen
      then Inl (IoError KInvalidInput ''duplicate host port mapping'')
      else validate_mappings_from (insert (port_protocol m, port_external m) seen) ms)"

definition validate_mappings :: "port list \<Rightarrow> io_error + unit" where
  "validate_mappings = validate_mappings_from {}"

definition protocol_name :: "port \<Rightarrow> io_error + string" where
  "protocol_name m = (case protocol_of_i32 (port_protocol m) of
     Some Tcp \<Rightarrow> Inr ''tcp'' | Some Udp \<Rightarrow> Inr ''udp''
   | None \<Rightarrow> Inl (IoError KInvalidInput ''invalid port protocol''))"

definition mapping_rule :: "string \<Rightarrow> bool \<Rightarrow> string \<Rightarrow> string \<Rightarrow> string \<Rightarrow> string list" where
  "mapping_rule chain ingress proto hostp destination =
     [''-t'', ''nat'', ''-C'', chain] @ (if ingress then [''!'', ''-i'', bridge_name] else []) @
     [''-p'', proto, ''--dport'', hostp, ''-j'', ''DNAT'', ''--to-destination'', destination]"

definition ensure_mapping_rule :: "'k host \<Rightarrow> string list \<Rightarrow> ('k, unit) io" where
  "ensure_mapping_rule h rule =
     sbind (iptables_ok h rule) (\<lambda>ok. if ok then sret () else iptables h (rule[2 := ''-A'']))"

definition delete_mapping_rule :: "'k host \<Rightarrow> string list \<Rightarrow> ('k, unit) io" where
  "delete_mapping_rule h rule =
     sbind (iptables_ok h rule) (\<lambda>ok. if \<not> ok then sret () else iptables h (rule[2 := ''-D'']))"

definition mapping_rules :: "string \<Rightarrow> port \<Rightarrow> string \<Rightarrow> string list \<times> string list" where
  "mapping_rules address m proto =
     (let hostp = show_nat (port_external m); destination = address @ '':'' @ show_nat (port_internal m)
      in (mapping_rule prerouting_chain True proto hostp destination,
          mapping_rule output_chain False proto hostp destination))"

definition add_mapping :: "'k host \<Rightarrow> string \<Rightarrow> port \<Rightarrow> ('k, unit) io" where
  "add_mapping h address m =
     sbind (slift (protocol_name m)) (\<lambda>proto.
       sbind (ensure_mapping_rule h (fst (mapping_rules address m proto))) (\<lambda>_.
       ensure_mapping_rule h (snd (mapping_rules address m proto))))"

definition delete_mapping :: "'k host \<Rightarrow> string \<Rightarrow> port \<Rightarrow> ('k, unit) io" where
  "delete_mapping h address m =
     sbind (slift (protocol_name m)) (\<lambda>proto.
       sbind (delete_mapping_rule h (fst (mapping_rules address m proto))) (\<lambda>_.
       delete_mapping_rule h (snd (mapping_rules address m proto))))"

fun delete_ignoring :: "'k host \<Rightarrow> string \<Rightarrow> port list \<Rightarrow> ('k, unit) io" where
  "delete_ignoring h address [] = sret ()"
| "delete_ignoring h address (m # ms) =
     sbind (ignoring (delete_mapping h address m)) (\<lambda>_. delete_ignoring h address ms)"

text \<open>\<open>installed\<close> are the mappings to take back when one fails.\<close>

fun install_mappings :: "'k host \<Rightarrow> string \<Rightarrow> port list \<Rightarrow> port list \<Rightarrow> ('k, unit) io" where
  "install_mappings h address installed [] = sret ()"
| "install_mappings h address installed (m # ms) =
     sbind (on_error (add_mapping h address m) (delete_ignoring h address installed)) (\<lambda>_.
       install_mappings h address (installed @ [m]) ms)"

definition add_mappings :: "'k host \<Rightarrow> string \<Rightarrow> port list \<Rightarrow> ('k, unit) io" where
  "add_mappings h address mappings =
     sbind (slift (validate_mappings mappings)) (\<lambda>_. install_mappings h address [] mappings)"

fun delete_mappings :: "'k host \<Rightarrow> string \<Rightarrow> port list \<Rightarrow> ('k, unit) io" where
  "delete_mappings h address [] = sret ()"
| "delete_mappings h address (m # ms) =
     sbind (delete_mapping h address m) (\<lambda>_. delete_mappings h address ms)"

section \<open>The durable files are untouched\<close>

lemma keeps_files_rule [files_kept]:
  "keeps_files (ensure_chain h t c)" "keeps_files (ensure_jump h t p c ma)" "keeps_files (ensure_rule h ck)"
  "keeps_files (ensure_rule_first h ck)" "keeps_files (ensure_mapping_rule h ru)" "keeps_files (delete_mapping_rule h ru)"
  unfolding ensure_chain_def ensure_jump_def ensure_rule_def ensure_rule_first_def ensure_mapping_rule_def
    delete_mapping_rule_def Let_def
  by (intro files_kept files_rules)+

lemma keeps_files_rules [files_kept]: "keeps_files (ensure_rules h rs)"
  by (induction rs) (simp_all only: ensure_rules.simps, (intro files_kept files_rules | assumption)+)

lemma keeps_files_mapping [files_kept]: "keeps_files (add_mapping h a m)" "keeps_files (delete_mapping h a m)"
  unfolding add_mapping_def delete_mapping_def by (intro files_kept files_rules)+

lemma keeps_files_delete_ignoring [files_kept]: "keeps_files (delete_ignoring h a ms)"
  by (induction ms) (simp_all only: delete_ignoring.simps, (intro files_kept files_rules | assumption)+)

lemma keeps_files_install [files_kept]: "keeps_files (install_mappings h a is ms)"
  by (induction ms arbitrary: "is") (simp_all only: install_mappings.simps, (intro files_kept files_rules | assumption)+)

lemma keeps_files_mappings [files_kept]:
  "keeps_files (add_mappings h a ms)" "keeps_files (delete_mappings h a ms)"
proof -
  show "keeps_files (add_mappings h a ms)" unfolding add_mappings_def by (intro files_kept files_rules)
  show "keeps_files (delete_mappings h a ms)"
    by (induction ms) (simp_all only: delete_mappings.simps, (intro files_kept files_rules | assumption)+)
qed

lemma keeps_files_egress [files_kept]:
  "keeps_files (ensure_egress h)" "keeps_files (ensure_tenant_nat h v n)"
  unfolding ensure_egress_def ensure_tenant_nat_def by (intro files_kept files_rules)+

end
