(* ===== verification/Cni_Workload.thy ===== *)
theory Cni_Workload imports Cni_State Firewall begin

text \<open>
  \<open>cni/src/network/\<close>: the bridge, the VXLAN overlay, the VLAN of a tenant, and the three requests of
  the daemon (\<open>workload.rs\<close>). \<open>node\<close> is the node number the pool directory was opened with, \<open>ord\<close>
  the order in which the state directory is listed.
\<close>

section \<open>Bridge, overlay, VLAN\<close>

abbreviation ip_ok :: "'k host \<Rightarrow> string list \<Rightarrow> ('k, bool) io" where
  "ip_ok h \<equiv> succeeds h ''ip''"

abbreviation ip_cmd :: "'k host \<Rightarrow> string list \<Rightarrow> ('k, unit) io" where
  "ip_cmd h \<equiv> run h ''ip''"

abbreviation bridge_cmd :: "'k host \<Rightarrow> string list \<Rightarrow> ('k, unit) io" where
  "bridge_cmd h \<equiv> run h ''bridge''"

definition ensure_bridge :: "'k host \<Rightarrow> ('k, unit) io" where
  "ensure_bridge h =
     (if \<not> h_is_root h then fail_with KPermissionDenied ''CNI network setup requires root privileges''
      else sbind (ip_ok h [''link'', ''show'', ''dev'', bridge_name]) (\<lambda>there.
           sbind (if there then sret True else ip_ok h [''link'', ''add'', ''name'', bridge_name, ''type'', ''bridge'']) (\<lambda>made.
           sbind (if made then sret True else ip_ok h [''link'', ''show'', ''dev'', bridge_name]) (\<lambda>ok.
           if \<not> ok then fail_with KOther ''failed to create CNI bridge''
           else sbind (slift (mtu h)) (\<lambda>m.
                run_all h
                  [(''ip'', [''link'', ''set'', ''dev'', bridge_name, ''mtu'', show_nat m]),
                   (''ip'', [''link'', ''set'', ''dev'', bridge_name, ''up'']),
                   (''ip'', [''link'', ''set'', ''dev'', bridge_name, ''type'', ''bridge'', ''vlan_filtering'', ''1''])])))))"

definition vxlan :: string where
  "vxlan = ''barenetes-vx''"

definition remote_nodes :: "'k host \<Rightarrow> io_error + string list" where
  "remote_nodes h = (case env_nonempty h ''BARENETES_REMOTE_NODE_IPS'' of
     None \<Rightarrow> Inr []
   | Some v \<Rightarrow> collect_results (map (\<lambda>item. ok_or (h_parse_ip h item)
       (IoError KInvalidInput ''invalid remote node IP'')) (split_on (CHR '','') v)))"

definition parse_optional_ip :: "'k host \<Rightarrow> string \<Rightarrow> io_error + string option" where
  "parse_optional_ip h name = (case h_env h name of
     None \<Rightarrow> Inr None
   | Some v \<Rightarrow> (case h_parse_ip h v of
       None \<Rightarrow> Inl (IoError KInvalidInput (''invalid '' @ name))
     | Some a \<Rightarrow> Inr (Some a)))"

definition node_id :: "'k host \<Rightarrow> io_error + nat" where
  "node_id h = (case env_nonempty h ''BARENETES_NODE_ID'' of
     None \<Rightarrow> rbind (remote_nodes h) (\<lambda>rs. if rs = [] then Inr 0
               else Inl (IoError KInvalidInput ''BARENETES_NODE_ID is required with remote nodes''))
   | Some v \<Rightarrow> ok_or (parse_u8 v) (IoError KInvalidInput ''BARENETES_NODE_ID must be between 0 and 255''))"

definition vxlan_matches :: "string \<Rightarrow> string \<Rightarrow> bool" where
  "vxlan_matches local_ip details \<longleftrightarrow>
     contains_str ''vxlan id 42'' details \<and> contains_str (''local '' @ local_ip) details \<and>
     contains_str ''dstport 4789'' details \<and> contains_str ''nolearning'' details"

definition ensure_overlay :: "'k host \<Rightarrow> ('k, unit) io" where
  "ensure_overlay h =
     sbind (slift (remote_nodes h)) (\<lambda>remotes.
     if remotes = [] then sret ()
     else sbind (slift (parse_optional_ip h ''BARENETES_NODE_IP'')) (\<lambda>local_opt.
       case local_opt of
         None \<Rightarrow> fail_with KInvalidInput ''BARENETES_NODE_IP is required with remote nodes''
       | Some local_ip \<Rightarrow>
           sbind (ip_ok h [''link'', ''show'', ''dev'', vxlan]) (\<lambda>there.
           sbind (if there
                  then sbind (cmd_output h ''ip'' [''-d'', ''link'', ''show'', ''dev'', vxlan]) (\<lambda>details.
                       if vxlan_matches local_ip details then sret ()
                       else fail_with KInvalidData ''existing VXLAN has incompatible configuration'')
                  else ip_cmd h [''link'', ''add'', vxlan, ''type'', ''vxlan'', ''id'', ''42'', ''local'', local_ip,
                       ''dstport'', ''4789'', ''nolearning'']) (\<lambda>_.
           sbind (ip_cmd h [''link'', ''set'', ''dev'', vxlan, ''master'', bridge_name]) (\<lambda>_.
           sbind (slift (mtu h)) (\<lambda>m.
           run_all h
             ([(''ip'', [''link'', ''set'', ''dev'', vxlan, ''mtu'', show_nat m]),
               (''ip'', [''link'', ''set'', ''dev'', vxlan, ''up'']),
               (''bridge'', [''vlan'', ''add'', ''dev'', vxlan, ''vid'', ''1-4094'']),
               (''bridge'', [''fdb'', ''flush'', ''dev'', vxlan])] @
              map (\<lambda>remote. (''bridge'', [''fdb'', ''append'', ''00:00:00:00:00:00'', ''dev'', vxlan, ''dst'', remote, ''self'']))
                remotes)))))))"

definition vlan_interface :: "nat \<Rightarrow> string" where
  "vlan_interface vlan = bridge_name @ ''.'' @ show_nat vlan"

definition ensure_vlan :: "'k host \<Rightarrow> nat \<Rightarrow> nat \<Rightarrow> ('k, ipv4) io" where
  "ensure_vlan h vlan node =
     (let name = vlan_interface vlan; gw = gateway vlan node
      in sbind (bridge_cmd h [''vlan'', ''add'', ''dev'', bridge_name, ''vid'', show_nat vlan, ''self'']) (\<lambda>_.
         sbind (ip_ok h [''link'', ''show'', ''dev'', name]) (\<lambda>there.
         sbind (if there then sret ()
                else ip_cmd h [''link'', ''add'', ''link'', bridge_name, ''name'', name, ''type'', ''vlan'', ''id'', show_nat vlan]) (\<lambda>_.
         sbind (ip_cmd h [''address'', ''replace'', show_ipv4 gw @ ''/16'', ''dev'', name]) (\<lambda>_.
         sbind (slift (mtu h)) (\<lambda>m.
         sbind (ip_cmd h [''link'', ''set'', ''dev'', name, ''mtu'', show_nat m]) (\<lambda>_.
         sbind (ip_cmd h [''link'', ''set'', ''dev'', name, ''up'']) (\<lambda>_.
         sbind (ensure_tenant_nat h vlan node) (\<lambda>_. sret gw)))))))))"

section \<open>Requests\<close>

definition is_hexdigit :: "char \<Rightarrow> bool" where
  "is_hexdigit c \<longleftrightarrow> is_digit_char c \<or>
     (97 \<le> (of_char c :: nat) \<and> (of_char c :: nat) \<le> 102) \<or> (65 \<le> (of_char c :: nat) \<and> (of_char c :: nat) \<le> 70)"

definition host_interface_id_len :: nat where
  "host_interface_id_len = 10"

definition host_interface_name :: "'k host \<Rightarrow> string \<Rightarrow> string \<Rightarrow> string \<Rightarrow> string" where
  "host_interface_name h workload instance_nm network =
     ''v'' @ take host_interface_id_len (stable_id h [workload, instance_nm, network])"

definition is_host_interface_name :: "string \<Rightarrow> bool" where
  "is_host_interface_name name \<longleftrightarrow>
     length name = host_interface_id_len + 1 \<and> starts_with ''v'' name \<and> list_all is_hexdigit (drop 1 name)"

definition validate_name :: "string \<Rightarrow> io_error + unit" where
  "validate_name v =
     (if v = [] \<or> 63 < length v \<or>
         \<not> list_all (\<lambda>c. is_alnum_ascii c \<or> c = CHR ''.'' \<or> c = CHR ''_'' \<or> c = CHR ''-'') v
      then Inl (IoError KInvalidInput ''invalid workload or network name'') else Inr ())"

definition validate_refs :: "workload_ref option \<Rightarrow> network_ref option \<Rightarrow> io_error + workload_ref \<times> network_ref" where
  "validate_refs wo no =
     rbind (ok_or wo (IoError KInvalidInput ''workload is required'')) (\<lambda>w.
     rbind (ok_or no (IoError KInvalidInput ''network is required'')) (\<lambda>n.
     rbind (validate_name (wl_workload_name w)) (\<lambda>_.
     rbind (validate_name (wl_instance_name w)) (\<lambda>_.
     rbind (validate_name (nw_network_name n)) (\<lambda>_. Inr (w, n))))))"

text \<open>\<open>/proc/<pid>/ns/net\<close>, read by path components: empty and \<open>.\<close> components vanish.\<close>

definition netns_pid :: "string \<Rightarrow> nat option" where
  "netns_pid path =
     (if starts_with ''/'' path
      then case filter (\<lambda>c. c \<noteq> [] \<and> c \<noteq> ''.'') (split_on (CHR ''/'') path) of
             [a, pid, b, c] \<Rightarrow>
               if a = ''proc'' \<and> b = ''ns'' \<and> c = ''net''
               then (case parse_u32 pid of None \<Rightarrow> None | Some n \<Rightarrow> if 0 < n then Some n else None) else None
           | _ \<Rightarrow> None
      else None)"

definition validate_add_request ::
  "add_network_request \<Rightarrow> io_error + workload_ref \<times> network_ref \<times> nat \<times> string" where
  "validate_add_request req =
     rbind (validate_refs (an_workload req) (an_network req)) (\<lambda>(w, n).
     if nw_vlan_id n < 1 \<or> 255 < nw_vlan_id n
     then Inl (IoError KInvalidInput ''network vlan_id must be between 1 and 255'')
     else let interface_nm = (if an_interface_name req = [] then ''eth0'' else an_interface_name req)
          in if 15 < length interface_nm \<or>
                \<not> list_all (\<lambda>c. is_alnum_ascii c \<or> c = CHR ''_'' \<or> c = CHR ''-'') interface_nm
             then Inl (IoError KInvalidInput ''invalid interface name'')
             else rbind (ok_or (netns_pid (an_netns_path req))
                    (IoError KInvalidInput ''netns_path must be /proc/<pid>/ns/net'')) (\<lambda>pid.
                  Inr (w, n, pid, interface_nm)))"

definition open_netns :: "'k host \<Rightarrow> string \<Rightarrow> ('k, ns_file) io" where
  "open_netns h path =
     sbind (\<lambda>s. (h_open_ns h path (c_kernel s), s)) (\<lambda>f.
     sbind (\<lambda>s. (h_ns_id h ''/proc/self/ns/net'' (c_kernel s), s)) (\<lambda>own.
     if nf_id f = own then fail_with KInvalidInput ''netns_path refers to the host network namespace''
     else sbind (fs h FsFcntl) (\<lambda>_. sret f)))"

definition netns_matches :: "'k host \<Rightarrow> ns_file \<Rightarrow> nat \<Rightarrow> ('k, bool) io" where
  "netns_matches h f pid =
     sbind (\<lambda>s. (h_ns_id h (''/proc/'' @ show_nat pid @ ''/ns/net'') (c_kernel s), s)) (\<lambda>now.
     sret (nf_id f = now))"

definition run_in_namespace :: "'k host \<Rightarrow> ns_file \<Rightarrow> string list \<Rightarrow> ('k, unit) io" where
  "run_in_namespace h f args =
     sbind (slift (resolve h ''ip'')) (\<lambda>ip.
     run h ''nsenter'' ([''--net=/proc/self/fd/'' @ show_nat (nf_fd f), ''--'', ip] @ args))"

definition record_to_network :: "workload_record \<Rightarrow> workload_network" where
  "record_to_network r = \<lparr>wn_state = network_state_i32 NetReady, wn_interface_name = wr_interface_name r,
     wn_ip_address = wr_ip_address r, wn_gateway = wr_gateway r, wn_network_name = wr_network_name r\<rparr>"

definition release_record_ip :: "'k host \<Rightarrow> nat \<Rightarrow> workload_record \<Rightarrow> ('k, unit) io" where
  "release_record_ip h node r =
     (case parse_ipv4 (wr_ip_address r) of
        None \<Rightarrow> fail_with KInvalidData ''stored IP address is invalid''
      | Some a \<Rightarrow> (\<lambda>s.
          (case sbind (slift (pool node (wr_vlan_id r))) (\<lambda>p. release h p a) s of
             (Inr _, s1) \<Rightarrow> (Inr (), s1)
           | (Inl e, s1) \<Rightarrow> if io_kind e = KInvalidInput then (Inr (), s1) else (Inl e, s1))))"

text \<open>The record of the workload is already there: an answer, or nothing when it was stale.\<close>

definition existing_network ::
  "'k host \<Rightarrow> nat \<Rightarrow> network_ref \<Rightarrow> string \<Rightarrow> port list \<Rightarrow> workload_ref \<Rightarrow> workload_record \<Rightarrow>
   ('k, workload_network option) io" where
  "existing_network h node n interface_nm mappings w r =
     (if wr_interface_name r \<noteq> interface_nm \<or> wr_vlan_id r \<noteq> nw_vlan_id n \<or> wr_port_mappings r \<noteq> mappings
      then fail_with KInvalidInput ''workload network already exists with different settings''
      else sbind (ip_ok h [''link'', ''show'', ''dev'', wr_host_interface r]) (\<lambda>there.
        if \<not> there
        then sbind (delete_mappings h (wr_ip_address r) (wr_port_mappings r)) (\<lambda>_.
             sbind (release_record_ip h node r) (\<lambda>_.
             sbind (delete_record h (wl_workload_name w) (wl_instance_name w) (nw_network_name n)) (\<lambda>_.
             sret None)))
        else sbind (add_mappings h (wr_ip_address r) (wr_port_mappings r)) (\<lambda>_.
             sret (Some (record_to_network r)))))"

fun check_ports_free :: "'k host \<Rightarrow> string list \<Rightarrow> port list \<Rightarrow> ('k, unit) io" where
  "check_ports_free h ord [] = sret ()"
| "check_ports_free h ord (m # ms) =
     sbind (port_is_used h ord (port_protocol m) (port_external m)) (\<lambda>used.
     if used then fail_with KInvalidInput ''host port is already used'' else check_ports_free h ord ms)"

text \<open>The veth pair of the workload, from its creation to the bridge port on the tenant's VLAN.\<close>

definition setup_interfaces ::
  "'k host \<Rightarrow> ns_file \<Rightarrow> nat \<Rightarrow> string \<Rightarrow> string \<Rightarrow> string \<Rightarrow> string \<Rightarrow> nat \<Rightarrow> nat \<Rightarrow> ('k, unit) io" where
  "setup_interfaces h ns pid host_if interface_nm address_prefix gateway_str vlan m =
     (let peer = ''p'' @ drop 1 host_if
      in sbind (ip_cmd h [''link'', ''add'', host_if, ''mtu'', show_nat m, ''type'', ''veth'', ''peer'', ''name'', peer,
                   ''mtu'', show_nat m]) (\<lambda>_.
         sbind (netns_matches h ns pid) (\<lambda>same.
         if \<not> same then fail_with KInvalidInput ''netns_path no longer refers to the requested namespace''
         else sbind (ip_cmd h [''link'', ''set'', peer, ''netns'', show_nat pid]) (\<lambda>_.
         sbind (run_in_namespace h ns [''link'', ''set'', ''dev'', peer, ''name'', interface_nm]) (\<lambda>_.
         sbind (run_in_namespace h ns [''address'', ''replace'', address_prefix, ''dev'', interface_nm]) (\<lambda>_.
         sbind (run_in_namespace h ns [''link'', ''set'', ''dev'', interface_nm, ''up'']) (\<lambda>_.
         sbind (run_in_namespace h ns [''link'', ''set'', ''dev'', ''lo'', ''up'']) (\<lambda>_.
         sbind (run_in_namespace h ns [''route'', ''replace'', ''default'', ''via'', gateway_str, ''dev'', interface_nm]) (\<lambda>_.
         run_all h
           [(''ip'', [''link'', ''set'', ''dev'', host_if, ''master'', bridge_name]),
            (''bridge'', [''vlan'', ''del'', ''dev'', host_if, ''vid'', ''1'']),
            (''bridge'', [''vlan'', ''add'', ''dev'', host_if, ''vid'', show_nat vlan, ''pvid'', ''untagged'']),
            (''ip'', [''link'', ''set'', ''dev'', host_if, ''up''])]))))))))) "

definition undo_attach :: "'k host \<Rightarrow> string \<Rightarrow> ip_pool \<Rightarrow> ipv4 \<Rightarrow> ('k, unit) io" where
  "undo_attach h host_if p a =
     sbind (ignoring (ip_cmd h [''link'', ''delete'', host_if])) (\<lambda>_. ignoring (release h p a))"

definition new_record ::
  "'k host \<Rightarrow> workload_ref \<Rightarrow> network_ref \<Rightarrow> string \<Rightarrow> ipv4 \<Rightarrow> ipv4 \<Rightarrow> port list \<Rightarrow> workload_record" where
  "new_record h w n interface_nm a gw mappings =
     \<lparr>wr_workload_name = wl_workload_name w, wr_instance_name = wl_instance_name w,
      wr_network_name = nw_network_name n,
      wr_host_interface = host_interface_name h (wl_workload_name w) (wl_instance_name w) (nw_network_name n),
      wr_interface_name = interface_nm, wr_ip_address = show_ipv4 a, wr_gateway = show_ipv4 gw,
      wr_vlan_id = nw_vlan_id n, wr_port_mappings = mappings\<rparr>"

text \<open>From the allocated address to the saved record; every failure undoes what was done.\<close>

definition connect_workload ::
  "'k host \<Rightarrow> ns_file \<Rightarrow> nat \<Rightarrow> ip_pool \<Rightarrow> ipv4 \<Rightarrow> workload_record \<Rightarrow> nat \<Rightarrow> ('k, workload_network) io" where
  "connect_workload h ns pid p a r m =
     sbind (on_error
       (setup_interfaces h ns pid (wr_host_interface r) (wr_interface_name r) (wr_ip_address r @ ''/16'')
          (wr_gateway r) (wr_vlan_id r) m)
       (undo_attach h (wr_host_interface r) p a)) (\<lambda>_.
     sbind (on_error (add_mappings h (wr_ip_address r) (wr_port_mappings r))
       (undo_attach h (wr_host_interface r) p a)) (\<lambda>_.
     sbind (on_error (save h r)
       (sbind (ignoring (delete_mappings h (wr_ip_address r) (wr_port_mappings r))) (\<lambda>_.
          undo_attach h (wr_host_interface r) p a)) ) (\<lambda>_.
     sret (record_to_network r))))"

definition attach_workload ::
  "'k host \<Rightarrow> nat \<Rightarrow> ns_file \<Rightarrow> workload_ref \<Rightarrow> network_ref \<Rightarrow> nat \<Rightarrow> string \<Rightarrow> port list \<Rightarrow>
   ('k, workload_network) io" where
  "attach_workload h node ns w n pid interface_nm mappings =
     sbind (slift (node_id h)) (\<lambda>this_node.
     sbind (ensure_vlan h (nw_vlan_id n mod 256) this_node) (\<lambda>gw.
     sbind (slift (pool node (nw_vlan_id n))) (\<lambda>p.
     sbind (allocate h p) (\<lambda>a.
     sbind (slift (mtu h)) (\<lambda>m.
     connect_workload h ns pid p a (new_record h w n interface_nm a gw mappings) m)))))"

definition add_workload_network ::
  "'k host \<Rightarrow> nat \<Rightarrow> string list \<Rightarrow> add_network_request \<Rightarrow> ('k, workload_network) io" where
  "add_workload_network h node ord req =
     sbind (slift (validate_add_request req)) (\<lambda>(w, n, pid, interface_nm).
     sbind (open_netns h (an_netns_path req)) (\<lambda>ns.
     sbind (slift (validate_mappings (an_port_mappings req))) (\<lambda>_.
     sbind (load h (wl_workload_name w) (wl_instance_name w) (nw_network_name n)) (\<lambda>found.
     sbind (case found of None \<Rightarrow> sret None
            | Some r \<Rightarrow> existing_network h node n interface_nm (an_port_mappings req) w r) (\<lambda>answer.
     case answer of
       Some net \<Rightarrow> sret net
     | None \<Rightarrow>
         sbind (check_ports_free h ord (an_port_mappings req)) (\<lambda>_.
         attach_workload h node ns w n pid interface_nm (an_port_mappings req)))))))"

definition get_workload_network ::
  "'k host \<Rightarrow> workload_ref option \<Rightarrow> network_ref option \<Rightarrow> ('k, workload_network) io" where
  "get_workload_network h wo no =
     sbind (slift (validate_refs wo no)) (\<lambda>(w, n).
     sbind (load h (wl_workload_name w) (wl_instance_name w) (nw_network_name n)) (\<lambda>found.
     sbind (slift (ok_or found (IoError KNotFound ''workload network does not exist''))) (\<lambda>r.
     sbind (ip_ok h [''link'', ''show'', ''dev'', wr_host_interface r]) (\<lambda>there.
     sret (if there then record_to_network r
           else (record_to_network r)\<lparr>wn_state := network_state_i32 NetError\<rparr>)))))"

definition delete_workload_network ::
  "'k host \<Rightarrow> nat \<Rightarrow> workload_ref option \<Rightarrow> network_ref option \<Rightarrow> ('k, bool) io" where
  "delete_workload_network h node wo no =
     sbind (slift (validate_refs wo no)) (\<lambda>(w, n).
     sbind (load h (wl_workload_name w) (wl_instance_name w) (nw_network_name n)) (\<lambda>found.
     case found of
       None \<Rightarrow> sret True
     | Some r \<Rightarrow>
         sbind (ip_ok h [''link'', ''show'', ''dev'', wr_host_interface r]) (\<lambda>there.
         sbind (if there then ip_cmd h [''link'', ''delete'', wr_host_interface r] else sret ()) (\<lambda>_.
         sbind (delete_mappings h (wr_ip_address r) (wr_port_mappings r)) (\<lambda>_.
         sbind (release_record_ip h node r) (\<lambda>_.
         sbind (delete_record h (wl_workload_name w) (wl_instance_name w) (nw_network_name n)) (\<lambda>_.
         sret True)))))))"

section \<open>What never touches the durable files\<close>

lemma keeps_files_reads [files_kept]:
  "keeps_files (\<lambda>s. (f (c_kernel s), s))" "keeps_files (load h w i n)" "keeps_files (port_is_used h ord pr hp)"
  using load_frame port_is_used_frame by (fastforce intro!: keeps_filesI simp: same_files_def)+

lemma keeps_files_network [files_kept]:
  "keeps_files (ensure_bridge h)" "keeps_files (ensure_overlay h)" "keeps_files (ensure_vlan h v n)"
  "keeps_files (open_netns h path)" "keeps_files (netns_matches h f pid)" "keeps_files (run_in_namespace h f args)"
  unfolding ensure_bridge_def ensure_overlay_def ensure_vlan_def open_netns_def netns_matches_def
    run_in_namespace_def Let_def
  by (intro files_kept files_rules)+

lemma keeps_files_setup [files_kept]: "keeps_files (setup_interfaces h ns pid hi i ap gs v m)"
  unfolding setup_interfaces_def Let_def by (intro files_kept files_rules)

lemma keeps_files_check_ports [files_kept]: "keeps_files (check_ports_free h ord ms)"
  by (induction ms) (simp_all only: check_ports_free.simps, (intro files_kept files_rules | assumption)+)

lemma keeps_files_get [files_kept]: "keeps_files (get_workload_network h wo no)"
  unfolding get_workload_network_def by (intro files_kept files_rules)

end
