(* ===== verification/Agent_Examples.thy ===== *)
theory Agent_Examples imports Agent_Rollback Cni_Workload begin

text \<open>
  The agent on a small world whose only state is the list of containers with their pod labels, with
  an executable containerd and a CNI daemon that can be made to refuse: the laws of \<open>Agent_Rollback\<close>
  hold of it, and the properties of the agent are applied to it.
\<close>

section \<open>The small world\<close>

type_synonym mini = "(string \<times> string) list"

definition mini_image :: "string \<Rightarrow> json option" where
  "mini_image digest =
     (if digest = ''sha256:m'' then Some (JObj [(''config'', JObj [(''digest'', JStr ''sha256:c'')])])
      else if digest = ''sha256:c'' then Some (JObj [(''config'', JObj [(''Entrypoint'', JArr [JStr ''/bin/web''])])])
      else None)"

definition mini_list :: "string \<Rightarrow> mini \<Rightarrow> string list" where
  "mini_list f w = filter (\<lambda>c. case map_of w c of Some p \<Rightarrow> label_filter p = f | None \<Rightarrow> False) (map fst w)"

definition mini_create :: "ctr_spec \<Rightarrow> mini \<Rightarrow> (status + unit) \<times> mini" where
  "mini_create sp w = (case map_of w (cr_id sp) of
     Some _ \<Rightarrow> (Inl (Status AlreadyExists ''container exists''), w)
   | None \<Rightarrow> (case map_of (cr_labels sp) pod_label of
       None \<Rightarrow> (Inl (Status InvalidArgument ''no label''), w)
     | Some p \<Rightarrow> (Inr (), (cr_id sp, p) # w)))"

definition mini_delete :: "string \<Rightarrow> mini \<Rightarrow> (status + unit) \<times> mini" where
  "mini_delete c w = (case map_of w c of
     None \<Rightarrow> (Inl (Status NotFound ''no such container''), w)
   | Some _ \<Rightarrow> (Inr (), filter (\<lambda>kv. fst kv \<noteq> c) w))"

definition mini_env :: "bool \<Rightarrow> mini agent_env" where
  "mini_env refuse = \<lparr>ae_arch = ''x86_64'', ae_digest = (\<lambda>x. x), ae_transfer = (\<lambda>_ _ w. (Inr (), w)),
     ae_image_target = (\<lambda>_ w. (Inr (Some ''sha256:m''), w)), ae_read_content = (\<lambda>d w. (Inr (mini_image d), w)),
     ae_prepare = (\<lambda>_ _ w. (Inr [], w)), ae_create = mini_create, ae_task_create = (\<lambda>_ _ w. (Inr 42, w)),
     ae_task_start = (\<lambda>_ w. (Inr (), w)), ae_list = (\<lambda>f w. (Inr (mini_list f w), w)),
     ae_kill = (\<lambda>_ _ w. (Inr (), w)), ae_wait = (\<lambda>_ _ w. (False, w)), ae_task_delete = (\<lambda>_ w. (Inr (), w)),
     ae_delete = mini_delete, ae_snapshot_remove = (\<lambda>_ w. (Inr (), w)),
     ae_add_network = (\<lambda>rq w. (if refuse then Inl (Status Unavailable ''cannot reach CNI daemon'')
        else Inr (Some \<lparr>wn_state = 1, wn_interface_name = ''eth0'', wn_ip_address = ''10.2.0.2'', wn_gateway = ''10.2.0.1'',
          wn_network_name = ''web''\<rparr>), w)),
     ae_delete_network = (\<lambda>_ _ w. (Inr True, w)), ae_exists = (\<lambda>_ _. False), ae_mkdir = (\<lambda>_ w. (Inr (), w)),
     ae_write = (\<lambda>_ _ w. (Inr (), w)), ae_leaves = (\<lambda>_ _. None), ae_rmdir = (\<lambda>_ w. (Inr (), w)),
     ae_read_vlans = (\<lambda>_. Inl (IoError KNotFound ''no file'')), ae_write_vlans = (\<lambda>_ w. (Inr (), w))\<rparr>"

lemma label_filter_inj: "label_filter p = label_filter q \<longleftrightarrow> p = q"
  by (simp add: label_filter_def)

lemma map_of_filter_fst: "map_of (filter (\<lambda>kv. fst kv \<noteq> c) w) = (map_of w)(c := None)"
  by (induction w) (auto simp: fun_eq_iff)

lemma mini_sel:
  "ae_create (mini_env b) = mini_create" "ae_delete (mini_env b) = mini_delete"
  "ae_list (mini_env b) f w = (Inr (mini_list f w), w)"
  by (simp_all add: mini_env_def)

lemma mini_laws: "ctr_laws (mini_env b) map_of"
  unfolding ctr_laws_def mini_sel
proof (intro conjI allI impI)
  show "inert_calls (mini_env b) map_of" by (simp add: inert_calls_def inert_def mini_env_def)
  show "set cids = {c. map_of w c = Some p}"
    if "(Inr (mini_list (label_filter p) w), w) = (Inr cids, w')" for p cids w and w' :: mini
    using that by (force simp: mini_list_def label_filter_inj split: option.splits dest: map_of_SomeD)
  show "map_of w (cr_id sp) = None" "map_of w' = (map_of w)(cr_id sp := map_of (cr_labels sp) pod_label)"
    if "mini_create sp w = (Inr u, w')" for sp w u w'
    using that by (auto simp: mini_create_def fun_eq_iff split: option.splits)
  show "map_of w' = map_of w" if "mini_create sp w = (Inl e, w')" for sp w e w'
    using that by (auto simp: mini_create_def split: option.splits)
  show "map_of w' = (map_of w)(c := None)" if "mini_delete c w = (Inr u, w')" for c w u w'
    using that by (auto simp: mini_delete_def map_of_filter_fst split: option.splits)
  show "map_of w' = map_of w" "map_of w c = None" if "mini_delete c w = (Inl e, w')" for c w e w'
    using that by (auto simp: mini_delete_def split: option.splits)
qed

lemma mini_up: "ctr_up (mini_env b)"
  by (auto simp: ctr_up_def answers_def mini_env_def mini_delete_def split: option.splits)

section \<open>A pod and its neighbour\<close>

definition web_container :: "string \<Rightarrow> container" where
  "web_container nm = \<lparr>ct_name = nm, ct_image = ''nginx'', ct_ports = [], ct_env = []\<rparr>"

definition pod_named :: "string \<Rightarrow> string list \<Rightarrow> pod_with_spec" where
  "pod_named nm cts = \<lparr>pw_pod = Some (default_pod\<lparr>p_name := nm\<rparr>),
     pw_spec = Some \<lparr>ps_namespace = [], ps_containers = map web_container cts\<rparr>\<rparr>"

definition busy_node :: "mini agent" where
  "busy_node = \<lparr>ag_vlans = [(''default.web'', 2), (''default.db'', 3)],
     ag_world = [(''default.web-old'', ''default.web''), (''default.db-main'', ''default.db'')]\<rparr>"

lemma web_pod_valid:
  "validate_apply (Some (pod_named ''web'' [''front'', ''side''])) =
     Inr (''default.web'', ''default'', [web_container ''front'', web_container ''side''], None)"
  by code_simp

lemma busy_allocated: "allocate_for env ''default.web'' busy_node = (Inr 2, busy_node)"
  by (simp add: allocate_for_def busy_node_def)

lemma refused_apply:
  "case apply_pod (mini_env True) Plaintext (Some (pod_named ''web'' [''front'', ''side''])) busy_node of (r, s) \<Rightarrow>
     isl r \<and> ag_world s = [(''default.db-main'', ''default.db'')]"
  by code_simp

lemma apply_is_all_or_nothing_witness:
  "map_of (ag_world (snd (apply_pod (mini_env True) Plaintext (Some (pod_named ''web'' [''front'', ''side''])) busy_node))) =
     drop_pod ''default.web'' (map_of (ag_world busy_node)) \<and>
   vlan_of (snd (apply_pod (mini_env True) Plaintext (Some (pod_named ''web'' [''front'', ''side''])) busy_node))
     ''default.web'' = None"
proof -
  let ?run = "apply_pod (mini_env True) Plaintext (Some (pod_named ''web'' [''front'', ''side''])) busy_node"
  have left: "isl (fst ?run)" using refused_apply by (simp add: case_prod_unfold)
  have "?run = (fst ?run, snd ?run)" by simp
  from apply_is_all_or_nothing[OF mini_laws _ web_pod_valid _ this] show ?thesis
    using left mini_up busy_allocated by simp
qed

text \<open>
  A containerd that refuses to delete a container because its task still runs: the rollback gives the
  pod's VLAN back while the container that holds it is still there.
\<close>

definition stuck_env :: "mini agent_env" where
  "stuck_env = (mini_env True)\<lparr>ae_delete := (\<lambda>_ w. (Inl (Status (OtherCode 9) ''container still running''), w))\<rparr>"

definition idle_node :: "mini agent" where
  "idle_node = \<lparr>ag_vlans = [(''default.web'', 2)], ag_world = []\<rparr>"

lemma rollback_frees_a_vlan_in_use:
  "case apply_pod stuck_env Plaintext (Some (pod_named ''web'' [''front''])) idle_node of (r, s) \<Rightarrow>
     isl r \<and> map snd (ag_world s) = [''default.web''] \<and> ag_vlans s = []"
  by code_simp

definition busy_agent :: "mini ds_agent" where
  "busy_agent = \<lparr>ds_node = busy_node, ds_registered = [], ds_reports = []\<rparr>"

definition run_web :: "(status + ds_event) list" where
  "run_web = [Inr \<lparr>dse_action = 0, dse_pod = Some (pod_named ''web'' [''front'', ''side''])\<rparr>,
     Inr \<lparr>dse_action = 1, dse_pod = Some (pod_named ''cache'' [''main''])\<rparr>]"

definition one_attempt :: "((string + resources) \<times> (status + unit) \<times> (status + (status + ds_event) list)) list" where
  "one_attempt = [(Inr \<lparr>res_cpu = 4000, res_memory = 8000\<rparr>, Inr (), Inr run_web)]"

lemma pods_never_share_a_vlan_witness:
  "vlan_of (ds_node (ds_run (mini_env False) Plaintext ''n1'' [] one_attempt busy_agent)) ''default.web'' = Some 2 \<and>
   2 \<le> (2::nat) \<and> 2 \<le> (4094::nat)"
proof -
  have ok: "vlans_ok (ag_vlans (ds_node busy_agent))"
    by (simp add: busy_agent_def busy_node_def vlans_ok_def first_vlan_def last_vlan_def)
  have two: "vlan_of (ds_node (ds_run (mini_env False) Plaintext ''n1'' [] one_attempt busy_agent)) ''default.web'' = Some 2"
    by code_simp
  from pods_never_share_a_vlan[OF ok two two] two show ?thesis by blast
qed

lemma stop_names_what_run_started_witness:
  "resolve_pod_id [] ''web'' = ''default.web'' \<and>
     pod_workload ''default.web'' (namespace_of ''default.web'') = pod_workload ''default.web'' ''default''"
  using stop_names_what_run_started[OF web_pod_valid] by (simp add: pod_named_def)

lemma detected_node_names_are_accepted_witness:
  "detect_node_name None (Inr ''My_Host.local'') = Inr ''my-host'' \<and>
     validate_dns1123_subdomain ''my-host'' ''node name'' = Inr ()"
proof -
  have nm: "detect_node_name None (Inr ''My_Host.local'') = Inr ''my-host''" by code_simp
  from detected_node_names_are_accepted[OF nm] show ?thesis using nm by simp
qed

section \<open>Where the agent and its neighbours disagree\<close>

text \<open>Every VLAN that the CNI daemon takes, in use.\<close>

definition crowded :: vlan_state where
  "crowded = map (\<lambda>v. (show_nat v, v)) [2..<256]"

lemma find_above: "a \<le> n \<Longrightarrow> n < b \<Longrightarrow> List.find (\<lambda>v. v \<notin> {a..<n}) [a..<b] = Some n"
  unfolding find_Some_iff by (intro exI[of _ "n - a"]) auto

lemma crowded_maps: "map snd crowded = [2..<256]" "map fst crowded = map show_nat [2..<256]"
  unfolding crowded_def list.map_comp by (simp_all only: comp_def snd_conv fst_conv list.map_ident)

lemma crowded_ok: "vlans_ok crowded"
proof -
  have "inj show_nat" by (rule injI) (rule show_nat_inj)
  then have "distinct (map show_nat [2..<256])" by (simp only: distinct_map distinct_upt inj_on_subset[OF _ subset_UNIV] simp_thms)
  moreover have "\<forall>v \<in> set [2..<256]. 2 \<le> v \<and> v \<le> 4094" unfolding set_upt by auto
  ultimately show ?thesis
    unfolding vlans_ok_def crowded_maps first_vlan_def last_vlan_def by (intro conjI distinct_upt)
qed

lemma crowded_next: "free_vlan crowded = Some 256"
  unfolding free_vlan_def crowded_maps set_upt first_vlan_def last_vlan_def by (rule find_above) simp_all

text \<open>
  The agent hands out VLANs the CNI daemon does not take: with 254 pods on a node the next VLAN is 256,
  and every request the agent can make for it is refused as invalid, so the pod fails on each attempt
  although more than 3800 VLANs of the agent's range are free.
\<close>

theorem agent_vlans_outgrow_cni:
  "vlans_ok crowded \<and> free_vlan crowded = Some 256 \<and>
   (\<forall>w c pid ifn ms. isl (validate_add_request (cni_request w (container_network c 256) pid ifn ms)))"
proof (intro conjI allI)
  show "vlans_ok crowded" by (rule crowded_ok)
  show "free_vlan crowded = Some 256" by (rule crowded_next)
  fix w c pid ifn ms
  have net: "nw_vlan_id (container_network c 256) = 256" by (simp add: container_network_def)
  show "isl (validate_add_request (cni_request w (container_network c 256) pid ifn ms))"
    by (cases "validate_refs (Some w) (Some (container_network c 256))")
      (auto simp: validate_add_request_def cni_request_def validate_refs_def rbind_eq_Inr net)
qed

definition two_pods :: "mini agent" where
  "two_pods = \<lparr>ag_vlans = [(''default.a'', 2), (''default.a-b'', 3)], ag_world = []\<rparr>"

text \<open>
  Container ids are not unique: pod \<open>a\<close> with container \<open>b-c\<close> and pod \<open>a-b\<close> with container
  \<open>c\<close>, all names the API server accepts, get the same container id, so the second pod cannot be
  applied on the node where the first one runs.
\<close>

theorem container_ids_collide:
  "is_ok (validate_dns1123_subdomain ''a-b'' ''pod name'') \<and> is_ok (validate_dns1123_subdomain ''b-c'' ''container name'') \<and>
   container_id (pod_id default_namespace ''a'') ''b-c'' = container_id (pod_id default_namespace ''a-b'') ''c'' \<and>
   (case apply_pod (mini_env False) Plaintext (Some (pod_named ''a'' [''b-c''])) two_pods of (r1, s1) \<Rightarrow>
      is_ok r1 \<and> isl (fst (apply_pod (mini_env False) Plaintext (Some (pod_named ''a-b'' [''c''])) s1)))"
  by code_simp

end
