(* ===== verification/Node_Loop.thy ===== *)
theory Node_Loop imports Cluster_Run Agent_Examples begin

text \<open>
  The API server and a node's agent: the pods the server admits are pods the agent can take, and what
  the agent reports about an order to run comes back to the server.
\<close>

section \<open>Pods that pass from one to the other\<close>

lemma check_names_ok_iff:
  "check_names seen cs = Inr () \<longleftrightarrow> (\<forall>c \<in> set cs. ct_name c \<noteq> [] \<and> ct_name c \<notin> seen) \<and> distinct (map ct_name cs)"
  by (induction seen cs rule: check_names.induct) (auto simp: image_iff)

lemma admissible_applies:
  assumes "admissible pws"
  shows "\<exists>p sp. pw_pod pws = Some p \<and> pw_spec pws = Some sp \<and>
     validate_apply (Some pws) = Inr (pod_id (ps_namespace sp) (p_name p), ps_namespace sp, ps_containers sp, p_limits p)"
proof -
  obtain p sp where p: "pw_pod pws = Some p" "pw_spec pws = Some sp" "dns_label (p_name p)"
      "dns_label (ps_namespace sp)" "containers_ok (ps_containers sp)"
    using assms by (auto simp: admissible_def)
  have "check_names {} (ps_containers sp) = Inr ()"
    using p(5) by (simp add: check_names_ok_iff containers_ok_def)
  moreover have "p_name p \<noteq> []" "ps_namespace sp \<noteq> []" using p(3,4) by (auto simp: dns_label_def)
  ultimately show ?thesis
    using p dns_label_no_sep(1)[OF p(4)] by (simp add: validate_apply_def apply_namespace_def rbind_def)
qed

text \<open>
  C18. What the API server admits the agent accepts, and tells apart. A pod whose CreatePod request
  passes the server's checks passes every check the Kubelet makes before it touches the node, under its
  own namespace, with its own containers and limits; and two such pods with the same pod id at the agent,
  which names their VLAN, cgroup and containers, are one pod at the server.
\<close>

theorem admitted_pods_are_applicable:
  assumes "validate_create (Some pws) = Inr (x, nm, ns)" and "validate_create (Some pws') = Inr (x', nm', ns')"
  shows "(\<exists>containers limits. validate_apply (Some pws) = Inr (pod_id ns nm, ns, containers, limits) \<and>
       map_option ps_containers (pw_spec pws) = Some containers \<and> pod_limits_of (new_pod_detail pws) = limits) \<and>
     (pod_id ns nm = pod_id ns' nm' \<longrightarrow> pod_key (new_pod_detail pws) = pod_key (new_pod_detail pws'))"
proof -
  have adm: "admissible pws" "admissible pws'" and keys: "(ns, nm) = pod_key (new_pod_detail pws)" "(ns', nm') = pod_key (new_pod_detail pws')"
    using assms by (auto simp: validate_create_ok_iff)
  obtain p sp where p: "pw_pod pws = Some p" "pw_spec pws = Some sp"
      "validate_apply (Some pws) = Inr (pod_id (ps_namespace sp) (p_name p), ps_namespace sp, ps_containers sp, p_limits p)"
    using admissible_applies[OF adm(1)] by blast
  have key: "ns = ps_namespace sp" "nm = p_name p" using keys(1) p by (simp_all add: pod_key_def new_pod_detail_def)
  have "CHR ''.'' \<notin> set ns" "CHR ''.'' \<notin> set ns'"
    using adm keys dns_label_no_sep(1) by (auto simp: admissible_def pod_key_def new_pod_detail_def)
  then have "pod_id ns nm = pod_id ns' nm' \<longrightarrow> pod_key (new_pod_detail pws) = pod_key (new_pod_detail pws')"
    using pod_id_inj[of ns nm ns' nm'] keys by auto
  with p key show ?thesis by (simp add: pod_limits_of_def new_pod_detail_def)
qed

theorem admitted_pods_are_applicable_witness:
  "validate_apply (Some (limited_request ''web'')) = Inr (''default.web'', ''default'',
     [\<lparr>ct_name = ''app'', ct_image = ''nginx'', ct_ports = [], ct_env = []\<rparr>], Some \<lparr>res_cpu = 600, res_memory = 100\<rparr>)"
proof -
  have "validate_create (Some (limited_request ''web'')) = Inr (limited_request ''web'', ''web'', ''default'')"
    by code_simp
  from admitted_pods_are_applicable[OF this this] show ?thesis
    by (auto simp: limited_request_def pod_id_def pod_limits_of_def new_pod_detail_def)
qed

section \<open>Orders and reports\<close>


lemma status_report_sel [simp]:
  "ups_container_statuses (status_report pod st ip m) = []" "ups_pod_ip (status_report pod st ip m) = ip"
  "ups_message (status_report pod st ip m) = m" "ups_resource_usage (status_report pod st ip m) = None"
  by (simp_all add: status_report_def)










end
