(* ===== verification/Firewall_Rules.thy ===== *)
theory Firewall_Rules imports Cni_Workload begin

text \<open>
  What the commands of \<open>firewall.rs\<close> achieve on iptables, whose documented behaviour is the named
  hypothesis \<open>iptables_laws\<close>: tenants are isolated from each other, and the rules of a workload's port
  mappings go as they came.
\<close>

section \<open>iptables\<close>

text \<open>The chains: table and name to the rules, each without its table, command and chain.\<close>

type_synonym chains = "(string \<times> string) \<rightharpoonup> string list list"

definition ipt_args :: "string \<Rightarrow> string \<Rightarrow> string \<Rightarrow> string list \<Rightarrow> string list" where
  "ipt_args cmd table chain rule = [''-w'', ''5'', ''-t'', table, cmd, chain] @ rule"

definition chain_of :: "chains \<Rightarrow> string \<Rightarrow> string \<Rightarrow> string list list" where
  "chain_of cs table chain = (case cs (table, chain) of None \<Rightarrow> [] | Some rs \<Rightarrow> rs)"

text \<open>What a command that succeeds does to the chains.\<close>

definition ipt_change :: "string \<Rightarrow> string \<Rightarrow> string \<Rightarrow> string list \<Rightarrow> chains \<Rightarrow> chains" where
  "ipt_change cmd t c r cs =
     (if cmd = ''-N'' then cs((t, c) \<mapsto> [])
      else if cmd = ''-A'' then cs((t, c) \<mapsto> chain_of cs t c @ [r])
      else if cmd = ''-I'' \<and> take 1 r = [''1''] then cs((t, c) \<mapsto> drop 1 r # chain_of cs t c)
      else if cmd = ''-D'' then cs((t, c) \<mapsto> remove1 r (chain_of cs t c))
      else cs)"

text \<open>The commands of \<open>firewall.rs\<close>: nothing is said of others.\<close>

definition ipt_known :: "string \<Rightarrow> string list \<Rightarrow> bool" where
  "ipt_known cmd r \<longleftrightarrow> cmd \<in> {''-N'', ''-S'', ''-C'', ''-A'', ''-D''} \<or> cmd = ''-I'' \<and> take 1 r = [''1'']"

text \<open>
  \<open>ch\<close> reads the chains off the kernel. A command that exits with a failure, or is not run, leaves
  them as they are, and so does \<open>sysctl\<close>. A check \<open>-C\<close> that succeeds found the rule; a failing one says
  nothing, because the exit status is also a failure when the lock of \<open>-w 5\<close> is not obtained.
\<close>

definition iptables_at :: "'k host \<Rightarrow> ('k \<Rightarrow> chains) \<Rightarrow> string \<Rightarrow> bool" where
  "iptables_at h ch ipt \<longleftrightarrow> resolve h ''iptables'' = Inr ipt \<and>
     (\<forall>cmd t c r k b k'. h_status h ipt (ipt_args cmd t c r) k = (Inr b, k') \<and> ipt_known cmd r \<longrightarrow>
        ch k' = (if b then ipt_change cmd t c r (ch k) else ch k) \<and>
        (cmd = ''-C'' \<and> b \<longrightarrow> r \<in> set (chain_of (ch k) t c))) \<and>
     (\<forall>args k e k'. h_status h ipt args k = (Inl e, k') \<longrightarrow> ch k' = ch k) \<and>
     (\<forall>p args k r k'. resolve h ''sysctl'' = Inr p \<and> h_status h p args k = (r, k') \<longrightarrow> ch k' = ch k)"

definition iptables_laws :: "'k host \<Rightarrow> ('k \<Rightarrow> chains) \<Rightarrow> bool" where
  "iptables_laws h ch \<longleftrightarrow> (\<exists>ipt. iptables_at h ch ipt)"

text \<open>No check fails for another reason than that the rule is absent.\<close>

definition checks_answer :: "'k host \<Rightarrow> ('k \<Rightarrow> chains) \<Rightarrow> bool" where
  "checks_answer h ch \<longleftrightarrow> (\<forall>ipt t c r k k'. resolve h ''iptables'' = Inr ipt \<and>
     h_status h ipt (ipt_args ''-C'' t c r) k = (Inr False, k') \<longrightarrow> r \<notin> set (chain_of (ch k) t c))"

lemma iptables_run:
  assumes "iptables_laws h ch" and "succeeds h ''iptables'' (''-t'' # t # cmd # c # r) s = (res, s')"
  obtains ipt k' where "iptables_at h ch ipt" "h_status h ipt (ipt_args cmd t c r) (c_kernel s) = (res, k')"
    "s' = s\<lparr>c_kernel := k'\<rparr>"
proof -
  obtain ipt where at: "iptables_at h ch ipt" using assms(1) unfolding iptables_laws_def ..
  note ipt = at[unfolded iptables_at_def, THEN conjunct1]
  obtain k' where "h_status h ipt (ipt_args cmd t c r) (c_kernel s) = (res, k')" "s' = s\<lparr>c_kernel := k'\<rparr>"
    using assms(2) ipt by (auto simp: succeeds_def ipt_args_def Let_def split: prod.splits)
  then show ?thesis using that at by blast
qed

lemma iptables_command:
  assumes "iptables_laws h ch" and "succeeds h ''iptables'' (''-t'' # t # cmd # c # r) s = (res, s')"
    and known: "ipt_known cmd r"
  shows "(case res of Inl e \<Rightarrow> ch (c_kernel s') = ch (c_kernel s)
     | Inr b \<Rightarrow> ch (c_kernel s') = (if b then ipt_change cmd t c r (ch (c_kernel s)) else ch (c_kernel s)) \<and>
         (cmd = ''-C'' \<and> b \<longrightarrow> r \<in> set (chain_of (ch (c_kernel s)) t c)))"
proof (rule iptables_run[OF assms(1,2)])
  fix ipt k' assume at: "iptables_at h ch ipt"
    and st: "h_status h ipt (ipt_args cmd t c r) (c_kernel s) = (res, k')" and s': "s' = s\<lparr>c_kernel := k'\<rparr>"
  note conj = at[unfolded iptables_at_def]
  note laws = conj[THEN conjunct2, THEN conjunct1, rule_format, OF conjI, OF _ known]
  note failed = conj[THEN conjunct2, THEN conjunct2, THEN conjunct1, rule_format]
  show ?thesis
  proof (cases res)
    case (Inl e)
    with st have "h_status h ipt (ipt_args cmd t c r) (c_kernel s) = (Inl e, k')" by simp
    from failed[OF this] Inl s' show ?thesis by simp
  next
    case (Inr b)
    with st have "h_status h ipt (ipt_args cmd t c r) (c_kernel s) = (Inr b, k')" by simp
    from laws[OF this] Inr s' show ?thesis by simp
  qed
qed

lemma sysctl_command:
  assumes "iptables_laws h ch" and "run h ''sysctl'' args s = (res, s')"
  shows "ch (c_kernel s') = ch (c_kernel s)"
proof -
  obtain ipt where at: "iptables_at h ch ipt" using assms(1) unfolding iptables_laws_def ..
  note quiet = at[unfolded iptables_at_def, THEN conjunct2, THEN conjunct2, THEN conjunct2, rule_format, OF conjI]
  obtain r1 s1 where one: "succeeds h ''sysctl'' args s = (r1, s1)" by fastforce
  have "ch (c_kernel s1) = ch (c_kernel s)"
    using one quiet by (auto simp: succeeds_def Let_def split: sum.splits prod.splits)
  moreover have "s' = s1"
    using assms(2) one by (cases r1) (auto simp: run_def sbind_def split: if_splits)
  ultimately show ?thesis by simp
qed

section \<open>What the chains keep\<close>

abbreviation keeps_chains :: "('k \<Rightarrow> chains) \<Rightarrow> (chains \<Rightarrow> bool) \<Rightarrow> ('k, 'a) io \<Rightarrow> bool" where
  "keeps_chains ch P \<equiv> op_keeps (\<lambda>_. True) (\<lambda>s t. P (ch (c_kernel s)) \<longrightarrow> P (ch (c_kernel t)))"

interpretation chains: step_rel "\<lambda>_. True" "\<lambda>s t. P (ch (c_kernel s)) \<longrightarrow> P (ch (c_kernel t))"
  for P :: "chains \<Rightarrow> bool" and ch :: "'k \<Rightarrow> chains"
  by unfold_locales auto

lemma keeps_chainsI:
  "(\<And>s r s'. f s = (r, s') \<Longrightarrow> P (ch (c_kernel s)) \<Longrightarrow> P (ch (c_kernel s'))) \<Longrightarrow> keeps_chains ch P f"
  by (rule op_keepsI) auto

lemma keeps_chainsD: "keeps_chains ch P f \<Longrightarrow> f s = (r, s') \<Longrightarrow> P (ch (c_kernel s)) \<Longrightarrow> P (ch (c_kernel s'))"
  using op_keepsD[of "\<lambda>_. True" _ f s r s'] by blast

lemma keeps_chains_iptables_ok:
  assumes "iptables_laws h ch" and "ipt_known cmd r" and "\<And>cs. P cs \<Longrightarrow> P (ipt_change cmd t c r cs)"
  shows "keeps_chains ch P (succeeds h ''iptables'' (''-t'' # t # cmd # c # r))"
proof (rule keeps_chainsI)
  fix s res s' assume run: "succeeds h ''iptables'' (''-t'' # t # cmd # c # r) s = (res, s')" and P: "P (ch (c_kernel s))"
  have "ch (c_kernel s') = ch (c_kernel s) \<or> ch (c_kernel s') = ipt_change cmd t c r (ch (c_kernel s))"
    using iptables_command[OF assms(1) run assms(2)] by (cases res) (auto split: if_splits)
  with assms(3)[OF P] P show "P (ch (c_kernel s'))" by metis
qed

lemma keeps_chains_iptables:
  assumes "iptables_laws h ch" and "ipt_known cmd r" and "\<And>cs. P cs \<Longrightarrow> P (ipt_change cmd t c r cs)"
  shows "keeps_chains ch P (run h ''iptables'' (''-t'' # t # cmd # c # r))"
  unfolding run_def by (intro chains.keeps_rules keeps_chains_iptables_ok assms)

lemma keeps_chains_sysctl: "iptables_laws h ch \<Longrightarrow> keeps_chains ch P (run h ''sysctl'' args)"
  by (rule keeps_chainsI) (auto dest: sysctl_command)

lemma iptables_ran:
  assumes "iptables_laws h ch" and "run h ''iptables'' (''-t'' # t # cmd # c # r) s = (Inr u, s')" and "ipt_known cmd r"
  shows "ch (c_kernel s') = ipt_change cmd t c r (ch (c_kernel s))"
proof -
  have "succeeds h ''iptables'' (''-t'' # t # cmd # c # r) s = (Inr True, s')"
    using assms(2) by (auto simp: run_def sbind_eq_Inr split: if_splits)
  from iptables_command[OF assms(1) this assms(3)] show ?thesis by simp
qed

lemma ipt_known_simps [simp]: "ipt_known ''-N'' r" "ipt_known ''-S'' r" "ipt_known ''-C'' r" "ipt_known ''-A'' r"
  "ipt_known ''-D'' r" "ipt_known ''-I'' (''1'' # r)"
  by (simp_all add: ipt_known_def)

text \<open>A check changes no rule.\<close>

lemma ipt_change_check [simp]: "ipt_change ''-C'' t c r cs = cs" "ipt_change ''-S'' t c r cs = cs"
  by (simp_all add: ipt_change_def)

lemma iptables_checked:
  assumes "iptables_laws h ch" and "succeeds h ''iptables'' (''-t'' # t # ''-C'' # c # r) s = (Inr b, s')"
  shows "ch (c_kernel s') = ch (c_kernel s) \<and> (b \<longrightarrow> r \<in> set (chain_of (ch (c_kernel s)) t c))"
  using iptables_command[OF assms] by simp

lemma iptables_answered:
  assumes "iptables_laws h ch" and "checks_answer h ch"
    and "succeeds h ''iptables'' (''-t'' # t # ''-C'' # c # r) s = (Inr False, s')"
  shows "r \<notin> set (chain_of (ch (c_kernel s)) t c)"
  using iptables_run[OF assms(1,3)] assms(2) unfolding checks_answer_def iptables_at_def by metis

lemma keeps_chains_ensure_chain:
  assumes L: "iptables_laws h ch" and P: "\<And>cs. P cs \<Longrightarrow> P (cs((t, c) \<mapsto> []))"
  shows "keeps_chains ch P (ensure_chain h t c)"
proof -
  have new: "P (ipt_change ''-N'' t c [] cs)" if "P cs" for cs using P[OF that] by (simp add: ipt_change_def)
  show ?thesis
    unfolding ensure_chain_def
    by (intro chains.keeps_rules keeps_chains_iptables_ok[OF L] keeps_chains_iptables[OF L] new ipt_known_simps) simp
qed

lemma keeps_chains_ensure_rule:
  assumes L: "iptables_laws h ch" and t: "t \<noteq> ''-C''"
    and P: "\<And>cs. P cs \<Longrightarrow> P (cs((t, c) \<mapsto> chain_of cs t c @ [r]))"
  shows "keeps_chains ch P (ensure_rule h (''-t'' # t # ''-C'' # c # r))"
proof -
  have app: "P (ipt_change ''-A'' t c r cs)" if "P cs" for cs using P[OF that] by (simp add: ipt_change_def)
  have args: "instead_of_check [''-A''] (''-t'' # t # ''-C'' # c # r) = ''-t'' # t # ''-A'' # c # r"
    using t by simp
  show ?thesis
    unfolding ensure_rule_def args
    by (intro chains.keeps_rules keeps_chains_iptables_ok[OF L] keeps_chains_iptables[OF L] app ipt_known_simps) simp
qed

lemma keeps_chains_ensure_rule_first:
  assumes L: "iptables_laws h ch" and t: "t \<noteq> ''-C''"
    and P: "\<And>cs. P cs \<Longrightarrow> P (cs((t, c) \<mapsto> r # chain_of cs t c))"
  shows "keeps_chains ch P (ensure_rule_first h (''-t'' # t # ''-C'' # c # r))"
proof -
  have ins: "P (ipt_change ''-I'' t c (''1'' # r) cs)" if "P cs" for cs using P[OF that] by (simp add: ipt_change_def)
  have args: "insert_first (''-t'' # t # ''-C'' # c # r) = ''-t'' # t # ''-I'' # c # ''1'' # r"
    using t by simp
  show ?thesis
    unfolding ensure_rule_first_def args
    by (intro chains.keeps_rules keeps_chains_iptables_ok[OF L] keeps_chains_iptables[OF L] ins ipt_known_simps) simp
qed

lemma keeps_chains_ensure_jump:
  assumes L: "iptables_laws h ch"
    and del: "\<And>cs r. P cs \<Longrightarrow> P (cs((t, p) \<mapsto> remove1 r (chain_of cs t p)))"
    and ins: "\<And>cs r. P cs \<Longrightarrow> P (cs((t, p) \<mapsto> r # chain_of cs t p))"
  shows "keeps_chains ch P (ensure_jump h t p c ma)"
proof -
  have D: "P (ipt_change ''-D'' t p r cs)" if "P cs" for cs r using del[OF that] by (simp add: ipt_change_def)
  have I: "P (ipt_change ''-I'' t p (''1'' # r) cs)" if "P cs" for cs r using ins[OF that] by (simp add: ipt_change_def)
  show ?thesis
    unfolding ensure_jump_def Let_def append_Cons append_Nil list_update.simps nat.case
      numeral_2_eq_2 
    by (intro chains.keeps_rules keeps_chains_iptables_ok[OF L] keeps_chains_iptables[OF L] D I ipt_known_simps) simp_all
qed

lemma ensure_jump_heads:
  assumes L: "iptables_laws h ch" and run: "ensure_jump h t p c ma s = (Inr u, s')"
  shows "\<exists>rs. chain_of (ch (c_kernel s')) t p = (ma @ [''-j'', c]) # rs"
proof -
  obtain s1 where "run h ''iptables'' (''-t'' # t # ''-I'' # p # ''1'' # ma @ [''-j'', c]) s1 = (Inr u, s')"
    using run by (auto simp: ensure_jump_def Let_def sbind_eq_Inr)
  from iptables_ran[OF L this] show ?thesis by (simp add: ipt_change_def chain_of_def)
qed

text \<open>What \<open>ensure_rule_first\<close> leaves: the rule is in the chain, and first if it was added.\<close>

lemma ensure_rule_first_adds:
  assumes L: "iptables_laws h ch" and t: "t \<noteq> ''-C''"
    and run: "ensure_rule_first h (''-t'' # t # ''-C'' # c # r) s = (Inr u, s')"
  shows "r \<in> set (chain_of (ch (c_kernel s)) t c) \<and> ch (c_kernel s') = ch (c_kernel s) \<or>
     ch (c_kernel s') = (ch (c_kernel s))((t, c) \<mapsto> r # chain_of (ch (c_kernel s)) t c)"
proof -
  obtain b s1 where one: "succeeds h ''iptables'' (''-t'' # t # ''-C'' # c # r) s = (Inr b, s1)"
    and two: "(if b then sret () else run h ''iptables'' (insert_first (''-t'' # t # ''-C'' # c # r))) s1 = (Inr u, s')"
    using run unfolding ensure_rule_first_def sbind_eq_Inr by blast
  note checked = iptables_checked[OF L one]
  show ?thesis
  proof (cases b)
    case True
    then show ?thesis using two checked by simp
  next
    case False
    then have "run h ''iptables'' (''-t'' # t # ''-I'' # c # ''1'' # r) s1 = (Inr u, s')" using two t by simp
    from iptables_ran[OF L this] checked show ?thesis by (simp add: ipt_change_def)
  qed
qed

section \<open>The verdict on a packet\<close>

text \<open>
  Packets are what the documented meaning of a rule looks at: the interfaces, and whether a match
  module accepts the packet. A rule matches when all its parts do; the first verdict counts, a chain
  without one returns to its caller.
\<close>

record packet =
  pk_in :: string
  pk_out :: string
  pk_match :: "string list \<Rightarrow> bool"

definition iface_matches :: "string \<Rightarrow> string \<Rightarrow> bool" where
  "iface_matches pat name =
     (if pat \<noteq> [] \<and> last pat = CHR ''+'' then starts_with (butlast pat) name else name = pat)"

fun rule_target :: "packet \<Rightarrow> string list \<Rightarrow> string option" where
  "rule_target pk (a # b # rest) =
     (if a = ''-j'' then Some b
      else if a = ''-i'' then (if iface_matches b (pk_in pk) then rule_target pk rest else None)
      else if a = ''-o'' then (if iface_matches b (pk_out pk) then rule_target pk rest else None)
      else if a = ''-m'' then (if pk_match pk (b # take 2 rest) then rule_target pk (drop 2 rest) else None)
      else None)"
| "rule_target pk _ = None"

function chain_verdict :: "nat \<Rightarrow> chains \<Rightarrow> packet \<Rightarrow> string list list \<Rightarrow> string option" where
  "chain_verdict n cs pk [] = None"
| "chain_verdict n cs pk (r # rs) = (case rule_target pk r of
     None \<Rightarrow> chain_verdict n cs pk rs
   | Some t \<Rightarrow>
       if t = ''ACCEPT'' \<or> t = ''DROP'' then Some t
       else case (case n of 0 \<Rightarrow> None | Suc m \<Rightarrow> chain_verdict m cs pk (chain_of cs ''filter'' t)) of
              Some v \<Rightarrow> Some v | None \<Rightarrow> chain_verdict n cs pk rs)"
  by pat_completeness auto
termination by (relation "measures [\<lambda>(n, _, _, _). n, \<lambda>(_, _, _, rs). length rs]") auto

text \<open>The verdict of the kernel's forwarding chain; jumps are followed to depth one, which its own jump needs.\<close>

definition forward_verdict :: "chains \<Rightarrow> packet \<Rightarrow> string option" where
  "forward_verdict cs pk = chain_verdict 1 cs pk (chain_of cs ''filter'' ''FORWARD'')"

section \<open>Tenants are isolated\<close>

text \<open>The rule that separates the tenants is not in the chain of the daemon, or nothing is ahead of it.\<close>

definition unopened :: "chains \<Rightarrow> bool" where
  "unopened cs \<longleftrightarrow> drop_between_tenants \<notin> set (chain_of cs ''filter'' forward_chain) \<or>
     take 1 (chain_of cs ''filter'' forward_chain) = [drop_between_tenants]"

definition closed_chain :: "chains \<Rightarrow> bool" where
  "closed_chain cs \<longleftrightarrow> (\<exists>rs. chain_of cs ''filter'' forward_chain = drop_between_tenants # rs)"

definition forwards_to :: "chains \<Rightarrow> bool" where
  "forwards_to cs \<longleftrightarrow> (\<exists>rs. chain_of cs ''filter'' ''FORWARD'' = [''-j'', forward_chain] # rs)"

lemma chain_of_upd: "chain_of (cs((t, c) \<mapsto> rs)) t' c' = (if t' = t \<and> c' = c then rs else chain_of cs t' c')"
  by (auto simp: chain_of_def)

lemma forward_chain_neq [simp]: "forward_chain \<noteq> ''FORWARD''" "''FORWARD'' \<noteq> forward_chain"
  by (simp_all add: forward_chain_def)

lemma closed_unopened: "closed_chain cs \<Longrightarrow> unopened cs"
  by (auto simp: closed_chain_def unopened_def)

lemma ensure_rules_keep:
  assumes L: "iptables_laws h ch"
  shows "keeps_chains ch closed_chain (ensure_rules h rs)" "keeps_chains ch forwards_to (ensure_rules h rs)"
proof -
  have app: "closed_chain cs \<Longrightarrow> closed_chain (cs((''filter'', forward_chain) \<mapsto> chain_of cs ''filter'' forward_chain @ [r]))"
    "forwards_to cs \<Longrightarrow> forwards_to (cs((''filter'', forward_chain) \<mapsto> chain_of cs ''filter'' forward_chain @ [r]))"
    for cs r by (auto simp: closed_chain_def forwards_to_def chain_of_upd)
  show "keeps_chains ch closed_chain (ensure_rules h rs)"
    by (induction rs) (simp_all only: ensure_rules.simps forward_check_def append_Cons append_Nil,
        (intro chains.keeps_rules keeps_chains_ensure_rule[OF L] app | assumption | simp)+)
  show "keeps_chains ch forwards_to (ensure_rules h rs)"
    by (induction rs) (simp_all only: ensure_rules.simps forward_check_def append_Cons append_Nil,
        (intro chains.keeps_rules keeps_chains_ensure_rule[OF L] app | assumption | simp)+)
qed

definition egress_chains :: "'k host \<Rightarrow> ('k, unit) io" where
  "egress_chains h =
     sbind (run h ''sysctl'' [''-q'', ''-w'', ''net.ipv4.ip_forward=1'']) (\<lambda>_.
     sbind (ensure_chain h ''nat'' prerouting_chain) (\<lambda>_.
     sbind (ensure_jump h ''nat'' ''PREROUTING'' prerouting_chain []) (\<lambda>_.
     sbind (ensure_chain h ''nat'' output_chain) (\<lambda>_.
     sbind (ensure_jump h ''nat'' ''OUTPUT'' output_chain [''-m'', ''addrtype'', ''--dst-type'', ''LOCAL'']) (\<lambda>_.
     sbind (ensure_chain h ''filter'' forward_chain) (\<lambda>_.
     ensure_jump h ''filter'' ''FORWARD'' forward_chain []))))))"

lemma ensure_egress_split:
  "ensure_egress h = sbind (egress_chains h) (\<lambda>_.
     sbind (ensure_rule_first h (forward_check drop_between_tenants)) (\<lambda>_. ensure_rules h forward_accepts))"
  unfolding ensure_egress_def egress_chains_def sbind_assoc ..

lemma egress_chains_keep:
  assumes L: "iptables_laws h ch"
  shows "keeps_chains ch unopened (egress_chains h)"
proof -
  have other: "unopened (cs((t, c) \<mapsto> rs))" if "unopened cs" "(t, c) \<noteq> (''filter'', forward_chain)" for cs t c rs
    using that by (auto simp: unopened_def chain_of_upd)
  have new: "unopened (cs((''filter'', forward_chain) \<mapsto> []))" for cs
    by (simp add: unopened_def chain_of_upd)
  show ?thesis
    unfolding egress_chains_def
    by (intro chains.keeps_rules keeps_chains_sysctl[OF L] keeps_chains_ensure_chain[OF L]
        keeps_chains_ensure_jump[OF L] new) (erule other, simp)+
qed

lemma egress_chains_forwards:
  assumes "iptables_laws h ch" and "egress_chains h s = (Inr u, s')"
  shows "forwards_to (ch (c_kernel s'))"
proof -
  obtain s1 where "ensure_jump h ''filter'' ''FORWARD'' forward_chain [] s1 = (Inr u, s')"
    using assms(2) unfolding egress_chains_def sbind_eq_Inr by blast
  from ensure_jump_heads[OF assms(1) this] show ?thesis by (simp add: forwards_to_def)
qed

lemma drop_first_closes:
  assumes L: "iptables_laws h ch" and un: "unopened (ch (c_kernel s))"
    and run: "ensure_rule_first h (forward_check drop_between_tenants) s = (Inr u, s')"
  shows "closed_chain (ch (c_kernel s'))"
  using ensure_rule_first_adds[OF L _ run[unfolded forward_check_def append_Cons append_Nil]] un
  by (cases "chain_of (ch (c_kernel s)) ''filter'' forward_chain")
     (auto simp: closed_chain_def unopened_def chain_of_upd)

lemma drop_first_keeps:
  assumes L: "iptables_laws h ch"
  shows "keeps_chains ch unopened (ensure_rule_first h (forward_check drop_between_tenants))"
    and "keeps_chains ch forwards_to (ensure_rule_first h (forward_check drop_between_tenants))"
proof -
  have ins: "unopened (cs((''filter'', forward_chain) \<mapsto> drop_between_tenants # chain_of cs ''filter'' forward_chain))"
    "forwards_to cs \<Longrightarrow>
      forwards_to (cs((''filter'', forward_chain) \<mapsto> drop_between_tenants # chain_of cs ''filter'' forward_chain))" for cs
    by (simp_all add: unopened_def forwards_to_def chain_of_upd)
  show "keeps_chains ch unopened (ensure_rule_first h (forward_check drop_between_tenants))"
    "keeps_chains ch forwards_to (ensure_rule_first h (forward_check drop_between_tenants))"
    unfolding forward_check_def append_Cons append_Nil
    by (intro keeps_chains_ensure_rule_first[OF L] ins; simp)+
qed

lemma ensure_egress_unopened:
  assumes L: "iptables_laws h ch" and run: "ensure_egress h s = (r, s')" and un: "unopened (ch (c_kernel s))"
  shows "unopened (ch (c_kernel s'))"
proof -
  obtain r1 s1 where one: "egress_chains h s = (r1, s1)" by fastforce
  have un1: "unopened (ch (c_kernel s1))" by (rule keeps_chainsD[OF egress_chains_keep[OF L] one un])
  obtain r2 s2 where two: "ensure_rule_first h (forward_check drop_between_tenants) s1 = (r2, s2)" by fastforce
  have un2: "unopened (ch (c_kernel s2))" by (rule keeps_chainsD[OF drop_first_keeps(1)[OF L] two un1])
  show ?thesis
  proof (cases r1)
    case (Inl e)
    then show ?thesis using run one un1 by (simp add: ensure_egress_split)
  next
    case r1: (Inr x)
    show ?thesis
    proof (cases r2)
      case (Inl e)
      then show ?thesis using run one r1 two un2 by (simp add: ensure_egress_split)
    next
      case (Inr y)
      then have "ensure_rules h forward_accepts s2 = (r, s')" using run one r1 two by (simp add: ensure_egress_split)
      from keeps_chainsD[OF ensure_rules_keep(1)[OF L] this] drop_first_closes[OF L un1] two Inr
      show ?thesis using closed_unopened by auto
    qed
  qed
qed

lemma ensure_egress_closes:
  assumes L: "iptables_laws h ch" and run: "ensure_egress h s = (Inr u, s')" and un: "unopened (ch (c_kernel s))"
  shows "closed_chain (ch (c_kernel s')) \<and> forwards_to (ch (c_kernel s'))"
proof -
  obtain x s1 y s2 where one: "egress_chains h s = (Inr x, s1)"
    and two: "ensure_rule_first h (forward_check drop_between_tenants) s1 = (Inr y, s2)"
    and three: "ensure_rules h forward_accepts s2 = (Inr u, s')"
    using run unfolding ensure_egress_split sbind_eq_Inr by blast
  have un1: "unopened (ch (c_kernel s1))" by (rule keeps_chainsD[OF egress_chains_keep[OF L] one un])
  have f2: "forwards_to (ch (c_kernel s2))"
    by (rule keeps_chainsD[OF drop_first_keeps(2)[OF L] two egress_chains_forwards[OF L one]])
  show ?thesis
    using keeps_chainsD[OF ensure_rules_keep(1)[OF L] three drop_first_closes[OF L un1 two]]
      keeps_chainsD[OF ensure_rules_keep(2)[OF L] three f2] by blast
qed

text \<open>The state after \<open>n\<close> runs of \<open>ensure_egress\<close>, whatever their outcome.\<close>

fun after_egress :: "'k host \<Rightarrow> nat \<Rightarrow> 'k cni \<Rightarrow> 'k cni" where
  "after_egress h 0 s = s"
| "after_egress h (Suc n) s = after_egress h n (snd (ensure_egress h s))"

lemma after_egress_unopened:
  "iptables_laws h ch \<Longrightarrow> unopened (ch (c_kernel s)) \<Longrightarrow> unopened (ch (c_kernel (after_egress h n s)))"
  by (induction n arbitrary: s) (auto intro: ensure_egress_unopened[OF _ prod.collapse[symmetric]])

lemma tenant_iface: "iface_matches tenant_interfaces (vlan_interface v)"
  by (simp add: iface_matches_def tenant_interfaces_def vlan_interface_def bridge_name_def starts_with_def)

lemma closed_drops:
  assumes "closed_chain cs" "forwards_to cs"
  shows "forward_verdict cs \<lparr>pk_in = vlan_interface v, pk_out = vlan_interface w, pk_match = pm\<rparr> = Some ''DROP''"
proof -
  have neq: "forward_chain \<noteq> ''ACCEPT''" "forward_chain \<noteq> ''DROP''" by (simp_all add: forward_chain_def)
  obtain rs rs' where "chain_of cs ''filter'' forward_chain = drop_between_tenants # rs"
    "chain_of cs ''filter'' ''FORWARD'' = [''-j'', forward_chain] # rs'"
    using assms unfolding closed_chain_def forwards_to_def by blast
  then show ?thesis using neq tenant_iface
    by (simp add: forward_verdict_def drop_between_tenants_def)
qed

section \<open>Port mappings come and go\<close>

lemma third_arg: "(a # b # x # r)[2 := y] = a # b # y # r"
  by (simp add: numeral_2_eq_2)

text \<open>
  A check that fails although the rule is there (the lock was busy) makes \<open>ensure_mapping_rule\<close> add the
  rule a second time and \<open>delete_mapping_rule\<close> leave it, both with success.
\<close>

lemma ensure_mapping_rule_effect:
  assumes L: "iptables_laws h ch"
    and run: "ensure_mapping_rule h (''-t'' # t # ''-C'' # c # r) s = (Inr u, s')"
  shows "r \<in> set (chain_of (ch (c_kernel s)) t c) \<and> ch (c_kernel s') = ch (c_kernel s) \<or>
     (checks_answer h ch \<longrightarrow> r \<notin> set (chain_of (ch (c_kernel s)) t c)) \<and>
     ch (c_kernel s') = (ch (c_kernel s))((t, c) \<mapsto> chain_of (ch (c_kernel s)) t c @ [r])"
proof -
  obtain b s1 where one: "succeeds h ''iptables'' (''-t'' # t # ''-C'' # c # r) s = (Inr b, s1)"
    and two: "(if b then sret () else run h ''iptables'' (''-t'' # t # ''-A'' # c # r)) s1 = (Inr u, s')"
    using run unfolding ensure_mapping_rule_def sbind_eq_Inr third_arg by blast
  note checked = iptables_checked[OF L one]
  show ?thesis
  proof (cases b)
    case True
    then show ?thesis using two checked by simp
  next
    case False
    then have "run h ''iptables'' (''-t'' # t # ''-A'' # c # r) s1 = (Inr u, s')" using two by simp
    from iptables_ran[OF L this] False checked iptables_answered[OF L] one show ?thesis by (auto simp: ipt_change_def)
  qed
qed

lemma delete_mapping_rule_effect:
  assumes L: "iptables_laws h ch"
    and run: "delete_mapping_rule h (''-t'' # t # ''-C'' # c # r) s = (Inr u, s')"
  shows "(checks_answer h ch \<longrightarrow> r \<notin> set (chain_of (ch (c_kernel s)) t c)) \<and> ch (c_kernel s') = ch (c_kernel s) \<or>
     ch (c_kernel s') = (ch (c_kernel s))((t, c) \<mapsto> remove1 r (chain_of (ch (c_kernel s)) t c))"
proof -
  obtain b s1 where one: "succeeds h ''iptables'' (''-t'' # t # ''-C'' # c # r) s = (Inr b, s1)"
    and two: "(if \<not> b then sret () else run h ''iptables'' (''-t'' # t # ''-D'' # c # r)) s1 = (Inr u, s')"
    using run unfolding delete_mapping_rule_def sbind_eq_Inr third_arg by blast
  note checked = iptables_checked[OF L one]
  show ?thesis
  proof (cases b)
    case False
    then show ?thesis using two checked one iptables_answered[OF L] by auto
  next
    case True
    then have "run h ''iptables'' (''-t'' # t # ''-D'' # c # r) s1 = (Inr u, s')" using two by simp
    from iptables_ran[OF L this] True checked show ?thesis by (simp add: ipt_change_def)
  qed
qed

text \<open>The two nat chains as \<open>add_mappings\<close> fills and \<open>delete_mappings\<close> empties them.\<close>

definition nat_chains :: "chains \<Rightarrow> string list list \<times> string list list" where
  "nat_chains cs = (chain_of cs ''nat'' prerouting_chain, chain_of cs ''nat'' output_chain)"

text \<open>All else is as in \<open>cs0\<close>, and the two chains exist.\<close>

definition same_but_nat :: "chains \<Rightarrow> chains \<Rightarrow> bool" where
  "same_but_nat cs0 cs \<longleftrightarrow> (\<forall>k. k \<noteq> (''nat'', prerouting_chain) \<and> k \<noteq> (''nat'', output_chain) \<longrightarrow> cs k = cs0 k) \<and>
     cs (''nat'', prerouting_chain) \<noteq> None \<and> cs (''nat'', output_chain) \<noteq> None"

lemma same_but_nat_eq:
  assumes "same_but_nat cs0 cs" "same_but_nat cs0 cs0" "nat_chains cs = nat_chains cs0"
  shows "cs = cs0"
proof
  fix k
  have some: "cs (''nat'', c) = cs0 (''nat'', c)" if "c = prerouting_chain \<or> c = output_chain" for c
  proof -
    have "cs (''nat'', c) \<noteq> None" "cs0 (''nat'', c) \<noteq> None" "chain_of cs ''nat'' c = chain_of cs0 ''nat'' c"
      using assms that unfolding same_but_nat_def nat_chains_def by blast+
    then show ?thesis by (auto simp: chain_of_def)
  qed
  show "cs k = cs0 k"
  proof (cases "k = (''nat'', prerouting_chain) \<or> k = (''nat'', output_chain)")
    case True
    then show ?thesis using some by blast
  next
    case False
    then show ?thesis using assms(1) unfolding same_but_nat_def by blast
  qed
qed

definition nat_rule :: "bool \<Rightarrow> string \<Rightarrow> port \<Rightarrow> string list option" where
  "nat_rule ingress address m = (case protocol_name m of Inl _ \<Rightarrow> None
     | Inr proto \<Rightarrow> Some ((if ingress then [''!'', ''-i'', bridge_name] else []) @
        [''-p'', proto, ''--dport'', show_nat (port_external m), ''-j'', ''DNAT'', ''--to-destination'',
         address @ '':'' @ show_nat (port_internal m)]))"

lemma chains_neq [simp]: "prerouting_chain \<noteq> output_chain" "output_chain \<noteq> prerouting_chain"
  by (simp_all add: prerouting_chain_def output_chain_def)

lemma nat_rule_commands:
  assumes "protocol_name m = Inr proto"
  shows "\<exists>r q. nat_rule True address m = Some r \<and> nat_rule False address m = Some q \<and>
     fst (mapping_rules address m proto) = ''-t'' # ''nat'' # ''-C'' # prerouting_chain # r \<and>
     snd (mapping_rules address m proto) = ''-t'' # ''nat'' # ''-C'' # output_chain # q"
  by (simp add: nat_rule_def assms mapping_rules_def mapping_rule_def Let_def)

text \<open>One of the two rules of a mapping, installed in or taken from its chain.\<close>

lemma same_but_nat_upd:
  "same_but_nat cs0 cs \<Longrightarrow> same_but_nat cs0 (cs((''nat'', prerouting_chain) \<mapsto> zs))"
  "same_but_nat cs0 cs \<Longrightarrow> same_but_nat cs0 (cs((''nat'', output_chain) \<mapsto> zs))"
  by (simp_all add: same_but_nat_def)

definition grew :: "bool \<Rightarrow> string list list \<Rightarrow> string list list \<Rightarrow> string list list \<Rightarrow> bool" where
  "grew answered xs rules zs \<longleftrightarrow> set zs \<subseteq> set rules \<and> (answered \<longrightarrow> distinct zs \<and> set zs \<inter> set xs = {})"

lemma grew_none [simp]: "grew A xs [] []"
  by (simp add: grew_def)

lemma grew_add:
  "r \<in> set xs \<and> ys = xs \<or> (A \<longrightarrow> r \<notin> set xs) \<and> ys = xs @ [r] \<Longrightarrow> grew A ys rs zs \<Longrightarrow>
     \<exists>zs'. ys @ zs = xs @ zs' \<and> grew A xs (r # rs) zs'"
  by (auto simp: grew_def)

definition shrank :: "bool \<Rightarrow> string list list \<Rightarrow> string list list \<Rightarrow> string list list \<Rightarrow> bool" where
  "shrank answered zs rules zs' \<longleftrightarrow> set zs' \<subseteq> set zs \<and>
     (answered \<and> distinct zs \<and> set zs \<subseteq> set rules \<longrightarrow> zs' = [])"

lemma shrank_none [simp]: "shrank A zs [] zs"
  by (simp add: shrank_def)

lemma shrank_delete:
  assumes "r \<notin> set xs" "(A \<longrightarrow> r \<notin> set (xs @ zs)) \<and> ys = xs @ zs \<or> ys = remove1 r (xs @ zs)"
  shows "\<exists>zs1. ys = xs @ zs1 \<and> (\<forall>rs zs'. shrank A zs1 rs zs' \<longrightarrow> shrank A zs (r # rs) zs')"
proof -
  have step: "shrank A zs (r # rs) zs'" if sh: "shrank A (remove1 r zs) rs zs'" for rs zs'
    unfolding shrank_def
  proof (intro conjI impI)
    show "set zs' \<subseteq> set zs" using sh set_remove1_subset[of r zs] by (auto simp: shrank_def)
  next
    assume all: "A \<and> distinct zs \<and> set zs \<subseteq> set (r # rs)"
    then have "distinct (remove1 r zs)" "set (remove1 r zs) \<subseteq> set rs" by auto
    with sh all show "zs' = []" by (simp add: shrank_def)
  qed
  have stay: "shrank A zs (r # rs) zs'" if "shrank A zs rs zs'" "A \<longrightarrow> r \<notin> set zs" for rs zs'
    using that by (auto simp: shrank_def)
  show ?thesis using assms step stay by (auto simp: remove1_append)
qed

lemma add_mapping_effect:
  assumes L: "iptables_laws h ch" and run: "add_mapping h address m s = (Inr u, s')"
    and same: "same_but_nat cs0 (ch (c_kernel s))" and nc: "nat_chains (ch (c_kernel s)) = (xs, ys)"
  shows "\<exists>r q xs' ys'. nat_rule True address m = Some r \<and> nat_rule False address m = Some q \<and>
     same_but_nat cs0 (ch (c_kernel s')) \<and> nat_chains (ch (c_kernel s')) = (xs', ys') \<and>
     (r \<in> set xs \<and> xs' = xs \<or> (checks_answer h ch \<longrightarrow> r \<notin> set xs) \<and> xs' = xs @ [r]) \<and>
     (q \<in> set ys \<and> ys' = ys \<or> (checks_answer h ch \<longrightarrow> q \<notin> set ys) \<and> ys' = ys @ [q])"
proof -
  obtain proto s1 u1 where p: "protocol_name m = Inr proto"
    and one: "ensure_mapping_rule h (fst (mapping_rules address m proto)) s = (Inr u1, s1)"
    and two: "ensure_mapping_rule h (snd (mapping_rules address m proto)) s1 = (Inr u, s')"
    using run unfolding add_mapping_def sbind_eq_Inr slift_def by blast
  obtain r q where rq: "nat_rule True address m = Some r" "nat_rule False address m = Some q"
    and cmds: "fst (mapping_rules address m proto) = ''-t'' # ''nat'' # ''-C'' # prerouting_chain # r"
      "snd (mapping_rules address m proto) = ''-t'' # ''nat'' # ''-C'' # output_chain # q"
    using nat_rule_commands[OF p] by blast
  have pre: "chain_of (ch (c_kernel s)) ''nat'' prerouting_chain = xs"
    and out: "chain_of (ch (c_kernel s)) ''nat'' output_chain = ys"
    using nc by (simp_all add: nat_chains_def)
  obtain xs' where 1: "same_but_nat cs0 (ch (c_kernel s1))" "chain_of (ch (c_kernel s1)) ''nat'' prerouting_chain = xs'"
      "chain_of (ch (c_kernel s1)) ''nat'' output_chain = ys"
      "r \<in> set xs \<and> xs' = xs \<or> (checks_answer h ch \<longrightarrow> r \<notin> set xs) \<and> xs' = xs @ [r]"
    using ensure_mapping_rule_effect[OF L one[unfolded cmds]] same_but_nat_upd(1)[OF same] same pre out
    by (fastforce simp: chain_of_upd)
  obtain ys' where "same_but_nat cs0 (ch (c_kernel s'))" "chain_of (ch (c_kernel s')) ''nat'' prerouting_chain = xs'"
      "chain_of (ch (c_kernel s')) ''nat'' output_chain = ys'"
      "q \<in> set ys \<and> ys' = ys \<or> (checks_answer h ch \<longrightarrow> q \<notin> set ys) \<and> ys' = ys @ [q]"
    using ensure_mapping_rule_effect[OF L two[unfolded cmds]] same_but_nat_upd(2)[OF 1(1)] 1
    by (fastforce simp: chain_of_upd)
  then show ?thesis using rq 1(4) by (auto simp: nat_chains_def)
qed

lemma delete_mapping_effect:
  assumes L: "iptables_laws h ch" and run: "delete_mapping h address m s = (Inr u, s')"
    and same: "same_but_nat cs0 (ch (c_kernel s))" and nc: "nat_chains (ch (c_kernel s)) = (xs, ys)"
  shows "\<exists>r q xs' ys'. nat_rule True address m = Some r \<and> nat_rule False address m = Some q \<and>
     same_but_nat cs0 (ch (c_kernel s')) \<and> nat_chains (ch (c_kernel s')) = (xs', ys') \<and>
     ((checks_answer h ch \<longrightarrow> r \<notin> set xs) \<and> xs' = xs \<or> xs' = remove1 r xs) \<and>
     ((checks_answer h ch \<longrightarrow> q \<notin> set ys) \<and> ys' = ys \<or> ys' = remove1 q ys)"
proof -
  obtain proto s1 u1 where p: "protocol_name m = Inr proto"
    and one: "delete_mapping_rule h (fst (mapping_rules address m proto)) s = (Inr u1, s1)"
    and two: "delete_mapping_rule h (snd (mapping_rules address m proto)) s1 = (Inr u, s')"
    using run unfolding delete_mapping_def sbind_eq_Inr slift_def by blast
  obtain r q where rq: "nat_rule True address m = Some r" "nat_rule False address m = Some q"
    and cmds: "fst (mapping_rules address m proto) = ''-t'' # ''nat'' # ''-C'' # prerouting_chain # r"
      "snd (mapping_rules address m proto) = ''-t'' # ''nat'' # ''-C'' # output_chain # q"
    using nat_rule_commands[OF p] by blast
  have pre: "chain_of (ch (c_kernel s)) ''nat'' prerouting_chain = xs"
    and out: "chain_of (ch (c_kernel s)) ''nat'' output_chain = ys"
    using nc by (simp_all add: nat_chains_def)
  obtain xs' where 1: "same_but_nat cs0 (ch (c_kernel s1))" "chain_of (ch (c_kernel s1)) ''nat'' prerouting_chain = xs'"
      "chain_of (ch (c_kernel s1)) ''nat'' output_chain = ys"
      "(checks_answer h ch \<longrightarrow> r \<notin> set xs) \<and> xs' = xs \<or> xs' = remove1 r xs"
    using delete_mapping_rule_effect[OF L one[unfolded cmds]] same_but_nat_upd(1)[OF same] same pre out
    by (fastforce simp: chain_of_upd)
  obtain ys' where "same_but_nat cs0 (ch (c_kernel s'))" "chain_of (ch (c_kernel s')) ''nat'' prerouting_chain = xs'"
      "chain_of (ch (c_kernel s')) ''nat'' output_chain = ys'"
      "(checks_answer h ch \<longrightarrow> q \<notin> set ys) \<and> ys' = ys \<or> ys' = remove1 q ys"
    using delete_mapping_rule_effect[OF L two[unfolded cmds]] same_but_nat_upd(2)[OF 1(1)] 1
    by (fastforce simp: chain_of_upd)
  then show ?thesis using rq 1(4) by (auto simp: nat_chains_def)
qed

definition nat_rules :: "bool \<Rightarrow> string \<Rightarrow> port list \<Rightarrow> string list list" where
  "nat_rules ingress address = map (\<lambda>m. the (nat_rule ingress address m))"

lemma install_mappings_effect:
  assumes L: "iptables_laws h ch"
  shows "install_mappings h address is ms s = (Inr u, s') \<Longrightarrow> same_but_nat cs0 (ch (c_kernel s)) \<Longrightarrow>
     nat_chains (ch (c_kernel s)) = (xs, ys) \<Longrightarrow>
     \<exists>zs ws. same_but_nat cs0 (ch (c_kernel s')) \<and> nat_chains (ch (c_kernel s')) = (xs @ zs, ys @ ws) \<and>
       grew (checks_answer h ch) xs (nat_rules True address ms) zs \<and>
       grew (checks_answer h ch) ys (nat_rules False address ms) ws"
proof (induction ms arbitrary: "is" s xs ys)
  case Nil
  then show ?case by (simp add: nat_rules_def)
next
  case (Cons m ms)
  obtain u1 s1 where one: "add_mapping h address m s = (Inr u1, s1)"
    and rest: "install_mappings h address (is @ [m]) ms s1 = (Inr u, s')"
    using Cons.prems(1) by (auto simp: sbind_eq_Inr on_error_def split: sum.splits prod.splits)
  obtain r q xs' ys' where rq: "nat_rule True address m = Some r" "nat_rule False address m = Some q"
    and s1: "same_but_nat cs0 (ch (c_kernel s1))" "nat_chains (ch (c_kernel s1)) = (xs', ys')"
    and add: "r \<in> set xs \<and> xs' = xs \<or> (checks_answer h ch \<longrightarrow> r \<notin> set xs) \<and> xs' = xs @ [r]"
      "q \<in> set ys \<and> ys' = ys \<or> (checks_answer h ch \<longrightarrow> q \<notin> set ys) \<and> ys' = ys @ [q]"
    using add_mapping_effect[OF L one Cons.prems(2,3)] by blast
  from Cons.IH[OF rest s1] obtain zs ws where r: "same_but_nat cs0 (ch (c_kernel s'))"
    "nat_chains (ch (c_kernel s')) = (xs' @ zs, ys' @ ws)"
    "grew (checks_answer h ch) xs' (nat_rules True address ms) zs"
    "grew (checks_answer h ch) ys' (nat_rules False address ms) ws" by blast
  from grew_add[OF add(1) r(3)] grew_add[OF add(2) r(4)] r(1,2) rq show ?case
    by (auto simp: nat_rules_def)
qed

lemma delete_mappings_effect:
  assumes L: "iptables_laws h ch"
  shows "delete_mappings h address ms s = (Inr u, s') \<Longrightarrow> same_but_nat cs0 (ch (c_kernel s)) \<Longrightarrow>
     nat_chains (ch (c_kernel s)) = (xs @ zs, ys @ ws) \<Longrightarrow>
     set (nat_rules True address ms) \<inter> set xs = {} \<Longrightarrow> set (nat_rules False address ms) \<inter> set ys = {} \<Longrightarrow>
     \<exists>zs' ws'. same_but_nat cs0 (ch (c_kernel s')) \<and> nat_chains (ch (c_kernel s')) = (xs @ zs', ys @ ws') \<and>
       shrank (checks_answer h ch) zs (nat_rules True address ms) zs' \<and>
       shrank (checks_answer h ch) ws (nat_rules False address ms) ws'"
proof (induction ms arbitrary: s zs ws)
  case Nil
  then show ?case by (simp add: nat_rules_def)
next
  case (Cons m ms)
  obtain u1 s1 where one: "delete_mapping h address m s = (Inr u1, s1)"
    and rest: "delete_mappings h address ms s1 = (Inr u, s')"
    using Cons.prems(1) by (auto simp: sbind_eq_Inr)
  obtain r q xs' ys' where rq: "nat_rule True address m = Some r" "nat_rule False address m = Some q"
    and s1: "same_but_nat cs0 (ch (c_kernel s1))" "nat_chains (ch (c_kernel s1)) = (xs', ys')"
    and del: "(checks_answer h ch \<longrightarrow> r \<notin> set (xs @ zs)) \<and> xs' = xs @ zs \<or> xs' = remove1 r (xs @ zs)"
      "(checks_answer h ch \<longrightarrow> q \<notin> set (ys @ ws)) \<and> ys' = ys @ ws \<or> ys' = remove1 q (ys @ ws)"
    using delete_mapping_effect[OF L one Cons.prems(2,3)] by blast
  have new: "r \<notin> set xs" "q \<notin> set ys"
    "set (nat_rules True address ms) \<inter> set xs = {}" "set (nat_rules False address ms) \<inter> set ys = {}"
    using Cons.prems(4,5) rq by (auto simp: nat_rules_def)
  obtain zs1 where z: "xs' = xs @ zs1"
    "\<And>rs zs'. shrank (checks_answer h ch) zs1 rs zs' \<Longrightarrow> shrank (checks_answer h ch) zs (r # rs) zs'"
    using shrank_delete[OF new(1) del(1)] by blast
  obtain ws1 where w: "ys' = ys @ ws1"
    "\<And>rs zs'. shrank (checks_answer h ch) ws1 rs zs' \<Longrightarrow> shrank (checks_answer h ch) ws (q # rs) zs'"
    using shrank_delete[OF new(2) del(2)] by blast
  from Cons.IH[OF rest s1(1) _ new(3,4)] s1(2) z(1) w(1) obtain zs' ws' where
    "same_but_nat cs0 (ch (c_kernel s'))" "nat_chains (ch (c_kernel s')) = (xs @ zs', ys @ ws')"
    "shrank (checks_answer h ch) zs1 (nat_rules True address ms) zs'"
    "shrank (checks_answer h ch) ws1 (nat_rules False address ms) ws'" by blast
  with z(2) w(2) rq show ?case by (auto simp: nat_rules_def)
qed

text \<open>None of the rules of the mappings is in the two chains, which exist.\<close>

definition unmapped :: "chains \<Rightarrow> string \<Rightarrow> port list \<Rightarrow> bool" where
  "unmapped cs address ms \<longleftrightarrow>
     cs (''nat'', prerouting_chain) \<noteq> None \<and> cs (''nat'', output_chain) \<noteq> None \<and>
     (\<forall>m \<in> set ms. \<forall>proto. protocol_name m = Inr proto \<longrightarrow>
        drop 4 (fst (mapping_rules address m proto)) \<notin> set (chain_of cs ''nat'' prerouting_chain) \<and>
        drop 4 (snd (mapping_rules address m proto)) \<notin> set (chain_of cs ''nat'' output_chain))"

lemma validated_protocol_from:
  "validate_mappings_from seen ms = Inr u \<Longrightarrow> m \<in> set ms \<Longrightarrow> \<exists>proto. protocol_name m = Inr proto"
proof (induction ms arbitrary: seen)
  case Nil
  then show ?case by simp
next
  case (Cons x ms)
  then have p: "protocol_of_i32 (port_protocol x) \<noteq> None"
    and rest: "validate_mappings_from (insert (port_protocol x, port_external x) seen) ms = Inr u"
    by (auto split: if_splits)
  have "\<exists>proto. protocol_name x = Inr proto"
    using p by (auto simp: protocol_name_def split: option.splits protocol.splits)
  with Cons.IH[OF rest] Cons.prems(2) show ?case by auto
qed

lemma validated_protocol: "validate_mappings ms = Inr u \<Longrightarrow> m \<in> set ms \<Longrightarrow> \<exists>proto. protocol_name m = Inr proto"
  unfolding validate_mappings_def by (rule validated_protocol_from)

lemma unmapped_rules:
  assumes "unmapped cs address ms" and "\<And>m. m \<in> set ms \<Longrightarrow> \<exists>proto. protocol_name m = Inr proto"
  shows "set (nat_rules True address ms) \<inter> set (chain_of cs ''nat'' prerouting_chain) = {} \<and>
     set (nat_rules False address ms) \<inter> set (chain_of cs ''nat'' output_chain) = {}"
proof -
  have "the (nat_rule True address m) \<notin> set (chain_of cs ''nat'' prerouting_chain) \<and>
      the (nat_rule False address m) \<notin> set (chain_of cs ''nat'' output_chain)" if m: "m \<in> set ms" for m
  proof -
    from assms(2)[OF m] obtain proto where p: "protocol_name m = Inr proto" ..
    have four: "drop 4 (a # b # c # d # xs) = xs" for a b c d :: string and xs by (simp add: eval_nat_numeral)
    from nat_rule_commands[OF p, of address] assms(1) m p show ?thesis
      unfolding unmapped_def by (auto simp: four)
  qed
  then show ?thesis by (auto simp: nat_rules_def)
qed

section \<open>Properties\<close>

text \<open>
  C10. No traffic is routed between tenants. Take any rules in which the rule that drops traffic between
  tenants is not yet in the daemon's forwarding chain, or heads it: the chain may be absent, or hold
  anything else. After any number of runs of \<open>ensure_egress\<close> that may have stopped halfway at any
  command, with checks that may fail for a busy lock, one run that succeeds leaves rules under which
  every packet forwarded from one tenant's VLAN interface to another's (connection tracking and all
  other matches whatever they say) is dropped.
\<close>

theorem tenants_are_isolated:
  assumes L: "iptables_laws h ch"
    and start: "unopened (ch (c_kernel s))"
    and run: "ensure_egress h (after_egress h n s) = (Inr u, s')"
  shows "forward_verdict (ch (c_kernel s'))
     \<lparr>pk_in = vlan_interface v, pk_out = vlan_interface w, pk_match = pm\<rparr> = Some ''DROP''"
  using ensure_egress_closes[OF L run after_egress_unopened[OF L start]] closed_drops by blast

text \<open>
  C33. The port mappings of a workload go as they came. If \<open>add_mappings\<close> succeeds where none of the
  rules was present and \<open>delete_mappings\<close> of the same mappings then succeeds, every other chain of
  every table is what it was, and the two chains of the mappings begin with what they held, followed
  by nothing but rules of these mappings; nothing follows, and all chains are exactly what they were,
  if no check of \<open>iptables\<close> failed on a rule that was there.
\<close>

theorem mappings_round_trip:
  assumes L: "iptables_laws h ch"
    and absent: "unmapped (ch (c_kernel s)) address ms"
    and added: "add_mappings h address ms s = (Inr u, s1)"
    and deleted: "delete_mappings h address ms s1 = (Inr v, s2)"
  shows "(\<forall>k. k \<noteq> (''nat'', prerouting_chain) \<and> k \<noteq> (''nat'', output_chain) \<longrightarrow> ch (c_kernel s2) k = ch (c_kernel s) k) \<and>
     (\<exists>zs ws. chain_of (ch (c_kernel s2)) ''nat'' prerouting_chain =
          chain_of (ch (c_kernel s)) ''nat'' prerouting_chain @ zs \<and> set zs \<subseteq> set (nat_rules True address ms) \<and>
        chain_of (ch (c_kernel s2)) ''nat'' output_chain =
          chain_of (ch (c_kernel s)) ''nat'' output_chain @ ws \<and> set ws \<subseteq> set (nat_rules False address ms)) \<and>
     (checks_answer h ch \<longrightarrow> ch (c_kernel s2) = ch (c_kernel s))"
proof -
  let ?cs = "ch (c_kernel s)"
  have same: "same_but_nat ?cs ?cs" using absent by (simp add: same_but_nat_def unmapped_def)
  have install: "install_mappings h address [] ms s = (Inr u, s1)"
    using added by (auto simp: add_mappings_def sbind_eq_Inr slift_def)
  obtain xs ys where nc: "nat_chains ?cs = (xs, ys)" by fastforce
  have valid: "\<exists>proto. protocol_name m = Inr proto" if "m \<in> set ms" for m
    using added that by (auto simp: add_mappings_def sbind_eq_Inr slift_def dest: validated_protocol)
  have fresh: "set (nat_rules True address ms) \<inter> set xs = {}" "set (nat_rules False address ms) \<inter> set ys = {}"
    using unmapped_rules[OF absent valid] nc by (auto simp: nat_chains_def)
  from install_mappings_effect[OF L install same nc] obtain zs ws where i: "same_but_nat ?cs (ch (c_kernel s1))"
    "nat_chains (ch (c_kernel s1)) = (xs @ zs, ys @ ws)"
    "grew (checks_answer h ch) xs (nat_rules True address ms) zs"
    "grew (checks_answer h ch) ys (nat_rules False address ms) ws" by blast
  from delete_mappings_effect[OF L deleted i(1,2) fresh] obtain zs' ws' where d: "same_but_nat ?cs (ch (c_kernel s2))"
    "nat_chains (ch (c_kernel s2)) = (xs @ zs', ys @ ws')"
    "shrank (checks_answer h ch) zs (nat_rules True address ms) zs'"
    "shrank (checks_answer h ch) ws (nat_rules False address ms) ws'" by blast
  have "ch (c_kernel s2) = ?cs" if "checks_answer h ch"
  proof -
    have "zs' = [] \<and> ws' = []" using i(3,4) d(3,4) that by (simp add: grew_def shrank_def)
    then show ?thesis using same_but_nat_eq[OF d(1) same] d(2) nc by simp
  qed
  moreover have "set zs' \<subseteq> set (nat_rules True address ms)" "set ws' \<subseteq> set (nat_rules False address ms)"
    using i(3,4) d(3,4) by (auto simp: grew_def shrank_def)
  ultimately show ?thesis using d(1,2) nc by (auto simp: same_but_nat_def nat_chains_def)
qed

end
