(* ===== verification/Firewall_Examples.thy ===== *)
theory Firewall_Examples imports Firewall_Rules begin

text \<open>
  A host whose only kernel state is the chains of iptables and whose \<open>iptables\<close> is executable: the
  laws of \<open>Firewall_Rules\<close> hold of it, and its properties are applied to it. \<open>refuses\<close> are the commands
  it rejects beyond those that cannot succeed.
\<close>

section \<open>An executable iptables\<close>

fun ipt_exec :: "(string list \<Rightarrow> bool) \<Rightarrow> string list \<Rightarrow> chains \<Rightarrow> bool \<times> chains" where
  "ipt_exec refuses (w # five # tt # t # cmd # c # r) cs =
     (let ok = (if refuses (t # cmd # c # r) then False
                else if cmd = ''-C'' then r \<in> set (chain_of cs t c)
                else if cmd = ''-S'' \<and> r = [] then cs (t, c) \<noteq> None
                else if cmd = ''-N'' then cs (t, c) = None
                else if cmd = ''-D'' then r \<in> set (chain_of cs t c)
                else cs (t, c) \<noteq> None)
      in (ok, if ok then ipt_change cmd t c r cs else cs))"
| "ipt_exec refuses _ cs = (False, cs)"

definition fw_host :: "(string list \<Rightarrow> bool) \<Rightarrow> chains host" where
  "fw_host refuses = \<lparr>h_env = (\<lambda>_. None), h_is_root = True,
     h_is_file = (\<lambda>_. True),
     h_status = (\<lambda>p args cs. if p = ''/usr/sbin/iptables''
        then (let (ok, cs') = ipt_exec refuses args cs in (Inr ok, cs')) else (Inr True, cs)),
     h_output = (\<lambda>_ _ cs. (Inr (True, []), cs)),
     h_fault = (\<lambda>_ _. None), h_open_ns = (\<lambda>_ _. Inr \<lparr>nf_fd = 7, nf_id = (4, 99)\<rparr>),
     h_ns_id = (\<lambda>_ _. Inr (4, 1)), h_digest = (\<lambda>x. map of_char x), h_parse_ip = Some, h_too_large = (\<lambda>_. False)\<rparr>"

lemma fw_resolve: "resolve (fw_host R) program = Inr (''/usr/sbin/'' @ program)"
  by (simp add: resolve_def fw_host_def Let_def tool_directories_def)

lemma fw_laws: "iptables_laws (fw_host R) (\<lambda>cs. cs)"
proof -
  have "iptables_at (fw_host R) (\<lambda>cs. cs) ''/usr/sbin/iptables''"
    unfolding iptables_at_def fw_resolve
    by (auto simp: fw_host_def ipt_args_def Let_def split: prod.splits if_splits)
  then show ?thesis unfolding iptables_laws_def by blast
qed

lemma fw_answers: "checks_answer (fw_host (\<lambda>_. False)) (\<lambda>cs. cs)"
  unfolding checks_answer_def fw_resolve
  by (auto simp: fw_host_def ipt_args_def Let_def split: prod.splits if_splits)

definition builtin_chains :: chains where
  "builtin_chains = [(''filter'', ''FORWARD'') \<mapsto> [[''-j'', ''LIBVIRT_FWX'']], (''nat'', ''PREROUTING'') \<mapsto> [],
     (''nat'', ''OUTPUT'') \<mapsto> [], (''nat'', ''POSTROUTING'') \<mapsto> []]"

definition fw_state :: "chains \<Rightarrow> chains cni" where
  "fw_state cs = \<lparr>c_state = Map.empty, c_pools = Map.empty, c_kernel = cs, c_clock = 0\<rparr>"

abbreviation "fw \<equiv> fw_host (\<lambda>_. False)"

definition web_ports :: "port list" where
  "web_ports = [\<lparr>port_internal = 80, port_external = 80, port_protocol = 0\<rparr>,
     \<lparr>port_internal = 53, port_external = 53, port_protocol = 1\<rparr>]"

section \<open>Witnesses\<close>

text \<open>Chains of an earlier installation: the daemon's own chain exists and accepts what comes from tenants.\<close>

definition old_chains :: chains where
  "old_chains = builtin_chains((''filter'', forward_chain) \<mapsto> [[''-i'', tenant_interfaces, ''-j'', ''ACCEPT'']])"

lemma egress_twice: "fst (ensure_egress fw (after_egress fw 1 (fw_state old_chains))) = Inr ()"
  by code_simp

lemma tenants_are_isolated_witness:
  "forward_verdict (c_kernel (snd (ensure_egress fw (after_egress fw 1 (fw_state old_chains)))))
     \<lparr>pk_in = vlan_interface 100, pk_out = vlan_interface 200, pk_match = (\<lambda>_. True)\<rparr> = Some ''DROP''"
proof (rule tenants_are_isolated[OF fw_laws])
  show "unopened (c_kernel (fw_state old_chains))" by code_simp
  show "ensure_egress fw (after_egress fw 1 (fw_state old_chains)) =
      (Inr (), snd (ensure_egress fw (after_egress fw 1 (fw_state old_chains))))"
    by (rule prod_eqI) (simp_all only: egress_twice fst_conv snd_conv)
qed

text \<open>
  With an accepting rule already ahead of it, the rule that separates the tenants stays where it is:
  \<open>ensure_rule_first\<close> only checks that it is present.
\<close>

lemma shadowed_drop_stays:
  "case ensure_egress fw (fw_state (old_chains((''filter'', forward_chain) \<mapsto>
       [[''-i'', tenant_interfaces, ''-j'', ''ACCEPT''], drop_between_tenants]))) of (r, s) \<Rightarrow>
     r = Inr () \<and> forward_verdict (c_kernel s)
       \<lparr>pk_in = vlan_interface 100, pk_out = vlan_interface 200, pk_match = (\<lambda>_. True)\<rparr> = Some ''ACCEPT''"
  by code_simp

definition opened :: "chains cni" where
  "opened = fw_state (builtin_chains((''nat'', prerouting_chain) \<mapsto> [], (''nat'', output_chain) \<mapsto> []))"

lemma ports_valid: "add_mappings h address web_ports s = install_mappings h address [] web_ports s"
  "add_mappings h address (take 1 web_ports) s = install_mappings h address [] (take 1 web_ports) s"
  by (simp_all add: add_mappings_def validate_mappings_def web_ports_def valid_port_def protocol_of_i32_def)

definition with_ports :: "chains cni" where
  "with_ports = snd (install_mappings fw ''10.100.1.2'' [] web_ports opened)"

lemma ports_added: "fst (add_mappings fw ''10.100.1.2'' web_ports opened) = Inr ()"
  unfolding ports_valid by code_simp

lemma ports_deleted: "fst (delete_mappings fw ''10.100.1.2'' web_ports with_ports) = Inr ()"
  by code_simp

lemma ports_there: "map length (map (chain_of (c_kernel with_ports) ''nat'') [prerouting_chain, output_chain]) = [2, 2]"
  by code_simp

lemma ports_absent: "unmapped (c_kernel opened) ''10.100.1.2'' web_ports"
proof -
  have "chain_of (c_kernel opened) ''nat'' prerouting_chain = []" "chain_of (c_kernel opened) ''nat'' output_chain = []"
    "c_kernel opened (''nat'', prerouting_chain) \<noteq> None" "c_kernel opened (''nat'', output_chain) \<noteq> None"
    by code_simp+
  then show ?thesis by (simp add: unmapped_def)
qed

lemma mappings_round_trip_witness:
  "length (chain_of (c_kernel with_ports) ''nat'' prerouting_chain) = 2 \<and>
   c_kernel (snd (delete_mappings fw ''10.100.1.2'' web_ports with_ports)) = c_kernel opened"
proof
  show "length (chain_of (c_kernel with_ports) ''nat'' prerouting_chain) = 2" using ports_there by simp
  have added: "add_mappings fw ''10.100.1.2'' web_ports opened = (Inr (), with_ports)"
    by (rule prod_eqI) (simp_all only: ports_added[unfolded ports_valid] with_ports_def ports_valid fst_conv snd_conv)
  have deleted: "delete_mappings fw ''10.100.1.2'' web_ports with_ports =
      (Inr (), snd (delete_mappings fw ''10.100.1.2'' web_ports with_ports))"
    by (rule prod_eqI) (simp_all only: ports_deleted fst_conv snd_conv)
  show "c_kernel (snd (delete_mappings fw ''10.100.1.2'' web_ports with_ports)) = c_kernel opened"
    using mappings_round_trip[OF fw_laws ports_absent added deleted] fw_answers by blast
qed

text \<open>
  The lock of \<open>iptables\<close> is held while the mappings are deleted: every check fails, \<open>delete_mapping_rule\<close>
  takes that for a rule that is gone, and all the rules stay behind a deletion that reports success.
\<close>

definition busy_lock :: "chains host" where
  "busy_lock = fw_host (\<lambda>args. take 1 (drop 1 args) = [''-C''])"

lemma busy_lock_leaves_rules:
  "case delete_mappings busy_lock ''10.100.1.2'' web_ports with_ports of (r, s) \<Rightarrow>
     r = Inr () \<and> map length (map (chain_of (c_kernel s) ''nat'') [prerouting_chain, output_chain]) = [2, 2]"
  by code_simp

section \<open>A mapping half installed\<close>

definition no_output_rules :: "chains host" where
  "no_output_rules = fw_host (\<lambda>args. take 3 args = [''nat'', ''-A'', output_chain])"

text \<open>
  \<open>add_mappings\<close> takes back the mappings installed before the one that fails, but not the half of
  the failed one that was installed: with \<open>iptables\<close> refusing the rule of the output chain, the rule
  of the prerouting chain stays, and traffic to the node's port keeps going to the address that the
  failed request gave back.
\<close>

lemma failed_mapping_stays_half:
  "case add_mappings no_output_rules ''10.100.1.2'' (take 1 web_ports) opened of (r, s) \<Rightarrow>
     isl r \<and> chain_of (c_kernel opened) ''nat'' prerouting_chain = [] \<and>
     chain_of (c_kernel s) ''nat'' prerouting_chain =
       [[''!'', ''-i'', ''barenetes0'', ''-p'', ''tcp'', ''--dport'', ''80'', ''-j'', ''DNAT'',
         ''--to-destination'', ''10.100.1.2:80'']]"
  unfolding ports_valid by code_simp

end
