(* ===== verification/Disk.thy ===== *)
theory Disk imports Prelude "HOL-Library.Word" begin

text \<open>
  What the command-line tools use of the standard library's \<open>Path\<close> and \<open>fs\<close>: paths as the
  components \<open>Path::components\<close> yields, and a tree of directories, files and sockets with their
  permission bits. Every call counts on \<open>dk_clock\<close>; \<open>dk_fault\<close> says which of them the operating system fails
  and, for a write, after how many bytes. There are no symbolic links, and the tools run alone.
\<close>

unbundle bit_operations_syntax

section \<open>Paths\<close>

text \<open>A path is absolute or relative; \<open>.\<close> is kept only at the head of a relative one.\<close>

datatype path = Path (path_abs: bool) (path_comps: "string list")

definition dot :: string where "dot = ''.''"

definition plain_comps :: "string list \<Rightarrow> string list" where
  "plain_comps cs = filter (\<lambda>c. c \<noteq> [] \<and> c \<noteq> dot) cs"

definition rel_comps :: "string list \<Rightarrow> string list" where
  "rel_comps cs = (case cs of [] \<Rightarrow> [] | c # rest \<Rightarrow> (if c = dot then [c] else plain_comps [c]) @ plain_comps rest)"

definition path_of :: "string \<Rightarrow> path" where
  "path_of s =
     (case s of
        [] \<Rightarrow> Path False []
      | c # cs \<Rightarrow> if c = CHR ''/'' then Path True (plain_comps (split_on (CHR ''/'') cs))
                  else Path False (rel_comps (split_on (CHR ''/'') s)))"

definition show_path :: "path \<Rightarrow> string" where
  "show_path p = (if path_abs p then ''/'' else []) @ join ''/'' (path_comps p)"

definition path_parent :: "path \<Rightarrow> path option" where
  "path_parent p = (if path_comps p = [] then None else Some (Path (path_abs p) (butlast (path_comps p))))"

definition path_file_name :: "path \<Rightarrow> string option" where
  "path_file_name p =
     (if path_comps p = [] \<or> last (path_comps p) \<in> {dot, ''..''} then None else Some (last (path_comps p)))"

definition path_join :: "path \<Rightarrow> string \<Rightarrow> path" where
  "path_join p s =
     (let q = path_of s
      in if path_abs q \<or> p = Path False [] then q
         else Path (path_abs p) (path_comps p @ plain_comps (path_comps q)))"

lemma split_on_single: "CHR ''/'' \<notin> set s \<Longrightarrow> s \<noteq> [] \<Longrightarrow> s \<noteq> dot \<Longrightarrow> path_of s = Path False [s]"
  by (cases s) (auto simp: path_of_def split_on_no_sep rel_comps_def plain_comps_def)

lemma path_join_name:
  "CHR ''/'' \<notin> set s \<Longrightarrow> s \<noteq> [] \<Longrightarrow> s \<noteq> dot \<Longrightarrow> path_join p s = Path (path_abs p) (path_comps p @ [s])"
  by (cases p) (auto simp: path_join_def Let_def split_on_single plain_comps_def)

section \<open>UTF-8\<close>

definition cont_byte :: "nat \<Rightarrow> bool" where
  "cont_byte b \<longleftrightarrow> 128 \<le> b \<and> b \<le> 191"

text \<open>\<open>str::from_utf8\<close>: no overlong forms, no surrogates, nothing above U+10FFFF.\<close>

fun utf8_bytes :: "nat list \<Rightarrow> bool" where
  "utf8_bytes [] = True"
| "utf8_bytes (b # bs) =
     (if b < 128 then utf8_bytes bs
      else case bs of [] \<Rightarrow> False | c # cs \<Rightarrow>
        if 194 \<le> b \<and> b \<le> 223 then cont_byte c \<and> utf8_bytes cs
        else case cs of [] \<Rightarrow> False | d # ds \<Rightarrow>
          if 224 \<le> b \<and> b \<le> 239
          then (if b = 224 then 160 \<le> c \<and> c \<le> 191 else if b = 237 then 128 \<le> c \<and> c \<le> 159 else cont_byte c)
               \<and> cont_byte d \<and> utf8_bytes ds
          else case ds of [] \<Rightarrow> False | e # es \<Rightarrow>
            240 \<le> b \<and> b \<le> 244 \<and>
            (if b = 240 then 144 \<le> c \<and> c \<le> 191 else if b = 244 then 128 \<le> c \<and> c \<le> 143 else cont_byte c) \<and>
            cont_byte d \<and> cont_byte e \<and> utf8_bytes es)"

definition valid_utf8 :: "string \<Rightarrow> bool" where
  "valid_utf8 s = utf8_bytes (map of_char s)"

text \<open>\<open>chars().count()\<close>: every byte but the continuation bytes starts a character.\<close>

definition char_count :: "string \<Rightarrow> nat" where
  "char_count s = length (filter (\<lambda>c. \<not> cont_byte (of_char c)) s)"

lemma utf8_ascii: "\<forall>b \<in> set bs. b < 128 \<Longrightarrow> utf8_bytes bs"
  by (induction bs) auto

lemma char_count_simps [simp]:
  "char_count [] = 0" "char_count (a @ b) = char_count a + char_count b"
  "char_count (replicate n (CHR '' '')) = n"
  by (simp_all add: char_count_def cont_byte_def)

section \<open>The tree\<close>

type_synonym mode = "12 word"

datatype inode = Dir mode | File (file_mode: mode) (file_bytes: string) | Socket mode

record disk =
  dk_tree :: "string list \<rightharpoonup> inode"
  dk_cwd :: "string list"
  dk_umask :: mode
  dk_pid :: nat
  dk_clock :: nat
  dk_fault :: "nat \<Rightarrow> (io_error \<times> nat) option"

type_synonym 'a sys = "(disk, io_error, 'a) op"

definition step_up :: "string list \<Rightarrow> string \<Rightarrow> string list" where
  "step_up here c = (if c = ''..'' then butlast here else if c = dot then here else here @ [c])"

definition locate :: "disk \<Rightarrow> path \<Rightarrow> string list" where
  "locate d p = foldl step_up (if path_abs p then [] else dk_cwd d) (path_comps p)"

definition is_leaf_node :: "inode option \<Rightarrow> bool" where
  "is_leaf_node n = (case n of None \<Rightarrow> False | Some (Dir _) \<Rightarrow> False | Some _ \<Rightarrow> True)"

definition is_dir_node :: "inode option \<Rightarrow> bool" where
  "is_dir_node n = (case n of Some (Dir _) \<Rightarrow> True | _ \<Rightarrow> False)"

definition no_entry :: io_error where
  "no_entry = IoError KNotFound ''No such file or directory (os error 2)''"

text \<open>The error for a name that is not there: \<open>ENOTDIR\<close> below a file, \<open>ENOENT\<close> otherwise.\<close>

definition missing_at :: "disk \<Rightarrow> string list \<Rightarrow> io_error" where
  "missing_at d q =
     (if list_ex (\<lambda>k. is_leaf_node (dk_tree d (take k q))) [0..<length q]
      then IoError KOther ''Not a directory (os error 20)''
      else no_entry)"

definition sys :: "(disk \<Rightarrow> (io_error + 'a) \<times> disk) \<Rightarrow> 'a sys" where
  "sys f d =
     (let d1 = d\<lparr>dk_clock := Suc (dk_clock d)\<rparr>
      in case dk_fault d (dk_clock d) of None \<Rightarrow> f d1 | Some (e, _) \<Rightarrow> (Inl e, d1))"

definition set_node :: "string list \<Rightarrow> inode option \<Rightarrow> disk \<Rightarrow> disk" where
  "set_node q n d = d\<lparr>dk_tree := (dk_tree d)(q := n)\<rparr>"

section \<open>Calls\<close>

definition is_directory :: io_error where
  "is_directory = IoError KOther ''Is a directory (os error 21)''"

definition exists_already :: io_error where
  "exists_already = IoError KAlreadyExists ''File exists (os error 17)''"

definition no_device :: io_error where
  "no_device = IoError KOther ''No such device or address (os error 6)''"

definition read_bytes :: "path \<Rightarrow> string sys" where
  "read_bytes p = sys (\<lambda>d. case dk_tree d (locate d p) of
     Some (File _ c) \<Rightarrow> (Inr c, d)
   | Some (Dir _) \<Rightarrow> (Inl is_directory, d)
   | Some (Socket _) \<Rightarrow> (Inl no_device, d)
   | None \<Rightarrow> (Inl (missing_at d (locate d p)), d))"

definition read_text :: "path \<Rightarrow> string sys" where
  "read_text p = sbind (read_bytes p) (\<lambda>c.
     if valid_utf8 c then sret c
     else sfail (IoError KInvalidData ''stream did not contain valid UTF-8''))"

text \<open>\<open>Path::exists\<close>: an error reads as absent.\<close>

definition path_exists :: "path \<Rightarrow> disk \<Rightarrow> bool \<times> disk" where
  "path_exists p d =
     (case sys (\<lambda>d. (Inr (dk_tree d (locate d p) \<noteq> None), d)) d of
        (Inl _, d1) \<Rightarrow> (False, d1) | (Inr b, d1) \<Rightarrow> (b, d1))"

text \<open>A new entry needs its directory.\<close>

definition add_node :: "inode \<Rightarrow> string list \<Rightarrow> disk \<Rightarrow> (io_error + unit) \<times> disk" where
  "add_node n q d =
     (if is_dir_node (dk_tree d (butlast q)) then (Inr (), set_node q (Some n) d)
      else (Inl (missing_at d q), d))"

text \<open>Mode 0777, less the umask.\<close>

definition mkdir :: "path \<Rightarrow> unit sys" where
  "mkdir p = sys (\<lambda>d. if dk_tree d (locate d p) \<noteq> None then (Inl exists_already, d)
     else add_node (Dir (0x1FF AND NOT (dk_umask d))) (locate d p) d)"

text \<open>\<open>Path::is_dir\<close>, asked after a failed \<open>mkdir\<close>.\<close>

definition ok_if_dir :: "path \<Rightarrow> unit sys \<Rightarrow> unit sys" where
  "ok_if_dir p m d = (case m d of
     (Inl e, d1) \<Rightarrow> if is_dir_node (dk_tree d1 (locate d1 p)) then (Inr (), d1) else (Inl e, d1)
   | (Inr u, d1) \<Rightarrow> (Inr u, d1))"

text \<open>\<open>create_dir_all\<close>, on the components from the last to the first.\<close>

fun create_up :: "bool \<Rightarrow> string list \<Rightarrow> unit sys" where
  "create_up a [] = (if a then ok_if_dir (Path a []) (mkdir (Path a [])) else sret ())"
| "create_up a (c # cs) = (\<lambda>d.
     (let p = Path a (rev (c # cs))
      in case mkdir p d of
           (Inr u, d1) \<Rightarrow> (Inr u, d1)
         | (Inl e, d1) \<Rightarrow>
             if io_kind e = KNotFound then sbind (create_up a cs) (\<lambda>_. ok_if_dir p (mkdir p)) d1
             else if is_dir_node (dk_tree d1 (locate d1 p)) then (Inr (), d1) else (Inl e, d1)))"

definition create_dir_all :: "path \<Rightarrow> unit sys" where
  "create_dir_all p = create_up (path_abs p) (rev (path_comps p))"

definition with_mode :: "mode \<Rightarrow> inode \<Rightarrow> inode" where
  "with_mode m n = (case n of Dir _ \<Rightarrow> Dir m | File _ c \<Rightarrow> File m c | Socket _ \<Rightarrow> Socket m)"

text \<open>The empty path names nothing.\<close>

definition set_permissions :: "path \<Rightarrow> mode \<Rightarrow> unit sys" where
  "set_permissions p m = sys (\<lambda>d. case (if p = Path False [] then None else dk_tree d (locate d p)) of
     Some n \<Rightarrow> (Inr (), set_node (locate d p) (Some (with_mode m n)) d)
   | None \<Rightarrow> (Inl (if p = Path False [] then no_entry else missing_at d (locate d p)), d))"

text \<open>\<open>OpenOptions::open\<close> for writing. The mode applies to a file this call creates, less the
  bits of the umask; \<open>fresh\<close> is \<open>create_new\<close>, otherwise an existing file is truncated.\<close>

definition open_write :: "bool \<Rightarrow> mode \<Rightarrow> path \<Rightarrow> unit sys" where
  "open_write fresh m p = sys (\<lambda>d. case dk_tree d (locate d p) of
     Some (File m0 _) \<Rightarrow> if fresh then (Inl exists_already, d) else (Inr (), set_node (locate d p) (Some (File m0 [])) d)
   | Some (Dir _) \<Rightarrow> (Inl (if fresh then exists_already else is_directory), d)
   | Some (Socket _) \<Rightarrow> (Inl (if fresh then exists_already else no_device), d)
   | None \<Rightarrow> add_node (File (m AND NOT (dk_umask d)) []) (locate d p) d)"

text \<open>\<open>write_all\<close> to a file just opened: a failure may leave a part of the bytes behind.\<close>

definition put_bytes :: "path \<Rightarrow> string \<Rightarrow> disk \<Rightarrow> disk" where
  "put_bytes p c d = (case dk_tree d (locate d p) of
     Some (File m _) \<Rightarrow> set_node (locate d p) (Some (File m c)) d | _ \<Rightarrow> d)"

definition write_all :: "path \<Rightarrow> string \<Rightarrow> unit sys" where
  "write_all p c d =
     (let d1 = d\<lparr>dk_clock := Suc (dk_clock d)\<rparr>
      in case dk_fault d (dk_clock d) of
           None \<Rightarrow> (Inr (), put_bytes p c d1)
         | Some (e, n) \<Rightarrow> (Inl e, put_bytes p (take n c) d1))"

definition sync_all :: "unit sys" where
  "sync_all = sys (\<lambda>d. (Inr (), d))"

definition rename_to :: "path \<Rightarrow> path \<Rightarrow> unit sys" where
  "rename_to a b = sys (\<lambda>d.
     (let from = locate d a; into = locate d b
      in case dk_tree d from of
           None \<Rightarrow> (Inl (missing_at d from), d)
         | Some n \<Rightarrow>
             if is_dir_node (dk_tree d into) then (Inl is_directory, d)
             else if \<not> is_dir_node (dk_tree d (butlast into)) then (Inl (missing_at d into), d)
             else if from = into then (Inr (), d)
             else (Inr (), set_node from None (set_node into (Some n) d))))"

end
