(* ===== verification/Barectl_Config.thy ===== *)
theory Barectl_Config imports Disk Tls_Identity begin

text \<open>
  \<open>barectl-config/src/lib.rs\<close>, the configuration file \<open>barectl\<close> reads and \<open>barenetes-pki\<close>
  also writes, and \<open>barectl/src/config.rs\<close>, which decides server and TLS identity from the flags
  and that file. The YAML and base64 libraries are the parameter \<open>cfg_env\<close>.
\<close>

section \<open>The file (\<open>barectl-config\<close>)\<close>

record file_config =
  fc_server :: string
  fc_tls_server_name :: "string option"
  fc_ca_data :: "string option"
  fc_cert_data :: "string option"
  fc_key_data :: "string option"

datatype cfg_error =
  CfgRead path io_error | CfgParse path string | CfgWrite path io_error | CfgSerialize string

record cfg_env =
  ce_to_yaml :: "file_config \<Rightarrow> string + string"
  ce_from_yaml :: "string \<Rightarrow> string + file_config"
  ce_encode :: "string \<Rightarrow> string"
  ce_decode :: "string \<Rightarrow> string + string"

definition default_path :: "string option \<Rightarrow> path option" where
  "default_path home = map_option (\<lambda>h. path_join (path_of h) ''.config/barectl/config'') home"

definition load_config :: "cfg_env \<Rightarrow> path \<Rightarrow> (disk, cfg_error, file_config option) op" where
  "load_config env path d =
     (case read_text path d of
        (Inr contents, d1) \<Rightarrow>
          (case ce_from_yaml env contents of Inl e \<Rightarrow> (Inl (CfgParse path e), d1) | Inr c \<Rightarrow> (Inr (Some c), d1))
      | (Inl e, d1) \<Rightarrow> if io_kind e = KNotFound then (Inr None, d1) else (Inl (CfgRead path e), d1))"

definition to_yaml :: "cfg_env \<Rightarrow> file_config \<Rightarrow> cfg_error + string" where
  "to_yaml env c = (case ce_to_yaml env c of Inl e \<Rightarrow> Inl (CfgSerialize e) | Inr y \<Rightarrow> Inr y)"

text \<open>The sibling both writers use: \<open>.<name>.tmp-<pid>\<close>.\<close>

definition tmp_sibling :: "string \<Rightarrow> path \<Rightarrow> nat \<Rightarrow> path" where
  "tmp_sibling fallback path pid =
     (let dir = (case path_parent path of None \<Rightarrow> path_of ''.'' | Some q \<Rightarrow> q);
          nm = (case path_file_name path of Some n \<Rightarrow> if valid_utf8 n then n else fallback | None \<Rightarrow> fallback)
      in path_join dir (''.'' @ nm @ ''.tmp-'' @ show_nat pid))"

definition write_to_tmp :: "bool \<Rightarrow> mode \<Rightarrow> path \<Rightarrow> path \<Rightarrow> string \<Rightarrow> unit sys" where
  "write_to_tmp fresh m tmp path contents =
     sbind (open_write fresh m tmp) (\<lambda>_.
     sbind (write_all tmp contents) (\<lambda>_.
     sbind sync_all (\<lambda>_. rename_to tmp path)))"

definition write_atomic :: "path \<Rightarrow> string \<Rightarrow> mode \<Rightarrow> unit sys" where
  "write_atomic path contents m =
     swith (\<lambda>d. write_to_tmp False m (tmp_sibling ''config'' path (dk_pid d)) path contents)"

text \<open>Modes 0700 and 0600.\<close>

definition save_config :: "cfg_env \<Rightarrow> path \<Rightarrow> file_config \<Rightarrow> (disk, cfg_error, unit) op" where
  "save_config env path c =
     sbind (slift (to_yaml env c)) (\<lambda>yaml.
     sbind (case path_parent path of
              Some dir \<Rightarrow> if dir = Path False [] then sret ()
                else smap_err (CfgWrite path) (sbind (create_dir_all dir) (\<lambda>_. set_permissions dir 0x1C0))
            | None \<Rightarrow> sret ()) (\<lambda>_.
     smap_err (CfgWrite path) (write_atomic path yaml 0x180)))"

definition read_and_encode :: "cfg_env \<Rightarrow> path \<Rightarrow> (disk, cfg_error, string) op" where
  "read_and_encode env path =
     sbind (smap_err (CfgRead path) (read_bytes path)) (\<lambda>bytes. sret (ce_encode env bytes))"

section \<open>Errors of \<open>barectl\<close> (\<open>error.rs\<close>)\<close>

text \<open>\<open>CliTls\<close> carries the context and the cause of the \<open>anyhow\<close> error.\<close>

datatype cli_error =
  CliConnect string string
| CliTls string string
| CliEmptyResponse
| CliReadManifest path io_error
| CliParseManifest path string
| CliWriteOutput io_error
| CliInvalidUsage string
| CliServer string
| CliConfig cfg_error
| CliDecodeConfig string string

definition cli_error_of_status :: "status \<Rightarrow> cli_error" where
  "cli_error_of_status st = CliServer (st_message st)"

section \<open>Server and identity (\<open>config.rs\<close>)\<close>

datatype resolved_tls =
  TlsPlaintext
| TlsPaths (tp_cert: path) (tp_key: path) (tp_ca: path) (tp_server_name: string)
| TlsBytes (tb_cert: string) (tb_key: string) (tb_ca: string) (tb_server_name: string)

definition resolve_server :: "string option \<Rightarrow> file_config option \<Rightarrow> string" where
  "resolve_server cli_server cfg =
     (case cli_server of Some s \<Rightarrow> s
      | None \<Rightarrow> (case cfg of Some c \<Rightarrow> fc_server c | None \<Rightarrow> ''http://127.0.0.1:50052''))"

definition decode_field :: "cfg_env \<Rightarrow> string \<Rightarrow> string \<Rightarrow> cli_error + string" where
  "decode_field env v f = (case ce_decode env v of Inl e \<Rightarrow> Inl (CliDecodeConfig f e) | Inr b \<Rightarrow> Inr b)"

text \<open>The identity of the file; the server name of the flags goes before its own.\<close>

definition resolve_file_tls :: "cfg_env \<Rightarrow> tls_args \<Rightarrow> file_config \<Rightarrow> cli_error + resolved_tls" where
  "resolve_file_tls env cli_tls cfg =
     (case (fc_ca_data cfg, fc_cert_data cfg, fc_key_data cfg) of
        (Some ca, Some cert, Some key) \<Rightarrow>
          rbind (ok_or (case ta_server_name cli_tls of Some n \<Rightarrow> Some n | None \<Rightarrow> fc_tls_server_name cfg)
            (CliInvalidUsage ''config file has TLS data but no tls-server-name (set it in the file or pass --tls-server-name)''))
            (\<lambda>server_name.
          rbind (decode_field env cert ''client-certificate-data'') (\<lambda>cert.
          rbind (decode_field env key ''client-key-data'') (\<lambda>key.
          rbind (decode_field env ca ''certificate-authority-data'') (\<lambda>ca.
          Inr (TlsBytes cert key ca server_name)))))
      | (None, None, None) \<Rightarrow> Inr TlsPlaintext
      | _ \<Rightarrow> Inl (CliInvalidUsage
               (''config file TLS data is incomplete (certificate-authority-data, client-certificate-data '' @
                ''and client-key-data must all be set or all absent)'')))"

definition resolve_tls :: "cfg_env \<Rightarrow> tls_args \<Rightarrow> file_config option \<Rightarrow> cli_error + resolved_tls" where
  "resolve_tls env cli_tls cfg =
     (case (ta_cert cli_tls, ta_key cli_tls, ta_ca cli_tls) of
        (Some cert, Some key, Some ca) \<Rightarrow>
          rbind (ok_or (ta_server_name cli_tls)
            (CliInvalidUsage ''--tls-server-name is required when connecting over mTLS (--tls-cert/--tls-key/--tls-ca set)''))
            (\<lambda>server_name. Inr (TlsPaths (path_of cert) (path_of key) (path_of ca) server_name))
      | (None, None, None) \<Rightarrow>
          (case cfg of None \<Rightarrow> Inr TlsPlaintext | Some c \<Rightarrow> resolve_file_tls env cli_tls c)
      | _ \<Rightarrow> Inl (CliInvalidUsage
               ''--tls-cert, --tls-key and --tls-ca must all be set together (mTLS) or all omitted (plaintext)''))"

end
