(* ===== verification/Barectl_Manifest.thy ===== *)
theory Barectl_Manifest imports Barectl_Config Proto_Types begin

text \<open>
  What \<open>barectl create pod\<close> makes a pod from: the YAML manifest of \<open>barectl/src/manifest.rs\<close>, whose
  defaults serde fills in, and the flags of \<open>barectl/src/cli.rs\<close>, whose values are parsed here.
\<close>

section \<open>Manifests (\<open>manifest.rs\<close>)\<close>

record port_manifest =
  pm_container_port :: nat
  pm_host_port :: nat
  pm_protocol :: string

record container_manifest =
  cm_name :: string
  cm_image :: string
  cm_ports :: "port_manifest list"
  cm_env :: "env_var list"

record resources_manifest =
  rm_requests :: "resources option"
  rm_limits :: "resources option"

record pod_manifest =
  mf_kind :: string
  mf_name :: string
  mf_namespace :: string
  mf_containers :: "container_manifest list"
  mf_resources :: "resources_manifest option"

text \<open>Both the manifest and the port flag accept a protocol in any case.\<close>

definition to_upper :: "string \<Rightarrow> string" where
  "to_upper s = map upper_char s"

definition protocol_named :: "string \<Rightarrow> protocol option" where
  "protocol_named s =
     (if to_upper s = ''TCP'' then Some Tcp else if to_upper s = ''UDP'' then Some Udp else None)"

definition port_from_manifest :: "port_manifest \<Rightarrow> string \<Rightarrow> cli_error + port" where
  "port_from_manifest m container_name =
     (case protocol_named (pm_protocol m) of
        None \<Rightarrow> Inl (CliInvalidUsage (''unsupported protocol '' @ dquote @ to_upper (pm_protocol m) @ dquote @
                  '' on container '' @ dquote @ container_name @ dquote @ '', expected '' @
                  dquote @ ''TCP'' @ dquote @ '' or '' @ dquote @ ''UDP'' @ dquote))
      | Some p \<Rightarrow> Inr \<lparr>port_internal = pm_container_port m, port_external = pm_host_port m,
                       port_protocol = protocol_i32 p\<rparr>)"

definition container_from_manifest :: "container_manifest \<Rightarrow> cli_error + container" where
  "container_from_manifest m =
     rbind (collect_results (map (\<lambda>p. port_from_manifest p (cm_name m)) (cm_ports m))) (\<lambda>ports.
     Inr \<lparr>ct_name = cm_name m, ct_image = cm_image m, ct_ports = ports, ct_env = cm_env m\<rparr>)"

definition pod_from_manifest :: "pod_manifest \<Rightarrow> cli_error + pod_with_spec" where
  "pod_from_manifest m =
     (if mf_kind m \<noteq> ''Pod''
      then Inl (CliInvalidUsage (''unsupported manifest kind '' @ dquote @ mf_kind m @ dquote @
             '', expected '' @ dquote @ ''Pod'' @ dquote))
      else if mf_containers m = []
      then Inl (CliInvalidUsage ''manifest spec must include at least one container'')
      else
        rbind (collect_results (map container_from_manifest (mf_containers m))) (\<lambda>containers.
        (let (requests, limits) = (case mf_resources m of
               Some r \<Rightarrow> (rm_requests r, rm_limits r) | None \<Rightarrow> (None, None))
         in Inr \<lparr>pw_pod = Some \<lparr>p_name = mf_name m, p_status = pod_status_i32 PodPending,
                                p_requests = requests, p_limits = limits\<rparr>,
                 pw_spec = Some \<lparr>ps_namespace = mf_namespace m, ps_containers = containers\<rparr>\<rparr>)))"

definition manifest_from_file :: "(string \<Rightarrow> string + pod_manifest) \<Rightarrow> path \<Rightarrow> (disk, cli_error, pod_manifest) op" where
  "manifest_from_file from_yaml path =
     sbind (smap_err (CliReadManifest path) (read_text path)) (\<lambda>contents.
     slift (case from_yaml contents of Inl e \<Rightarrow> Inl (CliParseManifest path e) | Inr m \<Rightarrow> Inr m))"

section \<open>Flags (\<open>cli.rs\<close>)\<close>

record create_pod_args =
  ca_file :: "path option"
  ca_name :: "string option"
  ca_namespace :: "string option"
  ca_image :: "string option"
  ca_ports :: "port list"
  ca_env :: "env_var list"
  ca_cpu_request :: "int option"
  ca_memory_request :: "int option"
  ca_cpu_limit :: "int option"
  ca_memory_limit :: "int option"

record get_pod_args =
  ga_name :: "string option"
  ga_namespace :: "string option"
  ga_image :: "string option"

record config_set_args =
  cs_server :: string
  cs_tls_cert :: "path option"
  cs_tls_key :: "path option"
  cs_tls_ca :: "path option"
  cs_tls_server_name :: "string option"

datatype barectl_command =
  BcCreatePod create_pod_args
| BcGetPod get_pod_args
| BcGetNode "string option"
| BcDeletePod string string
| BcConfigSet config_set_args
| BcConfigView
| BcCompletion string

definition parse_port :: "string \<Rightarrow> string + port" where
  "parse_port raw =
     (let (ports, protocol) = (case split_once (CHR ''/'') raw of Some x \<Rightarrow> x | None \<Rightarrow> (raw, ''tcp''))
      in case split_once (CHR '':'') ports of
           None \<Rightarrow> Inl (''invalid port '' @ dquote @ raw @ dquote @ '', expected HOST:CONTAINER[/tcp|udp]'')
         | Some (host, container) \<Rightarrow>
             (case parse_u32 host of
                None \<Rightarrow> Inl (''invalid host port '' @ dquote @ host @ dquote)
              | Some external \<Rightarrow>
                  (case parse_u32 container of
                     None \<Rightarrow> Inl (''invalid container port '' @ dquote @ container @ dquote)
                   | Some internal \<Rightarrow>
                       (case protocol_named protocol of
                          None \<Rightarrow> Inl (''invalid protocol '' @ dquote @ to_upper protocol @ dquote @ '', expected tcp or udp'')
                        | Some p \<Rightarrow> Inr \<lparr>port_internal = internal, port_external = external,
                                         port_protocol = protocol_i32 p\<rparr>))))"

definition parse_env :: "string \<Rightarrow> string + env_var" where
  "parse_env raw =
     (case split_once (CHR ''='') raw of
        None \<Rightarrow> Inl (''invalid env var '' @ dquote @ raw @ dquote @ '', expected KEY=VALUE'')
      | Some (nm, v) \<Rightarrow> Inr \<lparr>ev_name = nm, ev_value = v\<rparr>)"

section \<open>What a pod from a manifest looks like\<close>

lemma pod_from_manifest_ok:
  assumes "pod_from_manifest m = Inr pws"
  shows "\<exists>cs. map container_from_manifest (mf_containers m) = map Inr cs \<and> cs \<noteq> [] \<and>
     pws = \<lparr>pw_pod = Some \<lparr>p_name = mf_name m, p_status = pod_status_i32 PodPending,
              p_requests = Option.bind (mf_resources m) rm_requests, p_limits = Option.bind (mf_resources m) rm_limits\<rparr>,
            pw_spec = Some \<lparr>ps_namespace = mf_namespace m, ps_containers = cs\<rparr>\<rparr>"
  using assms
  by (auto simp: pod_from_manifest_def rbind_eq_Inr collect_results_Inr Let_def split: if_splits option.splits)

lemma container_from_manifest_name:
  "container_from_manifest m = Inr c \<Longrightarrow> ct_name c = cm_name m \<and> ct_image c = cm_image m \<and> ct_env c = cm_env m"
  by (auto simp: container_from_manifest_def rbind_eq_Inr)

end
