(* ===== verification/Barectl_Commands.thy ===== *)
theory Barectl_Commands
  imports Barectl_Manifest "HOL-Library.Char_ord" "HOL-Library.List_Lexorder" "HOL-Library.Product_Lexorder"
begin

text \<open>
  \<open>barectl/src/commands.rs\<close> and \<open>main.rs\<close>: the commands on the file tree of \<open>Disk\<close>, a terminal that
  keeps the lines printed, and an API server behind the parameter \<open>barectl_env\<close>, one function per
  RPC over a world \<open>'w\<close>.
\<close>

section \<open>The world of the client\<close>

datatype client_tls = ClientTls (ct_cert: string) (ct_key: string) (ct_ca: string) (ct_domain: string)

type_synonym ('w, 'a) rpc_call_to = "'w \<Rightarrow> (status + 'a) \<times> 'w"

record 'w barectl_env =
  be_cfg :: cfg_env
  be_manifest :: "string \<Rightarrow> string + pod_manifest"
  be_bad_uri :: "string \<Rightarrow> string option"
  be_connect :: "string \<Rightarrow> client_tls option \<Rightarrow> 'w \<Rightarrow> (string + unit) \<times> 'w"
  be_create_pod :: "pod_with_spec option \<Rightarrow> ('w, unit) rpc_call_to"
  be_list_pods :: "('w, pod_detail list) rpc_call_to"
  be_get_node :: "string \<Rightarrow> ('w, node option) rpc_call_to"
  be_list_nodes :: "('w, node list) rpc_call_to"
  be_delete_pod :: "string \<Rightarrow> string \<Rightarrow> ('w, unit) rpc_call_to"
  be_completion :: "string \<Rightarrow> string"
  be_stdout :: "string \<Rightarrow> io_error option"

record 'w cli =
  cl_disk :: disk
  cl_out :: "string list"
  cl_api :: 'w

type_synonym ('w, 'a) cmd = "('w cli, cli_error, 'a) op"

definition cli_disk :: "(disk, 'e, 'a) op \<Rightarrow> ('w cli, 'e, 'a) op" where
  "cli_disk f c = (let (r, d) = f (cl_disk c) in (r, c\<lparr>cl_disk := d\<rparr>))"

definition cli_api :: "('w \<Rightarrow> ('e + 'a) \<times> 'w) \<Rightarrow> ('w cli, 'e, 'a) op" where
  "cli_api f c = (let (r, w) = f (cl_api c) in (r, c\<lparr>cl_api := w\<rparr>))"

definition println :: "string \<Rightarrow> ('w, unit) cmd" where
  "println l c = (Inr (), c\<lparr>cl_out := cl_out c @ [l]\<rparr>)"

definition print_lines :: "string list \<Rightarrow> ('w, unit) cmd" where
  "print_lines ls c = (Inr (), c\<lparr>cl_out := cl_out c @ ls\<rparr>)"

section \<open>Connecting\<close>

definition read_pem :: "path \<Rightarrow> (disk, cli_error, string) op" where
  "read_pem p = smap_err (\<lambda>e. CliTls (''reading '' @ show_path p) (io_text e)) (read_bytes p)"

definition load_client_tls_config :: "path \<Rightarrow> path \<Rightarrow> path \<Rightarrow> string \<Rightarrow> (disk, cli_error, client_tls) op" where
  "load_client_tls_config cert key ca server_name =
     sbind (read_pem cert) (\<lambda>cert. sbind (read_pem key) (\<lambda>key. sbind (read_pem ca) (\<lambda>ca.
     sret (ClientTls cert key ca server_name))))"

definition client_tls_of :: "resolved_tls \<Rightarrow> (disk, cli_error, client_tls option) op" where
  "client_tls_of tls = (case tls of
     TlsPlaintext \<Rightarrow> sret None
   | TlsPaths cert key ca server_name \<Rightarrow>
       sbind (load_client_tls_config cert key ca server_name) (\<lambda>t. sret (Some t))
   | TlsBytes cert key ca server_name \<Rightarrow> sret (Some (ClientTls cert key ca server_name)))"

definition connect :: "'w barectl_env \<Rightarrow> string \<Rightarrow> resolved_tls \<Rightarrow> ('w, unit) cmd" where
  "connect env server tls =
     sbind (cli_disk (client_tls_of tls)) (\<lambda>tls_config.
     sbind (slift (case tls_config of None \<Rightarrow> Inr ()
              | Some _ \<Rightarrow> (case be_bad_uri env server of None \<Rightarrow> Inr () | Some e \<Rightarrow> Inl (CliTls e [])))) (\<lambda>_.
     smap_err (CliConnect server) (cli_api (be_connect env server tls_config))))"

definition call_api :: "('w, 'a) rpc_call_to \<Rightarrow> ('w, 'a) cmd" where
  "call_api f = smap_err cli_error_of_status (cli_api f)"

section \<open>Creating\<close>

definition resources_of_flags :: "int option \<Rightarrow> int option \<Rightarrow> cli_error + resources option" where
  "resources_of_flags cpu memory = (case (cpu, memory) of
     (None, None) \<Rightarrow> Inr None
   | (Some c, Some m) \<Rightarrow> Inr (Some \<lparr>res_cpu = c, res_memory = m\<rparr>)
   | _ \<Rightarrow> Inl (CliInvalidUsage ''cpu and memory must both be specified, or both omitted''))"

definition flags_used :: "create_pod_args \<Rightarrow> bool" where
  "flags_used a \<longleftrightarrow> ca_name a \<noteq> None \<or> ca_namespace a \<noteq> None \<or> ca_image a \<noteq> None \<or> ca_ports a \<noteq> [] \<or>
     ca_env a \<noteq> [] \<or> ca_cpu_request a \<noteq> None \<or> ca_memory_request a \<noteq> None \<or> ca_cpu_limit a \<noteq> None \<or>
     ca_memory_limit a \<noteq> None"

definition pod_from_flags :: "create_pod_args \<Rightarrow> cli_error + pod_with_spec" where
  "pod_from_flags a =
     rbind (ok_or (ca_name a) (CliInvalidUsage ''--name is required unless --file is used'')) (\<lambda>nm.
     rbind (ok_or (ca_image a) (CliInvalidUsage ''--image is required unless --file is used'')) (\<lambda>img.
     (let ns = (case ca_namespace a of Some n \<Rightarrow> n | None \<Rightarrow> ''default'')
      in rbind (resources_of_flags (ca_cpu_request a) (ca_memory_request a)) (\<lambda>requests.
         rbind (resources_of_flags (ca_cpu_limit a) (ca_memory_limit a)) (\<lambda>limits.
         Inr \<lparr>pw_pod = Some \<lparr>p_name = nm, p_status = pod_status_i32 PodPending,
                              p_requests = requests, p_limits = limits\<rparr>,
              pw_spec = Some \<lparr>ps_namespace = ns, ps_containers =
                [\<lparr>ct_name = nm, ct_image = img, ct_ports = ca_ports a, ct_env = ca_env a\<rparr>]\<rparr>\<rparr>)))))"

definition build_pod :: "'w barectl_env \<Rightarrow> create_pod_args \<Rightarrow> ('w, pod_with_spec) cmd" where
  "build_pod env a =
     (case ca_file a of
        Some path \<Rightarrow>
          if flags_used a
          then sfail (CliInvalidUsage
                 ''--file cannot be combined with --name/--namespace/--image/--port/--env/resource flags'')
          else sbind (cli_disk (manifest_from_file (be_manifest env) path)) (\<lambda>m. slift (pod_from_manifest m))
      | None \<Rightarrow> slift (pod_from_flags a))"

definition newline :: string where "newline = [CHR 0x0A]"

definition spaces :: "nat \<Rightarrow> string" where "spaces n = replicate n (CHR '' '')"

definition missing_limits_text :: "string \<Rightarrow> string" where
  "missing_limits_text nm =
     ''pod '' @ dquote @ nm @ dquote @
     '' is missing resources.limits; the scheduler will never place it without one.'' @ newline @ spaces 2 @
     ''Flags:    add --cpu-limit <milli-cpu> --memory-limit <MB>, e.g. --cpu-limit 250 --memory-limit 128'' @ newline @ spaces 2 @
     ''Manifest: add a resources.limits block, e.g.'' @ newline @ spaces 14 @
     ''resources:'' @ newline @ spaces 16 @ ''limits:'' @ newline @ spaces 18 @ ''cpu: 250'' @ newline @ spaces 18 @
     ''memory: 128''"

definition require_limits :: "pod_with_spec \<Rightarrow> cli_error + unit" where
  "require_limits pws =
     (if Option.bind (pw_pod pws) p_limits \<noteq> None then Inr ()
      else Inl (CliInvalidUsage (missing_limits_text (case pw_pod pws of Some p \<Rightarrow> p_name p | None \<Rightarrow> []))))"

definition create_pod_cmd :: "'w barectl_env \<Rightarrow> string \<Rightarrow> resolved_tls \<Rightarrow> create_pod_args \<Rightarrow> ('w, unit) cmd" where
  "create_pod_cmd env server tls args =
     sbind (build_pod env args) (\<lambda>pws.
     sbind (slift (require_limits pws)) (\<lambda>_.
     (let nm = (case pw_pod pws of Some p \<Rightarrow> p_name p | None \<Rightarrow> []);
          ns = (case pw_spec pws of Some sp \<Rightarrow> ps_namespace sp | None \<Rightarrow> [])
      in sbind (connect env server tls) (\<lambda>_.
         sbind (call_api (be_create_pod env (Some pws))) (\<lambda>_.
         println (''pod/'' @ nm @ '' created in namespace '' @ dquote @ ns @ dquote))))))"

section \<open>What a pod shows\<close>

definition pod_name_of :: "pod_detail \<Rightarrow> string" where
  "pod_name_of d = (case Option.bind (pd_core d) pw_pod of Some p \<Rightarrow> p_name p | None \<Rightarrow> [])"

definition pod_namespace_of :: "pod_detail \<Rightarrow> string" where
  "pod_namespace_of d = (case Option.bind (pd_core d) pw_spec of Some sp \<Rightarrow> ps_namespace sp | None \<Rightarrow> [])"

definition shown_status :: "pod_detail \<Rightarrow> pod_status" where
  "shown_status d = (case Option.bind (pd_core d) pw_pod of
     Some p \<Rightarrow> (case pod_status_of_i32 (p_status p) of Some st \<Rightarrow> st | None \<Rightarrow> PodUnknown) | None \<Rightarrow> PodUnknown)"

definition containers_of :: "pod_detail \<Rightarrow> container list" where
  "containers_of d = (case Option.bind (pd_core d) pw_spec of Some sp \<Rightarrow> ps_containers sp | None \<Rightarrow> [])"

definition requests_of :: "pod_detail \<Rightarrow> resources option" where
  "requests_of d = Option.bind (Option.bind (pd_core d) pw_pod) p_requests"

definition limits_of :: "pod_detail \<Rightarrow> resources option" where
  "limits_of d = Option.bind (Option.bind (pd_core d) pw_pod) p_limits"

definition none_text :: string where "none_text = ''<none>''"

definition or_none :: "string \<Rightarrow> string" where
  "or_none v = (if v = [] then none_text else v)"

definition pod_ip_text :: "pod_detail \<Rightarrow> string" where
  "pod_ip_text d = (case pd_pod_ip d of Some ip \<Rightarrow> or_none ip | None \<Rightarrow> none_text)"

definition protocol_str :: "int \<Rightarrow> string" where
  "protocol_str i = (case protocol_of_i32 i of Some Tcp \<Rightarrow> ''tcp'' | Some Udp \<Rightarrow> ''udp'' | None \<Rightarrow> ''unknown'')"

definition port_text :: "port \<Rightarrow> string" where
  "port_text p = show_nat (port_external p) @ ''->'' @ show_nat (port_internal p) @ ''/'' @ protocol_str (port_protocol p)"

definition pod_ports_text :: "pod_detail \<Rightarrow> string" where
  "pod_ports_text d = or_none (join '','' (map port_text (concat (map ct_ports (containers_of d)))))"

definition fmt_resource_quantity :: "int option \<Rightarrow> string \<Rightarrow> string" where
  "fmt_resource_quantity v unit = (case v of Some n \<Rightarrow> show_int n @ unit | None \<Rightarrow> ''-'')"

fun pod_status_debug :: "pod_status \<Rightarrow> string" where
  "pod_status_debug PodPending = ''Pending''"
| "pod_status_debug PodRunning = ''Running''"
| "pod_status_debug PodSucceeded = ''Succeeded''"
| "pod_status_debug PodFailed = ''Failed''"
| "pod_status_debug PodUnknown = ''Unknown''"
| "pod_status_debug PodNoNodeAvailable = ''NoNodeAvailable''"

fun node_status_debug :: "node_status \<Rightarrow> string" where
  "node_status_debug NodeReady = ''Ready''"
| "node_status_debug NodeCordon = ''Cordon''"
| "node_status_debug NodeDrain = ''Drain''"
| "node_status_debug NodeNotReady = ''NotReady''"

definition matches_filters :: "pod_detail \<Rightarrow> get_pod_args \<Rightarrow> bool" where
  "matches_filters d a \<longleftrightarrow>
     (case ga_name a of Some nm \<Rightarrow> pod_name_of d = nm | None \<Rightarrow> True) \<and>
     (case ga_namespace a of Some ns \<Rightarrow> pod_namespace_of d = ns | None \<Rightarrow> True) \<and>
     (case ga_image a of Some img \<Rightarrow> list_ex (\<lambda>c. contains_str img (ct_image c)) (containers_of d) | None \<Rightarrow> True)"

section \<open>Tables\<close>

fun widen :: "nat list \<Rightarrow> string list \<Rightarrow> nat list" where
  "widen (w # ws) (c # cs) = max w (char_count c) # widen ws cs"
| "widen ws cs = ws"

definition column_widths :: "string list \<Rightarrow> string list list \<Rightarrow> nat list" where
  "column_widths headers rows = foldl widen (map char_count headers) rows"

definition pad_right :: "nat \<Rightarrow> string \<Rightarrow> string" where
  "pad_right w cell = cell @ replicate (w - char_count cell) (CHR '' '')"

definition format_row :: "nat list \<Rightarrow> string list \<Rightarrow> string" where
  "format_row widths cells =
     join ''  '' (map (\<lambda>i. if i = length cells - 1 then cells ! i else pad_right (widths ! i) (cells ! i))
       [0..<length cells])"

definition format_table :: "string list \<Rightarrow> string list list \<Rightarrow> string list" where
  "format_table headers rows =
     (let widths = column_widths headers rows in format_row widths headers # map (format_row widths) rows)"

section \<open>Getting and deleting\<close>

definition pod_headers :: "string list" where
  "pod_headers = [''NAME'', ''NAMESPACE'', ''STATUS'', ''NODE'', ''POD-IP'', ''CPU-REQ'', ''CPU-LIM'', ''MEM-REQ'',
     ''MEM-LIM'', ''PORTS'', ''IMAGE'']"

definition pod_row :: "pod_detail \<Rightarrow> string list" where
  "pod_row d =
     [pod_name_of d, pod_namespace_of d, pod_status_debug (shown_status d), or_none (pd_node_name d), pod_ip_text d,
      fmt_resource_quantity (map_option res_cpu (requests_of d)) ''m'',
      fmt_resource_quantity (map_option res_cpu (limits_of d)) ''m'',
      fmt_resource_quantity (map_option res_memory (requests_of d)) ''MB'',
      fmt_resource_quantity (map_option res_memory (limits_of d)) ''MB'',
      pod_ports_text d, join '','' (map ct_image (containers_of d))]"

definition resources_line :: "string \<Rightarrow> string \<Rightarrow> resources option \<Rightarrow> string list" where
  "resources_line label unit r = (case r of None \<Rightarrow> []
   | Some r \<Rightarrow> [label @ ''cpu='' @ show_int (res_cpu r) @ ''m, memory='' @ show_int (res_memory r) @ unit])"

definition container_lines :: "container \<Rightarrow> string list" where
  "container_lines c =
     [''  - '' @ ct_name c @ '' ('' @ ct_image c @ '')''] @
     (if ct_ports c = [] then [] else [''      Ports: '' @ join '', '' (map port_text (ct_ports c))]) @
     (if ct_env c = [] then [] else [''      Env:   '' @ join '', '' (map (\<lambda>e. ev_name e @ ''='' @ ev_value e) (ct_env c))])"

definition pod_lines :: "pod_detail \<Rightarrow> string list" where
  "pod_lines d =
     [''Name:        '' @ pod_name_of d, ''Namespace:   '' @ pod_namespace_of d,
      ''Status:      '' @ pod_status_debug (shown_status d), ''Node:        '' @ or_none (pd_node_name d),
      ''Pod IP:      '' @ pod_ip_text d] @
     (if requests_of d \<noteq> None \<or> limits_of d \<noteq> None
      then [[]] @ resources_line ''Requests:    '' ''MB'' (requests_of d) @ resources_line ''Limits:      '' ''MB'' (limits_of d)
      else []) @
     [[], ''Containers:''] @ concat (map container_lines (containers_of d))"

definition get_pod_cmd :: "'w barectl_env \<Rightarrow> string \<Rightarrow> resolved_tls \<Rightarrow> get_pod_args \<Rightarrow> ('w, unit) cmd" where
  "get_pod_cmd env server tls args =
     sbind (connect env server tls) (\<lambda>_.
     sbind (call_api (be_list_pods env)) (\<lambda>listed.
     (let pods = filter (\<lambda>d. matches_filters d args) listed
      in if pods = [] then println ''0 pods returned.''
         else if length pods = 1 \<and> ga_name args \<noteq> None then print_lines (pod_lines (pods ! 0))
         else print_lines (format_table pod_headers
                (map pod_row (sort_key (\<lambda>d. (pod_namespace_of d, pod_name_of d)) pods))))))"

definition delete_pod_cmd :: "'w barectl_env \<Rightarrow> string \<Rightarrow> resolved_tls \<Rightarrow> string \<Rightarrow> string \<Rightarrow> ('w, unit) cmd" where
  "delete_pod_cmd env server tls nm ns =
     sbind (connect env server tls) (\<lambda>_.
     sbind (call_api (be_delete_pod env nm ns)) (\<lambda>_.
     println (''pod/'' @ nm @ '' deleted in namespace '' @ dquote @ ns @ dquote)))"

definition shown_node_status :: "node \<Rightarrow> node_status" where
  "shown_node_status n = (case node_status_of_i32 (nd_status n) of Some st \<Rightarrow> st | None \<Rightarrow> NodeNotReady)"

definition node_lines :: "node \<Rightarrow> string list" where
  "node_lines n =
     [''Name:        '' @ nd_name n, ''Status:      '' @ node_status_debug (shown_node_status n),
      ''Node IP:     '' @ or_none (nd_ip n)] @
     resources_line ''Capacity:    '' ''Mi'' (nd_capacity n) @ resources_line ''Allocatable: '' ''Mi'' (nd_allocatable n)"

definition node_headers :: "string list" where
  "node_headers = [''NAME'', ''STATUS'', ''NODE-IP'', ''CPU-CAP'', ''CPU-ALLOC'', ''MEM-CAP'', ''MEM-ALLOC'']"

definition node_row :: "node \<Rightarrow> string list" where
  "node_row n =
     [nd_name n, node_status_debug (shown_node_status n), or_none (nd_ip n),
      fmt_resource_quantity (map_option res_cpu (nd_capacity n)) ''m'',
      fmt_resource_quantity (map_option res_cpu (nd_allocatable n)) ''m'',
      fmt_resource_quantity (map_option res_memory (nd_capacity n)) ''Mi'',
      fmt_resource_quantity (map_option res_memory (nd_allocatable n)) ''Mi'']"

definition get_one_node :: "'w barectl_env \<Rightarrow> string \<Rightarrow> ('w, unit) cmd" where
  "get_one_node env nm =
     sbind (call_api (be_get_node env nm)) (\<lambda>found.
     case found of Some n \<Rightarrow> print_lines (node_lines n) | None \<Rightarrow> sfail CliEmptyResponse)"

definition list_nodes_cmd :: "'w barectl_env \<Rightarrow> ('w, unit) cmd" where
  "list_nodes_cmd env =
     sbind (call_api (be_list_nodes env)) (\<lambda>nodes.
     if nodes = [] then println ''No nodes found.''
     else print_lines (format_table node_headers (map node_row (sort_key nd_name nodes))))"

definition get_node_cmd :: "'w barectl_env \<Rightarrow> string \<Rightarrow> resolved_tls \<Rightarrow> string option \<Rightarrow> ('w, unit) cmd" where
  "get_node_cmd env server tls nm =
     sbind (connect env server tls) (\<lambda>_. case nm of None \<Rightarrow> list_nodes_cmd env | Some n \<Rightarrow> get_one_node env n)"

section \<open>The configuration commands\<close>

definition encode_pem :: "cfg_env \<Rightarrow> path \<Rightarrow> ('w, string) cmd" where
  "encode_pem env p = smap_err CliConfig (cli_disk (read_and_encode env p))"

definition config_set_tls :: "cfg_env \<Rightarrow> config_set_args \<Rightarrow> ('w, (string \<times> string \<times> string) option) cmd" where
  "config_set_tls env args =
     (case (cs_tls_cert args, cs_tls_key args, cs_tls_ca args) of
        (Some cert, Some key, Some ca) \<Rightarrow>
          if cs_tls_server_name args = None
          then sfail (CliInvalidUsage ''--tls-server-name is required when --tls-cert/--tls-key/--tls-ca are set'')
          else sbind (encode_pem env ca) (\<lambda>ca. sbind (encode_pem env cert) (\<lambda>cert.
               sbind (encode_pem env key) (\<lambda>key. sret (Some (ca, cert, key)))))
      | (None, None, None) \<Rightarrow> sret None
      | _ \<Rightarrow> sfail (CliInvalidUsage ''--tls-cert, --tls-key and --tls-ca must all be set together or all omitted''))"

definition config_set :: "cfg_env \<Rightarrow> path \<Rightarrow> config_set_args \<Rightarrow> ('w, unit) cmd" where
  "config_set env path args =
     sbind (config_set_tls env args) (\<lambda>tls_data.
     sbind (smap_err CliConfig (cli_disk (save_config env path
       \<lparr>fc_server = cs_server args, fc_tls_server_name = cs_tls_server_name args,
        fc_ca_data = map_option (\<lambda>(ca, _, _). ca) tls_data,
        fc_cert_data = map_option (\<lambda>(_, cert, _). cert) tls_data,
        fc_key_data = map_option (\<lambda>(_, _, key). key) tls_data\<rparr>))) (\<lambda>_.
     println (''wrote '' @ show_path path)))"

definition format_view :: "path \<Rightarrow> file_config option \<Rightarrow> string list" where
  "format_view path cfg = (case cfg of
     None \<Rightarrow> [''No config file at '' @ show_path path @ ''.'']
   | Some c \<Rightarrow>
       [''Config file:      '' @ show_path path, ''Server:           '' @ fc_server c,
        ''TLS server name:  '' @ (case fc_tls_server_name c of Some n \<Rightarrow> n | None \<Rightarrow> none_text),
        ''TLS:              '' @ (if fc_cert_data c \<noteq> None then ''configured'' else ''not configured (plaintext)'')])"

definition config_view :: "cfg_env \<Rightarrow> path \<Rightarrow> ('w, unit) cmd" where
  "config_view env path =
     sbind (smap_err CliConfig (cli_disk (load_config env path))) (\<lambda>cfg. print_lines (format_view path cfg))"

section \<open>\<open>main\<close>\<close>

record cli_args =
  cli_server :: "string option"
  cli_tls :: tls_args
  cli_config :: "path option"
  cli_command :: barectl_command

definition completion_cmd :: "'w barectl_env \<Rightarrow> string \<Rightarrow> ('w, unit) cmd" where
  "completion_cmd env shell =
     (case be_stdout env (be_completion env shell) of
        None \<Rightarrow> println (be_completion env shell)
      | Some e \<Rightarrow> if io_kind e = KBrokenPipe then sret () else sfail (CliWriteOutput e))"

fun run_remote :: "'w barectl_env \<Rightarrow> string \<Rightarrow> resolved_tls \<Rightarrow> barectl_command \<Rightarrow> ('w, unit) cmd" where
  "run_remote env server tls (BcCreatePod args) = create_pod_cmd env server tls args"
| "run_remote env server tls (BcGetPod args) = get_pod_cmd env server tls args"
| "run_remote env server tls (BcGetNode nm) = get_node_cmd env server tls nm"
| "run_remote env server tls (BcDeletePod nm ns) = delete_pod_cmd env server tls nm ns"
| "run_remote env server tls (BcCompletion shell) = completion_cmd env shell"
| "run_remote env server tls (BcConfigSet _) = sret ()"
| "run_remote env server tls BcConfigView = sret ()"

definition require_path :: "path option \<Rightarrow> cli_error + path" where
  "require_path p = ok_or p (CliInvalidUsage ''no config path: set --barectl-config, $BARECTL_CONFIG or $HOME'')"

definition run_cli :: "'w barectl_env \<Rightarrow> path option \<Rightarrow> cli_args \<Rightarrow> ('w, unit) cmd" where
  "run_cli env config_path cli =
     (case cli_command cli of
        BcConfigSet args \<Rightarrow> sbind (slift (require_path config_path)) (\<lambda>p. config_set (be_cfg env) p args)
      | BcConfigView \<Rightarrow> sbind (slift (require_path config_path)) (\<lambda>p. config_view (be_cfg env) p)
      | command \<Rightarrow>
          sbind (case config_path of None \<Rightarrow> sret None
                 | Some p \<Rightarrow> smap_err CliConfig (cli_disk (load_config (be_cfg env) p))) (\<lambda>cfg.
          (let server = resolve_server (cli_server cli) cfg
           in sbind (slift (resolve_tls (be_cfg env) (cli_tls cli) cfg)) (\<lambda>tls. run_remote env server tls command))))"

definition barectl_main :: "'w barectl_env \<Rightarrow> string option \<Rightarrow> cli_args \<Rightarrow> ('w, unit) cmd" where
  "barectl_main env home cli =
     run_cli env (case cli_config cli of Some p \<Rightarrow> Some p | None \<Rightarrow> default_path home) cli"

end
