(* ===== verification/Pki.thy ===== *)
theory Pki imports Barectl_Config Ip_Addressing begin

text \<open>
  \<open>pki/src/main.rs\<close>: \<open>barenetes-pki\<close>, which makes the cluster's certificate authority, issues
  the leaf certificates that \<open>Tls_Identity\<close> reads, and packages one for \<open>barectl\<close>. Key
  generation, signing and PEM (rcgen) are the parameter \<open>pki_env\<close>, with a generator state
  \<open>'r\<close> of its own; the files are those of \<open>Disk\<close>.
\<close>

section \<open>Arguments\<close>

datatype pki_role = PkiApi | PkiScheduler | PkiCli | PkiNode

fun pki_role_str :: "pki_role \<Rightarrow> string" where
  "pki_role_str PkiApi = ''api''"
| "pki_role_str PkiScheduler = ''scheduler''"
| "pki_role_str PkiCli = ''cli''"
| "pki_role_str PkiNode = ''node''"

record init_ca_args =
  ia_out_dir :: path
  ia_common_name :: string
  ia_days :: int

record issue_args =
  is_ca_dir :: path
  is_cn :: string
  is_role :: pki_role
  is_out_dir :: path
  is_sans :: "string list"
  is_days :: int

record barectl_config_args =
  ba_ca_dir :: path
  ba_cert :: path
  ba_key :: path
  ba_server :: string
  ba_tls_server_name :: string
  ba_out :: "path option"

datatype pki_command =
  CmdInitCa init_ca_args | CmdIssue issue_args | CmdBarectlConfig barectl_config_args

section \<open>\<open>IpAddr\<close> as text\<close>

definition is_hex :: "char \<Rightarrow> bool" where
  "is_hex c \<longleftrightarrow> is_digit_char c \<or> c \<in> set ''abcdefABCDEF''"

definition take_group :: "string \<Rightarrow> string option" where
  "take_group s =
     (let n = length (takeWhile is_hex s) in if 1 \<le> n \<and> n \<le> 4 then Some (drop n s) else None)"

definition take_octet :: "string \<Rightarrow> string option" where
  "take_octet s =
     (if parse_octet (takeWhile is_digit_char s) = None then None else Some (dropWhile is_digit_char s))"

definition take_sep :: "char \<Rightarrow> bool \<Rightarrow> string \<Rightarrow> string option" where
  "take_sep sep at_start s =
     (if at_start then Some s
      else case s of [] \<Rightarrow> None | c # cs \<Rightarrow> if c = sep then Some cs else None)"

fun take_octets :: "nat \<Rightarrow> bool \<Rightarrow> string \<Rightarrow> string option" where
  "take_octets 0 at_start s = Some s"
| "take_octets (Suc n) at_start s =
     Option.bind (Option.bind (take_sep (CHR ''.'') at_start s) take_octet) (take_octets n False)"

text \<open>\<open>read_groups\<close> with a limit: the groups read, whether they end in a dotted address, the rest.\<close>

fun read_groups :: "nat \<Rightarrow> bool \<Rightarrow> string \<Rightarrow> nat \<times> bool \<times> string" where
  "read_groups 0 at_start s = (0, False, s)"
| "read_groups (Suc n) at_start s =
     (case (if 0 < n then Option.bind (take_sep (CHR '':'') at_start s) (take_octets 4 True) else None) of
        Some r \<Rightarrow> (2, True, r)
      | None \<Rightarrow>
          (case Option.bind (take_sep (CHR '':'') at_start s) take_group of
             Some r \<Rightarrow> (case read_groups n False r of (k, v4, r') \<Rightarrow> (Suc k, v4, r'))
           | None \<Rightarrow> (0, False, s)))"

definition is_ipv6 :: "string \<Rightarrow> bool" where
  "is_ipv6 s =
     (case read_groups 8 True s of (k, v4, r) \<Rightarrow>
        if k = 8 then r = []
        else if v4 then False
        else case r of a # b # r2 \<Rightarrow>
               a = CHR '':'' \<and> b = CHR '':'' \<and> (case read_groups (8 - (k + 1)) True r2 of (_, _, r3) \<Rightarrow> r3 = [])
             | _ \<Rightarrow> False)"

definition is_ip_addr :: "string \<Rightarrow> bool" where
  "is_ip_addr s \<longleftrightarrow> parse_ipv4 s \<noteq> None \<or> is_ipv6 s"

definition parse_san :: "string \<Rightarrow> string + string" where
  "parse_san raw =
     (case split_once (CHR '':'') raw of
        None \<Rightarrow> Inl (''invalid --san '' @ dquote @ raw @ dquote @ '', expected DNS:<name> or IP:<addr>'')
      | Some (kind, v) \<Rightarrow>
          if kind = ''DNS'' then Inr v
          else if kind = ''IP''
          then (if is_ip_addr v then Inr v else Inl (''invalid --san IP address '' @ dquote @ v @ dquote))
          else Inl (''invalid --san kind '' @ dquote @ kind @ dquote @ '', expected DNS or IP''))"

section \<open>The certificate library\<close>

datatype dn_type = CommonName | OrganizationalUnitName

datatype is_ca = CaUnconstrained | ExplicitNoCa

datatype key_usage = KeyCertSign | CrlSign | DigitalSignature | KeyEncipherment

datatype ext_key_usage = ServerAuth | ClientAuth

record 'n cert_params =
  cp_sans :: "'n list"
  cp_not_before :: int
  cp_not_after :: int
  cp_is_ca :: is_ca
  cp_key_usages :: "key_usage list"
  cp_ext_key_usages :: "ext_key_usage list"
  cp_dn :: "(dn_type \<times> string) list"

record ('r, 'n, 'k, 'i) pki_env =
  pk_cfg :: cfg_env
  pk_now :: int
  pk_sans :: "string list \<Rightarrow> string + 'n list"
  pk_generate :: "'r \<Rightarrow> (string + 'k) \<times> 'r"
  pk_key_pem :: "'k \<Rightarrow> string"
  pk_key_of_pem :: "string \<Rightarrow> string + 'k"
  pk_issuer :: "string \<Rightarrow> 'k \<Rightarrow> string + 'i"
  pk_self_signed :: "'n cert_params \<Rightarrow> 'k \<Rightarrow> string + string"
  pk_signed_by :: "'n cert_params \<Rightarrow> 'k \<Rightarrow> 'i \<Rightarrow> string + string"

record 'r pki =
  ps_disk :: disk
  ps_rng :: 'r
  ps_out :: "string list"

text \<open>\<open>anyhow::Error\<close> as its context and its cause; \<open>PkiPanic\<close> is an overflow of the time arithmetic.\<close>

datatype pki_error = PkiError (pe_context: string) (pe_cause: string) | PkiBail string | PkiPanic string

type_synonym ('r, 'a) pki_op = "('r pki, pki_error, 'a) op"

definition on_disk :: "(disk, 'e, 'a) op \<Rightarrow> ('r pki, 'e, 'a) op" where
  "on_disk f s = (let (r, d) = f (ps_disk s) in (r, s\<lparr>ps_disk := d\<rparr>))"

definition on_rng :: "('r \<Rightarrow> (string + 'a) \<times> 'r) \<Rightarrow> ('r pki, string, 'a) op" where
  "on_rng f s = (let (r, g) = f (ps_rng s) in (r, s\<lparr>ps_rng := g\<rparr>))"

definition with_context :: "string \<Rightarrow> ('e \<Rightarrow> string) \<Rightarrow> ('r pki, 'e, 'a) op \<Rightarrow> ('r, 'a) pki_op" where
  "with_context c describe f = smap_err (\<lambda>e. PkiError c (describe e)) f"

definition from_lib :: "string \<Rightarrow> string + 'a \<Rightarrow> ('r, 'a) pki_op" where
  "from_lib c r = slift (case r of Inl e \<Rightarrow> Inl (PkiError c e) | Inr x \<Rightarrow> Inr x)"

definition print_line :: "string \<Rightarrow> ('r, unit) pki_op" where
  "print_line l s = (Inr (), s\<lparr>ps_out := ps_out s @ [l]\<rparr>)"

section \<open>Writing PEM files\<close>

definition write_pem :: "path \<Rightarrow> string \<Rightarrow> mode \<Rightarrow> ('r, unit) pki_op" where
  "write_pem path contents m s =
     (let tmp = tmp_sibling ''pem'' path (dk_pid (ps_disk s))
      in sbind (with_context (''creating '' @ show_path tmp) io_text (on_disk (open_write True m tmp))) (\<lambda>_.
         sbind (with_context (''writing '' @ show_path tmp) io_text (on_disk (write_all tmp contents))) (\<lambda>_.
         sbind (with_context (''syncing '' @ show_path tmp) io_text (on_disk sync_all)) (\<lambda>_.
         with_context (''renaming '' @ show_path tmp @ '' to '' @ show_path path) io_text
           (on_disk (rename_to tmp path))))) s)"

text \<open>\<open>OffsetDateTime\<close> in seconds: \<open>Duration::days\<close> panics outside \<open>i64\<close>, the addition after
  the year 9999 or before -9999.\<close>

definition validity :: "int \<Rightarrow> int \<Rightarrow> pki_error + int \<times> int" where
  "validity now days =
     (if days * 86400 < - 9223372036854775808 \<or> 9223372036854775807 < days * 86400
      then Inl (PkiPanic ''overflow constructing `time::Duration`'')
      else if now + days * 86400 < - 377705116800 \<or> 253402300799 < now + days * 86400
      then Inl (PkiPanic ''resulting value is out of range'')
      else Inr (now, now + days * 86400))"

section \<open>\<open>init-ca\<close>\<close>

definition ca_params :: "init_ca_args \<Rightarrow> 'n list \<Rightarrow> int \<times> int \<Rightarrow> 'n cert_params" where
  "ca_params args sans v = \<lparr>cp_sans = sans, cp_not_before = fst v, cp_not_after = snd v,
     cp_is_ca = CaUnconstrained, cp_key_usages = [KeyCertSign, CrlSign], cp_ext_key_usages = [],
     cp_dn = [(CommonName, ia_common_name args)]\<rparr>"

definition init_ca :: "('r, 'n, 'k, 'i) pki_env \<Rightarrow> init_ca_args \<Rightarrow> ('r, unit) pki_op" where
  "init_ca env args =
     (let ca_path = path_join (ia_out_dir args) ''ca.pem'';
          ca_key_path = path_join (ia_out_dir args) ''ca-key.pem''
      in sbind (on_disk (\<lambda>d. case path_exists ca_path d of (b, d1) \<Rightarrow> (Inr b, d1))) (\<lambda>present.
         if present
         then sfail (PkiBail (show_path ca_path @
                '' already exists; refusing to overwrite (this tool has no --force / rotation support yet)''))
         else
           sbind (with_context (''creating '' @ show_path (ia_out_dir args)) io_text
                    (on_disk (create_dir_all (ia_out_dir args)))) (\<lambda>_.
           sbind (with_context ''generating CA key pair'' (\<lambda>e. e) (on_rng (pk_generate env))) (\<lambda>key.
           sbind (from_lib ''building CA params'' (pk_sans env [])) (\<lambda>sans.
           sbind (slift (validity (pk_now env) (ia_days args))) (\<lambda>v.
           sbind (from_lib ''self-signing CA cert'' (pk_self_signed env (ca_params args sans v) key)) (\<lambda>cert.
           sbind (write_pem ca_path cert 0x1A4) (\<lambda>_.
           sbind (write_pem ca_key_path (pk_key_pem env key) 0x180) (\<lambda>_.
           sbind (print_line (''wrote '' @ show_path ca_path)) (\<lambda>_.
           print_line (''wrote '' @ show_path ca_key_path)))))))))))"

section \<open>\<open>issue\<close>\<close>

definition leaf_params :: "issue_args \<Rightarrow> 'n list \<Rightarrow> int \<times> int \<Rightarrow> 'n cert_params" where
  "leaf_params args sans v = \<lparr>cp_sans = sans, cp_not_before = fst v, cp_not_after = snd v,
     cp_is_ca = ExplicitNoCa, cp_key_usages = [DigitalSignature, KeyEncipherment],
     cp_ext_key_usages = [ServerAuth, ClientAuth],
     cp_dn = [(CommonName, is_cn args), (OrganizationalUnitName, pki_role_str (is_role args))]\<rparr>"

definition cert_path :: "issue_args \<Rightarrow> path" where
  "cert_path args = path_join (is_out_dir args) (is_cn args @ ''.pem'')"

definition key_path :: "issue_args \<Rightarrow> path" where
  "key_path args = path_join (is_out_dir args) (is_cn args @ ''-key.pem'')"

definition write_issued :: "issue_args \<Rightarrow> string \<Rightarrow> string \<Rightarrow> ('r, unit) pki_op" where
  "write_issued args cert key_pem =
     sbind (with_context (''creating '' @ show_path (is_out_dir args)) io_text
              (on_disk (create_dir_all (is_out_dir args)))) (\<lambda>_.
     sbind (write_pem (cert_path args) cert 0x1A4) (\<lambda>_.
     sbind (write_pem (key_path args) key_pem 0x180) (\<lambda>_.
     sbind (print_line (''wrote '' @ show_path (cert_path args))) (\<lambda>_.
     print_line (''wrote '' @ show_path (key_path args))))))"

definition issue :: "('r, 'n, 'k, 'i) pki_env \<Rightarrow> issue_args \<Rightarrow> ('r, unit) pki_op" where
  "issue env args =
     (let ca = path_join (is_ca_dir args) ''ca.pem''; ca_key = path_join (is_ca_dir args) ''ca-key.pem''
      in sbind (with_context (''reading '' @ show_path ca) io_text (on_disk (read_text ca))) (\<lambda>ca_pem.
         sbind (with_context (''reading '' @ show_path ca_key) io_text (on_disk (read_text ca_key))) (\<lambda>ca_key_pem.
         sbind (from_lib ''parsing CA private key'' (pk_key_of_pem env ca_key_pem)) (\<lambda>ca_key.
         sbind (from_lib ''parsing CA certificate'' (pk_issuer env ca_pem ca_key)) (\<lambda>issuer.
         sbind (from_lib ''building leaf cert params'' (pk_sans env (is_cn args # is_sans args))) (\<lambda>sans.
         sbind (slift (validity (pk_now env) (is_days args))) (\<lambda>v.
         sbind (with_context ''generating leaf key pair'' (\<lambda>e. e) (on_rng (pk_generate env))) (\<lambda>leaf_key.
         sbind (from_lib ''signing leaf cert'' (pk_signed_by env (leaf_params args sans v) leaf_key issuer)) (\<lambda>cert.
         write_issued args cert (pk_key_pem env leaf_key))))))))))"

section \<open>\<open>barectl-config\<close> and \<open>main\<close>\<close>

fun cfg_error_text :: "cfg_error \<Rightarrow> string" where
  "cfg_error_text (CfgRead p e) = ''could not read '' @ show_path p @ '': '' @ io_text e"
| "cfg_error_text (CfgParse p e) = ''could not parse '' @ show_path p @ '': '' @ e"
| "cfg_error_text (CfgWrite p e) = ''could not write '' @ show_path p @ '': '' @ io_text e"
| "cfg_error_text (CfgSerialize e) = ''could not serialize config: '' @ e"

definition packaged_config :: "barectl_config_args \<Rightarrow> string \<Rightarrow> string \<Rightarrow> string \<Rightarrow> file_config" where
  "packaged_config args ca cert key = \<lparr>fc_server = ba_server args, fc_tls_server_name = Some (ba_tls_server_name args),
     fc_ca_data = Some ca, fc_cert_data = Some cert, fc_key_data = Some key\<rparr>"

definition barectl_config :: "('r, 'n, 'k, 'i) pki_env \<Rightarrow> barectl_config_args \<Rightarrow> ('r, unit) pki_op" where
  "barectl_config env args =
     (let read = (\<lambda>c p. with_context c cfg_error_text (on_disk (read_and_encode (pk_cfg env) p)))
      in sbind (read ''reading CA certificate'' (path_join (ba_ca_dir args) ''ca.pem'')) (\<lambda>ca.
         sbind (read ''reading client certificate'' (ba_cert args)) (\<lambda>cert.
         sbind (read ''reading client key'' (ba_key args)) (\<lambda>key.
         (let config = packaged_config args ca cert key
          in case ba_out args of
               Some path \<Rightarrow>
                 sbind (with_context ''writing barectl config'' cfg_error_text
                          (on_disk (save_config (pk_cfg env) path config))) (\<lambda>_.
                 print_line (''wrote '' @ show_path path))
             | None \<Rightarrow>
                 sbind (with_context ''serializing barectl config'' cfg_error_text
                          (slift (to_yaml (pk_cfg env) config))) (\<lambda>yaml. print_line yaml))))))"

fun pki_main :: "('r, 'n, 'k, 'i) pki_env \<Rightarrow> pki_command \<Rightarrow> ('r, unit) pki_op" where
  "pki_main env (CmdInitCa args) = init_ca env args"
| "pki_main env (CmdIssue args) = issue env args"
| "pki_main env (CmdBarectlConfig args) = barectl_config env args"

end
