(* ===== verification/Disk_Effects.thy ===== *)
theory Disk_Effects imports Barectl_Config begin

text \<open>
  What the calls of \<open>Disk\<close> and the two writers built on them do to the tree: which entries may
  appear, whatever fails, and what is there after a run that succeeds.
\<close>

section \<open>Entries that may appear\<close>

definition same_env :: "disk \<Rightarrow> disk \<Rightarrow> bool" where
  "same_env d d' \<longleftrightarrow> dk_cwd d' = dk_cwd d \<and> dk_umask d' = dk_umask d \<and> dk_pid d' = dk_pid d \<and> dk_fault d' = dk_fault d"

lemma same_env_refl [simp]: "same_env d d"
  by (simp add: same_env_def)

lemma same_env_trans: "same_env a b \<Longrightarrow> same_env b c \<Longrightarrow> same_env a c"
  by (simp add: same_env_def)

lemma same_env_locate: "same_env d d' \<Longrightarrow> locate d' p = locate d p"
  by (simp add: same_env_def locate_def)

lemma set_node_simps [simp]:
  "dk_tree (set_node q n d) = (dk_tree d)(q := n)" "same_env e (set_node q n d) = same_env e d"
  "dk_clock (set_node q n d) = dk_clock d" "dk_fault (set_node q n d) = dk_fault d"
  by (simp_all add: set_node_def same_env_def)

lemma disk_tick_simps [simp]:
  "same_env e (d\<lparr>dk_clock := k\<rparr>) = same_env e d" "locate (d\<lparr>dk_clock := k\<rparr>) p = locate d p"
  "missing_at (d\<lparr>dk_clock := k\<rparr>) q = missing_at d q"
  by (simp_all add: same_env_def locate_def missing_at_def)

text \<open>Every entry of \<open>d'\<close> was in \<open>d\<close> or is allowed.\<close>

definition changes :: "(inode \<Rightarrow> bool) \<Rightarrow> disk \<Rightarrow> disk \<Rightarrow> bool" where
  "changes P d d' \<longleftrightarrow> same_env d d' \<and> (\<forall>q n. dk_tree d' q = Some n \<longrightarrow> dk_tree d q = Some n \<or> P n)"

interpretation ch: step_rel "\<lambda>_::disk. True" "changes P" for P
  by unfold_locales (auto simp: changes_def intro: same_env_trans)

abbreviation writes :: "(inode \<Rightarrow> bool) \<Rightarrow> (disk, 'e, 'a) op \<Rightarrow> bool" where
  "writes P f \<equiv> op_keeps (\<lambda>_. True) (changes P) f"

lemma writesI: "(\<And>d r d'. f d = (r, d') \<Longrightarrow> changes P d d') \<Longrightarrow> writes P f"
  by (simp add: op_keeps_def)

lemma writesD: "writes P f \<Longrightarrow> f d = (r, d') \<Longrightarrow> changes P d d'"
  by (auto simp: op_keeps_def)

lemma writes_sys:
  assumes "\<And>d r d'. f d = (r, d') \<Longrightarrow> changes P d d'"
  shows "writes P (sys f)"
proof (rule writesI)
  fix d r d' assume run: "sys f d = (r, d')"
  let ?t = "d\<lparr>dk_clock := Suc (dk_clock d)\<rparr>"
  consider "d' = ?t" | "f ?t = (r, d')"
    using run by (auto simp: sys_def Let_def split: option.splits prod.splits)
  then show "changes P d d'"
  proof cases
    case 2
    with assms[OF 2] show ?thesis by (simp add: changes_def same_env_def)
  qed (simp add: changes_def)
qed

lemma writes_reads:
  "writes P (read_bytes p)" "writes P (read_text p)" "writes P sync_all"
proof -
  show one: "writes P (read_bytes p)" for p
    unfolding read_bytes_def by (rule writes_sys) (auto simp: changes_def split: option.splits inode.splits)
  show "writes P (read_text p)"
    unfolding read_text_def by (intro ch.keeps_sbind ch.keeps_cases ch.keeps_pure one)
  show "writes P sync_all"
    unfolding sync_all_def by (rule writes_sys) (simp add: changes_def)
qed

lemma writes_path_exists: "path_exists p d = (b, d') \<Longrightarrow> changes P d d'"
  by (auto simp: path_exists_def sys_def Let_def changes_def split: option.splits)

lemma writes_mkdir: "(\<And>m. P (Dir m)) \<Longrightarrow> writes P (mkdir p)"
  unfolding mkdir_def
  by (rule writes_sys) (auto simp: changes_def add_node_def split: if_splits)

lemma writes_ok_if_dir:
  assumes "writes P m" shows "writes P (ok_if_dir p m)"
proof (rule writesI)
  fix d r d' assume "ok_if_dir p m d = (r, d')"
  then obtain r1 where "m d = (r1, d')"
    by (auto simp: ok_if_dir_def split: prod.splits sum.splits if_splits)
  with assms show "changes P d d'" by (rule writesD)
qed

lemma writes_create_up:
  assumes "\<And>m. P (Dir m)"
  shows "writes P (create_up a cs)"
proof (induction cs)
  case Nil
  have "writes P (if a then ok_if_dir (Path a []) (mkdir (Path a [])) else sret ())"
    by (intro ch.keeps_cases writes_ok_if_dir writes_mkdir ch.keeps_pure assms)
  then show ?case unfolding create_up.simps .
next
  case (Cons c cs)
  show ?case
  proof (rule writesI)
    fix d r d' assume run: "create_up a (c # cs) d = (r, d')"
    let ?p = "Path a (rev (c # cs))"
    obtain r1 d1 where one: "mkdir ?p d = (r1, d1)" by fastforce
    have k1: "changes P d d1" using writes_mkdir[of P ?p] assms one by (blast dest: writesD)
    have rest: "writes P (sbind (create_up a cs) (\<lambda>_. ok_if_dir ?p (mkdir ?p)))"
      by (intro ch.keeps_sbind Cons.IH writes_ok_if_dir writes_mkdir assms)
    consider "d' = d1" | "sbind (create_up a cs) (\<lambda>_. ok_if_dir ?p (mkdir ?p)) d1 = (r, d')"
      using run one by (auto simp: Let_def split: sum.splits if_splits)
    then show "changes P d d'"
      using k1 writesD[OF rest] ch.rel_trans by cases blast+
  qed
qed

lemma writes_create_dir_all: "(\<And>m. P (Dir m)) \<Longrightarrow> writes P (create_dir_all p)"
  unfolding create_dir_all_def by (rule writes_create_up)

section \<open>Files that stay\<close>

text \<open>Every file keeps its bytes and its permissions, every directory stays one.\<close>

definition files_stay :: "disk \<Rightarrow> disk \<Rightarrow> bool" where
  "files_stay d d' \<longleftrightarrow> same_env d d' \<and>
     (\<forall>q m c. dk_tree d q = Some (File m c) \<longrightarrow> dk_tree d' q = Some (File m c)) \<and>
     (\<forall>q m. dk_tree d q = Some (Dir m) \<longrightarrow> (\<exists>m'. dk_tree d' q = Some (Dir m')))"

abbreviation spares_files :: "(disk, 'e, 'a) op \<Rightarrow> bool" where
  "spares_files f \<equiv> op_keeps (\<lambda>_. True) files_stay f"

lemma files_stay_refl [simp]: "files_stay d d"
  by (simp add: files_stay_def)

lemma files_stay_trans: "files_stay a b \<Longrightarrow> files_stay b c \<Longrightarrow> files_stay a c"
  unfolding files_stay_def by (metis same_env_trans)

interpretation fs: step_rel "\<lambda>_. True" files_stay
  by unfold_locales (simp, rule files_stay_trans)

lemma sparesI: "(\<And>d r d'. f d = (r, d') \<Longrightarrow> files_stay d d') \<Longrightarrow> spares_files f"
  by (simp add: op_keeps_def)

lemma spares_sys:
  assumes "\<And>d r d'. f d = (r, d') \<Longrightarrow> files_stay d d'"
  shows "spares_files (sys f)"
proof (rule sparesI)
  fix d r d' assume run: "sys f d = (r, d')"
  let ?t = "d\<lparr>dk_clock := Suc (dk_clock d)\<rparr>"
  consider "d' = ?t" | "f ?t = (r, d')"
    using run by (auto simp: sys_def Let_def split: option.splits prod.splits)
  then show "files_stay d d'"
  proof cases
    case 2
    with assms[OF 2] show ?thesis by (simp add: files_stay_def same_env_def)
  qed (simp add: files_stay_def)
qed

lemma sparesD: "spares_files f \<Longrightarrow> f d = (r, d') \<Longrightarrow> files_stay d d'"
  by (auto simp: op_keeps_def)

lemma spares_mkdir: "spares_files (mkdir p)"
  unfolding mkdir_def
  by (rule spares_sys) (auto simp: files_stay_def add_node_def split: if_splits)

lemma spares_ok_if_dir:
  assumes "spares_files m" shows "spares_files (ok_if_dir p m)"
proof (rule sparesI)
  fix d r d' assume "ok_if_dir p m d = (r, d')"
  then obtain r1 where "m d = (r1, d')"
    by (auto simp: ok_if_dir_def split: prod.splits sum.splits if_splits)
  with assms show "files_stay d d'" by (rule sparesD)
qed

lemma spares_create_up: "spares_files (create_up a cs)"
proof (induction cs)
  case Nil
  have "spares_files (if a then ok_if_dir (Path a []) (mkdir (Path a [])) else sret ())"
    by (intro fs.keeps_cases spares_ok_if_dir spares_mkdir fs.keeps_pure)
  then show ?case unfolding create_up.simps .
next
  case (Cons c cs)
  show ?case
  proof (rule sparesI)
    fix d r d' assume run: "create_up a (c # cs) d = (r, d')"
    let ?p = "Path a (rev (c # cs))"
    obtain r1 d1 where one: "mkdir ?p d = (r1, d1)" by fastforce
    have k1: "files_stay d d1" by (rule sparesD[OF spares_mkdir one])
    have rest: "spares_files (sbind (create_up a cs) (\<lambda>_. ok_if_dir ?p (mkdir ?p)))"
      by (intro fs.keeps_sbind Cons.IH spares_ok_if_dir spares_mkdir)
    consider "d' = d1" | "sbind (create_up a cs) (\<lambda>_. ok_if_dir ?p (mkdir ?p)) d1 = (r, d')"
      using run one by (auto simp: Let_def split: sum.splits if_splits)
    then show "files_stay d d'"
      using k1 sparesD[OF rest] fs.rel_trans by cases blast+
  qed
qed

lemma spares_create_dir_all: "spares_files (create_dir_all p)"
  unfolding create_dir_all_def by (rule spares_create_up)

section \<open>The writers\<close>

lemma open_fresh:
  assumes "open_write True m p d = (r, d1)"
  shows "same_env d d1" and "isl r \<Longrightarrow> dk_tree d1 = dk_tree d"
    and "\<not> isl r \<Longrightarrow> dk_tree d (locate d p) = None \<and>
           dk_tree d1 = (dk_tree d)(locate d p \<mapsto> File (m AND NOT (dk_umask d)) [])"
  using assms
  by (auto simp: open_write_def sys_def Let_def add_node_def split: option.splits inode.splits if_splits)

lemma write_all_effect:
  assumes "write_all p c d = (r, d1)" and "dk_tree d (locate d p) = Some (File m x)"
  shows "same_env d d1" and "\<exists>n. dk_tree d1 = (dk_tree d)(locate d p \<mapsto> File m (take n c))"
    and "\<not> isl r \<Longrightarrow> dk_tree d1 = (dk_tree d)(locate d p \<mapsto> File m c)"
  using assms
  by (auto simp: write_all_def put_bytes_def Let_def split: option.splits) (metis take_all_iff nle_le)

lemma sync_effect: "sync_all d = (r, d1) \<Longrightarrow> same_env d d1 \<and> dk_tree d1 = dk_tree d"
  by (auto simp: sync_all_def sys_def Let_def split: option.splits)

lemma rename_effect:
  assumes "rename_to a b d = (r, d1)" and "dk_tree d (locate d a) = Some n"
  shows "same_env d d1" and "isl r \<Longrightarrow> dk_tree d1 = dk_tree d"
    and "\<not> isl r \<Longrightarrow> dk_tree d1 = ((dk_tree d)(locate d a := None))(locate d b \<mapsto> n)"
  using assms
  by (auto simp: rename_to_def sys_def Let_def fun_upd_twist split: option.splits if_splits)

text \<open>A writer that creates its temporary file: whatever fails, the only new entries are files of
  its mode that hold a part of its contents.\<close>

lemma writes_fresh:
  assumes P: "\<And>u n. P (File (m AND NOT u) (take n c))"
  shows "writes P (write_to_tmp True m tmp path c)"
proof (rule writesI)
  fix d r d' assume run: "write_to_tmp True m tmp path c d = (r, d')"
  let ?T = "locate d tmp" and ?m = "m AND NOT (dk_umask d)"
  obtain r1 d1 where one: "open_write True m tmp d = (r1, d1)" by fastforce
  note e1 = open_fresh[OF one]
  show "changes P d d'"
  proof (cases r1)
    case (Inl e)
    then have "d' = d1" using run one by (simp add: write_to_tmp_def)
    moreover have "dk_tree d1 = dk_tree d" by (rule e1(2)) (simp add: Inl)
    ultimately show ?thesis using e1(1) by (simp add: changes_def)
  next
    case (Inr u)
    obtain r2 d2 where two: "write_all tmp c d1 = (r2, d2)" by fastforce
    have t1: "dk_tree d1 (locate d1 tmp) = Some (File ?m [])" and l1: "locate d1 q = locate d q" for q
      using e1 Inr by (simp_all add: same_env_locate)
    note e2 = write_all_effect[OF two t1]
    obtain n where t2: "dk_tree d2 = (dk_tree d)(?T \<mapsto> File ?m (take n c))"
      using e2(2) e1(3) Inr l1 by auto
    have c2: "changes P d d2"
      using e1(1) e2(1) t2 P by (auto simp: changes_def intro: same_env_trans)
    obtain r3 d3 where three: "sync_all d2 = (r3, d3)" by fastforce
    note e3 = sync_effect[OF three]
    have c3: "changes P d d3" using c2 e3 by (auto simp: changes_def intro: same_env_trans)
    have env: "same_env d d3" using c3 by (simp add: changes_def)
    have t3: "dk_tree d3 (locate d3 tmp) = Some (File ?m (take n c))"
      using t2 e3 same_env_locate[OF env] by simp
    obtain r4 d4 where four: "rename_to tmp path d3 = (r4, d4)" by fastforce
    note e4 = rename_effect[OF four t3]
    have c4: "changes P d d4"
    proof (cases "isl r4")
      case True
      then show ?thesis using e4 c3 by (auto simp: changes_def intro: same_env_trans)
    next
      case False
      have "dk_tree d3 q = Some x \<Longrightarrow> dk_tree d q = Some x \<or> P x" for q x
        using c3 by (simp add: changes_def)
      then show ?thesis
        using False e4 P env by (auto simp: changes_def intro: same_env_trans split: if_splits)
    qed
    have "d' = d2 \<or> d' = d3 \<or> d' = d4"
      using run one two three four Inr
      by (cases r2; cases r3) (auto simp: write_to_tmp_def)
    then show ?thesis using c2 c3 c4 by blast
  qed
qed

lemma open_effect:
  assumes "open_write fresh m p d = (Inr u, d1)"
  obtains m0 where "same_env d d1" "dk_tree d1 = (dk_tree d)(locate d p \<mapsto> File m0 [])"
      "dk_tree d (locate d p) = None \<longrightarrow> m0 = m AND NOT (dk_umask d)" "fresh \<longrightarrow> dk_tree d (locate d p) = None"
proof (cases "dk_tree d (locate d p)")
  case None
  then show thesis
    using assms by (intro that[of "m AND NOT (dk_umask d)"])
      (auto simp: open_write_def sys_def Let_def add_node_def split: option.splits if_splits)
next
  case (Some n)
  then show thesis
    using assms by (cases n; intro that[of "file_mode n"])
      (auto simp: open_write_def sys_def Let_def split: option.splits if_splits)
qed

text \<open>A run that succeeds: the file holds the contents, and only it and the temporary file changed.\<close>

lemma write_to_tmp_ok:
  assumes run: "write_to_tmp fresh m tmp path c d = (Inr u, d')"
  shows "same_env d d' \<and> (\<exists>m0. dk_tree d' = ((dk_tree d)(locate d tmp := None))(locate d path \<mapsto> File m0 c) \<and>
           (dk_tree d (locate d tmp) = None \<longrightarrow> m0 = m AND NOT (dk_umask d)) \<and>
           (fresh \<longrightarrow> dk_tree d (locate d tmp) = None))"
proof -
  obtain v1 d1 v2 d2 v3 d3 where one: "open_write fresh m tmp d = (Inr v1, d1)"
    and two: "write_all tmp c d1 = (Inr v2, d2)"
    and three: "sync_all d2 = (Inr v3, d3)" and four: "rename_to tmp path d3 = (Inr u, d')"
    using run unfolding write_to_tmp_def sbind_eq_Inr by blast
  obtain m0 where e1: "same_env d d1" "dk_tree d1 = (dk_tree d)(locate d tmp \<mapsto> File m0 [])"
    and m0: "dk_tree d (locate d tmp) = None \<longrightarrow> m0 = m AND NOT (dk_umask d)" "fresh \<longrightarrow> dk_tree d (locate d tmp) = None"
    by (rule open_effect[OF one])
  have t1: "dk_tree d1 (locate d1 tmp) = Some (File m0 [])" using e1 by (simp add: same_env_locate)
  note e2 = write_all_effect[OF two t1]
  note e3 = sync_effect[OF three]
  have env: "same_env d d3" by (rule same_env_trans[OF same_env_trans[OF e1(1) e2(1)] conjunct1[OF e3]])
  have t3: "dk_tree d3 = (dk_tree d)(locate d tmp \<mapsto> File m0 c)"
    using e2(3) e3 e1 by (simp add: same_env_locate)
  then have "dk_tree d3 (locate d3 tmp) = Some (File m0 c)" by (simp add: same_env_locate[OF env])
  note e4 = rename_effect[OF four this]
  have "dk_tree d' = ((dk_tree d)(locate d tmp := None))(locate d path \<mapsto> File m0 c)"
    using e4(3) t3 by (simp add: same_env_locate[OF env])
  with m0 same_env_trans[OF env e4(1)] show ?thesis by (intro conjI exI[of _ m0]) simp_all
qed

section \<open>The configuration file comes back\<close>

text \<open>What the YAML and base64 libraries promise.\<close>

definition cfg_laws :: "cfg_env \<Rightarrow> bool" where
  "cfg_laws env \<longleftrightarrow>
     (\<forall>c y. ce_to_yaml env c = Inr y \<longrightarrow> ce_from_yaml env y = Inr c \<and> valid_utf8 y) \<and>
     (\<forall>b. ce_decode env (ce_encode env b) = Inr b)"

lemma writes_set_permissions: "writes (\<lambda>_. True) (set_permissions p m)"
  unfolding set_permissions_def by (rule writes_sys) (auto simp: changes_def split: option.splits)

lemma save_config_ok:
  assumes "save_config env path c d = (Inr u, d')"
  shows "same_env d d' \<and> (\<exists>y m. ce_to_yaml env c = Inr y \<and> dk_tree d' (locate d path) = Some (File m y))"
proof -
  let ?prep = "case path_parent path of
      Some dir \<Rightarrow> if dir = Path False [] then sret ()
        else smap_err (CfgWrite path) (sbind (create_dir_all dir) (\<lambda>_. set_permissions dir 0x1C0))
    | None \<Rightarrow> sret ()"
  obtain y v d1 where y: "ce_to_yaml env c = Inr y" and prep: "?prep d = (Inr v, d1)"
    and wrt: "write_atomic path y 0x180 d1 = (Inr u, d')"
    using assms unfolding save_config_def sbind_eq_Inr slift_apply to_yaml_def smap_err_eq_Inr
    by (auto split: sum.splits)
  have "writes (\<lambda>_. True) ?prep"
    by (intro ch.keeps_cases ch.keeps_pure ch.keeps_smap_err ch.keeps_sbind writes_create_dir_all
        writes_set_permissions) simp
  from writesD[OF this prep] have e1: "same_env d d1" by (simp add: changes_def)
  from write_to_tmp_ok[OF wrt[unfolded write_atomic_def swith_apply]] obtain m where
    "same_env d1 d'" "dk_tree d' (locate d1 path) = Some (File m y)" by auto
  then show ?thesis using y e1 same_env_trans same_env_locate[OF e1] by metis
qed

lemma load_saved:
  assumes "cfg_laws env" and "ce_to_yaml env c = Inr y" and "dk_tree d (locate d path) = Some (File m y)"
    and "dk_fault d (dk_clock d) = None"
  shows "load_config env path d = (Inr (Some c), d\<lparr>dk_clock := Suc (dk_clock d)\<rparr>)"
proof -
  have "ce_from_yaml env y = Inr c" "valid_utf8 y" using assms(1,2) by (auto simp: cfg_laws_def)
  moreover have "read_bytes path d = (Inr y, d\<lparr>dk_clock := Suc (dk_clock d)\<rparr>)"
    using assms(3,4) by (simp add: read_bytes_def sys_def)
  ultimately show ?thesis by (simp add: load_config_def read_text_def)
qed

text \<open>No flags of the command line set an identity.\<close>

definition no_tls_flags :: tls_args where
  "no_tls_flags = \<lparr>ta_cert = None, ta_key = None, ta_ca = None, ta_server_name = None\<rparr>"

lemma resolve_encoded:
  assumes "cfg_laws env"
    and "fc_ca_data c = Some (ce_encode env ca)" "fc_cert_data c = Some (ce_encode env cert)"
    and "fc_key_data c = Some (ce_encode env key)" "fc_tls_server_name c = Some n"
  shows "resolve_tls env no_tls_flags (Some c) = Inr (TlsBytes cert key ca n)"
proof -
  have "ce_decode env (ce_encode env b) = Inr b" for b using assms(1) by (simp add: cfg_laws_def)
  then show ?thesis
    using assms(2-) by (simp add: resolve_tls_def no_tls_flags_def resolve_file_tls_def decode_field_def)
qed

lemma read_and_encode_ok:
  assumes "read_and_encode env p d = (Inr x, d')"
  shows "same_env d d' \<and> dk_tree d' = dk_tree d \<and> (\<exists>m b. dk_tree d (locate d p) = Some (File m b) \<and> x = ce_encode env b)"
  using assms
  by (auto simp: read_and_encode_def sbind_eq_Inr smap_err_eq_Inr read_bytes_def sys_def Let_def
      split: option.splits inode.splits)

end
