(* ===== verification/Pki_Safety.thy ===== *)
theory Pki_Safety imports Pki Disk_Effects begin

text \<open>
  What \<open>barenetes-pki\<close> leaves on disk: private keys that nobody else can read, whatever fails;
  certificates from which the API server reads the identity they were issued for; a configuration
  from which \<open>barectl\<close> resolves the identity that was packaged. And two ways to lose a file.
\<close>

section \<open>Runs of the tool\<close>

definition pki_changes :: "(inode \<Rightarrow> bool) \<Rightarrow> 'r pki \<Rightarrow> 'r pki \<Rightarrow> bool" where
  "pki_changes P s s' \<longleftrightarrow> changes P (ps_disk s) (ps_disk s')"

interpretation pk: step_rel "\<lambda>_ :: 'r pki. True" "pki_changes P" for P
  by unfold_locales (auto simp: pki_changes_def intro: ch.rel_refl ch.rel_trans)

abbreviation pki_writes :: "(inode \<Rightarrow> bool) \<Rightarrow> ('r pki, 'e, 'a) op \<Rightarrow> bool" where
  "pki_writes P f \<equiv> op_keeps (\<lambda>_. True) (pki_changes P) f"

lemma pki_writes_on_disk: "writes P f \<Longrightarrow> pki_writes P (on_disk f)"
  by (fastforce simp: op_keeps_def pki_changes_def on_disk_def split: prod.splits)

lemma pki_writes_on_rng: "pki_writes P (on_rng f)"
  by (auto simp: op_keeps_def pki_changes_def on_rng_def ch.rel_refl split: prod.splits)

lemma pki_writes_print: "pki_writes P (print_line l)"
  by (auto simp: op_keeps_def pki_changes_def print_line_def ch.rel_refl)

lemma pki_writes_context: "pki_writes P f \<Longrightarrow> pki_writes P (with_context c g f)"
  unfolding with_context_def by (rule pk.keeps_smap_err)

text \<open>What a library call returned is known to what follows.\<close>

lemma pki_writes_from_lib:
  assumes "\<And>x. r = Inr x \<Longrightarrow> pki_writes P (f x)"
  shows "pki_writes P (sbind (from_lib c r) f)"
proof (cases r)
  case (Inl e)
  then show ?thesis by (auto simp: op_keeps_def from_lib_def pki_changes_def ch.rel_refl)
next
  case (Inr x)
  with assms[OF Inr] show ?thesis by (auto simp: op_keeps_def from_lib_def)
qed

lemma from_lib_Inr: "from_lib c r s = (Inr x, s') \<longleftrightarrow> r = Inr x \<and> s' = s"
  by (auto simp: from_lib_def split: sum.splits)

lemma with_context_Inr: "with_context c g f s = (Inr x, s') \<longleftrightarrow> f s = (Inr x, s')"
  by (simp add: with_context_def smap_err_eq_Inr)

lemma on_disk_run: "on_disk f s = (r, s') \<longleftrightarrow> (\<exists>d. f (ps_disk s) = (r, d) \<and> s' = s\<lparr>ps_disk := d\<rparr>)"
  by (auto simp: on_disk_def split: prod.splits)

lemma write_pem_run:
  assumes "write_pem path c m s = (r, s')"
  shows "\<exists>r0. write_to_tmp True m (tmp_sibling ''pem'' path (dk_pid (ps_disk s))) path c (ps_disk s) =
           (r0, ps_disk s') \<and> isl r0 = isl r \<and> ps_rng s' = ps_rng s \<and> ps_out s' = ps_out s"
proof -
  let ?t = "tmp_sibling ''pem'' path (dk_pid (ps_disk s))"
  obtain r1 d1 where one: "open_write True m ?t (ps_disk s) = (r1, d1)" by fastforce
  obtain r2 d2 where two: "write_all ?t c d1 = (r2, d2)" by fastforce
  obtain r3 d3 where three: "sync_all d2 = (r3, d3)" by fastforce
  obtain r4 d4 where four: "rename_to ?t path d3 = (r4, d4)" by fastforce
  note calls = one two three four
  show ?thesis
  proof (cases r1)
    case (Inl e)
    with calls assms show ?thesis
      by (auto simp: write_pem_def write_to_tmp_def with_context_def on_disk_def smap_err_def Let_def)
  next
    case i1: (Inr u1)
    show ?thesis
    proof (cases r2)
      case (Inl e)
      with i1 calls assms show ?thesis
        by (auto simp: write_pem_def write_to_tmp_def with_context_def on_disk_def smap_err_def Let_def)
    next
      case (Inr u2)
      with i1 calls assms show ?thesis
        by (cases r3; cases r4)
          (auto simp: write_pem_def write_to_tmp_def with_context_def on_disk_def smap_err_def Let_def)
    qed
  qed
qed

lemma pki_writes_pem:
  assumes "\<And>u n. P (File (m AND NOT u) (take n c))"
  shows "pki_writes P (write_pem path c m)"
proof (rule op_keepsI)
  fix s :: "'r pki" and r :: "pki_error + unit" and s' assume "write_pem path c m s = (r, s')"
  from write_pem_run[OF this] show "True \<and> pki_changes P s s'"
    using writesD[OF writes_fresh[where P = P and m = m and c = c, OF assms]] by (auto simp: pki_changes_def)
qed

section \<open>Keys stay private\<close>

text \<open>A part of a certificate the library signed.\<close>

definition certificate_part :: "('r, 'n, 'k, 'i) pki_env \<Rightarrow> string \<Rightarrow> bool" where
  "certificate_part env c \<longleftrightarrow>
     (\<exists>ps key issuer cert n. (pk_self_signed env ps key = Inr cert \<or> pk_signed_by env ps key issuer = Inr cert) \<and>
        c = take n cert)"

text \<open>0x3F are the permissions of group and others.\<close>

definition private_or_public :: "('r, 'n, 'k, 'i) pki_env \<Rightarrow> inode \<Rightarrow> bool" where
  "private_or_public env n =
     (case n of File m c \<Rightarrow> m AND 0x3F = 0 \<or> certificate_part env c | _ \<Rightarrow> True)"

lemma owner_only: "((0x180 :: mode) AND NOT u) AND 0x3F = 0"
proof -
  have "((0x180 :: mode) AND NOT u) AND 0x3F = (0x180 AND 0x3F) AND NOT u"
    by (simp only: ac_simps)
  then show ?thesis by simp
qed

lemma private_or_public_simps [simp]:
  "private_or_public env (Dir m)"
  "private_or_public env (File (0x180 AND NOT u) c)"
  "pk_self_signed env ps key = Inr cert \<Longrightarrow> private_or_public env (File m (take n cert))"
  "pk_signed_by env ps key issuer = Inr cert \<Longrightarrow> private_or_public env (File m (take n cert))"
  unfolding private_or_public_def inode.case certificate_part_def using owner_only by blast+

lemmas pki_writes_rules =
  pki_writes_from_lib pk.keeps_sbind pki_writes_context pki_writes_on_disk pki_writes_on_rng pki_writes_print
  pki_writes_pem pk.keeps_pure writes_reads writes_create_dir_all

lemma init_ca_writes: "pki_writes (private_or_public env) (init_ca env args)"
proof -
  have "writes P (\<lambda>d. case path_exists p d of (b, d1) \<Rightarrow> (Inr b :: pki_error + bool, d1))" for P p
    by (rule writesI) (auto dest: writes_path_exists split: prod.splits)
  then show ?thesis
    unfolding init_ca_def Let_def
    by (intro pki_writes_rules pk.keeps_cases(4)) simp_all
qed

lemma issue_writes: "pki_writes (private_or_public env) (issue env args)"
  unfolding issue_def write_issued_def Let_def by (intro pki_writes_rules) simp_all

definition makes_keys :: "pki_command \<Rightarrow> bool" where
  "makes_keys cmd = (case cmd of CmdBarectlConfig _ \<Rightarrow> False | _ \<Rightarrow> True)"

text \<open>
  C23. Private keys are never exposed. Run \<open>init-ca\<close> or \<open>issue\<close> on any tree and let any system call
  fail, writes halfway included: every file that was not there before with the same mode and content
  is closed to group and others or holds nothing but a part of a certificate.
\<close>

theorem keys_stay_private:
  assumes "makes_keys cmd" and "pki_main env cmd s = (r, s')"
    and "dk_tree (ps_disk s') q = Some (File m c)"
  shows "dk_tree (ps_disk s) q = Some (File m c) \<or> m AND 0x3F = 0 \<or> certificate_part env c"
proof -
  have "pki_changes (private_or_public env) s s'"
    using assms(1,2) op_keepsD[OF init_ca_writes[where env = env], where s = s] op_keepsD[OF issue_writes[where env = env], where s = s]
    by (cases cmd) (auto simp: makes_keys_def)
  then have "dk_tree (ps_disk s) q = Some (File m c) \<or> private_or_public env (File m c)"
    using assms(3) by (simp add: pki_changes_def changes_def)
  then show ?thesis by (simp add: private_or_public_def)
qed

section \<open>What an issued certificate says\<close>

text \<open>The certificate library writes the subject it is given, attribute by attribute, and the parser
  reads it back.\<close>

definition attrs :: "dn_type \<Rightarrow> (dn_type \<times> string) list \<Rightarrow> string option list" where
  "attrs t dn = map (\<lambda>(_, v). Some v) (filter (\<lambda>(u, _). u = t) dn)"

definition x509_laws :: "('r, 'n, 'k, 'i) pki_env \<Rightarrow> (string \<Rightarrow> x509 option) \<Rightarrow> bool" where
  "x509_laws env parse \<longleftrightarrow> (\<forall>ps key issuer pem. pk_signed_by env ps key issuer = Inr pem \<longrightarrow>
     (\<exists>x. parse pem = Some x \<and> x_common_names x = attrs CommonName (cp_dn ps) \<and>
          x_org_units x = attrs OrganizationalUnitName (cp_dn ps)))"

lemma pki_role_parse [simp]: "\<exists>rl. role_parse (pki_role_str r) = Some rl \<and> role_as_str rl = pki_role_str r"
  by (cases r) (simp_all add: role_parse_def)

lemma leaf_peer:
  assumes "x509_laws env parse" and "pk_signed_by env (leaf_params args sans v) key issuer = Inr pem"
  shows "peer_of parse (Some (Some [pem])) = Mtls (Some (is_cn args)) (role_parse (pki_role_str (is_role args)))"
proof -
  obtain x where "parse pem = Some x" "x_common_names x = attrs CommonName (cp_dn (leaf_params args sans v))"
      "x_org_units x = attrs OrganizationalUnitName (cp_dn (leaf_params args sans v))"
    using assms unfolding x509_laws_def by blast
  then show ?thesis
    by (simp add: peer_of_def identity_of_def role_of_def attrs_def leaf_params_def first_attr_def)
qed

text \<open>The files of an issued certificate have names of their own.\<close>

lemma locate_append: "locate d (Path a (cs @ [c])) = step_up (locate d (Path a cs)) c"
  by (simp add: locate_def)

lemma locate_join:
  assumes "CHR ''/'' \<notin> set n" "n \<noteq> []" "n \<noteq> dot" "n \<noteq> ''..''"
  shows "locate d (path_join p n) = locate d p @ [n]"
  using assms by (cases p) (simp add: path_join_name locate_append step_up_def)

lemma path_join_parts:
  assumes "CHR ''/'' \<notin> set n" "n \<noteq> []" "n \<noteq> dot" "n \<noteq> ''..''"
  shows "path_parent (path_join p n) = Some p" "path_file_name (path_join p n) = Some n"
  using assms by (cases p; simp add: path_join_name path_parent_def path_file_name_def)+

lemma tmp_location:
  assumes "CHR ''/'' \<notin> set n" "n \<noteq> []" "n \<noteq> dot" "n \<noteq> ''..''" "CHR ''/'' \<notin> set fb"
  shows "\<exists>t. locate d (tmp_sibling fb (path_join p n) pid) = locate d p @ [''.'' @ t @ ''.tmp-'' @ show_nat pid]"
proof -
  define nm where "nm = (if valid_utf8 n then n else fb)"
  let ?t = "''.'' @ nm @ ''.tmp-'' @ show_nat pid"
  have "CHR ''/'' \<notin> set ?t" using assms show_nat_no_char[of "CHR ''/''" pid] by (simp add: nm_def)
  then have "locate d (path_join p ?t) = locate d p @ [?t]"
    by (rule locate_join) (simp_all add: dot_def)
  then show ?thesis by (auto simp: tmp_sibling_def path_join_parts[OF assms(1-4)] nm_def)
qed

lemma is_digit_m: "\<not> is_digit_char CHR ''m''"
  by (simp add: is_digit_char_def digit_val_def)

lemma pem_name:
  assumes "CHR ''/'' \<notin> set cn" "e \<in> {''.pem'', ''-key.pem''}"
  shows "CHR ''/'' \<notin> set (cn @ e)" "cn @ e \<noteq> []" "cn @ e \<noteq> dot" "cn @ e \<noteq> ''..''"
    and "cn @ e \<noteq> ''.'' @ t @ ''.tmp-'' @ show_nat pid"
proof -
  have "last (show_nat pid) \<in> set (show_nat pid)" by (rule last_in_set) simp
  then have "last (show_nat pid) \<noteq> CHR ''m''"
    using show_nat_no_char[of "CHR ''m''" pid] by (metis is_digit_m)
  then have "last (''.'' @ t @ ''.tmp-'' @ show_nat pid) \<noteq> last (cn @ e)" using assms(2) by auto
  then show "cn @ e \<noteq> ''.'' @ t @ ''.tmp-'' @ show_nat pid" by metis
  have "last (cn @ e) = CHR ''m''" using assms(2) by auto
  then show "cn @ e \<noteq> dot" "cn @ e \<noteq> ''..''" by (auto simp: dot_def dest: arg_cong[where f = last])
qed (use assms in auto)

lemma write_pem_ok:
  assumes "write_pem (path_join p n) c m s = (Inr u, s')"
    and n: "CHR ''/'' \<notin> set n" "n \<noteq> []" "n \<noteq> dot" "n \<noteq> ''..''"
  shows "same_env (ps_disk s) (ps_disk s') \<and> (\<exists>t. dk_tree (ps_disk s') =
     ((dk_tree (ps_disk s))(locate (ps_disk s) p @ [''.'' @ t @ ''.tmp-'' @ show_nat (dk_pid (ps_disk s))] := None))
       (locate (ps_disk s) p @ [n] \<mapsto> File (m AND NOT (dk_umask (ps_disk s))) c))"
proof -
  let ?tmp = "tmp_sibling ''pem'' (path_join p n) (dk_pid (ps_disk s))"
  obtain r0 where run: "write_to_tmp True m ?tmp (path_join p n) c (ps_disk s) = (r0, ps_disk s')" and "\<not> isl r0"
    using write_pem_run[OF assms(1)] by auto
  then obtain v where run: "write_to_tmp True m ?tmp (path_join p n) c (ps_disk s) = (Inr v, ps_disk s')"
    by (cases r0) auto
  obtain t where "locate (ps_disk s) ?tmp = locate (ps_disk s) p @ [''.'' @ t @ ''.tmp-'' @ show_nat (dk_pid (ps_disk s))]"
    using tmp_location[OF n, of "''pem''" "ps_disk s" p "dk_pid (ps_disk s)"] by auto
  with write_to_tmp_ok[OF run] locate_join[OF n] show ?thesis by auto
qed

lemma read_text_run:
  "read_text p d = (Inr c, d') \<Longrightarrow> \<exists>m. dk_tree d (locate d p) = Some (File m c) \<and> same_env d d' \<and> dk_tree d' = dk_tree d"
  by (auto simp: read_text_def read_bytes_def sbind_eq_Inr sys_def Let_def split: option.splits inode.splits if_splits)

text \<open>What a successful \<open>issue\<close> read, made and left behind.\<close>

definition issued_from ::
  "('r, 'n, 'k, 'i) pki_env \<Rightarrow> issue_args \<Rightarrow> mode \<times> string \<Rightarrow> 'k \<Rightarrow> 'i \<Rightarrow> 'n list \<Rightarrow> int \<times> int \<Rightarrow> 'k \<Rightarrow> string \<Rightarrow> bool" where
  "issued_from env args ca ca_key issuer sans v key cert \<longleftrightarrow>
     pk_issuer env (snd ca) ca_key = Inr issuer \<and> pk_sans env (is_cn args # is_sans args) = Inr sans \<and>
     validity (pk_now env) (is_days args) = Inr v \<and> pk_signed_by env (leaf_params args sans v) key issuer = Inr cert"

lemma issue_signs:
  assumes "issue env args s = (Inr u, s')"
  shows "\<exists>ca ca_key issuer sans v key cert s1. issued_from env args ca ca_key issuer sans v key cert \<and>
     same_env (ps_disk s) (ps_disk s1) \<and> dk_tree (ps_disk s1) = dk_tree (ps_disk s) \<and>
     write_issued args cert (pk_key_pem env key) s1 = (Inr u, s') \<and>
     dk_tree (ps_disk s) (locate (ps_disk s) (path_join (is_ca_dir args) ''ca.pem'')) = Some (File (fst ca) (snd ca)) \<and>
     (\<exists>mk ck. dk_tree (ps_disk s) (locate (ps_disk s) (path_join (is_ca_dir args) ''ca-key.pem'')) = Some (File mk ck) \<and>
        pk_key_of_pem env ck = Inr ca_key)"
proof -
  let ?ca = "path_join (is_ca_dir args) ''ca.pem''" and ?cak = "path_join (is_ca_dir args) ''ca-key.pem''"
  obtain p1 s1 p2 s2 key s3 ca_key issuer sans v cert where
    reads: "on_disk (read_text ?ca) s = (Inr p1, s1)" "on_disk (read_text ?cak) s1 = (Inr p2, s2)"
    and gen: "on_rng (pk_generate env) s2 = (Inr key, s3)"
    and parsed: "pk_key_of_pem env p2 = Inr ca_key"
    and made: "pk_issuer env p1 ca_key = Inr issuer" "pk_sans env (is_cn args # is_sans args) = Inr sans"
      "validity (pk_now env) (is_days args) = Inr v" "pk_signed_by env (leaf_params args sans v) key issuer = Inr cert"
    and wrt: "write_issued args cert (pk_key_pem env key) s3 = (Inr u, s')"
    using assms unfolding issue_def Let_def sbind_eq_Inr from_lib_Inr with_context_Inr slift_apply
    by auto
  obtain d1 d2 where d: "read_text ?ca (ps_disk s) = (Inr p1, d1)" "ps_disk s1 = d1" "read_text ?cak d1 = (Inr p2, d2)" "ps_disk s2 = d2"
    using reads by (auto simp: on_disk_run)
  obtain m where m: "dk_tree (ps_disk s) (locate (ps_disk s) ?ca) = Some (File m p1)" "same_env (ps_disk s) d1" "dk_tree d1 = dk_tree (ps_disk s)"
    using read_text_run[OF d(1)] by blast
  have d2: "same_env d1 d2" "dk_tree d2 = dk_tree d1" using read_text_run[OF d(3)] by blast+
  have "\<exists>mk. dk_tree (ps_disk s) (locate (ps_disk s) ?cak) = Some (File mk p2)"
    using read_text_run[OF d(3)] m(2,3) same_env_locate[OF m(2)] by auto
  then have keyfile: "\<exists>mk ck. dk_tree (ps_disk s) (locate (ps_disk s) ?cak) = Some (File mk ck) \<and>
        pk_key_of_pem env ck = Inr ca_key" using parsed by blast
  have "ps_disk s3 = d2" using gen d by (auto simp: on_rng_def split: prod.splits)
  then have s3: "same_env (ps_disk s) (ps_disk s3)" "dk_tree (ps_disk s3) = dk_tree (ps_disk s)"
    using m(2,3) d2 by (simp_all add: same_env_trans[OF m(2) d2(1)])
  have "issued_from env args (m, p1) ca_key issuer sans v key cert" using made by (simp add: issued_from_def)
  moreover have "dk_tree (ps_disk s) (locate (ps_disk s) ?ca) = Some (File (fst (m, p1)) (snd (m, p1)))" using m(1) by simp
  ultimately show ?thesis using s3 wrt keyfile by blast
qed

lemma issue_leaves:
  assumes cn: "CHR ''/'' \<notin> set (is_cn args)" and run: "issue env args s = (Inr u, s')"
  shows "\<exists>ca ca_key issuer sans v key cert m. issued_from env args ca ca_key issuer sans v key cert \<and>
     same_env (ps_disk s) (ps_disk s') \<and>
     dk_tree (ps_disk s') (locate (ps_disk s) (cert_path args)) = Some (File m cert) \<and>
     dk_tree (ps_disk s') (locate (ps_disk s) (key_path args)) =
       Some (File (0x180 AND NOT (dk_umask (ps_disk s))) (pk_key_pem env key)) \<and>
     (is_cn args \<noteq> ''ca'' \<longrightarrow>
        dk_tree (ps_disk s') (locate (ps_disk s) (path_join (is_ca_dir args) ''ca.pem'')) = Some (File (fst ca) (snd ca))) \<and>
     dk_tree (ps_disk s) (locate (ps_disk s) (path_join (is_ca_dir args) ''ca.pem'')) = Some (File (fst ca) (snd ca)) \<and>
     (\<exists>mk ck. dk_tree (ps_disk s) (locate (ps_disk s) (path_join (is_ca_dir args) ''ca-key.pem'')) = Some (File mk ck) \<and>
        pk_key_of_pem env ck = Inr ca_key)"
proof -
  let ?ca = "path_join (is_ca_dir args) ''ca.pem''"
  obtain ca ca_key issuer sans v key cert s1 where made: "issued_from env args ca ca_key issuer sans v key cert"
    and ca: "dk_tree (ps_disk s) (locate (ps_disk s) ?ca) = Some (File (fst ca) (snd ca))"
    and e1: "same_env (ps_disk s) (ps_disk s1)" and t1: "dk_tree (ps_disk s1) = dk_tree (ps_disk s)"
    and wrt: "write_issued args cert (pk_key_pem env key) s1 = (Inr u, s')"
    and keyfile: "\<exists>mk ck. dk_tree (ps_disk s) (locate (ps_disk s) (path_join (is_ca_dir args) ''ca-key.pem'')) = Some (File mk ck) \<and>
        pk_key_of_pem env ck = Inr ca_key"
    using issue_signs[OF run] by blast
  obtain s2 s3 s4 v2 v3 v4 where mk: "on_disk (create_dir_all (is_out_dir args)) s1 = (v2, s2)"
    and wc: "write_pem (cert_path args) cert 0x1A4 s2 = (Inr v3, s3)"
    and wk: "write_pem (key_path args) (pk_key_pem env key) 0x180 s3 = (Inr v4, s4)" and out: "ps_disk s' = ps_disk s4"
    using wrt unfolding write_issued_def sbind_eq_Inr with_context_Inr print_line_def by auto
  have stay: "files_stay (ps_disk s1) (ps_disk s2)"
    using mk sparesD[OF spares_create_dir_all] by (auto simp: on_disk_run)
  then have e2: "same_env (ps_disk s1) (ps_disk s2)" by (simp add: files_stay_def)
  have ext: "''.pem'' \<in> {''.pem'', ''-key.pem''}" "''-key.pem'' \<in> {''.pem'', ''-key.pem''}" by simp_all
  note nc = pem_name[OF cn ext(1)] and nk = pem_name[OF cn ext(2)]
  note c = write_pem_ok[OF wc[unfolded cert_path_def] nc(1-4)] and k = write_pem_ok[OF wk[unfolded key_path_def] nk(1-4)]
  let ?L = "locate (ps_disk s) (is_out_dir args)"
  have env: "same_env (ps_disk s) (ps_disk s3)" using e1 e2 c same_env_trans by blast
  have all: "same_env (ps_disk s) (ps_disk s')" using env k out same_env_trans by metis
  have "dk_tree (ps_disk s3) (?L @ [is_cn args @ ''.pem'']) = Some (File (0x1A4 AND NOT (dk_umask (ps_disk s2))) cert)"
    using c same_env_locate[OF same_env_trans[OF e1 e2]] by auto
  then have cert: "dk_tree (ps_disk s') (?L @ [is_cn args @ ''.pem'']) = Some (File (0x1A4 AND NOT (dk_umask (ps_disk s2))) cert)"
    using k out nc(5) same_env_locate[OF env] by auto
  have key: "dk_tree (ps_disk s') (?L @ [is_cn args @ ''-key.pem'']) =
      Some (File (0x180 AND NOT (dk_umask (ps_disk s))) (pk_key_pem env key))"
    using k out same_env_locate[OF env] env by (auto simp: same_env_def)
  let ?C = "locate (ps_disk s) (is_ca_dir args)"
  have caname: "CHR ''/'' \<notin> set ''ca.pem''" "''ca.pem'' \<noteq> []" "''ca.pem'' \<noteq> dot" "''ca.pem'' \<noteq> ''..''" by (simp_all add: dot_def)
  have caloc: "locate (ps_disk s) ?ca = ?C @ [''ca.pem'']" by (rule locate_join[OF caname])
  have "dk_tree (ps_disk s2) (?C @ [''ca.pem'']) = Some (File (fst ca) (snd ca))"
    using ca t1 stay caloc by (simp add: files_stay_def)
  moreover have "''ca.pem'' \<noteq> ''.'' @ t" for t by simp
  moreover have "''ca.pem'' \<noteq> is_cn args @ ''-key.pem''" "is_cn args \<noteq> ''ca'' \<Longrightarrow> ''ca.pem'' \<noteq> is_cn args @ ''.pem''"
    by (auto dest: arg_cong[where f = rev])
  ultimately have "is_cn args \<noteq> ''ca'' \<longrightarrow> dk_tree (ps_disk s') (?C @ [''ca.pem'']) = Some (File (fst ca) (snd ca))"
    using c k out by auto
  note kept = this
  have "locate (ps_disk s) (cert_path args) = ?L @ [is_cn args @ ''.pem'']"
      "locate (ps_disk s) (key_path args) = ?L @ [is_cn args @ ''-key.pem'']"
    using nc nk by (simp_all add: cert_path_def key_path_def locate_join)
  then have "issued_from env args ca ca_key issuer sans v key cert \<and> same_env (ps_disk s) (ps_disk s') \<and>
     dk_tree (ps_disk s') (locate (ps_disk s) (cert_path args)) = Some (File (0x1A4 AND NOT (dk_umask (ps_disk s2))) cert) \<and>
     dk_tree (ps_disk s') (locate (ps_disk s) (key_path args)) =
       Some (File (0x180 AND NOT (dk_umask (ps_disk s))) (pk_key_pem env key)) \<and>
     (is_cn args \<noteq> ''ca'' \<longrightarrow> dk_tree (ps_disk s') (locate (ps_disk s) ?ca) = Some (File (fst ca) (snd ca)))"
    using made all cert key kept caloc by simp
  then show ?thesis using ca keyfile by blast
qed

text \<open>
  The authority in a directory: \<open>ca.pem\<close> is a certificate for an authority, signed with the key in
  \<open>ca-key.pem\<close>, and in its time. \<open>init-ca\<close> makes one.
\<close>

definition valid_at :: "int \<Rightarrow> 'n cert_params \<Rightarrow> bool" where
  "valid_at now ps \<longleftrightarrow> cp_not_before ps \<le> now \<and> now \<le> cp_not_after ps"

definition signs_itself :: "('r, 'n, 'k, 'i) pki_env \<Rightarrow> 'k \<Rightarrow> int \<Rightarrow> string \<Rightarrow> bool" where
  "signs_itself env key now pem \<longleftrightarrow> (\<exists>ps. pk_self_signed env ps key = Inr pem \<and> cp_is_ca ps = CaUnconstrained \<and>
     KeyCertSign \<in> set (cp_key_usages ps) \<and> valid_at now ps)"

definition authority_at :: "('r, 'n, 'k, 'i) pki_env \<Rightarrow> int \<Rightarrow> disk \<Rightarrow> path \<Rightarrow> bool" where
  "authority_at env now d dir \<longleftrightarrow> (\<exists>m pem mk key_pem key.
     dk_tree d (locate d (path_join dir ''ca.pem'')) = Some (File m pem) \<and>
     dk_tree d (locate d (path_join dir ''ca-key.pem'')) = Some (File mk key_pem) \<and>
     pk_key_of_pem env key_pem = Inr key \<and> signs_itself env key now pem)"

lemma validity_range: "validity now days = Inr v \<Longrightarrow> fst v = now \<and> snd v = now + days * 86400"
  by (auto simp: validity_def split: if_splits)

lemma init_ca_makes_authority:
  fixes env :: "('r, 'n, 'k, 'i) pki_env"
  assumes run: "init_ca env args s = (Inr u, s')" and pem: "\<And>k. pk_key_of_pem env (pk_key_pem env k) = Inr k"
    and now: "pk_now env \<le> now" "now \<le> pk_now env + ia_days args * 86400"
  shows "authority_at env now (ps_disk s') (ia_out_dir args)"
proof -
  obtain key sans v cert v3 v4 and s2 s3 s4 :: "'r pki" where v: "validity (pk_now env) (ia_days args) = Inr v"
    and self: "pk_self_signed env (ca_params args sans v) key = Inr cert"
    and wc: "write_pem (path_join (ia_out_dir args) ''ca.pem'') cert 0x1A4 s2 = (Inr v3, s3)"
    and wk: "write_pem (path_join (ia_out_dir args) ''ca-key.pem'') (pk_key_pem env key) 0x180 s3 = (Inr v4, s4)"
    and out: "ps_disk s' = ps_disk s4"
    using run unfolding init_ca_def Let_def
    by (auto simp: sbind_eq_Inr from_lib_Inr with_context_Inr print_line_def split: if_splits)
  have nc: "CHR ''/'' \<notin> set ''ca.pem''" "''ca.pem'' \<noteq> []" "''ca.pem'' \<noteq> dot" "''ca.pem'' \<noteq> ''..''"
    "''ca.pem'' \<noteq> ''.'' @ t @ x" for t x by (simp_all add: dot_def)
  have nk: "CHR ''/'' \<notin> set ''ca-key.pem''" "''ca-key.pem'' \<noteq> []" "''ca-key.pem'' \<noteq> dot" "''ca-key.pem'' \<noteq> ''..''"
    by (simp_all add: dot_def)
  note c = write_pem_ok[OF wc nc(1-4)] and k = write_pem_ok[OF wk nk(1-4)]
  have env: "same_env (ps_disk s3) (ps_disk s')" "same_env (ps_disk s2) (ps_disk s')"
    using c k out same_env_trans by metis+
  let ?L = "locate (ps_disk s2) (ia_out_dir args)"
  have loc: "locate (ps_disk s') (path_join (ia_out_dir args) ''ca.pem'') = ?L @ [''ca.pem'']"
    "locate (ps_disk s') (path_join (ia_out_dir args) ''ca-key.pem'') = ?L @ [''ca-key.pem'']"
    "locate (ps_disk s3) (ia_out_dir args) = ?L"
    using locate_join[OF nc(1-4)] locate_join[OF nk(1-4)] same_env_locate[OF env(2)] c same_env_locate by auto
  obtain m mk where "dk_tree (ps_disk s') (?L @ [''ca.pem'']) = Some (File m cert)"
    "dk_tree (ps_disk s') (?L @ [''ca-key.pem'']) = Some (File mk (pk_key_pem env key))"
    using c k out loc(3) nc(5) by auto
  moreover have "signs_itself env key now cert"
    using self now validity_range[OF v] unfolding signs_itself_def
    by (intro exI[of _ "ca_params args sans v"]) (simp add: ca_params_def valid_at_def)
  ultimately show ?thesis using pem unfolding authority_at_def loc by blast
qed

text \<open>
  C22. The identity an issued certificate carries is the one the API server reads. When \<open>issue\<close>
  succeeds for a name without a slash, \<open><cn>.pem\<close> holds a certificate for which the server takes the
  peer to be \<open>cn\<close> in the role asked for, and \<open><cn>-key.pem\<close> holds the key that certificate was made
  with, with mode 0600 less the umask.
\<close>

theorem issued_identity_is_recognised:
  assumes laws: "x509_laws env parse" and cn: "CHR ''/'' \<notin> set (is_cn args)"
    and run: "issue env args s = (Inr u, s')"
  shows "\<exists>m cert ps key issuer rl.
     dk_tree (ps_disk s') (locate (ps_disk s) (cert_path args)) = Some (File m cert) \<and>
     dk_tree (ps_disk s') (locate (ps_disk s) (key_path args)) =
       Some (File (0x180 AND NOT (dk_umask (ps_disk s))) (pk_key_pem env key)) \<and>
     pk_signed_by env ps key issuer = Inr cert \<and>
     peer_of parse (Some (Some [cert])) = Mtls (Some (is_cn args)) (Some rl) \<and>
     role_as_str rl = pki_role_str (is_role args)"
proof -
  obtain ca ca_key issuer sans v key cert m where made: "issued_from env args ca ca_key issuer sans v key cert"
    and files: "dk_tree (ps_disk s') (locate (ps_disk s) (cert_path args)) = Some (File m cert)"
      "dk_tree (ps_disk s') (locate (ps_disk s) (key_path args)) =
         Some (File (0x180 AND NOT (dk_umask (ps_disk s))) (pk_key_pem env key))"
    using issue_leaves[OF cn run] by blast
  have sign: "pk_signed_by env (leaf_params args sans v) key issuer = Inr cert" using made by (simp add: issued_from_def)
  with files leaf_peer[OF laws sign] pki_role_parse[of "is_role args"] show ?thesis by metis
qed

section \<open>A packaged configuration\<close>

text \<open>
  C35. What \<open>barenetes-pki barectl-config\<close> packages is what \<open>barectl\<close> connects with. When the command
  succeeds and the file can be read, \<open>barectl\<close> without flags loads it, and resolves the server given
  and an identity made of exactly the bytes the certificate, key and CA files held.
\<close>

theorem packaged_identity_is_resolved:
  assumes laws: "cfg_laws (pk_cfg env)" and out: "ba_out args = Some path"
    and run: "barectl_config env args s = (Inr u, s')"
    and readable: "dk_fault (ps_disk s') (dk_clock (ps_disk s')) = None"
    and ca: "dk_tree (ps_disk s) (locate (ps_disk s) (path_join (ba_ca_dir args) ''ca.pem'')) = Some (File m1 ca)"
    and cert: "dk_tree (ps_disk s) (locate (ps_disk s) (ba_cert args)) = Some (File m2 cert)"
    and key: "dk_tree (ps_disk s) (locate (ps_disk s) (ba_key args)) = Some (File m3 key)"
  shows "\<exists>c d. load_config (pk_cfg env) path (ps_disk s') = (Inr (Some c), d) \<and>
     resolve_server None (Some c) = ba_server args \<and>
     resolve_tls (pk_cfg env) no_tls_flags (Some c) = Inr (TlsBytes cert key ca (ba_tls_server_name args))"
proof -
  obtain x1 d1 x2 d2 x3 d3 v where r1: "read_and_encode (pk_cfg env) (path_join (ba_ca_dir args) ''ca.pem'') (ps_disk s) = (Inr x1, d1)"
    and r2: "read_and_encode (pk_cfg env) (ba_cert args) d1 = (Inr x2, d2)"
    and r3: "read_and_encode (pk_cfg env) (ba_key args) d2 = (Inr x3, d3)"
    and save: "save_config (pk_cfg env) path (packaged_config args x1 x2 x3) d3 = (Inr v, ps_disk s')"
    using run unfolding barectl_config_def Let_def out option.case sbind_eq_Inr with_context_Inr on_disk_run print_line_def
    by auto
  let ?c = "packaged_config args x1 x2 x3"
  note k1 = read_and_encode_ok[OF r1] and k2 = read_and_encode_ok[OF r2] and k3 = read_and_encode_ok[OF r3]
  have l: "locate d1 p = locate (ps_disk s) p" "locate d2 p = locate (ps_disk s) p" for p
    using k1 k2 same_env_locate same_env_trans by metis+
  have x: "x1 = ce_encode (pk_cfg env) ca" "x2 = ce_encode (pk_cfg env) cert" "x3 = ce_encode (pk_cfg env) key"
    using k1 k2 k3 l ca cert key by auto
  obtain y m where y: "ce_to_yaml (pk_cfg env) ?c = Inr y" "dk_tree (ps_disk s') (locate (ps_disk s') path) = Some (File m y)"
    using save_config_ok[OF save] same_env_locate by metis
  have "load_config (pk_cfg env) path (ps_disk s') =
      (Inr (Some ?c), (ps_disk s')\<lparr>dk_clock := Suc (dk_clock (ps_disk s'))\<rparr>)"
    by (rule load_saved[OF laws y readable])
  moreover have "resolve_server None (Some ?c) = ba_server args"
    by (simp add: resolve_server_def packaged_config_def)
  moreover have "resolve_tls (pk_cfg env) no_tls_flags (Some ?c) = Inr (TlsBytes cert key ca (ba_tls_server_name args))"
    by (rule resolve_encoded[OF laws]) (simp_all add: packaged_config_def x)
  ultimately show ?thesis by blast
qed

end
