(* ===== verification/Pki_Examples.thy ===== *)
theory Pki_Examples imports Pki_Safety begin

text \<open>
  A small certificate library that satisfies the laws of \<open>Pki_Safety\<close>, a tree, and runs of the
  tool on them: the witnesses of its properties, and the runs that lose a file or close a directory.
\<close>

section \<open>A library and a tree\<close>

text \<open>A key is a number, a certificate the text of its subject; a configuration is printed field by
  field, and base64 is the identity.\<close>

definition mini_signed :: "unit cert_params \<Rightarrow> nat \<Rightarrow> string \<Rightarrow> string + string" where
  "mini_signed ps key issuer =
     (case cp_dn ps of
        [(CommonName, cn), (OrganizationalUnitName, ou)] \<Rightarrow>
          if CHR '' '' \<in> set ou then Inl ''unit'' else Inr (ou @ '' '' @ cn)
      | _ \<Rightarrow> Inl ''subject'')"

definition mini_parse :: "string \<Rightarrow> x509 option" where
  "mini_parse pem = map_option (\<lambda>(ou, cn). \<lparr>x_common_names = [Some cn], x_org_units = [Some ou], x_sans = None\<rparr>)
     (split_once (CHR '' '') pem)"

definition mini_server :: string where "mini_server = ''https://cp:50052''"

definition mini_config :: file_config where
  "mini_config = \<lparr>fc_server = mini_server, fc_tls_server_name = Some ''api'', fc_ca_data = Some ''CA'',
     fc_cert_data = Some ''CERT'', fc_key_data = Some ''KEY''\<rparr>"

definition mini_cfg :: cfg_env where
  "mini_cfg = \<lparr>ce_to_yaml = (\<lambda>c. if c = mini_config then Inr ''packaged'' else Inl ''other''),
     ce_from_yaml = (\<lambda>y. if y = ''packaged'' then Inr mini_config else Inl ''other''),
     ce_encode = (\<lambda>b. b), ce_decode = Inr\<rparr>"

definition mini_pki :: "(nat, unit, nat, string) pki_env" where
  "mini_pki = \<lparr>pk_cfg = mini_cfg, pk_now = 0, pk_sans = (\<lambda>_. Inr [()]), pk_generate = (\<lambda>g. (Inr g, Suc g)),
     pk_key_pem = (\<lambda>k. ''key '' @ show_nat k), pk_key_of_pem = (\<lambda>_. Inr 0), pk_issuer = (\<lambda>pem _. Inr pem),
     pk_self_signed = (\<lambda>_ _. Inr ''ca''), pk_signed_by = mini_signed\<rparr>"

lemma mini_x509: "x509_laws mini_pki mini_parse"
proof -
  have "\<exists>x. mini_parse pem = Some x \<and> x_common_names x = attrs CommonName (cp_dn ps) \<and>
      x_org_units x = attrs OrganizationalUnitName (cp_dn ps)"
    if "mini_signed ps key issuer = Inr pem" for ps key issuer pem
    using that split_once_append[of "CHR '' ''"]
    by (auto simp: mini_signed_def mini_parse_def attrs_def split: list.splits prod.splits dn_type.splits if_splits)
  then show ?thesis by (simp add: x509_laws_def mini_pki_def)
qed

lemma mini_cfg_laws: "cfg_laws mini_cfg"
proof -
  have "valid_utf8 ''packaged''" unfolding valid_utf8_def by (rule utf8_ascii) simp
  then show ?thesis by (auto simp: cfg_laws_def mini_cfg_def)
qed

definition pki_tree :: "string list \<rightharpoonup> inode" where
  "pki_tree = (\<lambda>_. None)([] \<mapsto> Dir 0x1ED, [''pki''] \<mapsto> Dir 0x1ED, [''pki'', ''ca.pem''] \<mapsto> File 0x1A4 ''CA'',
     [''pki'', ''ca-key.pem''] \<mapsto> File 0x180 ''CAKEY'', [''alice.pem''] \<mapsto> File 0x1A4 ''CERT'',
     [''alice-key.pem''] \<mapsto> File 0x180 ''KEY'', [''tmp''] \<mapsto> Dir 0x3FF)"

definition pki_disk :: disk where
  "pki_disk = \<lparr>dk_tree = pki_tree, dk_cwd = [], dk_umask = 0x12, dk_pid = 7, dk_clock = 0, dk_fault = (\<lambda>_. None)\<rparr>"

definition pki_start :: "nat pki" where
  "pki_start = \<lparr>ps_disk = pki_disk, ps_rng = 1, ps_out = []\<rparr>"

definition in_pki :: path where "in_pki = Path True [''pki'']"

definition issue_for :: "string \<Rightarrow> issue_args" where
  "issue_for cn = \<lparr>is_ca_dir = in_pki, is_cn = cn, is_role = PkiNode, is_out_dir = in_pki, is_sans = [], is_days = 397\<rparr>"

definition issued :: "string \<Rightarrow> nat pki \<Rightarrow> nat pki" where
  "issued cn s = snd (issue mini_pki (issue_for cn) s)"

definition web_key_at :: "string list" where "web_key_at = [''pki'', ''web-key.pem'']"

lemma web_issued:
  "fst (issue mini_pki (issue_for ''web'') pki_start) = Inr ()"
  "dk_tree (ps_disk (issued ''web'' pki_start)) web_key_at = Some (File 0x180 ''key 1'')"
  "dk_tree pki_disk web_key_at = None"
  by (code_simp, code_simp, code_simp)

lemma web_run: "issue mini_pki (issue_for ''web'') pki_start = (Inr (), issued ''web'' pki_start)"
  unfolding issued_def using web_issued(1) by (metis prod.collapse)

theorem keys_stay_private_witness:
  "dk_tree (ps_disk (issued ''web'' pki_start)) web_key_at = Some (File 0x180 ''key 1'') \<and>
   (dk_tree (ps_disk pki_start) web_key_at = Some (File 0x180 ''key 1'') \<or>
    (0x180 :: mode) AND 0x3F = 0 \<or> certificate_part mini_pki ''key 1'')"
proof -
  have "makes_keys (CmdIssue (issue_for ''web''))" by (simp add: makes_keys_def)
  moreover have "pki_main mini_pki (CmdIssue (issue_for ''web'')) pki_start = (Inr (), issued ''web'' pki_start)"
    by (simp add: web_run)
  ultimately show ?thesis using keys_stay_private web_issued(2) by blast
qed

theorem issued_identity_is_recognised_witness:
  "\<exists>m cert rl. dk_tree (ps_disk (issued ''web'' pki_start)) (locate pki_disk (cert_path (issue_for ''web''))) =
       Some (File m cert) \<and>
     peer_of mini_parse (Some (Some [cert])) = Mtls (Some ''web'') (Some rl) \<and> role_as_str rl = ''node''"
proof -
  have "CHR ''/'' \<notin> set (is_cn (issue_for ''web''))" by (simp add: issue_for_def)
  from issued_identity_is_recognised[OF mini_x509 this web_run] obtain m cert rl where
    "dk_tree (ps_disk (issued ''web'' pki_start)) (locate (ps_disk pki_start) (cert_path (issue_for ''web''))) = Some (File m cert)"
    "peer_of mini_parse (Some (Some [cert])) = Mtls (Some (is_cn (issue_for ''web''))) (Some rl)"
    "role_as_str rl = pki_role_str (is_role (issue_for ''web''))" by blast
  moreover have "ps_disk pki_start = pki_disk" "is_cn (issue_for ''web'') = ''web''"
      "pki_role_str (is_role (issue_for ''web'')) = ''node''"
    by (simp_all add: pki_start_def issue_for_def)
  ultimately show ?thesis by metis
qed

definition package_alice :: barectl_config_args where
  "package_alice = \<lparr>ba_ca_dir = in_pki, ba_cert = Path False [''alice.pem''], ba_key = Path False [''alice-key.pem''],
     ba_server = mini_server, ba_tls_server_name = ''api'', ba_out = Some (Path True [''home'', ''config''])\<rparr>"

definition packaged :: "nat pki" where
  "packaged = snd (barectl_config mini_pki package_alice pki_start)"

theorem packaged_identity_is_resolved_witness:
  "\<exists>c d. load_config mini_cfg (Path True [''home'', ''config'']) (ps_disk packaged) = (Inr (Some c), d) \<and>
     resolve_server None (Some c) = mini_server \<and>
     resolve_tls mini_cfg no_tls_flags (Some c) = Inr (TlsBytes ''CERT'' ''KEY'' ''CA'' ''api'')"
proof -
  have "fst (barectl_config mini_pki package_alice pki_start) = Inr ()" by code_simp
  then have run: "barectl_config mini_pki package_alice pki_start = (Inr (), packaged)"
    unfolding packaged_def by (metis prod.collapse)
  have "dk_fault (ps_disk packaged) (dk_clock (ps_disk packaged)) = None" by code_simp
  note resolves = packaged_identity_is_resolved[OF _ _ run this]
  have files: "dk_tree (ps_disk pki_start) (locate (ps_disk pki_start) (path_join (ba_ca_dir package_alice) ''ca.pem'')) = Some (File 0x1A4 ''CA'')"
    "dk_tree (ps_disk pki_start) (locate (ps_disk pki_start) (ba_cert package_alice)) = Some (File 0x1A4 ''CERT'')"
    "dk_tree (ps_disk pki_start) (locate (ps_disk pki_start) (ba_key package_alice)) = Some (File 0x180 ''KEY'')"
    by (code_simp, code_simp, code_simp)
  have "cfg_laws (pk_cfg mini_pki)" using mini_cfg_laws by (simp add: mini_pki_def)
  from resolves[OF this _ files, of "Path True [''home'', ''config'']"] show ?thesis
    by (simp add: package_alice_def mini_pki_def)
qed

section \<open>Files that are lost, a directory that is closed\<close>

text \<open>
  \<open>issue\<close> overwrites what it finds. The key of \<open>web\<close> is replaced by the certificate of a node called
  \<open>web-key\<close>, and a certificate for \<open>ca\<close> issued into the directory of the authority replaces the
  authority's own certificate and key, which \<open>init-ca\<close> refuses to do.
\<close>

lemma issued_names_collide:
  "dk_tree (ps_disk (issued ''web-key'' (issued ''web'' pki_start))) web_key_at = Some (File 0x1A4 ''node web-key'')"
  "dk_tree (ps_disk (issued ''ca'' pki_start)) [''pki'', ''ca.pem''] = Some (File 0x1A4 ''node ca'')"
  "dk_tree (ps_disk (issued ''ca'' pki_start)) [''pki'', ''ca-key.pem''] = Some (File 0x180 ''key 1'')"
  by (code_simp, code_simp, code_simp)

text \<open>
  \<open>save\<close> sets the mode of the directory it writes into even when it did not create it: a
  configuration written to \<open>/tmp/config\<close> takes \<open>/tmp\<close> from 1777 to 0700.
\<close>

lemma saving_closes_its_directory:
  "dk_tree pki_disk [''tmp''] = Some (Dir 0x3FF)"
  "fst (save_config mini_cfg (Path True [''tmp'', ''config'']) mini_config pki_disk) = Inr ()"
  "dk_tree (snd (save_config mini_cfg (Path True [''tmp'', ''config'']) mini_config pki_disk)) [''tmp''] = Some (Dir 0x1C0)"
  by (code_simp, code_simp, code_simp)

text \<open>
  \<open>write_atomic\<close> truncates a temporary file that is there already and keeps its mode, so a readable
  one left in place makes the saved configuration, key included, readable.
\<close>

lemma saved_config_inherits_a_mode:
  "dk_tree (snd (save_config mini_cfg (Path True [''tmp'', ''config'']) mini_config
     (set_node [''tmp'', ''.config.tmp-7''] (Some (File 0x1B6 [])) pki_disk))) [''tmp'', ''config''] =
   Some (File 0x1B6 ''packaged'')"
  by code_simp

end
