(* ===== verification/Barectl_Safety.thy ===== *)
theory Barectl_Safety imports Barectl_Commands Api_Service Pki_Examples begin

text \<open>
  What \<open>barectl\<close> sends and shows: the pods it creates, the two ways to describe one, the table it
  prints, and \<open>create pod\<close> followed by \<open>get pod\<close> against the API server's own model.
\<close>

section \<open>Runs\<close>

lemma cli_disk_run: "cli_disk f c = (r, c') \<longleftrightarrow> (\<exists>d. f (cl_disk c) = (r, d) \<and> c' = c\<lparr>cl_disk := d\<rparr>)"
  by (auto simp: cli_disk_def split: prod.splits)

lemma cli_api_run: "cli_api f c = (r, c') \<longleftrightarrow> (\<exists>w. f (cl_api c) = (r, w) \<and> c' = c\<lparr>cl_api := w\<rparr>)"
  by (auto simp: cli_api_def split: prod.splits)

lemma call_api_Inr:
  "call_api f c = (Inr x, c') \<longleftrightarrow> (\<exists>w. f (cl_api c) = (Inr x, w) \<and> c' = c\<lparr>cl_api := w\<rparr>)"
  by (simp add: call_api_def smap_err_eq_Inr cli_api_run)

lemma build_pod_frame:
  assumes "build_pod env args c = (Inr pws, c')"
  shows "cl_api c' = cl_api c \<and> cl_out c' = cl_out c"
  using assms
  by (auto simp: build_pod_def sbind_eq_Inr cli_disk_run split: option.splits if_splits)

section \<open>The pods it sends\<close>

text \<open>What every pod built from flags or a manifest has.\<close>

lemma built_pod:
  assumes "build_pod env args c = (Inr pws, c')"
  shows "\<exists>p sp. pw_pod pws = Some p \<and> pw_spec pws = Some sp \<and> p_status p = pod_status_i32 PodPending \<and>
     ps_containers sp \<noteq> []"
proof (cases "ca_file args")
  case None
  with assms show ?thesis
    by (auto simp: build_pod_def pod_from_flags_def rbind_eq_Inr Let_def)
next
  case (Some path)
  with assms obtain m where "pod_from_manifest m = Inr pws"
    by (auto simp: build_pod_def sbind_eq_Inr split: if_splits)
  from pod_from_manifest_ok[OF this] show ?thesis by auto
qed

text \<open>The manifest that says what a set of flags says.\<close>

definition protocol_text :: "int \<Rightarrow> string" where
  "protocol_text i = (if i = 0 then ''tcp'' else ''UDP'')"

definition manifest_port :: "port \<Rightarrow> port_manifest" where
  "manifest_port p = \<lparr>pm_container_port = port_internal p, pm_host_port = port_external p,
     pm_protocol = protocol_text (port_protocol p)\<rparr>"

definition flag_resources :: "int option \<Rightarrow> int option \<Rightarrow> resources option" where
  "flag_resources cpu memory = (case (cpu, memory) of
     (Some c, Some m) \<Rightarrow> Some \<lparr>res_cpu = c, res_memory = m\<rparr> | _ \<Rightarrow> None)"

definition manifest_of_flags :: "create_pod_args \<Rightarrow> string \<Rightarrow> string \<Rightarrow> pod_manifest" where
  "manifest_of_flags a nm img =
     \<lparr>mf_kind = ''Pod'', mf_name = nm, mf_namespace = (case ca_namespace a of Some n \<Rightarrow> n | None \<Rightarrow> ''default''),
      mf_containers = [\<lparr>cm_name = nm, cm_image = img, cm_ports = map manifest_port (ca_ports a), cm_env = ca_env a\<rparr>],
      mf_resources = Some \<lparr>rm_requests = flag_resources (ca_cpu_request a) (ca_memory_request a),
                           rm_limits = flag_resources (ca_cpu_limit a) (ca_memory_limit a)\<rparr>\<rparr>"

lemma protocol_named_text: "i \<in> {0, 1} \<Longrightarrow> \<exists>p. protocol_named (protocol_text i) = Some p \<and> protocol_i32 p = i"
proof -
  have "protocol_named ''tcp'' = Some Tcp" "protocol_named ''UDP'' = Some Udp" by (code_simp, code_simp)
  then show "i \<in> {0, 1} \<Longrightarrow> \<exists>p. protocol_named (protocol_text i) = Some p \<and> protocol_i32 p = i"
    by (auto simp: protocol_text_def)
qed

lemma port_from_manifest_port:
  assumes "port_protocol p \<in> {0, 1}"
  shows "port_from_manifest (manifest_port p) nm = Inr p"
  using protocol_named_text[OF assms] by (auto simp: port_from_manifest_def manifest_port_def)

lemma parse_port_protocol: "parse_port raw = Inr p \<Longrightarrow> port_protocol p \<in> {0, 1}"
proof -
  assume "parse_port raw = Inr p"
  then obtain q where "port_protocol p = protocol_i32 q"
    by (auto simp: parse_port_def Let_def split: option.splits prod.splits)
  then show ?thesis by (cases q) simp_all
qed

lemma flags_are_a_manifest:
  assumes "pod_from_flags a = Inr pws" and "\<forall>p \<in> set (ca_ports a). port_protocol p \<in> {0, 1}"
  shows "\<exists>nm img. ca_name a = Some nm \<and> ca_image a = Some img \<and> pod_from_manifest (manifest_of_flags a nm img) = Inr pws"
proof -
  obtain nm img where ni: "ca_name a = Some nm" "ca_image a = Some img"
    using assms(1) by (auto simp: pod_from_flags_def rbind_eq_Inr ok_or_eq)
  have "map (\<lambda>p. port_from_manifest p nm) (map manifest_port (ca_ports a)) = map Inr (ca_ports a)"
    using assms(2) port_from_manifest_port by auto
  then have ports: "collect_results (map (\<lambda>p. port_from_manifest p nm) (map manifest_port (ca_ports a))) = Inr (ca_ports a)"
    by (simp only: collect_results_Inr)
  have res: "resources_of_flags c m = Inr r \<Longrightarrow> flag_resources c m = r" for c m r
    by (auto simp: resources_of_flags_def flag_resources_def split: option.splits)
  have "pod_from_manifest (manifest_of_flags a nm img) = Inr pws"
    using assms(1) ni ports
    by (auto simp: pod_from_flags_def rbind_eq_Inr pod_from_manifest_def manifest_of_flags_def container_from_manifest_def
        Let_def dest!: res)
  with ni show ?thesis by blast
qed

section \<open>Columns line up\<close>

lemma widen_length [simp]: "length (widen ws cs) = length ws"
  by (induction ws cs rule: widen.induct) auto

lemma widen_grows: "i < length ws \<Longrightarrow> ws ! i \<le> widen ws cs ! i"
  by (induction ws cs arbitrary: i rule: widen.induct) (auto simp: nth_Cons split: nat.splits)

lemma widen_covers: "i < length ws \<Longrightarrow> i < length cs \<Longrightarrow> char_count (cs ! i) \<le> widen ws cs ! i"
  by (induction ws cs arbitrary: i rule: widen.induct) (auto simp: nth_Cons split: nat.splits)

lemma foldl_widen:
  "length (foldl widen ws rows) = length ws"
  "i < length ws \<Longrightarrow> ws ! i \<le> foldl widen ws rows ! i"
  "i < length ws \<Longrightarrow> row \<in> set rows \<Longrightarrow> i < length row \<Longrightarrow> char_count (row ! i) \<le> foldl widen ws rows ! i"
proof (induction rows arbitrary: ws)
  case (Cons r rows)
  { case 1 show ?case using Cons.IH(1) by simp }
  { case 2 then show ?case using Cons.IH(2)[of "widen ws r"] widen_grows[of i ws r] by simp }
  { case 3
    then show ?case
      using Cons.IH(2)[of "widen ws r"] Cons.IH(3)[of "widen ws r"] widen_covers[of i ws r] by auto }
qed simp_all

lemma join_split:
  "xs \<noteq> [] \<Longrightarrow> ys \<noteq> [] \<Longrightarrow> join sep (xs @ ys) = join sep xs @ sep @ join sep ys"
  by (induction sep xs rule: join.induct) (auto simp: neq_Nil_conv)

text \<open>Where column \<open>j\<close> starts.\<close>

definition column_start :: "nat list \<Rightarrow> nat \<Rightarrow> nat" where
  "column_start ws j = (\<Sum>i<j. ws ! i + 2)"

lemma padded_width: "char_count c \<le> w \<Longrightarrow> char_count (pad_right w c) = w"
  by (simp add: pad_right_def)

lemma joined_width:
  assumes "\<forall>i < n. char_count (f i) = ws ! i" and "0 < n"
  shows "char_count (join ''  '' (map f [0..<n])) + 2 = column_start ws n"
  using assms
proof (induction n)
  case (Suc n)
  show ?case
  proof (cases n)
    case 0
    with Suc.prems show ?thesis by (simp add: column_start_def)
  next
    case (Suc k)
    have two: "char_count ''  '' = 2" by (simp add: char_count_def cont_byte_def)
    have "join ''  '' (map f [0..<n] @ [f n]) = join ''  '' (map f [0..<n]) @ ''  '' @ f n"
      using join_split[of "map f [0..<n]" "[f n]" "''  ''"] Suc by simp
    then have "char_count (join ''  '' (map f [0..<Suc n])) =
        char_count (join ''  '' (map f [0..<n])) + (2 + char_count (f n))"
      by (simp only: upt_Suc_append map_append list.map char_count_simps two le0)
    then show ?thesis
      using Suc.IH Suc.prems Suc by (simp only: column_start_def) simp
  qed
qed simp

lemma columns_line_up:
  assumes "row = headers \<or> row \<in> set rows" and "length row = length headers" and "j < length headers"
  shows "\<exists>before after. format_row (column_widths headers rows) row = before @ row ! j @ after \<and>
     char_count before = column_start (column_widths headers rows) j"
proof -
  let ?ws = "column_widths headers rows"
  let ?f = "\<lambda>i. if i = length row - 1 then row ! i else pad_right (?ws ! i) (row ! i)"
  have fit: "char_count (row ! i) \<le> ?ws ! i" if "i < length headers" for i
    using assms(1,2) that foldl_widen(2,3)[of i "map char_count headers" ] by (auto simp: column_widths_def)
  have n: "[0..<length row] = [0..<j] @ j # [Suc j..<length row]"
    using assms upt_add_eq_append[of 0 j "length row - j"] by (simp add: upt_conv_Cons)
  have "\<exists>t. ?f j = row ! j @ t" by (auto simp: pad_right_def)
  then obtain t where t: "?f j = row ! j @ t" by blast
  define rest where "rest = join ''  '' (map ?f (j # [Suc j..<length row]))"
  have "\<exists>u. rest = ?f j @ u"
    by (cases "map ?f [Suc j..<length row]") (auto simp: rest_def)
  then obtain u where u: "rest = row ! j @ t @ u" using t by auto
  show ?thesis
  proof (cases "j = 0")
    case True
    have "format_row ?ws row = rest" unfolding format_row_def rest_def n True by simp
    with u True show ?thesis by (intro exI[of _ "[]"] exI[of _ "t @ u"]) (simp add: column_start_def)
  next
    case False
    let ?b = "join ''  '' (map ?f [0..<j])"
    have "format_row ?ws row = ?b @ ''  '' @ rest"
      unfolding format_row_def rest_def n map_append using False by (intro join_split) auto
    moreover have "char_count ?b + 2 = column_start ?ws j"
      using fit assms False by (intro joined_width) (auto simp: padded_width)
    moreover have "char_count ''  '' = 2" by (simp add: char_count_def cont_byte_def)
    ultimately show ?thesis using u by (intro exI[of _ "?b @ ''  ''"] exI[of _ "t @ u"]) simp
  qed
qed

section \<open>Against the API server\<close>

text \<open>The client's calls answered by \<open>serve\<close>, which lists the pods in an order \<open>od\<close> of the map.\<close>

definition answer :: "(rpc_reply \<Rightarrow> 'a option) \<Rightarrow> (status + rpc_reply) \<times> 's \<Rightarrow> (status + 'a) \<times> 's" where
  "answer pick rs = (case rs of
     (Inl e, s) \<Rightarrow> (Inl e, s)
   | (Inr rep, s) \<Rightarrow> (ok_or (pick rep) (Status Internal ''unexpected reply''), s))"

definition pod_reply :: "rpc_reply \<Rightarrow> unit option" where
  "pod_reply r = (case r of RepPod _ \<Rightarrow> Some () | _ \<Rightarrow> None)"

definition pods_reply :: "rpc_reply \<Rightarrow> pod_detail list option" where
  "pods_reply r = (case r of RepPods ds \<Rightarrow> Some ds | _ \<Rightarrow> None)"

definition talks_to_api ::
  "('w, 'v) store barectl_env \<Rightarrow> (nat \<Rightarrow> nat) \<Rightarrow> (('w, 'v) store \<Rightarrow> pod_key list) \<Rightarrow> peer \<Rightarrow> bool" where
  "talks_to_api env rc od peer \<longleftrightarrow>
     (\<forall>req w. be_create_pod env req w = answer pod_reply (serve rc (od w) [] peer (RpcCreatePod req) w)) \<and>
     (\<forall>w. be_list_pods env w = answer pods_reply (serve rc (od w) [] peer RpcListPods w)) \<and>
     (\<forall>server tls w r w'. be_connect env server tls w = (Inr r, w') \<longrightarrow> w' = w)"

lemma talks_to_apiD:
  assumes "talks_to_api env rc od peer"
  shows "be_create_pod env req w = answer pod_reply (serve rc (od w) [] peer (RpcCreatePod req) w)"
    and "be_list_pods env w = answer pods_reply (serve rc (od w) [] peer RpcListPods w)"
    and "be_connect env server tls w = (Inr u, w') \<Longrightarrow> w' = w"
  using assms unfolding talks_to_api_def by blast+

lemma connected_api:
  assumes "talks_to_api env rc od peer" and "connect env server tls c = (Inr u, c')"
  shows "cl_api c' = cl_api c \<and> cl_out c' = cl_out c"
  using assms(2) talks_to_apiD(3)[OF assms(1)]
  by (auto simp: connect_def sbind_eq_Inr smap_err_eq_Inr cli_disk_run cli_api_run)

lemma answer_Inr: "answer pick rs = (Inr x, s) \<longleftrightarrow> (\<exists>rep. rs = (Inr rep, s) \<and> pick rep = Some x)"
  by (auto simp: answer_def ok_or_eq split: prod.splits sum.splits)

text \<open>\<open>pod_name\<close> and \<open>pod_namespace\<close> are the store's key.\<close>

lemma pod_key_shown: "pod_key d = (pod_namespace_of d, pod_name_of d)"
  by (auto simp: pod_key_def pod_namespace_of_def pod_name_of_def split: option.splits)

lemma filter_one_value:
  assumes "distinct ks" and "\<And>k v. m k = Some v \<Longrightarrow> P v \<longleftrightarrow> k = k0" and "m k0 = Some d"
  shows "filter P (map_values m ks) = (if k0 \<in> set ks then [d] else [])"
  using assms by (induction ks) (auto simp: map_values_def List.map_filter_simps split: option.splits)

text \<open>What the two calls do to the store.\<close>

lemma created_on_api:
  assumes "talks_to_api env rc od peer" "mem_store w" "be_create_pod env (Some pws) w = (Inr u, w')"
  shows "mem_store w' \<and> sto_pods w' = (sto_pods w)(pod_key (created_pod pws) \<mapsto> created_pod pws)"
proof -
  obtain rep where "serve rc (od w) [] peer (RpcCreatePod (Some pws)) w = (Inr rep, w')"
    using assms(3) talks_to_apiD(1)[OF assms(1)] by (auto simp: answer_Inr)
  then obtain d where "create_pod_impl (Some pws) w = (Inr d, w')"
    by (auto simp: serve_gate sbind_eq_Inr smap_def)
  then show ?thesis
    using assms(2)
    by (auto simp: mem_create_pod_impl validate_create_ok_iff publish_pod_event_def mem_store_def split: sum.splits if_splits)
qed

lemma listed_by_api:
  assumes "talks_to_api env rc od peer" "mem_store w" "be_list_pods env w = (Inr ds, w')"
  shows "w' = w \<and> ds = map_values (sto_pods w) (od w)"
proof -
  obtain rep where "serve rc (od w) [] peer RpcListPods w = (Inr rep, w')" "pods_reply rep = Some ds"
    using assms(3) talks_to_apiD(2)[OF assms(1)] by (auto simp: answer_Inr)
  then show ?thesis
    using assms(2)
    by (auto simp: serve_gate sbind_eq_Inr smap_def list_pods_impl_def smap_err_eq_Inr mem_list_pods pods_reply_def)
qed

lemma create_cmd_on_api:
  assumes api: "talks_to_api env rc od peer" and "mem_store (cl_api c)"
    and built: "build_pod env args c = (Inr pws, c0)" and create: "create_pod_cmd env server tls args c = (Inr u, c1)"
  shows "mem_store (cl_api c1)"
    and "sto_pods (cl_api c1) = (sto_pods (cl_api c))(pod_key (created_pod pws) \<mapsto> created_pod pws)"
proof -
  obtain c' w1 where con: "connect env server tls c0 = (Inr (), c')"
    and call: "be_create_pod env (Some pws) (cl_api c') = (Inr (), w1)" and c1: "cl_api c1 = w1"
    using create built by (auto simp: create_pod_cmd_def sbind_eq_Inr call_api_Inr Let_def println_def)
  have "cl_api c' = cl_api c" using connected_api[OF api con] build_pod_frame[OF built] by simp
  with created_on_api[OF api assms(2), of pws] call c1
  show "mem_store (cl_api c1)"
    "sto_pods (cl_api c1) = (sto_pods (cl_api c))(pod_key (created_pod pws) \<mapsto> created_pod pws)" by auto
qed

definition named_pod :: "string \<Rightarrow> string \<Rightarrow> get_pod_args" where
  "named_pod nm ns = \<lparr>ga_name = Some nm, ga_namespace = Some ns, ga_image = None\<rparr>"

text \<open>
  C26. What \<open>barectl create pod\<close> creates, \<open>barectl get pod <name> -n <namespace>\<close> shows. Against the
  in-memory API server, when a creation (from flags or a manifest) succeeds, a successful query for its
  name and namespace prints exactly the details of the pod that was built, PENDING and on no node,
  whatever other pods there are.
\<close>

theorem created_pod_is_shown:
  assumes api: "talks_to_api env rc od peer" and w: "mem_store (cl_api c)" "wf_store (cl_api c)"
    and built: "build_pod env args c = (Inr pws, c0)" and pod: "pw_pod pws = Some p" "pw_spec pws = Some sp"
    and create: "create_pod_cmd env server tls args c = (Inr u, c1)"
    and order: "iter_order (sto_pods (cl_api c1)) (od (cl_api c1))"
    and get: "get_pod_cmd env server tls (named_pod (p_name p) (ps_namespace sp)) c1 = (Inr v, c2)"
  shows "cl_out c2 = cl_out c1 @ pod_lines (new_pod_detail pws) \<and>
     shown_status (new_pod_detail pws) = PodPending \<and> pd_node_name (new_pod_detail pws) = []"
proof -
  let ?d = "created_pod pws"
  have pending: "p_status p = pod_status_i32 PodPending" using built_pod[OF built] pod by auto
  then have p: "p\<lparr>p_status := pod_status_i32 PodPending\<rparr> = p" by (intro pod.equality) simp_all
  have pws: "pws\<lparr>pw_pod := Some p\<rparr> = pws" by (intro pod_with_spec.equality) (simp_all add: pod)
  have d: "?d = new_pod_detail pws" unfolding created_pod_def pod(1) option.map p pws ..
  have key: "pod_key ?d = (ps_namespace sp, p_name p)" using pod by (simp add: d pod_key_def new_pod_detail_def)
  obtain w1 where c1: "cl_api c1 = w1" by blast
  note w1 = create_cmd_on_api[OF api w(1) built create, unfolded c1]
  let ?args = "named_pod (p_name p) (ps_namespace sp)"
  obtain c3 ds w3 where con: "connect env server tls c1 = (Inr (), c3)" and list: "be_list_pods env (cl_api c3) = (Inr ds, w3)"
    and out: "(let pods = filter (\<lambda>d. matches_filters d ?args) ds
      in if pods = [] then println ''0 pods returned.''
         else if length pods = 1 \<and> ga_name ?args \<noteq> None then print_lines (pod_lines (pods ! 0))
         else print_lines (format_table pod_headers
                (map pod_row (sort_key (\<lambda>d. (pod_namespace_of d, pod_name_of d)) pods)))) (c3\<lparr>cl_api := w3\<rparr>) = (Inr v, c2)"
    using get by (auto simp: get_pod_cmd_def sbind_eq_Inr call_api_Inr)
  have c3: "cl_api c3 = w1" "cl_out c3 = cl_out c1" using connected_api[OF api con] c1 by simp_all
  have ds: "ds = map_values (sto_pods w1) (od w1)" using listed_by_api[OF api] list w1(1) c3 by auto
  have "matches_filters e ?args \<longleftrightarrow> k = pod_key ?d" if "sto_pods w1 k = Some e" for k e
  proof -
    have "pod_key e = k" using that w1(2) wf_storeD(1)[OF w(2), of k e] by (auto split: if_splits)
    then show ?thesis using key by (auto simp: matches_filters_def named_pod_def pod_key_shown)
  qed
  moreover have "iter_order (sto_pods w1) (od w1)" using order c1 by simp
  ultimately have "filter (\<lambda>d. matches_filters d ?args) ds = [?d]"
    using filter_one_value[of "od w1" "sto_pods w1" "\<lambda>d. matches_filters d ?args" "pod_key ?d" ?d] w1(2)
    unfolding ds iter_order_def by auto
  then have "cl_out c2 = cl_out c1 @ pod_lines ?d" using out c3 by (auto simp: named_pod_def print_lines_def)
  moreover have "shown_status ?d = PodPending" using pod pending by (simp add: d shown_status_def new_pod_detail_def pod_status_of_i32_def)
  ultimately show ?thesis by (simp add: d new_pod_detail_def)
qed

text \<open>A client without TLS, and a server that knows no pod yet.\<close>

definition one_order :: "(unit, unit) store \<Rightarrow> pod_key list" where
  "one_order w = [(''default'', ''web'')]"

definition mini_client :: "(unit, unit) store barectl_env" where
  "mini_client = \<lparr>be_cfg = mini_cfg, be_manifest = (\<lambda>_. Inl ''none''), be_bad_uri = (\<lambda>_. None),
     be_connect = (\<lambda>_ _ w. (Inr (), w)),
     be_create_pod = (\<lambda>req w. answer pod_reply (serve id (one_order w) [] Plaintext (RpcCreatePod req) w)),
     be_list_pods = (\<lambda>w. answer pods_reply (serve id (one_order w) [] Plaintext RpcListPods w)),
     be_get_node = (\<lambda>_ w. (Inr None, w)), be_list_nodes = (\<lambda>w. (Inr [], w)), be_delete_pod = (\<lambda>_ _ w. (Inr (), w)),
     be_completion = (\<lambda>sh. sh), be_stdout = (\<lambda>_. None)\<rparr>"

definition web_flags :: create_pod_args where
  "web_flags = \<lparr>ca_file = None, ca_name = Some ''web'', ca_namespace = None, ca_image = Some ''nginx'', ca_ports = [],
     ca_env = [], ca_cpu_request = None, ca_memory_request = None, ca_cpu_limit = Some 250, ca_memory_limit = Some 128\<rparr>"

definition web_built :: pod_with_spec where
  "web_built = \<lparr>pw_pod = Some \<lparr>p_name = ''web'', p_status = 0, p_requests = None,
       p_limits = Some \<lparr>res_cpu = 250, res_memory = 128\<rparr>\<rparr>,
     pw_spec = Some \<lparr>ps_namespace = ''default'',
       ps_containers = [\<lparr>ct_name = ''web'', ct_image = ''nginx'', ct_ports = [], ct_env = []\<rparr>]\<rparr>\<rparr>"

definition terminal :: "(unit, unit) store cli" where
  "terminal = \<lparr>cl_disk = pki_disk, cl_out = [], cl_api = store_new ()\<rparr>"

definition after_create :: "(unit, unit) store cli" where
  "after_create = snd (create_pod_cmd mini_client mini_server TlsPlaintext web_flags terminal)"

definition after_get :: "(unit, unit) store cli" where
  "after_get = snd (get_pod_cmd mini_client mini_server TlsPlaintext (named_pod ''web'' ''default'') after_create)"

lemma mini_talks: "talks_to_api mini_client id one_order Plaintext"
  by (simp add: talks_to_api_def mini_client_def)

lemma web_builds: "build_pod mini_client web_flags terminal = (Inr web_built, terminal)"
  by (simp add: build_pod_def web_flags_def pod_from_flags_def resources_of_flags_def Let_def web_built_def)

lemma create_runs: "create_pod_cmd mini_client mini_server TlsPlaintext web_flags terminal = (Inr (), after_create)"
proof -
  have "fst (create_pod_cmd mini_client mini_server TlsPlaintext web_flags terminal) = Inr ()" by code_simp
  then show ?thesis unfolding after_create_def by (metis prod.collapse)
qed

lemma get_runs:
  "get_pod_cmd mini_client mini_server TlsPlaintext (named_pod ''web'' ''default'') after_create = (Inr (), after_get)"
proof -
  have "fst (get_pod_cmd mini_client mini_server TlsPlaintext (named_pod ''web'' ''default'') after_create) = Inr ()"
    by code_simp
  then show ?thesis unfolding after_get_def by (metis prod.collapse)
qed

theorem created_pod_is_shown_witness:
  "cl_out after_get = cl_out after_create @ pod_lines (new_pod_detail web_built) \<and>
   hd (pod_lines (new_pod_detail web_built)) = ''Name:        web''"
proof -
  have w: "mem_store (cl_api terminal)" "wf_store (cl_api terminal)"
    using wf_store_new by (simp_all add: terminal_def)
  note create_cmd_on_api(2)[OF mini_talks w(1) web_builds create_runs]
  moreover have "pod_key (created_pod web_built) = (''default'', ''web'')" by code_simp
  ultimately have "iter_order (sto_pods (cl_api after_create)) (one_order (cl_api after_create))"
    by (simp add: terminal_def store_new_def iter_order_def one_order_def)
  note shown = created_pod_is_shown[OF mini_talks w web_builds _ _ create_runs this]
  have "pw_pod web_built = Some (the (pw_pod web_built))" "pw_spec web_built = Some (the (pw_spec web_built))"
      "p_name (the (pw_pod web_built)) = ''web''" "ps_namespace (the (pw_spec web_built)) = ''default''"
    by (simp_all add: web_built_def)
  then have "cl_out after_get = cl_out after_create @ pod_lines (new_pod_detail web_built)"
    using shown[of "the (pw_pod web_built)" "the (pw_spec web_built)"] get_runs by auto
  then show ?thesis by (simp add: pod_lines_def pod_name_of_def new_pod_detail_def web_built_def)
qed

end
