(* ===== verification/Cni_Invariant.thy ===== *)
theory Cni_Invariant imports Cni_Workload begin

text \<open>
  What the CNI daemon promises about addresses and host ports over any sequence of requests, whatever
  the commands answer, on a file system on which record files can be removed and directories synced.
\<close>

section \<open>The invariant\<close>

definition addressed :: "nat \<Rightarrow> (string \<Rightarrow> ipv4 set) \<Rightarrow> workload_record \<Rightarrow> bool" where
  "addressed node T r \<longleftrightarrow> wr_vlan_id r \<le> 255 \<and>
     (\<exists>a. wr_ip_address r = show_ipv4 a \<and> in_pool (wr_vlan_id r) node a \<and> a \<in> T (pool_dir (wr_vlan_id r)))"

definition shares_port :: "workload_record \<Rightarrow> workload_record \<Rightarrow> bool" where
  "shares_port r1 r2 \<longleftrightarrow> (\<exists>pr hp. maps_port pr hp r1 \<and> maps_port pr hp r2)"

definition cni_inv :: "nat \<Rightarrow> (string \<rightharpoonup> workload_record stored) \<Rightarrow> (string \<Rightarrow> ipv4 set) \<Rightarrow> bool" where
  "cni_inv node f T \<longleftrightarrow>
     (\<forall>nm r. f nm = Some (Content r) \<longrightarrow> has_json_extension nm \<and> addressed node T r) \<and>
     (\<forall>n1 n2 r1 r2. f n1 = Some (Content r1) \<longrightarrow> f n2 = Some (Content r2) \<longrightarrow> n1 \<noteq> n2 \<longrightarrow>
        wr_ip_address r1 \<noteq> wr_ip_address r2 \<and> \<not> shares_port r1 r2)"

definition unused :: "(string \<rightharpoonup> workload_record stored) \<Rightarrow> ipv4 \<Rightarrow> bool" where
  "unused f a \<longleftrightarrow> (\<forall>nm r. f nm = Some (Content r) \<longrightarrow> wr_ip_address r \<noteq> show_ipv4 a)"

lemma shares_port_sym: "shares_port r1 r2 = shares_port r2 r1"
  by (auto simp: shares_port_def)

lemma cni_invD:
  assumes "cni_inv node f T"
  shows "f nm = Some (Content r) \<Longrightarrow> has_json_extension nm" "f nm = Some (Content r) \<Longrightarrow> addressed node T r"
    "f n1 = Some (Content r1) \<Longrightarrow> f n2 = Some (Content r2) \<Longrightarrow> n1 \<noteq> n2 \<Longrightarrow> wr_ip_address r1 \<noteq> wr_ip_address r2"
    "f n1 = Some (Content r1) \<Longrightarrow> f n2 = Some (Content r2) \<Longrightarrow> n1 \<noteq> n2 \<Longrightarrow> \<not> shares_port r1 r2"
  using assms unfolding cni_inv_def by blast+

lemma cni_invI:
  assumes "\<And>nm r. f nm = Some (Content r) \<Longrightarrow> has_json_extension nm \<and> addressed node T r"
    and "\<And>n1 n2 r1 r2. f n1 = Some (Content r1) \<Longrightarrow> f n2 = Some (Content r2) \<Longrightarrow> n1 \<noteq> n2 \<Longrightarrow>
        wr_ip_address r1 \<noteq> wr_ip_address r2 \<and> \<not> shares_port r1 r2"
  shows "cni_inv node f T"
  using assms unfolding cni_inv_def by blast

lemma inv_grow: "cni_inv node f T \<Longrightarrow> (\<And>d. T d \<subseteq> T' d) \<Longrightarrow> cni_inv node f T'"
  unfolding cni_inv_def addressed_def by blast

lemma inv_delete: "cni_inv node f T \<Longrightarrow> cni_inv node (f(nm := None)) T"
  unfolding cni_inv_def by (auto split: if_splits)

lemma inv_release:
  assumes "cni_inv node f T" "unused f a"
  shows "cni_inv node f (T(d := T d - {a}))"
proof (rule cni_invI)
  fix nm r assume r: "f nm = Some (Content r)"
  then obtain b where "wr_vlan_id r \<le> 255" "wr_ip_address r = show_ipv4 b" "in_pool (wr_vlan_id r) node b"
      "b \<in> T (pool_dir (wr_vlan_id r))"
    using cni_invD(2)[OF assms(1)] unfolding addressed_def by blast
  moreover from this have "b \<noteq> a" using assms(2) r by (auto simp: unused_def)
  ultimately have "addressed node (T(d := T d - {a})) r" by (auto simp: addressed_def)
  then show "has_json_extension nm \<and> addressed node (T(d := T d - {a})) r"
    using cni_invD(1)[OF assms(1) r] by simp
qed (use cni_invD(3,4)[OF assms(1)] in blast)

lemma unused_delete: "unused f a \<Longrightarrow> unused (f(nm := None)) a"
  by (auto simp: unused_def split: if_splits)

lemma deleted_unused:
  assumes "cni_inv node f T" "f nm = Some (Content r)" "wr_ip_address r = show_ipv4 a"
  shows "unused (f(nm := None)) a"
  unfolding unused_def
proof (intro allI impI)
  fix n r' assume "(f(nm := None)) n = Some (Content r')"
  then have "n \<noteq> nm" "f n = Some (Content r')" by (auto split: if_splits)
  from cni_invD(3)[OF assms(1) this(2) assms(2) this(1)] assms(3) show "wr_ip_address r' \<noteq> show_ipv4 a" by simp
qed

lemma free_unused:
  assumes inv: "cni_inv node f T" and a: "in_pool vlan node a" "a \<notin> T (pool_dir vlan)" "vlan \<le> 255" "node \<le> 255"
  shows "unused f a"
  unfolding unused_def
proof (intro allI impI notI)
  fix nm r assume r: "f nm = Some (Content r)" and ip: "wr_ip_address r = show_ipv4 a"
  obtain b where b: "wr_vlan_id r \<le> 255" "wr_ip_address r = show_ipv4 b" "in_pool (wr_vlan_id r) node b"
      "b \<in> T (pool_dir (wr_vlan_id r))"
    using cni_invD(2)[OF inv r] unfolding addressed_def by blast
  have "a = b"
    using show_ipv4_inj[of a b] ip b(2) in_pool_bound[OF a(1,3,4)] in_pool_bound[OF b(3,1) a(4)] by simp
  moreover from this have "vlan = wr_vlan_id r" using in_pool_disjoint[OF a(1), of "wr_vlan_id r" node] b(3) a(4) by simp
  ultimately show False using a(2) b(4) by simp
qed

lemma inv_save:
  assumes inv: "cni_inv node f T" and ip: "unused f a" "wr_ip_address r = show_ipv4 a"
    and ok: "addressed node T r" "has_json_extension path"
    and ports: "\<And>nm r'. f nm = Some (Content r') \<Longrightarrow> \<not> shares_port r' r"
  shows "cni_inv node (f(path \<mapsto> Content r)) T"
proof (rule cni_invI)
  fix nm r' assume "(f(path \<mapsto> Content r)) nm = Some (Content r')"
  then show "has_json_extension nm \<and> addressed node T r'"
    using cni_invD(1,2)[OF inv] ok by (auto split: if_splits)
next
  fix n1 n2 r1 r2
  assume n: "(f(path \<mapsto> Content r)) n1 = Some (Content r1)" "(f(path \<mapsto> Content r)) n2 = Some (Content r2)" "n1 \<noteq> n2"
  have new: "wr_ip_address r' \<noteq> wr_ip_address r \<and> \<not> shares_port r' r" if "f nm = Some (Content r')" for nm r'
    using that ip ports by (simp add: unused_def)
  consider "n1 = path" | "n2 = path" | "n1 \<noteq> path" "n2 \<noteq> path" by blast
  then show "wr_ip_address r1 \<noteq> wr_ip_address r2 \<and> \<not> shares_port r1 r2"
  proof cases
    case 1
    then show ?thesis using n new[of n2 r2] shares_port_sym[of r1 r2] by auto
  next
    case 2
    then show ?thesis using n new[of n1 r1] by auto
  next
    case 3
    then show ?thesis using n cni_invD(3,4)[OF inv, of n1 r1 n2 r2] by simp
  qed
qed

section \<open>Every request keeps it\<close>

text \<open>
  Hosts on which removing a record file and syncing a directory never fail, no call reports a file that
  is there as missing, and the digest is not empty. Every other call may fail at any time, and a call
  that fails has no effect. A removal that does fail is what \<open>failed_removal_shares_address\<close> in
  \<open>Cni_Examples\<close> shows: the address is in the pool again while the record still names it.
\<close>

definition durable :: "'k host \<Rightarrow> bool" where
  "durable h \<longleftrightarrow> honest h \<and> synced h \<and> (\<forall>t. h_fault h t FsRemove = None) \<and> (\<forall>x. h_digest h x \<noteq> [])"

lemma durableD: "durable h \<Longrightarrow> honest h \<and> synced h"
  by (simp add: durable_def)

lemma stable_id_not_Nil: "durable h \<Longrightarrow> stable_id h parts \<noteq> []"
  by (cases "h_digest h (hashed_bytes parts)") (auto simp: stable_id_def hex_byte_def durable_def)

lemma keeps_files_taken: "keeps_files f \<Longrightarrow> f s = (r, s') \<Longrightarrow> c_state s' = c_state s \<and> taken s' = taken s"
  using keeps_filesD[of f s r s'] taken_cong[of s' s] by blast

lemma release_frame_pool:
  assumes "durable h" "release h p a s = (r, s')"
  shows "c_state s' = c_state s \<and>
     (taken s' = taken s \<or> taken s' = (taken s)(pl_dir p := taken s (pl_dir p) - {a}))"
proof (cases "a < pl_first p \<or> pl_last p < a")
  case True
  with assms(2) show ?thesis by (auto simp: release_def fail_with_def)
next
  case False
  with assms(2) have "with_pool_state h p (\<lambda>A. Inr (a \<in> A, A - {a})) s = (r, s')" by (simp add: release_def)
  from with_pool_state_frame[OF this] durableD[OF assms(1)] show ?thesis by auto
qed

lemma release_failed:
  assumes "durable h" "release h p a s = (Inl e, s')"
  shows "c_state s' = c_state s \<and> taken s' = taken s"
proof (cases "a < pl_first p \<or> pl_last p < a")
  case True
  with assms(2) show ?thesis by (auto simp: release_def fail_with_def)
next
  case False
  with assms(2) have "with_pool_state h p (\<lambda>A. Inr (a \<in> A, A - {a})) s = (Inl e, s')" by (simp add: release_def)
  from with_pool_state_frame[OF this] durableD[OF assms(1)] show ?thesis by auto
qed

lemma release_record_frame:
  assumes h: "durable h" and node: "node \<le> 255" and inv: "cni_inv node f T" and r: "f nm = Some (Content r)"
    and run: "release_record_ip h node r s = (res, s')" and s: "c_state s = f" "taken s = T"
  shows "c_state s' = f \<and> (taken s' = T \<or> (\<exists>a. wr_ip_address r = show_ipv4 a \<and>
     taken s' = T(pool_dir (wr_vlan_id r) := T (pool_dir (wr_vlan_id r)) - {a}) \<and> (\<exists>u. res = Inr u)))"
proof -
  obtain a where a: "wr_vlan_id r \<le> 255" "wr_ip_address r = show_ipv4 a" "in_pool (wr_vlan_id r) node a"
    using cni_invD(2)[OF inv r] unfolding addressed_def by blast
  then have parse: "parse_ipv4 (wr_ip_address r) = Some a"
    using parse_show_ipv4 in_pool_bound[OF a(3,1) node] by simp
  show ?thesis
  proof (cases "parse_ipv4 (wr_ip_address r)")
    case None
    with run s show ?thesis by (auto simp: release_record_ip_def fail_with_def)
  next
    case (Some b)
    then have b: "b = a" using parse by simp
    obtain p where p: "pool node (wr_vlan_id r) = Inr p" "pl_dir p = pool_dir (wr_vlan_id r)" using a(1) by (auto simp: pool_eq)
    obtain r1 s1 where rel: "release h p a s = (r1, s1)" by fastforce
    have s1: "s' = s1" "(\<exists>x. r1 = Inr x) \<longrightarrow> res = Inr ()"
      using run Some rel p(1) b by (auto simp: release_record_ip_def sbind_def split: sum.splits if_splits)
    show ?thesis
    proof (cases r1)
      case (Inl e)
      with rel release_failed[OF h, of p a s e s1] s1 s show ?thesis by simp
    next
      case (Inr x)
      with release_frame_pool[OF h rel] s1 s p(2) a(2) show ?thesis by auto
    qed
  qed
qed

text \<open>Releasing a record's address and removing the record, one after the other.\<close>

lemma release_then_delete:
  assumes h: "durable h" and node: "node \<le> 255" and inv: "cni_inv node (c_state s) (taken s)"
    and r: "c_state s (state_path h w i n) = Some (Content r)"
    and run: "sbind (release_record_ip h node r) (\<lambda>_. delete_record h w i n) s = (res, s')"
  shows "cni_inv node (c_state s') (taken s') \<and> (\<forall>x. res = Inr x \<longrightarrow> c_state s' (state_path h w i n) = None) \<and>
     (\<forall>nm. c_state s' nm = c_state s nm \<or> c_state s' nm = None)"
proof -
  let ?p = "state_path h w i n"
  obtain r1 s1 where rel: "release_record_ip h node r s = (r1, s1)" by fastforce
  note one = release_record_frame[OF h node inv r rel refl refl]
  show ?thesis
  proof (cases r1)
    case (Inl e)
    with run rel one inv show ?thesis by auto
  next
    case (Inr u)
    obtain r2 s2 where del: "delete_record h w i n s1 = (r2, s2)" by fastforce
    have s2: "(res, s') = (r2, s2)" using run rel Inr del by simp
    note two = delete_record_frame[OF del]
    have gone: "\<exists>b. r2 = Inr b"
      using del h by (auto simp: delete_record_def durable_def synced_def fs_run sbind_fs Let_def split: if_splits)
    then have f': "c_state s' = (c_state s)(?p := None)" and T': "taken s' = taken s1"
      using two durableD[OF h] one s2 taken_cong[of s2 s1] by auto
    have "cni_inv node ((c_state s)(?p := None)) (taken s1)"
      using one inv_delete[OF inv, of ?p] inv_release[OF inv_delete[OF inv, of ?p]] deleted_unused[OF inv r] by auto
    then show ?thesis using f' T' by auto
  qed
qed

lemma undo_frame:
  assumes h: "durable h" and inv: "cni_inv node (c_state s) (taken s)" and free: "unused (c_state s) a"
  shows "cni_inv node (c_state (snd (undo_attach h hi p a s))) (taken (snd (undo_attach h hi p a s)))"
proof -
  obtain r1 s1 where one: "ignoring (run h ''ip'' [''link'', ''delete'', hi]) s = (r1, s1)" by fastforce
  then have ok: "r1 = Inr ()" by (auto simp: ignoring_def)
  have k: "c_state s1 = c_state s" "taken s1 = taken s"
    using keeps_files_taken[OF keeps_files_ignoring[OF keeps_files_run] one] by simp_all
  obtain r2 s2 where two: "release h p a s1 = (r2, s2)" by fastforce
  have "snd (undo_attach h hi p a s) = s2"
    using one ok two by (simp add: undo_attach_def sbind_def ignoring_def)
  then show ?thesis
    using release_frame_pool[OF h two] k inv inv_release[OF inv free, of "pl_dir p"] by auto
qed

lemma connect_keeps:
  assumes h: "durable h" and inv: "cni_inv node (c_state s) (taken s)" and free: "unused (c_state s) a"
    and ip: "wr_ip_address r = show_ipv4 a" and adr: "addressed node (taken s) r"
    and ports: "\<And>nm r'. c_state s nm = Some (Content r') \<Longrightarrow> \<not> shares_port r' r"
    and run: "connect_workload h ns pid p a r m s = (res, s')"
  shows "cni_inv node (c_state s') (taken s')"
proof -
  let ?undo = "undo_attach h (wr_host_interface r) p a"
  let ?links = "setup_interfaces h ns pid (wr_host_interface r) (wr_interface_name r) (wr_ip_address r @ ''/16'')
          (wr_gateway r) (wr_vlan_id r) m"
  obtain r1 s1 where one: "?links s = (r1, s1)" by fastforce
  have k1: "c_state s1 = c_state s" "taken s1 = taken s" using keeps_files_taken[OF keeps_files_setup one] by simp_all
  show ?thesis
  proof (cases r1)
    case (Inl e)
    then have "s' = snd (?undo s1)" using run one by (simp add: connect_workload_def on_error_def sbind_def)
    with undo_frame[OF h, of node s1 a] inv free k1 show ?thesis by simp
  next
    case (Inr u1)
    obtain r2 s2 where two: "add_mappings h (wr_ip_address r) (wr_port_mappings r) s1 = (r2, s2)" by fastforce
    have k2: "c_state s2 = c_state s" "taken s2 = taken s"
      using keeps_files_taken[OF keeps_files_mappings(1) two] k1 by simp_all
    show ?thesis
    proof (cases r2)
      case (Inl e)
      then have "s' = snd (?undo s2)" using run one Inr two by (simp add: connect_workload_def on_error_def sbind_def)
      with undo_frame[OF h, of node s2 a] inv free k2 show ?thesis by simp
    next
      case (Inr u2)
      obtain r3 s3 where three: "save h r s2 = (r3, s3)" by fastforce
      note sv = save_frame[OF three]
      have T3: "taken s3 = taken s" using sv k2 taken_cong[of s3 s2] by simp
      show ?thesis
      proof (cases r3)
        case (Inl e)
        then have f3: "c_state s3 = c_state s" using sv durableD[OF h] k2 by simp
        obtain r4 s4 where four: "ignoring (delete_mappings h (wr_ip_address r) (wr_port_mappings r)) s3 = (r4, s4)"
          by fastforce
        then have "r4 = Inr ()" by (auto simp: ignoring_def)
        then have "s' = snd (?undo s4)"
          using run one \<open>r1 = Inr u1\<close> two Inr three Inl four by (simp add: connect_workload_def on_error_def sbind_def)
        moreover have "c_state s4 = c_state s" "taken s4 = taken s"
          using keeps_files_taken[OF keeps_files_ignoring[OF keeps_files_mappings(2)] four] f3 T3 by simp_all
        ultimately show ?thesis using undo_frame[OF h, of node s4 a] inv free by simp
      next
        case (Inr u3)
        then have "s' = s3"
          using run one \<open>r1 = Inr u1\<close> two \<open>r2 = Inr u2\<close> three by (simp add: connect_workload_def on_error_def sbind_def)
        moreover have "c_state s3 = (c_state s)(record_path h r \<mapsto> Content r)" using sv Inr k2 by simp
        moreover have "has_json_extension (record_path h r)"
          using stable_id_not_Nil[OF h] by (simp add: record_path_def record_path_json)
        ultimately show ?thesis using inv_save[OF inv free ip adr _ ports] T3 by simp
      qed
    qed
  qed
qed

lemma attach_keeps:
  assumes h: "durable h" and inv: "cni_inv node (c_state s) (taken s)" and v: "nw_vlan_id n \<le> 255" "node \<le> 255"
    and ports: "\<And>nm r' pr hp. c_state s nm = Some (Content r') \<Longrightarrow> maps_port pr hp r' \<Longrightarrow>
        (\<forall>m \<in> set mappings. port_protocol m = pr \<longrightarrow> port_external m \<noteq> hp)"
    and run: "attach_workload h node ns w n pid i mappings s = (res, s')"
  shows "cni_inv node (c_state s') (taken s')"
proof -
  obtain p where p: "pool node (nw_vlan_id n) = Inr p" "pl_dir p = pool_dir (nw_vlan_id n)" using v by (auto simp: pool_eq)
  show ?thesis
  proof (cases "node_id h")
    case (Inl e)
    with run inv show ?thesis by (simp add: attach_workload_def sbind_def)
  next
    case (Inr this_node)
    obtain r1 s1 where one: "ensure_vlan h (nw_vlan_id n mod 256) this_node s = (r1, s1)" by fastforce
    have k1: "c_state s1 = c_state s" "taken s1 = taken s" using keeps_files_taken[OF keeps_files_network(3) one] by simp_all
    show ?thesis
    proof (cases r1)
      case (Inl e)
      with run inv Inr one k1 show ?thesis by (simp add: attach_workload_def sbind_def)
    next
      case (Inr gw)
      obtain r2 s2 where two: "allocate h p s1 = (r2, s2)" by fastforce
      note al = with_pool_state_frame[OF two[unfolded allocate_def], unfolded p(2)]
      show ?thesis
      proof (cases r2)
        case (Inl e)
        have "s' = s2" using run \<open>node_id h = Inr this_node\<close> one Inr two Inl p(1) by (simp add: attach_workload_def sbind_def)
        then show ?thesis using al durableD[OF h] k1 inv Inl by simp
      next
        case (Inr a)
        obtain A where A: "take_free p (taken s (pool_dir (nw_vlan_id n))) = Inr (a, A)"
            "taken s2 = (taken s)(pool_dir (nw_vlan_id n) := A)" "c_state s2 = c_state s"
          using al durableD[OF h] k1 Inr by auto
        have a: "a \<notin> taken s (pool_dir (nw_vlan_id n))" "in_pool (nw_vlan_id n) node a"
            "A = insert a (taken s (pool_dir (nw_vlan_id n)))"
          using take_free_ok[OF A(1)] p(1) by (auto simp: pool_eq in_pool_def pool_range_def)
        have inv2: "cni_inv node (c_state s2) (taken s2)"
          unfolding A(2,3) a(3) by (rule inv_grow[OF inv]) auto
        have free: "unused (c_state s2) a" using free_unused[OF inv a(2,1) v] A(3) by simp
        let ?r = "new_record h w n i a gw mappings"
        have adr: "addressed node (taken s2) ?r" using v a A(2) by (auto simp: addressed_def new_record_def)
        have disj: "\<not> shares_port r' ?r" if "c_state s2 nm = Some (Content r')" for nm r'
          using ports[of nm r'] that A(3) unfolding shares_port_def by (auto simp: new_record_def maps_port_def)
        show ?thesis
        proof (cases "mtu h")
          case (Inl e)
          then have "s' = s2"
            using run \<open>node_id h = Inr this_node\<close> one \<open>r1 = Inr gw\<close> two Inr p(1) by (simp add: attach_workload_def sbind_def)
          with inv2 show ?thesis by simp
        next
          case (Inr m)
          then have "connect_workload h ns pid p a ?r m s2 = (res, s')"
            using run \<open>node_id h = Inr this_node\<close> one \<open>r1 = Inr gw\<close> two \<open>r2 = Inr a\<close> p(1)
            by (simp add: attach_workload_def sbind_def)
          from connect_keeps[OF h inv2 free _ adr disj this] show ?thesis by (simp add: new_record_def)
        qed
      qed
    qed
  qed
qed

lemma check_ports_sound:
  assumes "honest h" "check_ports_free h ord ms s = (Inr (), s')" "dom (c_state s) \<subseteq> set ord"
    and json: "\<And>nm r. c_state s nm = Some (Content r) \<Longrightarrow> has_json_extension nm"
  shows "\<forall>m \<in> set ms. \<forall>nm r. c_state s nm = Some (Content r) \<longrightarrow> \<not> maps_port (port_protocol m) (port_external m) r"
  using assms(2-4)
proof (induction ms arbitrary: s)
  case (Cons m ms)
  obtain used s1 where pu: "port_is_used h ord (port_protocol m) (port_external m) s = (Inr used, s1)"
      and rest: "check_ports_free h ord ms s1 = (Inr (), s')" and no: "\<not> used"
    using Cons.prems(1) by (auto simp: sbind_eq_Inr fail_with_def split: if_splits)
  note fr = port_is_used_frame[OF pu]
  then have here: "\<not> maps_port (port_protocol m) (port_external m) r" if "c_state s nm = Some (Content r)" for nm r
    using assms(1) no that Cons.prems(2,3) by fastforce
  have "\<forall>m \<in> set ms. \<forall>nm r. c_state s1 nm = Some (Content r) \<longrightarrow> \<not> maps_port (port_protocol m) (port_external m) r"
    using Cons.IH[OF rest] Cons.prems(2,3) fr by simp
  with here fr show ?case by auto
qed simp

end
