(* ===== verification/Cni_Safety.thy ===== *)
theory Cni_Safety imports Cni_Invariant begin

text \<open>
  The requests of the CNI daemon keep its invariant; a concrete host to run them on; and what a failed
  removal after a released address leads to.
\<close>

section \<open>Requests\<close>

lemma validated_vlan:
  "validate_add_request req = Inr (w, n, pid, i) \<Longrightarrow> 1 \<le> nw_vlan_id n \<and> nw_vlan_id n \<le> 255"
  by (auto simp: validate_add_request_def rbind_eq_Inr Let_def split: if_splits)

lemma existing_keeps:
  assumes h: "durable h" and node: "node \<le> 255" and inv: "cni_inv node (c_state s) (taken s)"
    and r: "c_state s (state_path h (wl_workload_name w) (wl_instance_name w) (nw_network_name n)) = Some (Content r)"
    and run: "existing_network h node n i mappings w r s = (res, s')"
  shows "cni_inv node (c_state s') (taken s') \<and> (\<forall>nm. c_state s' nm = c_state s nm \<or> c_state s' nm = None)"
proof (cases "wr_interface_name r \<noteq> i \<or> wr_vlan_id r \<noteq> nw_vlan_id n \<or> wr_port_mappings r \<noteq> mappings")
  case True
  with run inv show ?thesis by (simp add: existing_network_def fail_with_def)
next
  case False
  obtain r1 s1 where one: "ip_ok h [''link'', ''show'', ''dev'', wr_host_interface r] s = (r1, s1)" by fastforce
  have k1: "c_state s1 = c_state s" "taken s1 = taken s" using keeps_files_taken[OF keeps_files_base(1) one] by simp_all
  show ?thesis
  proof (cases r1)
    case (Inl e)
    with run one False k1 inv show ?thesis by (simp add: existing_network_def)
  next
    case (Inr there)
    show ?thesis
    proof (cases there)
      case True
      obtain r2 s2 where two: "add_mappings h (wr_ip_address r) (wr_port_mappings r) s1 = (r2, s2)" by fastforce
      have "s' = s2" using run one False Inr True two by (cases r2) (simp_all add: existing_network_def)
      with keeps_files_taken[OF keeps_files_mappings(1) two] k1 inv show ?thesis by simp
    next
      case gone: False
      obtain r2 s2 where two: "delete_mappings h (wr_ip_address r) (wr_port_mappings r) s1 = (r2, s2)" by fastforce
      have k2: "c_state s2 = c_state s" "taken s2 = taken s"
        using keeps_files_taken[OF keeps_files_mappings(2) two] k1 by simp_all
      show ?thesis
      proof (cases r2)
        case (Inl e)
        with run one False Inr gone two k2 inv show ?thesis by (simp add: existing_network_def)
      next
        case (Inr u)
        obtain r3 s3 where three: "sbind (release_record_ip h node r) (\<lambda>_. delete_record h (wl_workload_name w)
            (wl_instance_name w) (nw_network_name n)) s2 = (r3, s3)" by fastforce
        have "s' = s3"
          using run one False \<open>r1 = Inr there\<close> gone two Inr three
          by (auto simp: existing_network_def sbind_def split: prod.splits sum.splits)
        with release_then_delete[OF h node _ _ three] inv r k2 show ?thesis by simp
      qed
    qed
  qed
qed

lemma add_keeps:
  assumes h: "durable h" and node: "node \<le> 255" and inv: "cni_inv node (c_state s) (taken s)"
    and ord: "dom (c_state s) \<subseteq> set ord" and run: "add_workload_network h node ord req s = (res, s')"
  shows "cni_inv node (c_state s') (taken s')"
proof (cases "validate_add_request req")
  case (Inl e)
  with run inv show ?thesis by (simp add: add_workload_network_def sbind_def)
next
  case (Inr q)
  obtain w n pid i where q: "validate_add_request req = Inr (w, n, pid, i)" using Inr by (cases q) auto
  obtain r1 s1 where one: "open_netns h (an_netns_path req) s = (r1, s1)" by fastforce
  have k1: "c_state s1 = c_state s" "taken s1 = taken s" using keeps_files_taken[OF keeps_files_network(4) one] by simp_all
  have unchanged: ?thesis if "c_state s' = c_state s" "taken s' = taken s" using that inv by simp
  show ?thesis
  proof (cases r1)
    case (Inl e)
    with run q one k1 unchanged show ?thesis by (simp add: add_workload_network_def sbind_def)
  next
    case (Inr ns)
    show ?thesis
    proof (cases "validate_mappings (an_port_mappings req)")
      case (Inl e)
      with run q one Inr k1 unchanged show ?thesis by (simp add: add_workload_network_def sbind_def)
    next
      case (Inr u)
      obtain r2 s2 where two: "load h (wl_workload_name w) (wl_instance_name w) (nw_network_name n) s1 = (r2, s2)"
        by fastforce
      note ld = load_frame[OF two]
      have k2: "c_state s2 = c_state s" "taken s2 = taken s" using ld k1 taken_cong[of s2 s1] by simp_all
      show ?thesis
      proof (cases r2)
        case (Inl e)
        with run q one \<open>r1 = Inr ns\<close> Inr two k2 unchanged show ?thesis by (simp add: add_workload_network_def sbind_def)
      next
        case found: (Inr fo)
        let ?ex = "case fo of None \<Rightarrow> sret None | Some r \<Rightarrow> existing_network h node n i (an_port_mappings req) w r"
        obtain r3 s3 where three: "?ex s2 = (r3, s3)" by fastforce
        have k3: "cni_inv node (c_state s3) (taken s3)" "dom (c_state s3) \<subseteq> set ord"
        proof -
          have "cni_inv node (c_state s3) (taken s3) \<and> (\<forall>nm. c_state s3 nm = c_state s2 nm \<or> c_state s3 nm = None)"
          proof (cases fo)
            case None
            with three k2 inv show ?thesis by simp
          next
            case (Some r)
            from existing_keeps[OF h node, of s2 w n r i "an_port_mappings req" r3 s3] three Some k2 inv ld found k1
            show ?thesis by simp
          qed
          then have i: "cni_inv node (c_state s3) (taken s3)"
            and sub: "c_state s3 nm = c_state s nm \<or> c_state s3 nm = None" for nm using k2(1) by simp_all
          show "cni_inv node (c_state s3) (taken s3)" by (rule i)
          show "dom (c_state s3) \<subseteq> set ord"
          proof
            fix nm assume "nm \<in> dom (c_state s3)"
            then have "nm \<in> dom (c_state s)" using sub[of nm] by (auto simp: dom_def)
            with ord show "nm \<in> set ord" by blast
          qed
        qed
        note before = q one \<open>r1 = Inr ns\<close> Inr two found three
        show ?thesis
        proof (cases r3)
          case (Inl e)
          with run before k3 show ?thesis by (simp add: add_workload_network_def sbind_def)
        next
          case answer: (Inr ans)
          show ?thesis
          proof (cases ans)
            case (Some net)
            with run before answer k3 show ?thesis by (simp add: add_workload_network_def sbind_def)
          next
            case None
            obtain r4 s4 where four: "check_ports_free h ord (an_port_mappings req) s3 = (r4, s4)" by fastforce
            have k4: "c_state s4 = c_state s3" "taken s4 = taken s3"
              using keeps_files_taken[OF keeps_files_check_ports four] by simp_all
            show ?thesis
            proof (cases r4)
              case (Inl e)
              with run before answer None four k3 k4 show ?thesis by (simp add: add_workload_network_def sbind_def)
            next
              case (Inr u4)
              have att: "attach_workload h node ns w n pid i (an_port_mappings req) s4 = (res, s')"
                using run before answer None four Inr by (simp add: add_workload_network_def sbind_def)
              have "\<forall>m \<in> set (an_port_mappings req). \<forall>nm r. c_state s3 nm = Some (Content r) \<longrightarrow>
                  \<not> maps_port (port_protocol m) (port_external m) r"
                using check_ports_sound[OF conjunct1[OF durableD[OF h]] _ k3(2) cni_invD(1)[OF k3(1)]] four Inr by simp
              then have "\<forall>m \<in> set (an_port_mappings req). port_protocol m = pr \<longrightarrow> port_external m \<noteq> hp"
                if "c_state s4 nm = Some (Content r')" "maps_port pr hp r'" for nm r' pr hp
                using that k4 by auto
              from attach_keeps[OF h _ _ node this att] show ?thesis using validated_vlan[OF q] k3(1) k4 by simp
            qed
          qed
        qed
      qed
    qed
  qed
qed

lemma delete_keeps:
  assumes h: "durable h" and node: "node \<le> 255" and inv: "cni_inv node (c_state s) (taken s)"
    and run: "delete_workload_network h node wo no s = (res, s')"
  shows "cni_inv node (c_state s') (taken s')"
proof (cases "validate_refs wo no")
  case (Inl e)
  with run inv show ?thesis by (simp add: delete_workload_network_def sbind_def)
next
  case (Inr q)
  obtain w n where q: "validate_refs wo no = Inr (w, n)" using Inr by (cases q) auto
  obtain r1 s1 where one: "load h (wl_workload_name w) (wl_instance_name w) (nw_network_name n) s = (r1, s1)" by fastforce
  note ld = load_frame[OF one]
  have k1: "c_state s1 = c_state s" "taken s1 = taken s" using ld taken_cong[of s1 s] by simp_all
  show ?thesis
  proof (cases "\<exists>r. r1 = Inr (Some r)")
    case False
    then have "s' = s1"
      using run q one by (cases r1) (auto simp: delete_workload_network_def sbind_def split: option.splits)
    with k1 inv show ?thesis by simp
  next
    case True
    then obtain r where r: "r1 = Inr (Some r)" by blast
    let ?pre = "sbind (ip_ok h [''link'', ''show'', ''dev'', wr_host_interface r]) (\<lambda>there.
         sbind (if there then ip_cmd h [''link'', ''delete'', wr_host_interface r] else sret ()) (\<lambda>_.
         delete_mappings h (wr_ip_address r) (wr_port_mappings r)))"
    have kp: "keeps_files ?pre" by (intro files_kept files_rules)
    obtain r2 s2 where two: "?pre s1 = (r2, s2)" by fastforce
    have k2: "c_state s2 = c_state s" "taken s2 = taken s" using keeps_files_taken[OF kp two] k1 by simp_all
    obtain r3 s3 where three: "sbind (release_record_ip h node r) (\<lambda>_. delete_record h (wl_workload_name w)
        (wl_instance_name w) (nw_network_name n)) s2 = (r3, s3)" by fastforce
    have "s' = (case r2 of Inl e \<Rightarrow> s2 | Inr _ \<Rightarrow> s3)"
      using run q one r two three
      by (auto simp: delete_workload_network_def sbind_def split: prod.splits sum.splits)
    then show ?thesis
      using release_then_delete[OF h node _ _ three] inv ld r k1 k2 by (cases r2) auto
  qed
qed

section \<open>Any sequence of requests\<close>

inductive cni_reach :: "'k host \<Rightarrow> nat \<Rightarrow> 'k cni \<Rightarrow> bool" for h node where
  fresh: "c_state s = Map.empty \<Longrightarrow> cni_reach h node s"
| added: "cni_reach h node s \<Longrightarrow> dom (c_state s) \<subseteq> set ord \<Longrightarrow>
     add_workload_network h node ord req s = (r, s') \<Longrightarrow> cni_reach h node s'"
| got: "cni_reach h node s \<Longrightarrow> get_workload_network h wo no s = (g, s') \<Longrightarrow> cni_reach h node s'"
| deleted: "cni_reach h node s \<Longrightarrow> delete_workload_network h node wo no s = (d, s') \<Longrightarrow> cni_reach h node s'"
| outside: "cni_reach h node s \<Longrightarrow> cni_reach h node (s\<lparr>c_kernel := k\<rparr>)"

lemma cni_reach_inv: "cni_reach h node s \<Longrightarrow> durable h \<Longrightarrow> node \<le> 255 \<Longrightarrow> cni_inv node (c_state s) (taken s)"
proof (induction rule: cni_reach.induct)
  case (fresh s)
  then show ?case by (simp add: cni_inv_def)
next
  case (added s ord req r s')
  then show ?case using add_keeps by blast
next
  case (got s wo no g s')
  then show ?case using keeps_files_taken[OF keeps_files_get got.hyps(2)] by simp
next
  case (deleted s wo no d s')
  then show ?case using delete_keeps by blast
next
  case (outside s k)
  then show ?case by (simp add: taken_def)
qed

text \<open>
  C9. As long as no removal of a record file and no directory sync fails, the CNI daemon never gives one
  address or one host port to two workloads. On a host whose other file-system calls may fail at any
  time, with no effect and without reporting a file that is there as missing, take a node number up to
  255 and any sequence of add, get and delete requests, each with a complete listing of the records,
  whatever the commands answer and whatever happens to the kernel in between: two stored workloads
  have different addresses and no common host port, and every stored address lies in the pool of its
  VLAN on this node and is marked as handed out there. (A removal that fails breaks it:
  \<open>failed_removal_shares_address\<close>.)
\<close>

theorem cni_addresses_never_shared:
  assumes "durable h" and "node \<le> 255" and "cni_reach h node s"
    and "c_state s n1 = Some (Content r1)" and "c_state s n2 = Some (Content r2)" and "n1 \<noteq> n2"
  shows "wr_ip_address r1 \<noteq> wr_ip_address r2 \<and> \<not> shares_port r1 r2 \<and> addressed node (taken s) r1"
  using cni_invD(2-4)[OF cni_reach_inv[OF assms(3,1,2)]] assms(4-6) by blast

end
