(* ===== verification/Cni_Examples.thy ===== *)
theory Cni_Examples imports Cni_Safety begin

text \<open>
  The CNI daemon run on a concrete host: commands that succeed, a namespace per workload, and a file
  system with a chosen failure. Two workloads connected one after the other, and the run in which a
  failed removal ends with one address in two records.
\<close>

section \<open>The host\<close>

definition ok_host :: "(nat \<Rightarrow> fs_call \<Rightarrow> io_error option) \<Rightarrow> unit host" where
  "ok_host faults = \<lparr>h_env = (\<lambda>v. if v = ''BARENETES_NODE_ID'' then Some ''1'' else None), h_is_root = True,
     h_is_file = (\<lambda>_. True), h_status = (\<lambda>_ _ k. (Inr True, k)), h_output = (\<lambda>_ _ k. (Inr (True, []), k)),
     h_fault = faults, h_open_ns = (\<lambda>_ _. Inr \<lparr>nf_fd = 7, nf_id = (4, 99)\<rparr>),
     h_ns_id = (\<lambda>p _. if p = ''/proc/self/ns/net'' then Inr (4, 1) else Inr (4, 99)),
     h_digest = (\<lambda>x. [of_char (rev x ! 12)]), h_parse_ip = Some, h_too_large = (\<lambda>_. False)\<rparr>"

lemma ok_host_simps [simp]:
  "h_status (ok_host F) p a k = (Inr True, k)" "h_fault (ok_host F) = F" "h_too_large (ok_host F) r = False"
  "h_open_ns (ok_host F) p k = Inr \<lparr>nf_fd = 7, nf_id = (4, 99)\<rparr>" "h_digest (ok_host F) x = [of_char (rev x ! 12)]"
  "h_ns_id (ok_host F) ''/proc/self/ns/net'' k = Inr (4, 1)"
  by (simp_all add: ok_host_def)

lemma ok_resolve: "\<exists>path. resolve (ok_host F) program = Inr path"
proof -
  have "resolve (ok_host F) program = Inr (''/usr/sbin/'' @ program)"
    by (simp add: resolve_def ok_host_def Let_def tool_directories_def)
  then show ?thesis by blast
qed

lemma ok_succeeds [simp]: "succeeds (ok_host F) program args s = (Inr True, s)"
  using ok_resolve[of F program] by (auto simp: succeeds_def)

lemma ok_run [simp]: "run (ok_host F) program args s = (Inr (), s)"
  by (simp add: run_def)

lemma ok_run_all [simp]: "run_all (ok_host F) cs s = (Inr (), s)"
  by (induction cs) (auto simp: sbind_def)

lemma ok_node [simp]: "node_id (ok_host F) = Inr 1"
  by (simp add: node_id_def env_nonempty_def ok_host_def) code_simp

lemma ok_mtu [simp]: "mtu (ok_host F) = Inr 1450"
  by (simp add: mtu_def env_nonempty_def ok_host_def default_mtu_def)

lemma ok_vlan [simp]: "ensure_vlan (ok_host F) v n s = (Inr (gateway v n), s)"
  by (simp add: ensure_vlan_def ensure_tenant_nat_def ensure_rule_def Let_def)

lemma ok_namespace [simp]:
  "run_in_namespace (ok_host F) f args s = (Inr (), s)"
  "netns_matches (ok_host F) \<lparr>nf_fd = 7, nf_id = (4, 99)\<rparr> pid s = (Inr True, s)"
proof -
  show "run_in_namespace (ok_host F) f args s = (Inr (), s)"
    using ok_resolve[of F "''ip''"] by (auto simp: run_in_namespace_def)
  have "''/proc/'' @ show_nat pid @ ''/ns/net'' \<noteq> ''/proc/self/ns/net''"
  proof
    assume "''/proc/'' @ show_nat pid @ ''/ns/net'' = ''/proc/self/ns/net''"
    then have "show_nat pid @ ''/ns/net'' = ''self'' @ ''/ns/net''" by simp
    then have "show_nat pid = ''self''" by (metis append_same_eq)
    then have "is_digit_char (CHR ''s'')" using show_nat_digits[of "CHR ''s''" pid] by simp
    then show False by (simp add: is_digit_char_def digit_val_def)
  qed
  then show "netns_matches (ok_host F) \<lparr>nf_fd = 7, nf_id = (4, 99)\<rparr> pid s = (Inr True, s)"
    by (simp add: netns_matches_def sbind_def ok_host_def)
qed

lemma ok_setup [simp]:
  "setup_interfaces (ok_host F) \<lparr>nf_fd = 7, nf_id = (4, 99)\<rparr> pid hi i ap gs v m s = (Inr (), s)"
  by (simp add: setup_interfaces_def Let_def)

section \<open>Two workloads\<close>

definition web_ref :: "string \<Rightarrow> workload_ref" where
  "web_ref inst = \<lparr>wl_workload_name = ''web'', wl_instance_name = inst\<rparr>"

definition blue :: network_ref where
  "blue = \<lparr>nw_network_name = ''blue'', nw_vlan_id = 100\<rparr>"

definition cni_web_request :: "string \<Rightarrow> add_network_request" where
  "cni_web_request inst = \<lparr>an_workload = Some (web_ref inst), an_network = Some blue, an_netns_path = ''/proc/42/ns/net'',
     an_interface_name = [], an_port_mappings = []\<rparr>"

definition empty_cni :: "unit cni" where
  "empty_cni = \<lparr>c_state = Map.empty, c_pools = Map.empty, c_kernel = (), c_clock = 0\<rparr>"

lemma web_valid:
  assumes "inst = ''web-1'' \<or> inst = ''web-2''"
  shows "validate_add_request (cni_web_request inst) = Inr (web_ref inst, blue, 42, ''eth0'')"
proof -
  have pid: "netns_pid ''/proc/42/ns/net'' = Some 42"
    by (simp add: netns_pid_def starts_with_def parse_unsigned_def digit_val_def)
  have nm: "validate_name ''web'' = Inr ()" "validate_name ''web-1'' = Inr ()" "validate_name ''web-2'' = Inr ()"
    "validate_name ''blue'' = Inr ()"
    by (simp_all add: validate_name_def is_alnum_ascii_def is_lower_def is_upper_def is_digit_char_def digit_val_def)
  show ?thesis
    using assms nm pid
    by (auto simp: validate_add_request_def validate_refs_def cni_web_request_def web_ref_def blue_def
        is_alnum_ascii_def is_lower_def is_upper_def is_digit_char_def digit_val_def)
qed

definition web_path :: "string \<Rightarrow> string" where
  "web_path inst = state_path (ok_host (\<lambda>_ _. None)) ''web'' inst ''blue''"

lemma stable_id_ok: "stable_id (ok_host F) parts = stable_id (ok_host (\<lambda>_ _. None)) parts"
  by (simp add: stable_id_def)

lemma web_path_neq: "web_path ''web-1'' \<noteq> web_path ''web-2''"
proof -
  have len: "length (u64_bytes n) = 8" for n by (simp add: u64_bytes_def)
  have "rev (hashed_bytes [''web'', inst, ''blue'']) ! 12 = rev inst ! 0" if "inst \<noteq> []" for inst
    using that by (simp add: hashed_bytes_def nth_append len)
  then show ?thesis
    by (simp add: web_path_def state_path_def stable_id_def hex_byte_def hex_digit_def)
qed

section \<open>Runs\<close>

definition only_removals_fail :: "(nat \<Rightarrow> fs_call \<Rightarrow> io_error option) \<Rightarrow> bool" where
  "only_removals_fail F \<longleftrightarrow> (\<forall>t c. c \<noteq> FsRemove \<longrightarrow> F t c = None)"

lemma fs_ok: "only_removals_fail F \<Longrightarrow> c \<noteq> FsRemove \<Longrightarrow> fs (ok_host F) c s = (Inr (), tick s)"
  by (simp add: only_removals_fail_def fs_run)

lemma sbind_fs_ok: "only_removals_fail F \<Longrightarrow> c \<noteq> FsRemove \<Longrightarrow> sbind (fs (ok_host F) c) k s = k () (tick s)"
  by (simp add: fs_ok)

definition usable_pool :: "unit cni \<Rightarrow> string \<Rightarrow> bool" where
  "usable_pool s d \<longleftrightarrow> c_pools s d \<noteq> Some NotDir \<and> c_pools s d \<noteq> Some (PoolDir (Some Garbage))"

lemma with_pool_ok:
  assumes F: "only_removals_fail F" and u: "usable_pool s (pl_dir p)"
    and operation: "operation (taken s (pl_dir p)) = Inr (x, A)"
  shows "\<exists>t. with_pool_state (ok_host F) p operation s =
     (Inr x, s\<lparr>c_pools := (c_pools s)(pl_dir p \<mapsto> PoolDir (Some (Content A))), c_clock := t\<rparr>)"
proof -
  have upd: "sbind (\<lambda>s. (Inr (), g s)) k s = k () (g s)" for g k and s :: "unit cni" by (simp add: sbind_def)
  note run = with_pool_state_def sbind_fs_ok[OF F] upd fs_ok[OF F] create_pool_dir_def read_pool_def write_pool_def
  note ops = operation[unfolded taken_def]
  show ?thesis
    by (cases rule: pool_entry_cases[of "c_pools s (pl_dir p)"])
       (use u ops in \<open>auto simp: run usable_pool_def sbind_def[of "slift y" for y] sbind_def[of "create_pool_dir h d" for h d]
          sbind_def[of "read_pool h d" for h d] sbind_def[of "write_pool h d B" for h d B] tick_def\<close>)
qed

definition web_record :: "string \<Rightarrow> ipv4 \<Rightarrow> workload_record" where
  "web_record inst a = new_record (ok_host (\<lambda>_ _. None)) (web_ref inst) blue ''eth0'' a (gateway 100 1) []"

definition blue_pool :: ip_pool where
  "blue_pool = \<lparr>pl_dir = pool_dir 100, pl_first = ipv4_new 10 100 1 2, pl_last = ipv4_new 10 100 1 254\<rparr>"

lemma blue_pool_dir [simp]: "pl_dir blue_pool = pool_dir 100"
  by (simp add: blue_pool_def)

lemma taken_clock [simp]: "taken (s\<lparr>c_clock := t\<rparr>) = taken s"
  by (simp add: taken_def fun_eq_iff)

lemma blue_pool_eq: "pool 1 100 = Inr blue_pool"
  by (simp add: pool_eq blue_pool_def)

lemma web_record_path: "record_path (ok_host F) (web_record inst a) = web_path inst"
  by (simp add: record_path_def web_record_def new_record_def web_ref_def blue_def web_path_def state_path_def
      stable_id_ok[of F])

lemma add_ok:
  assumes F: "only_removals_fail F" and inst: "inst = ''web-1'' \<or> inst = ''web-2''"
    and s: "c_state s (web_path inst) = None" "usable_pool s (pool_dir 100)"
    and free: "take_free blue_pool (taken s (pool_dir 100)) = Inr (a, A)"
  shows "\<exists>net t. add_workload_network (ok_host F) 1 ord (cni_web_request inst) s =
     (Inr net, s\<lparr>c_pools := (c_pools s)(pool_dir 100 \<mapsto> PoolDir (Some (Content A))),
        c_state := (c_state s)(web_path inst \<mapsto> Content (web_record inst a)), c_clock := t\<rparr>)"
proof -
  let ?ns = "\<lparr>nf_fd = 7, nf_id = (4, 99)\<rparr>"
  let ?r = "new_record (ok_host F) (web_ref inst) blue ''eth0'' a (gateway 100 1) []"
  have rec: "?r = web_record inst a"
    by (simp add: web_record_def new_record_def host_interface_name_def stable_id_ok[of F])
  have open_ns: "open_netns (ok_host F) ''/proc/42/ns/net'' s = (Inr ?ns, tick s)"
    by (simp add: open_netns_def sbind_def fs_ok[OF F])
  have path: "state_path (ok_host F) ''web'' inst ''blue'' = web_path inst"
    by (simp add: web_path_def state_path_def stable_id_ok[of F])
  have ld: "load (ok_host F) ''web'' inst ''blue'' (tick s) = (Inr None, tick (tick s))"
    using s(1) by (simp add: load_def fs_ok[OF F] path)
  have al: "\<exists>t. allocate (ok_host F) blue_pool (tick (tick s)) =
     (Inr a, s\<lparr>c_pools := (c_pools s)(pool_dir 100 \<mapsto> PoolDir (Some (Content A))), c_clock := t\<rparr>)"
    using with_pool_ok[OF F, of "tick (tick s)" blue_pool "take_free blue_pool" a A] s(2) free
    by (auto simp: allocate_def usable_pool_def tick_def)
  then obtain t where al: "allocate (ok_host F) blue_pool (tick (tick s)) =
     (Inr a, s\<lparr>c_pools := (c_pools s)(pool_dir 100 \<mapsto> PoolDir (Some (Content A))), c_clock := t\<rparr>)" by blast
  let ?s = "s\<lparr>c_pools := (c_pools s)(pool_dir 100 \<mapsto> PoolDir (Some (Content A))), c_clock := t\<rparr>"
  have upd: "sbind (\<lambda>s. (Inr (), g s)) k s = k () (g s)" for g k and s :: "unit cni" by (simp add: sbind_def)
  have sv: "\<exists>t'. save (ok_host F) (web_record inst a) ?s =
     (Inr (), ?s\<lparr>c_state := (c_state s)(web_path inst \<mapsto> Content (web_record inst a)), c_clock := t'\<rparr>)"
    by (auto simp: save_def sbind_fs_ok[OF F] upd fs_ok[OF F] web_record_path tick_def)
  then obtain t' where sv: "save (ok_host F) (web_record inst a) ?s =
     (Inr (), ?s\<lparr>c_state := (c_state s)(web_path inst \<mapsto> Content (web_record inst a)), c_clock := t'\<rparr>)" by blast
  have maps: "add_mappings (ok_host F) ip [] s = (Inr (), s)" for ip s
    by (simp add: add_mappings_def validate_mappings_def)
  have ports: "wr_port_mappings (web_record inst a) = []" by (simp add: web_record_def new_record_def)
  have conn: "connect_workload (ok_host F) ?ns 42 blue_pool a (web_record inst a) 1450 ?s =
     (Inr (record_to_network (web_record inst a)),
      ?s\<lparr>c_state := (c_state s)(web_path inst \<mapsto> Content (web_record inst a)), c_clock := t'\<rparr>)"
    using sv by (simp add: connect_workload_def on_error_def sbind_def maps ports)
  have "attach_workload (ok_host F) 1 ?ns (web_ref inst) blue 42 ''eth0'' [] (tick (tick s)) =
     (Inr (record_to_network (web_record inst a)),
      ?s\<lparr>c_state := (c_state s)(web_path inst \<mapsto> Content (web_record inst a)), c_clock := t'\<rparr>)"
    using al conn unfolding attach_workload_def
    by (simp add: sbind_def blue_def blue_pool_eq[unfolded One_nat_def] rec[unfolded blue_def One_nat_def])
  then show ?thesis
    using open_ns ld web_valid[OF inst] 
    by (auto simp: add_workload_network_def sbind_def cni_web_request_def validate_mappings_def web_ref_def blue_def)
qed

lemma first_address: "take_free blue_pool {} = Inr (ipv4_new 10 100 1 2, {ipv4_new 10 100 1 2})"
proof -
  have "[pl_first blue_pool..<Suc (pl_last blue_pool)] =
      pl_first blue_pool # [Suc (pl_first blue_pool)..<Suc (pl_last blue_pool)]"
    by (rule upt_conv_Cons) (simp add: blue_pool_def ipv4_new_def)
  then have "List.find (\<lambda>a. a \<notin> {}) [pl_first blue_pool..<Suc (pl_last blue_pool)] = Some (pl_first blue_pool)"
    by (simp only: List.find.simps empty_iff not_False_eq_True if_True)
  then have "take_free blue_pool {} = Inr (pl_first blue_pool, {pl_first blue_pool})"
    unfolding take_free_def by (simp only: option.case)
  then show ?thesis by (simp add: blue_pool_def)
qed

lemma second_address:
  "\<exists>a. take_free blue_pool {ipv4_new 10 100 1 2} = Inr (a, {a, ipv4_new 10 100 1 2})"
proof (cases "take_free blue_pool {ipv4_new 10 100 1 2}")
  case (Inl e)
  then have "{pl_first blue_pool..pl_last blue_pool} \<subseteq> {ipv4_new 10 100 1 2}"
    unfolding take_free_full by (rule conjunct2)
  then have "pl_last blue_pool \<in> {ipv4_new 10 100 1 2}" by (rule subsetD) (simp add: blue_pool_def ipv4_new_def)
  then show ?thesis by (simp add: blue_pool_def ipv4_new_def)
next
  case (Inr r)
  then show ?thesis using take_free_ok[of blue_pool _ "fst r" "snd r"] by (cases r) auto
qed

definition calm :: "unit host" where
  "calm = ok_host (\<lambda>_ _. None)"

lemma calm_durable: "durable calm"
  by (simp add: calm_def durable_def honest_def synced_def)

text \<open>Two instances of a workload, connected one after the other on a calm host.\<close>

lemma two_workloads:
  "\<exists>s a. cni_reach calm 1 s \<and> c_state s (web_path ''web-1'') = Some (Content (web_record ''web-1'' (ipv4_new 10 100 1 2))) \<and>
     c_state s (web_path ''web-2'') = Some (Content (web_record ''web-2'' a))"
proof -
  have F: "only_removals_fail (\<lambda>_ _. None)" by (simp add: only_removals_fail_def)
  obtain n1 t1 where one: "add_workload_network calm 1 [] (cni_web_request ''web-1'') empty_cni =
      (Inr n1, empty_cni\<lparr>c_pools := (c_pools empty_cni)(pool_dir 100 \<mapsto> PoolDir (Some (Content {ipv4_new 10 100 1 2}))),
         c_state := (c_state empty_cni)(web_path ''web-1'' \<mapsto> Content (web_record ''web-1'' (ipv4_new 10 100 1 2))), c_clock := t1\<rparr>)"
    using add_ok[OF F, of "''web-1''" empty_cni "ipv4_new 10 100 1 2" _ "[]"] first_address
    by (auto simp: calm_def empty_cni_def usable_pool_def taken_def)
  define s1 where "s1 = empty_cni\<lparr>c_pools := (c_pools empty_cni)(pool_dir 100 \<mapsto> PoolDir (Some (Content {ipv4_new 10 100 1 2}))),
         c_state := (c_state empty_cni)(web_path ''web-1'' \<mapsto> Content (web_record ''web-1'' (ipv4_new 10 100 1 2))), c_clock := t1\<rparr>"
  have r1: "cni_reach calm 1 s1"
    using cni_reach.added[OF cni_reach.fresh _ one[folded s1_def]] by (simp add: empty_cni_def)
  obtain a where a: "take_free blue_pool {ipv4_new 10 100 1 2} = Inr (a, {a, ipv4_new 10 100 1 2})"
    using second_address by blast
  have "c_state s1 (web_path ''web-2'') = None" "usable_pool s1 (pool_dir 100)"
      "taken s1 (pool_dir 100) = {ipv4_new 10 100 1 2}"
    using web_path_neq by (auto simp: s1_def empty_cni_def usable_pool_def taken_def)
  with add_ok[OF F, of "''web-2''" s1 a _ "[web_path ''web-1'']"] a obtain n2 t2 where
    two: "add_workload_network calm 1 [web_path ''web-1''] (cni_web_request ''web-2'') s1 =
      (Inr n2, s1\<lparr>c_pools := (c_pools s1)(pool_dir 100 \<mapsto> PoolDir (Some (Content {a, ipv4_new 10 100 1 2}))),
         c_state := (c_state s1)(web_path ''web-2'' \<mapsto> Content (web_record ''web-2'' a)), c_clock := t2\<rparr>)"
    by (auto simp: calm_def)
  have "dom (c_state s1) \<subseteq> set [web_path ''web-1'']" by (auto simp: s1_def empty_cni_def split: if_splits)
  from cni_reach.added[OF r1 this two] web_path_neq show ?thesis
    by (intro exI conjI) (auto simp: s1_def)
qed

theorem cni_addresses_never_shared_witness:
  "\<exists>r1 r2. wr_instance_name r1 = ''web-1'' \<and> wr_instance_name r2 = ''web-2'' \<and> wr_ip_address r1 \<noteq> wr_ip_address r2 \<and>
     \<not> shares_port r1 r2"
proof -
  obtain s a where s: "cni_reach calm 1 s"
    "c_state s (web_path ''web-1'') = Some (Content (web_record ''web-1'' (ipv4_new 10 100 1 2)))"
    "c_state s (web_path ''web-2'') = Some (Content (web_record ''web-2'' a))"
    using two_workloads by blast
  from cni_addresses_never_shared[OF calm_durable _ s web_path_neq] show ?thesis
    by (intro exI[of _ "web_record ''web-1'' (ipv4_new 10 100 1 2)"] exI[of _ "web_record ''web-2'' a"])
       (simp add: web_record_def new_record_def web_ref_def)
qed

theorem allocate_takes_lowest_free_witness:
  "\<exists>r s'. allocate calm blue_pool empty_cni = (r, s') \<and> c_state s' = c_state empty_cni \<and>
     (\<forall>a. r = Inr a \<longrightarrow> in_pool 100 1 a)"
proof -
  obtain r s' where run: "allocate calm blue_pool empty_cni = (r, s')" by fastforce
  have "honest calm" "synced calm" using calm_durable by (simp_all add: durable_def)
  from allocate_takes_lowest_free[OF this blue_pool_eq run] run show ?thesis
    by (cases r) auto
qed

section \<open>A removal that fails\<close>

definition broken_disk :: "unit host" where
  "broken_disk = ok_host (\<lambda>_ c. if c = FsRemove then Some (IoError KOther ''Input/output error'') else None)"

definition first_ip :: ipv4 where
  "first_ip = ipv4_new 10 100 1 2"

definition connected :: "unit cni" where
  "connected = snd (add_workload_network broken_disk 1 [] (cni_web_request ''web-1'') empty_cni)"

definition half_deleted :: "unit cni" where
  "half_deleted = snd (delete_workload_network broken_disk 1 (Some (web_ref ''web-1'')) (Some blue) connected)"

definition reused :: "unit cni" where
  "reused = snd (add_workload_network broken_disk 1 [web_path ''web-1''] (cni_web_request ''web-2'') half_deleted)"

lemma first_ip_parse: "parse_ipv4 (show_ipv4 first_ip) = Some first_ip"
  by (rule parse_show_ipv4) (simp add: first_ip_def ipv4_new_def)

lemma connected_eq:
  "\<exists>t. connected = empty_cni\<lparr>c_pools := (c_pools empty_cni)(pool_dir 100 \<mapsto> PoolDir (Some (Content {first_ip}))),
     c_state := (c_state empty_cni)(web_path ''web-1'' \<mapsto> Content (web_record ''web-1'' first_ip)), c_clock := t\<rparr>"
proof -
  have F: "only_removals_fail (\<lambda>_ c. if c = FsRemove then Some (IoError KOther ''Input/output error'') else None)"
    by (simp add: only_removals_fail_def)
  show ?thesis
    using add_ok[OF F, of "''web-1''" empty_cni first_ip "{first_ip}" "[]"] first_address
    by (auto simp: connected_def broken_disk_def empty_cni_def usable_pool_def taken_def first_ip_def)
qed

lemma half_deleted_eq:
  "\<exists>t. half_deleted = empty_cni\<lparr>c_pools := (c_pools empty_cni)(pool_dir 100 \<mapsto> PoolDir (Some (Content {}))),
     c_state := (c_state empty_cni)(web_path ''web-1'' \<mapsto> Content (web_record ''web-1'' first_ip)), c_clock := t\<rparr>"
proof -
  let ?F = "\<lambda>_ c. if c = FsRemove then Some (IoError KOther ''Input/output error'') else None"
  have F: "only_removals_fail ?F" by (simp add: only_removals_fail_def)
  obtain t where con: "connected = empty_cni\<lparr>c_pools := (c_pools empty_cni)(pool_dir 100 \<mapsto> PoolDir (Some (Content {first_ip}))),
     c_state := (c_state empty_cni)(web_path ''web-1'' \<mapsto> Content (web_record ''web-1'' first_ip)), c_clock := t\<rparr>"
    using connected_eq by blast
  let ?r = "web_record ''web-1'' first_ip"
  have refs: "validate_refs (Some (web_ref ''web-1'')) (Some blue) = Inr (web_ref ''web-1'', blue)"
    using web_valid[of "''web-1''"]
    by (auto simp: validate_add_request_def cni_web_request_def rbind_eq_Inr Let_def split: if_splits)
  have path: "state_path broken_disk ''web'' ''web-1'' ''blue'' = web_path ''web-1''"
    unfolding broken_disk_def by (simp add: web_path_def state_path_def stable_id_ok[of ?F])
  let ?s = "tick (tick connected)"
  have ld: "load broken_disk ''web'' ''web-1'' ''blue'' connected = (Inr (Some ?r), ?s)"
    unfolding load_def path by (simp add: broken_disk_def fs_ok[OF F] read_record_def sbind_def con empty_cni_def tick_def)
  have vlan: "wr_vlan_id ?r = 100" "wr_ip_address ?r = show_ipv4 first_ip" "wr_port_mappings ?r = []"
    by (simp_all add: web_record_def new_record_def blue_def)
  have rel: "\<exists>b t. release broken_disk blue_pool first_ip ?s =
      (Inr b, ?s\<lparr>c_pools := (c_pools ?s)(pool_dir 100 \<mapsto> PoolDir (Some (Content {}))), c_clock := t\<rparr>)"
  proof -
    have range: "\<not> (first_ip < pl_first blue_pool \<or> pl_last blue_pool < first_ip)"
      by (simp add: first_ip_def blue_pool_def ipv4_new_def)
    have "usable_pool ?s (pl_dir blue_pool)" "taken ?s (pl_dir blue_pool) = {first_ip}"
      by (simp_all add: usable_pool_def con taken_def tick_def)
    then show ?thesis
      using with_pool_ok[OF F, of ?s blue_pool "\<lambda>A. Inr (first_ip \<in> A, A - {first_ip})" True "{}"] range
      by (auto simp: release_def broken_disk_def)
  qed
  then obtain b t2 where rel: "release broken_disk blue_pool first_ip ?s =
      (Inr b, ?s\<lparr>c_pools := (c_pools ?s)(pool_dir 100 \<mapsto> PoolDir (Some (Content {}))), c_clock := t2\<rparr>)" by blast
  let ?s2 = "?s\<lparr>c_pools := (c_pools ?s)(pool_dir 100 \<mapsto> PoolDir (Some (Content {}))), c_clock := t2\<rparr>"
  have relr: "release_record_ip broken_disk 1 ?r ?s = (Inr (), ?s2)"
    unfolding release_record_ip_def vlan first_ip_parse
    by (simp add: blue_pool_eq[unfolded One_nat_def] sbind_def rel)
  have del: "delete_record broken_disk ''web'' ''web-1'' ''blue'' ?s2 =
      (Inl (IoError KOther ''Input/output error''), tick ?s2)"
    by (simp add: delete_record_def fs_run broken_disk_def)
  have "half_deleted = tick ?s2"
    using refs ld relr del
    by (simp add: half_deleted_def delete_workload_network_def sbind_def web_ref_def blue_def vlan
        broken_disk_def[symmetric] ok_succeeds[of ?F, folded broken_disk_def] ok_run[of ?F, folded broken_disk_def])
  then show ?thesis by (auto simp: con tick_def empty_cni_def)
qed

text \<open>
  A failed removal ends with one address in two records. The daemon frees the address of a deleted
  workload before it removes the record. When only the removal fails, the answer is an error and the
  record stays for a retry, but the next workload is given the same address, and the retry will free
  it again under the new owner.
\<close>

theorem failed_removal_shares_address:
  "c_state reused (web_path ''web-1'') = Some (Content (web_record ''web-1'' first_ip)) \<and>
   c_state reused (web_path ''web-2'') = Some (Content (web_record ''web-2'' first_ip))"
proof -
  let ?F = "\<lambda>_ c. if c = FsRemove then Some (IoError KOther ''Input/output error'') else None"
  have F: "only_removals_fail ?F" by (simp add: only_removals_fail_def)
  obtain t where half: "half_deleted = empty_cni\<lparr>c_pools := (c_pools empty_cni)(pool_dir 100 \<mapsto> PoolDir (Some (Content {}))),
     c_state := (c_state empty_cni)(web_path ''web-1'' \<mapsto> Content (web_record ''web-1'' first_ip)), c_clock := t\<rparr>"
    using half_deleted_eq by blast
  have "c_state half_deleted (web_path ''web-2'') = None" "usable_pool half_deleted (pool_dir 100)"
      "taken half_deleted (pool_dir 100) = {}"
    using web_path_neq by (auto simp: half empty_cni_def usable_pool_def taken_def)
  with add_ok[OF F, of "''web-2''" half_deleted first_ip "{first_ip}" "[web_path ''web-1'']"] first_address
  have "c_state reused = (c_state half_deleted)(web_path ''web-2'' \<mapsto> Content (web_record ''web-2'' first_ip))"
    by (auto simp: reused_def broken_disk_def first_ip_def)
  then show ?thesis using web_path_neq by (auto simp: half)
qed

end
