(* ===== verification/Cni_Rollback.thy ===== *)
theory Cni_Rollback imports Cni_Examples begin

text \<open>
  A refused connection leaves no trace: whatever command fails on the way, the address goes back to
  its pool and no record is stored.
\<close>

definition faultless :: "'k host \<Rightarrow> bool" where
  "faultless h \<longleftrightarrow> (\<forall>t c. h_fault h t c = None)"

lemma faultless_fs: "faultless h \<Longrightarrow> fs h c s = (Inr (), tick s)"
  by (simp add: faultless_def fs_run)

lemma faultless_honest: "faultless h \<Longrightarrow> honest h \<and> synced h"
  by (simp add: faultless_def honest_def synced_def)

definition pool_written :: "'k cni \<Rightarrow> string \<Rightarrow> bool" where
  "pool_written s d \<longleftrightarrow> (\<exists>A. c_pools s d = Some (PoolDir (Some (Content A))))"

lemma write_pool_written:
  "faultless h \<Longrightarrow> write_pool h d A s = (r, s') \<Longrightarrow> r = Inr () \<and> pool_written s' d"
  by (auto simp: write_pool_def faultless_fs sbind_def pool_written_def)

lemma with_pool_written:
  assumes "faultless h" "with_pool_state h p operation s = (Inr x, s')"
  shows "pool_written s' (pl_dir p)"
proof -
  obtain A s1 where "write_pool h (pl_dir p) A s1 = (Inr (), s')"
    using assms(2) unfolding with_pool_state_def by (auto simp: sbind_eq_Inr split: prod.splits)
  from write_pool_written[OF assms(1) this] show ?thesis by blast
qed

lemma with_pool_succeeds:
  assumes h: "faultless h" and w: "pool_written s (pl_dir p)" and operation: "\<And>A. \<exists>x B. operation A = Inr (x, B)"
  shows "\<exists>x s'. with_pool_state h p operation s = (Inr x, s')"
proof -
  obtain A where A: "c_pools s (pl_dir p) = Some (PoolDir (Some (Content A)))" using w by (auto simp: pool_written_def)
  obtain x B where B: "operation A = Inr (x, B)" using operation by blast
  obtain r s' where wr: "write_pool h (pl_dir p) B (tick (tick (tick (tick (tick (tick s)))))) = (r, s')" by fastforce
  have "r = Inr ()" using write_pool_written[OF h wr] by simp
  then have "with_pool_state h p operation s = (Inr x, s')"
    using A B wr
    by (simp add: with_pool_state_def sbind_def create_pool_dir_def read_pool_def faultless_fs[OF h])
  then show ?thesis by blast
qed

lemma release_gives_back:
  assumes h: "faultless h" and p: "pool node vlan = Inr p" and a: "in_pool vlan node a"
    and w: "pool_written s (pool_dir vlan)" and run: "release h p a s = (r, s')"
  shows "c_state s' = c_state s \<and> taken s' = (taken s)(pool_dir vlan := taken s (pool_dir vlan) - {a})"
proof -
  have dir: "pl_dir p = pool_dir vlan" "\<not> (a < pl_first p \<or> pl_last p < a)"
    using p a by (auto simp: pool_eq in_pool_def pool_range_def)
  then have go: "with_pool_state h p (\<lambda>A. Inr (a \<in> A, A - {a})) s = (r, s')" using run by (simp add: release_def)
  obtain x t where "with_pool_state h p (\<lambda>A. Inr (a \<in> A, A - {a})) s = (Inr x, t)"
    using with_pool_succeeds[OF h, of s p "\<lambda>A. Inr (a \<in> A, A - {a})"] w dir by auto
  with go have "r = Inr x" by simp
  with with_pool_state_frame[OF go] faultless_honest[OF h] dir show ?thesis by auto
qed

lemma undo_gives_back:
  assumes h: "faultless h" and p: "pool node vlan = Inr p" and a: "in_pool vlan node a" "a \<notin> T (pool_dir vlan)"
    and s: "taken s = T(pool_dir vlan := insert a (T (pool_dir vlan)))" "pool_written s (pool_dir vlan)"
  shows "c_state (snd (undo_attach h hi p a s)) = c_state s \<and> taken (snd (undo_attach h hi p a s)) = T"
proof -
  obtain r1 s1 where one: "ignoring (run h ''ip'' [''link'', ''delete'', hi]) s = (r1, s1)" by fastforce
  then have ok: "r1 = Inr ()" by (auto simp: ignoring_def)
  have k: "c_state s1 = c_state s" "c_pools s1 = c_pools s"
    using keeps_filesD[OF keeps_files_ignoring[OF keeps_files_run] one] by simp_all
  obtain r2 s2 where two: "release h p a s1 = (r2, s2)" by fastforce
  have "snd (undo_attach h hi p a s) = s2" using one ok two by (simp add: undo_attach_def sbind_def ignoring_def)
  moreover have "pool_written s1 (pool_dir vlan)" using s(2) k by (simp add: pool_written_def)
  ultimately show ?thesis
    using release_gives_back[OF h p a(1) _ two] k taken_cong[of s1 s] s(1) a(2) by (auto simp: fun_eq_iff)
qed

lemma connect_undone:
  assumes h: "faultless h" and p: "pool node vlan = Inr p" and a: "in_pool vlan node a" "a \<notin> T (pool_dir vlan)"
    and s: "taken s = T(pool_dir vlan := insert a (T (pool_dir vlan)))" "pool_written s (pool_dir vlan)"
    and run: "connect_workload h ns pid p a r m s = (Inl e, s')"
  shows "c_state s' = c_state s \<and> taken s' = T"
proof -
  let ?undo = "undo_attach h (wr_host_interface r) p a"
  let ?links = "setup_interfaces h ns pid (wr_host_interface r) (wr_interface_name r) (wr_ip_address r @ ''/16'')
          (wr_gateway r) (wr_vlan_id r) m"
  have undone: ?thesis if "s' = snd (?undo t)" "c_state t = c_state s" "c_pools t = c_pools s" for t
    using undo_gives_back[OF h p a(1), where T = T and s = t and hi = "wr_host_interface r"] a(2) s that taken_cong[of t s] by (simp add: pool_written_def)
  obtain r1 s1 where one: "?links s = (r1, s1)" by fastforce
  note k1 = keeps_filesD[OF keeps_files_setup one]
  show ?thesis
  proof (cases r1)
    case (Inl d)
    then show ?thesis using undone[of s1] run one k1 by (simp add: connect_workload_def on_error_def sbind_def)
  next
    case (Inr u1)
    obtain r2 s2 where two: "add_mappings h (wr_ip_address r) (wr_port_mappings r) s1 = (r2, s2)" by fastforce
    note k2 = keeps_filesD[OF keeps_files_mappings(1) two]
    show ?thesis
    proof (cases r2)
      case (Inl d)
      then show ?thesis using undone[of s2] run one Inr two k1 k2 by (simp add: connect_workload_def on_error_def sbind_def)
    next
      case (Inr u2)
      obtain r3 s3 where three: "save h r s2 = (r3, s3)" by fastforce
      note sv = save_frame[OF three]
      show ?thesis
      proof (cases r3)
        case (Inl d)
        obtain r4 s4 where four: "ignoring (delete_mappings h (wr_ip_address r) (wr_port_mappings r)) s3 = (r4, s4)"
          by fastforce
        note k4 = keeps_filesD[OF keeps_files_ignoring[OF keeps_files_mappings(2)] four]
        have "r4 = Inr ()" using four by (auto simp: ignoring_def)
        then show ?thesis
          using undone[of s4] run one \<open>r1 = Inr u1\<close> two Inr three Inl four k1 k2 k4 sv faultless_honest[OF h]
          by (simp add: connect_workload_def on_error_def sbind_def)
      next
        case (Inr u3)
        then have False
          using run one \<open>r1 = Inr u1\<close> two \<open>r2 = Inr u2\<close> three by (simp add: connect_workload_def on_error_def sbind_def)
        then show ?thesis ..
      qed
    qed
  qed
qed

lemma ensured_mtu: "ensure_vlan h v n s = (Inr gw, s') \<Longrightarrow> \<exists>m. mtu h = Inr m"
  by (auto simp: ensure_vlan_def Let_def sbind_eq_Inr slift_def)

lemma attach_undone:
  assumes h: "faultless h"
    and run: "attach_workload h node ns w n pid i mappings s = (Inl e, s')"
  shows "c_state s' = c_state s \<and> taken s' = taken s"
proof (cases "node_id h")
  case (Inl d)
  with run show ?thesis by (simp add: attach_workload_def sbind_def)
next
  case (Inr this_node)
  obtain r1 s1 where one: "ensure_vlan h (nw_vlan_id n mod 256) this_node s = (r1, s1)" by fastforce
  note k1 = keeps_files_taken[OF keeps_files_network(3) one]
  show ?thesis
  proof (cases r1)
    case (Inl d)
    with run Inr one k1 show ?thesis by (simp add: attach_workload_def sbind_def)
  next
    case gw: (Inr gw)
    obtain m where mtu: "mtu h = Inr m" using ensured_mtu one gw by blast
    show ?thesis
    proof (cases "pool node (nw_vlan_id n)")
      case (Inl d)
      with run \<open>node_id h = Inr this_node\<close> one gw k1 show ?thesis by (simp add: attach_workload_def sbind_def)
    next
      case p: (Inr p)
      have dir: "pl_dir p = pool_dir (nw_vlan_id n)" using p by (simp add: pool_eq)
      obtain r2 s2 where two: "allocate h p s1 = (r2, s2)" by fastforce
      note al = with_pool_state_frame[OF two[unfolded allocate_def], unfolded dir]
      show ?thesis
      proof (cases r2)
        case (Inl d)
        with run \<open>node_id h = Inr this_node\<close> one gw p two al faultless_honest[OF h] k1
        show ?thesis by (simp add: attach_workload_def sbind_def)
      next
        case (Inr a)
        obtain A where A: "take_free p (taken s (pool_dir (nw_vlan_id n))) = Inr (a, A)"
            "taken s2 = (taken s)(pool_dir (nw_vlan_id n) := A)" "c_state s2 = c_state s"
          using al faultless_honest[OF h] k1 Inr by auto
        have a: "a \<notin> taken s (pool_dir (nw_vlan_id n))" "in_pool (nw_vlan_id n) node a"
            "A = insert a (taken s (pool_dir (nw_vlan_id n)))"
          using take_free_ok[OF A(1)] p by (auto simp: pool_eq in_pool_def pool_range_def)
        have w: "pool_written s2 (pool_dir (nw_vlan_id n))"
          using with_pool_written[OF h, of p "take_free p" s1 a s2] two Inr dir by (simp add: allocate_def)
        have "connect_workload h ns pid p a (new_record h w n i a gw mappings) m s2 = (Inl e, s')"
          using run \<open>node_id h = Inr this_node\<close> one gw p two Inr mtu by (simp add: attach_workload_def sbind_def)
        from connect_undone[OF h p a(2), where T = "taken s" and s = s2, OF a(1) _ w this] A a(3) show ?thesis by simp
      qed
    qed
  qed
qed

text \<open>What a stale record costs: the record itself and its address.\<close>

lemma release_record_result:
  assumes h: "faultless h" and run: "release_record_ip h node r s = (res, s')"
  shows "c_state s' = c_state s \<and> (taken s' = taken s \<or> res = Inr () \<and> (\<exists>a. parse_ipv4 (wr_ip_address r) = Some a \<and>
     taken s' = (taken s)(pool_dir (wr_vlan_id r) := taken s (pool_dir (wr_vlan_id r)) - {a})))"
proof (cases "parse_ipv4 (wr_ip_address r)")
  case None
  with run show ?thesis by (simp add: release_record_ip_def fail_with_def)
next
  case (Some a)
  show ?thesis
  proof (cases "pool node (wr_vlan_id r)")
    case (Inl e)
    with run Some show ?thesis by (auto simp: release_record_ip_def split: if_splits)
  next
    case (Inr p)
    then have dir: "pl_dir p = pool_dir (wr_vlan_id r)" by (auto simp: pool_eq split: if_splits)
    obtain x t where rel: "release h p a s = (x, t)" by fastforce
    have end': "s' = t" "(\<exists>y. x = Inr y) \<longrightarrow> res = Inr ()"
      using run Some Inr rel by (auto simp: release_record_ip_def sbind_def split: sum.splits if_splits)
    show ?thesis
    proof (cases "a < pl_first p \<or> pl_last p < a")
      case True
      with rel end' show ?thesis by (auto simp: release_def fail_with_def)
    next
      case False
      with rel have "with_pool_state h p (\<lambda>A. Inr (a \<in> A, A - {a})) s = (x, t)" by (simp add: release_def)
      from with_pool_state_frame[OF this] faultless_honest[OF h] end' dir Some show ?thesis
        by (cases x) auto
    qed
  qed
qed

definition stale_dropped :: "'k host \<Rightarrow> string \<Rightarrow> 'k cni \<Rightarrow> 'k cni \<Rightarrow> bool" where
  "stale_dropped h path s s' \<longleftrightarrow> (\<exists>r. c_state s path = Some (Content r) \<and>
     fst (succeeds h ''ip'' [''link'', ''show'', ''dev'', wr_host_interface r] s) = Inr False \<and>
     c_state s' = (c_state s)(path := None) \<and>
     (taken s' = taken s \<or> (\<exists>a. parse_ipv4 (wr_ip_address r) = Some a \<and>
        taken s' = (taken s)(pool_dir (wr_vlan_id r) := taken s (pool_dir (wr_vlan_id r)) - {a}))))"

lemma existing_result:
  assumes h: "faultless h" and r: "c_state s path = Some (Content r)"
    and path: "path = state_path h (wl_workload_name w) (wl_instance_name w) (nw_network_name n)"
    and run: "existing_network h node n i ms w r s = (res, s')"
  shows "if res = Inr None then stale_dropped h path s s' else c_state s' = c_state s \<and> taken s' = taken s"
proof (cases "wr_interface_name r \<noteq> i \<or> wr_vlan_id r \<noteq> nw_vlan_id n \<or> wr_port_mappings r \<noteq> ms")
  case True
  with run show ?thesis by (auto simp: existing_network_def fail_with_def)
next
  case False
  obtain x t where one: "ip_ok h [''link'', ''show'', ''dev'', wr_host_interface r] s = (x, t)" by fastforce
  note k1 = keeps_files_taken[OF keeps_files_base(1) one]
  show ?thesis
  proof (cases "x = Inr False")
    case gone: True
    obtain x2 t2 where two: "delete_mappings h (wr_ip_address r) (wr_port_mappings r) t = (x2, t2)" by fastforce
    note k2 = keeps_files_taken[OF keeps_files_mappings(2) two]
    obtain x3 t3 where three: "release_record_ip h node r t2 = (x3, t3)" by fastforce
    note k3 = release_record_result[OF h three]
    obtain x4 t4 where four: "delete_record h (wl_workload_name w) (wl_instance_name w) (nw_network_name n) t3 = (x4, t4)"
      by fastforce
    obtain b where b: "x4 = Inr b" using four by (auto simp: delete_record_def faultless_fs[OF h] sbind_def Let_def split: if_splits)
    have k4: "c_state t4 = (c_state s)(path := None)" "taken t4 = taken t3"
      using delete_record_frame[OF four] faultless_honest[OF h] b k1 k2 k3 path taken_cong[of t4 t3] by auto
    show ?thesis
      using run False one gone two three four b k1 k2 k3 k4 r
      by (cases x2; cases x3) (auto simp: existing_network_def sbind_def stale_dropped_def)
  next
    case kept: False
    obtain x2 t2 where two: "add_mappings h (wr_ip_address r) (wr_port_mappings r) t = (x2, t2)" by fastforce
    note k2 = keeps_files_taken[OF keeps_files_mappings(1) two]
    show ?thesis
      using run False one kept two k1 k2
      by (cases x; cases x2) (auto simp: existing_network_def sbind_def split: if_splits)
  qed
qed

lemma kernel_only: "c_kernel t = c_kernel s \<Longrightarrow> fst (succeeds h p args t) = fst (succeeds h p args s)"
  by (auto simp: succeeds_def Let_def split: sum.splits prod.splits)

lemma asked_kernel:
  "open_netns h path s = (r, s') \<Longrightarrow> c_kernel s' = c_kernel s"
  "load h w i n s = (r', s') \<Longrightarrow> c_kernel s' = c_kernel s"
proof -
  assume "open_netns h path s = (r, s')"
  then show "c_kernel s' = c_kernel s"
    by (auto simp: open_netns_def sbind_def fail_with_def fs_run split: sum.splits prod.splits if_splits option.splits)
next
  assume "load h w i n s = (r', s')"
  from load_frame[OF this] show "c_kernel s' = c_kernel s" by simp
qed

text \<open>
  C11. A refused connection leaves no trace. With a file system that works, and whatever the commands
  answer, a connection request that ends in an error leaves every stored record and every pool as they
  were: an address taken on the way is given back and nothing is saved. One thing may be gone: a record
  that this workload already had and whose host interface the kernel no longer knew is dropped with
  its own address, and stays dropped when the request fails later.
\<close>

theorem refused_add_leaves_no_trace:
  assumes "faultless h" and "add_workload_network h node ord req s = (Inl e, s')"
  shows "c_state s' = c_state s \<and> taken s' = taken s \<or>
     (\<exists>w n. an_workload req = Some w \<and> an_network req = Some n \<and>
        stale_dropped h (state_path h (wl_workload_name w) (wl_instance_name w) (nw_network_name n)) s s')"
proof (cases "validate_add_request req")
  case (Inl d)
  with assms(2) show ?thesis by (simp add: add_workload_network_def sbind_def)
next
  case (Inr q)
  obtain w n pid i where q: "validate_add_request req = Inr (w, n, pid, i)" using Inr by (cases q) auto
  then have refs: "an_workload req = Some w" "an_network req = Some n"
    by (auto simp: validate_add_request_def validate_refs_def rbind_eq_Inr ok_or_def Let_def split: if_splits option.splits)
  let ?path = "state_path h (wl_workload_name w) (wl_instance_name w) (nw_network_name n)"
  note run = assms(2)[unfolded add_workload_network_def]
  obtain r1 s1 where one: "open_netns h (an_netns_path req) s = (r1, s1)" by fastforce
  note k1 = keeps_files_taken[OF keeps_files_network(4) one]
  obtain r2 s2 where two: "load h (wl_workload_name w) (wl_instance_name w) (nw_network_name n) s1 = (r2, s2)" by fastforce
  note k2 = load_frame[OF two]
  have T2: "taken s2 = taken s" "c_state s2 = c_state s" "c_kernel s2 = c_kernel s"
    using k2 k1 taken_cong[of s2 s1] asked_kernel(1)[OF one] asked_kernel(2)[OF two] by simp_all
  define ex where "ex = (\<lambda>found. case found of None \<Rightarrow> sret None
     | Some r \<Rightarrow> existing_network h node n i (an_port_mappings req) w r)"
  obtain r3 s3 where three: "ex (case r2 of Inr f \<Rightarrow> f | Inl _ \<Rightarrow> None) s2 = (r3, s3)" by fastforce
  obtain r4 s4 where four: "check_ports_free h ord (an_port_mappings req) s3 = (r4, s4)" by fastforce
  note k4 = keeps_files_taken[OF keeps_files_check_ports four]
  consider "s' = s1" | "s' = s2" | f d where "r2 = Inr f" "r3 = Inl d" "s' = s3" | f where "r2 = Inr f" "r3 = Inr None" "s' = s4"
    | f ns where "r2 = Inr f" "r3 = Inr None" "attach_workload h node ns w n pid i (an_port_mappings req) s4 = (Inl e, s')"
    using run q one two three four
    by (cases r1; cases "validate_mappings (an_port_mappings req)"; cases r2; cases r3; cases "projr r3"; cases r4)
       (auto simp: sbind_def ex_def[symmetric])
  moreover have "if r3 = Inr None \<and> f \<noteq> None then stale_dropped h ?path s s3 else c_state s3 = c_state s \<and> taken s3 = taken s"
    if f: "r2 = Inr f" for f
  proof (cases f)
    case None
    with three f T2 show ?thesis by (simp add: ex_def)
  next
    case (Some r)
    have "c_state s2 ?path = Some (Content r)" using k2 f Some by simp
    from existing_result[OF assms(1) this refl] three f Some
    have "if r3 = Inr None then stale_dropped h ?path s2 s3 else c_state s3 = c_state s2 \<and> taken s3 = taken s2"
      by (simp add: ex_def)
    then show ?thesis using T2 kernel_only[OF T2(3)] Some by (auto simp: stale_dropped_def split: if_splits)
  qed
  moreover have "c_state t = c_state s \<and> taken t = taken s \<or> stale_dropped h ?path s t"
    if "c_state s3 = c_state s \<and> taken s3 = taken s \<or> stale_dropped h ?path s s3" "c_state t = c_state s3" "taken t = taken s3" for t
    using that by (simp add: stale_dropped_def)
  ultimately have "c_state s' = c_state s \<and> taken s' = taken s \<or> stale_dropped h ?path s s'"
    using k1 T2 k4 attach_undone[OF assms(1)] by (smt (verit) option.distinct(1))
  then show ?thesis using refs by blast
qed

text \<open>
  A host whose commands all succeed, but on which the workload's process is replaced while its
  connection is being set up: the address is taken, and given back.
\<close>

definition replaced_process :: "unit host" where
  "replaced_process = calm\<lparr>h_ns_id := (\<lambda>p _. if p = ''/proc/self/ns/net'' then Inr (4, 1) else Inr (4, 98))\<rparr>"

lemma replaced_succeeds [simp]: "succeeds replaced_process program args s = (Inr True, s)"
proof -
  have "h_env replaced_process = h_env calm" "h_is_file replaced_process = h_is_file calm"
    by (simp_all add: replaced_process_def)
  then have "resolve replaced_process program = resolve calm program"
    by (simp only: resolve_def)
  moreover have "h_status replaced_process p a k = (Inr True, k)" for p a k
    by (simp add: replaced_process_def calm_def)
  ultimately show ?thesis
    using ok_resolve[of "\<lambda>_ _. None" program] by (auto simp: succeeds_def calm_def)
qed

lemma replaced_host [simp]:
  "run replaced_process program args s = (Inr (), s)" "fs replaced_process c s = (Inr (), tick s)"
  "node_id replaced_process = Inr 1" "mtu replaced_process = Inr 1450"
  "ensure_vlan replaced_process v n s = (Inr (gateway v n), s)"
  "with_pool_state replaced_process p = with_pool_state (ok_host (\<lambda>_ _. None)) p"
proof -
  show run: "run replaced_process program args s = (Inr (), s)" for program args s by (simp add: run_def)
  show "fs replaced_process c s = (Inr (), tick s)" by (simp add: fs_run replaced_process_def calm_def)
  show "node_id replaced_process = Inr 1"
    by (simp add: node_id_def env_nonempty_def replaced_process_def calm_def ok_host_def) code_simp
  show mtu: "mtu replaced_process = Inr 1450"
    using ok_mtu[of "\<lambda>_ _. None"] by (simp add: mtu_def env_nonempty_def replaced_process_def calm_def)
  have all: "run_all replaced_process cs s = (Inr (), s)" for cs s
    by (induction cs) (auto simp: sbind_def run)
  show "ensure_vlan replaced_process v n s = (Inr (gateway v n), s)"
    by (simp add: ensure_vlan_def ensure_tenant_nat_def ensure_rule_def Let_def run all mtu)
  have "fs replaced_process = fs (ok_host (\<lambda>_ _. None))"
    by (simp add: fun_eq_iff fs_run replaced_process_def calm_def)
  moreover from this have "read_pool replaced_process d = read_pool (ok_host (\<lambda>_ _. None)) d" for d
    by (intro ext) (simp only: read_pool_def)
  ultimately show "with_pool_state replaced_process p = with_pool_state (ok_host (\<lambda>_ _. None)) p"
    by (intro ext) (simp only: with_pool_state_def create_pool_dir_def write_pool_def)
qed

lemma replaced_refuses:
  "\<exists>e s'. add_workload_network replaced_process 1 [] (cni_web_request ''web-1'') empty_cni = (Inl e, s') \<and>
     c_pools s' (pool_dir 100) = Some (PoolDir (Some (Content {})))"
proof -
  let ?h = replaced_process
  let ?ns = "\<lparr>nf_fd = 7, nf_id = (4, 99)\<rparr>"
  let ?a = "ipv4_new 10 100 1 2"
  let ?s = "tick (tick empty_cni)"
  have F: "only_removals_fail (\<lambda>_ _. None)" by (simp add: only_removals_fail_def)
  have ns: "open_netns ?h ''/proc/42/ns/net'' empty_cni = (Inr ?ns, tick empty_cni)"
  proof -
    have "h_open_ns ?h path k = Inr ?ns" "h_ns_id ?h ''/proc/self/ns/net'' k = Inr (4, 1)" for path k
      by (simp_all add: replaced_process_def calm_def)
    then show ?thesis by (simp add: open_netns_def sbind_def)
  qed
  have ld: "load ?h x y z (tick empty_cni) = (Inr None, ?s)" for x y z
    by (simp add: load_def empty_cni_def)
  obtain t where al: "allocate ?h blue_pool ?s =
      (Inr ?a, ?s\<lparr>c_pools := (c_pools ?s)(pool_dir 100 \<mapsto> PoolDir (Some (Content {?a}))), c_clock := t\<rparr>)"
    using with_pool_ok[OF F, of ?s blue_pool "take_free blue_pool" ?a "{?a}"] first_address
    by (auto simp: allocate_def usable_pool_def taken_def empty_cni_def tick_def)
  define s1 where "s1 = ?s\<lparr>c_pools := (c_pools ?s)(pool_dir 100 \<mapsto> PoolDir (Some (Content {?a}))), c_clock := t\<rparr>"
  obtain t' where rel: "with_pool_state (ok_host (\<lambda>_ _. None)) blue_pool (\<lambda>A. Inr (?a \<in> A, A - {?a})) s1 =
      (Inr True, s1\<lparr>c_pools := (c_pools s1)(pool_dir 100 \<mapsto> PoolDir (Some (Content {}))), c_clock := t'\<rparr>)"
    using with_pool_ok[OF F, of s1 blue_pool "\<lambda>A. Inr (?a \<in> A, A - {?a})" True "{}"]
    by (auto simp: s1_def usable_pool_def taken_def)
  have range: "pl_first blue_pool \<le> ?a" "?a \<le> pl_last blue_pool" by (simp_all add: blue_pool_def ipv4_new_def)
  have undo: "c_pools (snd (undo_attach ?h hi blue_pool ?a s1)) (pool_dir 100) = Some (PoolDir (Some (Content {})))" for hi
    using rel range by (simp add: undo_attach_def ignoring_def sbind_def release_def)
  have other: "''/proc/'' @ show_nat pid @ ''/ns/net'' \<noteq> ''/proc/self/ns/net''" for pid
    using ok_namespace(2)[of "\<lambda>_ _. None" pid empty_cni] by (auto simp: netns_matches_def sbind_def ok_host_def)
  have moved: "netns_matches ?h ?ns pid s = (Inr False, s)" for pid s
    using other[of pid] by (simp add: netns_matches_def sbind_def replaced_process_def)
  have conn: "\<exists>e s'. connect_workload ?h ?ns 42 blue_pool ?a r 1450 s1 = (Inl e, s') \<and>
      c_pools s' (pool_dir 100) = Some (PoolDir (Some (Content {})))" for r
    using undo by (simp add: connect_workload_def on_error_def sbind_def setup_interfaces_def Let_def moved fail_with_def)
  have "\<exists>e s'. attach_workload ?h 1 ?ns (web_ref ''web-1'') blue 42 ''eth0'' [] ?s = (Inl e, s') \<and>
      c_pools s' (pool_dir 100) = Some (PoolDir (Some (Content {})))"
    using al[folded s1_def] conn
    by (simp add: attach_workload_def sbind_def blue_def blue_pool_eq[unfolded One_nat_def])
  then show ?thesis
    using ns ld web_valid[of "''web-1''"]
    by (auto simp: add_workload_network_def sbind_def validate_mappings_def cni_web_request_def)
qed

theorem refused_add_leaves_no_trace_witness:
  "\<exists>e s'. add_workload_network replaced_process 1 [] (cni_web_request ''web-1'') empty_cni = (Inl e, s') \<and>
     c_pools s' (pool_dir 100) = Some (PoolDir (Some (Content {}))) \<and> c_state s' = Map.empty"
proof -
  obtain e s' where bad: "add_workload_network replaced_process 1 [] (cni_web_request ''web-1'') empty_cni = (Inl e, s')"
    "c_pools s' (pool_dir 100) = Some (PoolDir (Some (Content {})))"
    using replaced_refuses by blast
  have "faultless replaced_process" by (simp add: faultless_def replaced_process_def calm_def)
  from refused_add_leaves_no_trace[OF this bad(1)] bad show ?thesis
    by (auto simp: empty_cni_def stale_dropped_def)
qed

end
