(* ===== verification/Cni_Reconcile.thy ===== *)
theory Cni_Reconcile imports Cni_Rollback begin

text \<open>
  \<open>cni/src/network/reconcile.rs\<close>, run at startup, and \<open>cni/src/runtime/handler.rs\<close>: the requests over
  gRPC. What is only logged in the code has no trace here.
\<close>

section \<open>Reconciliation\<close>

fun split_stale :: "'k host \<Rightarrow> workload_record list \<Rightarrow> ('k, workload_record list) io" where
  "split_stale h [] = sret []"
| "split_stale h (r # rs) = (\<lambda>s.
     (case ip_ok h [''link'', ''show'', ''dev'', wr_host_interface r] s of
        (Inr False, s1) \<Rightarrow>
          sbind (ignoring (delete_mappings h (wr_ip_address r) (wr_port_mappings r))) (\<lambda>_.
          sbind (ignoring (delete_record h (wr_workload_name r) (wr_instance_name r) (wr_network_name r))) (\<lambda>_.
          split_stale h rs)) s1
      | (_, s1) \<Rightarrow> sbind (split_stale h rs) (\<lambda>live. sret (r # live)) s1))"

definition drop_stale_records :: "'k host \<Rightarrow> string list \<Rightarrow> ('k, workload_record list) io" where
  "drop_stale_records h ord = sbind (records h ord) (split_stale h)"

definition live_addresses :: "workload_record list \<Rightarrow> nat \<Rightarrow> ipv4 set" where
  "live_addresses live vlan =
     set (List.map_filter (\<lambda>r. if wr_vlan_id r = vlan then parse_ipv4 (wr_ip_address r) else None) live)"

definition allocated_vlans :: "workload_record list \<Rightarrow> nat list" where
  "allocated_vlans live = map wr_vlan_id (filter (\<lambda>r. parse_ipv4 (wr_ip_address r) \<noteq> None) live)"

fun reset_pools :: "'k host \<Rightarrow> nat \<Rightarrow> workload_record list \<Rightarrow> nat list \<Rightarrow> ('k, unit) io" where
  "reset_pools h node live [] = sret ()"
| "reset_pools h node live (v # vs) =
     sbind (ignoring (sbind (slift (pool node v)) (\<lambda>p. reset h p (live_addresses live v)))) (\<lambda>_.
     reset_pools h node live vs)"

text \<open>Failing to list the pools leaves those of the live records.\<close>

definition rebuild_ip_pools :: "'k host \<Rightarrow> nat \<Rightarrow> string list \<Rightarrow> workload_record list \<Rightarrow> ('k, unit) io" where
  "rebuild_ip_pools h node ord live s =
     (case known_vlans h ord s of
        (Inr known, s1) \<Rightarrow> reset_pools h node live (sort (remdups (allocated_vlans live @ known))) s1
      | (Inl _, s1) \<Rightarrow> reset_pools h node live (sort (remdups (allocated_vlans live))) s1)"

text \<open>The names in \<open>ip -o link show master\<close>: between the first two colons, before an at sign.\<close>

definition port_of_line :: "string \<Rightarrow> string option" where
  "port_of_line line =
     (case split_on (CHR '':'') line of
        _ # field # _ \<Rightarrow> let nm = hd (split_on (CHR ''@'') (trim field)) in if nm = [] then None else Some nm
      | _ \<Rightarrow> None)"

definition bridge_ports :: "'k host \<Rightarrow> string \<Rightarrow> ('k, string list) io" where
  "bridge_ports h bridge =
     sbind (cmd_output h ''ip'' [''-o'', ''link'', ''show'', ''master'', bridge]) (\<lambda>listing.
     sret (List.map_filter port_of_line (text_lines listing)))"

fun delete_orphans :: "'k host \<Rightarrow> workload_record list \<Rightarrow> string list \<Rightarrow> ('k, unit) io" where
  "delete_orphans h live [] = sret ()"
| "delete_orphans h live (port # ports) =
     sbind (if is_host_interface_name port \<and> (\<forall>r \<in> set live. wr_host_interface r \<noteq> port)
            then ignoring (ip_cmd h [''link'', ''delete'', port]) else sret ()) (\<lambda>_.
     delete_orphans h live ports)"

definition remove_orphan_interfaces :: "'k host \<Rightarrow> workload_record list \<Rightarrow> ('k, unit) io" where
  "remove_orphan_interfaces h live = sbind (bridge_ports h bridge_name) (delete_orphans h live)"

fun ensure_vlans :: "'k host \<Rightarrow> nat \<Rightarrow> nat list \<Rightarrow> ('k, unit) io" where
  "ensure_vlans h node [] = sret ()"
| "ensure_vlans h node (v # vs) =
     sbind (if v \<le> 255 then ignoring (ensure_vlan h v node) else sret ()) (\<lambda>_. ensure_vlans h node vs)"

definition reinstall_vlan_networking :: "'k host \<Rightarrow> workload_record list \<Rightarrow> ('k, unit) io" where
  "reinstall_vlan_networking h live =
     sbind (slift (node_id h)) (\<lambda>node. ensure_vlans h node (sort (remdups (map wr_vlan_id live))))"

fun reinstall_port_mappings :: "'k host \<Rightarrow> workload_record list \<Rightarrow> ('k, unit) io" where
  "reinstall_port_mappings h [] = sret ()"
| "reinstall_port_mappings h (r # rs) =
     sbind (ignoring (add_mappings h (wr_ip_address r) (wr_port_mappings r))) (\<lambda>_. reinstall_port_mappings h rs)"

definition reconcile :: "'k host \<Rightarrow> nat \<Rightarrow> string list \<Rightarrow> string list \<Rightarrow> ('k, unit) io" where
  "reconcile h node ord pool_ord =
     sbind (drop_stale_records h ord) (\<lambda>live.
     sbind (rebuild_ip_pools h node pool_ord live) (\<lambda>_.
     sbind (remove_orphan_interfaces h live) (\<lambda>_.
     sbind (reinstall_vlan_networking h live) (\<lambda>_.
     reinstall_port_mappings h live))))"

section \<open>The daemon\<close>

definition status_from_io :: "io_error \<Rightarrow> status" where
  "status_from_io e = (case io_kind e of
     KInvalidInput \<Rightarrow> Status InvalidArgument (io_text e)
   | KNotFound \<Rightarrow> Status NotFound (io_text e)
   | _ \<Rightarrow> Status Internal ''workload network operation failed'')"

definition rpc_add_workload_network ::
  "'k host \<Rightarrow> nat \<Rightarrow> string list \<Rightarrow> add_network_request \<Rightarrow> ('k cni, status, workload_network) op" where
  "rpc_add_workload_network h node ord req = smap_err status_from_io (add_workload_network h node ord req)"

definition rpc_delete_workload_network ::
  "'k host \<Rightarrow> nat \<Rightarrow> workload_ref option \<Rightarrow> network_ref option \<Rightarrow> ('k cni, status, bool) op" where
  "rpc_delete_workload_network h node w n = smap_err status_from_io (delete_workload_network h node w n)"

definition rpc_get_workload_network ::
  "'k host \<Rightarrow> workload_ref option \<Rightarrow> network_ref option \<Rightarrow> ('k cni, status, workload_network) op" where
  "rpc_get_workload_network h w n = smap_err status_from_io (get_workload_network h w n)"

text \<open>What \<open>runtime::run\<close> does before it serves: the node number the pools are opened with.\<close>

definition daemon_start :: "'k host \<Rightarrow> string list \<Rightarrow> string list \<Rightarrow> ('k, nat) io" where
  "daemon_start h ord pool_ord =
     sbind (slift (node_id h)) (\<lambda>node.
     sbind (ensure_bridge h) (\<lambda>_. sbind (ensure_overlay h) (\<lambda>_. sbind (ensure_egress h) (\<lambda>_.
     sbind (reconcile h node ord pool_ord) (\<lambda>_. sret node)))))"

section \<open>The rebuilt pools\<close>

lemma keeps_files_reinstall [files_kept]:
  "keeps_files (ensure_vlans h node vs)" "keeps_files (reinstall_port_mappings h live)"
  "keeps_files (delete_orphans h live ports)"
proof -
  show "keeps_files (ensure_vlans h node vs)"
    by (induction vs) (simp_all only: ensure_vlans.simps, (intro files_kept files_rules | assumption)+)
  show "keeps_files (reinstall_port_mappings h live)"
    by (induction live) (simp_all only: reinstall_port_mappings.simps, (intro files_kept files_rules | assumption)+)
  show "keeps_files (delete_orphans h live ports)"
    by (induction ports) (simp_all only: delete_orphans.simps, (intro files_kept files_rules | assumption)+)
qed

lemma keeps_files_after_rebuild:
  "keeps_files (sbind (remove_orphan_interfaces h live) (\<lambda>_. sbind (reinstall_vlan_networking h live) (\<lambda>_.
     reinstall_port_mappings h live)))"
  unfolding remove_orphan_interfaces_def reinstall_vlan_networking_def bridge_ports_def
  by (intro files_kept files_rules)

text \<open>Records filed under their own names, in files the directory listing recognises.\<close>

definition well_filed :: "'k host \<Rightarrow> (string \<rightharpoonup> workload_record stored) \<Rightarrow> bool" where
  "well_filed h f \<longleftrightarrow> (\<forall>nm r. f nm = Some (Content r) \<longrightarrow> has_json_extension nm \<and> nm = record_path h r)"

definition stored_records :: "(string \<rightharpoonup> workload_record stored) \<Rightarrow> workload_record set" where
  "stored_records f = {r. \<exists>nm. f nm = Some (Content r)}"

lemma scan_records_all:
  assumes h: "faultless h" and f: "well_filed h (c_state s)"
    and run: "scan_records h names acc s = (Inr rs, s')"
  shows "c_state s' = c_state s \<and> c_pools s' = c_pools s \<and>
     set rs = set acc \<union> {r. \<exists>nm \<in> set names. c_state s nm = Some (Content r)}"
  using f run
proof (induction names arbitrary: acc s)
  case (Cons nm names)
  have skip: ?case if "scan_records h names acc t = (Inr rs, s')" "c_state t = c_state s" "c_pools t = c_pools s"
      "\<And>r. c_state s nm \<noteq> Some (Content r)" for t
    using Cons.IH[OF _ that(1)] Cons.prems(1) that(2-4) by auto
  show ?case
  proof (cases "has_json_extension nm")
    case False
    then have "\<And>r. c_state s nm \<noteq> Some (Content r)" using Cons.prems(1) by (auto simp: well_filed_def)
    then show ?thesis using skip[of "tick s"] Cons.prems(2) False by (simp add: sbind_def faultless_fs[OF h])
  next
    case json: True
    show ?thesis
    proof (cases "c_state s nm")
      case None
      then show ?thesis
        using skip[of "tick (tick s)"] Cons.prems(2) json by (simp add: sbind_def read_file_def faultless_fs[OF h])
    next
      case (Some c)
      show ?thesis
      proof (cases c)
        case Garbage
        then show ?thesis
          using skip[of "tick (tick (tick s))"] Cons.prems(2) json Some
          by (simp add: sbind_def read_file_def read_record_def fail_with_def faultless_fs[OF h])
      next
        case (Content r)
        then have "scan_records h names (acc @ [r]) (tick (tick (tick s))) = (Inr rs, s')"
          using Cons.prems(2) json Some
          by (simp add: sbind_def read_file_def read_record_def faultless_fs[OF h])
        from Cons.IH[OF _ this] Cons.prems(1) Some Content show ?thesis by auto
      qed
    qed
  qed
qed auto

lemma scan_records_distinct:
  assumes h: "faultless h" and f: "well_filed h (c_state s)"
    and run: "scan_records h names acc s = (r, s')"
  shows "\<exists>more. r = Inr (acc @ more) \<and> map (record_path h) more = filter (\<lambda>nm. \<exists>x. c_state s nm = Some (Content x)) names"
  using f run
proof (induction names arbitrary: acc s)
  case (Cons nm names)
  show ?case
  proof (cases "\<exists>x. c_state s nm = Some (Content x)")
    case True
    then obtain x where x: "c_state s nm = Some (Content x)" by blast
    then have "has_json_extension nm" "record_path h x = nm" using Cons.prems(1) by (auto simp: well_filed_def)
    then have "scan_records h names (acc @ [x]) (tick (tick (tick s))) = (r, s')"
      using Cons.prems(2) x by (simp add: sbind_def read_file_def read_record_def faultless_fs[OF h])
    from Cons.IH[OF _ this] Cons.prems(1) obtain more where
      "r = Inr ((acc @ [x]) @ more)" "map (record_path h) more = filter (\<lambda>nm. \<exists>x. c_state s nm = Some (Content x)) names"
      by auto
    then show ?thesis using x \<open>record_path h x = nm\<close> by (intro exI[of _ "x # more"]) simp
  next
    case False
    have "\<exists>t. scan_records h names acc t = (r, s') \<and> c_state t = c_state s"
    proof (cases "has_json_extension nm \<and> c_state s nm \<noteq> None")
      case True
      then have "c_state s nm = Some Garbage" using False by (metis not_None_eq stored.exhaust)
      with True Cons.prems(2) show ?thesis
        by (intro exI[of _ "tick (tick (tick s))"])
           (simp add: sbind_def read_file_def read_record_def fail_with_def faultless_fs[OF h])
    next
      case no: False
      show ?thesis
      proof (cases "has_json_extension nm")
        case True
        with no Cons.prems(2) show ?thesis
          by (intro exI[of _ "tick (tick s)"]) (simp add: sbind_def read_file_def faultless_fs[OF h])
      next
        case False
        with Cons.prems(2) show ?thesis
          by (intro exI[of _ "tick s"]) (simp add: sbind_def faultless_fs[OF h])
      qed
    qed
    then obtain t where "scan_records h names acc t = (r, s')" "c_state t = c_state s" by blast
    from Cons.IH[OF _ this(1)] this(2) Cons.prems(1) False show ?thesis by auto
  qed
qed simp

lemma records_listed:
  assumes h: "faultless h" and f: "well_filed h (c_state s)" and ord: "iter_order (c_state s) ord"
    and run: "records h ord s = (r, s')"
  shows "\<exists>rs. r = Inr rs \<and> distinct (map (record_path h) rs) \<and> set rs = stored_records (c_state s) \<and>
     c_state s' = c_state s \<and> c_pools s' = c_pools s"
proof -
  have scan: "scan_records h ord [] (tick s) = (r, s')" using run by (simp add: records_def faultless_fs[OF h])
  obtain rs where rs: "r = Inr rs" "map (record_path h) rs = filter (\<lambda>nm. \<exists>x. c_state s nm = Some (Content x)) ord"
    using scan_records_distinct[OF h _ scan] f by auto
  note all = scan_records_all[OF h _ scan[unfolded rs(1)]]
  have "distinct (map (record_path h) rs)" using rs(2) ord by (simp add: iter_order_def)
  moreover have "set rs = stored_records (c_state s)"
    using all f ord by (auto simp: stored_records_def iter_order_def dom_def)
  ultimately show ?thesis using all f rs(1) by simp
qed

lemma ignoring_delete:
  assumes h: "faultless h"
  shows "\<exists>t. ignoring (delete_record h w i n) s = (Inr (), t) \<and> c_pools t = c_pools s \<and>
     c_state t = (c_state s)(state_path h w i n := None)"
proof -
  obtain r t where del: "delete_record h w i n s = (r, t)" by fastforce
  have "\<exists>b. r = Inr b" using del by (auto simp: delete_record_def faultless_fs[OF h] sbind_def Let_def split: if_splits)
  with delete_record_frame[OF del] faultless_honest[OF h] del show ?thesis by (simp add: ignoring_def)
qed

lemma split_stale_live:
  assumes h: "faultless h" and rs: "distinct (map (record_path h) rs)"
    and files: "\<forall>x \<in> set rs. c_state s (record_path h x) = Some (Content x)"
    and run: "split_stale h rs s = (r, s')"
  shows "\<exists>live. r = Inr live \<and> set live \<subseteq> set rs \<and> c_pools s' = c_pools s \<and>
     c_state s' = (\<lambda>nm. if nm \<in> record_path h ` (set rs - set live) then None else c_state s nm)"
  using rs files run
proof (induction rs arbitrary: s r s')
  case Nil
  then show ?case by simp
next
  case (Cons x rs)
  obtain r1 s1 where one: "ip_ok h [''link'', ''show'', ''dev'', wr_host_interface x] s = (r1, s1)" by fastforce
  note k1 = keeps_filesD[OF keeps_files_base(1) one]
  have fresh: "record_path h x \<notin> record_path h ` set rs" "x \<notin> set rs" using Cons.prems(1) by auto
  show ?case
  proof (cases "r1 = Inr False")
    case True
    obtain r2 s2 where two: "ignoring (delete_mappings h (wr_ip_address x) (wr_port_mappings x)) s1 = (r2, s2)" by fastforce
    note k2 = keeps_filesD[OF keeps_files_ignoring[OF keeps_files_mappings(2)] two]
    have r2: "r2 = Inr ()" using two by (auto simp: ignoring_def)
    obtain s3 where three: "ignoring (delete_record h (wr_workload_name x) (wr_instance_name x) (wr_network_name x)) s2 = (Inr (), s3)"
        "c_pools s3 = c_pools s2" "c_state s3 = (c_state s2)(record_path h x := None)"
      using ignoring_delete[OF h] unfolding record_path_def by blast
    have rest: "split_stale h rs s3 = (r, s')"
      using Cons.prems(3) one True two r2 three by (simp add: sbind_def)
    have "\<forall>y \<in> set rs. c_state s3 (record_path h y) = Some (Content y)"
    proof
      fix y assume "y \<in> set rs"
      then have "record_path h y \<noteq> record_path h x" using fresh(1) by (metis image_eqI)
      then show "c_state s3 (record_path h y) = Some (Content y)"
        using Cons.prems(2) \<open>y \<in> set rs\<close> three(3) k1 k2 by simp
    qed
    from Cons.IH[OF _ this rest] Cons.prems(1) obtain live where live: "r = Inr live" "set live \<subseteq> set rs" "c_pools s' = c_pools s3"
        "c_state s' = (\<lambda>nm. if nm \<in> record_path h ` (set rs - set live) then None else c_state s3 nm)"
      by auto
    have "set (x # rs) - set live = insert x (set rs - set live)" using fresh(2) live(2) by auto
    then show ?thesis using live three k1 k2 by (auto simp: fun_eq_iff)
  next
    case False
    obtain r2 s2 where two: "split_stale h rs s1 = (r2, s2)" by fastforce
    have "\<forall>y \<in> set rs. c_state s1 (record_path h y) = Some (Content y)" using Cons.prems(2) k1 by simp
    from Cons.IH[OF _ this two] Cons.prems(1) obtain live where live: "r2 = Inr live" "set live \<subseteq> set rs" "c_pools s2 = c_pools s1"
        "c_state s2 = (\<lambda>nm. if nm \<in> record_path h ` (set rs - set live) then None else c_state s1 nm)"
      by auto
    have "(r, s') = (Inr (x # live), s2)"
      using Cons.prems(3) one False two live(1)
      by (cases r1) (auto simp: sbind_def split: bool.splits)
    moreover have "set (x # rs) - set (x # live) = set rs - set live" using fresh(2) by auto
    ultimately show ?thesis using live k1 by (intro exI[of _ "x # live"]) (auto simp: fun_eq_iff)
  qed
qed

text \<open>No pool directory of this node is a plain file or holds an unreadable state.\<close>

definition pools_usable :: "'k cni \<Rightarrow> bool" where
  "pools_usable s \<longleftrightarrow> (\<forall>d. c_pools s d \<noteq> Some NotDir \<or> vlan_of_dir d = None) \<and>
     (\<forall>d. c_pools s d \<noteq> Some (PoolDir (Some Garbage)))"

lemma reset_faultless:
  assumes h: "faultless h" and u: "c_pools s (pl_dir p) \<noteq> Some NotDir" "c_pools s (pl_dir p) \<noteq> Some (PoolDir (Some Garbage))"
  shows "\<exists>t. reset h p A s = (Inr (), t) \<and> c_state t = c_state s \<and>
     c_pools t = (c_pools s)(pl_dir p \<mapsto> PoolDir (Some (Content A)))"
proof -
  have upd: "sbind (\<lambda>s. (Inr (), g s)) k s = k () (g s)" for g k and s :: "'a cni" by (simp add: sbind_def)
  show ?thesis
    by (cases rule: pool_entry_cases[of "c_pools s (pl_dir p)"])
       (use u in \<open>auto simp: reset_def with_pool_state_def sbind_def create_pool_dir_def read_pool_def write_pool_def
          faultless_fs[OF h] upd\<close>)
qed

lemma reset_pools_taken:
  assumes h: "faultless h"
  shows "distinct vs \<Longrightarrow> pools_usable s \<Longrightarrow> reset_pools h node live vs s = (r, s') \<Longrightarrow>
     c_state s' = c_state s \<and> pools_usable s' \<and>
     (\<forall>v \<le> 255. taken s' (pool_dir v) = (if v \<in> set vs then live_addresses live v else taken s (pool_dir v)))"
proof (induction vs arbitrary: s)
  case (Cons v vs)
  show ?case
  proof (cases "v \<le> 255")
    case False
    then have "pool node v = Inl (IoError KInvalidInput ''vlan_id must fit in a single byte'')" by (simp add: pool_def)
    then have "reset_pools h node live vs s = (r, s')" using Cons.prems(3) by (simp add: sbind_def ignoring_def)
    from Cons.IH[OF _ Cons.prems(2) this] Cons.prems(1) False show ?thesis by auto
  next
    case True
    obtain p where p: "pool node v = Inr p" "pl_dir p = pool_dir v" using True by (auto simp: pool_eq)
    have "c_pools s (pl_dir p) \<noteq> Some NotDir" "c_pools s (pl_dir p) \<noteq> Some (PoolDir (Some Garbage))"
      using Cons.prems(2) pool_dir_vlan[OF True] p(2) by (auto simp: pools_usable_def)
    from reset_faultless[OF h this, of "live_addresses live v"] obtain t where
      t: "reset h p (live_addresses live v) s = (Inr (), t)" "c_state t = c_state s"
        "c_pools t = (c_pools s)(pool_dir v \<mapsto> PoolDir (Some (Content (live_addresses live v))))"
      using p(2) by auto
    have rest: "reset_pools h node live vs t = (r, s')" using Cons.prems(3) p t(1) by (simp add: sbind_def ignoring_def)
    have u: "pools_usable t" using Cons.prems(2) t(3) by (auto simp: pools_usable_def)
    have tk: "taken t (pool_dir w) = (if w = v then live_addresses live v else taken s (pool_dir w))" for w
      using t(3) pool_dir_inj[of w v] by (auto simp: taken_def)
    from Cons.IH[OF _ u rest] Cons.prems(1) tk t(2) show ?thesis by auto
  qed
qed auto

lemma list_vlans_all:
  assumes h: "faultless h"
  shows "list_vlans h names acc s = (r, s') \<Longrightarrow> \<exists>vs. r = Inr vs \<and> c_state s' = c_state s \<and> c_pools s' = c_pools s \<and>
     set vs = set acc \<union> {v. \<exists>nm \<in> set names. \<exists>e. c_pools s nm = Some (PoolDir e) \<and> vlan_of_dir nm = Some v}"
proof (induction names arbitrary: acc s)
  case (Cons nm names)
  show ?case
  proof (cases "\<exists>e v. c_pools s nm = Some (PoolDir e) \<and> vlan_of_dir nm = Some v")
    case True
    then obtain e v where ev: "c_pools s nm = Some (PoolDir e)" "vlan_of_dir nm = Some v" by blast
    then have "list_vlans h names (acc @ [v]) (tick s) = (r, s')"
      using Cons.prems by (simp add: sbind_def faultless_fs[OF h])
    from Cons.IH[OF this] ev show ?thesis by auto
  next
    case False
    then have "list_vlans h names acc (tick s) = (r, s')"
      using Cons.prems by (auto simp: sbind_def faultless_fs[OF h] split: option.splits pool_entry.splits)
    from Cons.IH[OF this] False show ?thesis by auto
  qed
qed auto

lemma rebuild_taken:
  assumes h: "faultless h" and dirs: "dom (c_pools s) \<subseteq> set ord" and u: "pools_usable s"
    and run: "rebuild_ip_pools h node ord live s = (r, s')" and v: "v \<le> 255"
  shows "c_state s' = c_state s \<and> taken s' (pool_dir v) = live_addresses live v"
proof -
  obtain rk s1 where kn: "known_vlans h ord s = (rk, s1)" by fastforce
  then have "list_vlans h ord [] (tick s) = (rk, s1)" by (simp add: known_vlans_def faultless_fs[OF h])
  from list_vlans_all[OF h this] obtain known where known: "rk = Inr known" "c_state s1 = c_state s" "c_pools s1 = c_pools s"
      "set known = {v. \<exists>nm \<in> set ord. \<exists>e. c_pools s nm = Some (PoolDir e) \<and> vlan_of_dir nm = Some v}"
    by auto
  let ?vs = "sort (remdups (allocated_vlans live @ known))"
  have go: "reset_pools h node live ?vs s1 = (r, s')" using run kn known(1) by (simp add: rebuild_ip_pools_def)
  have "pools_usable s1" using u known(3) by (simp add: pools_usable_def)
  note reset = reset_pools_taken[OF h _ this go]
  have same: "taken s1 = taken s" by (rule taken_cong[OF known(3)])
  have "taken s (pool_dir v) = live_addresses live v" if "v \<notin> set ?vs"
  proof -
    have "c_pools s (pool_dir v) \<noteq> Some (PoolDir e)" for e
    proof
      assume e: "c_pools s (pool_dir v) = Some (PoolDir e)"
      then have "pool_dir v \<in> set ord" using dirs by auto
      then have "v \<in> set known" using e pool_dir_vlan[OF v] unfolding known(4) by blast
      with that show False by simp
    qed
    then have "taken s (pool_dir v) = {}" by (auto simp: taken_def split: option.splits pool_entry.splits)
    moreover have "live_addresses live v = {}"
    proof -
      have "\<forall>x \<in> set live. wr_vlan_id x = v \<longrightarrow> parse_ipv4 (wr_ip_address x) = None"
        using that by (auto simp: allocated_vlans_def image_iff)
      then show ?thesis by (induction live) (auto simp: live_addresses_def List.map_filter_def)
    qed
    ultimately show ?thesis by simp
  qed
  then show ?thesis using reset v known(2) same by auto
qed

lemma live_addresses_mem:
  "live_addresses live v = {a. \<exists>x \<in> set live. wr_vlan_id x = v \<and> parse_ipv4 (wr_ip_address x) = Some a}"
  by (induction live) (auto simp: live_addresses_def List.map_filter_def split: option.splits)

text \<open>
  C32. At startup the pools are rebuilt from what is still there. With a file system that works, well-filed
  records and readable pools, reconciliation ends, whatever the commands answer, with the pool of every
  VLAN holding exactly the addresses of the records that are left: addresses of vanished workloads are
  free again, those of stored ones are taken.
\<close>

theorem reconcile_rebuilds_pools:
  assumes "faultless h" and "well_filed h (c_state s)" and "iter_order (c_state s) ord"
    and "dom (c_pools s) \<subseteq> set pool_ord" and "pools_usable s" and "vlan \<le> 255"
    and "reconcile h node ord pool_ord s = (r, s')"
  shows "taken s' (pool_dir vlan) =
     {a. \<exists>x \<in> stored_records (c_state s'). wr_vlan_id x = vlan \<and> parse_ipv4 (wr_ip_address x) = Some a}"
proof -
  note h = assms(1)
  obtain r1 s1 where one: "records h ord s = (r1, s1)" by fastforce
  obtain rs where rs: "r1 = Inr rs" "distinct (map (record_path h) rs)" "set rs = stored_records (c_state s)"
      "c_state s1 = c_state s" "c_pools s1 = c_pools s"
    using records_listed[OF h assms(2,3) one] by blast
  obtain r2 s2 where two: "split_stale h rs s1 = (r2, s2)" by fastforce
  have files: "\<forall>x \<in> set rs. c_state s1 (record_path h x) = Some (Content x)"
    using rs(3,4) assms(2) by (auto simp: stored_records_def well_filed_def)
  obtain live where live: "r2 = Inr live" "set live \<subseteq> set rs" "c_pools s2 = c_pools s1"
      "c_state s2 = (\<lambda>nm. if nm \<in> record_path h ` (set rs - set live) then None else c_state s1 nm)"
    using split_stale_live[OF h rs(2) files two] by blast
  obtain r3 s3 where three: "rebuild_ip_pools h node pool_ord live s2 = (r3, s3)" by fastforce
  have "dom (c_pools s2) \<subseteq> set pool_ord" "pools_usable s2"
    using assms(4,5) live(3) rs(5) by (simp_all add: pools_usable_def)
  note pools = rebuild_taken[OF h this three assms(6)]
  have left: "stored_records (c_state s2) = set live"
  proof (rule set_eqI)
    fix x
    have "x \<in> stored_records (c_state s2) \<longleftrightarrow>
        (\<exists>nm. c_state s nm = Some (Content x) \<and> nm \<notin> record_path h ` (set rs - set live))"
      using live(4) rs(4) by (auto simp: stored_records_def)
    also have "\<dots> \<longleftrightarrow> x \<in> set rs \<and> record_path h x \<notin> record_path h ` (set rs - set live)"
    proof -
      have at: "c_state s nm = Some (Content x) \<Longrightarrow> nm = record_path h x" for nm
        using assms(2) by (simp add: well_filed_def)
      have "x \<in> set rs \<longleftrightarrow> (\<exists>nm. c_state s nm = Some (Content x))" by (simp add: rs(3) stored_records_def)
      with at show ?thesis by blast
    qed
    also have "\<dots> \<longleftrightarrow> x \<in> set live"
    proof
      assume "x \<in> set rs \<and> record_path h x \<notin> record_path h ` (set rs - set live)"
      then show "x \<in> set live" by blast
    next
      assume x: "x \<in> set live"
      have "record_path h y \<noteq> record_path h x" if "y \<in> set rs - set live" for y
        using that x live(2) rs(2) by (auto simp: distinct_map dest: inj_onD)
      then have "record_path h x \<notin> record_path h ` (set rs - set live)" by (metis imageE)
      with x live(2) show "x \<in> set rs \<and> record_path h x \<notin> record_path h ` (set rs - set live)" by blast
    qed
    finally show "x \<in> stored_records (c_state s2) \<longleftrightarrow> x \<in> set live" .
  qed
  let ?rest = "sbind (remove_orphan_interfaces h live) (\<lambda>_. sbind (reinstall_vlan_networking h live) (\<lambda>_.
     reinstall_port_mappings h live))"
  obtain r4 s4 where four: "?rest s3 = (r4, s4)" by fastforce
  note k4 = keeps_files_taken[OF keeps_files_after_rebuild four]
  have "\<exists>u. r3 = Inr u"
  proof -
    have "fst (reset_pools h node live vs t) = Inr ()" for vs t
      by (induction vs arbitrary: t) (auto simp: sbind_def ignoring_def)
    then show ?thesis using three by (auto simp: rebuild_ip_pools_def split: prod.splits sum.splits) (metis fst_conv)+
  qed
  then have "s' = s4"
    using assms(7) one rs(1) two live(1) three four by (auto simp: reconcile_def drop_stale_records_def sbind_def)
  then show ?thesis using pools k4 left live_addresses_mem[of live vlan] by simp
qed

text \<open>A calm host with one stored workload, and a pool that holds its address and a leaked one.\<close>

definition leaky_cni :: "unit cni" where
  "leaky_cni = \<lparr>c_state = [web_path ''web-1'' \<mapsto> Content (web_record ''web-1'' (ipv4_new 10 100 1 2))],
     c_pools = [pool_dir 100 \<mapsto> PoolDir (Some (Content {ipv4_new 10 100 1 2, ipv4_new 10 100 1 9}))],
     c_kernel = (), c_clock = 0\<rparr>"

theorem reconcile_rebuilds_pools_witness:
  "taken (snd (reconcile calm 1 [web_path ''web-1''] [pool_dir 100] leaky_cni)) (pool_dir 100) =
     {a. \<exists>x \<in> stored_records (c_state (snd (reconcile calm 1 [web_path ''web-1''] [pool_dir 100] leaky_cni))).
        wr_vlan_id x = 100 \<and> parse_ipv4 (wr_ip_address x) = Some a}"
proof (rule reconcile_rebuilds_pools)
  show "faultless calm" by (simp add: faultless_def calm_def)
  have path: "record_path calm (web_record ''web-1'' a) = web_path ''web-1''" for a
    unfolding calm_def by (rule web_record_path)
  have json: "has_json_extension (web_path ''web-1'')"
    by (simp add: has_json_extension_def ends_with_def web_path_def state_path_def stable_id_def hex_byte_def)
  show "well_filed calm (c_state leaky_cni)"
    by (simp add: well_filed_def leaky_cni_def json path)
  show "iter_order (c_state leaky_cni) [web_path ''web-1'']" by (simp add: iter_order_def leaky_cni_def)
  show "dom (c_pools leaky_cni) \<subseteq> set [pool_dir 100]" by (simp add: leaky_cni_def)
  show "pools_usable leaky_cni" by (simp add: pools_usable_def leaky_cni_def)
  show "reconcile calm 1 [web_path ''web-1''] [pool_dir 100] leaky_cni =
      (fst (reconcile calm 1 [web_path ''web-1''] [pool_dir 100] leaky_cni),
       snd (reconcile calm 1 [web_path ''web-1''] [pool_dir 100] leaky_cni))" by simp
qed simp

end
