(* ===== verification/Cni_Socket.thy ===== *)
theory Cni_Socket imports Disk_Effects begin

text \<open>
  \<open>cni/src/runtime/socket.rs\<close>: the daemon's Unix socket in the file tree of \<open>Disk\<close>, which nobody else
  changes meanwhile; and what binding it may touch.
\<close>

section \<open>Calls\<close>

definition symlink_metadata :: "path \<Rightarrow> inode sys" where
  "symlink_metadata p = sys (\<lambda>d. case dk_tree d (locate d p) of
     Some n \<Rightarrow> (Inr n, d) | None \<Rightarrow> (Inl (missing_at d (locate d p)), d))"

definition is_socket :: "inode \<Rightarrow> bool" where
  "is_socket n = (case n of Socket _ \<Rightarrow> True | _ \<Rightarrow> False)"

definition remove_file :: "path \<Rightarrow> unit sys" where
  "remove_file p = sys (\<lambda>d. case dk_tree d (locate d p) of
     None \<Rightarrow> (Inl (missing_at d (locate d p)), d)
   | Some (Dir _) \<Rightarrow> (Inl is_directory, d)
   | Some _ \<Rightarrow> (Inr (), set_node (locate d p) None d))"

text \<open>\<open>bind(2)\<close> on a Unix socket makes the entry, with mode 0777 less the umask.\<close>

definition unix_bind :: "path \<Rightarrow> unit sys" where
  "unix_bind p = sys (\<lambda>d. if dk_tree d (locate d p) \<noteq> None
     then (Inl (IoError KOther ''Address already in use (os error 98)''), d)
     else add_node (Socket (0x1FF AND NOT (dk_umask d))) (locate d p) d)"

section \<open>\<open>socket.rs\<close>\<close>

definition socket_remove :: "path \<Rightarrow> unit sys" where
  "socket_remove p d = (case symlink_metadata p d of
     (Inr n, d1) \<Rightarrow>
       if is_socket n then remove_file p d1
       else (Inl (IoError KAlreadyExists ''refusing to replace a non-socket filesystem entry''), d1)
   | (Inl e, d1) \<Rightarrow> if io_kind e = KNotFound then (Inr (), d1) else (Inl e, d1))"

definition socket_bind :: "path \<Rightarrow> unit sys" where
  "socket_bind p =
     sbind (slift (ok_or (path_parent p) (IoError KInvalidInput ''socket has no parent''))) (\<lambda>parent.
     sbind (create_dir_all parent) (\<lambda>_.
     sbind (set_permissions parent 0x1E8) (\<lambda>_.
     sbind (socket_remove p) (\<lambda>_.
     sbind (unix_bind p) (\<lambda>_.
     set_permissions p 0x1B0)))))"

section \<open>What binding leaves alone\<close>

lemma spares_remove: "spares_files (socket_remove p)"
proof (rule sparesI)
  fix d r d' assume run: "socket_remove p d = (r, d')"
  have meta: "spares_files (symlink_metadata p)"
    unfolding symlink_metadata_def by (rule spares_sys) (auto simp: files_stay_def split: option.splits)
  obtain r1 d1 where one: "symlink_metadata p d = (r1, d1)" by fastforce
  have k1: "files_stay d d1" by (rule sparesD[OF meta one])
  have stays: "files_stay d1 d2" if sock: "is_socket n" "dk_tree d1 (locate d1 p) = Some n" and rm: "remove_file p d1 = (r2, d2)" for n r2 d2
  proof -
    from rm sock show ?thesis
      by (auto simp: remove_file_def sys_def Let_def files_stay_def is_socket_def
          split: option.splits inode.splits)
  qed
  show "files_stay d d'"
  proof (cases r1)
    case (Inl e)
    with run one k1 show ?thesis by (auto simp: socket_remove_def split: if_splits)
  next
    case (Inr n)
    then have "dk_tree d1 (locate d1 p) = Some n"
      using one by (auto simp: symlink_metadata_def sys_def Let_def split: option.splits)
    with run one Inr k1 stays show ?thesis
      by (auto simp: socket_remove_def split: if_splits intro: fs.rel_trans)
  qed
qed

lemma spares_unix_bind: "spares_files (unix_bind p)"
  unfolding unix_bind_def
  by (rule spares_sys) (auto simp: files_stay_def add_node_def split: if_splits)

text \<open>Permissions of what is no file.\<close>

lemma permissions_stay:
  assumes "set_permissions p m d = (r, d')" "p \<noteq> Path False [] \<Longrightarrow> \<not> (\<exists>x c. dk_tree d (locate d p) = Some (File x c))"
  shows "files_stay d d'"
  using assms
  by (auto simp: set_permissions_def sys_def Let_def files_stay_def with_mode_def
      split: option.splits if_splits inode.splits)

lemma stays_sbind:
  assumes "sbind f g d = (r, d')" "\<And>r1 d1. f d = (r1, d1) \<Longrightarrow> files_stay d d1"
    and "\<And>x d1. f d = (Inr x, d1) \<Longrightarrow> g x d1 = (r, d') \<Longrightarrow> files_stay d1 d'"
  shows "files_stay d d'"
proof -
  obtain r1 d1 where one: "f d = (r1, d1)" by fastforce
  with assms show ?thesis by (cases r1) (auto intro: files_stay_trans)
qed

section \<open>What a successful bind leaves\<close>

lemma mkdir_made:
  "mkdir p d = (Inr u, d') \<Longrightarrow> is_dir_node (dk_tree d' (locate d' p))"
  by (auto simp: mkdir_def sys_def Let_def add_node_def is_dir_node_def locate_def set_node_def split: option.splits if_splits)

lemma ok_if_dir_made:
  "ok_if_dir p (mkdir p) d = (Inr u, d') \<Longrightarrow> is_dir_node (dk_tree d' (locate d' p))"
  by (auto simp: ok_if_dir_def dest: mkdir_made split: prod.splits sum.splits if_splits)

lemma create_dir_all_made:
  assumes "create_dir_all p d = (Inr u, d')" "p \<noteq> Path False []"
  shows "is_dir_node (dk_tree d' (locate d' p))"
proof (cases "rev (path_comps p)")
  case Nil
  with assms show ?thesis
    by (cases p) (auto simp: create_dir_all_def dest: ok_if_dir_made split: if_splits)
next
  case (Cons c cs)
  have p: "Path (path_abs p) (rev cs @ [c]) = p" using Cons by (cases p) (simp add: rev_eq_Cons_iff)
  show ?thesis
    using assms(1) unfolding create_dir_all_def Cons
    by (auto simp: p Let_def sbind_eq_Inr dest: mkdir_made ok_if_dir_made split: prod.splits sum.splits if_splits)
qed

lemma permissions_set:
  "set_permissions p m d = (Inr u, d') \<Longrightarrow> p \<noteq> Path False [] \<and> same_env d d' \<and>
     (\<exists>n. dk_tree d (locate d p) = Some n \<and> dk_tree d' = (dk_tree d)(locate d p \<mapsto> with_mode m n))"
  by (auto simp: set_permissions_def sys_def Let_def split: option.splits if_splits)

lemma remove_done:
  assumes "socket_remove p d = (Inr u, d')"
  shows "same_env d d' \<and> (dk_tree d' = dk_tree d \<or>
     (\<exists>m. dk_tree d (locate d p) = Some (Socket m) \<and> dk_tree d' = (dk_tree d)(locate d p := None)))"
proof -
  obtain r1 d1 where one: "symlink_metadata p d = (r1, d1)" by fastforce
  have t: "same_env d d1" "dk_tree d1 = dk_tree d" and n: "\<And>n. r1 = Inr n \<Longrightarrow> dk_tree d (locate d p) = Some n"
    using one by (auto simp: symlink_metadata_def sys_def Let_def split: option.splits)
  show ?thesis
  proof (cases r1)
    case (Inl e)
    then show ?thesis using assms one t by (auto simp: socket_remove_def split: if_splits)
  next
    case (Inr x)
    then obtain m where m: "x = Socket m" and rm: "remove_file p d1 = (Inr u, d')"
      using assms one by (auto simp: socket_remove_def is_socket_def split: if_splits inode.splits)
    have "dk_tree d' = (dk_tree d1)(locate d1 p := None)" "same_env d1 d'"
      using rm n[OF Inr] m t by (auto simp: remove_file_def sys_def Let_def same_env_locate split: option.splits)
    with t n[OF Inr] m show ?thesis by (auto simp: same_env_locate intro: same_env_trans)
  qed
qed

lemma bind_done:
  assumes "unix_bind p d = (Inr u, d')"
  shows "same_env d d' \<and> dk_tree d (locate d p) = None \<and> is_dir_node (dk_tree d (butlast (locate d p))) \<and>
     (\<exists>m. dk_tree d' = (dk_tree d)(locate d p \<mapsto> Socket m))"
  using assms by (auto simp: unix_bind_def sys_def Let_def add_node_def split: option.splits if_splits)

text \<open>
  C39. The daemon takes over its own socket and nothing else. Whatever is at the configured path and
  whichever call fails, binding leaves every file with its bytes and permissions and every directory a
  directory. When it succeeds, the path held nothing or a socket before, it is a socket that only the
  owner and the group may use now, and its directory is closed to others.
\<close>

theorem socket_replaces_only_sockets:
  assumes run: "socket_bind p d = (r, d')"
  shows "files_stay d d' \<and>
     (r = Inr () \<longrightarrow> (\<forall>n. dk_tree d (locate d p) = Some n \<longrightarrow> is_socket n) \<and>
        dk_tree d' (locate d p) = Some (Socket 0x1B0) \<and>
        (\<exists>parent. path_parent p = Some parent \<and> dk_tree d' (locate d parent) = Some (Dir 0x1E8)))"
proof (cases "path_parent p")
  case None
  with run show ?thesis by (auto simp: socket_bind_def sbind_def)
next
  case (Some parent)
  have run2: "sbind (create_dir_all parent) (\<lambda>_. sbind (set_permissions parent 0x1E8) (\<lambda>_. sbind (socket_remove p) (\<lambda>_.
      sbind (unix_bind p) (\<lambda>_. set_permissions p 0x1B0)))) d = (r, d')"
    using run Some by (simp add: socket_bind_def sbind_def)
  have stays: "files_stay d d'"
  proof (rule stays_sbind[OF run2])
    show "files_stay d d1" if "create_dir_all parent d = (r1, d1)" for r1 d1
      using that unfolding create_dir_all_def by (rule sparesD[OF spares_create_up])
    fix x d1 assume made: "create_dir_all parent d = (Inr x, d1)"
      and run3: "sbind (set_permissions parent 0x1E8) (\<lambda>_. sbind (socket_remove p) (\<lambda>_.
        sbind (unix_bind p) (\<lambda>_. set_permissions p 0x1B0))) d1 = (r, d')"
    show "files_stay d1 d'"
    proof (rule stays_sbind[OF run3])
      show "files_stay d1 d2" if "set_permissions parent 0x1E8 d1 = (r2, d2)" for r2 d2
        using that create_dir_all_made[OF made] by (intro permissions_stay) (auto simp: is_dir_node_def)
      fix y d2 assume run4: "sbind (socket_remove p) (\<lambda>_. sbind (unix_bind p) (\<lambda>_. set_permissions p 0x1B0)) d2 = (r, d')"
      show "files_stay d2 d'"
      proof (rule stays_sbind[OF run4])
        show "files_stay d2 d3" if "socket_remove p d2 = (r3, d3)" for r3 d3
          by (rule sparesD[OF spares_remove that])
        fix z d3 assume run5: "sbind (unix_bind p) (\<lambda>_. set_permissions p 0x1B0) d3 = (r, d')"
        show "files_stay d3 d'"
        proof (rule stays_sbind[OF run5])
          show "files_stay d3 d4" if "unix_bind p d3 = (r4, d4)" for r4 d4
            by (rule sparesD[OF spares_unix_bind that])
          show "files_stay d4 d'" if "unix_bind p d3 = (Inr v, d4)" "set_permissions p 0x1B0 d4 = (r, d')" for v d4
            using bind_done[OF that(1)] by (intro permissions_stay[OF that(2)]) (auto simp: same_env_locate)
        qed
      qed
    qed
  qed
  have "(\<forall>n. dk_tree d (locate d p) = Some n \<longrightarrow> is_socket n) \<and> dk_tree d' (locate d p) = Some (Socket 0x1B0) \<and>
        dk_tree d' (locate d parent) = Some (Dir 0x1E8)" if ok: "r = Inr ()"
  proof -
    obtain u1 d1 u2 d2 u3 d3 u4 d4 u5 where c: "create_dir_all parent d = (Inr u1, d1)"
        "set_permissions parent 0x1E8 d1 = (Inr u2, d2)" "socket_remove p d2 = (Inr u3, d3)"
        "unix_bind p d3 = (Inr u4, d4)" "set_permissions p 0x1B0 d4 = (Inr u5, d')"
      using run2 unfolding ok sbind_eq_Inr by blast
    note e2 = permissions_set[OF c(2)] and e3 = remove_done[OF c(3)] and e4 = bind_done[OF c(4)] and e5 = permissions_set[OF c(5)]
    have e1: "files_stay d d1" using c(1) unfolding create_dir_all_def by (rule sparesD[OF spares_create_up])
    have loc: "locate d1 q = locate d q" "locate d2 q = locate d q" "locate d3 q = locate d q" "locate d4 q = locate d q" for q
      using e1 e2 e3 e4 by (auto simp: files_stay_def same_env_locate)
    have dir: "dk_tree d2 (locate d parent) = Some (Dir 0x1E8)"
      using create_dir_all_made[OF c(1)] e2 loc by (auto simp: is_dir_node_def with_mode_def split: option.splits inode.splits)
    have "is_socket n" if "dk_tree d (locate d p) = Some n" for n
    proof -
      have "files_stay d1 d2"
        using create_dir_all_made[OF c(1)] by (intro permissions_stay[OF c(2)]) (auto simp: is_dir_node_def)
      then have "files_stay d d3"
        using e1 sparesD[OF spares_remove c(3)] files_stay_trans by blast
      then show ?thesis
        using that e4 loc(3) by (cases n) (auto simp: files_stay_def is_socket_def)
    qed
    moreover have "dk_tree d' (locate d p) = Some (Socket 0x1B0)"
      using e4 e5 loc by (auto simp: with_mode_def)
    moreover have "dk_tree d' (locate d parent) = Some (Dir 0x1E8)"
      using dir e3 e4 e5 loc by auto
    ultimately show ?thesis by blast
  qed
  then show ?thesis using stays Some by blast
qed

definition run_disk :: disk where
  "run_disk = \<lparr>dk_tree = (\<lambda>_. None)([] \<mapsto> Dir 0x1ED, [''run''] \<mapsto> Dir 0x1ED, [''run'', ''pid''] \<mapsto> File 0x1A4 ''7'',
       [''run'', ''cni.sock''] \<mapsto> Socket 0x1ED),
     dk_cwd = [], dk_umask = 0x12, dk_pid = 7, dk_clock = 0, dk_fault = (\<lambda>_. None)\<rparr>"

definition cni_sock :: path where
  "cni_sock = Path True [''run'', ''cni.sock'']"

theorem socket_replaces_only_sockets_witness:
  "dk_tree (snd (socket_bind cni_sock run_disk)) [''run'', ''cni.sock''] = Some (Socket 0x1B0) \<and>
   dk_tree (snd (socket_bind cni_sock run_disk)) [''run'', ''pid''] = Some (File 0x1A4 ''7'')"
proof -
  have ok: "fst (socket_bind cni_sock run_disk) = Inr ()" by code_simp
  have "socket_bind cni_sock run_disk = (fst (socket_bind cni_sock run_disk), snd (socket_bind cni_sock run_disk))" by simp
  note bound = socket_replaces_only_sockets[OF this]
  have "locate run_disk cni_sock = [''run'', ''cni.sock'']" by code_simp
  moreover have "dk_tree run_disk [''run'', ''pid''] = Some (File 0x1A4 ''7'')" by (simp add: run_disk_def)
  ultimately show ?thesis using bound ok by (auto simp: files_stay_def)
qed

end
