(* ===== verification/Daemons.thy ===== *)
theory Daemons imports Barectl_Commands Agent_Desired Store Scheduler_Loop Cni_Reconcile Cni_Socket begin

text \<open>
  How the daemons start: \<open>main.rs\<close> of \<open>api\<close>, \<open>scheduler\<close> and \<open>agent\<close>, \<open>cni/src/runtime.rs\<close>, the two
  links of the agent in \<open>desired_state.rs\<close> and the listener's side of \<open>proto/src/tls.rs\<close>. What tonic,
  containerd and etcd make of an address, a certificate or a socket is the parameter \<open>net\<close>.
\<close>

section \<open>TLS on both sides\<close>

datatype server_tls = ServerTls (st_cert: string) (st_key: string) (st_client_ca: string) (st_auth_optional: bool)

datatype channel = Channel (ch_uri: string) (ch_tls: "client_tls option")

record net =
  nt_bad_addr :: "string \<Rightarrow> string option"
  nt_bad_uri :: "string \<Rightarrow> string option"
  nt_bad_server_tls :: "server_tls \<Rightarrow> string option"
  nt_bad_client_tls :: "client_tls \<Rightarrow> string option"
  nt_connect :: "channel \<Rightarrow> string option"
  nt_containerd :: "string \<Rightarrow> string option"

definition check_none :: "(string \<Rightarrow> string) \<Rightarrow> string option \<Rightarrow> string + unit" where
  "check_none f e = (case e of None \<Rightarrow> Inr () | Some m \<Rightarrow> Inl (f m))"

text \<open>The text \<open>anyhow\<close> prints for a file that cannot be read: its context.\<close>

definition cli_text :: "cli_error \<Rightarrow> string" where
  "cli_text e = (case e of CliTls context_text _ \<Rightarrow> context_text | _ \<Rightarrow> [])"

definition load_server_tls_config :: "path \<Rightarrow> path \<Rightarrow> path \<Rightarrow> (disk, string, server_tls) op" where
  "load_server_tls_config cert key ca = smap_err cli_text
     (sbind (read_pem cert) (\<lambda>cert_pem. sbind (read_pem key) (\<lambda>key_pem. sbind (read_pem ca) (\<lambda>ca_pem.
      sret (ServerTls cert_pem key_pem ca_pem False)))))"

text \<open>The choice both servers make: no TLS, or mTLS.\<close>

definition listener_tls :: "net \<Rightarrow> tls_args \<Rightarrow> (disk, string, server_tls option) op" where
  "listener_tls net args =
     sbind (slift (tls_mode args)) (\<lambda>m. case m of
       ModePlaintext \<Rightarrow> sret None
     | ModeMtls cert key ca \<Rightarrow>
         sbind (load_server_tls_config (path_of cert) (path_of key) (path_of ca)) (\<lambda>t.
         sbind (slift (check_none id (nt_bad_server_tls net t))) (\<lambda>_. sret (Some t))))"

definition with_client_tls :: "net \<Rightarrow> string \<Rightarrow> string \<Rightarrow> string \<Rightarrow> string \<Rightarrow> string \<Rightarrow> (disk, string, channel) op" where
  "with_client_tls net uri cert key ca server_name =
     sbind (smap_err cli_text (load_client_tls_config (path_of cert) (path_of key) (path_of ca) server_name)) (\<lambda>t.
     sbind (slift (check_none id (nt_bad_client_tls net t))) (\<lambda>_. sret (Channel uri (Some t))))"

definition name_required :: string where
  "name_required = ''--tls-server-name is required when connecting over mTLS (--tls-cert/--tls-key/--tls-ca set)''"

section \<open>The scheduler\<close>

definition scheduler_connect :: "net \<Rightarrow> string \<Rightarrow> tls_args \<Rightarrow> (disk, string, channel) op" where
  "scheduler_connect net server args =
     sbind (slift (tls_mode args)) (\<lambda>m. case m of
       ModePlaintext \<Rightarrow>
         sbind (slift (check_none id (nt_bad_uri net server))) (\<lambda>_.
         sbind (slift (check_none id (nt_connect net (Channel server None)))) (\<lambda>_. sret (Channel server None)))
     | ModeMtls cert key ca \<Rightarrow>
         sbind (slift (ok_or (ta_server_name args) name_required)) (\<lambda>server_name.
         sbind (slift (check_none id (nt_bad_uri net server))) (\<lambda>_.
         sbind (with_client_tls net server cert key ca server_name) (\<lambda>ch.
         sbind (slift (check_none id (nt_connect net ch))) (\<lambda>_. sret ch)))))"

text \<open>The first of the two watchers to end decides; the other is dropped.\<close>

definition in_context :: "string \<Rightarrow> string + 'a \<Rightarrow> string + 'a" where
  "in_context c r = (case r of Inl e \<Rightarrow> Inl c | Inr x \<Rightarrow> Inr x)"

definition supervise_watchers :: "string + unit \<Rightarrow> string + unit \<Rightarrow> bool \<Rightarrow> string + unit" where
  "supervise_watchers nodes pods nodes_first =
     (if nodes_first then in_context ''node watcher failed'' nodes else in_context ''pod watcher failed'' pods)"

definition scheduler_main :: "net \<Rightarrow> string \<Rightarrow> tls_args \<Rightarrow> (disk, string, channel \<times> sched_state) op" where
  "scheduler_main net server args =
     sbind (scheduler_connect net server args) (\<lambda>ch. sret (ch, sched_state_default))"

section \<open>The API server\<close>

definition etcd_endpoints :: "string \<Rightarrow> string list" where
  "etcd_endpoints v = filter (\<lambda>s. s \<noteq> []) (map trim (split_on (CHR '','') v))"

datatype boot_error = BootStore store_error | BootText string

definition open_store ::
  "(string list \<Rightarrow> 'w \<Rightarrow> (string + ('w, 'v) etcd_client) \<times> 'w) \<Rightarrow> string option \<Rightarrow> ('w, boot_error, ('w, 'v) store) op" where
  "open_store etcd_connect endpoints w = (case endpoints of
     None \<Rightarrow> (Inr (store_new w), w)
   | Some v \<Rightarrow> (case etcd_connect (etcd_endpoints v) w of
       (Inl e, w1) \<Rightarrow> (Inl (BootText e), w1)
     | (Inr c, w1) \<Rightarrow> (case reset_node_liveness (store_new_with_etcd c w1) of
         (Inl e, s) \<Rightarrow> (Inl (BootStore e), sto_world s)
       | (Inr _, s) \<Rightarrow> (Inr s, sto_world s))))"

text \<open>Up to the point where the server listens: the store it serves and the listener's TLS.\<close>

definition api_main ::
  "net \<Rightarrow> (string list \<Rightarrow> 'w \<Rightarrow> (string + ('w, 'v) etcd_client) \<times> 'w) \<Rightarrow> string \<Rightarrow> tls_args \<Rightarrow> string option \<Rightarrow>
   (disk \<times> 'w, boot_error, ('w, 'v) store \<times> server_tls option) op" where
  "api_main net etcd_connect addr args endpoints = (\<lambda>(d, w).
     (case nt_bad_addr net addr of
        Some e \<Rightarrow> (Inl (BootText e), (d, w))
      | None \<Rightarrow>
          (case open_store etcd_connect endpoints w of
             (Inl e, w1) \<Rightarrow> (Inl e, (d, w1))
           | (Inr sto, w1) \<Rightarrow>
               (case listener_tls net args d of
                  (Inl e, d1) \<Rightarrow> (Inl (BootText e), (d1, w1))
                | (Inr t, d1) \<Rightarrow> (Inr (sto, t), (d1, w1))))))"

section \<open>The agent\<close>

definition containerd_socket :: string where
  "containerd_socket = ''/run/containerd/containerd.sock''"

definition build_api_channel :: "net \<Rightarrow> string \<Rightarrow> tls_args \<Rightarrow> (disk, string, channel) op" where
  "build_api_channel net server args =
     sbind (slift (check_none (\<lambda>_. ''invalid API server address'') (nt_bad_uri net server))) (\<lambda>_.
     sbind (slift (tls_mode args)) (\<lambda>m. case m of
       ModePlaintext \<Rightarrow> sret (Channel server None)
     | ModeMtls cert key ca \<Rightarrow>
         sbind (slift (ok_or (ta_server_name args) name_required)) (\<lambda>server_name.
         with_client_tls net server cert key ca server_name)))"

definition build_kubelet_channel :: "net \<Rightarrow> string \<Rightarrow> tls_args \<Rightarrow> string \<Rightarrow> (disk, string, channel) op" where
  "build_kubelet_channel net addr args node_name =
     sbind (slift (tls_mode args)) (\<lambda>m.
     let uri = (if m = ModePlaintext then ''http://'' else ''https://'') @ addr
     in sbind (slift (check_none (\<lambda>_. ''invalid local kubelet address'') (nt_bad_uri net uri))) (\<lambda>_.
        case m of
          ModePlaintext \<Rightarrow> sret (Channel uri None)
        | ModeMtls cert key ca \<Rightarrow> with_client_tls net uri cert key ca node_name))"

text \<open>Both tasks of the agent start; either may fail on its own.\<close>

definition captured :: "('s, 'e, 'a) op \<Rightarrow> ('s, 'f, 'e + 'a) op" where
  "captured f s = (let (r, s1) = f s in (Inr r, s1))"

record 'w agent_start =
  as_agent :: "'w agent"
  as_listener :: "string + server_tls option"
  as_name :: string
  as_ip :: string
  as_links :: "string + channel \<times> channel"

definition agent_main ::
  "net \<Rightarrow> 'w agent_env \<Rightarrow> string \<Rightarrow> string \<Rightarrow> string option \<Rightarrow> tls_args \<Rightarrow> string option \<Rightarrow> string + string \<Rightarrow> 'w \<Rightarrow>
   (disk, string, 'w agent_start) op" where
  "agent_main net env addr server node_ip args variable hostname w =
     sbind (slift (check_none id (nt_bad_addr net addr))) (\<lambda>_.
     sbind (slift (check_none id (nt_containerd net containerd_socket))) (\<lambda>_.
     sbind (slift (case vlans_new env w of Inl e \<Rightarrow> Inl (io_text e) | Inr v \<Rightarrow> Inr v)) (\<lambda>vlans.
     sbind (captured (listener_tls net args)) (\<lambda>listener.
     sbind (slift (detect_node_name variable hostname)) (\<lambda>name.
     sbind (captured (sbind (build_api_channel net server args) (\<lambda>api.
              sbind (build_kubelet_channel net addr args name) (\<lambda>kubelet. sret (api, kubelet))))) (\<lambda>links.
     sret \<lparr>as_agent = \<lparr>ag_vlans = vlans, ag_world = w\<rparr>, as_listener = listener, as_name = name,
       as_ip = (case node_ip of None \<Rightarrow> [] | Some ip \<Rightarrow> ip), as_links = links\<rparr>))))))"

section \<open>The CNI daemon\<close>

definition configured_path :: "'k host \<Rightarrow> string \<Rightarrow> string \<Rightarrow> string" where
  "configured_path h variable fallback = (case h_env h variable of None \<Rightarrow> fallback | Some p \<Rightarrow> p)"

text \<open>\<open>serve\<close> is the gRPC server until it is told to stop: what the requests do, and its result.\<close>

definition cni_run ::
  "'k host \<Rightarrow> string list \<Rightarrow> string list \<Rightarrow> (nat \<Rightarrow> ('k, unit) io) \<Rightarrow> ('k cni \<times> disk, io_error, unit) op" where
  "cni_run h ord pool_ord serve_requests = (\<lambda>(s, d).
     (let socket = path_of (configured_path h ''BARENETES_CNI_SOCKET'' ''/run/barenetes/cni.sock'')
      in case daemon_start h ord pool_ord s of
           (Inl e, s1) \<Rightarrow> (Inl e, (s1, d))
         | (Inr node, s1) \<Rightarrow>
             (case socket_bind socket d of
                (Inl e, d1) \<Rightarrow> (Inl e, (s1, d1))
              | (Inr _, d1) \<Rightarrow>
                  (let (served, s2) = serve_requests node s1
                   in case socket_remove socket d1 of
                        (Inl e, d2) \<Rightarrow> (Inl e, (s2, d2))
                      | (Inr _, d2) \<Rightarrow> (served, (s2, d2))))))"

end
