(* ===== verification/Daemon_Tls.thy ===== *)
theory Daemon_Tls imports Daemons Pki_Examples begin

text \<open>
  One certificate for all the links of an agent: what \<open>barenetes-pki issue\<close> leaves on disk, the agent's
  listener and its link to itself read, and the check of roles accepts. The handshake of TLS is the
  parameter \<open>accept\<close>, of which \<open>tls_laws\<close> states when it must succeed.
\<close>

section \<open>Flags\<close>

definition plain_flags :: "tls_args \<Rightarrow> bool" where
  "plain_flags args \<longleftrightarrow> ta_cert args = None \<and> ta_key args = None \<and> ta_ca args = None"

lemma read_pem_ok:
  "read_pem p d = (Inr c, d') \<longleftrightarrow> read_bytes p d = (Inr c, d')"
  by (simp add: read_pem_def smap_err_eq_Inr)

lemma read_bytes_run:
  "read_bytes p d = (Inr c, d') \<Longrightarrow> \<exists>m. dk_tree d (locate d p) = Some (File m c) \<and> same_env d d' \<and> dk_tree d' = dk_tree d"
  by (auto simp: read_bytes_def sys_def Let_def split: option.splits inode.splits)

text \<open>Three files read one after the other.\<close>

definition holds_at :: "disk \<Rightarrow> string \<Rightarrow> string \<Rightarrow> bool" where
  "holds_at d p c \<longleftrightarrow> (\<exists>m. dk_tree d (locate d (path_of p)) = Some (File m c))"

lemma three_reads:
  assumes "read_bytes (path_of a) d = (Inr x, d1)" "read_bytes (path_of b) d1 = (Inr y, d2)"
    "read_bytes (path_of c) d2 = (Inr z, d3)"
  shows "holds_at d a x \<and> holds_at d b y \<and> holds_at d c z"
  using read_bytes_run[OF assms(1)] read_bytes_run[OF assms(2)] read_bytes_run[OF assms(3)]
  by (auto simp: holds_at_def same_env_locate)

lemma listener_reads:
  assumes "listener_tls net args d = (Inr t, d')"
  shows "case t of None \<Rightarrow> plain_flags args
    | Some st \<Rightarrow> \<not> st_auth_optional st \<and> (\<exists>c k r. ta_cert args = Some c \<and> ta_key args = Some k \<and> ta_ca args = Some r \<and>
        holds_at d c (st_cert st) \<and> holds_at d k (st_key st) \<and> holds_at d r (st_client_ca st))"
proof -
  obtain m where m: "tls_mode args = Inr m" using assms by (auto simp: listener_tls_def sbind_eq_Inr)
  show ?thesis
  proof (cases m)
    case ModePlaintext
    then show ?thesis using assms m by (auto simp: listener_tls_def sbind_eq_Inr plain_flags_def tls_mode_plaintext_iff)
  next
    case (ModeMtls c k r)
    then obtain x d1 y d2 z d3 where t: "t = Some (ServerTls x y z False)"
      and "read_bytes (path_of c) d = (Inr x, d1)" "read_bytes (path_of k) d1 = (Inr y, d2)" "read_bytes (path_of r) d2 = (Inr z, d3)"
      using assms m by (auto simp: listener_tls_def sbind_eq_Inr load_server_tls_config_def smap_err_eq_Inr read_pem_ok)
    then show ?thesis using m ModeMtls three_reads by (auto simp: tls_mode_mtls_iff)
  qed
qed

lemma client_reads:
  assumes "with_client_tls net uri c k r name d = (Inr ch, d')"
  shows "\<exists>ct. ch = Channel uri (Some ct) \<and> ct_domain ct = name \<and>
     holds_at d c (ct_cert ct) \<and> holds_at d k (ct_key ct) \<and> holds_at d r (ct_ca ct)"
proof -
  obtain x d1 y d2 z d3 where "ch = Channel uri (Some (ClientTls x y z name))"
    and "read_bytes (path_of c) d = (Inr x, d1)" "read_bytes (path_of k) d1 = (Inr y, d2)" "read_bytes (path_of r) d2 = (Inr z, d3)"
    using assms by (auto simp: with_client_tls_def sbind_eq_Inr load_client_tls_config_def smap_err_eq_Inr read_pem_ok)
  then show ?thesis using three_reads by auto
qed

lemma kubelet_link_reads:
  assumes "build_kubelet_channel net addr args name d = (Inr ch, d')"
  shows "case ch_tls ch of None \<Rightarrow> plain_flags args
    | Some ct \<Rightarrow> ct_domain ct = name \<and> (\<exists>c k r. ta_cert args = Some c \<and> ta_key args = Some k \<and> ta_ca args = Some r \<and>
        holds_at d c (ct_cert ct) \<and> holds_at d k (ct_key ct) \<and> holds_at d r (ct_ca ct))"
proof -
  obtain m where m: "tls_mode args = Inr m" using assms by (auto simp: build_kubelet_channel_def Let_def sbind_eq_Inr)
  show ?thesis
  proof (cases m)
    case ModePlaintext
    then show ?thesis using assms m
      by (auto simp: build_kubelet_channel_def Let_def sbind_eq_Inr plain_flags_def tls_mode_plaintext_iff)
  next
    case (ModeMtls c k r)
    then obtain uri where "with_client_tls net uri c k r name d = (Inr ch, d')"
      using assms m by (auto simp: build_kubelet_channel_def Let_def sbind_eq_Inr)
    from client_reads[OF this] m ModeMtls show ?thesis by (auto simp: tls_mode_mtls_iff)
  qed
qed

section \<open>The handshake\<close>

text \<open>
  What rustls documents of a handshake in which both sides present a certificate and trust the same
  authority: the connection is accepted, and the server sees the client's certificate, if the trusted
  certificate is one for an authority in its time, signed with the authority's key; each side's
  certificate is signed with that same key, made with its own key, in its time and meant for its side of
  a connection; and the name the client asks for is among the server certificate's names. Nothing is
  said of a leaf signed with any other key.
\<close>

definition signed_for ::
  "('r, 'n, 'k, 'i) pki_env \<Rightarrow> string \<Rightarrow> 'k \<Rightarrow> int \<Rightarrow> ext_key_usage \<Rightarrow> 'n cert_params \<Rightarrow> string \<Rightarrow> string \<Rightarrow> bool" where
  "signed_for env ca_pem ca_key now usage ps pem key_pem \<longleftrightarrow> (\<exists>issuer key. pk_issuer env ca_pem ca_key = Inr issuer \<and>
     pk_signed_by env ps key issuer = Inr pem \<and> key_pem = pk_key_pem env key \<and> valid_at now ps \<and>
     usage \<in> set (cp_ext_key_usages ps))"

definition handshake_due :: "('r, 'n, 'k, 'i) pki_env \<Rightarrow> int \<Rightarrow> server_tls \<Rightarrow> client_tls \<Rightarrow> bool" where
  "handshake_due env now st ct \<longleftrightarrow> (\<exists>ca_key sps cps names. st_client_ca st = ct_ca ct \<and>
     signs_itself env ca_key now (ct_ca ct) \<and>
     signed_for env (ct_ca ct) ca_key now ServerAuth sps (st_cert st) (st_key st) \<and>
     pk_sans env names = Inr (cp_sans sps) \<and> ct_domain ct \<in> set names \<and>
     signed_for env (ct_ca ct) ca_key now ClientAuth cps (ct_cert ct) (ct_key ct))"

definition tls_laws :: "('r, 'n, 'k, 'i) pki_env \<Rightarrow> (int \<Rightarrow> server_tls \<Rightarrow> client_tls \<Rightarrow> string list option) \<Rightarrow> bool" where
  "tls_laws env accept \<longleftrightarrow> (\<forall>now st ct. handshake_due env now st ct \<longrightarrow> accept now st ct = Some [ct_cert ct])"

text \<open>
  C15. One issued certificate serves the agent on both sides. Take a directory with an authority as
  \<open>init-ca\<close> makes one (\<open>init_ca_makes_authority\<close>): its certificate is signed with the key beside it. Issue
  a certificate from there, in the role \<open>node\<close> and for the node's name, and start the agent with it and
  the authority's \<open>ca.pem\<close>. If its listener and its link to its own Kubelet come up at all, then the
  listener demands client certificates, the link presents one, the handshake between the two succeeds
  for as long as both certificates are valid, and for that connection the Kubelet's check of roles and
  a check of the node's own name both pass.
\<close>

theorem node_certificate_serves_the_agent:
  assumes "x509_laws env parse" and "tls_laws env accept" and "CHR ''/'' \<notin> set (is_cn ia)" and "is_cn ia \<noteq> ''ca''"
    and "is_role ia = PkiNode" and "authority_at env now (ps_disk s) (is_ca_dir ia)" and "issue env ia s = (Inr u, s')"
    and "ta_cert args = Some c" and "path_of c = cert_path ia" and "ta_key args = Some k" and "path_of k = key_path ia"
    and "ta_ca args = Some r" and "path_of r = path_join (is_ca_dir ia) ''ca.pem''"
    and "listener_tls net args (ps_disk s') = (Inr t, d1)"
    and "build_kubelet_channel net addr args (is_cn ia) (ps_disk s') = (Inr ch, d2)"
    and "pk_now env \<le> now" and "now \<le> pk_now env + is_days ia * 86400"
  shows "\<exists>st ct chain. t = Some st \<and> \<not> st_auth_optional st \<and> ch_tls ch = Some ct \<and> accept now st ct = Some chain \<and>
     check_role (peer_of parse (Some (Some chain))) RoleNode = Inr () \<and>
     check_identity (peer_of parse (Some (Some chain))) (is_cn ia) = Inr ()"
proof -
  let ?at = "\<lambda>name. dk_tree (ps_disk s) (locate (ps_disk s) (path_join (is_ca_dir ia) name))"
  obtain ca ca_key issuer sans v key cert m mk ck where made: "issued_from env ia ca ca_key issuer sans v key cert"
    and env: "same_env (ps_disk s) (ps_disk s')"
    and files: "dk_tree (ps_disk s') (locate (ps_disk s) (cert_path ia)) = Some (File m cert)"
      "dk_tree (ps_disk s') (locate (ps_disk s) (key_path ia)) = Some (File (0x180 AND NOT (dk_umask (ps_disk s))) (pk_key_pem env key))"
      "dk_tree (ps_disk s') (locate (ps_disk s) (path_join (is_ca_dir ia) ''ca.pem'')) = Some (File (fst ca) (snd ca))"
    and read: "?at ''ca.pem'' = Some (File (fst ca) (snd ca))" "?at ''ca-key.pem'' = Some (File mk ck)"
      "pk_key_of_pem env ck = Inr ca_key"
    using issue_leaves[OF assms(3,7)] assms(4) by blast
  have self: "signs_itself env ca_key now (snd ca)" using assms(6) read unfolding authority_at_def by auto
  have only: "holds_at (ps_disk s') c x \<Longrightarrow> x = cert" "holds_at (ps_disk s') k x \<Longrightarrow> x = pk_key_pem env key"
    "holds_at (ps_disk s') r x \<Longrightarrow> x = snd ca" for x
    using files assms(9,11,13) by (auto simp: holds_at_def same_env_locate[OF env])
  obtain st where st: "t = Some st" "\<not> st_auth_optional st" "st_cert st = cert" "st_key st = pk_key_pem env key" "st_client_ca st = snd ca"
    using listener_reads[OF assms(14)] only assms(8,10,12) by (cases t) (auto simp: plain_flags_def)
  obtain ct where ct: "ch_tls ch = Some ct" "ct_domain ct = is_cn ia" "ct_cert ct = cert" "ct_key ct = pk_key_pem env key" "ct_ca ct = snd ca"
    using kubelet_link_reads[OF assms(15)] only assms(8,10,12) by (cases "ch_tls ch") (auto simp: plain_flags_def)
  let ?ps = "leaf_params ia sans v"
  have sign: "pk_signed_by env ?ps key issuer = Inr cert" and iss: "pk_issuer env (snd ca) ca_key = Inr issuer"
    and names: "pk_sans env (is_cn ia # is_sans ia) = Inr (cp_sans ?ps)" and "validity (pk_now env) (is_days ia) = Inr v"
    using made by (simp_all add: issued_from_def leaf_params_def)
  then have valid: "valid_at now ?ps"
    using validity_range[of "pk_now env" "is_days ia" v] assms(16,17) by (simp add: valid_at_def leaf_params_def)
  have eku: "ServerAuth \<in> set (cp_ext_key_usages ?ps)" "ClientAuth \<in> set (cp_ext_key_usages ?ps)"
    by (simp_all add: leaf_params_def)
  have leaf: "signed_for env (snd ca) ca_key now ServerAuth ?ps cert (pk_key_pem env key)"
    "signed_for env (snd ca) ca_key now ClientAuth ?ps cert (pk_key_pem env key)"
    using sign iss valid eku unfolding signed_for_def by blast+
  have "is_cn ia \<in> set (is_cn ia # is_sans ia)" by simp
  then have "handshake_due env now st ct" using self leaf names st ct unfolding handshake_due_def by metis
  then have "accept now st ct = Some [cert]" using assms(2) ct(3) unfolding tls_laws_def by metis
  moreover have "peer_of parse (Some (Some [cert])) = Mtls (Some (is_cn ia)) (Some RoleNode)"
    using leaf_peer[OF assms(1) sign] assms(5) by (simp add: role_parse_def)
  ultimately show ?thesis using st ct by (intro exI[of _ st] exI[of _ ct] exI[of _ "[cert]"]) simp
qed

section \<open>A library that signs\<close>

text \<open>
  A certificate is the key that signed it, the key it was made with and its subject; the certificate of
  an authority is the key that signed it. The acceptor accepts exactly the handshakes that are due.
\<close>

definition stamp :: "string \<Rightarrow> string \<Rightarrow> string \<Rightarrow> string" where
  "stamp signer key subject = signer @ '':'' @ key @ '':'' @ subject"

definition sign_leaf :: "string cert_params \<Rightarrow> string \<Rightarrow> string \<Rightarrow> string + string" where
  "sign_leaf ps key issuer =
     (if CHR '':'' \<in> set issuer \<or> CHR '':'' \<in> set key then Inl ''key''
      else case cp_dn ps of
        [(CommonName, cn), (OrganizationalUnitName, ou)] \<Rightarrow>
          if CHR '' '' \<in> set ou then Inl ''unit'' else Inr (stamp issuer key (ou @ '' '' @ cn))
      | _ \<Rightarrow> Inl ''subject'')"

definition signing_pki :: "(nat, string, string, string) pki_env" where
  "signing_pki = \<lparr>pk_cfg = mini_cfg, pk_now = 0, pk_sans = Inr, pk_generate = (\<lambda>g. (Inr (show_nat g), Suc g)),
     pk_key_pem = (\<lambda>k. ''key '' @ k), pk_key_of_pem = (\<lambda>pem. Inr (drop 4 pem)), pk_issuer = (\<lambda>_ k. Inr k),
     pk_self_signed = (\<lambda>_ k. Inr (''ca:'' @ k)), pk_signed_by = sign_leaf\<rparr>"

definition read_stamp :: "string \<Rightarrow> x509 option" where
  "read_stamp pem = Option.bind (split_once (CHR '':'') pem) (\<lambda>(signer, rest).
     Option.bind (split_once (CHR '':'') rest) (\<lambda>(key, subject). mini_parse subject))"

definition strict_accept :: "int \<Rightarrow> server_tls \<Rightarrow> client_tls \<Rightarrow> string list option" where
  "strict_accept now st ct = (if handshake_due signing_pki now st ct then Some [ct_cert ct] else None)"

lemma sign_leaf_stamp:
  "sign_leaf ps key issuer = Inr pem \<Longrightarrow> CHR '':'' \<notin> set issuer \<and> (\<exists>subject. pem = stamp issuer key subject)"
  by (auto simp: sign_leaf_def split: list.splits prod.splits dn_type.splits if_splits)

lemma signing_laws: "x509_laws signing_pki read_stamp" "tls_laws signing_pki strict_accept"
proof -
  have "\<exists>x. read_stamp pem = Some x \<and> x_common_names x = attrs CommonName (cp_dn ps) \<and>
      x_org_units x = attrs OrganizationalUnitName (cp_dn ps)"
    if "sign_leaf ps key issuer = Inr pem" for ps key issuer pem
    using that split_once_append[of "CHR '':''"] split_once_append[of "CHR '' ''"]
    by (auto simp: sign_leaf_def stamp_def read_stamp_def mini_parse_def attrs_def
        split: list.splits prod.splits dn_type.splits if_splits)
  then show "x509_laws signing_pki read_stamp" by (simp add: x509_laws_def signing_pki_def)
  show "tls_laws signing_pki strict_accept" by (simp add: tls_laws_def strict_accept_def)
qed

text \<open>A certificate made with the key of another authority is refused.\<close>

lemma stranger_refused:
  assumes "CHR '':'' \<notin> set other" and "other \<noteq> ca_key" and "ct_ca ct = ''ca:'' @ ca_key"
    and "ct_cert ct = stamp other key subject"
  shows "strict_accept now st ct = None"
proof -
  have no: "\<not> signed_for signing_pki (ct_ca ct) k now usage ps (ct_cert ct) (ct_key ct)"
    if self: "signs_itself signing_pki k now (ct_ca ct)" for k ps usage
  proof
    assume "signed_for signing_pki (ct_ca ct) k now usage ps (ct_cert ct) (ct_key ct)"
    then obtain key' where "sign_leaf ps key' k = Inr (stamp other key subject)"
      using assms(4) by (auto simp: signed_for_def signing_pki_def)
    from sign_leaf_stamp[OF this] obtain subject' where
      eq: "stamp k key' subject' = stamp other key subject" and nk: "CHR '':'' \<notin> set k" by metis
    have "split_once (CHR '':'') (stamp k key' subject') = Some (k, key' @ '':'' @ subject')"
      "split_once (CHR '':'') (stamp other key subject) = Some (other, key @ '':'' @ subject)"
      using split_once_append[OF nk] split_once_append[OF assms(1)] by (simp_all add: stamp_def)
    then have "k = other" using eq by simp
    moreover have "k = ca_key" using self assms(3) by (auto simp: signs_itself_def signing_pki_def)
    ultimately show False using assms(2) by simp
  qed
  then show ?thesis unfolding strict_accept_def handshake_due_def by auto
qed

definition empty_disk :: disk where
  "empty_disk = \<lparr>dk_tree = (\<lambda>_. None)([] \<mapsto> Dir 0x1ED), dk_cwd = [], dk_umask = 0x12, dk_pid = 7, dk_clock = 0,
     dk_fault = (\<lambda>_. None)\<rparr>"

definition found_ca :: init_ca_args where
  "found_ca = \<lparr>ia_out_dir = in_pki, ia_common_name = ''cluster'', ia_days = 3650\<rparr>"

definition founded :: "nat pki" where
  "founded = snd (init_ca signing_pki found_ca \<lparr>ps_disk = empty_disk, ps_rng = 1, ps_out = []\<rparr>)"

definition web_issued :: "nat pki" where
  "web_issued = snd (issue signing_pki (issue_for ''web'') founded)"

definition mini_net :: net where
  "mini_net = \<lparr>nt_bad_addr = (\<lambda>_. None), nt_bad_uri = (\<lambda>_. None), nt_bad_server_tls = (\<lambda>_. None),
     nt_bad_client_tls = (\<lambda>_. None), nt_connect = (\<lambda>_. None), nt_containerd = (\<lambda>_. None)\<rparr>"

definition web_flags :: tls_args where
  "web_flags = \<lparr>ta_cert = Some ''/pki/web.pem'', ta_key = Some ''/pki/web-key.pem'', ta_ca = Some ''/pki/ca.pem'',
     ta_server_name = Some ''api''\<rparr>"

definition web_listener :: "string + server_tls option" where
  "web_listener = fst (listener_tls mini_net web_flags (ps_disk web_issued))"

definition web_link :: "string + channel" where
  "web_link = fst (build_kubelet_channel mini_net ''127.0.0.1:50053'' web_flags ''web'' (ps_disk web_issued))"

theorem node_certificate_serves_the_agent_witness:
  "\<exists>st ct chain. web_listener = Inr (Some st) \<and> \<not> st_auth_optional st \<and> map_sum id ch_tls web_link = Inr (Some ct) \<and>
     strict_accept 86400 st ct = Some chain \<and>
     check_role (peer_of read_stamp (Some (Some chain))) RoleNode = Inr () \<and>
     check_identity (peer_of read_stamp (Some (Some chain))) ''web'' = Inr ()"
proof -
  let ?d = "ps_disk web_issued"
  have "is_ok web_listener" "is_ok web_link" by code_simp+
  then obtain t ch where t: "web_listener = Inr t" and ch: "web_link = Inr ch" by (auto simp: is_ok_iff)
  have runs: "listener_tls mini_net web_flags ?d = (Inr t, snd (listener_tls mini_net web_flags ?d))"
    "build_kubelet_channel mini_net ''127.0.0.1:50053'' web_flags (is_cn (issue_for ''web'')) ?d =
       (Inr ch, snd (build_kubelet_channel mini_net ''127.0.0.1:50053'' web_flags ''web'' ?d))"
    using t ch unfolding web_listener_def web_link_def by (simp_all add: prod_eq_iff issue_for_def)
  have "fst (init_ca signing_pki found_ca \<lparr>ps_disk = empty_disk, ps_rng = 1, ps_out = []\<rparr>) = Inr ()" by code_simp
  then have "init_ca signing_pki found_ca \<lparr>ps_disk = empty_disk, ps_rng = 1, ps_out = []\<rparr> = (Inr (), founded)"
    unfolding founded_def by (metis prod.collapse)
  from init_ca_makes_authority[OF this, of 86400]
  have ca: "authority_at signing_pki 86400 (ps_disk founded) (is_ca_dir (issue_for ''web''))"
    by (simp add: signing_pki_def found_ca_def issue_for_def)
  have "fst (issue signing_pki (issue_for ''web'') founded) = Inr ()" by code_simp
  then have run: "issue signing_pki (issue_for ''web'') founded = (Inr (), web_issued)"
    unfolding web_issued_def by (metis prod.collapse)
  have ia: "CHR ''/'' \<notin> set (is_cn (issue_for ''web''))" "is_cn (issue_for ''web'') \<noteq> ''ca''" "is_role (issue_for ''web'') = PkiNode"
    "is_cn (issue_for ''web'') = ''web''" "pk_now signing_pki \<le> 86400" "86400 \<le> pk_now signing_pki + is_days (issue_for ''web'') * 86400"
    by (simp_all add: issue_for_def signing_pki_def)
  have flags: "ta_cert web_flags = Some ''/pki/web.pem''" "ta_key web_flags = Some ''/pki/web-key.pem''" "ta_ca web_flags = Some ''/pki/ca.pem''"
    by (simp_all add: web_flags_def)
  have paths: "path_of ''/pki/web.pem'' = cert_path (issue_for ''web'')" "path_of ''/pki/web-key.pem'' = key_path (issue_for ''web'')"
    "path_of ''/pki/ca.pem'' = path_join (is_ca_dir (issue_for ''web'')) ''ca.pem''"
    by code_simp+
  obtain st ct chain where found: "t = Some st" "\<not> st_auth_optional st" "ch_tls ch = Some ct" "strict_accept 86400 st ct = Some chain"
      "check_role (peer_of read_stamp (Some (Some chain))) RoleNode = Inr ()"
      "check_identity (peer_of read_stamp (Some (Some chain))) ''web'' = Inr ()"
    using node_certificate_serves_the_agent[OF signing_laws ia(1-3) ca run flags(1) paths(1) flags(2) paths(2) flags(3) paths(3)
        runs ia(5,6)] unfolding ia(4) by blast
  then have "map_sum id ch_tls web_link = Inr (Some ct)" unfolding ch by simp
  then show ?thesis using t found by (intro exI[of _ st] exI[of _ ct] exI[of _ chain] conjI) simp_all
qed

end
