(* ===== verification/Ledger_View.thy ===== *)
theory Ledger_View imports Cluster_Run begin

text \<open>
  A restarted scheduler: what it knows of the nodes' load after the placed pods of the snapshot its pod
  watch opens with, against what the API server computes of it for \<open>GetNode\<close>.
\<close>

section \<open>Placed pods, one event each\<close>

definition added_event :: "pod_detail \<Rightarrow> watch_pod_event" where
  "added_event d = \<lparr>wpe_event_type = event_type_i32 EvAdded, wpe_pod = Some d\<rparr>"

text \<open>The placement an event of a placed pod records.\<close>

definition placement_of :: "pod_detail \<Rightarrow> string \<times> resources \<times> port list" where
  "placement_of d = (pd_node_name d, limits_or_default (case detail_pod d of None \<Rightarrow> default_pod | Some p \<Rightarrow> p), detail_ports d)"

lemma pod_ok_views:
  assumes "pod_ok d"
  shows "\<exists>p. detail_pod d = Some p \<and> pod_key d = (detail_namespace d, p_name p) \<and> pod_limits_of d = p_limits p"
  using assms by (auto simp: pod_ok_def admissible_def detail_pod_def detail_namespace_def detail_spec_def pod_key_def pod_limits_of_def)

text \<open>A scheduler that knows nodes and has placed exactly the pods \<open>f\<close>.\<close>

definition knows :: "(string \<rightharpoonup> node) \<Rightarrow> (pod_key \<rightharpoonup> pod_detail) \<Rightarrow> basic_scheduler \<Rightarrow> bool" where
  "knows nodes f s \<longleftrightarrow> ledger_ok s \<and> bs_nodes s = nodes \<and> bs_placements s = map_option placement_of \<circ> f \<and>
     (\<forall>nn. claimed_ports_of s nn = (\<Union>k \<in> placed_on s nn. placed_ports s k))"

lemma knows_claim:
  assumes s: "knows nodes f s" and new: "f (ns, nm) = None" and d: "placement_of d = (nn, lm, ports)"
  shows "knows nodes (f((ns, nm) \<mapsto> d)) (record_placement ns nm nn lm ports s)"
proof -
  have free: "bs_placements s (ns, nm) = None" using s new by (simp add: knows_def)
  then have rec: "record_placement ns nm nn lm ports s = claim_placement ns nm nn lm ports s"
    by (simp add: record_placement_def)
  note v = claimed_views[OF free]
  have fresh: "(ns, nm) \<notin> placed_on s n" for n using free by (simp add: placed_on_mem)
  have "claimed_ports_of (claim_placement ns nm nn lm ports s) n =
      (\<Union>k \<in> placed_on (claim_placement ns nm nn lm ports s) n. placed_ports (claim_placement ns nm nn lm ports s) k)" for n
  proof -
    have "(\<Union>k \<in> placed_on s n. placed_ports (claim_placement ns nm nn lm ports s) k) = (\<Union>k \<in> placed_on s n. placed_ports s k)"
      using fresh by (intro SUP_cong) (auto simp: v(3))
    moreover have "claimed_ports_of s n = (\<Union>k \<in> placed_on s n. placed_ports s k)" using s by (simp add: knows_def)
    ultimately show ?thesis by (auto simp: v(1,5) v(3)[of _ _ _ "(ns, nm)"])
  qed
  moreover have "bs_placements (claim_placement ns nm nn lm ports s) = map_option placement_of \<circ> f((ns, nm) \<mapsto> d)"
    using s d by (auto simp: v(6) knows_def fun_eq_iff)
  ultimately show ?thesis
    using s ledger_claim[OF _ free, of nn lm ports] v(7) by (simp add: knows_def rec)
qed

lemma placed_event:
  assumes "pod_ok d" and "pd_node_name d \<noteq> []" and "\<not> is_confirmed_not_ready (pd_node_name d) (ss_scheduler st)"
    and "knows nodes f (ss_scheduler st)" and "f (pod_key d) = None"
  shows "\<exists>st'. pod_event assign od (added_event d) (st, v) = (st', v) \<and> knows nodes (f(pod_key d \<mapsto> d)) (ss_scheduler st')"
proof -
  obtain p where p: "detail_pod d = Some p" "pod_key d = (detail_namespace d, p_name p)" "pod_limits_of d = p_limits p"
    using pod_ok_views[OF assms(1)] by blast
  let ?st = "seen_locked (detail_namespace d) (p_name p) (pd_node_name d) (limits_or_default p) (detail_ports d) st"
  have "pod_event assign od (added_event d) (st, v) = (?st, v)"
    using assms(2,3) p(1)
    by (simp add: pod_event_def added_event_def Let_def event_type_or_default_def event_type_of_i32_def)
  moreover have "knows nodes (f(pod_key d \<mapsto> d)) (ss_scheduler ?st)"
    using knows_claim[OF assms(4), of "detail_namespace d" "p_name p" d] assms(5) p
    by (simp add: seen_locked_def drop_pending_def placement_of_def)
  ultimately show ?thesis by blast
qed

lemma placed_events:
  assumes "\<forall>d \<in> set ds. pod_ok d \<and> pd_node_name d \<noteq> [] \<and>
       (\<forall>nd. nodes (pd_node_name d) = Some nd \<longrightarrow> node_status_of nd \<noteq> NodeNotReady)"
    and "knows nodes f (ss_scheduler st)" and "distinct (map pod_key ds)" and "\<forall>d \<in> set ds. f (pod_key d) = None"
  shows "\<exists>st'. watch_pods assign (map (\<lambda>d. Inr (od, added_event d)) ds) (st, v) = (Inr (), st', v) \<and>
     knows nodes (f ++ map_of (map (\<lambda>d. (pod_key d, d)) ds)) (ss_scheduler st')"
  using assms
proof (induction ds arbitrary: f st)
  case Nil
  then show ?case by simp
next
  case (Cons d ds)
  have "\<not> is_confirmed_not_ready (pd_node_name d) (ss_scheduler st)"
    using Cons.prems(1,2) by (auto simp: is_confirmed_not_ready_def knows_def split: option.splits)
  with placed_event[of d st nodes f assign od v] Cons.prems obtain st1 where
    one: "pod_event assign od (added_event d) (st, v) = (st1, v)" "knows nodes (f(pod_key d \<mapsto> d)) (ss_scheduler st1)"
    by auto
  have rest: "\<forall>e \<in> set ds. pod_ok e \<and> pd_node_name e \<noteq> [] \<and>
       (\<forall>nd. nodes (pd_node_name e) = Some nd \<longrightarrow> node_status_of nd \<noteq> NodeNotReady)"
    using Cons.prems(1) by simp
  have dis: "distinct (map pod_key ds)" and "pod_key d \<notin> pod_key ` set ds" using Cons.prems(3) by simp_all
  then have "pod_key e \<noteq> pod_key d" if "e \<in> set ds" for e using imageI[OF that, of pod_key] by auto
  then have free: "\<forall>e \<in> set ds. (f(pod_key d \<mapsto> d)) (pod_key e) = None" using Cons.prems(4) by simp
  obtain st' where "watch_pods assign (map (\<lambda>d. Inr (od, added_event d)) ds) (st1, v) = (Inr (), st', v)"
      "knows nodes (f(pod_key d \<mapsto> d) ++ map_of (map (\<lambda>d. (pod_key d, d)) ds)) (ss_scheduler st')"
    using Cons.IH[OF rest one(2) dis free] by blast
  moreover have "f(pod_key d \<mapsto> d) ++ map_of (map (\<lambda>d. (pod_key d, d)) ds) = f ++ map_of (map (\<lambda>d. (pod_key d, d)) (d # ds))"
  proof -
    have "pod_key d \<notin> dom (map_of (map (\<lambda>d. (pod_key d, d)) ds))"
      using Cons.prems(3) by (auto simp: dom_map_of_conv_image_fst image_comp)
    from map_add_upd_left[OF this] show ?thesis by simp
  qed
  ultimately have "knows nodes (f ++ map_of (map (\<lambda>d. (pod_key d, d)) (d # ds))) (ss_scheduler st')"
      "watch_pods assign (map (\<lambda>d. Inr (od, added_event d)) (d # ds)) (st, v) = (Inr (), st', v)"
    using one(1) by (simp_all only: list.map watch_pods.simps)
  then show ?case by blast
qed

section \<open>The two views of a node's load\<close>

text \<open>The pods of the store that are assigned to a node.\<close>

definition placed_pods :: "('w, 'v) store \<Rightarrow> pod_key \<rightharpoonup> pod_detail" where
  "placed_pods s k = (case sto_pods s k of None \<Rightarrow> None | Some d \<Rightarrow> if pd_node_name d = [] then None else Some d)"

lemma placed_claims:
  assumes good: "good_store s" and k: "knows nodes (placed_pods s) b" and nm: "nm \<noteq> []"
  shows "cpu_claims b nm = limits_total res_cpu nm (sto_pods s)" "memory_claims b nm = limits_total res_memory nm (sto_pods s)"
    "claimed_ports_of b nm = {x. \<exists>k d. sto_pods s k = Some d \<and> pd_node_name d = nm \<and> x \<in> port_keys (detail_ports d)}"
proof -
  have pl: "bs_placements b = map_option placement_of \<circ> placed_pods s" using k by (simp add: knows_def)
  have on: "k \<in> placed_on b nm \<longleftrightarrow> (\<exists>d. sto_pods s k = Some d \<and> pd_node_name d = nm)" for k
    using nm by (auto simp: placed_on_def pl placed_pods_def placement_of_def split: option.splits if_splits)
  have total: "(\<Sum>k \<in> placed_on b nm. res (placed_limits b k)) = limits_total res nm (sto_pods s)"
    if res: "res default_resources = 0" for res :: "resources \<Rightarrow> int"
    unfolding limits_total_def
  proof (rule sum.mono_neutral_cong_left)
    show "finite (dom (sto_pods s))" using good by (simp add: good_store_def)
    show "placed_on b nm \<subseteq> dom (sto_pods s)" using on by auto
    show "\<forall>k \<in> dom (sto_pods s) - placed_on b nm. limit_on res nm (the (sto_pods s k)) = 0"
      using on by (auto simp: limit_on_def)
    fix k assume "k \<in> placed_on b nm"
    then obtain d where d: "sto_pods s k = Some d" "pd_node_name d = nm" using on by blast
    then obtain p where "detail_pod d = Some p" "pod_limits_of d = p_limits p"
      using pod_ok_views good_storeD(3)[OF good d(1)] by blast
    then show "res (placed_limits b k) = limit_on res nm (the (sto_pods s k))"
      using d nm res
      by (simp add: placed_limits_def pl placed_pods_def placement_of_def limit_on_def limits_or_default_def split: option.splits)
  qed
  show "cpu_claims b nm = limits_total res_cpu nm (sto_pods s)" "memory_claims b nm = limits_total res_memory nm (sto_pods s)"
    using total[of res_cpu] total[of res_memory] by (simp_all add: cpu_claims_def memory_claims_def default_resources_def)
  have "placed_ports b k = port_keys (detail_ports d)" if "sto_pods s k = Some d" "pd_node_name d = nm" for k d
    using that nm by (simp add: placed_ports_def pl placed_pods_def placement_of_def)
  note ports = this
  have mem: "x \<in> claimed_ports_of b nm \<longleftrightarrow> (\<exists>k. k \<in> placed_on b nm \<and> x \<in> placed_ports b k)" for x
    using k by (auto simp: knows_def)
  have "x \<in> claimed_ports_of b nm \<longleftrightarrow>
      (\<exists>k d. sto_pods s k = Some d \<and> pd_node_name d = nm \<and> x \<in> port_keys (detail_ports d))" for x
    unfolding mem on using ports by blast
  then show "claimed_ports_of b nm = {x. \<exists>k d. sto_pods s k = Some d \<and> pd_node_name d = nm \<and> x \<in> port_keys (detail_ports d)}"
    by (intro set_eqI) simp
qed

lemma sorted_rest:
  fixes f :: "'a \<Rightarrow> bool"
  assumes "sorted (map f xs)"
  shows "\<forall>x \<in> set (dropWhile (\<lambda>x. \<not> f x) xs). f x"
  using assms
proof (induction xs)
  case (Cons x xs)
  have "(\<forall>y \<in> f ` set xs. f x \<le> y)" and rest: "sorted (map f xs)"
    using Cons.prems unfolding list.map sorted_simps list.set_map by blast+
  then have all: "f x \<Longrightarrow> y \<in> set xs \<Longrightarrow> f y" for y by (metis imageI le_boolD)
  show ?case
  proof (cases "f x")
    case True
    have "\<forall>y \<in> set (x # xs). f y" using True all[OF True] unfolding list.set by blast
    then show ?thesis using True by (simp only: dropWhile.simps if_False not_True_eq_False)
  next
    case False
    then show ?thesis using Cons.IH[OF rest] by (simp only: dropWhile.simps if_True not_False_eq_True)
  qed
qed simp

lemma knows_start:
  assumes "\<forall>nn nd. nodes nn = Some nd \<longrightarrow> nd_name nd = nn"
  shows "knows nodes Map.empty (scheduler_default\<lparr>bs_nodes := nodes\<rparr>)"
  using assms
  by (simp add: knows_def ledger_ok_def scheduler_default_def placed_on_def claimed_of_def default_resources_def
      cpu_claims_def memory_claims_def claimed_ports_of_def fun_eq_iff)

text \<open>The snapshot lists the placed pods first.\<close>

lemma snapshot_split:
  assumes good: "good_store s" and ord: "iter_order (sto_pods s) ord"
    and open': "watch_pods_impl ord s = (Inr (snapshot, pos), s1)"
  shows "\<exists>placed waiting. snapshot = map added_event (placed @ waiting) \<and> (\<forall>d \<in> set placed. pd_node_name d \<noteq> []) \<and>
     (\<forall>d \<in> set waiting. pd_node_name d = []) \<and> set placed = ran (placed_pods s) \<and> distinct (map pod_key placed) \<and>
     map_of (map (\<lambda>d. (pod_key d, d)) placed) = placed_pods s"
proof -
  let ?ps = "sort_key (\<lambda>p. pd_node_name p = []) (map_values (sto_pods s) ord)"
  define placed where "placed = takeWhile (\<lambda>d. pd_node_name d \<noteq> []) ?ps"
  define waiting where "waiting = dropWhile (\<lambda>d. pd_node_name d \<noteq> []) ?ps"
  have ps: "placed @ waiting = ?ps" by (simp add: placed_def waiting_def)
  have snap: "snapshot = map added_event ?ps"
    using open' good_storeD(1)[OF good]
    by (auto simp: watch_pods_impl_def smap_err_def sbind_def subscribe_pod_events_with_snapshot_def
        subscribe_pod_events_def mem_list_pods added_event_def)
  have set: "set ?ps = ran (sto_pods s)" using set_map_values_ran[OF ord] by simp
  have key: "sto_pods s k = Some d \<Longrightarrow> pod_key d = k" for k d using good_storeD(2)[OF good] by (rule wf_storeD)
  have p: "\<forall>d \<in> set placed. pd_node_name d \<noteq> []" by (auto simp: placed_def dest: set_takeWhileD)
  have w: "\<forall>d \<in> set waiting. pd_node_name d = []"
    unfolding waiting_def
    using sorted_rest[OF sorted_sort_key, of "\<lambda>p. pd_node_name p = []" "map_values (sto_pods s) ord"] .
  have mem: "d \<in> set placed \<longleftrightarrow> sto_pods s (pod_key d) = Some d \<and> pd_node_name d \<noteq> []" for d
  proof -
    have "d \<in> set ?ps \<longleftrightarrow> sto_pods s (pod_key d) = Some d" unfolding set ran_def mem_Collect_eq using key by blast
    then show ?thesis using p w by (auto simp: ps[symmetric])
  qed
  have pl: "placed_pods s k = Some d \<longleftrightarrow> sto_pods s k = Some d \<and> pd_node_name d \<noteq> []" for k d
    by (auto simp: placed_pods_def split: option.splits)
  have ran: "set placed = ran (placed_pods s)"
    unfolding ran_def pl using mem key by blast
  have "map pod_key (map_values (sto_pods s) ks) = ks" if "set ks \<subseteq> dom (sto_pods s)" for ks
    using that key by (induction ks) auto
  then have "distinct (map pod_key (map_values (sto_pods s) ord))" using ord by (simp add: iter_order_def)
  then have "distinct (map pod_key ?ps)" by (metis distinct_map distinct_sort set_sort)
  then have dis: "distinct (map pod_key placed)" by (simp add: ps[symmetric])
  have "map_of (map (\<lambda>d. (pod_key d, d)) placed) = placed_pods s"
  proof (rule ext)
    fix k
    have "map_of (map (\<lambda>d. (pod_key d, d)) placed) k = Some d \<longleftrightarrow> d \<in> set placed \<and> pod_key d = k" for d
      using map_of_eq_Some_iff[of "map (\<lambda>d. (pod_key d, d)) placed"] dis by (auto simp: comp_def)
    moreover have "placed_pods s k = Some d \<longleftrightarrow> d \<in> set placed \<and> pod_key d = k" for d
      unfolding mem pl using key by blast
    ultimately have "map_of (map (\<lambda>d. (pod_key d, d)) placed) k = Some d \<longleftrightarrow> placed_pods s k = Some d" for d by blast
    then show "map_of (map (\<lambda>d. (pod_key d, d)) placed) k = placed_pods s k" by (metis option.exhaust)
  qed
  with snap[folded ps] p w ran dis show ?thesis by blast
qed

text \<open>
  C6. A restarted scheduler and the API server agree on every node's load. Whatever requests the API
  server, with its store in memory, has answered since it started, the snapshot its pod watch opens with
  lists the placed pods before those that wait. A scheduler that starts without placements and whose
  node loop has read any nodes, each under its own name and none of them a NOT_READY host of a stored
  pod (those are evicted instead), makes no call while it reads the placed ones; before it decides the first pod that waits, the
  resources and host ports it holds as claimed on a node are the ones the API server computes: what
  \<open>GetNode\<close> reports as allocatable is the node's capacity less that claim, in 32 bits and floored at
  zero, and a port is claimed exactly when a container of a pod assigned there maps it.
\<close>

theorem restart_recovers_the_ledger:
  assumes "api_steps (store_new w) s" and "iter_order (sto_pods s) ord"
    and "watch_pods_impl ord s = (Inr (snapshot, pos), s1)"
    and "ss_scheduler st = scheduler_default\<lparr>bs_nodes := nodes\<rparr>" and "\<forall>nn nd. nodes nn = Some nd \<longrightarrow> nd_name nd = nn"
    and "\<forall>k d nd. sto_pods s k = Some d \<longrightarrow> nodes (pd_node_name d) = Some nd \<longrightarrow> node_status_of nd \<noteq> NodeNotReady"
  shows "\<exists>placed waiting st'. snapshot = map added_event (placed @ waiting) \<and>
     (\<forall>d \<in> set placed. pd_node_name d \<noteq> []) \<and> (\<forall>d \<in> set waiting. pd_node_name d = []) \<and>
     watch_pods assign (map (\<lambda>d. Inr (od, added_event d)) placed) (st, v) = (Inr (), st', v) \<and>
     (\<forall>nm nd. nm \<noteq> [] \<longrightarrow> sto_nodes s nm = Some nd \<longrightarrow>
        get_node_impl ord nm s = (Inr (case nd_capacity nd of None \<Rightarrow> nd | Some cap \<Rightarrow> nd\<lparr>nd_allocatable := Some
          \<lparr>res_cpu = max 0 (i32_sub (res_cpu cap) (res_cpu (claimed_of (ss_scheduler st') nm))),
           res_memory = max 0 (i32_sub (res_memory cap) (res_memory (claimed_of (ss_scheduler st') nm)))\<rparr>\<rparr>), s) \<and>
        claimed_ports_of (ss_scheduler st') nm =
          {x. \<exists>k d. sto_pods s k = Some d \<and> pd_node_name d = nm \<and> x \<in> port_keys (detail_ports d)})"
proof -
  have good: "good_store s" using api_steps_keep[OF assms(1) good_store_new] by blast
  obtain placed waiting where split: "snapshot = map added_event (placed @ waiting)"
      "\<forall>d \<in> set placed. pd_node_name d \<noteq> []" "\<forall>d \<in> set waiting. pd_node_name d = []" "set placed = ran (placed_pods s)"
      "distinct (map pod_key placed)" "map_of (map (\<lambda>d. (pod_key d, d)) placed) = placed_pods s"
    using snapshot_split[OF good assms(2,3)] by blast
  have stored: "\<exists>k. sto_pods s k = Some d" if "d \<in> set placed" for d
    using that split(4) by (auto simp: ran_def placed_pods_def split: option.splits if_splits)
  have ok: "\<forall>d \<in> set placed. pod_ok d \<and> pd_node_name d \<noteq> [] \<and>
       (\<forall>nd. nodes (pd_node_name d) = Some nd \<longrightarrow> node_status_of nd \<noteq> NodeNotReady)"
    using stored split(2) good_storeD(3)[OF good] assms(6) by blast
  obtain st' where run: "watch_pods assign (map (\<lambda>d. Inr (od, added_event d)) placed) (st, v) = (Inr (), st', v)"
      "knows nodes (placed_pods s) (ss_scheduler st')"
    using placed_events[OF ok _ split(5), of Map.empty st assign od v] knows_start[OF assms(5)] assms(4) split(6) by auto
  have "get_node_impl ord nm s = (Inr (case nd_capacity nd of None \<Rightarrow> nd | Some cap \<Rightarrow> nd\<lparr>nd_allocatable := Some
          \<lparr>res_cpu = max 0 (i32_sub (res_cpu cap) (res_cpu (claimed_of (ss_scheduler st') nm))),
           res_memory = max 0 (i32_sub (res_memory cap) (res_memory (claimed_of (ss_scheduler st') nm)))\<rparr>\<rparr>), s)"
    if nm: "nm \<noteq> []" and nd: "sto_nodes s nm = Some nd" for nm nd
  proof -
    have "nd_name nd = nm" using good_storeD(2)[OF good] nd by (rule wf_storeD)
    moreover have "ledger_ok (ss_scheduler st')" using run(2) by (simp add: knows_def)
    ultimately show ?thesis
      using placed_claims[OF good run(2) nm]
      unfolding mem_get_node_impl[OF good_storeD(1)[OF good] nd]
      by (cases "nd_capacity nd")
         (simp_all add: with_live_allocatable_def live_allocatable_eq sum_limits_total[OF assms(2)] ledger_okD(4,5)
           i32_sub_def max.commute)
  qed
  with split(1-3) run(1) placed_claims(3)[OF good run(2)] show ?thesis by blast
qed

text \<open>A server that has placed one pod of 600 millicores on a node of 4000.\<close>

definition web_key :: pod_key where "web_key = (''default'', ''web'')"

definition place_web :: assign_pod_request where
  "place_web = \<lparr>ap_name = ''web'', ap_namespace = ''default'', ap_outcome = Some (OutNodeName ''n1'')\<rparr>"

definition web_placed :: "(unit, unit) store" where
  "web_placed = snd (serve (\<lambda>_. 0) [web_key] [] Plaintext (RpcAssignPod place_web) (cu_api web_created))"

definition loaded_api :: "(unit, unit) store" where
  "loaded_api = snd (serve (\<lambda>_. 0) [web_key] [] Plaintext (RpcUpdateNodeStatus (Some demo_node)) web_placed)"

lemma loaded_steps:
  "sto_pods loaded_api = [web_key \<mapsto> fst (place_on ''n1'' (created_pod (limited_request ''web'')))]" (is ?pods)
  "sto_nodes loaded_api ''n1'' = Some (registered web_placed demo_node)" (is ?nodes)
  "api_steps (store_new ()) loaded_api" (is ?steps)
proof -
  let ?d = "created_pod (limited_request ''web'')"
  have adm: "validate_create (Some (limited_request ''web'')) = Inr (limited_request ''web'', ''web'', ''default'')"
    by code_simp
  have key: "pod_key (new_pod_detail (limited_request ''web'')) = web_key"
    by (simp add: pod_key_def new_pod_detail_def limited_request_def web_key_def)
  have a: "sto_pods (cu_api web_created) = [web_key \<mapsto> ?d]" "sto_client (cu_api web_created) = None"
      "sto_nodes (cu_api web_created) = Map.empty"
    using mem_create_pod_impl[of "store_new () :: (unit, unit) store" "Some (limited_request ''web'')"] adm
    by (auto simp: web_created_def cli_call_def idle_cluster_def serve_gate require_role_def sbind_def smap_def
        mem_store_def store_new_def publish_pod_event_def key)
  note upd = mem_update_pod_some[of "cu_api web_created" "''default''" "''web''" ?d "place_on ''n1''", OF _ _ prod.collapse[symmetric]]
  have b: "sto_pods web_placed = [web_key \<mapsto> fst (place_on ''n1'' ?d)]" "sto_client web_placed = None"
      "sto_nodes web_placed = Map.empty"
    using a
    by (simp_all add: upd web_placed_def place_web_def serve_gate require_role_def sbind_def smap_def
        assign_pod_impl_def smap_err_def web_key_def mem_store_def publish_pod_event_def
        publish_desired_state_event_def split: option.splits)
  show ?pods ?nodes
    using b by (simp_all add: loaded_api_def serve_gate require_role_def sbind_def smap_def
        update_node_status_impl_def demo_node_def smap_err_def mem_register_node mem_store_def
        publish_node_event_def)
  have made: "cu_api web_created = snd (serve (\<lambda>_. 0) [] [] Plaintext (RpcCreatePod (Some (limited_request ''web''))) (store_new ()))"
    by (simp add: web_created_def cli_call_def idle_cluster_def)
  have "api_steps (store_new ()) (cu_api web_created)"
    unfolding made
    by (rule api_steps.request[OF api_steps.none _ _ prod.collapse[symmetric]]) (simp_all add: store_new_def iter_order_def)
  then have "api_steps (store_new ()) web_placed"
    unfolding web_placed_def
    by (rule api_steps.request[OF _ _ _ prod.collapse[symmetric]]) (simp_all add: a iter_order_def)
  then show ?steps
    unfolding loaded_api_def
    by (rule api_steps.request[OF _ _ _ prod.collapse[symmetric]]) (simp_all add: b iter_order_def)
qed

theorem restart_recovers_the_ledger_witness:
  "\<exists>st'. watch_pods (\<lambda>req w. (Inr (), Suc w))
       [Inr (both_nodes, added_event (fst (place_on ''n1'' (created_pod (limited_request ''web'')))))]
       (sched_state_default, 0) = (Inr (), st', 0) \<and>
     get_node_impl [web_key] ''n1'' loaded_api = (Inr ((registered web_placed demo_node)\<lparr>nd_allocatable := Some
       \<lparr>res_cpu = max 0 (i32_sub 4000 (res_cpu (claimed_of (ss_scheduler st') ''n1''))),
        res_memory = max 0 (i32_sub 8192 (res_memory (claimed_of (ss_scheduler st') ''n1'')))\<rparr>\<rparr>), loaded_api)"
proof -
  note ld = loaded_steps
  let ?d = "fst (place_on ''n1'' (created_pod (limited_request ''web'')))"
  have ord: "iter_order (sto_pods loaded_api) [web_key]" by (simp add: ld(1) iter_order_def)
  have good: "good_store loaded_api" using api_steps_keep[OF ld(3) good_store_new] by blast
  obtain pos where open': "watch_pods_impl [web_key] loaded_api = (Inr ([added_event ?d], pos), loaded_api)"
    using good_storeD(1)[OF good] ld(1)
    by (auto simp: watch_pods_impl_def smap_err_def sbind_def subscribe_pod_events_with_snapshot_def
        subscribe_pod_events_def mem_list_pods added_event_def)
  have st: "ss_scheduler sched_state_default = scheduler_default\<lparr>bs_nodes := Map.empty\<rparr>"
    by (simp add: sched_state_default_def scheduler_default_def)
  have named: "pd_node_name ?d = ''n1''" by (simp add: place_on_def Let_def)
  obtain placed waiting st' where w: "[added_event ?d] = map added_event (placed @ waiting)"
      "\<forall>d \<in> set waiting. pd_node_name d = []"
      "watch_pods (\<lambda>req w. (Inr (), Suc w)) (map (\<lambda>d. Inr (both_nodes, added_event d)) placed) (sched_state_default, 0) = (Inr (), st', 0)"
      "get_node_impl [web_key] ''n1'' loaded_api = (Inr (case nd_capacity (registered web_placed demo_node) of None \<Rightarrow> registered web_placed demo_node | Some cap \<Rightarrow> (registered web_placed demo_node)\<lparr>nd_allocatable := Some
          \<lparr>res_cpu = max 0 (i32_sub (res_cpu cap) (res_cpu (claimed_of (ss_scheduler st') ''n1''))),
           res_memory = max 0 (i32_sub (res_memory cap) (res_memory (claimed_of (ss_scheduler st') ''n1'')))\<rparr>\<rparr>), loaded_api)"
    using restart_recovers_the_ledger[OF ld(3) ord open' st, where assign = "\<lambda>req w. (Inr (), Suc w)" and od = both_nodes and v = 0] ld(2)
    by auto
  have "placed = [?d]"
    using w(1,2) named by (cases placed) (auto simp: added_event_def)
  then show ?thesis using w(3,4) by (auto simp: demo_node_def)
qed

end
