(* ===== verification/Cni_Connection.thy ===== *)
theory Cni_Connection imports Cni_Rollback begin

text \<open>
  What a connection of the CNI daemon leaves behind when it is granted, and that deleting it takes
  exactly that away again.
\<close>

section \<open>A granted connection\<close>

text \<open>The record of the workload a request names, as the daemon stores it.\<close>

definition request_path :: "'k host \<Rightarrow> workload_ref \<Rightarrow> network_ref \<Rightarrow> string" where
  "request_path h w n = state_path h (wl_workload_name w) (wl_instance_name w) (nw_network_name n)"

lemma new_record_path [simp]: "record_path h (new_record h w n i a gw ms) = request_path h w n"
  by (simp add: record_path_def new_record_def request_path_def)

lemma connect_connected:
  assumes "connect_workload h ns pid p a r m s = (Inr net, s')"
  shows "net = record_to_network r \<and> c_state s' = (c_state s)(record_path h r \<mapsto> Content r) \<and> c_pools s' = c_pools s"
proof -
  let ?links = "setup_interfaces h ns pid (wr_host_interface r) (wr_interface_name r) (wr_ip_address r @ ''/16'')
          (wr_gateway r) (wr_vlan_id r) m"
  obtain r1 s1 where one: "?links s = (r1, s1)" by fastforce
  obtain r2 s2 where two: "add_mappings h (wr_ip_address r) (wr_port_mappings r) s1 = (r2, s2)" by fastforce
  obtain r3 s3 where three: "save h r s2 = (r3, s3)" by fastforce
  have "r3 = Inr () \<and> s' = s3 \<and> net = record_to_network r"
    using assms one two three
    by (cases r1; cases r2; cases r3) (auto simp: connect_workload_def on_error_def sbind_def)
  then show ?thesis
    using keeps_filesD[OF keeps_files_setup one] keeps_filesD[OF keeps_files_mappings(1) two] save_frame[OF three] by simp
qed

lemma attach_connected:
  assumes h: "honest h" and run: "attach_workload h node ns w n pid i ms s = (Inr net, s')"
  shows "\<exists>a gw A. let r = new_record h w n i a gw ms; d = pool_dir (nw_vlan_id n)
     in net = record_to_network r \<and> c_state s' = (c_state s)(request_path h w n \<mapsto> Content r) \<and>
        in_pool (nw_vlan_id n) node a \<and> a \<notin> taken s d \<and>
        (\<forall>b. in_pool (nw_vlan_id n) node b \<and> b < a \<longrightarrow> b \<in> taken s d) \<and>
        taken s' = (taken s)(d := insert a (taken s d)) \<and> nw_vlan_id n \<le> 255 \<and>
        (faultless h \<longrightarrow> pool_written s' d)"
proof -
  obtain this_node gw p a m s1 s2 where steps:
      "ensure_vlan h (nw_vlan_id n mod 256) this_node s = (Inr gw, s1)" "pool node (nw_vlan_id n) = Inr p"
      "allocate h p s1 = (Inr a, s2)" "connect_workload h ns pid p a (new_record h w n i a gw ms) m s2 = (Inr net, s')"
    using run by (auto simp: attach_workload_def sbind_eq_Inr slift_def)
  have p: "pl_dir p = pool_dir (nw_vlan_id n)" "nw_vlan_id n \<le> 255"
      "pl_first p = fst (pool_range (nw_vlan_id n) node)" "pl_last p = snd (pool_range (nw_vlan_id n) node)"
    using steps(2) by (auto simp: pool_eq pool_range_def)
  note k1 = keeps_files_taken[OF keeps_files_network(3) steps(1)]
  note al = with_pool_state_frame[OF steps(3)[unfolded allocate_def] h, unfolded p(1)]
  obtain A where A: "take_free p (taken s (pool_dir (nw_vlan_id n))) = Inr (a, A)"
      "taken s2 = (taken s)(pool_dir (nw_vlan_id n) := A)" "c_state s2 = c_state s"
    using al k1 by auto
  note co = connect_connected[OF steps(4)]
  have "faultless h \<Longrightarrow> pool_written s2 (pool_dir (nw_vlan_id n))"
    using with_pool_written[of h p "take_free p" s1 a s2] steps(3) p(1) by (simp add: allocate_def)
  then have "faultless h \<Longrightarrow> pool_written s' (pool_dir (nw_vlan_id n))" using co by (simp add: pool_written_def)
  moreover have "taken s' = taken s2" using co taken_cong[of s' s2] by simp
  ultimately show ?thesis
    using co A take_free_ok[OF A(1)] p by (intro exI[of _ a] exI[of _ gw]) (simp add: Let_def in_pool_def)
qed

text \<open>A request for a workload without a record that is granted: the record and the address are new.\<close>

lemma add_connected:
  assumes h: "honest h" and v: "validate_add_request req = Inr (w, n, pid, i)"
    and none: "c_state s (request_path h w n) = None"
    and run: "add_workload_network h node ord req s = (Inr net, s')"
  shows "\<exists>a gw. let r = new_record h w n i a gw (an_port_mappings req); d = pool_dir (nw_vlan_id n)
     in net = record_to_network r \<and> c_state s' = (c_state s)(request_path h w n \<mapsto> Content r) \<and>
        in_pool (nw_vlan_id n) node a \<and> a \<notin> taken s d \<and>
        (\<forall>b. in_pool (nw_vlan_id n) node b \<and> b < a \<longrightarrow> b \<in> taken s d) \<and>
        taken s' = (taken s)(d := insert a (taken s d)) \<and> nw_vlan_id n \<le> 255 \<and>
        (faultless h \<longrightarrow> pool_written s' d)"
proof -
  obtain ns s1 fo s2 where steps: "open_netns h (an_netns_path req) s = (Inr ns, s1)"
      "load h (wl_workload_name w) (wl_instance_name w) (nw_network_name n) s1 = (Inr fo, s2)"
    using run v by (auto simp: add_workload_network_def sbind_eq_Inr slift_def)
  note k1 = keeps_files_taken[OF keeps_files_network(4) steps(1)]
  note ld = load_frame[OF steps(2)]
  have fo: "fo = None" using ld k1 none by (cases fo) (auto simp: request_path_def)
  have k2: "c_state s2 = c_state s" "taken s2 = taken s" using ld k1 taken_cong[of s2 s1] by simp_all
  obtain s3 where three: "check_ports_free h ord (an_port_mappings req) s2 = (Inr (), s3)"
      "attach_workload h node ns w n pid i (an_port_mappings req) s3 = (Inr net, s')"
    using run v steps fo by (auto simp: add_workload_network_def sbind_eq_Inr slift_def)
  note k3 = keeps_files_taken[OF keeps_files_check_ports three(1)]
  from attach_connected[OF h three(2)] k2 k3 show ?thesis by simp
qed

section \<open>Its deletion\<close>

lemma release_record_done:
  assumes h: "faultless h" and node: "node \<le> 255" and r: "wr_ip_address r = show_ipv4 a" "in_pool (wr_vlan_id r) node a"
      "wr_vlan_id r \<le> 255" "pool_written s (pool_dir (wr_vlan_id r))"
    and run: "release_record_ip h node r s = (res, s')"
  shows "res = Inr () \<and> c_state s' = c_state s \<and>
     taken s' = (taken s)(pool_dir (wr_vlan_id r) := taken s (pool_dir (wr_vlan_id r)) - {a})"
proof -
  have parse: "parse_ipv4 (wr_ip_address r) = Some a"
    using r(1) parse_show_ipv4 in_pool_bound[OF r(2,3) node] by simp
  obtain p where p: "pool node (wr_vlan_id r) = Inr p" using r(3) by (auto simp: pool_eq)
  then have dir: "pl_dir p = pool_dir (wr_vlan_id r)" "\<not> (a < pl_first p \<or> pl_last p < a)"
    using r(2) by (auto simp: pool_eq in_pool_def pool_range_def)
  obtain x t where rel: "release h p a s = (Inr x, t)"
    using with_pool_succeeds[OF h, of s p "\<lambda>A. Inr (a \<in> A, A - {a})"] r(4) dir by (auto simp: release_def)
  then have "res = Inr ()" "s' = t" using run parse p by (simp_all add: release_record_ip_def sbind_def)
  with release_gives_back[OF h p r(2,4) rel] show ?thesis by simp
qed

lemma delete_disconnects:
  assumes h: "faultless h" and node: "node \<le> 255" and v: "validate_refs wo no = Inr (w, n)"
    and r: "c_state s (request_path h w n) = Some (Content r)" "wr_ip_address r = show_ipv4 a"
      "in_pool (wr_vlan_id r) node a" "wr_vlan_id r \<le> 255" "pool_written s (pool_dir (wr_vlan_id r))"
    and run: "delete_workload_network h node wo no s = (res, s')"
  shows "case res of Inl e \<Rightarrow> c_state s' = c_state s \<and> taken s' = taken s
     | Inr b \<Rightarrow> b \<and> c_state s' = (c_state s)(request_path h w n := None) \<and>
         taken s' = (taken s)(pool_dir (wr_vlan_id r) := taken s (pool_dir (wr_vlan_id r)) - {a})"
proof -
  let ?pre = "sbind (ip_ok h [''link'', ''show'', ''dev'', wr_host_interface r]) (\<lambda>there.
       sbind (if there then ip_cmd h [''link'', ''delete'', wr_host_interface r] else sret ()) (\<lambda>_.
       delete_mappings h (wr_ip_address r) (wr_port_mappings r)))"
  have kp: "keeps_files ?pre" by (intro files_kept files_rules)
  obtain s1 where one: "load h (wl_workload_name w) (wl_instance_name w) (nw_network_name n) s = (Inr (Some r), s1)"
    using r(1) by (simp add: load_def read_record_def faultless_fs[OF h] request_path_def)
  note k1 = load_frame[OF one]
  obtain r2 s2 where two: "?pre s1 = (r2, s2)" by fastforce
  note k2 = keeps_filesD[OF kp two]
  show ?thesis
  proof (cases r2)
    case (Inl e)
    then have "res = Inl e" "s' = s2"
      using run v one two by (auto simp: delete_workload_network_def sbind_def split: prod.splits sum.splits)
    then show ?thesis using k1 k2 taken_cong[of s2 s] by simp
  next
    case (Inr u)
    have "pool_written s2 (pool_dir (wr_vlan_id r))" using r(5) k1 k2 by (simp add: pool_written_def)
    obtain r3 s3 where three: "release_record_ip h node r s2 = (r3, s3)" by fastforce
    note rel = release_record_done[OF h node r(2-4) \<open>pool_written s2 _\<close> three]
    obtain r4 s4 where four: "delete_record h (wl_workload_name w) (wl_instance_name w) (nw_network_name n) s3 = (r4, s4)"
      by fastforce
    note del = delete_record_frame[OF four]
    have "\<exists>b. r4 = Inr b"
      using four by (auto simp: delete_record_def faultless_fs[OF h] sbind_def Let_def split: if_splits)
    moreover from this have "res = Inr True" "s' = s4"
      using run v one two Inr three four rel
      by (auto simp: delete_workload_network_def sbind_def split: prod.splits sum.splits)
    ultimately show ?thesis
      using del faultless_honest[OF h] rel k1 k2 taken_cong[of s4 s3] taken_cong[of s2 s]
      by (simp add: request_path_def)
  qed
qed

lemma validated_refs: "validate_add_request req = Inr (w, n, pid, i) \<Longrightarrow> validate_refs (an_workload req) (an_network req) = Inr (w, n)"
  by (auto simp: validate_add_request_def rbind_eq_Inr Let_def split: if_splits)

text \<open>
  C12. Connecting and disconnecting a workload is a round trip. With a file system that works, a granted
  request of a workload without a record answers with the lowest address of its VLAN on this node that
  was not handed out, marks exactly that one and stores exactly one record. Whatever then happens to
  the kernel, deleting the connection either fails and leaves the records and pools alone, or leaves
  every record and every pool as they were before the request.
\<close>

theorem connection_round_trip:
  assumes "faultless h" and "node \<le> 255" and "validate_add_request req = Inr (w, n, pid, i)"
    and "c_state s (request_path h w n) = None" and "add_workload_network h node ord req s = (Inr net, s1)"
    and "delete_workload_network h node (an_workload req) (an_network req) (s1\<lparr>c_kernel := k\<rparr>) = (res, s2)"
  shows "(\<exists>a gw. net = record_to_network (new_record h w n i a gw (an_port_mappings req)) \<and>
       in_pool (nw_vlan_id n) node a \<and> a \<notin> taken s (pool_dir (nw_vlan_id n)) \<and>
       (\<forall>b. in_pool (nw_vlan_id n) node b \<and> b < a \<longrightarrow> b \<in> taken s (pool_dir (nw_vlan_id n))) \<and>
       taken s1 = (taken s)(pool_dir (nw_vlan_id n) := insert a (taken s (pool_dir (nw_vlan_id n)))) \<and>
       c_state s1 = (c_state s)(request_path h w n \<mapsto> Content (new_record h w n i a gw (an_port_mappings req)))) \<and>
     (case res of Inl e \<Rightarrow> c_state s2 = c_state s1 \<and> taken s2 = taken s1
      | Inr b \<Rightarrow> b \<and> c_state s2 = c_state s \<and> taken s2 = taken s)"
proof -
  obtain a gw where con: "net = record_to_network (new_record h w n i a gw (an_port_mappings req))"
      "c_state s1 = (c_state s)(request_path h w n \<mapsto> Content (new_record h w n i a gw (an_port_mappings req)))"
      "in_pool (nw_vlan_id n) node a" "a \<notin> taken s (pool_dir (nw_vlan_id n))"
      "\<forall>b. in_pool (nw_vlan_id n) node b \<and> b < a \<longrightarrow> b \<in> taken s (pool_dir (nw_vlan_id n))"
      "taken s1 = (taken s)(pool_dir (nw_vlan_id n) := insert a (taken s (pool_dir (nw_vlan_id n))))"
      "nw_vlan_id n \<le> 255" "pool_written s1 (pool_dir (nw_vlan_id n))"
    using add_connected[OF conjunct1[OF faultless_honest[OF assms(1)]] assms(3-5)] assms(1) by (auto simp: Let_def)
  let ?r = "new_record h w n i a gw (an_port_mappings req)" and ?t = "s1\<lparr>c_kernel := k\<rparr>"
  have r: "wr_ip_address ?r = show_ipv4 a" "wr_vlan_id ?r = nw_vlan_id n" by (simp_all add: new_record_def)
  have t: "c_state ?t (request_path h w n) = Some (Content ?r)" "pool_written ?t (pool_dir (wr_vlan_id ?r))"
      "taken ?t = taken s1"
    using con(2,8) by (simp_all add: pool_written_def new_record_def taken_def fun_eq_iff)
  note gone = delete_disconnects[OF assms(1,2) validated_refs[OF assms(3)] t(1) r(1) _ _ t(2) assms(6), unfolded r(2) t(3), OF con(3,7)]
  have "(c_state s1)(request_path h w n := None) = c_state s" using con(2) assms(4) by (simp add: fun_upd_idem)
  moreover have "(taken s1)(pool_dir (nw_vlan_id n) := taken s1 (pool_dir (nw_vlan_id n)) - {a}) = taken s"
    using con(4,6) by (auto simp: fun_eq_iff)
  ultimately show ?thesis using gone con by (intro conjI exI[of _ a] exI[of _ gw]) (simp_all split: sum.splits)
qed

text \<open>On a host where every command succeeds, so does the deletion.\<close>

lemma calm_delete:
  assumes "c_state s (web_path ''web-1'') = Some (Content (web_record ''web-1'' a))"
    and "in_pool 100 1 a" and "pool_written s (pool_dir 100)"
  shows "fst (delete_workload_network calm 1 (Some (web_ref ''web-1'')) (Some blue) s) = Inr True"
proof -
  have h: "faultless calm" by (simp add: faultless_def calm_def)
  have refs: "validate_refs (Some (web_ref ''web-1'')) (Some blue) = Inr (web_ref ''web-1'', blue)"
    using validated_refs[OF web_valid[of "''web-1''"]] by (simp add: cni_web_request_def)
  have r: "wr_vlan_id (web_record ''web-1'' a) = 100" "wr_ip_address (web_record ''web-1'' a) = show_ipv4 a"
      "wr_port_mappings (web_record ''web-1'' a) = []"
    by (simp_all add: web_record_def new_record_def blue_def)
  have path: "state_path calm ''web'' ''web-1'' ''blue'' = web_path ''web-1''"
    by (simp add: web_path_def state_path_def calm_def)
  have ld: "load calm ''web'' ''web-1'' ''blue'' s = (Inr (Some (web_record ''web-1'' a)), tick (tick s))"
    using assms(1) path by (simp add: load_def read_record_def faultless_fs[OF h])
  obtain x t where rel: "release_record_ip calm 1 (web_record ''web-1'' a) (tick (tick s)) = (x, t)" by fastforce
  have "x = Inr ()"
    using release_record_done[OF h _ r(2) _ _ _ rel] assms(2,3) r(1) by (simp add: pool_written_def tick_def)
  moreover have "\<exists>b u. delete_record calm ''web'' ''web-1'' ''blue'' t = (Inr b, u)"
    by (auto simp: delete_record_def faultless_fs[OF h] sbind_def Let_def)
  ultimately show ?thesis
    using refs ld rel r(3)
    by (auto simp: delete_workload_network_def sbind_def web_ref_def blue_def ok_succeeds[of "\<lambda>_ _. None", folded calm_def]
        ok_run[of "\<lambda>_ _. None", folded calm_def])
qed

theorem connection_round_trip_witness:
  "\<exists>net s1 s2. add_workload_network calm 1 [] (cni_web_request ''web-1'') empty_cni = (Inr net, s1) \<and>
     delete_workload_network calm 1 (Some (web_ref ''web-1'')) (Some blue) (s1\<lparr>c_kernel := ()\<rparr>) = (Inr True, s2) \<and>
     wn_ip_address net = show_ipv4 (ipv4_new 10 100 1 2) \<and> c_state s1 (web_path ''web-1'') \<noteq> None \<and>
     c_state s2 = Map.empty \<and> taken s2 = taken empty_cni"
proof -
  have h: "faultless calm" by (simp add: faultless_def calm_def)
  have v: "validate_add_request (cni_web_request ''web-1'') = Inr (web_ref ''web-1'', blue, 42, ''eth0'')"
    by (rule web_valid) simp
  have path: "request_path calm (web_ref ''web-1'') blue = web_path ''web-1''"
    by (simp add: request_path_def web_ref_def blue_def web_path_def state_path_def calm_def)
  have none: "c_state empty_cni (request_path calm (web_ref ''web-1'') blue) = None" by (simp add: empty_cni_def)
  obtain net s1 where add: "add_workload_network calm 1 [] (cni_web_request ''web-1'') empty_cni = (Inr net, s1)"
      "c_state s1 (web_path ''web-1'') = Some (Content (web_record ''web-1'' (ipv4_new 10 100 1 2)))"
      "pool_written s1 (pool_dir 100)"
    using add_ok[of "\<lambda>_ _. None" "''web-1''" empty_cni "ipv4_new 10 100 1 2" _ "[]"] first_address
    by (auto simp: calm_def empty_cni_def usable_pool_def taken_def only_removals_fail_def pool_written_def)
  obtain res s2 where del: "delete_workload_network calm 1 (Some (web_ref ''web-1'')) (Some blue) (s1\<lparr>c_kernel := ()\<rparr>) = (res, s2)"
    by fastforce
  have ip: "in_pool 100 1 (ipv4_new 10 100 1 2)" by (simp add: in_pool_def pool_range_def ipv4_new_def)
  have "fst (delete_workload_network calm 1 (Some (web_ref ''web-1'')) (Some blue) (s1\<lparr>c_kernel := ()\<rparr>)) = Inr True"
    by (rule calm_delete[OF _ ip]) (use add in \<open>simp_all add: pool_written_def\<close>)
  then have res: "res = Inr True" using del by simp
  note trip = connection_round_trip[OF h _ v none add(1), of "()" res s2] 
  then obtain a gw where "net = record_to_network (new_record calm (web_ref ''web-1'') blue ''eth0'' a gw [])"
      "\<forall>b. in_pool 100 1 b \<and> b < a \<longrightarrow> b \<in> taken empty_cni (pool_dir 100)" "in_pool 100 1 a"
      "c_state s2 = c_state empty_cni" "taken s2 = taken empty_cni"
    using del res by (auto simp: cni_web_request_def blue_def)
  moreover have "a = ipv4_new 10 100 1 2"
  proof (rule antisym)
    have "taken empty_cni (pool_dir 100) = {}" by (simp add: empty_cni_def taken_def)
    then show "a \<le> ipv4_new 10 100 1 2" using calculation(2) ip by (metis empty_iff not_less)
    show "ipv4_new 10 100 1 2 \<le> a" using calculation(3) by (simp add: in_pool_def pool_range_def)
  qed
  ultimately show ?thesis
    using add del res by (simp add: record_to_network_def new_record_def) (simp add: empty_cni_def)
qed

end
