(* ===== verification/Node_Network.thy ===== *)
theory Node_Network imports Agent_Examples Cni_Connection Cni_Reconcile begin

text \<open>
  A node as a whole: the agent and the CNI daemon of its host. The agent's two CNI calls are the
  daemon's handlers; what containerd and the cgroup file system do may change the kernel the daemon
  configures, in any way.
\<close>

section \<open>The agent's calls reach the daemon\<close>

text \<open>
  \<open>ord\<close> is the order in which the daemon's state directory is listed when it holds given records.
\<close>

definition beside_daemon :: "('w \<times> 'k \<Rightarrow> 'r \<times> ('w \<times> 'k)) \<Rightarrow> 'w \<times> 'k cni \<Rightarrow> 'r \<times> ('w \<times> 'k cni)" where
  "beside_daemon f wc = (case f (fst wc, c_kernel (snd wc)) of
     (r, w, k) \<Rightarrow> (r, w, (snd wc)\<lparr>c_kernel := k\<rparr>))"

definition in_daemon :: "('k cni \<Rightarrow> 'r \<times> 'k cni) \<Rightarrow> 'w \<times> 'k cni \<Rightarrow> 'r \<times> ('w \<times> 'k cni)" where
  "in_daemon f wc = (case f (snd wc) of (r, c) \<Rightarrow> (r, fst wc, c))"

definition kernel_view :: "'w \<times> 'k cni \<Rightarrow> 'w \<times> 'k" where
  "kernel_view wc = (fst wc, c_kernel (snd wc))"

definition node_env ::
  "('w \<times> 'k) agent_env \<Rightarrow> 'k host \<Rightarrow> nat \<Rightarrow> ('k cni \<Rightarrow> string list) \<Rightarrow> ('w \<times> 'k cni) agent_env" where
  "node_env env h node ord = \<lparr>ae_arch = ae_arch env, ae_digest = ae_digest env,
     ae_transfer = (\<lambda>a b. beside_daemon (ae_transfer env a b)),
     ae_image_target = (\<lambda>a. beside_daemon (ae_image_target env a)),
     ae_read_content = (\<lambda>a. beside_daemon (ae_read_content env a)),
     ae_prepare = (\<lambda>a b. beside_daemon (ae_prepare env a b)), ae_create = (\<lambda>a. beside_daemon (ae_create env a)),
     ae_task_create = (\<lambda>a b. beside_daemon (ae_task_create env a b)),
     ae_task_start = (\<lambda>a. beside_daemon (ae_task_start env a)), ae_list = (\<lambda>a. beside_daemon (ae_list env a)),
     ae_kill = (\<lambda>a b. beside_daemon (ae_kill env a b)), ae_wait = (\<lambda>a b. beside_daemon (ae_wait env a b)),
     ae_task_delete = (\<lambda>a. beside_daemon (ae_task_delete env a)), ae_delete = (\<lambda>a. beside_daemon (ae_delete env a)),
     ae_snapshot_remove = (\<lambda>a. beside_daemon (ae_snapshot_remove env a)),
     ae_add_network = (\<lambda>rq. in_daemon (\<lambda>c. case rpc_add_workload_network h node (ord c) rq c of
        (r, c') \<Rightarrow> (map_sum id Some r, c'))),
     ae_delete_network = (\<lambda>w n. in_daemon (rpc_delete_workload_network h node (Some w) (Some n))),
     ae_exists = (\<lambda>p wc. ae_exists env p (kernel_view wc)), ae_mkdir = (\<lambda>p. beside_daemon (ae_mkdir env p)),
     ae_write = (\<lambda>p v. beside_daemon (ae_write env p v)), ae_leaves = (\<lambda>p wc. ae_leaves env p (kernel_view wc)),
     ae_rmdir = (\<lambda>p. beside_daemon (ae_rmdir env p)), ae_read_vlans = (\<lambda>wc. ae_read_vlans env (kernel_view wc)),
     ae_write_vlans = (\<lambda>m. beside_daemon (ae_write_vlans env m))\<rparr>"

abbreviation daemon :: "('w \<times> 'k cni) agent \<Rightarrow> 'k cni" where
  "daemon s \<equiv> snd (ag_world s)"

section \<open>What never reaches the daemon\<close>

text \<open>The daemon's files and the agent's VLANs stay.\<close>

definition same_net :: "('w \<times> 'k cni) agent \<Rightarrow> ('w \<times> 'k cni) agent \<Rightarrow> bool" where
  "same_net s t \<longleftrightarrow> ag_vlans t = ag_vlans s \<and> same_files (daemon s) (daemon t)"

abbreviation keeps_net :: "('w \<times> 'k cni, 'e, 'a) act \<Rightarrow> bool" where
  "keeps_net \<equiv> op_keeps (\<lambda>_. True) same_net"

interpretation net: step_rel "\<lambda>_. True" "same_net :: ('w \<times> 'k cni) agent \<Rightarrow> ('w \<times> 'k cni) agent \<Rightarrow> bool"
  by unfold_locales (auto simp: same_net_def same_files_def)

named_theorems net_kept \<open>agent operations that do not reach the CNI daemon\<close>

lemma keeps_netI: "(\<And>s r s'. f s = (r, s') \<Longrightarrow> same_net s s') \<Longrightarrow> keeps_net f"
  by (rule op_keepsI) auto

lemma keeps_netD: "keeps_net f \<Longrightarrow> f s = (r, s') \<Longrightarrow>
   ag_vlans s' = ag_vlans s \<and> c_state (daemon s') = c_state (daemon s) \<and> taken (daemon s') = taken (daemon s)"
  using op_keepsD[of "\<lambda>_. True" same_net f s r s'] taken_cong[of "daemon s'" "daemon s"]
  by (simp add: same_net_def same_files_def)

lemma beside_keeps [net_kept]: "keeps_net (on_world (beside_daemon f))"
  by (rule keeps_netI) (auto simp: on_world_def beside_daemon_def same_net_def same_files_def split: prod.splits)

lemma keeps_net_logged: "keeps_net f \<Longrightarrow> keeps_net (logged f)"
  by (rule op_keepsI) (metis logged_def op_keepsD prod.collapse snd_conv)

lemma keeps_net_missing: "keeps_net f \<Longrightarrow> keeps_net (ignore_missing f)"
  by (rule op_keepsI) (auto simp: ignore_missing_def split: prod.splits sum.splits if_splits dest: op_keepsD)

lemma keeps_net_missing_ok: "keeps_net f \<Longrightarrow> keeps_net (missing_ok f)"
  by (rule op_keepsI) (auto simp: missing_ok_def split: prod.splits sum.splits if_splits dest: op_keepsD)

lemmas net_rules = net.keeps_rules keeps_net_logged keeps_net_missing keeps_net_missing_ok

lemma node_calls:
  "ae_transfer (node_env env h node ord) = (\<lambda>a b. beside_daemon (ae_transfer env a b))"
  "ae_image_target (node_env env h node ord) = (\<lambda>a. beside_daemon (ae_image_target env a))"
  "ae_read_content (node_env env h node ord) = (\<lambda>a. beside_daemon (ae_read_content env a))"
  "ae_prepare (node_env env h node ord) = (\<lambda>a b. beside_daemon (ae_prepare env a b))"
  "ae_create (node_env env h node ord) = (\<lambda>a. beside_daemon (ae_create env a))"
  "ae_task_create (node_env env h node ord) = (\<lambda>a b. beside_daemon (ae_task_create env a b))"
  "ae_task_start (node_env env h node ord) = (\<lambda>a. beside_daemon (ae_task_start env a))"
  "ae_list (node_env env h node ord) = (\<lambda>a. beside_daemon (ae_list env a))"
  "ae_kill (node_env env h node ord) = (\<lambda>a b. beside_daemon (ae_kill env a b))"
  "ae_task_delete (node_env env h node ord) = (\<lambda>a. beside_daemon (ae_task_delete env a))"
  "ae_delete (node_env env h node ord) = (\<lambda>a. beside_daemon (ae_delete env a))"
  "ae_snapshot_remove (node_env env h node ord) = (\<lambda>a. beside_daemon (ae_snapshot_remove env a))"
  "ae_mkdir (node_env env h node ord) = (\<lambda>a. beside_daemon (ae_mkdir env a))"
  "ae_write (node_env env h node ord) = (\<lambda>a b. beside_daemon (ae_write env a b))"
  "ae_rmdir (node_env env h node ord) = (\<lambda>a. beside_daemon (ae_rmdir env a))"
  "ae_write_vlans (node_env env h node ord) = (\<lambda>m. beside_daemon (ae_write_vlans env m))"
  by (simp_all add: node_env_def)

lemma keeps_net_wait [net_kept]: "keeps_net (wait_task (node_env env h node ord) cid g)"
  by (rule keeps_netI) (auto simp: wait_task_def node_env_def on_world_def beside_daemon_def same_net_def same_files_def
      Let_def split: prod.splits)

lemma keeps_net_cgroup [net_kept]:
  "keeps_net (cg_mkdir (node_env env h node ord) d)" "keeps_net (cg_write (node_env env h node ord) f v)"
  "keeps_net (delegate (node_env env h node ord) d)"
  unfolding cg_mkdir_def delegate_def cg_write_def node_calls by (intro net_kept net_rules)+

lemma keeps_net_limits [net_kept]: "keeps_net (write_limits (node_env env h node ord) pod fvs)"
  by (induction "node_env env h node ord" pod fvs rule: write_limits.induct)
    (simp_all only: write_limits.simps, (intro net_kept net_rules | assumption)+)

lemma keeps_net_leaves [net_kept]: "keeps_net (remove_leaves (node_env env h node ord) pod ls)"
  by (induction ls) (simp_all only: remove_leaves.simps node_calls, (intro net_kept net_rules | assumption)+)

lemma keeps_net_cgroups [net_kept]:
  "keeps_net (cgroup_create_pod (node_env env h node ord) i l)" "keeps_net (cgroup_remove_pod (node_env env h node ord) i)"
  unfolding cgroup_create_pod_def cgroup_remove_pod_def node_calls by (intro net_kept net_rules)+

lemma keeps_net_images [net_kept]:
  "keeps_net (pull_image (node_env env h node ord) img)" "keeps_net (read_json (node_env env h node ord) d)"
  "keeps_net (platform_manifest (node_env env h node ord) img mf)" "keeps_net (get_image_config (node_env env h node ord) img)"
  unfolding pull_image_def get_image_config_def platform_manifest_def read_json_def node_calls
  by (intro net_kept net_rules)+

lemma keeps_net_containers [net_kept]:
  "keeps_net (run_container (node_env env h node ord) i c)" "keeps_net (pod_containers (node_env env h node ord) i)"
  "keeps_net (stop_task (node_env env h node ord) g cid)" "keeps_net (remove_container (node_env env h node ord) g f cid)"
  unfolding run_container_def pod_containers_def remove_container_def stop_task_def Let_def node_calls
  by (intro net_kept net_rules)+

lemma keeps_net_remove_containers [net_kept]: "keeps_net (remove_containers (node_env env h node ord) g f ids)"
  by (induction ids) (simp_all only: remove_containers.simps, (intro net_kept net_rules | assumption)+)

lemma keeps_net_remove_pod [net_kept]: "keeps_net (remove_pod_containers (node_env env h node ord) i g f)"
  unfolding remove_pod_containers_def by (intro net_kept net_rules)

section \<open>A granted connection has a record\<close>

text \<open>The record a granted request is answered from, whether it was there before or is new.\<close>

lemma existing_answer:
  assumes h: "honest h" and run: "existing_network h node n i ms w r s = (Inr ans, s')"
  shows "case ans of
      Some net \<Rightarrow> net = record_to_network r \<and> wr_interface_name r = i \<and> wr_vlan_id r = nw_vlan_id n \<and>
        wr_port_mappings r = ms \<and> c_state s' = c_state s
    | None \<Rightarrow> c_state s' = (c_state s)(request_path h w n := None)"
proof -
  have same: "wr_interface_name r = i" "wr_vlan_id r = nw_vlan_id n" "wr_port_mappings r = ms"
    using run by (auto simp: existing_network_def fail_with_def split: if_splits)
  obtain there s1 where one: "ip_ok h [''link'', ''show'', ''dev'', wr_host_interface r] s = (Inr there, s1)"
    using run same by (auto simp: existing_network_def sbind_eq_Inr)
  note k1 = keeps_filesD[OF keeps_files_base(1) one]
  show ?thesis
  proof (cases there)
    case True
    obtain s2 where two: "add_mappings h (wr_ip_address r) (wr_port_mappings r) s1 = (Inr (), s2)"
        and ans: "ans = Some (record_to_network r)" "s' = s2"
      using run same one True by (auto simp: existing_network_def sbind_eq_Inr)
    with keeps_filesD[OF keeps_files_mappings(1) two] k1 same show ?thesis by simp
  next
    case False
    obtain s2 s3 b s4 where steps: "delete_mappings h (wr_ip_address r) (wr_port_mappings r) s1 = (Inr (), s2)"
        "release_record_ip h node r s2 = (Inr (), s3)"
        "delete_record h (wl_workload_name w) (wl_instance_name w) (nw_network_name n) s3 = (Inr b, s4)"
        and ans: "ans = None" "s' = s4"
      using run same one False by (auto simp: existing_network_def sbind_eq_Inr)
    have k3: "c_state s3 = c_state s2"
    proof -
      have "c_state t' = c_state t" if "release h p a t = (x, t')" for p a t x t'
        using that with_pool_state_frame[OF _ h] by (fastforce simp: release_def fail_with_def split: if_splits)
      then show ?thesis using steps(2)
        by (auto simp: release_record_ip_def fail_with_def sbind_def slift_def split: option.splits sum.splits prod.splits if_splits)
    qed
    have "c_state s4 = (c_state s3)(request_path h w n := None)"
      using delete_record_frame[OF steps(3)] h by (auto simp: request_path_def)
    then show ?thesis using ans k1 k3 keeps_filesD[OF keeps_files_mappings(2) steps(1)] by simp
  qed
qed

lemma add_records:
  assumes h: "honest h" and v: "validate_add_request req = Inr (w, n, pid, i)"
    and run: "add_workload_network h node ord req s = (Inr net, s')"
  shows "\<exists>r. c_state s' (request_path h w n) = Some (Content r) \<and> net = record_to_network r \<and>
     wr_vlan_id r = nw_vlan_id n \<and> wr_interface_name r = i \<and> wr_port_mappings r = an_port_mappings req \<and>
     (\<forall>p. p \<noteq> request_path h w n \<longrightarrow> c_state s' p = c_state s p)"
proof -
  let ?ms = "an_port_mappings req"
  obtain ns s1 fo s2 ans s3 where steps: "open_netns h (an_netns_path req) s = (Inr ns, s1)"
      "load h (wl_workload_name w) (wl_instance_name w) (nw_network_name n) s1 = (Inr fo, s2)"
      "(case fo of None \<Rightarrow> sret None | Some r \<Rightarrow> existing_network h node n i ?ms w r) s2 = (Inr ans, s3)"
      and rest: "(case ans of Some net \<Rightarrow> sret net | None \<Rightarrow> sbind (check_ports_free h ord ?ms) (\<lambda>_.
         attach_workload h node ns w n pid i ?ms)) s3 = (Inr net, s')"
    using run v by (auto simp: add_workload_network_def sbind_eq_Inr slift_def)
  note k1 = keeps_files_taken[OF keeps_files_network(4) steps(1)]
  note ld = load_frame[OF steps(2)]
  have k2: "c_state s2 = c_state s" using ld k1 by simp
  show ?thesis
  proof (cases ans)
    case (Some nt)
    then obtain r where fo: "fo = Some r" using steps(3) by (cases fo) auto
    have "c_state s' (request_path h w n) = Some (Content r)"
      using existing_answer[OF h, of node n i ?ms w r s2 ans s3] steps(3) fo Some rest ld k1 k2 by (auto simp: request_path_def)
    then show ?thesis
      using existing_answer[OF h, of node n i ?ms w r s2 ans s3] steps(3) fo Some rest k2 by auto
  next
    case None
    obtain s4 where four: "check_ports_free h ord ?ms s3 = (Inr (), s4)" "attach_workload h node ns w n pid i ?ms s4 = (Inr net, s')"
      using rest None by (auto simp: sbind_eq_Inr)
    have k3: "p \<noteq> request_path h w n \<Longrightarrow> c_state s3 p = c_state s p" for p
      using existing_answer[OF h, of node n i ?ms w _ s2 ans s3] steps(3) None k2 by (cases fo) fastforce+
    obtain a gw where "c_state s' = (c_state s4)(request_path h w n \<mapsto> Content (new_record h w n i a gw ?ms))"
        "net = record_to_network (new_record h w n i a gw ?ms)"
      using attach_connected[OF h four(2)] by (auto simp: Let_def)
    then show ?thesis
      using k3 keeps_files_taken[OF keeps_files_check_ports four(1)]
      by (intro exI[of _ "new_record h w n i a gw ?ms"]) (simp add: new_record_def)
  qed
qed

section \<open>The state directory stays finite\<close>

abbreviation keeps_finite :: "('k, 'a) io \<Rightarrow> bool" where
  "keeps_finite \<equiv> op_keeps (\<lambda>s. finite (dom (c_state s))) (\<lambda>_ _. True)"

interpretation fin: step_rel "\<lambda>s. finite (dom (c_state s))" "\<lambda>_ _. True"
  by unfold_locales auto

lemma keeps_finiteI:
  "(\<And>s r s'. f s = (r, s') \<Longrightarrow> c_state s' = c_state s \<or> (\<exists>p x. c_state s' = (c_state s)(p := x))) \<Longrightarrow> keeps_finite f"
  by (rule op_keepsI) (fastforce simp: dom_fun_upd split: if_splits)

lemma keeps_files_finite: "keeps_files f \<Longrightarrow> keeps_finite f"
  by (rule keeps_finiteI) (simp add: keeps_filesD)

lemma keeps_finite_ignoring: "keeps_finite f \<Longrightarrow> keeps_finite (ignoring f)"
  by (rule op_keepsI) (metis ignoring_def op_keepsD prod.collapse snd_conv)

lemma keeps_finite_on_error:
  assumes f: "keeps_finite f" and g: "keeps_finite g"
  shows "keeps_finite (on_error f g)"
proof (rule op_keepsI)
  fix s r s' assume ok: "finite (dom (c_state s))" and run: "on_error f g s = (r, s')"
  obtain r1 s1 where one: "f s = (r1, s1)" by fastforce
  obtain r2 s2 where two: "g s1 = (r2, s2)" by fastforce
  have "finite (dom (c_state s1))" using op_keepsD[OF f ok one] by simp
  with op_keepsD[OF g _ two] run one two show "finite (dom (c_state s')) \<and> True"
    by (auto simp: on_error_def split: sum.splits)
qed

lemmas finite_rules = fin.keeps_rules keeps_finite_ignoring keeps_finite_on_error

lemma keeps_finite_requests:
  assumes h: "honest h"
  shows "keeps_finite (add_workload_network h node ord rq)" "keeps_finite (delete_workload_network h node wo no)"
proof -
  note quiet = files_kept[THEN keeps_files_finite]
  have alloc: "keeps_finite (allocate h p)" for p unfolding allocate_def by (rule keeps_finiteI) (simp add: with_pool_state_frame[OF _ h])
  have rel: "c_state t' = c_state t" if "release h p a t = (x, t')" for p a t x t'
    using that with_pool_state_frame[OF _ h] by (fastforce simp: release_def fail_with_def split: if_splits)
  have release: "keeps_finite (release h p a)" for p a by (rule keeps_finiteI) (simp add: rel)
  have relrec: "keeps_finite (release_record_ip h node r)" for r
    by (rule keeps_finiteI) (auto simp: release_record_ip_def fail_with_def sbind_def slift_def dest!: rel
        split: option.splits sum.splits prod.splits if_splits)
  have saved: "keeps_finite (save h r)" for r by (rule keeps_finiteI) (drule save_frame, blast)
  have gone: "keeps_finite (delete_record h w i n)" for w i n by (rule keeps_finiteI) (drule delete_record_frame, blast)
  have ex: "keeps_finite (existing_network h node n i ms w r)" for n i ms w r
    unfolding existing_network_def by (intro quiet relrec gone finite_rules)
  have att: "keeps_finite (attach_workload h node ns w n pid i ms)" for ns w n pid i ms
    unfolding attach_workload_def connect_workload_def undo_attach_def
    by (intro quiet alloc release saved finite_rules)
  show "keeps_finite (add_workload_network h node ord rq)"
    unfolding add_workload_network_def by (intro quiet ex att finite_rules)
  show "keeps_finite (delete_workload_network h node wo no)"
    unfolding delete_workload_network_def by (intro quiet relrec gone finite_rules)
qed

section \<open>The daemon's invariant survives whatever the agent does\<close>

definition daemon_ok :: "nat \<Rightarrow> ('w \<times> 'k cni) agent \<Rightarrow> bool" where
  "daemon_ok node s \<longleftrightarrow> cni_inv node (c_state (daemon s)) (taken (daemon s)) \<and> finite (dom (c_state (daemon s)))"

abbreviation keeps_daemon :: "nat \<Rightarrow> ('w \<times> 'k cni, 'e, 'a) act \<Rightarrow> bool" where
  "keeps_daemon node \<equiv> op_keeps (daemon_ok node) (\<lambda>_ _. True)"

interpretation dmn: step_rel "daemon_ok node" "\<lambda>_ _. True" for node
  by unfold_locales auto

lemma keeps_net_daemon: "keeps_net f \<Longrightarrow> keeps_daemon node f"
  by (rule op_keepsI) (auto simp: daemon_ok_def dest: keeps_netD)

text \<open>A daemon whose directory listings are complete, on a file system that fails only before an effect.\<close>

definition sound_daemon :: "'k host \<Rightarrow> nat \<Rightarrow> ('k cni \<Rightarrow> string list) \<Rightarrow> bool" where
  "sound_daemon h node ord \<longleftrightarrow> durable h \<and> node \<le> 255 \<and> 
     (\<forall>c. finite (dom (c_state c)) \<longrightarrow> dom (c_state c) \<subseteq> set (ord c))"

lemma sound_daemonD:
  assumes "sound_daemon h node ord"
  shows "durable h" "honest h" "node \<le> 255"
    "finite (dom (c_state c)) \<Longrightarrow> dom (c_state c) \<subseteq> set (ord c)"
  using assms durableD by (auto simp: sound_daemon_def)

lemma keeps_daemon_calls:
  assumes d: "sound_daemon h node ord"
  shows "keeps_daemon node (add_network (node_env env h node ord) w n pid ifn ms)"
    "keeps_daemon node (delete_network (node_env env h node ord) w n)"
proof -
  have "keeps_daemon node (on_world (ae_add_network (node_env env h node ord) rq))" for rq
  proof (rule op_keepsI)
    fix s r s' assume ok: "daemon_ok node s" and run: "on_world (ae_add_network (node_env env h node ord) rq) s = (r, s')"
    obtain x c where c: "add_workload_network h node (ord (daemon s)) rq (daemon s) = (x, c)" by fastforce
    then have "daemon s' = c"
      using run by (auto simp: on_world_def node_env_def in_daemon_def rpc_add_workload_network_def smap_err_def Let_def
          split: sum.splits)
    with add_keeps[OF sound_daemonD(1,3)[OF d] _ sound_daemonD(4)[OF d] c] ok
      op_keepsD[OF keeps_finite_requests(1)[OF sound_daemonD(2)[OF d]] _ c]
    show "daemon_ok node s' \<and> True" by (simp add: daemon_ok_def)
  qed
  then show "keeps_daemon node (add_network (node_env env h node ord) w n pid ifn ms)"
    unfolding add_network_def by (intro dmn.keeps_rules)
  have "keeps_daemon node (on_world (ae_delete_network (node_env env h node ord) w n))"
  proof (rule op_keepsI)
    fix s r s' assume ok: "daemon_ok node s" and run: "on_world (ae_delete_network (node_env env h node ord) w n) s = (r, s')"
    obtain x c where c: "delete_workload_network h node (Some w) (Some n) (daemon s) = (x, c)" by fastforce
    then have "daemon s' = c"
      using run by (auto simp: on_world_def node_env_def in_daemon_def rpc_delete_workload_network_def smap_err_def Let_def
          split: sum.splits)
    with delete_keeps[OF sound_daemonD(1,3)[OF d] _ c] ok op_keepsD[OF keeps_finite_requests(2)[OF sound_daemonD(2)[OF d]] _ c]
    show "daemon_ok node s' \<and> True" by (simp add: daemon_ok_def)
  qed
  then show "keeps_daemon node (delete_network (node_env env h node ord) w n)"
    unfolding delete_network_def by (intro dmn.keeps_rules)
qed

lemma keeps_daemon_logged: "keeps_daemon node f \<Longrightarrow> keeps_daemon node (logged f)"
  by (rule op_keepsI) (metis logged_def op_keepsD prod.collapse snd_conv)

lemmas daemon_rules = dmn.keeps_rules keeps_daemon_logged

lemma taken_kernel [simp]: "taken (c\<lparr>c_kernel := k\<rparr>) = taken c"
  by (simp add: taken_def fun_eq_iff)

lemma keeps_daemon_vlans:
  "keeps_daemon node (allocate_for (node_env env h node ord) i)" "keeps_daemon node (release_vlan (node_env env h node ord) i)"
  by (rule op_keepsI, auto simp: allocate_for_def release_vlan_def save_vlans_def sbind_def on_world_def node_calls
      beside_daemon_def daemon_ok_def Let_def split: option.splits prod.splits sum.splits if_splits)+

lemma keeps_daemon_kubelet:
  assumes d: "sound_daemon h node ord"
  shows "keeps_daemon node (apply_pod (node_env env h node ord) caller po)"
    "keeps_daemon node (delete_pod (node_env env h node ord) caller i g f)"
proof -
  let ?env = "node_env env h node ord"
  note quiet = net_kept[THEN keeps_net_daemon] keeps_daemon_vlans keeps_daemon_calls[OF d]
  have detach: "keeps_daemon node (detach_networks ?env w v cs)" for w v cs
    by (induction cs) (simp_all only: detach_networks.simps, (intro quiet daemon_rules | assumption)+)
  have create: "keeps_daemon node (create_containers_from ?env i ns v ip cs)" for i ns v ip cs
    by (induction cs arbitrary: ip) (simp_all only: create_containers_from.simps, (intro quiet daemon_rules | assumption)+)
  have begin': "keeps_daemon node (start_pod ?env i ns cs l v)" for i ns cs l v
    unfolding start_pod_def create_containers_def by (intro create quiet daemon_rules)
  have undo: "keeps_daemon node (rollback ?env i ns cs v)" for i ns cs v
    unfolding rollback_def by (intro detach quiet daemon_rules)
  have "keeps_daemon node (start_or_rollback ?env i ns cs l v)" for i ns cs l v
  proof (rule op_keepsI)
    fix s r s' assume ok: "daemon_ok node s" and run: "start_or_rollback ?env i ns cs l v s = (r, s')"
    obtain r1 s1 where one: "start_pod ?env i ns cs l v s = (r1, s1)" by fastforce
    obtain r2 s2 where two: "rollback ?env i ns cs v s1 = (r2, s2)" by fastforce
    have "daemon_ok node s1" using op_keepsD[OF begin' ok one] by simp
    with op_keepsD[OF undo _ two] run one two show "daemon_ok node s' \<and> True"
      by (auto simp: start_or_rollback_def split: sum.splits)
  qed
  then show "keeps_daemon node (apply_pod ?env caller po)"
    unfolding apply_pod_def by (intro quiet daemon_rules)
  show "keeps_daemon node (delete_pod ?env caller i g f)"
    unfolding delete_pod_def by (intro detach quiet daemon_rules)
qed

text \<open>The whole of a node that starts with nothing and runs any attempts of the desired-state loop.\<close>

lemma keeps_daemon_snd: "keeps_daemon node f \<Longrightarrow> daemon_ok node s \<Longrightarrow> daemon_ok node (snd (f s))"
  using op_keepsD by (metis prod.collapse)

lemma ds_run_daemon:
  assumes d: "sound_daemon h node ord" and ok: "daemon_ok node (ds_node s)"
  shows "daemon_ok node (ds_node (ds_run (node_env env h node ord) caller name ip attempts s))"
proof -
  let ?env = "node_env env h node ord"
  note kubelet = keeps_daemon_kubelet[OF d, THEN keeps_daemon_snd]
  have run: "daemon_ok node (ds_node (run_pod_event ?env caller pod s))" if "daemon_ok node (ds_node s)" for pod s
  proof -
    obtain r n where "apply_pod ?env caller (Some pod) (ds_node s) = (r, n)" by fastforce
    with kubelet(1)[OF that, of env caller "Some pod"] show ?thesis
      by (auto simp: run_pod_event_def on_node_def report_pod_status_def split: sum.splits)
  qed
  have stop: "daemon_ok node (ds_node (stop_pod_event ?env caller pod s))" if "daemon_ok node (ds_node s)" for pod s
    using kubelet(2)[OF that] by (simp add: stop_pod_event_def on_node_def Let_def case_prod_unfold)
  have event: "daemon_ok node (ds_node (handle_event ?env caller e s))" if "daemon_ok node (ds_node s)" for e s
    using run stop that by (auto simp: handle_event_def split: ds_action.splits option.splits)
  have events: "daemon_ok node (ds_node s) \<Longrightarrow> daemon_ok node (ds_node (snd (watch_events ?env caller es s)))" for es s
  proof (induction es arbitrary: s)
    case (Cons x es)
    then show ?case by (cases x) (auto intro: event)
  qed simp
  have attempt: "daemon_ok node (ds_node s) \<Longrightarrow>
      daemon_ok node (ds_node (snd (register_and_watch ?env caller name ip c r o' s)))" for c r o' s
    using events[of "s\<lparr>ds_registered := x\<rparr>" for x] by (auto simp: register_and_watch_def Let_def split: sum.splits)
  show ?thesis
    using ok
  proof (induction attempts arbitrary: s)
    case (Cons a attempts)
    obtain c r o' where a: "a = (c, r, o')" by (cases a)
    show ?case unfolding a ds_run.simps by (rule Cons.IH[OF attempt[OF Cons.prems]])
  qed simp
qed

section \<open>Connecting the containers of a pod\<close>

definition container_path :: "'k host \<Rightarrow> string \<Rightarrow> string \<Rightarrow> container \<Rightarrow> string" where
  "container_path h i ns c = state_path h i ns (ct_name c)"

text \<open>The record of a container that is connected on a VLAN as the agent asked for it.\<close>

definition connected_as :: "'k host \<Rightarrow> (string \<rightharpoonup> workload_record stored) \<Rightarrow> string \<Rightarrow> string \<Rightarrow> nat \<Rightarrow> container \<Rightarrow> workload_record \<Rightarrow> bool" where
  "connected_as h f i ns v c r \<longleftrightarrow> f (container_path h i ns c) = Some (Content r) \<and> wr_vlan_id r = v \<and>
     wr_interface_name r = default_interface \<and> wr_port_mappings r = ct_ports c"

lemma add_network_connects:
  assumes d: "sound_daemon h node ord"
    and run: "add_network (node_env env h node ord) (pod_workload i ns) (container_network (ct_name c) v) pid default_interface
      (ct_ports c) s = (Inr net, s')"
  shows "\<exists>r. connected_as h (c_state (daemon s')) i ns v c r \<and> wn_ip_address net = wr_ip_address r \<and> 1 \<le> v \<and> v \<le> 255 \<and>
     (\<forall>p. p \<noteq> container_path h i ns c \<longrightarrow> c_state (daemon s') p = c_state (daemon s) p) \<and> ag_vlans s' = ag_vlans s"
proof -
  let ?rq = "cni_request (pod_workload i ns) (container_network (ct_name c) v) pid default_interface (ct_ports c)"
  obtain x dm where dm: "add_workload_network h node (ord (daemon s)) ?rq (daemon s) = (x, dm)" by fastforce
  have "x = Inr net \<and> daemon s' = dm \<and> ag_vlans s' = ag_vlans s"
    using run dm
    by (auto simp: add_network_def on_world_def node_env_def in_daemon_def rpc_add_workload_network_def smap_err_def sbind_def
        Let_def slift_def split: sum.splits prod.splits)
  then have a: "add_workload_network h node (ord (daemon s)) ?rq (daemon s) = (Inr net, daemon s')" "ag_vlans s' = ag_vlans s"
    using dm by simp_all
  then obtain w n p ifn where va: "validate_add_request ?rq = Inr (w, n, p, ifn)"
    by (auto simp: add_workload_network_def sbind_eq_Inr slift_def)
  then have "w = pod_workload i ns" "n = container_network (ct_name c) v" "ifn = default_interface"
    by (auto simp: validate_add_request_def validate_refs_def rbind_eq_Inr Let_def cni_request_def default_interface_def
        split: if_splits)
  then show ?thesis
    using add_records[OF sound_daemonD(2)[OF d] va a(1)] validated_vlan[OF va] a(2)
    by (auto simp: connected_as_def container_path_def request_path_def pod_workload_def container_network_def cni_request_def
        record_to_network_def)
qed

lemma create_connects:
  assumes d: "sound_daemon h node ord" and "distinct (map (container_path h i ns) cs)"
    and "create_containers_from (node_env env h node ord) i ns v ip cs s = (Inr ip', s')"
  shows "(\<forall>c \<in> set cs. \<exists>r. connected_as h (c_state (daemon s')) i ns v c r) \<and> (cs \<noteq> [] \<longrightarrow> 1 \<le> v \<and> v \<le> 255) \<and>
     (\<forall>p. p \<notin> container_path h i ns ` set cs \<longrightarrow> c_state (daemon s') p = c_state (daemon s) p) \<and>
     ag_vlans s' = ag_vlans s \<and>
     (if ip \<noteq> None \<or> cs = [] then ip' = ip
      else \<exists>r. connected_as h (c_state (daemon s')) i ns v (hd cs) r \<and> ip' = Some (wr_ip_address r))"
  using assms(2,3)
proof (induction cs arbitrary: ip s)
  case Nil
  then show ?case by simp
next
  case (Cons c cs)
  obtain pid s1 net s2 where steps: "run_container (node_env env h node ord) i c s = (Inr pid, s1)"
      "add_network (node_env env h node ord) (pod_workload i ns) (container_network (ct_name c) v) pid default_interface
        (ct_ports c) s1 = (Inr net, s2)"
      "create_containers_from (node_env env h node ord) i ns v (if ip = None then Some (wn_ip_address net) else ip) cs s2 = (Inr ip', s')"
    using Cons.prems(2) by (auto simp: sbind_eq_Inr)
  note k1 = keeps_netD[OF keeps_net_containers(1) steps(1)]
  obtain r where r: "connected_as h (c_state (daemon s2)) i ns v c r" "wn_ip_address net = wr_ip_address r" "1 \<le> v" "v \<le> 255"
      "\<And>p. p \<noteq> container_path h i ns c \<Longrightarrow> c_state (daemon s2) p = c_state (daemon s1) p" "ag_vlans s2 = ag_vlans s1"
    using add_network_connects[OF d steps(2)] by blast
  note ih = Cons.IH[OF _ steps(3)]
  have fresh: "container_path h i ns c \<notin> container_path h i ns ` set cs" and dis: "distinct (map (container_path h i ns) cs)"
    using Cons.prems(1) by auto
  have here: "connected_as h (c_state (daemon s')) i ns v c r" using ih[OF dis] fresh r(1) by (simp add: connected_as_def)
  show ?case
  proof (intro conjI)
    show "\<forall>c' \<in> set (c # cs). \<exists>r. connected_as h (c_state (daemon s')) i ns v c' r" using here ih[OF dis] by auto
    show "c # cs \<noteq> [] \<longrightarrow> 1 \<le> v \<and> v \<le> 255" using r(3,4) by simp
    show "\<forall>p. p \<notin> container_path h i ns ` set (c # cs) \<longrightarrow> c_state (daemon s') p = c_state (daemon s) p"
      using ih[OF dis] r(5) k1 by simp
    show "ag_vlans s' = ag_vlans s" using ih[OF dis] r(6) k1 by simp
    show "if ip \<noteq> None \<or> c # cs = [] then ip' = ip
      else \<exists>r. connected_as h (c_state (daemon s')) i ns v (hd (c # cs)) r \<and> ip' = Some (wr_ip_address r)"
      using ih[OF dis] here r(2) by (auto split: if_splits)
  qed
qed

lemma allocate_for_gives:
  "allocate_for env i s = (Inr v, s') \<Longrightarrow> vlan_of s' i = Some v"
  by (auto simp: allocate_for_def vlan_of_def save_vlans_def sbind_def on_world_def Let_def
      split: option.splits prod.splits sum.splits)

lemma applied_pod:
  assumes d: "sound_daemon h node ord" and v: "validate_apply (Some pod) = Inr (i, ns, cs, limits)"
    and dis: "distinct (map (container_path h i ns) cs)"
    and run: "apply_pod (node_env env h node ord) caller (Some pod) s = (Inr (i', pod_ip), s')"
  shows "\<exists>v. vlan_of s' i = Some v \<and> (\<forall>c \<in> set cs. \<exists>r. connected_as h (c_state (daemon s')) i ns v c r) \<and>
     (if cs = [] then pod_ip = None
      else \<exists>r. connected_as h (c_state (daemon s')) i ns v (hd cs) r \<and> pod_ip = Some (wr_ip_address r))"
proof -
  let ?env = "node_env env h node ord"
  obtain v s1 s2 where steps: "allocate_for ?env i s = (Inr v, s1)" "remove_pod_containers ?env i default_grace True s1 = (Inr (), s2)"
      "start_or_rollback ?env i ns cs limits v s2 = (Inr (i', pod_ip), s')"
    using run v by (auto simp: apply_pod_def sbind_eq_Inr slift_def smap_err_eq_Inr)
  note k2 = keeps_netD[OF keeps_net_remove_pod steps(2)]
  have "start_pod ?env i ns cs limits v s2 = (Inr pod_ip, s')"
    using steps(3) by (auto simp: start_or_rollback_def split: sum.splits prod.splits)
  then obtain s3 s4 where more: "logged (cgroup_remove_pod ?env i) s2 = (Inr () :: status + unit, s3)" "cgroup_create_pod ?env i limits s3 = (Inr (), s4)"
      "create_containers_from ?env i ns v None cs s4 = (Inr pod_ip, s')"
    by (auto simp: start_pod_def create_containers_def sbind_eq_Inr smap_err_eq_Inr)
  note k4 = keeps_netD[OF keeps_net_logged[OF keeps_net_cgroups(2)] more(1)] keeps_netD[OF keeps_net_cgroups(1) more(2)]
  note con = create_connects[OF d dis more(3)]
  have "vlan_of s' i = Some v" using allocate_for_gives[OF steps(1)] con k2 k4 by (simp add: vlan_of_def)
  with con show ?thesis by (intro exI[of _ v]) (simp split: if_splits)
qed

text \<open>
  C13. A pod that runs is connected, and to nobody else's address. Take a node, numbered up to 255, whose
  agent and CNI daemon start with nothing, on a file system on which removals of record files and
  directory syncs never fail, no file that is there is reported missing and listings are complete, and
  let the agent go through any registrations and events, with any other failures, and containers doing
  anything to the kernel meanwhile. Whenever applying a pod then succeeds whose containers have record
  files of their own (no collision of the digests that name them), the agent
  holds a VLAN for the pod that no other pod holds; the CNI daemon holds, for each of its containers, a
  record on that VLAN with the container's port mappings, whose address lies in the VLAN's pool of this
  node and is marked as handed out, and which shares its address or a host port with no other record;
  and the address reported for the pod is that of its first container.
\<close>

theorem running_pod_is_connected:
  assumes "sound_daemon h node ord" and "c_state (daemon start) = Map.empty" and "ag_vlans start = []"
    and "s = ds_node (ds_run (node_env env h node ord) caller name ip attempts
           \<lparr>ds_node = start, ds_registered = [], ds_reports = []\<rparr>)"
    and "validate_apply (Some pod) = Inr (i, ns, cs, limits)" and "distinct (map (container_path h i ns) cs)"
    and "apply_pod (node_env env h node ord) caller (Some pod) s = (Inr (i', pod_ip), s')"
  shows "\<exists>v. vlan_of s' i = Some v \<and> (\<forall>j. vlan_of s' j = Some v \<longrightarrow> j = i) \<and>
     (\<forall>c \<in> set cs. \<exists>r. connected_as h (c_state (daemon s')) i ns v c r \<and> addressed node (taken (daemon s')) r \<and>
        (\<forall>nm r'. c_state (daemon s') nm = Some (Content r') \<longrightarrow> nm \<noteq> container_path h i ns c \<longrightarrow>
           wr_ip_address r' \<noteq> wr_ip_address r \<and> \<not> shares_port r' r)) \<and>
     (if cs = [] then pod_ip = None
      else \<exists>r. connected_as h (c_state (daemon s')) i ns v (hd cs) r \<and> pod_ip = Some (wr_ip_address r))"
proof -
  let ?st = "\<lparr>ds_node = start, ds_registered = [], ds_reports = []\<rparr>"
  have "daemon_ok node (ds_node ?st)" "vlans_ok (ag_vlans (ds_node ?st))"
    using assms(2,3) by (simp_all add: daemon_ok_def cni_inv_def vlans_ok_def)
  from ds_run_daemon[OF assms(1) this(1)] ds_run_vlans[OF this(2)] have s: "daemon_ok node s" "vlans_ok (ag_vlans s)"
    unfolding assms(4) by blast+
  have inv: "cni_inv node (c_state (daemon s')) (taken (daemon s'))"
    using op_keepsD[OF keeps_daemon_kubelet(1)[OF assms(1)] s(1) assms(7)] by (simp add: daemon_ok_def)
  have vl: "vlans_ok (ag_vlans s')" by (rule keeps_vlansD[OF keeps_vlans_kubelet(1) assms(7) s(2)])
  obtain v where v: "vlan_of s' i = Some v" "\<forall>c \<in> set cs. \<exists>r. connected_as h (c_state (daemon s')) i ns v c r"
      "if cs = [] then pod_ip = None
       else \<exists>r. connected_as h (c_state (daemon s')) i ns v (hd cs) r \<and> pod_ip = Some (wr_ip_address r)"
    using applied_pod[OF assms(1,5,6,7)] by blast
  have uniq: "\<forall>j. vlan_of s' j = Some v \<longrightarrow> j = i" using vlans_ok_unique[OF vl] v(1) by (auto simp: vlan_of_def)
  have each: "\<exists>r. connected_as h (c_state (daemon s')) i ns v c r \<and> addressed node (taken (daemon s')) r \<and>
      (\<forall>nm r'. c_state (daemon s') nm = Some (Content r') \<longrightarrow> nm \<noteq> container_path h i ns c \<longrightarrow>
         wr_ip_address r' \<noteq> wr_ip_address r \<and> \<not> shares_port r' r)" if "c \<in> set cs" for c
  proof -
    from bspec[OF v(2) that] obtain r where r: "connected_as h (c_state (daemon s')) i ns v c r" ..
    then have stored: "c_state (daemon s') (container_path h i ns c) = Some (Content r)" by (simp add: connected_as_def)
    have "\<forall>nm r'. c_state (daemon s') nm = Some (Content r') \<longrightarrow> nm \<noteq> container_path h i ns c \<longrightarrow>
        wr_ip_address r' \<noteq> wr_ip_address r \<and> \<not> shares_port r' r"
      by (intro allI impI conjI) (rule cni_invD(3)[OF inv _ stored] cni_invD(4)[OF inv _ stored], assumption+)+
    then show ?thesis by (intro exI[of _ r] conjI r cni_invD(2)[OF inv stored])
  qed
  show ?thesis by (intro exI[of _ v] conjI ballI) (rule v(1) uniq each v(3) | assumption)+
qed

end
