(* ===== verification/Node_Examples.thy ===== *)
theory Node_Examples imports Node_Network "HOL-Library.List_Lexorder" "HOL-Library.Char_ord" begin

text \<open>
  A node on a calm host: the small containerd of \<open>Agent_Examples\<close> beside a CNI daemon whose commands
  all succeed: a pod the daemon refuses to connect, then one of one container that it connects.
\<close>

section \<open>The node\<close>

definition over_kernel :: "('w \<Rightarrow> 'r \<times> 'w) \<Rightarrow> 'w \<times> 'k \<Rightarrow> 'r \<times> ('w \<times> 'k)" where
  "over_kernel f wk = (case f (fst wk) of (r, w) \<Rightarrow> (r, w, snd wk))"

definition mini_node :: "(mini \<times> unit) agent_env" where
  "mini_node = (let e = mini_env False in \<lparr>ae_arch = ae_arch e, ae_digest = ae_digest e,
     ae_transfer = (\<lambda>a b. over_kernel (ae_transfer e a b)), ae_image_target = (\<lambda>a. over_kernel (ae_image_target e a)),
     ae_read_content = (\<lambda>a. over_kernel (ae_read_content e a)), ae_prepare = (\<lambda>a b. over_kernel (ae_prepare e a b)),
     ae_create = (\<lambda>a. over_kernel (ae_create e a)), ae_task_create = (\<lambda>a b. over_kernel (ae_task_create e a b)),
     ae_task_start = (\<lambda>a. over_kernel (ae_task_start e a)), ae_list = (\<lambda>a. over_kernel (ae_list e a)),
     ae_kill = (\<lambda>a b. over_kernel (ae_kill e a b)), ae_wait = (\<lambda>a b. over_kernel (ae_wait e a b)),
     ae_task_delete = (\<lambda>a. over_kernel (ae_task_delete e a)), ae_delete = (\<lambda>a. over_kernel (ae_delete e a)),
     ae_snapshot_remove = (\<lambda>a. over_kernel (ae_snapshot_remove e a)), ae_add_network = (\<lambda>a. over_kernel (ae_add_network e a)),
     ae_delete_network = (\<lambda>a b. over_kernel (ae_delete_network e a b)), ae_exists = (\<lambda>p wk. ae_exists e p (fst wk)),
     ae_mkdir = (\<lambda>a. over_kernel (ae_mkdir e a)), ae_write = (\<lambda>a b. over_kernel (ae_write e a b)),
     ae_leaves = (\<lambda>p wk. ae_leaves e p (fst wk)), ae_rmdir = (\<lambda>a. over_kernel (ae_rmdir e a)),
     ae_read_vlans = (\<lambda>wk. ae_read_vlans e (fst wk)), ae_write_vlans = (\<lambda>m. over_kernel (ae_write_vlans e m))\<rparr>)"

definition listed :: "unit cni \<Rightarrow> string list" where
  "listed c = sorted_list_of_set (dom (c_state c))"

definition calm_node :: "(mini \<times> unit cni) agent_env" where
  "calm_node = node_env mini_node calm 1 listed"

definition small_host :: "vlan_state \<Rightarrow> mini \<Rightarrow> (mini \<times> unit cni) agent" where
  "small_host m w = \<lparr>ag_vlans = m, ag_world = (w, empty_cni)\<rparr>"

lemmas calm_calls = calm_node_def node_env_def mini_node_def mini_env_def beside_daemon_def over_kernel_def on_world_def Let_def

lemma calm_allocates: "allocate_for calm_node ''default.web'' (small_host [] []) = (Inr 2, small_host [(''default.web'', 2)] [])"
  by (simp add: allocate_for_def free_vlan_def first_vlan_def last_vlan_def upt_conv_Cons save_vlans_def calm_calls small_host_def)

lemma calm_nothing_to_remove: "remove_pod_containers calm_node ''default.web'' g True (small_host m []) = (Inr (), small_host m [])"
  by (simp add: remove_pod_containers_def pod_containers_def calm_calls small_host_def mini_list_def)

lemma calm_cgroup_gone: "logged (cgroup_remove_pod calm_node ''default.web'') (small_host m w) = (Inr (), small_host m w)"
  by (simp add: logged_def cgroup_remove_pod_def pod_dir_def calm_calls small_host_def missing_ok_def)

lemma calm_no_limits: "cgroup_create_pod calm_node ''default.web'' None (small_host m w) = (Inr (), small_host m w)"
  by (simp add: cgroup_create_pod_def pod_dir_def calm_calls small_host_def set_limits_def)

lemma calm_container_runs: "run_container calm_node ''default.web'' (web_container c) (small_host m []) =
   (Inr 42, small_host m [(''default.web-'' @ c, ''default.web'')])"
  by (simp add: run_container_def pull_image_def get_image_config_def read_json_def platform_manifest_def config_of_def
    calm_calls small_host_def web_container_def mini_image_def mini_create_def new_container_def container_id_def pod_label_def
    json_get_def as_array_def as_str_def strings_def)


text \<open>On a calm host every valid request without port mappings for a workload without a record is granted.\<close>

lemma calm_namespace: "open_netns calm path s = (Inr \<lparr>nf_fd = 7, nf_id = (4, 99)\<rparr>, tick s)"
  if "path \<noteq> ''/proc/self/ns/net''"
  by (simp add: open_netns_def sbind_def calm_def fs_run)

lemma calm_connects:
  assumes v: "validate_add_request rq = Inr (w, n, pid, i)" and rq: "an_port_mappings rq = []" "an_netns_path rq \<noteq> ''/proc/self/ns/net''"
    and s: "c_state s (request_path calm w n) = None" "usable_pool s (pool_dir (nw_vlan_id n))"
    and p: "pool 1 (nw_vlan_id n) = Inr p" "take_free p (taken s (pool_dir (nw_vlan_id n))) = Inr (a, A)"
  shows "\<exists>net s'. add_workload_network calm 1 ord rq s = (Inr net, s')"
proof -
  let ?ns = "\<lparr>nf_fd = 7, nf_id = (4, 99)\<rparr>" and ?h = "ok_host (\<lambda>_ _. None)"
  have F: "only_removals_fail (\<lambda>_ _. None)" by (simp add: only_removals_fail_def)
  have ld: "load ?h (wl_workload_name w) (wl_instance_name w) (nw_network_name n) (tick s) = (Inr None, tick (tick s))"
    using s(1) by (simp add: load_def fs_ok[OF F] request_path_def calm_def)
  have dir: "pl_dir p = pool_dir (nw_vlan_id n)" using p(1) by (simp add: pool_eq)
  obtain t where al: "allocate ?h p (tick (tick s)) = (Inr a, t)"
    using with_pool_ok[OF F, of "tick (tick s)" p "take_free p" a A] s(2) p(2) dir
    by (auto simp: allocate_def usable_pool_def)
  have upd: "sbind (\<lambda>s. (Inr (), g s)) k s = k () (g s)" for g k and s :: "unit cni" by (simp add: sbind_def)
  have sv: "\<exists>u. save ?h r t = (Inr (), u)" for r t
    by (simp add: save_def sbind_fs_ok[OF F] fs_ok[OF F] upd)
  have maps: "add_mappings ?h ip [] s = (Inr (), s)" for ip s by (simp add: add_mappings_def validate_mappings_def)
  have "\<exists>net u. connect_workload ?h ?ns pid p a (new_record ?h w n i a gw []) m t = (Inr net, u)" for gw m
    using sv[of "new_record ?h w n i a gw []" t] by (auto simp: connect_workload_def on_error_def sbind_def maps new_record_def)
  then obtain net u where "connect_workload ?h ?ns pid p a (new_record ?h w n i a (gateway (nw_vlan_id n mod 256) 1) []) 1450 t = (Inr net, u)"
    by blast
  then have "attach_workload ?h 1 ?ns w n pid i [] (tick (tick s)) = (Inr net, u)"
    by (simp only: attach_workload_def sbind_def slift_def ok_node ok_vlan ok_mtu p(1) al prod.case sum.case)
  then show ?thesis
    using v rq(1) calm_namespace[OF rq(2)] ld
    by (auto simp: calm_def add_workload_network_def sbind_def validate_mappings_def)
qed

lemma show_nat_42: "show_nat 42 = ''42''"
  by code_simp

lemma front_valid: "validate_add_request (cni_request (pod_workload ''default.web'' ''default'') (container_network ''front'' 2) 42
   default_interface []) = Inr (pod_workload ''default.web'' ''default'', container_network ''front'' 2, 42, ''eth0'')"
proof -
  have pid: "netns_pid ''/proc/42/ns/net'' = Some 42"
    by (simp add: netns_pid_def starts_with_def parse_unsigned_def digit_val_def)
  have nm: "validate_name ''default.web'' = Inr ()" "validate_name ''default'' = Inr ()" "validate_name ''front'' = Inr ()"
    by (simp_all add: validate_name_def is_alnum_ascii_def is_lower_def is_upper_def is_digit_char_def digit_val_def)
  show ?thesis
    using nm pid by (simp add: validate_add_request_def validate_refs_def cni_request_def pod_workload_def container_network_def show_nat_42
      default_interface_def is_alnum_ascii_def is_lower_def is_upper_def is_digit_char_def digit_val_def)
qed

lemma calm_network: "\<exists>net c. add_network calm_node (pod_workload ''default.web'' ''default'') (container_network ''front'' 2) 42
   default_interface [] (small_host m w) = (Inr net, \<lparr>ag_vlans = m, ag_world = (w, c)\<rparr>)"
proof -
  let ?rq = "cni_request (pod_workload ''default.web'' ''default'') (container_network ''front'' 2) 42 default_interface []"
  obtain p where p: "pool 1 2 = Inr p" by (simp add: pool_eq)
  have "\<not> {pl_first p..pl_last p} \<subseteq> {}" using p by (auto simp: pool_eq ipv4_new_def)
  then obtain a A where a: "take_free p {} = Inr (a, A)"
    using take_free_full[of p "{}"] by (cases "take_free p {}") auto
  have path: "an_netns_path ?rq \<noteq> ''/proc/self/ns/net''" by (simp add: cni_request_def show_nat_42)
  have "\<exists>net c. add_workload_network calm 1 (listed empty_cni) ?rq empty_cni = (Inr net, c)"
    by (rule calm_connects[OF front_valid _ path, of _ p a A])
       (use a p in \<open>simp_all add: cni_request_def container_network_def empty_cni_def usable_pool_def taken_def\<close>)
  then show ?thesis
    by (auto simp: add_network_def calm_calls in_daemon_def rpc_add_workload_network_def smap_err_def sbind_def small_host_def)
qed

definition front_pod :: pod_with_spec where "front_pod = pod_named ''web'' [''front'']"

lemma calm_pod_applies: "\<exists>ip s'. apply_pod calm_node Plaintext (Some front_pod) (small_host [] []) = (Inr (''default.web'', ip), s')"
proof -
  have v: "validate_apply (Some front_pod) = Inr (''default.web'', ''default'', [web_container ''front''], None)"
    unfolding front_pod_def by code_simp
  obtain net c where net: "add_network calm_node (pod_workload ''default.web'' ''default'') (container_network ''front'' 2) 42
     default_interface [] (small_host [(''default.web'', 2)] [(''default.web-front'', ''default.web'')]) =
       (Inr net, \<lparr>ag_vlans = [(''default.web'', 2)], ag_world = ([(''default.web-front'', ''default.web'')], c)\<rparr>)" using calm_network by blast
  have ct: "ct_name (web_container ''front'') = ''front''" "ct_ports (web_container ''front'') = []" by (simp_all add: web_container_def)
  show ?thesis
    by (simp add: apply_pod_def sbind_def v calm_allocates calm_nothing_to_remove calm_cgroup_gone calm_no_limits calm_container_runs net ct smap_err_def start_or_rollback_def start_pod_def create_containers_def)
qed

text \<open>
  A history: an attempt that cannot read the node's capacity, then one whose stream carries a RUN of a pod
  with a container name the daemon refuses, so that its VLAN is given back and its container removed, a
  STOP of a pod that does not run, and SYNCED.
\<close>

definition odd_pod :: pod_with_spec where "odd_pod = pod_named ''web'' [''odd name'']"

definition odd_history :: "((string + resources) \<times> (status + unit) \<times> (status + (status + ds_event) list)) list" where
  "odd_history = [(Inl ''no meminfo'', Inr (), Inr []),
     (Inr \<lparr>res_cpu = 4000, res_memory = 8000\<rparr>, Inr (), Inr [
        Inr \<lparr>dse_action = 0, dse_pod = Some odd_pod\<rparr>, Inr \<lparr>dse_action = 1, dse_pod = Some (pod_named ''db'' [])\<rparr>,
        Inr \<lparr>dse_action = 2, dse_pod = None\<rparr>])]"

lemma odd_name: "validate_name ''odd name'' = Inl (IoError KInvalidInput ''invalid workload or network name'')"
  by (simp add: validate_name_def is_alnum_ascii_def is_lower_def is_upper_def is_digit_char_def digit_val_def)

lemma odd_refs:
  "validate_refs (Some (pod_workload ''default.web'' ''default'')) (Some (container_network ''odd name'' v)) =
     Inl (IoError KInvalidInput ''invalid workload or network name'')"
proof -
  have "validate_name ''default.web'' = Inr ()" "validate_name ''default'' = Inr ()"
    by (simp_all add: validate_name_def is_alnum_ascii_def is_lower_def is_upper_def is_digit_char_def digit_val_def)
  then show ?thesis by (simp add: validate_refs_def odd_name pod_workload_def container_network_def)
qed

lemma odd_network:
  "\<exists>e. add_network calm_node (pod_workload ''default.web'' ''default'') (container_network ''odd name'' 2) 42
     default_interface [] (small_host m w) = (Inl e, small_host m w)"
  "logged (delete_network calm_node (pod_workload ''default.web'' ''default'') (container_network ''odd name'' 2)) (small_host m w) =
     (Inr (), small_host m w)"
  by (simp_all add: add_network_def delete_network_def calm_calls in_daemon_def rpc_add_workload_network_def logged_def
      rpc_delete_workload_network_def smap_err_def sbind_def small_host_def add_workload_network_def delete_workload_network_def
      validate_add_request_def odd_refs cni_request_def)

lemma calm_removes: "remove_pod_containers calm_node ''default.web'' g True
   (small_host m [(''default.web-odd name'', ''default.web'')]) = (Inr (), small_host m [])"
  by (simp add: remove_pod_containers_def pod_containers_def calm_calls small_host_def mini_list_def sbind_def
      remove_container_def ignore_missing_def stop_task_def wait_task_def mini_delete_def)

lemma odd_pod_refused: "\<exists>e. apply_pod calm_node Plaintext (Some odd_pod) (small_host [] []) = (Inl e, small_host [] [])"
proof -
  have v: "validate_apply (Some odd_pod) = Inr (''default.web'', ''default'', [web_container ''odd name''], None)"
    unfolding odd_pod_def by code_simp
  have ct: "ct_name (web_container ''odd name'') = ''odd name''" "ct_ports (web_container ''odd name'') = []"
    by (simp_all add: web_container_def)
  obtain e where e: "add_network calm_node (pod_workload ''default.web'' ''default'') (container_network ''odd name'' 2) 42
     default_interface [] (small_host [(''default.web'', 2)] [(''default.web-odd name'', ''default.web'')]) =
       (Inl e, small_host [(''default.web'', 2)] [(''default.web-odd name'', ''default.web'')])" using odd_network(1) by blast
  have vlan: "logged (release_vlan calm_node ''default.web'') (small_host [(''default.web'', 2)] []) = (Inr (), small_host [] [])"
    by (simp add: logged_def release_vlan_def save_vlans_def calm_calls small_host_def)
  have gone: "logged (remove_pod_containers calm_node ''default.web'' g True)
      (small_host m [(''default.web-odd name'', ''default.web'')]) = (Inr (), small_host m [])" for g m
    by (simp add: logged_def calm_removes)
  show ?thesis
    by (simp add: apply_pod_def sbind_def v calm_allocates calm_nothing_to_remove calm_cgroup_gone calm_no_limits
        calm_container_runs e ct smap_err_def start_or_rollback_def start_pod_def create_containers_def rollback_def
        odd_network(2) gone vlan)
qed

definition after_odd :: "(mini \<times> unit cni) agent" where
  "after_odd = ds_node (ds_run calm_node Plaintext ''n1'' [] odd_history
     \<lparr>ds_node = small_host [] [], ds_registered = [], ds_reports = []\<rparr>)"

lemma odd_history_leaves_nothing: "after_odd = small_host [] []"
proof -
  obtain e where e: "apply_pod calm_node Plaintext (Some odd_pod) (small_host [] []) = (Inl e, small_host [] [])"
    using odd_pod_refused by blast
  have stop: "snd (delete_pod calm_node Plaintext ''default.db'' None False (small_host [] [])) = small_host [] []"
    by (simp add: delete_pod_def sbind_def vlan_of_def swith_def pod_containers_def remove_pod_containers_def calm_calls
        small_host_def mini_list_def own_container_names_def map_filter_def logged_def cgroup_remove_pod_def pod_dir_def missing_ok_def
        release_vlan_def)
  have db: "pw_spec (pod_named ''db'' []) = Some \<lparr>ps_namespace = [], ps_containers = []\<rparr>"
    "map_option p_name (pw_pod (pod_named ''db'' [])) = Some ''db''" by (simp_all add: pod_named_def)
  have "resolve_pod_id [] ''db'' = ''default.db''" by code_simp
  with e stop db show ?thesis
    by (auto simp: after_odd_def odd_history_def register_and_watch_def handle_event_def ds_action_of_def ds_action_of_i32_def
        run_pod_event_def stop_pod_event_def on_node_def report_pod_status_def Let_def case_prod_unfold)
qed

lemma calm_sound: "sound_daemon calm 1 listed"
  using calm_durable by (simp add: sound_daemon_def listed_def)

theorem running_pod_is_connected_witness:
  "\<exists>pod_ip s' v r. apply_pod calm_node Plaintext (Some front_pod) after_odd = (Inr (''default.web'', pod_ip), s') \<and>
     vlan_of s' ''default.web'' = Some v \<and>
     connected_as calm (c_state (daemon s')) ''default.web'' ''default'' v (web_container ''front'') r \<and>
     addressed 1 (taken (daemon s')) r \<and> pod_ip = Some (wr_ip_address r)"
proof -
  have v: "validate_apply (Some front_pod) = Inr (''default.web'', ''default'', [web_container ''front''], None)"
    unfolding front_pod_def by code_simp
  obtain pod_ip s' where run: "apply_pod calm_node Plaintext (Some front_pod) after_odd = (Inr (''default.web'', pod_ip), s')"
    using calm_pod_applies odd_history_leaves_nothing by auto
  have s: "c_state (daemon (small_host [] [])) = Map.empty" "ag_vlans (small_host [] []) = []"
    by (simp_all add: small_host_def empty_cni_def)
  have idle: "after_odd = ds_node (ds_run (node_env mini_node calm 1 listed) Plaintext ''n1'' [] odd_history
      \<lparr>ds_node = small_host [] [], ds_registered = [], ds_reports = []\<rparr>)"
    unfolding after_odd_def calm_node_def ..
  have "\<exists>v. vlan_of s' ''default.web'' = Some v \<and> (\<forall>j. vlan_of s' j = Some v \<longrightarrow> j = ''default.web'') \<and>
     (\<forall>c \<in> set [web_container ''front'']. \<exists>r. connected_as calm (c_state (daemon s')) ''default.web'' ''default'' v c r \<and>
        addressed 1 (taken (daemon s')) r \<and>
        (\<forall>nm r'. c_state (daemon s') nm = Some (Content r') \<longrightarrow> nm \<noteq> container_path calm ''default.web'' ''default'' c \<longrightarrow>
           wr_ip_address r' \<noteq> wr_ip_address r \<and> \<not> shares_port r' r)) \<and>
     (if [web_container ''front''] = [] then pod_ip = None
      else \<exists>r. connected_as calm (c_state (daemon s')) ''default.web'' ''default'' v (hd [web_container ''front'']) r \<and>
        pod_ip = Some (wr_ip_address r))"
    by (rule running_pod_is_connected[OF calm_sound s idle v _ run[unfolded calm_node_def]]) simp
  then obtain v where "vlan_of s' ''default.web'' = Some v"
      "\<exists>r. connected_as calm (c_state (daemon s')) ''default.web'' ''default'' v (web_container ''front'') r \<and>
        addressed 1 (taken (daemon s')) r"
      "\<exists>r. connected_as calm (c_state (daemon s')) ''default.web'' ''default'' v (web_container ''front'') r \<and>
        pod_ip = Some (wr_ip_address r)"
    by auto
  then show ?thesis using run by (auto simp: connected_as_def)
qed

end
