(* ===== verification/Dev_Clients.thy ===== *)
theory Dev_Clients imports Barectl_Commands Api_Service Basic_Scheduler begin

text \<open>
  The clients kept for driving a daemon by hand: \<open>api/examples/api_cli.rs\<close>,
  \<open>agent/examples/kubelet_cli.rs\<close> and \<open>cni/src/bin/cni-integration-client.rs\<close>. Each \<open>main\<close>
  reads its arguments, connects and makes one call; the generated gRPC stub is a record of functions
  over a world \<open>'w\<close>, and \<open>served_stub\<close> is the stub of a client connected to the modelled server.
\<close>

section \<open>Arguments\<close>

text \<open>How a client ends: \<open>exit(2)\<close> after lines on standard error, or an \<open>Err\<close> out of \<open>main\<close>.\<close>

datatype dev_error =
  DevUsage "string list" | DevConnect string | DevStatus status | DevNotANumber string | DevText string

record 'w dev =
  dv_out :: "string list"
  dv_world :: 'w

type_synonym ('w, 'a) dev_op = "('w dev, dev_error, 'a) op"

definition dev_call :: "('w \<Rightarrow> ('f + 'a) \<times> 'w) \<Rightarrow> ('f \<Rightarrow> dev_error) \<Rightarrow> ('w, 'a) dev_op" where
  "dev_call f wrap c = (case f (dv_world c) of
     (Inl e, w) \<Rightarrow> (Inl (wrap e), c\<lparr>dv_world := w\<rparr>) | (Inr x, w) \<Rightarrow> (Inr x, c\<lparr>dv_world := w\<rparr>))"

definition dev_print :: "string list \<Rightarrow> ('w, unit) dev_op" where
  "dev_print ls c = (Inr (), c\<lparr>dv_out := dv_out c @ ls\<rparr>)"

text \<open>\<open>str::parse::<i32>\<close>: one optional sign, at least one digit, in range.\<close>

definition parse_i32 :: "string \<Rightarrow> int option" where
  "parse_i32 s =
     (case s of
        [] \<Rightarrow> None
      | c # cs \<Rightarrow>
          if c = CHR ''-''
          then (if cs = [] then None else case digits_val 0 cs of
                  None \<Rightarrow> None | Some n \<Rightarrow> if n \<le> 2147483648 then Some (- int n) else None)
          else map_option int (parse_unsigned 2147483647 s))"

text \<open>What follows the first occurrence of a flag: absent, last, or a value.\<close>

fun after_flag :: "string \<Rightarrow> string list \<Rightarrow> string option option" where
  "after_flag flag [] = None"
| "after_flag flag (a # rest) =
     (if a = flag then Some (case rest of [] \<Rightarrow> None | v # _ \<Rightarrow> Some v) else after_flag flag rest)"

definition flag_value :: "string list \<Rightarrow> string \<Rightarrow> string option" where
  "flag_value args flag = (case after_flag flag args of None \<Rightarrow> None | Some v \<Rightarrow> v)"

definition find_numeric_flag :: "string list \<Rightarrow> string \<Rightarrow> string + int option" where
  "find_numeric_flag args flag =
     (case after_flag flag args of
        None \<Rightarrow> Inr None
      | Some None \<Rightarrow> Inl (flag @ '' requires a value'')
      | Some (Some v) \<Rightarrow>
          (case parse_i32 v of
             Some i \<Rightarrow> Inr (Some i)
           | None \<Rightarrow> Inl (flag @ '': '' @ single_quoted v @ '' is not a valid integer'')))"

definition namespace_flag :: "string list \<Rightarrow> string" where
  "namespace_flag args = (case flag_value args ''--namespace'' of None \<Rightarrow> ''default'' | Some n \<Rightarrow> n)"

text \<open>The containers of a pod: one per image between the name and the first flag, named by its
  position.\<close>

definition is_flag :: "string \<Rightarrow> bool" where
  "is_flag a \<longleftrightarrow> starts_with ''--'' a"

definition containers_of_images :: "string list \<Rightarrow> container list" where
  "containers_of_images args =
     (let images = takeWhile (\<lambda>a. \<not> is_flag a) (drop 2 args)
      in map (\<lambda>(i, image). \<lparr>ct_name = show_nat i, ct_image = image, ct_ports = [], ct_env = []\<rparr>)
           (zip [0..<length images] images))"

section \<open>The API client\<close>

record 'w api_stub =
  as_connect :: "string \<Rightarrow> 'w \<Rightarrow> (string + unit) \<times> 'w"
  as_list_nodes :: "('w, node list) rpc_call_to"
  as_get_node :: "string \<Rightarrow> ('w, node option) rpc_call_to"
  as_update_node_status :: "node option \<Rightarrow> ('w, unit) rpc_call_to"
  as_create_pod :: "pod_with_spec option \<Rightarrow> ('w, pod_detail option) rpc_call_to"
  as_delete_pod :: "string \<Rightarrow> string \<Rightarrow> ('w, string) rpc_call_to"
  as_assign_pod :: "assign_pod_request \<Rightarrow> ('w, unit) rpc_call_to"
  as_update_pod_status :: "update_pod_status_request \<Rightarrow> ('w, unit) rpc_call_to"
  as_list_pods :: "('w, pod_detail list) rpc_call_to"
  as_get_pod :: "string \<Rightarrow> string \<Rightarrow> ('w, pod_detail option) rpc_call_to"
  as_debug :: "pod_detail \<Rightarrow> string list"

definition api_usage :: "string list" where
  "api_usage = [
     ''usage: api_cli list-nodes'',
     ''       api_cli get-node <name>'',
     ''       api_cli update-node-status <name> <READY|CORDON|DRAIN|NOT_READY> <cpu_cap> <mem_cap>'',
     ''       api_cli create-pod <name> <image> [image...] [--namespace <ns>]'',
     ''       api_cli delete-pod <name> [--namespace <ns>]'',
     ''       api_cli assign-pod <name> <namespace> --node <node> | --unschedulable <reason>'',
     ''       api_cli update-pod-status <name> <namespace> <PENDING|RUNNING|SUCCEEDED|FAILED|UNKNOWN>'',
     ''           [--pod-ip <ip>] [--message <msg>] [--cpu <mcpu>] [--memory <mb>]'',
     ''           [--container <name>:<ACTIVE|CRASHED|WAITING>]'',
     ''       api_cli list-pods'',
     ''       api_cli get-pod <name> [--namespace <ns>]'']"

definition api_commands :: "string list" where
  "api_commands = [''list-nodes'', ''get-node'', ''get-pod'', ''update-node-status'', ''list-pods'', ''create-pod'',
     ''delete-pod'', ''update-pod-status'', ''assign-pod'']"

definition enough_args :: "string \<Rightarrow> nat \<Rightarrow> bool" where
  "enough_args sub n =
     (if sub \<in> set [''get-node'', ''get-pod'', ''delete-pod''] then 2 \<le> n
      else if sub = ''create-pod'' then 3 \<le> n
      else if sub = ''update-pod-status'' then 4 \<le> n
      else if sub \<in> set [''assign-pod'', ''update-node-status''] then 5 \<le> n
      else True)"

text \<open>The checks before the connection.\<close>

definition check_api_args :: "string list \<Rightarrow> dev_error + unit" where
  "check_api_args args =
     (case args of
        [] \<Rightarrow> Inl (DevUsage api_usage)
      | sub # rest \<Rightarrow>
          if sub \<notin> set api_commands \<or> \<not> enough_args sub (length args) then Inl (DevUsage api_usage)
          else if sub \<in> set [''create-pod'', ''delete-pod'', ''get-pod''] \<and> is_flag (args ! 1)
          then Inl (DevUsage [''error: pod name must not be a flag''])
          else Inr ())"

definition cpu_of :: "resources option \<Rightarrow> string" where
  "cpu_of r = show_int (case r of None \<Rightarrow> 0 | Some x \<Rightarrow> res_cpu x)"

definition memory_of :: "resources option \<Rightarrow> string" where
  "memory_of r = show_int (case r of None \<Rightarrow> 0 | Some x \<Rightarrow> res_memory x)"

definition node_line :: "node \<Rightarrow> string" where
  "node_line n = pad_right 20 (nd_name n) @ '' status='' @ pad_right 10 (node_status_debug (node_status_of n)) @
     '' cpu='' @ cpu_of (nd_allocatable n) @ ''/'' @ cpu_of (nd_capacity n) @
     ''m  mem='' @ memory_of (nd_allocatable n) @ ''/'' @ memory_of (nd_capacity n) @ ''MB''"

definition api_list_nodes :: "'w api_stub \<Rightarrow> ('w, unit) dev_op" where
  "api_list_nodes env =
     sbind (dev_call (as_list_nodes env) DevStatus) (\<lambda>nodes.
     dev_print ((if nodes = [] then [''(no nodes)''] else []) @ map node_line nodes))"

definition node_block :: "node \<Rightarrow> string list" where
  "node_block n = [''name='' @ nd_name n, ''status='' @ node_status_debug (node_status_of n),
     ''capacity:    cpu='' @ cpu_of (nd_capacity n) @ ''m  mem='' @ memory_of (nd_capacity n) @ ''MB'',
     ''allocatable: cpu='' @ cpu_of (nd_allocatable n) @ ''m  mem='' @ memory_of (nd_allocatable n) @ ''MB'']"

definition api_get_node :: "'w api_stub \<Rightarrow> string list \<Rightarrow> ('w, unit) dev_op" where
  "api_get_node env args =
     sbind (dev_call (as_get_node env (args ! 1)) DevStatus) (\<lambda>found.
     dev_print (case found of Some n \<Rightarrow> node_block n | None \<Rightarrow> [''(no node found)'']))"

definition node_status_named :: "string \<Rightarrow> node_status option" where
  "node_status_named t =
     (if t = ''READY'' then Some NodeReady else if t = ''CORDON'' then Some NodeCordon
      else if t = ''DRAIN'' then Some NodeDrain else if t = ''NOT_READY'' then Some NodeNotReady else None)"

definition api_update_node_status :: "'w api_stub \<Rightarrow> string list \<Rightarrow> ('w, unit) dev_op" where
  "api_update_node_status env args =
     sbind (slift (ok_or (node_status_named (args ! 2))
              (DevUsage [''unknown status: '' @ args ! 2 @ '' (expected READY|CORDON|DRAIN|NOT_READY)'']))) (\<lambda>status.
     sbind (slift (ok_or (parse_i32 (args ! 3)) (DevNotANumber (args ! 3)))) (\<lambda>cpu.
     sbind (slift (ok_or (parse_i32 (args ! 4)) (DevNotANumber (args ! 4)))) (\<lambda>mem.
     sbind (dev_call (as_update_node_status env (Some \<lparr>
              nd_name = args ! 1, nd_status = node_status_i32 status,
              nd_capacity = Some \<lparr>res_cpu = cpu, res_memory = mem\<rparr>,
              nd_allocatable = Some \<lparr>res_cpu = cpu, res_memory = mem\<rparr>, nd_ip = []\<rparr>)) DevStatus) (\<lambda>_.
     dev_print [''node updated'']))))"

definition api_create_request :: "string list \<Rightarrow> pod_with_spec" where
  "api_create_request args = \<lparr>
     pw_pod = Some (default_pod\<lparr>p_name := args ! 1\<rparr>),
     pw_spec = Some \<lparr>ps_namespace = namespace_flag args, ps_containers = containers_of_images args\<rparr>\<rparr>"

definition api_create_pod :: "'w api_stub \<Rightarrow> string list \<Rightarrow> ('w, unit) dev_op" where
  "api_create_pod env args =
     sbind (dev_call (as_create_pod env (Some (api_create_request args))) DevStatus) (\<lambda>created.
     dev_print (case created of Some p \<Rightarrow> as_debug env p | None \<Rightarrow> [''pod created'']))"

definition api_delete_pod :: "'w api_stub \<Rightarrow> string list \<Rightarrow> ('w, unit) dev_op" where
  "api_delete_pod env args =
     sbind (dev_call (as_delete_pod env (namespace_flag args) (args ! 1)) DevStatus) (\<lambda>deleted.
     dev_print [''deleted: '' @ deleted])"

definition outcome_flags :: "string list \<Rightarrow> dev_error + assign_outcome" where
  "outcome_flags args =
     (case (flag_value args ''--node'', flag_value args ''--unschedulable'') of
        (Some n, None) \<Rightarrow> Inr (OutNodeName n)
      | (None, Some r) \<Rightarrow> Inr (OutUnschedulable r)
      | (Some _, Some _) \<Rightarrow> Inl (DevUsage [''--node and --unschedulable are mutually exclusive''])
      | (None, None) \<Rightarrow> Inl (DevUsage [''one of --node or --unschedulable is required'']))"

definition api_assign_pod :: "'w api_stub \<Rightarrow> string list \<Rightarrow> ('w, unit) dev_op" where
  "api_assign_pod env args =
     sbind (slift (outcome_flags args)) (\<lambda>outcome.
     sbind (dev_call (as_assign_pod env
              \<lparr>ap_name = args ! 1, ap_namespace = args ! 2, ap_outcome = Some outcome\<rparr>) DevStatus) (\<lambda>_.
     dev_print [''pod assigned'']))"

definition pod_status_named :: "string \<Rightarrow> pod_status option" where
  "pod_status_named t =
     (if t = ''PENDING'' then Some PodPending else if t = ''RUNNING'' then Some PodRunning
      else if t = ''SUCCEEDED'' then Some PodSucceeded else if t = ''FAILED'' then Some PodFailed
      else if t = ''UNKNOWN'' then Some PodUnknown else None)"

text \<open>\<open>args.windows(2)\<close>: every argument that follows a \<open>--container\<close>.\<close>

fun container_flags :: "string list \<Rightarrow> string list" where
  "container_flags (a # b # rest) = (if a = ''--container'' then [b] else []) @ container_flags (b # rest)"
| "container_flags _ = []"

definition state_named :: "string \<Rightarrow> container_state option" where
  "state_named t = (if t = ''ACTIVE'' then Some StateActive else if t = ''CRASHED'' then Some StateCrashed
     else if t = ''WAITING'' then Some StateWaiting else None)"

fun container_statuses_of :: "string list \<Rightarrow> dev_error + container_status list" where
  "container_statuses_of [] = Inr []"
| "container_statuses_of (spec # rest) =
     (case split_once (CHR '':'') spec of
        None \<Rightarrow> Inl (DevText (''--container: '' @ single_quoted spec @ '' must be in name:STATE format''))
      | Some (cname, state) \<Rightarrow>
          (case state_named state of
             None \<Rightarrow> Inl (DevText (''--container: unknown state '' @ single_quoted state @
                               '' (expected ACTIVE|CRASHED|WAITING)''))
           | Some st \<Rightarrow> rbind (container_statuses_of rest) (\<lambda>cs.
               Inr (\<lparr>cs_name = cname, cs_state = container_state_i32 st\<rparr> # cs))))"

definition api_update_pod_status :: "'w api_stub \<Rightarrow> string list \<Rightarrow> ('w, unit) dev_op" where
  "api_update_pod_status env args =
     sbind (slift (ok_or (pod_status_named (args ! 3)) (DevUsage
              [''unknown status: '' @ args ! 3 @ '' (expected PENDING|RUNNING|SUCCEEDED|FAILED|UNKNOWN)'']))) (\<lambda>status.
     sbind (smap_err DevText (slift (find_numeric_flag args ''--cpu''))) (\<lambda>cpu.
     sbind (smap_err DevText (slift (find_numeric_flag args ''--memory''))) (\<lambda>memory.
     if (cpu = None) \<noteq> (memory = None)
     then sfail (DevUsage [''--cpu and --memory must be provided together''])
     else
       sbind (slift (container_statuses_of (container_flags args))) (\<lambda>statuses.
       sbind (dev_call (as_update_pod_status env \<lparr>
                ups_pod = Some \<lparr>
                  pw_pod = Some (default_pod\<lparr>p_name := args ! 1, p_status := pod_status_i32 status\<rparr>),
                  pw_spec = Some \<lparr>ps_namespace = args ! 2, ps_containers = []\<rparr>\<rparr>,
                ups_container_statuses = statuses,
                ups_pod_ip = flag_value args ''--pod-ip'', ups_message = flag_value args ''--message'',
                ups_resource_usage = map_option (\<lambda>c. \<lparr>res_cpu = c, res_memory = the memory\<rparr>) cpu\<rparr>)
              DevStatus) (\<lambda>_.
       dev_print [''pod status updated'']))))) "

definition pod_line :: "pod_detail \<Rightarrow> string" where
  "pod_line d =
     (let p = Option.bind (pd_core d) pw_pod
      in pad_right 20 (case p of None \<Rightarrow> ''(unknown)'' | Some x \<Rightarrow> p_name x) @ '' status='' @
         pad_right 10 (case p of None \<Rightarrow> ''?''
           | Some x \<Rightarrow> pod_status_debug (case pod_status_of_i32 (p_status x) of None \<Rightarrow> PodPending | Some st \<Rightarrow> st)) @
         '' node='' @ pd_node_name d)"

definition api_list_pods :: "'w api_stub \<Rightarrow> ('w, unit) dev_op" where
  "api_list_pods env =
     sbind (dev_call (as_list_pods env) DevStatus) (\<lambda>pods.
     dev_print ((if pods = [] then [''(no pods)''] else []) @ map pod_line pods))"

definition api_get_pod :: "'w api_stub \<Rightarrow> string list \<Rightarrow> ('w, unit) dev_op" where
  "api_get_pod env args =
     sbind (dev_call (as_get_pod env (namespace_flag args) (args ! 1)) DevStatus) (\<lambda>found.
     dev_print (case found of Some p \<Rightarrow> as_debug env p | None \<Rightarrow> [''(no pod found)'']))"

text \<open>\<open>main\<close>. The subcommand has been checked, so the last branch cannot be reached.\<close>

definition api_cli_main :: "'w api_stub \<Rightarrow> string \<Rightarrow> string list \<Rightarrow> ('w, unit) dev_op" where
  "api_cli_main env addr args =
     sbind (slift (check_api_args args)) (\<lambda>_.
     sbind (dev_call (as_connect env addr) DevConnect) (\<lambda>_.
     (let sub = hd args
      in if sub = ''list-nodes'' then api_list_nodes env
         else if sub = ''get-node'' then api_get_node env args
         else if sub = ''update-node-status'' then api_update_node_status env args
         else if sub = ''create-pod'' then api_create_pod env args
         else if sub = ''delete-pod'' then api_delete_pod env args
         else if sub = ''assign-pod'' then api_assign_pod env args
         else if sub = ''update-pod-status'' then api_update_pod_status env args
         else if sub = ''list-pods'' then api_list_pods env
         else api_get_pod env args)))"

section \<open>The Kubelet client\<close>

record 'w kubelet_stub =
  ks_connect :: "string \<Rightarrow> 'w \<Rightarrow> (string + unit) \<times> 'w"
  ks_apply_pod :: "pod_with_spec option \<Rightarrow> ('w, string) rpc_call_to"
  ks_delete_pod :: "string \<Rightarrow> nat option \<Rightarrow> bool \<Rightarrow> ('w, bool) rpc_call_to"

definition kubelet_usage :: "string list" where
  "kubelet_usage = [
     ''usage: kubelet_cli apply <pod> <image> [image...] [--cpu <mCPU>] [--memory <MB>]'',
     ''       kubelet_cli delete <pod-id> [--force]'']"

definition kubelet_apply_request :: "string list \<Rightarrow> int option \<Rightarrow> int option \<Rightarrow> pod_with_spec" where
  "kubelet_apply_request args cpu memory = \<lparr>
     pw_pod = Some (default_pod\<lparr>p_name := args ! 1, p_limits := Some \<lparr>
       res_cpu = (case cpu of None \<Rightarrow> 0 | Some c \<Rightarrow> c),
       res_memory = (case memory of None \<Rightarrow> 0 | Some m \<Rightarrow> m)\<rparr>\<rparr>),
     pw_spec = Some \<lparr>ps_namespace = [], ps_containers = containers_of_images args\<rparr>\<rparr>"

definition kubelet_apply :: "'w kubelet_stub \<Rightarrow> string list \<Rightarrow> ('w, unit) dev_op" where
  "kubelet_apply env args =
     (if containers_of_images args = [] then sfail (DevUsage [''apply needs at least one image''])
      else
        sbind (smap_err (\<lambda>e. DevUsage [e]) (slift (find_numeric_flag args ''--cpu''))) (\<lambda>cpu.
        sbind (smap_err (\<lambda>e. DevUsage [e]) (slift (find_numeric_flag args ''--memory''))) (\<lambda>memory.
        sbind (dev_call (ks_apply_pod env (Some (kubelet_apply_request args cpu memory))) DevStatus) (\<lambda>i.
        dev_print [''applied pod '' @ i]))))"

definition bool_text :: "bool \<Rightarrow> string" where
  "bool_text b = (if b then ''true'' else ''false'')"

definition kubelet_delete :: "'w kubelet_stub \<Rightarrow> string list \<Rightarrow> ('w, unit) dev_op" where
  "kubelet_delete env args =
     sbind (dev_call (ks_delete_pod env (args ! 1) (Some 5) (''--force'' \<in> set args)) DevStatus) (\<lambda>success.
     dev_print [''deleted: '' @ bool_text success])"

text \<open>\<open>main\<close>: this client connects before it looks at its arguments.\<close>

definition kubelet_cli_main :: "'w kubelet_stub \<Rightarrow> string \<Rightarrow> string list \<Rightarrow> ('w, unit) dev_op" where
  "kubelet_cli_main env addr args =
     sbind (dev_call (ks_connect env addr) DevConnect) (\<lambda>_.
     if args \<noteq> [] \<and> hd args = ''apply'' \<and> 3 \<le> length args then kubelet_apply env args
     else if args \<noteq> [] \<and> hd args = ''delete'' \<and> 2 \<le> length args then kubelet_delete env args
     else sfail (DevUsage kubelet_usage))"

section \<open>The CNI client\<close>

record 'w cni_stub =
  ck_connect :: "string \<Rightarrow> 'w \<Rightarrow> (string + unit) \<times> 'w"
  ck_add :: "add_network_request \<Rightarrow> ('w, unit) rpc_call_to"
  ck_get :: "workload_ref option \<Rightarrow> network_ref option \<Rightarrow> ('w, unit) rpc_call_to"
  ck_delete :: "workload_ref option \<Rightarrow> network_ref option \<Rightarrow> ('w, unit) rpc_call_to"

definition cni_default_socket :: string where
  "cni_default_socket = ''/run/barenetes/cni.sock''"

definition integration_refs :: "string \<Rightarrow> string \<Rightarrow> nat \<Rightarrow> workload_ref \<times> network_ref" where
  "integration_refs inst network vlan =
     (\<lparr>wl_workload_name = ''integration'', wl_instance_name = inst\<rparr>,
      \<lparr>nw_network_name = network, nw_vlan_id = vlan\<rparr>)"

text \<open>\<open>client()\<close>; \<open>socket\<close> is the value of BARENETES_CNI_SOCKET.\<close>

definition cni_client_connect :: "'w cni_stub \<Rightarrow> string option \<Rightarrow> ('w, unit) dev_op" where
  "cni_client_connect env socket =
     dev_call (ck_connect env (case socket of None \<Rightarrow> cni_default_socket | Some p \<Rightarrow> p)) DevConnect"

definition parse_port_mapping :: "string \<Rightarrow> dev_error + port" where
  "parse_port_mapping spec =
     rbind (ok_or (split_once (CHR '':'') spec)
       (DevText ''format attendu pour le port mapping: <port_externe>:<port_interne>'')) (\<lambda>(external, internal).
     rbind (ok_or (parse_u32 external) (DevNotANumber external)) (\<lambda>ext.
     rbind (ok_or (parse_u32 internal) (DevNotANumber internal)) (\<lambda>int.
     Inr \<lparr>port_internal = int, port_external = ext, port_protocol = protocol_i32 Tcp\<rparr>)))"

text \<open>\<open>args.next().ok_or(...)\<close> on the arguments that are left.\<close>

fun next_arg :: "string \<Rightarrow> string list \<Rightarrow> dev_error + string \<times> string list" where
  "next_arg missing [] = Inl (DevText missing)"
| "next_arg missing (a # rest) = Inr (a, rest)"

definition cni_client_add ::
  "'w cni_stub \<Rightarrow> workload_ref \<Rightarrow> network_ref \<Rightarrow> string list \<Rightarrow> ('w, unit) dev_op" where
  "cni_client_add env workload network args =
     sbind (slift (next_arg ''netns manquant pour ADD'' args)) (\<lambda>(netns, rest).
     sbind (slift (case rest of [] \<Rightarrow> Inr [] | spec # _ \<Rightarrow> rbind (parse_port_mapping spec) (\<lambda>p. Inr [p]))) (\<lambda>ports.
     dev_call (ck_add env \<lparr>an_workload = Some workload, an_network = Some network, an_netns_path = netns,
       an_interface_name = ''eth0'', an_port_mappings = ports\<rparr>) DevStatus))"

definition cni_client_main :: "'w cni_stub \<Rightarrow> string option \<Rightarrow> string list \<Rightarrow> ('w, unit) dev_op" where
  "cni_client_main env socket args =
     sbind (slift (next_arg ''action manquante'' args)) (\<lambda>(action, args).
     sbind (slift (next_arg ''instance manquante'' args)) (\<lambda>(inst, args).
     sbind (slift (next_arg ''network manquante'' args)) (\<lambda>(network, args).
     sbind (slift (next_arg ''VLAN manquant'' args)) (\<lambda>(vlan_text, args).
     sbind (slift (ok_or (parse_u32 vlan_text) (DevNotANumber vlan_text))) (\<lambda>vlan.
     (case integration_refs inst network vlan of (workload, network_ref) \<Rightarrow>
        sbind (cni_client_connect env socket) (\<lambda>_.
        if action = ''add'' then cni_client_add env workload network_ref args
        else if action = ''get'' then dev_call (ck_get env (Some workload) (Some network_ref)) DevStatus
        else if action = ''delete'' then dev_call (ck_delete env (Some workload) (Some network_ref)) DevStatus
        else sfail (DevText ''action attendue: add, get ou delete''))))))))"

section \<open>The API client and the server\<close>

text \<open>The stub of a client that has connected to the modelled server as \<open>peer\<close>; \<open>ord\<close> and \<open>nord\<close> are
  the iteration orders the server sees during the call.\<close>

definition reply_of :: "(rpc_reply \<Rightarrow> 'a option) \<Rightarrow> (('w, 'v) store, status, rpc_reply) op
    \<Rightarrow> ('w, 'v) store \<Rightarrow> (status + 'a) \<times> ('w, 'v) store" where
  "reply_of read call s = (case call s of
     (Inl e, s') \<Rightarrow> (Inl e, s')
   | (Inr r, s') \<Rightarrow> (case read r of None \<Rightarrow> (Inl (Status Internal ''unexpected reply''), s') | Some x \<Rightarrow> (Inr x, s')))"

definition served_stub ::
  "(pod_detail \<Rightarrow> string list) \<Rightarrow> pod_key list \<Rightarrow> string list \<Rightarrow> peer \<Rightarrow> ('w, 'v) store api_stub" where
  "served_stub dbg ord nord peer =
     (let ask = serve (\<lambda>_. 1) ord nord peer
      in \<lparr>as_connect = \<lambda>_ s. (Inr (), s),
          as_list_nodes = reply_of (\<lambda>r. case r of RepNodes ns \<Rightarrow> Some ns | _ \<Rightarrow> None) (ask RpcListNodes),
          as_get_node = \<lambda>nm. reply_of (\<lambda>r. case r of RepNode n \<Rightarrow> Some (Some n) | _ \<Rightarrow> None) (ask (RpcGetNode nm)),
          as_update_node_status = \<lambda>n. reply_of (\<lambda>r. case r of RepEmpty \<Rightarrow> Some () | _ \<Rightarrow> None) (ask (RpcUpdateNodeStatus n)),
          as_create_pod = \<lambda>p. reply_of (\<lambda>r. case r of RepPod d \<Rightarrow> Some (Some d) | _ \<Rightarrow> None) (ask (RpcCreatePod p)),
          as_delete_pod = \<lambda>ns nm. reply_of (\<lambda>r. case r of RepName x \<Rightarrow> Some x | _ \<Rightarrow> None) (ask (RpcDeletePod ns nm)),
          as_assign_pod = \<lambda>a. reply_of (\<lambda>r. case r of RepEmpty \<Rightarrow> Some () | _ \<Rightarrow> None) (ask (RpcAssignPod a)),
          as_update_pod_status = \<lambda>u. reply_of (\<lambda>r. case r of RepEmpty \<Rightarrow> Some () | _ \<Rightarrow> None) (ask (RpcUpdatePodStatus u)),
          as_list_pods = reply_of (\<lambda>r. case r of RepPods ps \<Rightarrow> Some ps | _ \<Rightarrow> None) (ask RpcListPods),
          as_get_pod = \<lambda>ns nm. reply_of (\<lambda>r. case r of RepPod d \<Rightarrow> Some (Some d) | _ \<Rightarrow> None) (ask (RpcGetPod ns nm)),
          as_debug = dbg\<rparr>)"

text \<open>A session by hand: a pod is created, assigned, reported running, listed and deleted, with three
  calls that are refused.\<close>

definition session :: "string list list \<Rightarrow> (dev_error + unit) list \<times> string list" where
  "session commands =
     (let env = served_stub (\<lambda>d. [pod_line d]) [(''demo'', ''web'')] [''n1''] Plaintext;
          run = (\<lambda>args (rs, c). case api_cli_main env ''http://127.0.0.1:50052'' args c of (r, c') \<Rightarrow> (rs @ [r], c'));
          (rs, c) = fold run commands ([], \<lparr>dv_out = [], dv_world = (store_new () :: (unit, unit) store)\<rparr>)
      in (rs, dv_out c))"

lemma api_cli_session:
  "session [
     [''create-pod'', ''web'', ''nginx'', ''redis'', ''--namespace'', ''demo''],
     [''assign-pod'', ''web'', ''demo'', ''--node'', ''n1''],
     [''update-pod-status'', ''web'', ''demo'', ''RUNNING'', ''--container'', ''0:ACTIVE''],
     [''list-pods''],
     [''list-nodes''],
     [''get-pod'', ''web''],
     [''assign-pod'', ''web'', ''demo'', ''--reason'', ''x''],
     [''delete-pod'', ''--all''],
     [''delete-pod'', ''web'', ''--namespace'', ''demo'']] =
   ([Inr (), Inr (), Inr (), Inr (), Inr (),
     Inl (DevStatus (Status NotFound ''pod default/web not found'')),
     Inl (DevUsage [''one of --node or --unschedulable is required'']),
     Inl (DevUsage [''error: pod name must not be a flag'']), Inr ()],
    [''web                  status=Pending    node='',
     ''pod assigned'',
     ''pod status updated'',
     ''web                  status=Running    node=n1'',
     ''(no nodes)'',
     ''deleted: web''])"
  by code_simp

text \<open>A pod created by this client has no limits, so no election ever places it.\<close>

lemma api_cli_pods_are_never_placed:
  assumes "pw_pod (api_create_request args) = Some p"
  shows "place ord p ports sched = Inl ''pod is missing a resources.limits field''"
  using assms by (auto simp: api_create_request_def default_pod_def place_def)

end
