(* ===== verification/Test_Support.thy ===== *)
theory Test_Support imports Api_Cli Api_Watch "HOL-Library.Monad_Syntax" begin

text \<open>
  What the repository's unit tests need: a test as a computation that either finishes or panics,
  and the fixtures of \<open>api/src/test_support.rs\<close> with the test-only methods of \<open>store.rs\<close>.
  The theories \<open>*_Tests\<close> translate the tests themselves, on the definitions of this
  development: each is evaluated by the kernel and passes, so the model shows the behaviour that
  the authors of the code wrote down.
\<close>

section \<open>A test\<close>

text \<open>A failed assertion and an \<open>unwrap\<close> of the wrong variant panic: the test is \<open>None\<close>.\<close>

type_synonym test = "unit option"

definition passes :: "test \<Rightarrow> bool" where
  "passes t \<longleftrightarrow> t = Some ()"

definition asserts :: "bool \<Rightarrow> test" where
  "asserts b = (if b then Some () else None)"

text \<open>\<open>unwrap\<close> and \<open>expect\<close>, \<open>unwrap_err\<close> and \<open>expect_err\<close>, of a call and of a pure result.\<close>

fun unwrap :: "('e + 'a) \<times> 's \<Rightarrow> ('a \<times> 's) option" where
  "unwrap (Inl e, s) = None"
| "unwrap (Inr x, s) = Some (x, s)"

fun unwrap_err :: "('e + 'a) \<times> 's \<Rightarrow> ('e \<times> 's) option" where
  "unwrap_err (Inl e, s) = Some (e, s)"
| "unwrap_err (Inr x, s) = None"

fun ok_value :: "'e + 'a \<Rightarrow> 'a option" where
  "ok_value (Inl e) = None"
| "ok_value (Inr x) = Some x"

fun err_value :: "'e + 'a \<Rightarrow> 'e option" where
  "err_value (Inl e) = Some e"
| "err_value (Inr x) = None"

text \<open>\<open>try_recv\<close> on a receiver: the value and the receiver after it, \<open>None\<close> for any \<open>Err\<close>.\<close>

definition try_recv :: "'e list \<Rightarrow> nat \<Rightarrow> ('e \<times> nat) option" where
  "try_recv sent pos = (case broadcast_recv sent pos of RecvItem e \<Rightarrow> Some (e, pos + 1) | _ \<Rightarrow> None)"

text \<open>The same on a receiver of a desired-state channel.\<close>

definition ds_try_recv :: "nat \<times> nat \<Rightarrow> ('w, 'v) store \<Rightarrow> (ds_event \<times> (nat \<times> nat)) option" where
  "ds_try_recv r s =
     (case try_recv (ds_received r s) 0 of
        None \<Rightarrow> None
      | Some (e, _) \<Rightarrow>
          Some (e, (fst r, snd r + 1 + length (takeWhile (\<lambda>x. fst x \<noteq> fst r) (drop (snd r) (sto_ds_events s))))))"

text \<open>The orders in which a hash map of the given keys can be iterated.\<close>

fun insertions :: "'a \<Rightarrow> 'a list \<Rightarrow> 'a list list" where
  "insertions x [] = [[x]]"
| "insertions x (y # ys) = (x # y # ys) # map ((#) y) (insertions x ys)"

fun iteration_orders :: "'a list \<Rightarrow> 'a list list" where
  "iteration_orders [] = [[]]"
| "iteration_orders (x # xs) = concat (map (insertions x) (iteration_orders xs))"

section \<open>Fixtures\<close>

type_synonym test_store = "(unit, unit) store"

text \<open>\<open>ApiService { store: Arc::new(Store::new()) }\<close>.\<close>

definition service :: test_store where
  "service = store_new ()"

definition fake_pod :: "string \<Rightarrow> string \<Rightarrow> pod_detail" where
  "fake_pod ns nm = \<lparr>
     pd_core = Some \<lparr>
       pw_pod = Some \<lparr>p_name = nm, p_status = pod_status_i32 PodPending, p_requests = None, p_limits = None\<rparr>,
       pw_spec = Some \<lparr>ps_namespace = ns, ps_containers = []\<rparr>\<rparr>,
     pd_container_statuses = [], pd_pod_ip = None, pd_message = None, pd_resource_usage = None,
     pd_node_name = [], pd_unschedulable_reason = None\<rparr>"

definition fake_node :: "string \<Rightarrow> node_status \<Rightarrow> node" where
  "fake_node nm st = \<lparr>nd_name = nm, nd_status = node_status_i32 st, nd_capacity = None,
     nd_allocatable = None, nd_ip = []\<rparr>"

definition fake_container :: "string \<Rightarrow> string \<Rightarrow> container" where
  "fake_container nm img = \<lparr>ct_name = nm, ct_image = img, ct_ports = [], ct_env = []\<rparr>"

section \<open>Test-only methods of the store\<close>

definition upsert_and_publish_node :: "node \<Rightarrow> (('w, 'v) store, store_error, unit) op" where
  "upsert_and_publish_node nd s =
     (case sto_client s of
        Some c \<Rightarrow>
          (let k = node_etcd_key (nd_name nd)
           in sbind (run_etcd (ec_get c k))
                (\<lambda>kvs. sbind (run_etcd (ec_put c k (enc_node c nd)))
                   (\<lambda>_ s. (Inr (), publish_node_event (if kvs = [] then EvAdded else EvModified) nd s))) s)
      | None \<Rightarrow>
          (Inr (), publish_node_event (if sto_nodes s (nd_name nd) = None then EvAdded else EvModified) nd
             (s\<lparr>sto_nodes := (sto_nodes s)(nd_name nd \<mapsto> nd)\<rparr>)))"

text \<open>\<open>desired_state_channel_count\<close>; \<open>names\<close> are the nodes the caller could have named.\<close>

definition desired_state_channel_count :: "string list \<Rightarrow> ('w, 'v) store \<Rightarrow> nat" where
  "desired_state_channel_count names s = length (filter (\<lambda>nn. sto_ds_channels s nn \<noteq> None) (remdups names))"

text \<open>Accessors the tests chain with \<open>as_ref().and_then(...)\<close>.\<close>

definition core_pod :: "pod_detail \<Rightarrow> pod option" where
  "core_pod d = Option.bind (pd_core d) pw_pod"

definition map_core_pod :: "(pod \<Rightarrow> pod) \<Rightarrow> pod_detail \<Rightarrow> pod_detail" where
  "map_core_pod f d = d\<lparr>pd_core := map_option (\<lambda>core. core\<lparr>pw_pod := map_option f (pw_pod core)\<rparr>) (pd_core d)\<rparr>"

lemma passes_iff: "passes t \<longleftrightarrow> t \<noteq> None"
  by (cases t) (simp_all add: passes_def)

end
