(* ===== verification/Store_Tests.thy ===== *)
theory Store_Tests imports Test_Support begin

text \<open>
  The tests of \<open>api/src/store.rs\<close>, in the file's order: each is run on the in-memory store of
  \<open>Store\<close>. A receiver is its position in the log of its channel; the number of live receivers of a
  desired-state channel, which the real channel counts, is the first argument of a subscription.
\<close>

section \<open>Pods\<close>

definition test_upsert_and_get_pod :: test where
  "test_upsert_and_get_pod = do {
     let p = fake_pod ''default'' ''my-pod'';
     (_, s) \<leftarrow> unwrap (upsert_pod p service);
     (got, s) \<leftarrow> unwrap (get_pod ''default'' ''my-pod'' s);
     asserts (got = Some p) }"

definition test_remove_pod_publishes_deleted :: test where
  "test_remove_pod_publishes_deleted = do {
     (_, s) \<leftarrow> unwrap (upsert_pod (fake_pod ''default'' ''my-pod'') service);
     let events = subscribe_pod_events s;
     (removed, s) \<leftarrow> unwrap (remove_pod ''default'' ''my-pod'' s);
     asserts (removed \<noteq> None);
     (event, events) \<leftarrow> try_recv (sto_pod_events s) events;
     asserts (wpe_event_type event = event_type_i32 EvDeleted);
     asserts (wpe_pod event = removed) }"

definition test_remove_pod_missing_publishes_nothing :: test where
  "test_remove_pod_missing_publishes_nothing = do {
     let events = subscribe_pod_events service;
     (removed, s) \<leftarrow> unwrap (remove_pod ''default'' ''ghost'' service);
     asserts (removed = None);
     asserts (try_recv (sto_pod_events s) events = None) }"

definition test_get_pod_missing_returns_none :: test where
  "test_get_pod_missing_returns_none = do {
     (got, s) \<leftarrow> unwrap (get_pod ''default'' ''does-not-exist'' service);
     asserts (got = None) }"

definition test_create_pod_rejects_duplicate_and_leaves_existing_untouched :: test where
  "test_create_pod_rejects_duplicate_and_leaves_existing_untouched = do {
     let original = fake_pod ''default'' ''my-pod'';
     (created, s) \<leftarrow> unwrap (create_pod original service);
     asserts created;
     let duplicate = (fake_pod ''default'' ''my-pod'')\<lparr>pd_message := Some ''different''\<rparr>;
     (created, s) \<leftarrow> unwrap (create_pod duplicate s);
     asserts (\<not> created);
     (got, s) \<leftarrow> unwrap (get_pod ''default'' ''my-pod'' s);
     asserts (got = Some original) }"

definition test_update_and_publish_pod_uses_the_given_event_type :: test where
  "test_update_and_publish_pod_uses_the_given_event_type = do {
     (_, s) \<leftarrow> unwrap (upsert_pod (fake_pod ''default'' ''my-pod'') service);
     let events = subscribe_pod_events s;
     ((found, _), s) \<leftarrow> unwrap (update_and_publish_pod ''default'' ''my-pod'' EvScheduled
                             (\<lambda>p. (p\<lparr>pd_node_name := ''node-1''\<rparr>, ())) () s);
     asserts found;
     (event, events) \<leftarrow> try_recv (sto_pod_events s) events;
     asserts (wpe_event_type event = event_type_i32 EvScheduled);
     p \<leftarrow> wpe_pod event;
     asserts (pd_node_name p = ''node-1'') }"

definition test_update_pod_status_applies_mutation_and_publishes_modified :: test where
  "test_update_pod_status_applies_mutation_and_publishes_modified = do {
     (_, s) \<leftarrow> unwrap (upsert_pod (fake_pod ''default'' ''web'') service);
     let events = subscribe_pod_events s;
     (found, s) \<leftarrow> unwrap (update_pod_status ''default'' ''web'' (\<lambda>p. p\<lparr>pd_pod_ip := Some ''10.0.0.5''\<rparr>) s);
     asserts found;
     (got, s) \<leftarrow> unwrap (get_pod ''default'' ''web'' s);
     p \<leftarrow> got;
     asserts (pd_pod_ip p = Some ''10.0.0.5'');
     (event, events) \<leftarrow> try_recv (sto_pod_events s) events;
     asserts (wpe_event_type event = event_type_i32 EvModified);
     p \<leftarrow> wpe_pod event;
     asserts (pd_pod_ip p = Some ''10.0.0.5'');
     (found, s) \<leftarrow> unwrap (update_pod_status ''default'' ''ghost'' (\<lambda>p. p) s);
     asserts (\<not> found) }"

section \<open>Nodes\<close>

definition test_set_node_status_publishes_modified :: test where
  "test_set_node_status_publishes_modified = do {
     (_, s) \<leftarrow> unwrap (upsert_and_publish_node (fake_node ''node-1'' NodeReady) service);
     let events = subscribe_node_events s;
     (changed, s) \<leftarrow> unwrap (set_node_status ''node-1'' NodeNotReady s);
     asserts changed;
     (event, events) \<leftarrow> try_recv (sto_node_events s) events;
     asserts (wne_event_type event = event_type_i32 EvModified);
     n \<leftarrow> wne_node event;
     asserts (nd_status n = node_status_i32 NodeNotReady) }"

definition test_set_node_status_is_a_noop_when_unchanged :: test where
  "test_set_node_status_is_a_noop_when_unchanged = do {
     (_, s) \<leftarrow> unwrap (upsert_and_publish_node (fake_node ''node-1'' NodeReady) service);
     let events = subscribe_node_events s;
     (changed, s) \<leftarrow> unwrap (set_node_status ''node-1'' NodeReady s);
     asserts (\<not> changed);
     asserts (try_recv (sto_node_events s) events = None) }"

definition test_set_node_status_unknown_node_is_a_noop :: test where
  "test_set_node_status_unknown_node_is_a_noop = do {
     (changed, s) \<leftarrow> unwrap (set_node_status ''ghost'' NodeNotReady service);
     asserts (\<not> changed) }"

definition test_register_node_first_seen_is_not_ready :: test where
  "test_register_node_first_seen_is_not_ready = do {
     let events = subscribe_node_events service;
     (_, s) \<leftarrow> unwrap (register_node (fake_node ''node-1'' NodeReady) service);
     (event, events) \<leftarrow> try_recv (sto_node_events s) events;
     asserts (wne_event_type event = event_type_i32 EvAdded);
     n \<leftarrow> wne_node event;
     asserts (nd_status n = node_status_i32 NodeNotReady) }"

definition test_register_node_preserves_ready_status :: test where
  "test_register_node_preserves_ready_status = do {
     (_, s) \<leftarrow> unwrap (upsert_and_publish_node (fake_node ''node-1'' NodeReady) service);
     (_, s) \<leftarrow> unwrap (register_node (fake_node ''node-1'' NodeNotReady) s);
     (got, s) \<leftarrow> unwrap (get_node ''node-1'' s);
     asserts (map_option nd_status got = Some (node_status_i32 NodeReady)) }"

definition test_register_node_preserves_not_ready_status :: test where
  "test_register_node_preserves_not_ready_status = do {
     (_, s) \<leftarrow> unwrap (upsert_and_publish_node (fake_node ''node-1'' NodeNotReady) service);
     (_, s) \<leftarrow> unwrap (register_node (fake_node ''node-1'' NodeReady) s);
     (got, s) \<leftarrow> unwrap (get_node ''node-1'' s);
     asserts (map_option nd_status got = Some (node_status_i32 NodeNotReady)) }"

definition test_register_node_updates_capacity_and_allocatable :: test where
  "test_register_node_updates_capacity_and_allocatable = do {
     (_, s) \<leftarrow> unwrap (upsert_and_publish_node (fake_node ''node-1'' NodeReady) service);
     let reported = (fake_node ''node-1'' NodeNotReady)\<lparr>
       nd_capacity := Some \<lparr>res_cpu = 4000, res_memory = 8192\<rparr>,
       nd_allocatable := Some \<lparr>res_cpu = 3500, res_memory = 7000\<rparr>\<rparr>;
     (_, s) \<leftarrow> unwrap (register_node reported s);
     (got, s) \<leftarrow> unwrap (get_node ''node-1'' s);
     stored \<leftarrow> got;
     asserts (nd_capacity stored = Some \<lparr>res_cpu = 4000, res_memory = 8192\<rparr>);
     asserts (nd_allocatable stored = Some \<lparr>res_cpu = 3500, res_memory = 7000\<rparr>);
     asserts (nd_status stored = node_status_i32 NodeReady) }"

definition test_register_node_updates_ip :: test where
  "test_register_node_updates_ip = do {
     (_, s) \<leftarrow> unwrap (upsert_and_publish_node (fake_node ''node-1'' NodeReady) service);
     let reported = (fake_node ''node-1'' NodeNotReady)\<lparr>nd_ip := ''10.0.0.5''\<rparr>;
     (_, s) \<leftarrow> unwrap (register_node reported s);
     (got, s) \<leftarrow> unwrap (get_node ''node-1'' s);
     stored \<leftarrow> got;
     asserts (nd_ip stored = ''10.0.0.5'') }"

definition test_upsert_node_replaces_existing :: test where
  "test_upsert_node_replaces_existing = do {
     let events = subscribe_node_events service;
     (_, s) \<leftarrow> unwrap (upsert_and_publish_node (fake_node ''node-1'' NodeReady) service);
     (_, s) \<leftarrow> unwrap (upsert_and_publish_node (fake_node ''node-1'' NodeNotReady) s);
     (event, events) \<leftarrow> try_recv (sto_node_events s) events;
     asserts (wne_event_type event = event_type_i32 EvAdded);
     (event, events) \<leftarrow> try_recv (sto_node_events s) events;
     asserts (wne_event_type event = event_type_i32 EvModified);
     (nodes, s) \<leftarrow> unwrap (list_nodes [''node-1''] s);
     asserts (length nodes = 1);
     asserts (nd_status (nodes ! 0) = node_status_i32 NodeNotReady) }"

section \<open>Desired-state channels\<close>

definition get_desired_state_event :: "ds_action \<Rightarrow> ds_event" where
  "get_desired_state_event action = \<lparr>dse_action = ds_action_i32 action, dse_pod = None\<rparr>"

definition test_publish_desired_state_to_unwatched_node_creates_no_channel :: test where
  "test_publish_desired_state_to_unwatched_node_creates_no_channel = do {
     let s = publish_desired_state_event ''node-a'' (get_desired_state_event DsRun) service;
     asserts (desired_state_channel_count [''node-a''] s = 0) }"

text \<open>\<open>receiver\<close> is dropped, so no receiver of its channel is alive at the second subscription.\<close>

definition test_desired_state_channel_dropped_once_last_watcher_goes_away :: test where
  "test_desired_state_channel_dropped_once_last_watcher_goes_away = do {
     let (receiver, s) = subscribe_desired_state_events (\<lambda>_. 0) ''node-a'' service;
     asserts (desired_state_channel_count [''node-a'', ''node-b''] s = 1);
     let (node_b, s) = subscribe_desired_state_events (\<lambda>ch. 0) ''node-b'' s;
     asserts (desired_state_channel_count [''node-a'', ''node-b''] s = 1) }"

definition test_desired_state_channel_kept_while_another_watcher_remains :: test where
  "test_desired_state_channel_kept_while_another_watcher_remains = do {
     let (first, s) = subscribe_desired_state_events (\<lambda>_. 0) ''node-a'' service;
     let (second, s) = subscribe_desired_state_events (\<lambda>ch. if ch = fst first then 1 else 0) ''node-a'' s;
     let (node_b, s) = subscribe_desired_state_events (\<lambda>ch. if ch = fst second then 1 else 0) ''node-b'' s;
     let s = publish_desired_state_event ''node-a'' (get_desired_state_event DsRun) s;
     asserts (ds_try_recv second s \<noteq> None) }"

definition test_desired_state_events_are_scoped_per_node :: test where
  "test_desired_state_events_are_scoped_per_node = do {
     let (node_a, s) = subscribe_desired_state_events (\<lambda>_. 0) ''node-a'' service;
     let (node_b, s) = subscribe_desired_state_events (\<lambda>ch. if ch = fst node_a then 1 else 0) ''node-b'' s;
     let s = publish_desired_state_event ''node-a'' (get_desired_state_event DsRun) s;
     (event, node_a) \<leftarrow> ds_try_recv node_a s;
     asserts (dse_action event = ds_action_i32 DsRun);
     asserts (ds_try_recv node_b s = None) }"

section \<open>They pass\<close>

lemma store_tests_pass:
  "passes test_upsert_and_get_pod"
  "passes test_remove_pod_publishes_deleted"
  "passes test_remove_pod_missing_publishes_nothing"
  "passes test_get_pod_missing_returns_none"
  "passes test_create_pod_rejects_duplicate_and_leaves_existing_untouched"
  "passes test_update_and_publish_pod_uses_the_given_event_type"
  "passes test_update_pod_status_applies_mutation_and_publishes_modified"
  "passes test_set_node_status_publishes_modified"
  "passes test_set_node_status_is_a_noop_when_unchanged"
  "passes test_set_node_status_unknown_node_is_a_noop"
  "passes test_register_node_first_seen_is_not_ready"
  "passes test_register_node_preserves_ready_status"
  "passes test_register_node_preserves_not_ready_status"
  "passes test_register_node_updates_capacity_and_allocatable"
  "passes test_register_node_updates_ip"
  "passes test_upsert_node_replaces_existing"
  "passes test_publish_desired_state_to_unwatched_node_creates_no_channel"
  "passes test_desired_state_channel_dropped_once_last_watcher_goes_away"
  "passes test_desired_state_channel_kept_while_another_watcher_remains"
  "passes test_desired_state_events_are_scoped_per_node"
  by code_simp+

end
