(* ===== verification/Agent_Handler_Tests.thy ===== *)
theory Agent_Handler_Tests imports Test_Support "HOL-Library.List_Lexorder" "HOL-Library.Char_ord" begin

text \<open>
  The tests of \<open>api/src/handlers/agent.rs\<close>, in the file's order. A request built with
  \<open>Request::new\<close> carries no peer, so its peer is \<open>Plaintext\<close>. The order in which the pods map
  is iterated and the moment at which a dropped stream's teardown lands are arguments where they
  can be observed, and the test passes for each of them.
\<close>

section \<open>UpdatePodStatus\<close>

definition update_request :: "string \<Rightarrow> string \<Rightarrow> update_pod_status_request" where
  "update_request ns nm = \<lparr>
     ups_pod = Some \<lparr>
       pw_pod = Some \<lparr>p_name = nm, p_status = pod_status_i32 PodRunning, p_requests = None, p_limits = None\<rparr>,
       pw_spec = Some \<lparr>ps_namespace = ns, ps_containers = []\<rparr>\<rparr>,
     ups_container_statuses = [\<lparr>cs_name = ''main'', cs_state = container_state_i32 StateActive\<rparr>],
     ups_pod_ip = Some ''10.0.0.5'', ups_message = None,
     ups_resource_usage = Some \<lparr>res_cpu = 250, res_memory = 128\<rparr>\<rparr>"

definition update_pod_status_updates_runtime_fields_and_publishes_modified :: test where
  "update_pod_status_updates_runtime_fields_and_publishes_modified = do {
     (_, s) \<leftarrow> unwrap (upsert_pod (fake_pod ''default'' ''web'') service);
     let events = subscribe_pod_events s;
     (response, s) \<leftarrow> unwrap (update_pod_status_impl Plaintext (update_request ''default'' ''web'') s);
     asserts (response = ());
     (got, s) \<leftarrow> unwrap (get_pod ''default'' ''web'' s);
     p \<leftarrow> got;
     core \<leftarrow> core_pod p;
     asserts (p_status core = pod_status_i32 PodRunning);
     asserts (length (pd_container_statuses p) = 1);
     asserts (cs_name (pd_container_statuses p ! 0) = ''main'');
     asserts (cs_state (pd_container_statuses p ! 0) = container_state_i32 StateActive);
     asserts (pd_pod_ip p = Some ''10.0.0.5'');
     usage \<leftarrow> pd_resource_usage p;
     asserts (res_cpu usage = 250);
     (event, events) \<leftarrow> try_recv (sto_pod_events s) events;
     asserts (wpe_event_type event = event_type_i32 EvModified);
     event_pod \<leftarrow> wpe_pod event;
     core \<leftarrow> core_pod event_pod;
     asserts (p_name core = ''web'') }"

definition update_pod_status_preserves_scheduler_owned_fields :: test where
  "update_pod_status_preserves_scheduler_owned_fields = do {
     let seed = map_core_pod (\<lambda>p. p\<lparr>p_requests := Some \<lparr>res_cpu = 100, res_memory = 64\<rparr>\<rparr>)
       ((fake_pod ''default'' ''web'')\<lparr>pd_node_name := ''node-a'', pd_unschedulable_reason := Some ''no node fits''\<rparr>);
     (_, s) \<leftarrow> unwrap (upsert_pod seed service);
     (_, s) \<leftarrow> unwrap (update_pod_status_impl Plaintext (update_request ''default'' ''web'') s);
     (got, s) \<leftarrow> unwrap (get_pod ''default'' ''web'' s);
     p \<leftarrow> got;
     asserts (pd_node_name p = ''node-a'');
     asserts (pd_unschedulable_reason p = Some ''no node fits'');
     core \<leftarrow> core_pod p;
     requests \<leftarrow> p_requests core;
     asserts (res_cpu requests = 100) }"

definition update_pod_status_unknown_pod_is_not_found :: test where
  "update_pod_status_unknown_pod_is_not_found = do {
     (err, s) \<leftarrow> unwrap_err (update_pod_status_impl Plaintext (update_request ''default'' ''ghost'') service);
     asserts (st_code err = NotFound);
     asserts (st_message err = ''pod default/ghost not found'') }"

definition update_pod_status_rejects_missing_fields :: test where
  "update_pod_status_rejects_missing_fields = do {
     let request = (update_request ''default'' ''web'')\<lparr>ups_pod := None\<rparr>;
     (err, s) \<leftarrow> unwrap_err (update_pod_status_impl Plaintext request service);
     asserts (st_code err = NotFound);
     asserts (st_message err = ''pod <unknown>/<unknown> not found'');
     (err, s) \<leftarrow> unwrap_err (update_pod_status_impl Plaintext (update_request ''default'' []) s);
     asserts (st_code err = InvalidArgument);
     asserts (st_message err = ''missing pod name'');
     let request = (update_request [] ''web'')\<lparr>ups_pod := map_option (\<lambda>core. core\<lparr>
       pw_spec := map_option (\<lambda>sp. sp\<lparr>ps_namespace := []\<rparr>) (pw_spec core)\<rparr>) (ups_pod (update_request [] ''web''))\<rparr>;
     (err, s) \<leftarrow> unwrap_err (update_pod_status_impl Plaintext request s);
     asserts (st_code err = InvalidArgument);
     asserts (st_message err = ''missing pod namespace'');
     (err, s) \<leftarrow> unwrap_err (update_pod_status_impl Plaintext (update_request [] []) s);
     asserts (st_code err = InvalidArgument);
     asserts (st_message err = ''missing pod name, pod namespace'') }"

section \<open>UpdateNodeStatus\<close>

definition update_node_status_request :: "string \<Rightarrow> node_status \<Rightarrow> node option" where
  "update_node_status_request nm st = Some (fake_node nm st)"

definition test_update_node_status_first_seen_registers_not_ready :: test where
  "test_update_node_status_first_seen_registers_not_ready = do {
     let events = subscribe_node_events service;
     (_, s) \<leftarrow> unwrap (update_node_status_impl Plaintext (update_node_status_request ''node-1'' NodeReady) service);
     (event, events) \<leftarrow> try_recv (sto_node_events s) events;
     asserts (wne_event_type event = event_type_i32 EvAdded);
     asserts (map_option nd_status (wne_node event) = Some (node_status_i32 NodeNotReady)) }"

definition test_update_node_status_cannot_change_liveness :: test where
  "test_update_node_status_cannot_change_liveness = do {
     (_, s) \<leftarrow> unwrap (update_node_status_impl Plaintext (update_node_status_request ''node-1'' NodeReady) service);
     (_, s) \<leftarrow> unwrap (set_node_status ''node-1'' NodeReady s);
     (_, s) \<leftarrow> unwrap (update_node_status_impl Plaintext (update_node_status_request ''node-1'' NodeNotReady) s);
     (got, s) \<leftarrow> unwrap (get_node ''node-1'' s);
     asserts (map_option nd_status got = Some (node_status_i32 NodeReady)) }"

definition test_update_node_status_known_node_publishes_modified :: test where
  "test_update_node_status_known_node_publishes_modified = do {
     let events = subscribe_node_events service;
     (_, s) \<leftarrow> unwrap (update_node_status_impl Plaintext (update_node_status_request ''node-1'' NodeReady) service);
     let events = (case try_recv (sto_node_events s) events of None \<Rightarrow> events | Some (_, rest) \<Rightarrow> rest);
     (_, s) \<leftarrow> unwrap (update_node_status_impl Plaintext (update_node_status_request ''node-1'' NodeNotReady) s);
     (event, events) \<leftarrow> try_recv (sto_node_events s) events;
     asserts (wne_event_type event = event_type_i32 EvModified);
     asserts (map_option nd_name (wne_node event) = Some ''node-1'') }"

definition test_update_node_status_missing_node_rejected :: test where
  "test_update_node_status_missing_node_rejected = do {
     (err, s) \<leftarrow> unwrap_err (update_node_status_impl Plaintext None service);
     asserts (st_code err = InvalidArgument) }"

definition test_update_node_status_blank_name_rejected :: test where
  "test_update_node_status_blank_name_rejected = do {
     (err, s) \<leftarrow> unwrap_err (update_node_status_impl Plaintext (update_node_status_request [] NodeReady) service);
     asserts (st_code err = InvalidArgument);
     asserts (st_message err = ''missing node name'') }"

section \<open>Streams\<close>

text \<open>A stream is the items of its snapshot still to be taken and its receiver; \<open>next\<close> is \<open>None\<close>
  when it would wait.\<close>

type_synonym ds_stream = "ds_event list \<times> (nat \<times> nat)"

fun stream_next :: "ds_stream \<Rightarrow> test_store \<Rightarrow> (ds_event \<times> ds_stream) option" where
  "stream_next (e # items, r) s = Some (e, (items, r))"
| "stream_next ([], r) s = (case ds_try_recv r s of None \<Rightarrow> None | Some (e, r') \<Rightarrow> Some (e, ([], r')))"

text \<open>\<open>await_watchers\<close>: the runtime runs the queued teardowns (here the node each belongs to), and the
  count must then be the expected one.\<close>

definition await_watchers :: "string list \<Rightarrow> string \<Rightarrow> nat \<Rightarrow> test_store \<Rightarrow> (unit \<times> test_store) option" where
  "await_watchers queued nm expected s =
     (let s' = fold node_watch_ended queued s
      in if watcher_count nm s' = expected then Some ((), s') else None)"

definition registering :: "string \<Rightarrow> test_store \<Rightarrow> (unit \<times> test_store) option" where
  "registering nm s = unwrap (upsert_and_publish_node (fake_node nm NodeReady) s)"

definition plain_run_event :: ds_event where
  "plain_run_event = \<lparr>dse_action = ds_action_i32 DsRun, dse_pod = None\<rparr>"

text \<open>\<open>drain_snapshot\<close>: the pods up to SYNCED; any other action panics, and a stream without SYNCED
  would wait.\<close>

fun drain_snapshot :: "ds_stream \<Rightarrow> (pod_with_spec option list \<times> ds_stream) option" where
  "drain_snapshot ([], r) = None"
| "drain_snapshot (e # items, r) =
     (if dse_action e = ds_action_i32 DsSynced
      then (if dse_pod e = None then Some ([], (items, r)) else None)
      else if dse_action e = ds_action_i32 DsRun
      then (case drain_snapshot (items, r) of None \<Rightarrow> None | Some (ps, st) \<Rightarrow> Some (dse_pod e # ps, st))
      else None)"

definition watching ::
  "pod_key list \<Rightarrow> string \<Rightarrow> test_store \<Rightarrow> (ds_stream \<times> test_store) option" where
  "watching ord nn s = unwrap (watch_desired_state_impl (\<lambda>_. 1) ord Plaintext nn s)"

definition test_watch_desired_state_receives_event_for_its_own_node :: test where
  "test_watch_desired_state_receives_event_for_its_own_node = do {
     (_, s) \<leftarrow> registering ''node-a'' service;
     (stream, s) \<leftarrow> watching [] ''node-a'' s;
     (snapshot, stream) \<leftarrow> drain_snapshot stream;
     asserts (snapshot = []);
     let s = publish_desired_state_event ''node-a'' plain_run_event s;
     (event, stream) \<leftarrow> stream_next stream s;
     asserts (dse_action event = ds_action_i32 DsRun) }"

definition fake_assigned :: "string \<Rightarrow> string \<Rightarrow> string \<Rightarrow> pod_detail" where
  "fake_assigned ns nm nn = (fake_pod ns nm)\<lparr>pd_node_name := nn\<rparr>"

definition test_register_while_stream_open_keeps_node_ready :: test where
  "test_register_while_stream_open_keeps_node_ready = do {
     (_, s) \<leftarrow> unwrap (update_node_status_impl Plaintext (update_node_status_request ''node-a'' NodeReady) service);
     (stream, s) \<leftarrow> watching [] ''node-a'' s;
     (_, s) \<leftarrow> unwrap (update_node_status_impl Plaintext (update_node_status_request ''node-a'' NodeNotReady) s);
     (got, s) \<leftarrow> unwrap (get_node ''node-a'' s);
     stored \<leftarrow> got;
     asserts (nd_status stored = node_status_i32 NodeReady);
     asserts (watcher_count ''node-a'' s = 1) }"

definition test_watching_marks_the_node_ready :: test where
  "test_watching_marks_the_node_ready = do {
     (_, s) \<leftarrow> unwrap (upsert_and_publish_node (fake_node ''node-a'' NodeNotReady) service);
     (stream, s) \<leftarrow> watching [] ''node-a'' s;
     (got, s) \<leftarrow> unwrap (get_node ''node-a'' s);
     stored \<leftarrow> got;
     asserts (nd_status stored = node_status_i32 NodeReady) }"

definition test_dropping_the_stream_marks_the_node_not_ready :: test where
  "test_dropping_the_stream_marks_the_node_not_ready = do {
     (_, s) \<leftarrow> registering ''node-a'' service;
     (stream, s) \<leftarrow> watching [] ''node-a'' s;
     (_, s) \<leftarrow> await_watchers [''node-a''] ''node-a'' 0 s;
     (got, s) \<leftarrow> unwrap (get_node ''node-a'' s);
     stored \<leftarrow> got;
     asserts (nd_status stored = node_status_i32 NodeNotReady) }"

definition test_disconnect_publishes_a_node_event :: test where
  "test_disconnect_publishes_a_node_event = do {
     (_, s) \<leftarrow> registering ''node-a'' service;
     let node_events = subscribe_node_events s;
     (stream, s) \<leftarrow> watching [] ''node-a'' s;
     (_, s) \<leftarrow> await_watchers [''node-a''] ''node-a'' 0 s;
     (event, node_events) \<leftarrow> try_recv (sto_node_events s) node_events;
     asserts (wne_event_type event = event_type_i32 EvModified);
     n \<leftarrow> wne_node event;
     asserts (nd_status n = node_status_i32 NodeNotReady) }"

definition test_watching_an_unregistered_node_is_rejected :: test where
  "test_watching_an_unregistered_node_is_rejected = do {
     (err, s) \<leftarrow> unwrap_err (watch_desired_state_impl (\<lambda>_. 1) [] Plaintext ''ghost'' service);
     asserts (st_code err = NotFound);
     (got, s) \<leftarrow> unwrap (get_node ''ghost'' s);
     asserts (got = None) }"

text \<open>\<open>late\<close>: the outgoing stream's teardown lands after the replacement has opened.\<close>

definition test_reconnecting_leaves_the_node_ready :: "bool \<Rightarrow> test" where
  "test_reconnecting_leaves_the_node_ready late = do {
     (_, s) \<leftarrow> registering ''node-a'' service;
     (first, s) \<leftarrow> watching [] ''node-a'' s;
     let s = (if late then s else node_watch_ended ''node-a'' s);
     (second, s) \<leftarrow> watching [] ''node-a'' s;
     (_, s) \<leftarrow> await_watchers (if late then [''node-a''] else []) ''node-a'' 1 s;
     (got, s) \<leftarrow> unwrap (get_node ''node-a'' s);
     stored \<leftarrow> got;
     asserts (nd_status stored = node_status_i32 NodeReady) }"

definition test_node_stays_ready_while_any_stream_remains :: test where
  "test_node_stays_ready_while_any_stream_remains = do {
     (_, s) \<leftarrow> registering ''node-a'' service;
     (first, s) \<leftarrow> watching [] ''node-a'' s;
     (second, s) \<leftarrow> watching [] ''node-a'' s;
     (_, s) \<leftarrow> await_watchers [''node-a''] ''node-a'' 1 s;
     (got, s) \<leftarrow> unwrap (get_node ''node-a'' s);
     stored \<leftarrow> got;
     asserts (nd_status stored = node_status_i32 NodeReady);
     (_, s) \<leftarrow> await_watchers [''node-a''] ''node-a'' 0 s;
     (got, s) \<leftarrow> unwrap (get_node ''node-a'' s);
     stored \<leftarrow> got;
     asserts (nd_status stored = node_status_i32 NodeNotReady) }"

section \<open>Snapshots\<close>

definition test_watch_desired_state_opens_with_synced_when_nothing_is_assigned :: test where
  "test_watch_desired_state_opens_with_synced_when_nothing_is_assigned = do {
     (_, s) \<leftarrow> registering ''node-a'' service;
     (stream, s) \<leftarrow> watching [] ''node-a'' s;
     (first, stream) \<leftarrow> stream_next stream s;
     asserts (dse_action first = ds_action_i32 DsSynced);
     asserts (dse_pod first = None) }"

definition test_watch_desired_state_opens_with_the_nodes_assigned_pods :: "pod_key list \<Rightarrow> test" where
  "test_watch_desired_state_opens_with_the_nodes_assigned_pods ord = do {
     (_, s) \<leftarrow> registering ''node-a'' service;
     let first_pod = fake_assigned ''default'' ''pod-a'' ''node-a'';
     let second_pod = fake_assigned ''default'' ''pod-b'' ''node-a'';
     (_, s) \<leftarrow> unwrap (upsert_pod first_pod s);
     (_, s) \<leftarrow> unwrap (upsert_pod second_pod s);
     (stream, s) \<leftarrow> watching ord ''node-a'' s;
     (snapshot, stream) \<leftarrow> drain_snapshot stream;
     let sorted = sort_key (\<lambda>core. case core of None \<Rightarrow> [] | Some c \<Rightarrow>
       (case pw_pod c of None \<Rightarrow> [] | Some p \<Rightarrow> p_name p)) snapshot;
     asserts (sorted = [pd_core first_pod, pd_core second_pod]) }"

definition test_watch_desired_state_snapshot_excludes_other_nodes_pods :: "pod_key list \<Rightarrow> test" where
  "test_watch_desired_state_snapshot_excludes_other_nodes_pods ord = do {
     (_, s) \<leftarrow> registering ''node-a'' service;
     (_, s) \<leftarrow> unwrap (upsert_pod (fake_assigned ''default'' ''mine'' ''node-a'') s);
     (_, s) \<leftarrow> unwrap (upsert_pod (fake_assigned ''default'' ''theirs'' ''node-b'') s);
     (_, s) \<leftarrow> unwrap (upsert_pod (fake_pod ''default'' ''pending'') s);
     (stream, s) \<leftarrow> watching ord ''node-a'' s;
     (snapshot, stream) \<leftarrow> drain_snapshot stream;
     asserts (length snapshot = 1);
     core \<leftarrow> snapshot ! 0;
     p \<leftarrow> pw_pod core;
     asserts (p_name p = ''mine'') }"

definition test_watch_desired_state_streams_live_events_after_synced :: test where
  "test_watch_desired_state_streams_live_events_after_synced = do {
     (_, s) \<leftarrow> registering ''node-a'' service;
     (_, s) \<leftarrow> unwrap (upsert_pod (fake_assigned ''default'' ''pod-a'' ''node-a'') s);
     (stream, s) \<leftarrow> watching [(''default'', ''pod-a'')] ''node-a'' s;
     (snapshot, stream) \<leftarrow> drain_snapshot stream;
     asserts (length snapshot = 1);
     let s = publish_desired_state_event ''node-a'' plain_run_event s;
     (event, stream) \<leftarrow> stream_next stream s;
     asserts (dse_action event = ds_action_i32 DsRun) }"

definition test_watch_desired_state_empty_node_name_rejected :: test where
  "test_watch_desired_state_empty_node_name_rejected = do {
     (err, s) \<leftarrow> unwrap_err (watch_desired_state_impl (\<lambda>_. 1) [] Plaintext [] service);
     asserts (st_code err = InvalidArgument);
     asserts (st_message err = ''node name must not be empty'') }"

definition test_watch_desired_state_malformed_node_name_rejected :: test where
  "test_watch_desired_state_malformed_node_name_rejected = do {
     (err, s) \<leftarrow> unwrap_err (watch_desired_state_impl (\<lambda>_. 1) [] Plaintext ''Node_A!'' service);
     asserts (st_code err = InvalidArgument) }"

definition test_watch_desired_state_does_not_receive_other_nodes_events :: test where
  "test_watch_desired_state_does_not_receive_other_nodes_events = do {
     (_, s) \<leftarrow> registering ''node-b'' service;
     (stream, s) \<leftarrow> watching [] ''node-b'' s;
     (snapshot, stream) \<leftarrow> drain_snapshot stream;
     let s = publish_desired_state_event ''node-a'' plain_run_event s;
     asserts (stream_next stream s = None) }"

section \<open>They pass\<close>

lemma agent_handler_tests_pass:
  "passes update_pod_status_updates_runtime_fields_and_publishes_modified"
  "passes update_pod_status_preserves_scheduler_owned_fields"
  "passes update_pod_status_unknown_pod_is_not_found"
  "passes update_pod_status_rejects_missing_fields"
  "passes test_update_node_status_first_seen_registers_not_ready"
  "passes test_update_node_status_cannot_change_liveness"
  "passes test_update_node_status_known_node_publishes_modified"
  "passes test_update_node_status_missing_node_rejected"
  "passes test_update_node_status_blank_name_rejected"
  "passes test_watch_desired_state_receives_event_for_its_own_node"
  "passes test_register_while_stream_open_keeps_node_ready"
  "passes test_watching_marks_the_node_ready"
  "passes test_dropping_the_stream_marks_the_node_not_ready"
  "passes test_disconnect_publishes_a_node_event"
  "passes test_watching_an_unregistered_node_is_rejected"
  "passes test_node_stays_ready_while_any_stream_remains"
  "passes test_watch_desired_state_opens_with_synced_when_nothing_is_assigned"
  "passes test_watch_desired_state_streams_live_events_after_synced"
  "passes test_watch_desired_state_empty_node_name_rejected"
  "passes test_watch_desired_state_malformed_node_name_rejected"
  "passes test_watch_desired_state_does_not_receive_other_nodes_events"
  by code_simp+

text \<open>For both moments of the teardown, and for the iteration orders of the maps.\<close>

lemma agent_handler_tests_pass_whatever_the_order:
  "passes (test_reconnecting_leaves_the_node_ready True)"
  "passes (test_reconnecting_leaves_the_node_ready False)"
  "list_all (\<lambda>ord. passes (test_watch_desired_state_opens_with_the_nodes_assigned_pods ord))
     (iteration_orders [(''default'', ''pod-a''), (''default'', ''pod-b'')])"
  "list_all (\<lambda>ord. passes (test_watch_desired_state_snapshot_excludes_other_nodes_pods ord))
     (iteration_orders [(''default'', ''mine''), (''default'', ''theirs''), (''default'', ''pending'')])"
  by code_simp+

end
