(* ===== verification/Cli_Handler_Tests.thy ===== *)
theory Cli_Handler_Tests imports Test_Support "HOL-Library.List_Lexorder" "HOL-Library.Product_Lexorder" "HOL-Library.Char_ord" begin

text \<open>
  The tests of \<open>api/src/handlers/cli.rs\<close>, in the file's order, with the iteration orders of the
  store's maps as arguments where a test reads a whole map.
\<close>

section \<open>GetPod and GetNode\<close>

definition test_get_pod_returns_inserted_pod :: test where
  "test_get_pod_returns_inserted_pod = do {
     let p = fake_pod ''default'' ''my-pod'';
     (_, s) \<leftarrow> unwrap (upsert_pod p service);
     (response, s) \<leftarrow> unwrap (get_pod_impl ''default'' ''my-pod'' s);
     asserts (response = p) }"

definition test_get_pod_missing_returns_not_found :: test where
  "test_get_pod_missing_returns_not_found = do {
     (err, s) \<leftarrow> unwrap_err (get_pod_impl ''default'' ''does-not-exist'' service);
     asserts (st_code err = NotFound) }"

definition test_get_node_returns_inserted_node :: test where
  "test_get_node_returns_inserted_node = do {
     let nd = fake_node ''node-1'' NodeReady;
     (_, s) \<leftarrow> unwrap (upsert_and_publish_node nd service);
     (response, s) \<leftarrow> unwrap (get_node_impl [] ''node-1'' s);
     asserts (response = nd) }"

text \<open>The node and the pod of the next two tests.\<close>

definition sized_node :: node where
  "sized_node = (fake_node ''node-1'' NodeReady)\<lparr>nd_capacity := Some \<lparr>res_cpu = 1000, res_memory = 1000\<rparr>\<rparr>"

definition pod_of_300 :: "string \<Rightarrow> pod_detail" where
  "pod_of_300 nn = map_core_pod (\<lambda>p. p\<lparr>p_limits := Some \<lparr>res_cpu = 300, res_memory = 200\<rparr>\<rparr>)
     ((fake_pod ''default'' ''web'')\<lparr>pd_node_name := nn\<rparr>)"

definition test_get_node_computes_allocatable_from_pods_placed_there :: test where
  "test_get_node_computes_allocatable_from_pods_placed_there = do {
     (_, s) \<leftarrow> unwrap (upsert_and_publish_node sized_node service);
     (_, s) \<leftarrow> unwrap (upsert_pod (pod_of_300 ''node-1'') s);
     (response, s) \<leftarrow> unwrap (get_node_impl [(''default'', ''web'')] ''node-1'' s);
     asserts (nd_allocatable response = Some \<lparr>res_cpu = 700, res_memory = 800\<rparr>) }"

definition test_get_node_ignores_pods_placed_on_other_nodes :: test where
  "test_get_node_ignores_pods_placed_on_other_nodes = do {
     (_, s) \<leftarrow> unwrap (upsert_and_publish_node sized_node service);
     (_, s) \<leftarrow> unwrap (upsert_pod (pod_of_300 ''node-2'') s);
     (response, s) \<leftarrow> unwrap (get_node_impl [(''default'', ''web'')] ''node-1'' s);
     asserts (nd_allocatable response = Some \<lparr>res_cpu = 1000, res_memory = 1000\<rparr>) }"

definition test_get_node_missing_returns_not_found :: test where
  "test_get_node_missing_returns_not_found = do {
     (err, s) \<leftarrow> unwrap_err (get_node_impl [] ''does-not-exist'' service);
     asserts (st_code err = NotFound) }"

section \<open>ListPods and ListNodes\<close>

definition test_list_pods_empty_store_returns_empty_list :: test where
  "test_list_pods_empty_store_returns_empty_list = do {
     (pods, s) \<leftarrow> unwrap (list_pods_impl [] service);
     asserts (pods = []) }"

definition test_list_pods_returns_single_pod :: test where
  "test_list_pods_returns_single_pod = do {
     let p = fake_pod ''default'' ''my-pod'';
     (_, s) \<leftarrow> unwrap (upsert_pod p service);
     (pods, s) \<leftarrow> unwrap (list_pods_impl [(''default'', ''my-pod'')] s);
     asserts (pods = [p]) }"

text \<open>A loop of \<open>unwrap\<close>ped calls over the items.\<close>

fun for_each :: "('a \<Rightarrow> 's \<Rightarrow> ('e + unit) \<times> 's) \<Rightarrow> 'a list \<Rightarrow> 's \<Rightarrow> (unit \<times> 's) option" where
  "for_each f [] s = Some ((), s)"
| "for_each f (x # xs) s = do { (_, s) \<leftarrow> unwrap (f x s); for_each f xs s }"

definition test_list_pods_returns_all_pods :: "pod_key list \<Rightarrow> test" where
  "test_list_pods_returns_all_pods ord = do {
     let expected = [fake_pod ''default'' ''pod-a'', fake_pod ''default'' ''pod-b'', fake_pod ''kube-system'' ''pod-c''];
     (_, s) \<leftarrow> for_each upsert_pod expected service;
     (got, s) \<leftarrow> unwrap (list_pods_impl ord s);
     asserts (sort_key pod_key got = sort_key pod_key expected) }"

definition test_list_nodes_empty_store_returns_empty_list :: test where
  "test_list_nodes_empty_store_returns_empty_list = do {
     (nodes, s) \<leftarrow> unwrap (list_nodes_impl [] [] service);
     asserts (nodes = []) }"

definition test_list_nodes_returns_single_node :: test where
  "test_list_nodes_returns_single_node = do {
     let nd = fake_node ''node-1'' NodeReady;
     (_, s) \<leftarrow> unwrap (upsert_and_publish_node nd service);
     (nodes, s) \<leftarrow> unwrap (list_nodes_impl [] [''node-1''] s);
     asserts (nodes = [nd]) }"

definition test_list_nodes_returns_all_nodes :: "string list \<Rightarrow> test" where
  "test_list_nodes_returns_all_nodes nord = do {
     let expected = [fake_node ''node-a'' NodeReady, fake_node ''node-b'' NodeCordon, fake_node ''node-c'' NodeNotReady];
     (_, s) \<leftarrow> for_each upsert_and_publish_node expected service;
     (got, s) \<leftarrow> unwrap (list_nodes_impl [] nord s);
     asserts (sort_key nd_name got = sort_key nd_name expected) }"

section \<open>CreatePod\<close>

definition create_pod_request_raw :: "string \<Rightarrow> string \<Rightarrow> pod_with_spec" where
  "create_pod_request_raw ns nm = \<lparr>
     pw_pod = Some \<lparr>p_name = nm, p_status = pod_status_i32 PodRunning, p_requests = None, p_limits = None\<rparr>,
     pw_spec = Some \<lparr>ps_namespace = ns, ps_containers = [fake_container ''app'' ''busybox'']\<rparr>\<rparr>"

text \<open>\<open>req.pod.as_mut().unwrap().spec.as_mut().unwrap().containers\<close>, mutated.\<close>

definition with_containers :: "(container list \<Rightarrow> container list) \<Rightarrow> pod_with_spec \<Rightarrow> pod_with_spec" where
  "with_containers f req =
     req\<lparr>pw_spec := map_option (\<lambda>sp. sp\<lparr>ps_containers := f (ps_containers sp)\<rparr>) (pw_spec req)\<rparr>"

definition test_create_pod_returns_pod_detail_with_pending_status :: test where
  "test_create_pod_returns_pod_detail_with_pending_status = do {
     (response, s) \<leftarrow> unwrap (create_pod_impl (Some (create_pod_request_raw ''default'' ''my-pod'')) service);
     core \<leftarrow> pd_core response;
     p \<leftarrow> pw_pod core;
     spec \<leftarrow> pw_spec core;
     asserts (p_name p = ''my-pod'');
     asserts (p_status p = pod_status_i32 PodPending);
     asserts (ps_namespace spec = ''default'') }"

definition test_create_pod_persists_to_store :: test where
  "test_create_pod_persists_to_store = do {
     (_, s) \<leftarrow> unwrap (create_pod_impl (Some (create_pod_request_raw ''default'' ''my-pod'')) service);
     (got, s) \<leftarrow> unwrap (get_pod ''default'' ''my-pod'' s);
     stored \<leftarrow> got;
     asserts (pd_node_name stored = []) }"

definition test_create_pod_duplicate_returns_already_exists :: test where
  "test_create_pod_duplicate_returns_already_exists = do {
     (_, s) \<leftarrow> unwrap (create_pod_impl (Some (create_pod_request_raw ''default'' ''my-pod'')) service);
     (err, s) \<leftarrow> unwrap_err (create_pod_impl (Some (create_pod_request_raw ''default'' ''my-pod'')) s);
     asserts (st_code err = AlreadyExists);
     (pods, s) \<leftarrow> unwrap (list_pods [(''default'', ''my-pod'')] s);
     asserts (length pods = 1) }"

definition test_create_pod_publishes_added_event :: test where
  "test_create_pod_publishes_added_event = do {
     let events = subscribe_pod_events service;
     (_, s) \<leftarrow> unwrap (create_pod_impl (Some (create_pod_request_raw ''default'' ''my-pod'')) service);
     (event, events) \<leftarrow> try_recv (sto_pod_events s) events;
     asserts (wpe_event_type event = event_type_i32 EvAdded);
     let pod_name = map_option p_name (Option.bind (wpe_pod event) core_pod);
     asserts (pod_name = Some ''my-pod'') }"

text \<open>The refusals: each request is answered INVALID_ARGUMENT.\<close>

definition refused :: "pod_with_spec option \<Rightarrow> test" where
  "refused req = do {
     (err, s) \<leftarrow> unwrap_err (create_pod_impl req service);
     asserts (st_code err = InvalidArgument) }"

definition test_create_pod_missing_pod_is_invalid_argument :: test where
  "test_create_pod_missing_pod_is_invalid_argument = refused None"

definition test_create_pod_missing_spec_is_invalid_argument :: test where
  "test_create_pod_missing_spec_is_invalid_argument =
     refused (Some ((create_pod_request_raw ''default'' ''my-pod'')\<lparr>pw_spec := None\<rparr>))"

definition test_create_pod_empty_name_is_invalid_argument :: test where
  "test_create_pod_empty_name_is_invalid_argument = refused (Some (create_pod_request_raw ''default'' []))"

definition test_create_pod_invalid_name_charset_is_invalid_argument :: test where
  "test_create_pod_invalid_name_charset_is_invalid_argument =
     refused (Some (create_pod_request_raw ''default'' ''My_Pod''))"

definition test_create_pod_empty_namespace_is_invalid_argument :: test where
  "test_create_pod_empty_namespace_is_invalid_argument = refused (Some (create_pod_request_raw [] ''my-pod''))"

definition test_create_pod_invalid_namespace_charset_is_invalid_argument :: test where
  "test_create_pod_invalid_namespace_charset_is_invalid_argument =
     refused (Some (create_pod_request_raw ''Default_NS'' ''my-pod''))"

definition test_create_pod_no_containers_is_invalid_argument :: test where
  "test_create_pod_no_containers_is_invalid_argument =
     refused (Some (with_containers (\<lambda>_. []) (create_pod_request_raw ''default'' ''my-pod'')))"

definition test_create_pod_container_missing_image_is_invalid_argument :: test where
  "test_create_pod_container_missing_image_is_invalid_argument =
     refused (Some (with_containers (\<lambda>cs. cs[0 := (cs ! 0)\<lparr>ct_image := []\<rparr>])
       (create_pod_request_raw ''default'' ''my-pod'')))"

definition test_create_pod_empty_container_name_is_invalid_argument :: test where
  "test_create_pod_empty_container_name_is_invalid_argument =
     refused (Some (with_containers (\<lambda>cs. cs[0 := (cs ! 0)\<lparr>ct_name := []\<rparr>])
       (create_pod_request_raw ''default'' ''my-pod'')))"

definition test_create_pod_duplicate_container_names_is_invalid_argument :: test where
  "test_create_pod_duplicate_container_names_is_invalid_argument =
     refused (Some (with_containers (\<lambda>cs. cs @ [fake_container ''app'' ''nginx''])
       (create_pod_request_raw ''default'' ''my-pod'')))"

section \<open>DeletePod\<close>

definition test_delete_pod_removes_existing_pod_and_returns_name :: test where
  "test_delete_pod_removes_existing_pod_and_returns_name = do {
     (_, s) \<leftarrow> unwrap (create_pod_impl (Some (create_pod_request_raw ''default'' ''my-pod'')) service);
     (response, s) \<leftarrow> unwrap (delete_pod_impl ''default'' ''my-pod'' s);
     asserts (response = ''my-pod'');
     (got, s) \<leftarrow> unwrap (get_pod ''default'' ''my-pod'' s);
     asserts (got = None) }"

definition test_delete_pod_missing_pod_returns_not_found :: test where
  "test_delete_pod_missing_pod_returns_not_found = do {
     (err, s) \<leftarrow> unwrap_err (delete_pod_impl ''default'' ''does-not-exist'' service);
     asserts (st_code err = NotFound) }"

definition test_delete_pod_publishes_deleted_event :: test where
  "test_delete_pod_publishes_deleted_event = do {
     let events = subscribe_pod_events service;
     (_, s) \<leftarrow> unwrap (create_pod_impl (Some (create_pod_request_raw ''default'' ''my-pod'')) service);
     (_, events) \<leftarrow> try_recv (sto_pod_events s) events;
     (_, s) \<leftarrow> unwrap (delete_pod_impl ''default'' ''my-pod'' s);
     (event, events) \<leftarrow> try_recv (sto_pod_events s) events;
     asserts (wpe_event_type event = event_type_i32 EvDeleted) }"

definition test_delete_pod_publishes_stop_to_the_assigned_node :: test where
  "test_delete_pod_publishes_stop_to_the_assigned_node = do {
     let scheduled = (fake_pod ''default'' ''my-pod'')\<lparr>pd_node_name := ''node-a''\<rparr>;
     (_, s) \<leftarrow> unwrap (upsert_pod scheduled service);
     let (desired_state_events, s) = subscribe_desired_state_events (\<lambda>_. 0) ''node-a'' s;
     (_, s) \<leftarrow> unwrap (delete_pod_impl ''default'' ''my-pod'' s);
     (event, desired_state_events) \<leftarrow> ds_try_recv desired_state_events s;
     asserts (dse_action event = ds_action_i32 DsStop);
     asserts (dse_pod event = pd_core scheduled) }"

definition test_delete_pod_stop_goes_only_to_the_assigned_node :: test where
  "test_delete_pod_stop_goes_only_to_the_assigned_node = do {
     let scheduled = (fake_pod ''default'' ''my-pod'')\<lparr>pd_node_name := ''node-a''\<rparr>;
     (_, s) \<leftarrow> unwrap (upsert_pod scheduled service);
     let (other_node, s) = subscribe_desired_state_events (\<lambda>_. 0) ''node-b'' s;
     (_, s) \<leftarrow> unwrap (delete_pod_impl ''default'' ''my-pod'' s);
     asserts (ds_try_recv other_node s = None) }"

definition test_delete_pod_without_node_name_skips_desired_state_event :: test where
  "test_delete_pod_without_node_name_skips_desired_state_event = do {
     (_, s) \<leftarrow> unwrap (create_pod_impl (Some (create_pod_request_raw ''default'' ''my-pod'')) service);
     let (desired_state_events, s) = subscribe_desired_state_events (\<lambda>_. 0) [] s;
     (_, s) \<leftarrow> unwrap (delete_pod_impl ''default'' ''my-pod'' s);
     asserts (ds_try_recv desired_state_events s = None) }"

section \<open>They pass\<close>

lemma cli_handler_tests_pass:
  "passes test_get_pod_returns_inserted_pod"
  "passes test_get_pod_missing_returns_not_found"
  "passes test_get_node_returns_inserted_node"
  "passes test_get_node_computes_allocatable_from_pods_placed_there"
  "passes test_get_node_ignores_pods_placed_on_other_nodes"
  "passes test_get_node_missing_returns_not_found"
  "passes test_list_pods_empty_store_returns_empty_list"
  "passes test_list_pods_returns_single_pod"
  "passes test_list_nodes_empty_store_returns_empty_list"
  "passes test_list_nodes_returns_single_node"
  "passes test_create_pod_returns_pod_detail_with_pending_status"
  "passes test_create_pod_persists_to_store"
  "passes test_create_pod_duplicate_returns_already_exists"
  "passes test_create_pod_publishes_added_event"
  "passes test_create_pod_missing_pod_is_invalid_argument"
  "passes test_create_pod_missing_spec_is_invalid_argument"
  "passes test_create_pod_empty_name_is_invalid_argument"
  "passes test_create_pod_invalid_name_charset_is_invalid_argument"
  "passes test_create_pod_empty_namespace_is_invalid_argument"
  "passes test_create_pod_invalid_namespace_charset_is_invalid_argument"
  "passes test_create_pod_no_containers_is_invalid_argument"
  "passes test_create_pod_container_missing_image_is_invalid_argument"
  "passes test_create_pod_empty_container_name_is_invalid_argument"
  "passes test_create_pod_duplicate_container_names_is_invalid_argument"
  "passes test_delete_pod_removes_existing_pod_and_returns_name"
  "passes test_delete_pod_missing_pod_returns_not_found"
  "passes test_delete_pod_publishes_deleted_event"
  "passes test_delete_pod_publishes_stop_to_the_assigned_node"
  "passes test_delete_pod_stop_goes_only_to_the_assigned_node"
  "passes test_delete_pod_without_node_name_skips_desired_state_event"
  by code_simp+

lemma cli_handler_tests_pass_whatever_the_order:
  "list_all (\<lambda>ord. passes (test_list_pods_returns_all_pods ord))
     (iteration_orders [(''default'', ''pod-a''), (''default'', ''pod-b''), (''kube-system'', ''pod-c'')])"
  "list_all (\<lambda>nord. passes (test_list_nodes_returns_all_nodes nord))
     (iteration_orders [''node-a'', ''node-b'', ''node-c''])"
  by code_simp+

end
