(* ===== verification/Scheduler_Handler_Tests.thy ===== *)
theory Scheduler_Handler_Tests imports Test_Support begin

text \<open>
  The tests of \<open>api/src/handlers/scheduler.rs\<close> and of \<open>api/src/errors.rs\<close>, in the files'
  order. The stream of a watch is its snapshot followed by the receiver's values.
\<close>

definition assign_request :: "string \<Rightarrow> string \<Rightarrow> assign_outcome option \<Rightarrow> assign_pod_request" where
  "assign_request ns nm outcome = \<lparr>ap_name = nm, ap_namespace = ns, ap_outcome = outcome\<rparr>"

definition placed_outcome :: "string \<Rightarrow> assign_outcome option" where
  "placed_outcome nn = Some (OutNodeName nn)"

definition unschedulable :: "string \<Rightarrow> assign_outcome option" where
  "unschedulable reason = Some (OutUnschedulable reason)"

definition orphaned :: "string \<Rightarrow> assign_outcome option" where
  "orphaned reason = Some (OutOrphaned reason)"

section \<open>Watches\<close>

text \<open>\<open>stream.next()\<close> on a stream whose channel has the log \<open>sent\<close>; \<open>None\<close> when it would wait.\<close>

fun watch_next :: "'e list \<times> nat \<Rightarrow> 'e list \<Rightarrow> ('e \<times> ('e list \<times> nat)) option" where
  "watch_next (e # items, pos) sent = Some (e, (items, pos))"
| "watch_next ([], pos) sent = (case try_recv sent pos of None \<Rightarrow> None | Some (e, pos') \<Rightarrow> Some (e, ([], pos')))"

definition test_watch_pods_receives_published_event :: test where
  "test_watch_pods_receives_published_event = do {
     (stream, s) \<leftarrow> unwrap (watch_pods_impl [] service);
     let p = fake_pod ''default'' ''my-pod'';
     let s = publish_pod_event EvAdded p s;
     (event, stream) \<leftarrow> watch_next stream (sto_pod_events s);
     asserts (wpe_pod event = Some p);
     asserts (wpe_event_type event = event_type_i32 EvAdded) }"

definition test_watch_pods_replays_pending_pods_created_before_subscribing :: test where
  "test_watch_pods_replays_pending_pods_created_before_subscribing = do {
     let p = fake_pod ''default'' ''already-pending'';
     (_, s) \<leftarrow> unwrap (upsert_pod p service);
     (stream, s) \<leftarrow> unwrap (watch_pods_impl [(''default'', ''already-pending'')] s);
     (event, stream) \<leftarrow> watch_next stream (sto_pod_events s);
     asserts (wpe_pod event = Some p);
     asserts (wpe_event_type event = event_type_i32 EvAdded) }"

definition test_watch_pods_snapshot_includes_already_scheduled_pods_before_pending_ones :: "pod_key list \<Rightarrow> test" where
  "test_watch_pods_snapshot_includes_already_scheduled_pods_before_pending_ones ord = do {
     let scheduled = (fake_pod ''default'' ''already-scheduled'')\<lparr>pd_node_name := ''node-a''\<rparr>;
     (_, s) \<leftarrow> unwrap (upsert_pod scheduled service);
     let pending = fake_pod ''default'' ''pending'';
     (_, s) \<leftarrow> unwrap (upsert_pod pending s);
     (stream, s) \<leftarrow> unwrap (watch_pods_impl ord s);
     (first, stream) \<leftarrow> watch_next stream (sto_pod_events s);
     asserts (wpe_pod first = Some scheduled);
     (second, stream) \<leftarrow> watch_next stream (sto_pod_events s);
     asserts (wpe_pod second = Some pending) }"

definition test_watch_nodes_receives_published_event :: test where
  "test_watch_nodes_receives_published_event = do {
     (stream, s) \<leftarrow> unwrap (watch_nodes_impl [] service);
     let nd = fake_node ''node-1'' NodeReady;
     let s = publish_node_event EvAdded nd s;
     (event, stream) \<leftarrow> watch_next stream (sto_node_events s);
     asserts (wne_node event = Some nd);
     asserts (wne_event_type event = event_type_i32 EvAdded) }"

definition test_watch_nodes_replays_existing_nodes_before_subscribing :: test where
  "test_watch_nodes_replays_existing_nodes_before_subscribing = do {
     let nd = fake_node ''node-1'' NodeReady;
     (_, s) \<leftarrow> unwrap (upsert_and_publish_node nd service);
     (stream, s) \<leftarrow> unwrap (watch_nodes_impl [''node-1''] s);
     (event, stream) \<leftarrow> watch_next stream (sto_node_events s);
     asserts (wne_node event = Some nd);
     asserts (wne_event_type event = event_type_i32 EvAdded) }"

definition test_watch_nodes_receives_added_then_modified :: test where
  "test_watch_nodes_receives_added_then_modified = do {
     (stream, s) \<leftarrow> unwrap (watch_nodes_impl [] service);
     (_, s) \<leftarrow> unwrap (upsert_and_publish_node (fake_node ''node-1'' NodeReady) s);
     (_, s) \<leftarrow> unwrap (upsert_and_publish_node (fake_node ''node-1'' NodeNotReady) s);
     (first, stream) \<leftarrow> watch_next stream (sto_node_events s);
     (second, stream) \<leftarrow> watch_next stream (sto_node_events s);
     asserts (wne_event_type first = event_type_i32 EvAdded);
     asserts (wne_event_type second = event_type_i32 EvModified);
     nd \<leftarrow> wne_node second;
     asserts (nd_status nd = node_status_i32 NodeNotReady) }"

section \<open>AssignPod\<close>

definition test_assign_pod_records_placement_and_publishes_run :: test where
  "test_assign_pod_records_placement_and_publishes_run = do {
     (_, s) \<leftarrow> unwrap (upsert_pod (fake_pod ''default'' ''my-pod'') service);
     let (desired, s) = subscribe_desired_state_events (\<lambda>_. 0) ''node-a'' s;
     let pod_events = subscribe_pod_events s;
     (_, s) \<leftarrow> unwrap (assign_pod_impl (assign_request ''default'' ''my-pod'' (placed_outcome ''node-a'')) s);
     (got, s) \<leftarrow> unwrap (get_pod ''default'' ''my-pod'' s);
     stored \<leftarrow> got;
     asserts (pd_node_name stored = ''node-a'');
     (pod_event, pod_events) \<leftarrow> try_recv (sto_pod_events s) pod_events;
     asserts (wpe_event_type pod_event = event_type_i32 EvScheduled);
     (run, desired) \<leftarrow> ds_try_recv desired s;
     asserts (dse_action run = ds_action_i32 DsRun);
     asserts (dse_pod run = pd_core stored) }"

definition test_assign_pod_unschedulable_records_reason :: test where
  "test_assign_pod_unschedulable_records_reason = do {
     (_, s) \<leftarrow> unwrap (upsert_pod (fake_pod ''default'' ''my-pod'') service);
     let pod_events = subscribe_pod_events s;
     (_, s) \<leftarrow> unwrap (assign_pod_impl (assign_request ''default'' ''my-pod''
                          (unschedulable ''no node with enough memory'')) s);
     (got, s) \<leftarrow> unwrap (get_pod ''default'' ''my-pod'' s);
     stored \<leftarrow> got;
     asserts (pd_unschedulable_reason stored = Some ''no node with enough memory'');
     asserts (pd_node_name stored = []);
     p \<leftarrow> core_pod stored;
     asserts (p_status p = pod_status_i32 PodNoNodeAvailable);
     (pod_event, pod_events) \<leftarrow> try_recv (sto_pod_events s) pod_events;
     asserts (wpe_event_type pod_event = event_type_i32 EvModified) }"

definition test_assign_pod_unschedulable_clears_a_stale_node_name :: test where
  "test_assign_pod_unschedulable_clears_a_stale_node_name = do {
     (_, s) \<leftarrow> unwrap (upsert_pod ((fake_pod ''default'' ''my-pod'')\<lparr>pd_node_name := ''node-a''\<rparr>) service);
     (_, s) \<leftarrow> unwrap (assign_pod_impl (assign_request ''default'' ''my-pod''
                          (unschedulable ''no node with enough memory'')) s);
     (got, s) \<leftarrow> unwrap (get_pod ''default'' ''my-pod'' s);
     stored \<leftarrow> got;
     asserts (pd_node_name stored = []) }"

definition test_assign_pod_clears_unschedulable_reason_on_placement :: test where
  "test_assign_pod_clears_unschedulable_reason_on_placement = do {
     (_, s) \<leftarrow> unwrap (upsert_pod ((fake_pod ''default'' ''my-pod'')\<lparr>pd_unschedulable_reason := Some ''no fit''\<rparr>) service);
     (_, s) \<leftarrow> unwrap (assign_pod_impl (assign_request ''default'' ''my-pod'' (placed_outcome ''node-a'')) s);
     (got, s) \<leftarrow> unwrap (get_pod ''default'' ''my-pod'' s);
     stored \<leftarrow> got;
     asserts (pd_unschedulable_reason stored = None);
     asserts (pd_node_name stored = ''node-a'') }"

definition test_assign_pod_placement_resets_unknown_status_to_pending :: test where
  "test_assign_pod_placement_resets_unknown_status_to_pending = do {
     let p = map_core_pod (\<lambda>p. p\<lparr>p_status := pod_status_i32 PodUnknown\<rparr>) (fake_pod ''default'' ''my-pod'');
     (_, s) \<leftarrow> unwrap (upsert_pod p service);
     (_, s) \<leftarrow> unwrap (assign_pod_impl (assign_request ''default'' ''my-pod'' (placed_outcome ''node-a'')) s);
     (got, s) \<leftarrow> unwrap (get_pod ''default'' ''my-pod'' s);
     stored \<leftarrow> got;
     asserts (pd_node_name stored = ''node-a'');
     p \<leftarrow> core_pod stored;
     asserts (p_status p = pod_status_i32 PodPending) }"

definition test_assign_pod_orphaned_clears_node_and_sets_unknown :: test where
  "test_assign_pod_orphaned_clears_node_and_sets_unknown = do {
     let p = map_core_pod (\<lambda>p. p\<lparr>p_status := pod_status_i32 PodRunning\<rparr>)
       ((fake_pod ''default'' ''my-pod'')\<lparr>pd_node_name := ''node-a''\<rparr>);
     (_, s) \<leftarrow> unwrap (upsert_pod p service);
     let pod_events = subscribe_pod_events s;
     (_, s) \<leftarrow> unwrap (assign_pod_impl (assign_request ''default'' ''my-pod''
                          (orphaned ''node node-a became NotReady'')) s);
     (got, s) \<leftarrow> unwrap (get_pod ''default'' ''my-pod'' s);
     stored \<leftarrow> got;
     asserts (pd_node_name stored = []);
     asserts (pd_unschedulable_reason stored = Some ''node node-a became NotReady'');
     p \<leftarrow> core_pod stored;
     asserts (p_status p = pod_status_i32 PodUnknown);
     (pod_event, pod_events) \<leftarrow> try_recv (sto_pod_events s) pod_events;
     asserts (wpe_event_type pod_event = event_type_i32 EvModified) }"

definition refused_for_ghost :: "assign_outcome option \<Rightarrow> bool" where
  "refused_for_ghost outcome = passes (do {
     (err, s) \<leftarrow> unwrap_err (assign_pod_impl (assign_request ''default'' ''ghost'' outcome) service);
     asserts (st_code err = NotFound);
     asserts (st_message err = ''pod default/ghost not found'') })"

definition test_assign_pod_unknown_pod_is_not_found :: test where
  "test_assign_pod_unknown_pod_is_not_found =
     asserts (list_all refused_for_ghost [placed_outcome ''node-a'', unschedulable ''no fit'', orphaned ''no fit''])"

definition test_assign_pod_missing_outcome_rejected :: test where
  "test_assign_pod_missing_outcome_rejected = do {
     (_, s) \<leftarrow> unwrap (upsert_pod (fake_pod ''default'' ''my-pod'') service);
     (err, s) \<leftarrow> unwrap_err (assign_pod_impl (assign_request ''default'' ''my-pod'' None) s);
     asserts (st_code err = InvalidArgument);
     asserts (st_message err = ''missing assignment outcome'') }"

section \<open>Error values\<close>

definition test_pod_not_found :: test where
  "test_pod_not_found = (let st = pod_not_found ''default'' ''my-pod''
     in asserts (st_code st = NotFound \<and> st_message st = ''pod default/my-pod not found''))"

definition test_node_not_found :: test where
  "test_node_not_found = (let st = node_not_found ''node-1''
     in asserts (st_code st = NotFound \<and> st_message st = ''node node-1 not found''))"

definition test_pod_already_exists :: test where
  "test_pod_already_exists = (let st = pod_already_exists ''default'' ''my-pod''
     in asserts (st_code st = AlreadyExists \<and> st_message st = ''pod default/my-pod already exists''))"

definition test_missing_node :: test where
  "test_missing_node = (let st = missing_node ''node-1''
     in asserts (st_code st = InvalidArgument \<and> st_message st = ''missing node node-1''))"

section \<open>They pass\<close>

lemma scheduler_handler_tests_pass:
  "passes test_watch_pods_receives_published_event"
  "passes test_watch_pods_replays_pending_pods_created_before_subscribing"
  "passes test_watch_nodes_receives_published_event"
  "passes test_watch_nodes_replays_existing_nodes_before_subscribing"
  "passes test_watch_nodes_receives_added_then_modified"
  "passes test_assign_pod_records_placement_and_publishes_run"
  "passes test_assign_pod_unschedulable_records_reason"
  "passes test_assign_pod_unschedulable_clears_a_stale_node_name"
  "passes test_assign_pod_clears_unschedulable_reason_on_placement"
  "passes test_assign_pod_placement_resets_unknown_status_to_pending"
  "passes test_assign_pod_orphaned_clears_node_and_sets_unknown"
  "passes test_assign_pod_unknown_pod_is_not_found"
  "passes test_assign_pod_missing_outcome_rejected"
  "passes test_pod_not_found"
  "passes test_node_not_found"
  "passes test_pod_already_exists"
  "passes test_missing_node"
  by code_simp+

lemma scheduler_handler_tests_pass_whatever_the_order:
  "list_all (\<lambda>ord. passes (test_watch_pods_snapshot_includes_already_scheduled_pods_before_pending_ones ord))
     (iteration_orders [(''default'', ''already-scheduled''), (''default'', ''pending'')])"
  by code_simp

end
