(* ===== verification/Scheduler_Tests.thy ===== *)
theory Scheduler_Tests imports Basic_Scheduler Test_Support begin

text \<open>
  The tests of \<open>scheduler/src/schedulers/basic.rs\<close>, in the file's order. The order in which the
  scheduler's hash maps are iterated is an argument where a test reads more than one entry.
\<close>

definition sized :: "string \<Rightarrow> resources \<Rightarrow> resources \<Rightarrow> node" where
  "sized nm capacity allocatable = \<lparr>nd_name = nm, nd_status = node_status_i32 NodeReady,
     nd_capacity = Some capacity, nd_allocatable = Some allocatable, nd_ip = []\<rparr>"

definition limits :: "int \<Rightarrow> int \<Rightarrow> resources" where
  "limits cpu memory = \<lparr>res_cpu = cpu, res_memory = memory\<rparr>"

definition tcp_port :: "nat \<Rightarrow> port" where
  "tcp_port external = \<lparr>port_internal = external, port_external = external, port_protocol = protocol_i32 Tcp\<rparr>"

text \<open>\<open>scheduler.upsert_node(...)\<close> where its answer is not used.\<close>

definition with_node :: "node \<Rightarrow> basic_scheduler \<Rightarrow> basic_scheduler" where
  "with_node nd s = snd (upsert_node nd s)"

section \<open>Usage\<close>

definition test_calculate_general_usage_0 :: test where
  "test_calculate_general_usage_0 = (let nd = sized ''n'' (limits 1000 1000) (limits 1000 1000)
     in asserts (calculate_general_usage scheduler_default nd = Some (FNum 0)))"

definition test_calculate_general_usage_50 :: test where
  "test_calculate_general_usage_50 = (let nd = sized ''n'' (limits 1000 1000) (limits 500 500)
     in asserts (calculate_general_usage scheduler_default nd = Some (FNum (1 / 2))))"

definition test_calculate_general_usage_100 :: test where
  "test_calculate_general_usage_100 = (let nd = sized ''n'' (limits 1000 1000) (limits 0 0)
     in asserts (calculate_general_usage scheduler_default nd = Some (FNum 1)))"

section \<open>Placements\<close>

definition record_placement_reduces_effective_allocatable :: test where
  "record_placement_reduces_effective_allocatable = do {
     let nd = sized ''n'' (limits 1000 1000) (limits 1000 1000);
     let s = record_placement ''default'' ''web'' ''n'' (limits 300 200) [] scheduler_default;
     asserts (effective_allocatable s nd = Some (limits 700 800)) }"

definition record_placement_is_idempotent_for_the_same_pod_and_node :: test where
  "record_placement_is_idempotent_for_the_same_pod_and_node = do {
     let nd = sized ''n'' (limits 1000 1000) (limits 1000 1000);
     let s = record_placement ''default'' ''web'' ''n'' (limits 300 200) [] scheduler_default;
     let s = record_placement ''default'' ''web'' ''n'' (limits 300 200) [] s;
     asserts (effective_allocatable s nd = Some (limits 700 800)) }"

definition release_placement_restores_effective_allocatable :: test where
  "release_placement_restores_effective_allocatable = do {
     let nd = sized ''n'' (limits 1000 1000) (limits 1000 1000);
     let s = record_placement ''default'' ''web'' ''n'' (limits 300 200) [] scheduler_default;
     let (released, s) = release_placement ''default'' ''web'' s;
     asserts released;
     asserts (effective_allocatable s nd = Some (limits 1000 1000)) }"

definition release_placement_of_an_unplaced_pod_is_a_no_op :: test where
  "release_placement_of_an_unplaced_pod_is_a_no_op = do {
     let nd = sized ''n'' (limits 1000 1000) (limits 1000 1000);
     let (released, s) = release_placement ''default'' ''never-placed'' scheduler_default;
     asserts (\<not> released);
     asserts (effective_allocatable s nd = Some (limits 1000 1000)) }"

definition place_skips_a_node_left_with_no_room_by_earlier_placements :: "string list \<Rightarrow> test" where
  "place_skips_a_node_left_with_no_room_by_earlier_placements ord = do {
     let s = with_node (sized ''full'' (limits 1000 1000) (limits 1000 1000)) scheduler_default;
     let s = with_node (sized ''empty'' (limits 1000 1000) (limits 1000 1000)) s;
     let s = record_placement ''default'' ''already-there'' ''full'' (limits 900 900) [] s;
     placed \<leftarrow> ok_value (place ord \<lparr>p_name = ''new'', p_status = 0, p_requests = None,
       p_limits = Some (limits 200 200)\<rparr> [] s);
     asserts (placed = ''empty'') }"

definition evict_node_releases_claims_and_returns_evicted_pods :: "pod_key list \<Rightarrow> test" where
  "evict_node_releases_claims_and_returns_evicted_pods ord = do {
     let s = with_node (sized ''dead'' (limits 1000 1000) (limits 1000 1000)) scheduler_default;
     let s = record_placement ''default'' ''web'' ''dead'' (limits 300 200) [] s;
     let s = record_placement ''ns2'' ''other'' ''dead'' (limits 100 100) [] s;
     let s = record_placement ''default'' ''elsewhere'' ''alive'' (limits 50 50) [] s;
     let (evicted, s) = evict_node ord ''dead'' s;
     asserts (length evicted = 2);
     asserts ((''default'', ''web'', limits 300 200, []) \<in> set evicted);
     asserts ((''ns2'', ''other'', limits 100 100, []) \<in> set evicted);
     let dead = sized ''dead'' (limits 1000 1000) (limits 1000 1000);
     asserts (effective_allocatable s dead = Some (limits 1000 1000));
     let (released, s) = release_placement ''default'' ''elsewhere'' s;
     asserts released }"

definition evict_node_with_no_placements_returns_empty :: test where
  "evict_node_with_no_placements_returns_empty = do {
     let s = with_node (sized ''solo'' (limits 1000 1000) (limits 1000 1000)) scheduler_default;
     let (evicted, s) = evict_node [] ''solo'' s;
     asserts (evicted = []) }"

definition remove_node_drops_its_placements :: test where
  "remove_node_drops_its_placements = do {
     let s = with_node (sized ''gone'' (limits 1000 1000) (limits 1000 1000)) scheduler_default;
     let s = record_placement ''default'' ''web'' ''gone'' (limits 300 200) [] s;
     let s = remove_node ''gone'' s;
     let s = with_node (sized ''gone'' (limits 1000 1000) (limits 1000 1000)) s;
     asserts (effective_allocatable s (sized ''gone'' (limits 1000 1000) (limits 1000 1000)) = Some (limits 1000 1000));
     let (released, s) = release_placement ''default'' ''web'' s;
     asserts (\<not> released) }"

section \<open>When a node is worth a retry\<close>

definition upsert_node_of_a_new_node_signals_retry :: test where
  "upsert_node_of_a_new_node_signals_retry = do {
     let (should_retry, s) = upsert_node (sized ''fresh'' (limits 1000 1000) (limits 1000 1000)) scheduler_default;
     asserts should_retry }"

definition upsert_node_recovering_to_ready_signals_retry :: test where
  "upsert_node_recovering_to_ready_signals_retry = do {
     let not_ready = (sized ''n'' (limits 1000 1000) (limits 1000 1000))\<lparr>nd_status := node_status_i32 NodeNotReady\<rparr>;
     let s = with_node not_ready scheduler_default;
     let (should_retry, s) = upsert_node (sized ''n'' (limits 1000 1000) (limits 1000 1000)) s;
     asserts should_retry }"

definition upsert_node_with_increased_allocatable_signals_retry :: test where
  "upsert_node_with_increased_allocatable_signals_retry = do {
     let s = with_node (sized ''n'' (limits 1000 1000) (limits 200 200)) scheduler_default;
     let (should_retry, s) = upsert_node (sized ''n'' (limits 1000 1000) (limits 500 500)) s;
     asserts should_retry }"

definition upsert_node_with_unchanged_allocatable_does_not_signal_retry :: test where
  "upsert_node_with_unchanged_allocatable_does_not_signal_retry = do {
     let s = with_node (sized ''n'' (limits 1000 1000) (limits 500 500)) scheduler_default;
     let (should_retry, s) = upsert_node (sized ''n'' (limits 1000 1000) (limits 500 500)) s;
     asserts (\<not> should_retry) }"

definition upsert_node_with_decreased_allocatable_does_not_signal_retry :: test where
  "upsert_node_with_decreased_allocatable_does_not_signal_retry = do {
     let s = with_node (sized ''n'' (limits 1000 1000) (limits 500 500)) scheduler_default;
     let (should_retry, s) = upsert_node (sized ''n'' (limits 1000 1000) (limits 100 100)) s;
     asserts (\<not> should_retry) }"

definition upsert_node_going_not_ready_does_not_signal_retry :: test where
  "upsert_node_going_not_ready_does_not_signal_retry = do {
     let s = with_node (sized ''n'' (limits 1000 1000) (limits 500 500)) scheduler_default;
     let not_ready = (sized ''n'' (limits 1000 1000) (limits 500 500))\<lparr>nd_status := node_status_i32 NodeNotReady\<rparr>;
     let (should_retry, s) = upsert_node not_ready s;
     asserts (\<not> should_retry) }"

definition is_confirmed_not_ready_true_only_for_a_known_not_ready_node :: test where
  "is_confirmed_not_ready_true_only_for_a_known_not_ready_node = do {
     asserts (\<not> is_confirmed_not_ready ''unseen'' scheduler_default);
     let s = with_node (sized ''ready-node'' (limits 1000 1000) (limits 1000 1000)) scheduler_default;
     asserts (\<not> is_confirmed_not_ready ''ready-node'' s);
     let dead = (sized ''dead-node'' (limits 1000 1000) (limits 1000 1000))\<lparr>nd_status := node_status_i32 NodeNotReady\<rparr>;
     let s = with_node dead s;
     asserts (is_confirmed_not_ready ''dead-node'' s) }"

section \<open>Host ports\<close>

definition sized_pod :: "string \<Rightarrow> int \<Rightarrow> int \<Rightarrow> pod" where
  "sized_pod nm cpu memory = \<lparr>p_name = nm, p_status = 0, p_requests = None, p_limits = Some (limits cpu memory)\<rparr>"

definition place_rejects_the_only_node_when_its_requested_port_is_already_claimed_there :: test where
  "place_rejects_the_only_node_when_its_requested_port_is_already_claimed_there = do {
     let s = with_node (sized ''only'' (limits 1000 1000) (limits 1000 1000)) scheduler_default;
     let s = record_placement ''default'' ''already-there'' ''only'' (limits 100 100) [tcp_port 8080] s;
     err \<leftarrow> err_value (place [''only''] (sized_pod ''new'' 100 100) [tcp_port 8080] s);
     asserts (err = ''no ready node has a free host port for this pod'') }"

definition place_skips_a_node_whose_port_is_taken_in_favor_of_a_free_one :: "string list \<Rightarrow> test" where
  "place_skips_a_node_whose_port_is_taken_in_favor_of_a_free_one ord = do {
     let s = with_node (sized ''taken'' (limits 1000 1000) (limits 1000 1000)) scheduler_default;
     let s = with_node (sized ''free'' (limits 1000 1000) (limits 1000 1000)) s;
     let s = record_placement ''default'' ''already-there'' ''taken'' (limits 100 100) [tcp_port 8080] s;
     placed \<leftarrow> ok_value (place ord (sized_pod ''new'' 100 100) [tcp_port 8080] s);
     asserts (placed = ''free'') }"

definition releasing_the_conflicting_placement_frees_the_port_for_retry :: test where
  "releasing_the_conflicting_placement_frees_the_port_for_retry = do {
     let s = with_node (sized ''only'' (limits 1000 1000) (limits 1000 1000)) scheduler_default;
     let s = record_placement ''default'' ''already-there'' ''only'' (limits 100 100) [tcp_port 8080] s;
     asserts (\<not> is_ok (place [''only''] (sized_pod ''new'' 100 100) [tcp_port 8080] s));
     let (released, s) = release_placement ''default'' ''already-there'' s;
     asserts released;
     placed \<leftarrow> ok_value (place [''only''] (sized_pod ''new'' 100 100) [tcp_port 8080] s);
     asserts (placed = ''only'') }"

definition evict_node_returns_ports_so_a_reschedule_can_carry_the_constraint_over :: test where
  "evict_node_returns_ports_so_a_reschedule_can_carry_the_constraint_over = do {
     let s = with_node (sized ''dead'' (limits 1000 1000) (limits 1000 1000)) scheduler_default;
     let s = record_placement ''default'' ''web'' ''dead'' (limits 300 200) [tcp_port 8080] s;
     let (evicted, s) = evict_node [(''default'', ''web'')] ''dead'' s;
     asserts (evicted = [(''default'', ''web'', limits 300 200, [tcp_port 8080])]) }"

definition a_different_port_on_the_same_node_does_not_conflict :: test where
  "a_different_port_on_the_same_node_does_not_conflict = do {
     let s = with_node (sized ''only'' (limits 1000 1000) (limits 1000 1000)) scheduler_default;
     let s = record_placement ''default'' ''already-there'' ''only'' (limits 100 100) [tcp_port 8080] s;
     placed \<leftarrow> ok_value (place [''only''] (sized_pod ''new'' 100 100) [tcp_port 9090] s);
     asserts (placed = ''only'') }"

section \<open>They pass\<close>

lemma scheduler_usage_tests_pass:
  "passes test_calculate_general_usage_0"
  "passes test_calculate_general_usage_50"
  "passes test_calculate_general_usage_100"
  by code_simp+

lemma scheduler_tests_pass:
  "passes record_placement_reduces_effective_allocatable"
  "passes record_placement_is_idempotent_for_the_same_pod_and_node"
  "passes release_placement_restores_effective_allocatable"
  "passes release_placement_of_an_unplaced_pod_is_a_no_op"
  "passes evict_node_with_no_placements_returns_empty"
  "passes remove_node_drops_its_placements"
  "passes upsert_node_of_a_new_node_signals_retry"
  "passes upsert_node_recovering_to_ready_signals_retry"
  "passes upsert_node_with_increased_allocatable_signals_retry"
  "passes upsert_node_with_unchanged_allocatable_does_not_signal_retry"
  "passes upsert_node_with_decreased_allocatable_does_not_signal_retry"
  "passes upsert_node_going_not_ready_does_not_signal_retry"
  "passes is_confirmed_not_ready_true_only_for_a_known_not_ready_node"
  by code_simp+

text \<open>The tests with host ports are simplified over these definitions: the evaluation of 8080 as a
  successor term is slow.\<close>

lemma less_used_same [simp]: "less_used s nd nd = nd"
  by (simp add: less_used_def split: option.splits)

lemmas test_defs = passes_def asserts_def with_node_def sized_def limits_def sized_pod_def tcp_port_def

lemmas scheduler_step_defs = scheduler_default_def upsert_node_def record_placement_def
  claim_placement_def release_placement_def evict_node_def place_def node_status_of_def
  node_status_of_i32_def fits_def effective_allocatable_def ports_available_def port_keys_def
  port_key_of_def add_claim_def sub_claim_def default_resources_def i32_add_def i32_sub_def
  wrap32_def List.map_filter_def map_values_def Let_def

lemma scheduler_port_tests_pass:
  "passes place_rejects_the_only_node_when_its_requested_port_is_already_claimed_there"
  "passes releasing_the_conflicting_placement_frees_the_port_for_retry"
  "passes evict_node_returns_ports_so_a_reschedule_can_carry_the_constraint_over"
  "passes a_different_port_on_the_same_node_does_not_conflict"
  "list_all (\<lambda>ord. passes (place_skips_a_node_whose_port_is_taken_in_favor_of_a_free_one ord))
     (iteration_orders [''taken'', ''free''])"
  by (simp_all add: test_defs scheduler_step_defs
    place_rejects_the_only_node_when_its_requested_port_is_already_claimed_there_def
    releasing_the_conflicting_placement_frees_the_port_for_retry_def
    evict_node_returns_ports_so_a_reschedule_can_carry_the_constraint_over_def
    a_different_port_on_the_same_node_does_not_conflict_def
    place_skips_a_node_whose_port_is_taken_in_favor_of_a_free_one_def)

lemma scheduler_tests_pass_whatever_the_order:
  "list_all (\<lambda>ord. passes (place_skips_a_node_left_with_no_room_by_earlier_placements ord))
     (iteration_orders [''full'', ''empty''])"
  "list_all (\<lambda>ord. passes (evict_node_releases_claims_and_returns_evicted_pods ord))
     (iteration_orders [(''default'', ''web''), (''ns2'', ''other''), (''default'', ''elsewhere'')])"
  by code_simp+

end
