(* ===== verification/Agent_Tests.thy ===== *)
theory Agent_Tests imports Agent_Examples Agent_Desired Test_Support begin

text \<open>
  The tests of the agent: \<open>containerd.rs\<close>, \<open>cgroup.rs\<close>, \<open>oci.rs\<close> and \<open>desired_state.rs\<close> of
  \<open>agent/src\<close>, in the files' order. The test that reads the machine it runs on
  (\<open>detect_capacity_reports_a_plausible_machine\<close>) has no counterpart.
\<close>

section \<open>Image references\<close>

definition normalize_reference_qualifies_a_bare_image_name :: test where
  "normalize_reference_qualifies_a_bare_image_name =
     asserts (normalize_reference ''nginx:1.27'' = ''docker.io/library/nginx:1.27'')"

definition normalize_reference_defaults_a_bare_name_without_a_tag_to_latest :: test where
  "normalize_reference_defaults_a_bare_name_without_a_tag_to_latest =
     asserts (normalize_reference ''nginx'' = ''docker.io/library/nginx:latest'')"

definition normalize_reference_defaults_a_namespaced_image_without_a_tag_to_latest :: test where
  "normalize_reference_defaults_a_namespaced_image_without_a_tag_to_latest =
     asserts (normalize_reference ''fluent/fluent-bit'' = ''docker.io/fluent/fluent-bit:latest'')"

definition normalize_reference_defaults_an_explicit_registry_host_without_a_tag_to_latest :: test where
  "normalize_reference_defaults_an_explicit_registry_host_without_a_tag_to_latest =
     asserts (normalize_reference ''ghcr.io/foo/bar'' = ''ghcr.io/foo/bar:latest'')"

definition normalize_reference_defaults_a_host_with_a_port_and_no_tag_to_latest :: test where
  "normalize_reference_defaults_a_host_with_a_port_and_no_tag_to_latest =
     asserts (normalize_reference ''localhost:5000/foo'' = ''localhost:5000/foo:latest'')"

definition normalize_reference_qualifies_a_namespaced_image :: test where
  "normalize_reference_qualifies_a_namespaced_image =
     asserts (normalize_reference ''fluent/fluent-bit:latest'' = ''docker.io/fluent/fluent-bit:latest'')"

definition normalize_reference_qualifies_a_digest_reference :: test where
  "normalize_reference_qualifies_a_digest_reference =
     asserts (normalize_reference ''nginx@sha256:aaaa'' = ''docker.io/library/nginx@sha256:aaaa'')"

definition normalize_reference_leaves_an_explicit_registry_host_alone :: test where
  "normalize_reference_leaves_an_explicit_registry_host_alone =
     asserts (normalize_reference ''ghcr.io/foo/bar:tag'' = ''ghcr.io/foo/bar:tag'')"

definition normalize_reference_leaves_a_fully_qualified_docker_hub_reference_alone :: test where
  "normalize_reference_leaves_a_fully_qualified_docker_hub_reference_alone =
     asserts (normalize_reference ''docker.io/library/nginx:1.27'' = ''docker.io/library/nginx:1.27'')"

definition normalize_reference_recognizes_a_host_with_a_port :: test where
  "normalize_reference_recognizes_a_host_with_a_port =
     asserts (normalize_reference ''localhost:5000/foo:tag'' = ''localhost:5000/foo:tag'')"

definition normalize_reference_recognizes_bare_localhost_as_a_host :: test where
  "normalize_reference_recognizes_bare_localhost_as_a_host =
     asserts (normalize_reference ''localhost/foo:tag'' = ''localhost/foo:tag'')"

lemma image_reference_tests_pass:
  "passes normalize_reference_qualifies_a_bare_image_name"
  "passes normalize_reference_defaults_a_bare_name_without_a_tag_to_latest"
  "passes normalize_reference_defaults_a_namespaced_image_without_a_tag_to_latest"
  "passes normalize_reference_defaults_an_explicit_registry_host_without_a_tag_to_latest"
  "passes normalize_reference_defaults_a_host_with_a_port_and_no_tag_to_latest"
  "passes normalize_reference_qualifies_a_namespaced_image"
  "passes normalize_reference_qualifies_a_digest_reference"
  "passes normalize_reference_leaves_an_explicit_registry_host_alone"
  "passes normalize_reference_leaves_a_fully_qualified_docker_hub_reference_alone"
  "passes normalize_reference_recognizes_a_host_with_a_port"
  "passes normalize_reference_recognizes_bare_localhost_as_a_host"
  by code_simp+

section \<open>Cgroups\<close>

definition test_containers_sit_under_the_cgroup_of_their_pod :: test where
  "test_containers_sit_under_the_cgroup_of_their_pod =
     asserts (pod_path ''default.web'' = ''/barenetes/default.web'')"

definition test_one_core_is_a_full_period_of_quota :: test where
  "test_one_core_is_a_full_period_of_quota =
     asserts (cpu_max 1000 = show_int cpu_period @ '' '' @ show_int cpu_period)"

definition test_millicpus_become_a_fraction_of_a_period :: test where
  "test_millicpus_become_a_fraction_of_a_period =
     asserts (cpu_max 250 = show_int (cpu_period div 4) @ '' '' @ show_int cpu_period)"

definition test_small_cpu_limits_are_clamped_to_the_kernel_minimum :: test where
  "test_small_cpu_limits_are_clamped_to_the_kernel_minimum =
     asserts (cpu_max 5 = show_int cpu_min_quota @ '' '' @ show_int cpu_period)"

text \<open>\<open>find(...).expect(...)\<close>.\<close>

definition value_of :: "resources option \<Rightarrow> string \<Rightarrow> string option" where
  "value_of limits file = map_of (limit_files limits) file"

definition test_a_pod_without_limits_resets_every_file_to_max :: test where
  "test_a_pod_without_limits_resets_every_file_to_max = do {
     asserts (value_of None ''cpu.max'' = Some (''max '' @ show_int cpu_period));
     asserts (value_of None ''memory.max'' = Some ''max'');
     asserts (value_of None ''memory.swap.max'' = Some ''max'') }"

definition test_dropping_one_limit_leaves_the_other_alone :: test where
  "test_dropping_one_limit_leaves_the_other_alone = do {
     let cpu_only = \<lparr>res_cpu = 500, res_memory = 0\<rparr>;
     asserts (value_of (Some cpu_only) ''cpu.max'' = Some (''50000 '' @ show_int cpu_period));
     asserts (value_of (Some cpu_only) ''memory.max'' = Some ''max'') }"

definition test_a_memory_limit_pins_swap_to_zero :: test where
  "test_a_memory_limit_pins_swap_to_zero = do {
     let memory_only = \<lparr>res_cpu = 0, res_memory = 512\<rparr>;
     asserts (value_of (Some memory_only) ''memory.swap.max'' = Some ''0'');
     asserts (value_of None ''memory.swap.max'' = Some ''max'') }"

definition test_memory_is_converted_to_bytes :: test where
  "test_memory_is_converted_to_bytes = asserts (memory_bytes 512 = 512 * 1024 * 1024)"

text \<open>On an agent and a host where the pod has no cgroup.\<close>

definition test_a_pod_without_limits_and_without_a_cgroup_is_left_alone :: "'w agent_env \<Rightarrow> 'w agent \<Rightarrow> test" where
  "test_a_pod_without_limits_and_without_a_cgroup_is_left_alone env s = do {
     let unknown = ''test.no-such-pod'';
     (_, s) \<leftarrow> unwrap (cgroup_create_pod env unknown None s);
     (_, s) \<leftarrow> unwrap (cgroup_create_pod env unknown (Some \<lparr>res_cpu = 0, res_memory = 0\<rparr>) s);
     Some () }"

definition test_pod_ids_cannot_escape_the_slice :: test where
  "test_pod_ids_cannot_escape_the_slice = do {
     asserts (\<not> is_ok (pod_dir ''../../devices''));
     asserts (\<not> is_ok (pod_dir ''..''));
     asserts (\<not> is_ok (pod_dir []));
     asserts (is_ok (pod_dir ''default.web'')) }"

lemma digit_chars: "digit_char 0 = CHR ''0''" "digit_char 5 = CHR ''5''"
  by code_simp+

lemma cgroup_tests_pass:
  "passes test_containers_sit_under_the_cgroup_of_their_pod"
  "passes test_one_core_is_a_full_period_of_quota"
  "passes test_millicpus_become_a_fraction_of_a_period"
  "passes test_small_cpu_limits_are_clamped_to_the_kernel_minimum"
  "passes test_a_pod_without_limits_resets_every_file_to_max"
  "passes test_dropping_one_limit_leaves_the_other_alone"
  "passes test_a_memory_limit_pins_swap_to_zero"
  "passes test_memory_is_converted_to_bytes"
  by (simp_all add: passes_def asserts_def Let_def test_containers_sit_under_the_cgroup_of_their_pod_def
      test_one_core_is_a_full_period_of_quota_def test_millicpus_become_a_fraction_of_a_period_def
      test_small_cpu_limits_are_clamped_to_the_kernel_minimum_def
      test_a_pod_without_limits_resets_every_file_to_max_def
      test_dropping_one_limit_leaves_the_other_alone_def test_a_memory_limit_pins_swap_to_zero_def
      test_memory_is_converted_to_bytes_def pod_path_def slice_def cpu_max_def cpu_period_def
      cpu_min_quota_def value_of_def limit_files_def positive_def memory_bytes_def show_int_def
      show_nat.simps digit_chars)

lemma pod_id_test_passes: "passes test_pod_ids_cannot_escape_the_slice"
  by code_simp

text \<open>Whatever the host, and without a single write: the agent is left as it was.\<close>

lemma no_cgroup_test_passes:
  assumes "\<not> ae_exists env ''/sys/fs/cgroup/barenetes/test.no-such-pod'' (ag_world s)"
  shows "passes (test_a_pod_without_limits_and_without_a_cgroup_is_left_alone env s)"
    and "cgroup_create_pod env ''test.no-such-pod'' None s = (Inr (), s)"
proof -
  have run: "cgroup_create_pod env ''test.no-such-pod'' limits s = (Inr (), s)" if "set_limits limits = None" for limits
    using assms that by (simp add: cgroup_create_pod_def pod_dir_def cgroup_root_def slice_def sbind_def)
  then show "cgroup_create_pod env ''test.no-such-pod'' None s = (Inr (), s)" by (simp add: set_limits_def)
  show "passes (test_a_pod_without_limits_and_without_a_cgroup_is_left_alone env s)"
    by (simp add: test_a_pod_without_limits_and_without_a_cgroup_is_left_alone_def run set_limits_def passes_def)
qed

section \<open>Runtime specs\<close>

definition spec_with :: "string \<Rightarrow> json" where
  "spec_with cgroups_path = oci_spec ''c'' [''/bin/sh''] [] ''/'' cgroups_path"

definition test_the_container_runs_in_the_cgroup_it_was_given :: test where
  "test_the_container_runs_in_the_cgroup_it_was_given = do {
     let spec = spec_with ''/barenetes/default.web/default.web-app'';
     asserts (json_get (json_get spec ''linux'') ''cgroupsPath'' = JStr ''/barenetes/default.web/default.web-app'') }"

definition test_the_container_cgroup_carries_no_limit_of_its_own :: test where
  "test_the_container_cgroup_carries_no_limit_of_its_own =
     asserts (json_get (json_get (spec_with ''/barenetes/default.web/default.web-app'') ''linux'') ''resources'' = JNull)"

text \<open>Indexing an array: out of range reads as null.\<close>

definition json_at :: "json \<Rightarrow> nat \<Rightarrow> json" where
  "json_at j i = (case j of JArr xs \<Rightarrow> if i < length xs then xs ! i else JNull | _ \<Rightarrow> JNull)"

definition test_the_cgroup_does_not_disturb_the_rest_of_the_spec :: test where
  "test_the_cgroup_does_not_disturb_the_rest_of_the_spec = do {
     let spec = spec_with ''/barenetes/default.web/default.web-app'';
     asserts (json_get spec ''hostname'' = JStr ''c'');
     asserts (json_get (json_at (json_get (json_get spec ''linux'') ''namespaces'') 0) ''type'' = JStr ''pid'') }"

lemma spec_tests_pass:
  "passes test_the_container_runs_in_the_cgroup_it_was_given"
  "passes test_the_container_cgroup_carries_no_limit_of_its_own"
  "passes test_the_cgroup_does_not_disturb_the_rest_of_the_spec"
  by code_simp+

section \<open>The node\<close>

definition sanitize_node_name_lowercases_and_drops_domain_suffix :: test where
  "sanitize_node_name_lowercases_and_drops_domain_suffix =
     asserts (sanitize_node_name ''Debian13.localdomain'' = ''debian13'')"

definition sanitize_node_name_collapses_invalid_characters :: test where
  "sanitize_node_name_collapses_invalid_characters = asserts (sanitize_node_name ''my_host_01'' = ''my-host-01'')"

definition sanitize_node_name_trims_leading_and_trailing_dashes :: test where
  "sanitize_node_name_trims_leading_and_trailing_dashes = asserts (sanitize_node_name ''_worker_'' = ''worker'')"

definition sanitize_node_name_of_only_invalid_characters_is_empty :: test where
  "sanitize_node_name_of_only_invalid_characters_is_empty = asserts (sanitize_node_name ''...'' = [])"

definition parse_mem_total_kb_reads_the_first_matching_line :: test where
  "parse_mem_total_kb_reads_the_first_matching_line = do {
     let meminfo = ''MemTotal:       16384000 kB'' @ [CHR 0x0A] @ ''MemFree:         1000000 kB'' @ [CHR 0x0A];
     kb \<leftarrow> parse_mem_total_kb meminfo;
     asserts (kb = 16384000) }"

definition parse_mem_total_kb_errors_when_missing :: test where
  "parse_mem_total_kb_errors_when_missing =
     asserts (parse_mem_total_kb (''garbage'' @ [CHR 0x0A] @ ''more garbage'' @ [CHR 0x0A]) = None)"

lemma node_tests_pass:
  "passes sanitize_node_name_lowercases_and_drops_domain_suffix"
  "passes sanitize_node_name_collapses_invalid_characters"
  "passes sanitize_node_name_trims_leading_and_trailing_dashes"
  "passes sanitize_node_name_of_only_invalid_characters_is_empty"
  "passes parse_mem_total_kb_errors_when_missing"
  by code_simp+

text \<open>The number is read by \<open>simp\<close>: the bound of the parser is \<open>u64::MAX\<close>.\<close>

lemma mem_total_test_passes: "passes parse_mem_total_kb_reads_the_first_matching_line"
proof -
  let ?meminfo = "''MemTotal:       16384000 kB'' @ [CHR 0x0A] @ ''MemFree:         1000000 kB'' @ [CHR 0x0A]"
  have "List.map_filter (strip_prefix ''MemTotal:'') (text_lines ?meminfo) = [''       16384000 kB'']"
    by code_simp
  moreover have "first_word ''       16384000 kB'' = Some ''16384000''" by code_simp
  moreover have "parse_unsigned 18446744073709551615 ''16384000'' = Some 16384000"
    by (simp add: parse_unsigned_def digit_val_def)
  ultimately have "parse_mem_total_kb ?meminfo = Some 16384000"
    unfolding parse_mem_total_kb_def by simp
  then show ?thesis
    unfolding parse_mem_total_kb_reads_the_first_matching_line_def Let_def passes_def by (simp add: asserts_def)
qed

end
