(* ===== verification/Cni_Tests.thy ===== *)
theory Cni_Tests imports Cni_Reconcile Cni_Examples Test_Support "HOL-Library.List_Lexorder" "HOL-Library.Char_ord" begin

text \<open>
  The tests of the CNI daemon: \<open>addressing.rs\<close>, \<open>ip_pool.rs\<close>, \<open>state.rs\<close>,
  \<open>network/firewall.rs\<close>, \<open>network/workload.rs\<close> and \<open>network/reconcile.rs\<close> of \<open>cni/src\<close>. A
  temporary directory is an empty file tree on a host whose file-system calls all succeed
  (\<open>temp_host\<close>); the files a test lists are given in some order where the order matters.
\<close>

section \<open>Addressing\<close>

definition computes_the_gateway_for_a_tenant_and_node :: test where
  "computes_the_gateway_for_a_tenant_and_node = do {
     asserts (gateway 100 1 = ipv4_new 10 100 1 1);
     asserts (gateway 200 2 = ipv4_new 10 200 2 1) }"

definition computes_the_pool_range_for_a_tenant_and_node :: test where
  "computes_the_pool_range_for_a_tenant_and_node =
     asserts (pool_range 100 1 = (ipv4_new 10 100 1 2, ipv4_new 10 100 1 254))"

definition different_tenants_never_share_a_range :: test where
  "different_tenants_never_share_a_range = do {
     let (first_a, last_a) = pool_range 100 1;
     let (first_b, last_b) = pool_range 200 1;
     asserts (first_a \<noteq> first_b);
     asserts (last_a \<noteq> last_b) }"

definition different_nodes_never_share_a_range :: test where
  "different_nodes_never_share_a_range = do {
     let (first_node_1, _) = pool_range 100 1;
     let (first_node_2, _) = pool_range 100 2;
     asserts (first_node_1 \<noteq> first_node_2) }"

lemma addressing_tests_pass:
  "passes computes_the_gateway_for_a_tenant_and_node"
  "passes computes_the_pool_range_for_a_tenant_and_node"
  "passes different_tenants_never_share_a_range"
  "passes different_nodes_never_share_a_range"
  by (simp_all add: passes_def asserts_def computes_the_gateway_for_a_tenant_and_node_def
      computes_the_pool_range_for_a_tenant_and_node_def different_tenants_never_share_a_range_def
      different_nodes_never_share_a_range_def gateway_def pool_range_def ipv4_new_def)

section \<open>Address pools\<close>

text \<open>A stand-in for SHA-256: 32 copies of a byte that depends on every byte of the input.\<close>

definition mixed_digest :: "string \<Rightarrow> nat list" where
  "mixed_digest x = replicate 32 (foldl (\<lambda>acc c. (acc * 31 + of_char c) mod 251) 7 x)"

definition temp_host :: "unit host" where
  "temp_host = (ok_host (\<lambda>_ _. None))\<lparr>h_digest := mixed_digest\<rparr>"

definition temp_dir :: "unit cni" where
  "temp_dir = \<lparr>c_state = Map.empty, c_pools = Map.empty, c_kernel = (), c_clock = 0\<rparr>"

definition directory_gives_each_tenant_its_own_pool :: test where
  "directory_gives_each_tenant_its_own_pool = do {
     tenant_a \<leftarrow> ok_value (pool 1 100);
     tenant_b \<leftarrow> ok_value (pool 1 200);
     (address_a, s) \<leftarrow> unwrap (allocate temp_host tenant_a temp_dir);
     (address_b, s) \<leftarrow> unwrap (allocate temp_host tenant_b s);
     asserts (address_a \<noteq> address_b);
     asserts (address_a = ipv4_new 10 100 1 2);
     asserts (address_b = ipv4_new 10 200 1 2) }"

definition directory_rejects_a_vlan_outside_a_single_byte :: test where
  "directory_rejects_a_vlan_outside_a_single_byte = asserts (\<not> is_ok (pool 1 4094))"

definition allocates_persists_and_releases_addresses :: test where
  "allocates_persists_and_releases_addresses = do {
     let first = ipv4_new 10 0 0 2;
     let last = ipv4_new 10 0 0 3;
     p \<leftarrow> ok_value (ip_pool_new ''pool'' first last);
     (a, s) \<leftarrow> unwrap (allocate temp_host p temp_dir);
     asserts (a = first);
     (a, s) \<leftarrow> unwrap (allocate temp_host p s);
     asserts (a = last);
     (err, s) \<leftarrow> unwrap_err (allocate temp_host p s);
     (released, s) \<leftarrow> unwrap (release temp_host p first s);
     asserts released;
     reopened \<leftarrow> ok_value (ip_pool_new ''pool'' first last);
     (a, s) \<leftarrow> unwrap (allocate temp_host reopened s);
     asserts (a = first) }"

definition resets_the_allocated_set :: test where
  "resets_the_allocated_set = do {
     let first = ipv4_new 10 0 0 2;
     let last = ipv4_new 10 0 0 4;
     p \<leftarrow> ok_value (ip_pool_new ''pool'' first last);
     (_, s) \<leftarrow> unwrap (allocate temp_host p temp_dir);
     (_, s) \<leftarrow> unwrap (allocate temp_host p s);
     let kept = ipv4_new 10 0 0 4;
     (_, s) \<leftarrow> unwrap (reset temp_host p {kept} s);
     (released, s) \<leftarrow> unwrap (release temp_host p first s);
     asserts (\<not> released);
     (released, s) \<leftarrow> unwrap (release temp_host p kept s);
     asserts released }"

definition known_vlans_lists_existing_pool_directories_only :: "string list \<Rightarrow> test" where
  "known_vlans_lists_existing_pool_directories_only ord = do {
     (vlans, s) \<leftarrow> unwrap (known_vlans temp_host [] temp_dir);
     asserts (vlans = []);
     p \<leftarrow> ok_value (pool 1 100);
     (_, s) \<leftarrow> unwrap (allocate temp_host p s);
     p \<leftarrow> ok_value (pool 1 200);
     (_, s) \<leftarrow> unwrap (allocate temp_host p s);
     let s = s\<lparr>c_pools := (c_pools s)(''not-a-pool'' \<mapsto> PoolDir None)\<rparr>;
     (vlans, s) \<leftarrow> unwrap (known_vlans temp_host ord s);
     asserts (sort vlans = [100, 200]) }"

definition fails_closed_on_corrupt_state :: test where
  "fails_closed_on_corrupt_state = do {
     let s = temp_dir\<lparr>c_pools := (c_pools temp_dir)(''pool'' \<mapsto> PoolDir (Some Garbage))\<rparr>;
     p \<leftarrow> ok_value (ip_pool_new ''pool'' (ipv4_new 10 0 0 2) (ipv4_new 10 0 0 3));
     (err, s) \<leftarrow> unwrap_err (allocate temp_host p s);
     asserts (io_kind err = KInvalidData) }"

text \<open>On this host no file-system call fails; the lowest address of a pool is free when it is not
  recorded.\<close>

lemma temp_fs [simp]: "fs temp_host c s = (Inr (), s\<lparr>c_clock := Suc (c_clock s)\<rparr>)"
  by (simp add: fs_def temp_host_def ok_host_def)

lemma take_free_lowest: "pl_first p \<notin> A \<Longrightarrow> pl_first p \<le> pl_last p \<Longrightarrow>
   take_free p A = Inr (pl_first p, insert (pl_first p) A)"
  by (simp add: take_free_def upt_conv_Cons del: upt_Suc)

lemmas pool_test_defs = passes_def asserts_def sbind_def Let_def temp_dir_def pool_def pool_range_def
  ip_pool_new_def ipv4_new_def allocate_def release_def reset_def with_pool_state_def
  create_pool_dir_def read_pool_def write_pool_def fail_with_def

lemma pool_tests_pass:
  "passes directory_gives_each_tenant_its_own_pool"
  "passes directory_rejects_a_vlan_outside_a_single_byte"
  "passes allocates_persists_and_releases_addresses"
  "passes resets_the_allocated_set"
  "passes fails_closed_on_corrupt_state"
  subgoal by (simp add: directory_gives_each_tenant_its_own_pool_def pool_test_defs take_free_lowest pool_dir_def)
  subgoal by (simp add: directory_rejects_a_vlan_outside_a_single_byte_def pool_test_defs)
  subgoal by (simp add: allocates_persists_and_releases_addresses_def pool_test_defs take_free_def)
  subgoal by (simp add: resets_the_allocated_set_def pool_test_defs take_free_def)
  subgoal by (simp add: fails_closed_on_corrupt_state_def pool_test_defs)
  done

lemma vlan_dirs: "vlan_of_dir (pool_dir 100) = Some 100" "vlan_of_dir (pool_dir 200) = Some 200"
  "vlan_of_dir ''not-a-pool'' = None" "pool_dir 100 \<noteq> pool_dir 200" "pool_dir v \<noteq> ''not-a-pool''"
proof -
  show "vlan_of_dir ''not-a-pool'' = None" by code_simp
  show "pool_dir 100 \<noteq> pool_dir 200" by (auto dest: pool_dir_inj)
  show "pool_dir v \<noteq> ''not-a-pool''" by (simp add: pool_dir_def)
qed (simp_all add: pool_dir_vlan)

lemma known_vlans_test_passes:
  "list_all (\<lambda>ord. passes (known_vlans_lists_existing_pool_directories_only ord))
     (iteration_orders [pool_dir 100, pool_dir 200, ''not-a-pool''])"
  by (simp add: known_vlans_lists_existing_pool_directories_only_def known_vlans_def pool_test_defs
      take_free_lowest vlan_dirs vlan_dirs(4)[symmetric] vlan_dirs(5)[symmetric])

section \<open>Workload records\<close>

definition test_record :: workload_record where
  "test_record = \<lparr>wr_workload_name = ''api'', wr_instance_name = ''api-1'', wr_network_name = ''tenant-a'',
     wr_host_interface = ''v123'', wr_interface_name = ''eth0'', wr_ip_address = ''10.100.1.2'',
     wr_gateway = ''10.100.1.1'', wr_vlan_id = 42,
     wr_port_mappings = [\<lparr>port_internal = 80, port_external = 8080, port_protocol = protocol_i32 Tcp\<rparr>]\<rparr>"

definition saves_loads_and_deletes_a_record :: test where
  "saves_loads_and_deletes_a_record = do {
     let expected = test_record;
     (_, s) \<leftarrow> unwrap (save temp_host expected temp_dir);
     (found, s) \<leftarrow> unwrap (load temp_host ''api'' ''api-1'' ''tenant-a'' s);
     loaded \<leftarrow> found;
     asserts (wr_ip_address loaded = wr_ip_address expected);
     asserts (wr_vlan_id loaded = wr_vlan_id expected);
     (used, s) \<leftarrow> unwrap (port_is_used temp_host [record_path temp_host expected] (protocol_i32 Tcp) 8080 s);
     asserts used;
     (deleted, s) \<leftarrow> unwrap (delete_record temp_host ''api'' ''api-1'' ''tenant-a'' s);
     asserts deleted;
     (found, s) \<leftarrow> unwrap (load temp_host ''api'' ''api-1'' ''tenant-a'' s);
     asserts (found = None) }"

definition stable_ids_include_part_boundaries :: test where
  "stable_ids_include_part_boundaries =
     asserts (stable_id temp_host [''ab'', ''c''] \<noteq> stable_id temp_host [''a'', ''bc''])"

definition records_lists_every_saved_workload :: "string list \<Rightarrow> test" where
  "records_lists_every_saved_workload ord = do {
     (rs, s) \<leftarrow> unwrap (records temp_host [] temp_dir);
     asserts (rs = []);
     let second = test_record\<lparr>wr_instance_name := ''api-2''\<rparr>;
     (_, s) \<leftarrow> unwrap (save temp_host test_record s);
     (_, s) \<leftarrow> unwrap (save temp_host second s);
     (rs, s) \<leftarrow> unwrap (records temp_host ord s);
     asserts (sort (map wr_instance_name rs) = [''api-1'', ''api-2'']) }"

definition records_skips_a_corrupt_file_instead_of_failing_the_whole_listing :: "string list \<Rightarrow> test" where
  "records_skips_a_corrupt_file_instead_of_failing_the_whole_listing ord = do {
     (_, s) \<leftarrow> unwrap (save temp_host test_record temp_dir);
     let s = s\<lparr>c_state := (c_state s)(''corrupt.json'' \<mapsto> Garbage)\<rparr>;
     (rs, s) \<leftarrow> unwrap (records temp_host ord s);
     asserts (length rs = 1);
     asserts (wr_instance_name (rs ! 0) = ''api-1'') }"

text \<open>The names of the two records and the two ids: the digests by \<open>simp\<close>, since a length is hashed as
  eight bytes.\<close>

lemma u64_bytes_eight: "u64_bytes n = [char_of (n div 72057594037927936 mod 256), char_of (n div 281474976710656 mod 256),
   char_of (n div 1099511627776 mod 256), char_of (n div 4294967296 mod 256), char_of (n div 16777216 mod 256),
   char_of (n div 65536 mod 256), char_of (n div 256 mod 256), char_of (n mod 256)]"
proof -
  have "[0..<8] = [0, 1, 2, 3, 4, 5, 6, 7::nat]" by code_simp
  then show ?thesis unfolding u64_bytes_def by simp
qed

lemma test_digests:
  "mixed_digest (hashed_bytes [''api'', ''api-1'', ''tenant-a'']) = replicate 32 177"
  "mixed_digest (hashed_bytes [''api'', ''api-2'', ''tenant-a'']) = replicate 32 57"
  "mixed_digest (hashed_bytes [''ab'', ''c'']) = replicate 32 9"
  "mixed_digest (hashed_bytes [''a'', ''bc'']) = replicate 32 43"
  by (simp_all add: mixed_digest_def hashed_bytes_def u64_bytes_eight of_char_of)

lemma test_ids:
  "stable_id temp_host [''api'', ''api-1'', ''tenant-a''] = ''b1b1b1b1b1b1b1b1b1b1b1b1''"
  "stable_id temp_host [''api'', ''api-2'', ''tenant-a''] = ''393939393939393939393939''"
  "stable_id temp_host [''ab'', ''c''] = ''090909090909090909090909''"
  "stable_id temp_host [''a'', ''bc''] = ''2b2b2b2b2b2b2b2b2b2b2b2b''"
proof -
  have h: "h_digest temp_host = mixed_digest" by (simp add: temp_host_def)
  have hex: "concat (map hex_byte (take 12 (replicate 32 177))) = ''b1b1b1b1b1b1b1b1b1b1b1b1''"
    "concat (map hex_byte (take 12 (replicate 32 57))) = ''393939393939393939393939''"
    "concat (map hex_byte (take 12 (replicate 32 9))) = ''090909090909090909090909''"
    "concat (map hex_byte (take 12 (replicate 32 43))) = ''2b2b2b2b2b2b2b2b2b2b2b2b''"
    by code_simp+
  show
    "stable_id temp_host [''api'', ''api-1'', ''tenant-a''] = ''b1b1b1b1b1b1b1b1b1b1b1b1''"
    "stable_id temp_host [''api'', ''api-2'', ''tenant-a''] = ''393939393939393939393939''"
    "stable_id temp_host [''ab'', ''c''] = ''090909090909090909090909''"
    "stable_id temp_host [''a'', ''bc''] = ''2b2b2b2b2b2b2b2b2b2b2b2b''"
    unfolding stable_id_def h test_digests hex by (rule refl)+
qed

lemma stable_id_test_passes: "passes stable_ids_include_part_boundaries"
  by (simp add: passes_def asserts_def stable_ids_include_part_boundaries_def test_ids)

lemmas record_test_defs = passes_def asserts_def sbind_def Let_def temp_dir_def save_def load_def
  delete_record_def port_is_used_def maps_port_def records_def read_record_def read_file_def
  record_path_def state_path_def test_ids test_record_def has_json_extension_def ends_with_def fail_with_def

lemma temp_not_too_large [simp]: "h_too_large temp_host r = False"
  by (simp add: temp_host_def ok_host_def)

lemma record_tests_pass:
  "passes saves_loads_and_deletes_a_record"
  "list_all (\<lambda>ord. passes (records_lists_every_saved_workload ord))
     (iteration_orders [''b1b1b1b1b1b1b1b1b1b1b1b1.json'', ''393939393939393939393939.json''])"
  "list_all (\<lambda>ord. passes (records_skips_a_corrupt_file_instead_of_failing_the_whole_listing ord))
     (iteration_orders [''b1b1b1b1b1b1b1b1b1b1b1b1.json'', ''corrupt.json''])"
  subgoal by (simp add: saves_loads_and_deletes_a_record_def record_test_defs)
  subgoal by (simp add: records_lists_every_saved_workload_def record_test_defs)
  subgoal by (simp add: records_skips_a_corrupt_file_instead_of_failing_the_whole_listing_def record_test_defs)
  done

section \<open>Port mappings\<close>

definition mapping :: "nat \<Rightarrow> nat \<Rightarrow> protocol \<Rightarrow> port" where
  "mapping external internal protocol =
     \<lparr>port_internal = internal, port_external = external, port_protocol = protocol_i32 protocol\<rparr>"

definition accepts_tcp_and_udp_mappings :: test where
  "accepts_tcp_and_udp_mappings =
     asserts (is_ok (validate_mappings [mapping 8080 80 Tcp, mapping 5353 53 Udp]))"

definition rejects_invalid_or_duplicate_mappings :: test where
  "rejects_invalid_or_duplicate_mappings = do {
     asserts (\<not> is_ok (validate_mappings [mapping 0 80 Tcp]));
     asserts (\<not> is_ok (validate_mappings [mapping 80 0 Tcp]));
     asserts (\<not> is_ok (validate_mappings [mapping 8080 80 Tcp, mapping 8080 81 Tcp])) }"

lemma mapping_tests_pass: "passes accepts_tcp_and_udp_mappings" "passes rejects_invalid_or_duplicate_mappings"
  by (simp_all add: passes_def asserts_def accepts_tcp_and_udp_mappings_def
      rejects_invalid_or_duplicate_mappings_def validate_mappings_def mapping_def valid_port_def
      protocol_of_i32_def)

section \<open>Requests\<close>

definition netns_request :: "string \<Rightarrow> add_network_request" where
  "netns_request netns_path = \<lparr>
     an_workload = Some \<lparr>wl_workload_name = ''api'', wl_instance_name = ''api-1''\<rparr>,
     an_network = Some \<lparr>nw_network_name = ''tenant-a'', nw_vlan_id = 100\<rparr>,
     an_netns_path = netns_path, an_interface_name = [], an_port_mappings = []\<rparr>"

definition accepts_a_valid_request :: test where
  "accepts_a_valid_request = do {
     (_, _, pid, interface_nm) \<leftarrow> ok_value (validate_add_request (netns_request ''/proc/4242/ns/net''));
     asserts (pid = 4242);
     asserts (interface_nm = ''eth0'') }"

definition malformed_netns_paths :: "string list" where
  "malformed_netns_paths = [[], ''proc/42/ns/net'', ''/proc/0/ns/net'', ''/proc/self/ns/net'', ''/proc/../proc/1/ns/net'',
     ''/proc/42/ns/net/extra'', ''/var/run/netns/pod'']"

definition rejects_malformed_netns_paths :: test where
  "rejects_malformed_netns_paths =
     asserts (list_all (\<lambda>path. \<not> is_ok (validate_add_request (netns_request path))) malformed_netns_paths)"

definition rejects_the_host_network_namespace :: "'k host \<Rightarrow> 'k cni \<Rightarrow> test" where
  "rejects_the_host_network_namespace h s = do {
     (err, s) \<leftarrow> unwrap_err (open_netns h ''/proc/self/ns/net'' s);
     asserts (io_kind err = KInvalidInput) }"

definition rejects_invalid_names :: test where
  "rejects_invalid_names = do {
     let too_long = replicate 64 (CHR ''a'');
     asserts (list_all (\<lambda>name. \<not> is_ok (validate_name name)) [[], ''a/b'', ''a b'', ''a;b'', ''a$(id)'', too_long]);
     asserts (is_ok (validate_name ''api-1.default_x'')) }"

definition rejects_vlan_ids_outside_the_bridge_range :: test where
  "rejects_vlan_ids_outside_the_bridge_range =
     asserts (list_all (\<lambda>vlan. \<not> is_ok (validate_add_request ((netns_request ''/proc/4242/ns/net'')
         \<lparr>an_network := Some \<lparr>nw_network_name = ''tenant-a'', nw_vlan_id = vlan\<rparr>\<rparr>))) [0, 4095, 65536])"

definition rejects_interface_names_the_kernel_cannot_hold :: test where
  "rejects_interface_names_the_kernel_cannot_hold =
     asserts (\<not> is_ok (validate_add_request
       ((netns_request ''/proc/4242/ns/net'')\<lparr>an_interface_name := replicate 16 (CHR ''e'')\<rparr>)))"

definition host_interface_names_are_recognized_by_is_host_interface_name :: test where
  "host_interface_names_are_recognized_by_is_host_interface_name = do {
     let name = host_interface_name temp_host ''api'' ''api-1'' ''tenant-a'';
     asserts (is_host_interface_name name);
     asserts (\<not> is_host_interface_name ''barenetes0'');
     asserts (\<not> is_host_interface_name ''barenetes0.100'');
     asserts (\<not> is_host_interface_name ''barenetes-vx'') }"

lemmas request_test_defs = passes_def asserts_def Let_def netns_request_def validate_add_request_def
  validate_refs_def is_ok_def

lemma name_check_ok [simp]: "validate_name ''api'' = Inr ()" "validate_name ''api-1'' = Inr ()"
  "validate_name ''tenant-a'' = Inr ()"
  by code_simp+

lemma netns_pid_samples:
  "netns_pid ''/proc/4242/ns/net'' = Some 4242"
  "list_all (\<lambda>p. netns_pid p = None) malformed_netns_paths"
  by (simp_all add: netns_pid_def parse_unsigned_def digit_val_def starts_with_def malformed_netns_paths_def)

lemma request_tests_pass:
  "passes accepts_a_valid_request"
  "passes rejects_malformed_netns_paths"
  "passes rejects_invalid_names"
  "passes rejects_vlan_ids_outside_the_bridge_range"
  "passes rejects_interface_names_the_kernel_cannot_hold"
  subgoal by (simp add: accepts_a_valid_request_def request_test_defs netns_pid_samples is_alnum_ascii_def
      is_digit_char_def digit_val_def) code_simp
  subgoal using netns_pid_samples(2)
    by (simp add: rejects_malformed_netns_paths_def request_test_defs list_all_iff)
  subgoal by code_simp
  subgoal by (simp add: rejects_vlan_ids_outside_the_bridge_range_def request_test_defs)
  subgoal by (simp add: rejects_interface_names_the_kernel_cannot_hold_def request_test_defs)
  done

lemma interface_name_test_passes: "passes host_interface_names_are_recognized_by_is_host_interface_name"
proof -
  have "is_host_interface_name ''vb1b1b1b1b1''" "\<not> is_host_interface_name ''barenetes0''"
    "\<not> is_host_interface_name ''barenetes0.100''" "\<not> is_host_interface_name ''barenetes-vx''"
    by code_simp+
  then show ?thesis
    by (simp add: passes_def asserts_def Let_def host_interface_names_are_recognized_by_is_host_interface_name_def
        host_interface_name_def host_interface_id_len_def test_ids)
qed

text \<open>On every host that reads the same identity twice for its own namespace.\<close>

lemma host_namespace_test_passes:
  assumes "h_open_ns h ''/proc/self/ns/net'' (c_kernel s) = Inr f"
    and "h_ns_id h ''/proc/self/ns/net'' (c_kernel s) = Inr (nf_id f)"
  shows "passes (rejects_the_host_network_namespace h s)"
  using assms by (simp add: passes_def asserts_def rejects_the_host_network_namespace_def open_netns_def
      sbind_def fail_with_def)

section \<open>Rebuilding the pools\<close>

definition live_record :: "nat \<Rightarrow> string \<Rightarrow> workload_record" where
  "live_record vlan ip = \<lparr>wr_workload_name = ''api'', wr_instance_name = ''api-1'', wr_network_name = ''tenant-a'',
     wr_host_interface = ''v123'', wr_interface_name = ''eth0'', wr_ip_address = ip,
     wr_gateway = ''10.100.1.1'', wr_vlan_id = vlan, wr_port_mappings = []\<rparr>"

definition rebuild_ip_pools_covers_a_live_vlan_missing_its_pool_directory :: test where
  "rebuild_ip_pools_covers_a_live_vlan_missing_its_pool_directory = do {
     (_, s) \<leftarrow> unwrap (rebuild_ip_pools temp_host 1 [] [live_record 100 ''10.100.1.5''] temp_dir);
     (vlans, s) \<leftarrow> unwrap (known_vlans temp_host [pool_dir 100] s);
     asserts (vlans = [100]);
     p \<leftarrow> ok_value (pool 1 100);
     (released, s) \<leftarrow> unwrap (release temp_host p (ipv4_new 10 100 1 5) s);
     asserts released }"

definition rebuild_ip_pools_skips_an_invalid_address_without_aborting :: test where
  "rebuild_ip_pools_skips_an_invalid_address_without_aborting = do {
     let broken = (live_record 100 ''not-an-ip'')\<lparr>wr_instance_name := ''broken''\<rparr>;
     (_, s) \<leftarrow> unwrap (rebuild_ip_pools temp_host 1 [] [broken, live_record 100 ''10.100.1.5''] temp_dir);
     p \<leftarrow> ok_value (pool 1 100);
     (released, s) \<leftarrow> unwrap (release temp_host p (ipv4_new 10 100 1 5) s);
     asserts released }"

definition rebuild_ip_pools_clears_a_known_vlan_with_no_live_records :: test where
  "rebuild_ip_pools_clears_a_known_vlan_with_no_live_records = do {
     p \<leftarrow> ok_value (pool 1 200);
     (_, s) \<leftarrow> unwrap (allocate temp_host p temp_dir);
     (_, s) \<leftarrow> unwrap (rebuild_ip_pools temp_host 1 [pool_dir 200] [] s);
     p \<leftarrow> ok_value (pool 1 200);
     (released, s) \<leftarrow> unwrap (release temp_host p (ipv4_new 10 200 1 2) s);
     asserts (\<not> released) }"

lemma parsed_samples: "parse_ipv4 ''10.100.1.5'' = Some (ipv4_new 10 100 1 5)" "parse_ipv4 ''not-an-ip'' = None"
  by (simp_all add: parse_ipv4_def parse_octet_def digit_val_def)

lemma rebuild_tests_pass:
  "passes rebuild_ip_pools_covers_a_live_vlan_missing_its_pool_directory"
  "passes rebuild_ip_pools_skips_an_invalid_address_without_aborting"
  "passes rebuild_ip_pools_clears_a_known_vlan_with_no_live_records"
  by (simp_all add: rebuild_ip_pools_covers_a_live_vlan_missing_its_pool_directory_def
      rebuild_ip_pools_skips_an_invalid_address_without_aborting_def
      rebuild_ip_pools_clears_a_known_vlan_with_no_live_records_def rebuild_ip_pools_def known_vlans_def
      allocated_vlans_def live_addresses_def live_record_def ignoring_def vlan_dirs parsed_samples
      List.map_filter_def take_free_lowest pool_test_defs)

end
