(* ===== verification/Tool_Tests.thy ===== *)
theory Tool_Tests imports Barectl_Commands Cni_Socket Test_Support begin

text \<open>
  The tests of \<open>barectl\<close> (\<open>commands.rs\<close>, \<open>config.rs\<close>), of \<open>barectl-config\<close>, of the CNI daemon's
  socket (\<open>runtime/socket.rs\<close>) and of \<open>proto/src/tls.rs\<close> and \<open>tls_identity.rs\<close>. A temporary
  directory is \<open>/tmp/t\<close> of an otherwise empty disk. The YAML and base64 libraries are stand-ins:
  one line per field that is set, under the name its serde attribute gives it, and a reversible mark.
\<close>

section \<open>Disk and libraries\<close>

definition temp_disk :: disk where
  "temp_disk = \<lparr>dk_tree = (\<lambda>_. None)([] \<mapsto> Dir 0x1ED, [''tmp''] \<mapsto> Dir 0x3FF, [''tmp'', ''t''] \<mapsto> Dir 0x1ED),
     dk_cwd = [], dk_umask = 0x12, dk_pid = 7, dk_clock = 0, dk_fault = (\<lambda>_. None)\<rparr>"

definition in_temp :: "string \<Rightarrow> path" where
  "in_temp name = Path True [''tmp'', ''t'', name]"

text \<open>\<open>std::fs::write\<close>.\<close>

definition write_file :: "path \<Rightarrow> string \<Rightarrow> unit sys" where
  "write_file p contents = sbind (open_write False 0x1B6 p) (\<lambda>_. write_all p contents)"

definition yaml_fields :: "file_config \<Rightarrow> (string \<times> string option) list" where
  "yaml_fields c = [(''server: '', Some (fc_server c)), (''tls-server-name: '', fc_tls_server_name c),
     (''certificate-authority-data: '', fc_ca_data c), (''client-certificate-data: '', fc_cert_data c),
     (''client-key-data: '', fc_key_data c)]"

definition yaml_text :: "file_config \<Rightarrow> string" where
  "yaml_text c = concat (map (\<lambda>(k, v). case v of None \<Rightarrow> [] | Some x \<Rightarrow> k @ x @ newline) (yaml_fields c))"

definition yaml_field :: "string \<Rightarrow> string \<Rightarrow> string option" where
  "yaml_field k text = (case List.map_filter (strip_prefix k) (split_on (CHR 0x0A) text) of [] \<Rightarrow> None | v # _ \<Rightarrow> Some v)"

definition yaml_parse :: "string \<Rightarrow> string + file_config" where
  "yaml_parse text = (case yaml_field ''server: '' text of
     None \<Rightarrow> Inl ''missing field server''
   | Some s \<Rightarrow> Inr \<lparr>fc_server = s, fc_tls_server_name = yaml_field ''tls-server-name: '' text,
       fc_ca_data = yaml_field ''certificate-authority-data: '' text,
       fc_cert_data = yaml_field ''client-certificate-data: '' text,
       fc_key_data = yaml_field ''client-key-data: '' text\<rparr>)"

definition temp_cfg :: cfg_env where
  "temp_cfg = \<lparr>ce_to_yaml = (\<lambda>c. Inr (yaml_text c)), ce_from_yaml = yaml_parse,
     ce_encode = (\<lambda>b. ''b64-'' @ b),
     ce_decode = (\<lambda>b. case strip_prefix ''b64-'' b of None \<Rightarrow> Inl ''invalid symbol'' | Some x \<Rightarrow> Inr x)\<rparr>"

definition plain_config :: "string \<Rightarrow> file_config" where
  "plain_config server = \<lparr>fc_server = server, fc_tls_server_name = None, fc_ca_data = None, fc_cert_data = None,
     fc_key_data = None\<rparr>"

definition file_config_with_tls :: file_config where
  "file_config_with_tls = \<lparr>fc_server = ''https://cp:50052'', fc_tls_server_name = Some ''api'',
     fc_ca_data = Some (ce_encode temp_cfg ''ca-pem''), fc_cert_data = Some (ce_encode temp_cfg ''cert-pem''),
     fc_key_data = Some (ce_encode temp_cfg ''key-pem'')\<rparr>"

section \<open>\<open>barectl-config\<close>\<close>

definition load_returns_none_for_a_missing_file :: test where
  "load_returns_none_for_a_missing_file = do {
     (c, d) \<leftarrow> unwrap (load_config temp_cfg (in_temp ''config'') temp_disk);
     asserts (c = None) }"

definition save_then_load_round_trips :: test where
  "save_then_load_round_trips = do {
     let path = Path True [''tmp'', ''t'', ''nested'', ''config''];
     (_, d) \<leftarrow> unwrap (save_config temp_cfg path file_config_with_tls temp_disk);
     (loaded, d) \<leftarrow> unwrap (load_config temp_cfg path d);
     asserts (loaded = Some file_config_with_tls) }"

definition save_writes_the_file_at_mode_0600 :: test where
  "save_writes_the_file_at_mode_0600 = do {
     (_, d) \<leftarrow> unwrap (save_config temp_cfg (in_temp ''config'') file_config_with_tls temp_disk);
     entry \<leftarrow> dk_tree d [''tmp'', ''t'', ''config''];
     asserts (case entry of File m _ \<Rightarrow> m = 0x180 | _ \<Rightarrow> False) }"

definition to_yaml_omits_absent_tls_fields :: test where
  "to_yaml_omits_absent_tls_fields = do {
     yaml \<leftarrow> ok_value (to_yaml temp_cfg (plain_config ''http://127.0.0.1:50052''));
     asserts (\<not> contains_str ''certificate-authority-data'' yaml);
     asserts (\<not> contains_str ''client-certificate-data'' yaml);
     asserts (\<not> contains_str ''client-key-data'' yaml) }"

definition read_and_encode_base64_encodes_the_raw_file_bytes :: test where
  "read_and_encode_base64_encodes_the_raw_file_bytes = do {
     (_, d) \<leftarrow> unwrap (write_file (in_temp ''leaf.pem'') ''cert-contents'' temp_disk);
     (encoded, d) \<leftarrow> unwrap (read_and_encode temp_cfg (in_temp ''leaf.pem'') d);
     asserts (ce_decode temp_cfg encoded = Inr ''cert-contents'') }"

definition load_rejects_malformed_yaml :: test where
  "load_rejects_malformed_yaml = do {
     (_, d) \<leftarrow> unwrap (write_file (in_temp ''config'') ''not: valid: yaml: at: all:'' temp_disk);
     (err, d) \<leftarrow> unwrap_err (load_config temp_cfg (in_temp ''config'') d);
     Some () }"

lemma config_file_tests_pass:
  "passes load_returns_none_for_a_missing_file"
  "passes save_then_load_round_trips"
  "passes save_writes_the_file_at_mode_0600"
  "passes to_yaml_omits_absent_tls_fields"
  "passes read_and_encode_base64_encodes_the_raw_file_bytes"
  "passes load_rejects_malformed_yaml"
  by code_simp+

section \<open>\<open>config.rs\<close>\<close>

definition tls_flags :: "string option \<Rightarrow> string option \<Rightarrow> string option \<Rightarrow> string option \<Rightarrow> tls_args" where
  "tls_flags cert key ca name = \<lparr>ta_cert = cert, ta_key = key, ta_ca = ca, ta_server_name = name\<rparr>"

definition resolve_server_prefers_cli_over_file :: test where
  "resolve_server_prefers_cli_over_file =
     asserts (resolve_server (Some ''https://from-cli:50052'') (Some (plain_config ''https://from-file:50052'')) =
       ''https://from-cli:50052'')"

definition resolve_server_falls_back_to_file_then_default :: test where
  "resolve_server_falls_back_to_file_then_default = do {
     asserts (resolve_server None (Some (plain_config ''https://from-file:50052'')) = ''https://from-file:50052'');
     asserts (resolve_server None None = ''http://127.0.0.1:50052'') }"

definition resolve_tls_is_plaintext_with_nothing_set :: test where
  "resolve_tls_is_plaintext_with_nothing_set = do {
     tls \<leftarrow> ok_value (resolve_tls temp_cfg (tls_flags None None None None) None);
     asserts (tls = TlsPlaintext) }"

definition resolve_tls_prefers_cli_paths_over_file_bytes :: test where
  "resolve_tls_prefers_cli_paths_over_file_bytes = do {
     resolved \<leftarrow> ok_value (resolve_tls temp_cfg
       (tls_flags (Some ''c.pem'') (Some ''k.pem'') (Some ''ca.pem'') (Some ''api'')) (Some file_config_with_tls));
     asserts (case resolved of TlsPaths _ _ _ _ \<Rightarrow> True | _ \<Rightarrow> False) }"

definition resolve_tls_falls_back_to_file_bytes :: test where
  "resolve_tls_falls_back_to_file_bytes = do {
     resolved \<leftarrow> ok_value (resolve_tls temp_cfg (tls_flags None None None None) (Some file_config_with_tls));
     asserts (resolved = TlsBytes ''cert-pem'' ''key-pem'' ''ca-pem'' ''api'') }"

definition resolve_tls_rejects_partial_cli_flags :: test where
  "resolve_tls_rejects_partial_cli_flags =
     asserts (\<not> is_ok (resolve_tls temp_cfg (tls_flags (Some ''c.pem'') None None None) None))"

definition resolve_tls_rejects_partial_file_tls_data :: test where
  "resolve_tls_rejects_partial_file_tls_data = do {
     let file = (plain_config ''https://cp:50052'')\<lparr>fc_cert_data := Some (ce_encode temp_cfg ''cert-pem'')\<rparr>;
     asserts (\<not> is_ok (resolve_tls temp_cfg (tls_flags None None None None) (Some file))) }"

definition resolve_tls_requires_server_name_alongside_file_tls_data :: test where
  "resolve_tls_requires_server_name_alongside_file_tls_data = do {
     let file = file_config_with_tls\<lparr>fc_tls_server_name := None\<rparr>;
     asserts (\<not> is_ok (resolve_tls temp_cfg (tls_flags None None None None) (Some file))) }"

definition resolve_tls_prefers_cli_server_name_over_file_when_using_file_tls_data :: test where
  "resolve_tls_prefers_cli_server_name_over_file_when_using_file_tls_data = do {
     resolved \<leftarrow> ok_value (resolve_tls temp_cfg (tls_flags None None None (Some ''cli-override'')) (Some file_config_with_tls));
     asserts (case resolved of TlsBytes _ _ _ server_name \<Rightarrow> server_name = ''cli-override'' | _ \<Rightarrow> False) }"

lemma resolve_tests_pass:
  "passes resolve_server_prefers_cli_over_file"
  "passes resolve_server_falls_back_to_file_then_default"
  "passes resolve_tls_is_plaintext_with_nothing_set"
  "passes resolve_tls_prefers_cli_paths_over_file_bytes"
  "passes resolve_tls_falls_back_to_file_bytes"
  "passes resolve_tls_rejects_partial_cli_flags"
  "passes resolve_tls_rejects_partial_file_tls_data"
  "passes resolve_tls_requires_server_name_alongside_file_tls_data"
  "passes resolve_tls_prefers_cli_server_name_over_file_when_using_file_tls_data"
  by code_simp+

section \<open>\<open>commands.rs\<close>\<close>

definition shown_pod :: "string \<Rightarrow> string \<Rightarrow> string \<Rightarrow> pod_detail" where
  "shown_pod ns nm img = new_pod_detail \<lparr>
     pw_pod = Some (default_pod\<lparr>p_name := nm\<rparr>),
     pw_spec = Some \<lparr>ps_namespace = ns,
       ps_containers = [\<lparr>ct_name = nm, ct_image = img, ct_ports = [], ct_env = []\<rparr>]\<rparr>\<rparr>"

definition filter_args :: "string option \<Rightarrow> string option \<Rightarrow> string option \<Rightarrow> get_pod_args" where
  "filter_args nm ns img = \<lparr>ga_name = nm, ga_namespace = ns, ga_image = img\<rparr>"

definition image_filter_matches_a_substring_of_the_full_reference :: test where
  "image_filter_matches_a_substring_of_the_full_reference =
     asserts (matches_filters (shown_pod ''default'' ''web'' ''docker.io/library/nginx:alpine'')
       (filter_args None None (Some ''nginx'')))"

definition image_filter_rejects_pods_without_the_substring :: test where
  "image_filter_rejects_pods_without_the_substring =
     asserts (\<not> matches_filters (shown_pod ''default'' ''web'' ''docker.io/library/nginx:alpine'')
       (filter_args None None (Some ''redis'')))"

definition name_filter_is_exact :: test where
  "name_filter_is_exact = do {
     let p = shown_pod ''default'' ''web'' ''nginx:alpine'';
     asserts (matches_filters p (filter_args (Some ''web'') None None));
     asserts (\<not> matches_filters p (filter_args (Some ''we'') None None)) }"

definition namespace_filter_is_exact :: test where
  "namespace_filter_is_exact = do {
     let p = shown_pod ''default'' ''web'' ''nginx:alpine'';
     asserts (matches_filters p (filter_args None (Some ''default'') None));
     asserts (\<not> matches_filters p (filter_args None (Some ''other'') None)) }"

definition pod_with_resources :: "string \<Rightarrow> resources option \<Rightarrow> resources option \<Rightarrow> pod_with_spec" where
  "pod_with_resources nm requests limits = \<lparr>
     pw_pod = Some \<lparr>p_name = nm, p_status = pod_status_i32 PodPending, p_requests = requests, p_limits = limits\<rparr>,
     pw_spec = Some \<lparr>ps_namespace = ''default'', ps_containers = []\<rparr>\<rparr>"

definition require_limits_accepts_a_pod_with_limits :: test where
  "require_limits_accepts_a_pod_with_limits =
     asserts (is_ok (require_limits (pod_with_resources ''web'' None (Some \<lparr>res_cpu = 250, res_memory = 128\<rparr>))))"

definition require_limits_rejects_a_pod_without_limits :: test where
  "require_limits_rejects_a_pod_without_limits = do {
     err \<leftarrow> err_value (require_limits (pod_with_resources ''web'' (Some \<lparr>res_cpu = 100, res_memory = 64\<rparr>) None));
     text \<leftarrow> (case err of CliInvalidUsage t \<Rightarrow> Some t | _ \<Rightarrow> None);
     asserts (contains_str ''web'' text);
     asserts (contains_str ''--cpu-limit'' text \<and> contains_str ''--memory-limit'' text);
     asserts (contains_str ''resources.limits'' text) }"

definition fmt_resource_quantity_formats_a_present_value :: test where
  "fmt_resource_quantity_formats_a_present_value = asserts (fmt_resource_quantity (Some 250) ''m'' = ''250m'')"

definition fmt_resource_quantity_shows_dash_when_unset :: test where
  "fmt_resource_quantity_shows_dash_when_unset = asserts (fmt_resource_quantity None ''m'' = ''-'')"

definition format_table_pads_every_column_to_its_widest_cell :: test where
  "format_table_pads_every_column_to_its_widest_cell = do {
     let lines = format_table [''NAME'', ''STATUS''] [[''web'', ''Running''], [''a-much-longer-pod-name'', ''Pending'']];
     asserts (lines ! 0 = ''NAME                    STATUS'');
     asserts (lines ! 1 = ''web                     Running'');
     asserts (lines ! 2 = ''a-much-longer-pod-name  Pending'') }"

text \<open>\<open>str::find\<close>: the position of the first occurrence.\<close>

fun find_str :: "string \<Rightarrow> string \<Rightarrow> nat option" where
  "find_str pat [] = (if pat = [] then Some 0 else None)"
| "find_str pat (c # cs) = (if starts_with pat (c # cs) then Some 0 else map_option Suc (find_str pat cs))"

definition format_table_keeps_later_columns_aligned_when_an_earlier_cell_overflows_the_header :: test where
  "format_table_keeps_later_columns_aligned_when_an_earlier_cell_overflows_the_header = do {
     let lines = format_table [''NAME'', ''PORTS'', ''STATUS'']
       [[''web'', ''80->8080/tcp'', ''Running''],
        [''api'', ''80->8080/tcp,443->8443/tcp,9090->9090/udp'', ''Running'']];
     status_col \<leftarrow> find_str ''STATUS'' (lines ! 0);
     asserts (drop status_col (lines ! 1) = ''Running'');
     asserts (drop status_col (lines ! 2) = ''Running'') }"

definition view_text :: "path \<Rightarrow> file_config option \<Rightarrow> string" where
  "view_text path c = concat (map (\<lambda>l. l @ newline) (format_view path c))"

definition format_view_reports_no_file_when_absent :: test where
  "format_view_reports_no_file_when_absent =
     asserts (view_text (Path True [''tmp'', ''does-not-exist'', ''config'']) None =
       ''No config file at /tmp/does-not-exist/config.'' @ newline)"

definition format_view_shows_plaintext_when_no_tls_data :: test where
  "format_view_shows_plaintext_when_no_tls_data = do {
     let view = view_text (Path True [''tmp'', ''config'']) (Some (plain_config ''http://127.0.0.1:50052''));
     asserts (contains_str ''Server:           http://127.0.0.1:50052'' view);
     asserts (contains_str ''TLS:              not configured (plaintext)'' view);
     asserts (contains_str ''TLS server name:  <none>'' view) }"

definition format_view_shows_configured_when_tls_data_present :: test where
  "format_view_shows_configured_when_tls_data_present = do {
     let view = view_text (Path True [''tmp'', ''config'']) (Some \<lparr>fc_server = ''https://cp:50052'',
       fc_tls_server_name = Some ''api'', fc_ca_data = Some ''ca'', fc_cert_data = Some ''cert'', fc_key_data = Some ''key''\<rparr>);
     asserts (contains_str ''TLS:              configured'' view);
     asserts (contains_str ''TLS server name:  api'' view) }"

definition terminal_on :: "disk \<Rightarrow> unit cli" where
  "terminal_on d = \<lparr>cl_disk = d, cl_out = [], cl_api = ()\<rparr>"

definition config_set_writes_a_plaintext_config :: test where
  "config_set_writes_a_plaintext_config = do {
     let path = in_temp ''config'';
     (_, c) \<leftarrow> unwrap (config_set temp_cfg path \<lparr>cs_server = ''http://127.0.0.1:50052'', cs_tls_cert = None,
       cs_tls_key = None, cs_tls_ca = None, cs_tls_server_name = None\<rparr> (terminal_on temp_disk));
     (found, d) \<leftarrow> unwrap (load_config temp_cfg path (cl_disk c));
     loaded \<leftarrow> found;
     asserts (fc_server loaded = ''http://127.0.0.1:50052'');
     asserts (fc_cert_data loaded = None) }"

definition config_set_embeds_the_given_pem_files :: test where
  "config_set_embeds_the_given_pem_files = do {
     let path = in_temp ''config'';
     (_, d) \<leftarrow> unwrap (write_file (in_temp ''cert.pem'') ''cert-contents'' temp_disk);
     (_, d) \<leftarrow> unwrap (write_file (in_temp ''key.pem'') ''key-contents'' d);
     (_, d) \<leftarrow> unwrap (write_file (in_temp ''ca.pem'') ''ca-contents'' d);
     (_, c) \<leftarrow> unwrap (config_set temp_cfg path \<lparr>cs_server = ''https://cp:50052'',
       cs_tls_cert = Some (in_temp ''cert.pem''), cs_tls_key = Some (in_temp ''key.pem''),
       cs_tls_ca = Some (in_temp ''ca.pem''), cs_tls_server_name = Some ''api''\<rparr> (terminal_on d));
     (found, d) \<leftarrow> unwrap (load_config temp_cfg path (cl_disk c));
     loaded \<leftarrow> found;
     cert \<leftarrow> fc_cert_data loaded;
     asserts (ce_decode temp_cfg cert = Inr ''cert-contents'') }"

definition config_set_rejects_partial_tls_flags :: test where
  "config_set_rejects_partial_tls_flags = do {
     (err, c) \<leftarrow> unwrap_err (config_set temp_cfg (in_temp ''config'') \<lparr>cs_server = ''https://cp:50052'',
       cs_tls_cert = Some (in_temp ''cert.pem''), cs_tls_key = None, cs_tls_ca = None,
       cs_tls_server_name = None\<rparr> (terminal_on temp_disk));
     Some () }"

lemma command_tests_pass:
  "passes image_filter_matches_a_substring_of_the_full_reference"
  "passes image_filter_rejects_pods_without_the_substring"
  "passes name_filter_is_exact"
  "passes namespace_filter_is_exact"
  "passes require_limits_accepts_a_pod_with_limits"
  "passes require_limits_rejects_a_pod_without_limits"
  "passes fmt_resource_quantity_formats_a_present_value"
  "passes fmt_resource_quantity_shows_dash_when_unset"
  "passes format_table_pads_every_column_to_its_widest_cell"
  "passes format_table_keeps_later_columns_aligned_when_an_earlier_cell_overflows_the_header"
  "passes format_view_reports_no_file_when_absent"
  "passes format_view_shows_plaintext_when_no_tls_data"
  "passes format_view_shows_configured_when_tls_data_present"
  by code_simp+

lemma config_set_tests_pass:
  "passes config_set_writes_a_plaintext_config"
  "passes config_set_embeds_the_given_pem_files"
  "passes config_set_rejects_partial_tls_flags"
  by code_simp+

section \<open>The socket of the CNI daemon\<close>

definition does_not_remove_a_regular_file :: test where
  "does_not_remove_a_regular_file = do {
     let path = in_temp ''cni.sock'';
     (_, d) \<leftarrow> unwrap (write_file path ''keep'' temp_disk);
     (err, d) \<leftarrow> unwrap_err (socket_remove path d);
     asserts (io_kind err = KAlreadyExists);
     (bytes, d) \<leftarrow> unwrap (read_bytes path d);
     asserts (bytes = ''keep'') }"

definition creates_a_restricted_unix_socket :: test where
  "creates_a_restricted_unix_socket = do {
     let path = Path True [''tmp'', ''t'', ''run'', ''cni.sock''];
     (_, d) \<leftarrow> unwrap (socket_bind path temp_disk);
     (entry, d) \<leftarrow> unwrap (symlink_metadata path d);
     asserts (entry = Socket 0x1B0);
     (_, d) \<leftarrow> unwrap (socket_remove path d);
     Some () }"

lemma socket_tests_pass:
  "passes does_not_remove_a_regular_file" "passes creates_a_restricted_unix_socket"
  by code_simp+

section \<open>TLS modes and identities\<close>

definition tls_mode_all_unset_is_plaintext :: test where
  "tls_mode_all_unset_is_plaintext = do {
     m \<leftarrow> ok_value (tls_mode (tls_flags None None None None));
     asserts (m = ModePlaintext) }"

definition tls_mode_all_set_is_mtls :: test where
  "tls_mode_all_set_is_mtls = do {
     m \<leftarrow> ok_value (tls_mode (tls_flags (Some ''c'') (Some ''k'') (Some ''a'') None));
     asserts (case m of ModeMtls _ _ _ \<Rightarrow> True | _ \<Rightarrow> False) }"

definition tls_mode_partial_is_rejected :: test where
  "tls_mode_partial_is_rejected = do {
     asserts (\<not> is_ok (tls_mode (tls_flags (Some ''c'') None None None)));
     asserts (\<not> is_ok (tls_mode (tls_flags None (Some ''k'') (Some ''a'') None)));
     asserts (\<not> is_ok (tls_mode (tls_flags (Some ''c'') (Some ''k'') None None))) }"

definition check_identity_allows_plaintext :: test where
  "check_identity_allows_plaintext = asserts (is_ok (check_identity Plaintext ''node-a''))"

definition check_identity_allows_matching_peer :: test where
  "check_identity_allows_matching_peer = asserts (is_ok (check_identity (Mtls (Some ''node-a'') (Some RoleNode)) ''node-a''))"

definition check_identity_rejects_mismatched_peer :: test where
  "check_identity_rejects_mismatched_peer = do {
     err \<leftarrow> err_value (check_identity (Mtls (Some ''node-a'') (Some RoleNode)) ''node-b'');
     asserts (st_code err = PermissionDenied) }"

definition check_identity_rejects_mtls_peer_with_no_usable_identity :: test where
  "check_identity_rejects_mtls_peer_with_no_usable_identity = do {
     err \<leftarrow> err_value (check_identity (Mtls None (Some RoleNode)) ''node-a'');
     asserts (st_code err = PermissionDenied) }"

definition check_role_allows_plaintext :: test where
  "check_role_allows_plaintext = asserts (is_ok (check_role Plaintext RoleCli))"

definition check_role_allows_matching_role :: test where
  "check_role_allows_matching_role = asserts (is_ok (check_role (Mtls (Some ''node-a'') (Some RoleNode)) RoleNode))"

definition check_role_rejects_mismatched_role :: test where
  "check_role_rejects_mismatched_role = do {
     err \<leftarrow> err_value (check_role (Mtls (Some ''node-a'') (Some RoleNode)) RoleCli);
     asserts (st_code err = PermissionDenied) }"

definition check_role_rejects_mtls_peer_with_no_recognized_role :: test where
  "check_role_rejects_mtls_peer_with_no_recognized_role = do {
     err \<leftarrow> err_value (check_role (Mtls (Some ''node-a'') None) RoleNode);
     asserts (st_code err = PermissionDenied) }"

lemma identity_tests_pass:
  "passes tls_mode_all_unset_is_plaintext"
  "passes tls_mode_all_set_is_mtls"
  "passes tls_mode_partial_is_rejected"
  "passes check_identity_allows_plaintext"
  "passes check_identity_allows_matching_peer"
  "passes check_identity_rejects_mismatched_peer"
  "passes check_identity_rejects_mtls_peer_with_no_usable_identity"
  "passes check_role_allows_plaintext"
  "passes check_role_allows_matching_role"
  "passes check_role_rejects_mismatched_role"
  "passes check_role_rejects_mtls_peer_with_no_recognized_role"
  by code_simp+

end
