(* ===== verification/Tls_Tests.thy ===== *)
theory Tls_Tests imports Tool_Tests Pki Api_Service begin

text \<open>
  The tests of \<open>pki/src/main.rs\<close>, and \<open>api/tests/mtls_identity.rs\<close>, which calls the API server
  with certificates. The certificate library is a stand-in whose certificate is the text of its
  subject and its issuer; the TLS transport has already checked the chain when a call arrives, so a
  call of the integration test is one of \<open>serve\<close> with the peer read from the client's certificate.
\<close>

section \<open>A certificate library\<close>

definition subject_text :: "(dn_type \<times> string) list \<Rightarrow> string" where
  "subject_text dn = concat (map (\<lambda>(t, v). (case t of CommonName \<Rightarrow> ''CN='' | OrganizationalUnitName \<Rightarrow> ''OU='') @ v @ '';'') dn)"

definition cert_text :: "string \<Rightarrow> string \<Rightarrow> string" where
  "cert_text subject issuer = subject @ ''|'' @ issuer"

definition cert_subject :: "string \<Rightarrow> string" where
  "cert_subject pem = takeWhile (\<lambda>c. c \<noteq> CHR ''|'') pem"

definition cert_issuer :: "string \<Rightarrow> string" where
  "cert_issuer pem = drop 1 (dropWhile (\<lambda>c. c \<noteq> CHR ''|'') pem)"

definition subject_attrs :: "string \<Rightarrow> string \<Rightarrow> string list" where
  "subject_attrs prefix subject = List.map_filter (strip_prefix prefix) (split_on (CHR '';'') subject)"

definition text_pki :: "(nat, string, nat, string) pki_env" where
  "text_pki = \<lparr>pk_cfg = temp_cfg, pk_now = 0, pk_sans = Inr, pk_generate = (\<lambda>g. (Inr g, Suc g)),
     pk_key_pem = (\<lambda>k. ''key '' @ show_nat k),
     pk_key_of_pem = (\<lambda>pem. case digits_val 0 (drop 4 pem) of None \<Rightarrow> Inl ''not a key'' | Some k \<Rightarrow> Inr k),
     pk_issuer = (\<lambda>pem _. Inr (cert_subject pem)),
     pk_self_signed = (\<lambda>ps _. Inr (cert_text (subject_text (cp_dn ps)) (subject_text (cp_dn ps)))),
     pk_signed_by = (\<lambda>ps _ issuer. Inr (cert_text (subject_text (cp_dn ps)) issuer))\<rparr>"

definition temp_pki :: "nat pki" where
  "temp_pki = \<lparr>ps_disk = temp_disk, ps_rng = 1, ps_out = []\<rparr>"

section \<open>\<open>pki/src/main.rs\<close>\<close>

definition ca_dir :: path where "ca_dir = Path True [''tmp'', ''t'', ''ca'']"

definition leaf_dir :: path where "leaf_dir = Path True [''tmp'', ''t'', ''leaf'']"

definition issue_produces_a_cert_signed_by_the_ca_with_the_requested_cn :: test where
  "issue_produces_a_cert_signed_by_the_ca_with_the_requested_cn = do {
     (_, s) \<leftarrow> unwrap (init_ca text_pki \<lparr>ia_out_dir = ca_dir, ia_common_name = ''Test CA'', ia_days = 3650\<rparr> temp_pki);
     (_, s) \<leftarrow> unwrap (issue text_pki \<lparr>is_ca_dir = ca_dir, is_cn = ''node-a'', is_role = PkiNode,
       is_out_dir = leaf_dir, is_sans = [], is_days = 397\<rparr> s);
     (leaf_pem, d) \<leftarrow> unwrap (read_text (path_join leaf_dir ''node-a.pem'') (ps_disk s));
     cn \<leftarrow> first_attr (map Some (subject_attrs ''CN='' (cert_subject leaf_pem)));
     asserts (cn = ''node-a'');
     ou \<leftarrow> first_attr (map Some (subject_attrs ''OU='' (cert_subject leaf_pem)));
     asserts (ou = ''node'');
     (ca_pem, d) \<leftarrow> unwrap (read_text (path_join ca_dir ''ca.pem'') d);
     asserts (cert_issuer leaf_pem = cert_subject ca_pem) }"

definition decoded :: "string option \<Rightarrow> string option" where
  "decoded field = Option.bind field (\<lambda>v. ok_value (ce_decode temp_cfg v))"

definition barectl_config_packages_an_issued_cli_cert_into_a_loadable_config :: test where
  "barectl_config_packages_an_issued_cli_cert_into_a_loadable_config = do {
     (_, s) \<leftarrow> unwrap (init_ca text_pki \<lparr>ia_out_dir = ca_dir, ia_common_name = ''Test CA'', ia_days = 3650\<rparr> temp_pki);
     (_, s) \<leftarrow> unwrap (issue text_pki \<lparr>is_ca_dir = ca_dir, is_cn = ''alice'', is_role = PkiCli,
       is_out_dir = leaf_dir, is_sans = [], is_days = 397\<rparr> s);
     let out_path = path_join leaf_dir ''barectl-config.yaml'';
     (_, s) \<leftarrow> unwrap (barectl_config text_pki \<lparr>ba_ca_dir = ca_dir, ba_cert = path_join leaf_dir ''alice.pem'',
       ba_key = path_join leaf_dir ''alice-key.pem'', ba_server = ''https://cp.example:50052'',
       ba_tls_server_name = ''api'', ba_out = Some out_path\<rparr> s);
     (found, d) \<leftarrow> unwrap (load_config temp_cfg out_path (ps_disk s));
     loaded \<leftarrow> found;
     asserts (fc_server loaded = ''https://cp.example:50052'');
     asserts (fc_tls_server_name loaded = Some ''api'');
     (bytes, d) \<leftarrow> unwrap (read_bytes (path_join ca_dir ''ca.pem'') d);
     asserts (decoded (fc_ca_data loaded) = Some bytes);
     (bytes, d) \<leftarrow> unwrap (read_bytes (path_join leaf_dir ''alice.pem'') d);
     asserts (decoded (fc_cert_data loaded) = Some bytes);
     (bytes, d) \<leftarrow> unwrap (read_bytes (path_join leaf_dir ''alice-key.pem'') d);
     asserts (decoded (fc_key_data loaded) = Some bytes) }"

lemma pki_tests_pass:
  "passes issue_produces_a_cert_signed_by_the_ca_with_the_requested_cn"
  "passes barectl_config_packages_an_issued_cli_cert_into_a_loadable_config"
  by code_simp+

section \<open>\<open>api/tests/mtls_identity.rs\<close>\<close>

text \<open>What the server's parser reads of a certificate issued for \<open>cn\<close>.\<close>

definition issued_to :: "string \<Rightarrow> string option \<Rightarrow> x509" where
  "issued_to cn rl = \<lparr>x_common_names = [Some cn],
     x_org_units = (case rl of None \<Rightarrow> [] | Some r \<Rightarrow> [Some r]), x_sans = Some [DnsName cn]\<rparr>"

text \<open>The call of a client that presented its certificate over TLS.\<close>

definition mtls_call :: "x509 option \<Rightarrow> rpc_call \<Rightarrow> (test_store, status, rpc_reply) op" where
  "mtls_call cert call = serve (\<lambda>_. 1) [(''default'', ''web'')] [] (peer_of Some (Some (map_option (\<lambda>c. [c]) cert))) call"

definition node_status_request :: "string \<Rightarrow> node option" where
  "node_status_request node_name = Some (fake_node node_name NodeReady)"

definition test_assigned_pod :: "string \<Rightarrow> string \<Rightarrow> string \<Rightarrow> pod_detail" where
  "test_assigned_pod ns nm node_name = (fake_pod ns nm)\<lparr>pd_node_name := node_name\<rparr>"

definition pod_status_request :: "string \<Rightarrow> string \<Rightarrow> update_pod_status_request" where
  "pod_status_request ns nm = \<lparr>
     ups_pod = Some \<lparr>
       pw_pod = Some \<lparr>p_name = nm, p_status = pod_status_i32 PodRunning, p_requests = None, p_limits = None\<rparr>,
       pw_spec = Some \<lparr>ps_namespace = ns, ps_containers = []\<rparr>\<rparr>,
     ups_container_statuses = [], ups_pod_ip = None, ups_message = None, ups_resource_usage = None\<rparr>"

definition matching_client_cert_and_node_name_is_accepted :: test where
  "matching_client_cert_and_node_name_is_accepted = do {
     let client_cert = issued_to ''node-a'' (Some ''node'');
     (_, s) \<leftarrow> unwrap (mtls_call (Some client_cert) (RpcUpdateNodeStatus (node_status_request ''node-a'')) service);
     Some () }"

definition mismatched_node_name_is_rejected_as_impersonation :: test where
  "mismatched_node_name_is_rejected_as_impersonation = do {
     let client_cert = issued_to ''node-a'' (Some ''node'');
     (st, s) \<leftarrow> unwrap_err (mtls_call (Some client_cert) (RpcUpdateNodeStatus (node_status_request ''node-b'')) service);
     asserts (st_code st = PermissionDenied) }"

definition node_cert_can_update_status_of_its_own_pod :: test where
  "node_cert_can_update_status_of_its_own_pod = do {
     let client_cert = issued_to ''node-a'' (Some ''node'');
     (_, s) \<leftarrow> unwrap (upsert_pod (test_assigned_pod ''default'' ''web'' ''node-a'') service);
     (_, s) \<leftarrow> unwrap (mtls_call (Some client_cert) (RpcUpdatePodStatus (pod_status_request ''default'' ''web'')) s);
     Some () }"

definition node_cert_cannot_update_status_of_another_nodes_pod :: test where
  "node_cert_cannot_update_status_of_another_nodes_pod = do {
     let client_cert = issued_to ''node-a'' (Some ''node'');
     (_, s) \<leftarrow> unwrap (upsert_pod (test_assigned_pod ''default'' ''web'' ''node-b'') service);
     (st, s) \<leftarrow> unwrap_err (mtls_call (Some client_cert) (RpcUpdatePodStatus (pod_status_request ''default'' ''web'')) s);
     asserts (st_code st = PermissionDenied) }"

definition identity_with_no_cn_or_san_is_rejected_rather_than_treated_as_plaintext :: test where
  "identity_with_no_cn_or_san_is_rejected_rather_than_treated_as_plaintext = do {
     let client_cert = \<lparr>x_common_names = [], x_org_units = [Some ''node''], x_sans = None\<rparr>;
     (st, s) \<leftarrow> unwrap_err (mtls_call (Some client_cert) (RpcUpdateNodeStatus (node_status_request ''node-a'')) service);
     asserts (st_code st = PermissionDenied) }"

definition a_node_role_certificate_cannot_call_a_scheduler_only_rpc :: test where
  "a_node_role_certificate_cannot_call_a_scheduler_only_rpc = do {
     let client_cert = issued_to ''node-a'' (Some ''node'');
     (st, s) \<leftarrow> unwrap_err (mtls_call (Some client_cert) RpcWatchNodes service);
     asserts (st_code st = PermissionDenied) }"

definition a_scheduler_role_certificate_can_call_a_scheduler_only_rpc :: test where
  "a_scheduler_role_certificate_can_call_a_scheduler_only_rpc = do {
     let client_cert = issued_to ''scheduler'' (Some ''scheduler'');
     (_, s) \<leftarrow> unwrap (mtls_call (Some client_cert) RpcWatchNodes service);
     Some () }"

text \<open>A server without TLS attaches no TLS information to a call.\<close>

definition plaintext_server_is_unaffected_by_the_identity_check :: test where
  "plaintext_server_is_unaffected_by_the_identity_check = do {
     (_, s) \<leftarrow> unwrap (serve (\<lambda>_. 1) [] [] (peer_of (\<lambda>der :: unit. None) None)
       (RpcUpdateNodeStatus (node_status_request ''node-b'')) service);
     Some () }"

lemma mtls_identity_tests_pass:
  "passes matching_client_cert_and_node_name_is_accepted"
  "passes mismatched_node_name_is_rejected_as_impersonation"
  "passes node_cert_can_update_status_of_its_own_pod"
  "passes node_cert_cannot_update_status_of_another_nodes_pod"
  "passes identity_with_no_cn_or_san_is_rejected_rather_than_treated_as_plaintext"
  "passes a_node_role_certificate_cannot_call_a_scheduler_only_rpc"
  "passes a_scheduler_role_certificate_can_call_a_scheduler_only_rpc"
  "passes plaintext_server_is_unaffected_by_the_identity_check"
  by code_simp+

end
