(* ===== verification/Spec2Isabelle.thy ===== *)
theory Spec2Isabelle imports Cas_Update Watch_Race Node_Loop Firewall_Examples Barectl_Safety Daemon_Tls Ledger_View Node_Examples
  Dev_Clients Store_Tests Agent_Handler_Tests Cli_Handler_Tests Scheduler_Handler_Tests Scheduler_Tests Agent_Tests
  Cni_Tests Tls_Tests begin
text \<open>
  Barenetes, a small container orchestrator in Rust: a shallow embedding of its programs.

  The program. \<open>barectl\<close> (\<open>src/barectl\<close>, \<open>src/barectl-config\<close>) sends pods to the API server
  (\<open>src/api\<close>), which keeps pods and nodes in memory or in etcd and publishes an event for every
  change. The scheduler (\<open>src/scheduler\<close>) watches pods and nodes, elects a node for every pod that
  has none and reports it with \<open>AssignPod\<close>; the API server then tells the node's agent
  (\<open>src/agent\<close>) to run the pod. The agent keeps one VLAN per pod, starts the containers
  through containerd, bounds them with a cgroup and asks the CNI daemon of its host (\<open>src/cni\<close>)
  to connect the pod: an address from the VLAN's pool, a bridge, a VXLAN overlay and firewall rules.
  Every gRPC link is authenticated by certificates that carry a role (\<open>src/proto\<close>), which
  \<open>barenetes-pki\<close> issues (\<open>src/pki\<close>).

  Theories and code.
    \<^item> \<open>Prelude\<close>: gRPC statuses, \<open>i32\<close> arithmetic, decimal printing and parsing, iteration
      orders of hash maps, the kinds of \<open>std::io::Error\<close>, list and map lemmas.
      \<open>Proto_Types\<close>: the messages and enumerations of \<open>src/proto/*.proto\<close>. \<open>Tls_Identity\<close>:
      \<open>src/proto/src/tls_identity.rs\<close> and \<open>tls.rs\<close>.
    \<^item> API server. \<open>Api_Errors\<close> (\<open>errors.rs\<close>, \<open>validation.rs\<close>); \<open>Store\<close> (\<open>store.rs\<close>, both
      backends), \<open>Store_Memory\<close> (what each method does in memory), \<open>Node_Liveness\<close> (the count of
      open streams as a state machine), \<open>Etcd_Backend\<close> and \<open>Etcd_Refinement\<close> (the store over
      etcd simulates the one in memory), \<open>Cas_Update\<close> (the optimistic update with other requests
      in between); \<open>Api_Cli\<close> (\<open>handlers/cli.rs\<close>), \<open>Api_Watch\<close> (\<open>handlers/scheduler.rs\<close>,
      \<open>handlers/agent.rs\<close>, the streams of \<open>service.rs\<close>), \<open>Api_Service\<close> (\<open>service.rs\<close>: twelve RPCs, each
      with the role check of its own method);
      \<open>Watch_View\<close> and \<open>Watch_Race\<close> (what a watcher can conclude from the events).
    \<^item> Scheduler. \<open>Float32\<close> (the float arithmetic of the score), \<open>Basic_Scheduler\<close>
      (\<open>schedulers/basic.rs\<close>), \<open>Scheduler_Safety\<close> (elections and claims), \<open>Scheduler_Loop\<close>
      (\<open>main.rs\<close>), \<open>Scheduler_Runs\<close> (interleaved retry sweeps, lost and late reports).
    \<^item> Scheduler and API server together: \<open>Cluster\<close> (the pod loop reads what the server publishes
      and answers it until it is quiet) and \<open>Cluster_Run\<close> (a pod from \<open>CreatePod\<close> to the agent's RUN).
      API server and agent together: \<open>Node_Loop\<close> (what an accepted pod means to the agent, and the
      report that answers a RUN). \<open>Ledger_View\<close>: the ledger a restarted scheduler rebuilds from the
      server's snapshots, beside the usage that \<open>GetNode\<close> computes.
    \<^item> CNI daemon. \<open>Ip_Addressing\<close> (\<open>addressing.rs\<close>), \<open>Cni_Host\<close> (files, commands,
      \<open>network/system.rs\<close>), \<open>Ip_Pool\<close> (\<open>ip_pool.rs\<close>), \<open>Cni_State\<close> (\<open>state.rs\<close>),
      \<open>Firewall\<close> (\<open>network/firewall.rs\<close>), \<open>Cni_Workload\<close> (\<open>network/bridge.rs\<close>,
      \<open>overlay.rs\<close>, \<open>vlan.rs\<close>, \<open>workload.rs\<close>), \<open>Cni_Reconcile\<close>
      (\<open>network/reconcile.rs\<close>, \<open>runtime/handler.rs\<close>), \<open>Cni_Socket\<close>
      (\<open>runtime/socket.rs\<close>); \<open>Cni_Invariant\<close>, \<open>Cni_Safety\<close>,
      \<open>Cni_Rollback\<close>, \<open>Cni_Connection\<close>, \<open>Firewall_Rules\<close> hold its properties,
      \<open>Cni_Examples\<close> and \<open>Firewall_Examples\<close> concrete hosts.
    \<^item> Agent. \<open>Agent_Host\<close> (\<open>vlan.rs\<close>, \<open>cgroup.rs\<close>), \<open>Agent_Containerd\<close> (\<open>oci.rs\<close>,
      \<open>containerd.rs\<close>), \<open>Agent_Kubelet\<close> (\<open>kubelet.rs\<close>, \<open>cni.rs\<close>), \<open>Agent_Desired\<close>
      (\<open>desired_state.rs\<close>), with \<open>Agent_Safety\<close>, \<open>Agent_Rollback\<close> and \<open>Agent_Examples\<close>.
      Agent and CNI daemon of one node: \<open>Node_Network\<close> answers the agent's socket calls
      (\<open>beside_daemon\<close>) with the daemon of \<open>Cni_Reconcile\<close> on the same host, and
      \<open>Node_Examples\<close> runs a pod on such a node.
    \<^item> Tools. \<open>Disk\<close> and \<open>Disk_Effects\<close> (paths and files), \<open>Barectl_Config\<close>
      (\<open>barectl-config\<close>, \<open>barectl/src/config.rs\<close>), \<open>Barectl_Manifest\<close> (\<open>manifest.rs\<close>,
      \<open>cli.rs\<close>), \<open>Barectl_Commands\<close> (\<open>commands.rs\<close>, \<open>main.rs\<close>), \<open>Barectl_Safety\<close>;
      \<open>Pki\<close> (\<open>pki/src/main.rs\<close>), \<open>Pki_Safety\<close>, \<open>Pki_Examples\<close>.
    \<^item> Entry points. \<open>Daemons\<close> (\<open>main.rs\<close> of the four daemons, up to the point where they
      serve) and \<open>Daemon_Tls\<close> (a handshake between a node's agent and its own Kubelet).
    \<^item> Clients for driving one daemon by hand: \<open>Dev_Clients\<close> (\<open>api/examples/api_cli.rs\<close>,
      \<open>agent/examples/kubelet_cli.rs\<close>, \<open>cni/src/bin/cni-integration-client.rs\<close>), with a session
      of the first against the modelled server.
    \<^item> The repository's own tests. \<open>Test_Support\<close> (\<open>api/src/test_support.rs\<close>; a test either
      finishes or panics) and one theory per group of files: \<open>Store_Tests\<close>,
      \<open>Agent_Handler_Tests\<close>, \<open>Cli_Handler_Tests\<close>, \<open>Scheduler_Handler_Tests\<close> (\<open>src/api\<close>),
      \<open>Scheduler_Tests\<close> (\<open>basic.rs\<close>), \<open>Agent_Tests\<close>, \<open>Cni_Tests\<close>, \<open>Tool_Tests\<close> (\<open>barectl\<close>,
      \<open>barectl-config\<close>, \<open>tls.rs\<close>, \<open>tls_identity.rs\<close>, \<open>socket.rs\<close>) and \<open>Tls_Tests\<close>
      (\<open>pki/src/main.rs\<close>, \<open>api/tests/mtls_identity.rs\<close>). Each Rust test function is a definition
      of the same name on the model, evaluated by the kernel, for every iteration order of the hash
      maps it reads: all of them pass, so the model shows what the authors expect of the code.

  State. A Rust struct is a record with its fields (\<open>store\<close> is \<open>Store\<close>, \<open>basic_scheduler\<close> is
  \<open>BasicScheduler\<close>, \<open>sched_state\<close> the scheduler's \<open>SharedState\<close>); a \<open>HashMap\<close> is a map, and
  each place that iterates over one takes the order it happens to see as an argument. A method is a
  function from the state to its \<open>Result\<close> (\<open>Inl\<close> the error) and the new state; a server stream is
  its initial items and the receiver that follows. Broadcast channels are logs of what was sent. A
  \<open>i32\<close> is an integer that every operation wraps, as the release build does. What may interleave is
  split at its await points or lock boundaries and run as sections (\<open>Cas_Update\<close>,
  \<open>Watch_Race\<close>, \<open>Scheduler_Runs\<close>, \<open>Node_Liveness\<close>). \<open>UpdatePodStatus\<close> checks the owner of the pod
  under one guard and writes under another: \<open>serve_between other\<close> is the service with \<open>other\<close> served
  between the two, and \<open>serve\<close> the service that answers its requests one by one. A watch of the
  desired state takes several guards as well and is modelled as one step; what can be lost between them
  is listed among the findings of the manifest, not proved.

  Parameters. Code that is not in the repository is an argument: the etcd client and prost's codec
  (\<open>etcd_client\<close>, \<open>msg_codec\<close>), x509 parsing, rcgen (\<open>pki_env\<close>), serde's YAML and base64
  (\<open>cfg_env\<close>), containerd and the cgroup file system (\<open>agent_env\<close>), \<open>ip\<close>, \<open>bridge\<close>,
  \<open>iptables\<close>, SHA-256 and the namespaces of the kernel (\<open>host\<close>), what tonic makes of an address or a
  certificate (\<open>net\<close>), tokio's broadcast receiver (\<open>recv\<close> and \<open>push\<close>). What the code relies on is
  stated as laws about them (\<open>etcd_kv\<close>, \<open>ctr_laws\<close>, \<open>iptables_laws\<close>, \<open>cfg_laws\<close>,
  \<open>tls_laws\<close>, \<open>receiver_laws\<close>), which the witnesses satisfy with executable instances. The laws leave room
  for failure: a check of \<open>iptables\<close> that fails says nothing about the rule, a handshake is promised only to
  chains signed by the trusted authority, a receiver may have lost what it did not take in time. What a
  file system may do is a condition of each theorem: \<open>faultless\<close> (no call fails) or \<open>durable\<close> (calls fail without an
  effect, but removing a record and syncing a directory do not fail, and no file is falsely missing).

  What the lemmas show.
    \<^item> Scheduler: an election never overcommits a node or a host port and picks the least used
      candidate; the ledger of claims is the sum of what is placed; concurrent sweeps place a pod
      once; the pods of a stopped node are re-placed or kept for a retry; with the API server, a
      created pod is placed and its agent told, or kept, and the loop of events comes to rest; a
      restarted scheduler counts on every node what the API server shows for it.
    \<^item> API server: a node is READY exactly while a stream of it is open; the etcd backend simulates
      the memory backend on every sequence of calls; a call of the wrong role changes nothing; a
      node's certificate reaches its own node only; events replayed over a snapshot give the store.
    \<^item> CNI: no two connected workloads share an address or a host port while removals of records do not
      fail; a refused connection leaves no trace but the loss of a stale record of its own; a connection
      can be taken down again and its address and ports are free; port mappings are taken back as far
      as the checks answer; tenants are isolated in the firewall; reconciliation rebuilds the pools.
    \<^item> Agent: applying a pod is all or nothing, as far as containerd lets it; two pods never share a VLAN; stopping names
      what running started; on a node whose daemon keeps its invariant (\<open>sound_daemon\<close>), every
      container of a pod that \<open>run\<close> reports as started has a record, an address and its ports.
    \<^item> Tools: private keys are never readable by others, whatever call fails; the certificates carry
      the identity the server reads, and a node's certificate is enough to serve its agent; a created pod is shown by \<open>get pod\<close> with the values sent.
    \<^item> What goes wrong. As theorems: an etcd commit overwrites a pod recreated under its name; an event
      published out of order resurrects a pod for its watchers. As lemmas on concrete runs: a report
      that lands in a pod moved to another node (\<open>report_crosses_an_assignment\<close>), a recreated pod that is
      stranded (\<open>recreated_result\<close>), an address in two records after a failed removal
      (\<open>failed_removal_shares_address\<close>), a VLAN released while a container still uses it
      (\<open>rollback_frees_a_vlan_in_use\<close>), a mapping that a busy lock leaves behind
      (\<open>busy_lock_leaves_rules\<close>), a tenant rule that stays shadowed (\<open>shadowed_drop_stays\<close>).

  Bounds and fuel. Loops over finite data are structural. The search for a free VLAN or address
  walks the finite range of candidates and the nesting of directories is the length of the path; an
  optimistic update is tried once, as in the code. No definition needs fuel.

  Not modelled: what an entry point does once it serves (tonic's accept loop, the wait for a
  signal), telemetry, the retry delays of watch tasks, the clap and serde attributes beyond the defaults and value parsers they name, and the proto build.
  They hold no logic of their own beyond calls of the libraries. Of the tests, those of clap's
  command line (\<open>cli.rs\<close>), of the PEM files rcgen generates (\<open>tls.rs\<close>), of the tokio tasks in the
  scheduler's \<open>main.rs\<close>, of telemetry and of the machine's capacity exercise those libraries and
  are not translated.
\<close>
end
